(* ===== verification/Prelude.thy ===== *)
theory Prelude
  imports Main "HOL-Library.Multiset" "HOL-Library.Char_ord" "HOL-Library.List_Lexorder"
begin

text \<open>
  What every component of the development shares: the identifiers of the server, the
  effect type in which the asynchronous JavaScript methods are written (explicit state, a
  thrown \<open>Error\<close> as a value of a sum type, no roll-back of the state when an error is
  thrown), the rules that carry facts and invariants through such a computation, and
  the list and multiset lemmas on which the storage and session proofs rest.
\<close>

named_theorems eff_simps "inversion of computations that succeeded or failed"
named_theorems keeps_intros "an invariant is kept by a computation"
named_theorems repo_defs "the definitions of the repository queries"

section \<open>Identifiers\<close>

text \<open>
  A MongoDB \<open>ObjectId\<close> and its 24-digit hexadecimal rendering name the same record: the
  code converts between them with \<open>castObjectId\<close> and compares with \<open>isEqualsNativeIds\<close>,
  which compares the renderings. The model keeps the rendering. The renderings have one length, so the
  lexicographic order on them is MongoDB's order on \<open>_id\<close>.
\<close>

type_synonym oid = string
type_synonym timestamp = nat

section \<open>Effects: explicit state and thrown errors\<close>

type_synonym ('s, 'e, 'a) eff = "'s \<Rightarrow> ('e + 'a) \<times> 's"

definition ret :: "'a \<Rightarrow> ('s, 'e, 'a) eff" where
  "ret x = (\<lambda>s. (Inr x, s))"

definition throw :: "'e \<Rightarrow> ('s, 'e, 'a) eff" where
  "throw e = (\<lambda>s. (Inl e, s))"

definition andThen :: "('s, 'e, 'a) eff \<Rightarrow> ('a \<Rightarrow> ('s, 'e, 'b) eff) \<Rightarrow> ('s, 'e, 'b) eff" where
  "andThen m f = (\<lambda>s. case m s of (Inl e, s') \<Rightarrow> (Inl e, s') | (Inr x, s') \<Rightarrow> f x s')"

definition gets :: "('s \<Rightarrow> 'a) \<Rightarrow> ('s, 'e, 'a) eff" where
  "gets f = (\<lambda>s. (Inr (f s), s))"

definition modify :: "('s \<Rightarrow> 's) \<Rightarrow> ('s, 'e, unit) eff" where
  "modify f = (\<lambda>s. (Inr (), f s))"

definition transact :: "('s \<Rightarrow> 'a \<times> 's) \<Rightarrow> ('s, 'e, 'a) eff" where
  "transact f = (\<lambda>s. case f s of (x, s') \<Rightarrow> (Inr x, s'))"

definition liftE :: "('e + 'a) \<Rightarrow> ('s, 'e, 'a) eff" where
  "liftE r = (\<lambda>s. (r, s))"

primrec forEach :: "'a list \<Rightarrow> ('a \<Rightarrow> ('s, 'e, 'b) eff) \<Rightarrow> ('s, 'e, 'b list) eff" where
  "forEach [] f = ret []"
| "forEach (x # xs) f = andThen (f x) (\<lambda>y. andThen (forEach xs f) (\<lambda>ys. ret (y # ys)))"

text \<open>
  \<open>Promise.all\<close>: every computation runs; the result is that of all, or the first error. They are run one after the other.
\<close>

primrec promiseAll :: "'a list \<Rightarrow> ('a \<Rightarrow> ('s, 'e, 'b) eff) \<Rightarrow> ('s, 'e, 'b list) eff" where
  "promiseAll [] f = ret []"
| "promiseAll (x # xs) f = (\<lambda>s. case f x s of (r, s1) \<Rightarrow> (case promiseAll xs f s1 of (rs, s2) \<Rightarrow>
     (case r of Inl e \<Rightarrow> Inl e | Inr y \<Rightarrow> (case rs of Inl e \<Rightarrow> Inl e | Inr ys \<Rightarrow> Inr (y # ys)), s2)))"

lemma ret_iff [eff_simps]: "ret x s = (r, s') \<longleftrightarrow> r = Inr x \<and> s' = s"
  by (auto simp: ret_def)

lemma throw_iff [eff_simps]: "throw e s = (r, s') \<longleftrightarrow> r = Inl e \<and> s' = s"
  by (auto simp: throw_def)

lemma gets_iff [eff_simps]: "gets f s = (r, s') \<longleftrightarrow> r = Inr (f s) \<and> s' = s"
  by (auto simp: gets_def)

lemma modify_iff [eff_simps]: "modify f s = (r, s') \<longleftrightarrow> r = Inr () \<and> s' = f s"
  by (auto simp: modify_def)

lemma transact_iff [eff_simps]: "transact f s = (r, s') \<longleftrightarrow> r = Inr (fst (f s)) \<and> s' = snd (f s)"
  by (auto simp: transact_def split: prod.splits)

lemma liftE_iff [eff_simps]: "liftE r s = (r', s') \<longleftrightarrow> r' = r \<and> s' = s"
  by (auto simp: liftE_def)

lemma andThen_Inr [eff_simps]:
  "andThen m f s = (Inr y, t) \<longleftrightarrow> (\<exists>x s'. m s = (Inr x, s') \<and> f x s' = (Inr y, t))"
  by (auto simp: andThen_def split: prod.splits sum.splits)

lemma andThen_Inl [eff_simps]:
  "andThen m f s = (Inl e, t) \<longleftrightarrow>
     m s = (Inl e, t) \<or> (\<exists>x s'. m s = (Inr x, s') \<and> f x s' = (Inl e, t))"
  by (auto simp: andThen_def split: prod.splits sum.splits)

lemma if_eff [eff_simps]: "(if b then m else n) s = (if b then m s else n s)"
  by simp

lemma andThen_run:
  "m s = (Inr x, s') \<Longrightarrow> andThen m f s = f x s'"
  "m s = (Inl e, s') \<Longrightarrow> andThen m f s = (Inl e, s')"
  by (simp_all add: andThen_def)

text \<open>Running the primitive computations.\<close>

lemma run_simps [simp]:
  "ret x s = (Inr x, s)" "throw e s = (Inl e, s)" "gets g s = (Inr (g s), s)"
  "modify h s = (Inr (), h s)" "liftE r s = (r, s)"
  "andThen (ret x) f = f x" "andThen (throw e) f' s = (Inl e, s)"
  "andThen (gets g) f s = f (g s) s" "andThen (modify h) f'' s = f'' () (h s)"
  "andThen (liftE (Inr x)) f = f x" "andThen (liftE (Inl e)) f' s = (Inl e, s)"
  by (simp_all add: ret_def throw_def gets_def modify_def liftE_def andThen_def fun_eq_iff)

lemma andThen_assoc: "andThen (andThen m f) g = andThen m (\<lambda>x. andThen (f x) g)"
  by (rule ext) (simp add: andThen_def split: prod.split sum.split)

lemma andThen_transact [simp]: "andThen (transact k) f s = f (fst (k s)) (snd (k s))"
  by (simp add: transact_def andThen_def split: prod.splits)

lemma transact_run [simp]: "transact k s = (Inr (fst (k s)), snd (k s))"
  by (simp add: transact_def split: prod.splits)

subsection \<open>Invariants of computations\<close>

text \<open>
  \<open>keeps I m\<close>: whether \<open>m\<close> returns or throws, it leaves a state that satisfies \<open>I\<close>.
  \<open>readonly m\<close>: it leaves the state as it found it.
\<close>

definition keeps :: "('s \<Rightarrow> bool) \<Rightarrow> ('s, 'e, 'a) eff \<Rightarrow> bool" where
  "keeps I m \<longleftrightarrow> (\<forall>s. I s \<longrightarrow> I (snd (m s)))"

definition readonly :: "('s, 'e, 'a) eff \<Rightarrow> bool" where
  "readonly m \<longleftrightarrow> (\<forall>s. snd (m s) = s)"

lemma keepsI: "(\<And>s r s'. I s \<Longrightarrow> m s = (r, s') \<Longrightarrow> I s') \<Longrightarrow> keeps I m"
  unfolding keeps_def by (metis prod.collapse)

lemma keepsD: "keeps I m \<Longrightarrow> I s \<Longrightarrow> m s = (r, s') \<Longrightarrow> I s'"
  unfolding keeps_def by (metis snd_conv)

lemma readonlyD: "readonly m \<Longrightarrow> m s = (r, s') \<Longrightarrow> s' = s"
  unfolding readonly_def by (metis snd_conv)

lemma keeps_ret [keeps_intros]: "keeps I (ret x)"
  by (simp add: keeps_def)

lemma keeps_throw [keeps_intros]: "keeps I (throw e)"
  by (simp add: keeps_def)

lemma keeps_gets [keeps_intros]: "keeps I (gets f)"
  by (simp add: keeps_def)

lemma keeps_liftE [keeps_intros]: "keeps I (liftE r)"
  by (simp add: keeps_def)

lemma keeps_modify [keeps_intros]: "(\<And>s. I s \<Longrightarrow> I (f s)) \<Longrightarrow> keeps I (modify f)"
  by (simp add: keeps_def)

lemma keeps_transact [keeps_intros]: "(\<And>s. I s \<Longrightarrow> I (snd (f s))) \<Longrightarrow> keeps I (transact f)"
  by (simp add: keeps_def)

lemma keeps_andThen [keeps_intros]:
  "keeps I m \<Longrightarrow> (\<And>x. keeps I (f x)) \<Longrightarrow> keeps I (andThen m f)"
  unfolding keeps_def andThen_def by (auto split: prod.split sum.split)

lemma keeps_if [keeps_intros]:
  "(b \<Longrightarrow> keeps I m) \<Longrightarrow> (\<not> b \<Longrightarrow> keeps I n) \<Longrightarrow> keeps I (if b then m else n)"
  by simp

lemma keeps_option [keeps_intros]:
  "(z = None \<Longrightarrow> keeps I m) \<Longrightarrow> (\<And>x. z = Some x \<Longrightarrow> keeps I (f x)) \<Longrightarrow>
   keeps I (case z of None \<Rightarrow> m | Some x \<Rightarrow> f x)"
  by (cases z) simp_all

lemma keeps_prod [keeps_intros]: "(\<And>a b. z = (a, b) \<Longrightarrow> keeps I (f a b)) \<Longrightarrow> keeps I (case z of (a, b) \<Rightarrow> f a b)"
  by (cases z) simp

lemma keeps_let [keeps_intros]: "keeps I (f x) \<Longrightarrow> keeps I (Let x f)"
  by simp

lemma keeps_forEach [keeps_intros]: "(\<And>x. x \<in> set xs \<Longrightarrow> keeps I (f x)) \<Longrightarrow> keeps I (forEach xs f)"
  by (induction xs) (auto intro!: keeps_intros)

lemma keeps_promiseAll [keeps_intros]: "(\<And>x. x \<in> set xs \<Longrightarrow> keeps I (f x)) \<Longrightarrow> keeps I (promiseAll xs f)"
proof (induction xs)
  case (Cons x xs)
  from Cons.prems have "keeps I (f x)" "keeps I (promiseAll xs f)" using Cons.IH by auto
  then show ?case by (auto simp: keeps_def split_beta)
qed (simp add: keeps_ret)

lemma readonly_keeps: "readonly m \<Longrightarrow> keeps I m"
  by (simp add: readonly_def keeps_def)

lemma readonly_basic:
  "readonly (ret x)" "readonly (throw e)" "readonly (gets g)" "readonly (liftE r)"
  by (simp_all add: readonly_def)

lemma readonly_andThen:
  "readonly m \<Longrightarrow> (\<And>x. readonly (f x)) \<Longrightarrow> readonly (andThen m f)"
  by (auto simp: readonly_def andThen_def split: prod.splits sum.splits) (metis snd_conv)+

text \<open>
  A computation that starts in a state with \<open>P\<close> either returns \<open>x\<close> in a state with \<open>Q x\<close> or
  throws in a state with \<open>R\<close>.
\<close>

definition triple :: "('s \<Rightarrow> bool) \<Rightarrow> ('s, 'e, 'a) eff \<Rightarrow> ('a \<Rightarrow> 's \<Rightarrow> bool) \<Rightarrow> ('s \<Rightarrow> bool) \<Rightarrow> bool" where
  "triple P m Q R \<longleftrightarrow> (\<forall>s. P s \<longrightarrow> (case m s of (Inl e, s') \<Rightarrow> R s' | (Inr x, s') \<Rightarrow> Q x s'))"

lemma tripleI: "(\<And>s e s'. P s \<Longrightarrow> m s = (Inl e, s') \<Longrightarrow> R s') \<Longrightarrow> (\<And>s x s'. P s \<Longrightarrow> m s = (Inr x, s') \<Longrightarrow> Q x s') \<Longrightarrow> triple P m Q R"
  by (auto simp: triple_def split: prod.split sum.split)

lemma triple_andThen:
  "triple P m Q' R \<Longrightarrow> (\<And>x. triple (Q' x) (f x) Q R) \<Longrightarrow> triple P (andThen m f) Q R"
  unfolding triple_def andThen_def by (fastforce split: prod.splits sum.splits)

lemma triple_pre: "triple P' m Q R \<Longrightarrow> (\<And>s. P s \<Longrightarrow> P' s) \<Longrightarrow> triple P m Q R"
  by (simp add: triple_def)

lemma keeps_triple: "keeps I m \<longleftrightarrow> triple I m (\<lambda>_. I) I"
  unfolding keeps_def triple_def by (rule all_cong1) (simp split: prod.split sum.split)

text \<open>The invariant of the rest of a computation may need a fact about the value it starts with.\<close>

lemma keeps_andThen_fact:
  assumes "triple I m (\<lambda>x s. I s \<and> F x s) I" "\<And>x. triple (\<lambda>s. I s \<and> F x s) (f x) (\<lambda>_. I) I"
  shows "keeps I (andThen m f)"
  unfolding keeps_triple using assms by (rule triple_andThen)

section \<open>Lists and multisets\<close>

text \<open>The first element that satisfies a predicate, changed in place.\<close>

primrec update_first :: "('a \<Rightarrow> bool) \<Rightarrow> ('a \<Rightarrow> 'a) \<Rightarrow> 'a list \<Rightarrow> 'a list" where
  "update_first P f [] = []"
| "update_first P f (x # xs) = (if P x then f x # xs else x # update_first P f xs)"

primrec remove_first :: "('a \<Rightarrow> bool) \<Rightarrow> 'a list \<Rightarrow> 'a list" where
  "remove_first P [] = []"
| "remove_first P (x # xs) = (if P x then xs else x # remove_first P xs)"

lemma length_update_first [simp]: "length (update_first P f xs) = length xs"
  by (induction xs) auto

lemma set_update_first: "y \<in> set (update_first P f xs) \<Longrightarrow> y \<in> set xs \<or> (\<exists>x \<in> set xs. P x \<and> y = f x)"
  by (induction xs) (auto split: if_splits)

lemma map_update_first:
  "(\<And>x. P x \<Longrightarrow> g (f x) = g x) \<Longrightarrow> map g (update_first P f xs) = map g xs"
  by (induction xs) auto

lemma update_first_none: "\<forall>x \<in> set xs. \<not> P x \<Longrightarrow> update_first P f xs = xs"
  by (induction xs) auto

lemma set_remove_first: "set (remove_first P xs) \<subseteq> set xs"
  by (induction xs) auto

lemma remove_first_unique:
  "distinct (map g xs) \<Longrightarrow> remove_first (\<lambda>x. g x = k) xs = filter (\<lambda>x. g x \<noteq> k) xs"
  by (induction xs) (auto simp: image_iff intro!: filter_True[symmetric])

lemma update_first_unique:
  "distinct (map g xs) \<Longrightarrow>
   update_first (\<lambda>x. g x = k) f xs = map (\<lambda>x. if g x = k then f x else x) xs"
  by (induction xs) (auto simp: image_iff intro!: map_idI[symmetric])

lemma find_Some_iff_set: "List.find P xs = Some x \<Longrightarrow> x \<in> set xs \<and> P x"
  by (induction xs) (auto split: if_splits)

lemma find_None_set: "List.find P xs = None \<longleftrightarrow> (\<forall>x \<in> set xs. \<not> P x)"
  by (induction xs) auto

lemma find_key_None: "List.find (\<lambda>x. f x = k) xs = None \<longleftrightarrow> k \<notin> f ` set xs"
  by (induction xs) auto

lemma find_exists: "x \<in> set xs \<Longrightarrow> P x \<Longrightarrow> \<exists>y. List.find P xs = Some y"
  by (induction xs) auto

lemma find_update_first:
  "(\<And>x. P x \<Longrightarrow> P (f x)) \<Longrightarrow> List.find P (update_first P f xs) = map_option f (List.find P xs)"
  by (induction xs) auto

lemma find_unique:
  "distinct (map g xs) \<Longrightarrow> x \<in> set xs \<Longrightarrow> List.find (\<lambda>y. g y = g x) xs = Some x"
  by (induction xs) (auto simp: image_iff)

lemma mset_set_eq: "mset xs = mset ys \<Longrightarrow> set xs = set ys"
  by (metis set_mset_mset)

lemma mset_filter_length: "mset xs = mset ys \<Longrightarrow> length (filter P xs) = length (filter P ys)"
  by (metis mset_filter size_mset)

lemma mset_distinct_map: "mset xs = mset ys \<Longrightarrow> distinct (map g xs) = distinct (map g ys)"
  by (metis mset_eq_imp_distinct_iff mset_map)

text \<open>\<open>[...new Set(xs)]\<close>: the elements in the order of their first occurrence.\<close>

definition js_set :: "'a list \<Rightarrow> 'a list" where
  "js_set xs = rev (remdups (rev xs))"

lemma js_set [simp]: "set (js_set xs) = set xs" "distinct (js_set xs)"
  by (simp_all add: js_set_def)

text \<open>Grouping of a list by a key, groups in the order of first occurrence.\<close>

definition groupBy :: "('a \<Rightarrow> 'k) \<Rightarrow> ('a \<Rightarrow> 'v) \<Rightarrow> 'a list \<Rightarrow> ('k \<times> 'v list) list" where
  "groupBy key val xs = map (\<lambda>k. (k, map val (filter (\<lambda>a. key a = k) xs))) (js_set (map key xs))"

lemma map_of_keyed: "map_of (map (\<lambda>k. (k, f k)) ks) k = (if k \<in> set ks then Some (f k) else None)"
  by (induction ks) auto

lemma map_of_groupBy:
  "map_of (groupBy key val xs) k = (if k \<in> key ` set xs then Some (map val (filter (\<lambda>a. key a = k) xs)) else None)"
  by (simp add: groupBy_def map_of_keyed)

text \<open>\<open>limit\<close> of a MongoDB cursor: 0 means no limit.\<close>

definition limit :: "nat \<Rightarrow> 'a list \<Rightarrow> 'a list" where
  "limit n xs = (if n = 0 then xs else take n xs)"

lemma set_limit: "set (limit n xs) \<subseteq> set xs"
  by (auto simp: limit_def dest: in_set_takeD)

lemma length_limit: "0 < n \<Longrightarrow> length (limit n xs) \<le> n"
  by (simp add: limit_def)

lemma limit_all: "length xs \<le> n \<Longrightarrow> limit n xs = xs"
  by (simp add: limit_def)

section \<open>Strings: \<open>split\<close> and \<open>join\<close> of JavaScript on one separator character\<close>

fun split_on :: "char \<Rightarrow> string \<Rightarrow> string list" where
  "split_on c [] = [[]]"
| "split_on c (x # xs) =
     (if x = c then [] # split_on c xs
      else case split_on c xs of [] \<Rightarrow> [[x]] | p # ps \<Rightarrow> (x # p) # ps)"

fun join_with :: "char \<Rightarrow> string list \<Rightarrow> string" where
  "join_with c [] = []"
| "join_with c [p] = p"
| "join_with c (p # q # ps) = p @ c # join_with c (q # ps)"

lemma split_on_nonempty: "split_on c xs \<noteq> []"
  by (induction xs) (auto split: list.splits)

lemma split_on_free: "c \<notin> set p \<Longrightarrow> split_on c p = [p]"
  by (induction p) auto

lemma split_on_append: "c \<notin> set p \<Longrightarrow> split_on c (p @ c # rest) = p # split_on c rest"
  by (induction p) auto

lemma split_join: "ps \<noteq> [] \<Longrightarrow> \<forall>p \<in> set ps. c \<notin> set p \<Longrightarrow> split_on c (join_with c ps) = ps"
  by (induction c ps rule: join_with.induct) (auto simp: split_on_free split_on_append)

text \<open>A number in decimal notation.\<close>

fun decimal :: "nat \<Rightarrow> string" where
  "decimal n = (if n < 10 then [char_of (48 + n)] else decimal (n div 10) @ [char_of (48 + n mod 10)])"

declare decimal.simps [simp del]

end
