(* ===== verification/Mongo.thy ===== *)
theory Mongo
  imports Prelude
begin

text \<open>
  The boundary to MongoDB. The driver is not part of the repository, so its calls are a
  parameter: a value of \<open>collection\<close> holds the calls of the driver on one
  collection, over the documents the collection stores (in the order in which a scan
  returns them). What the code relies on is \<open>coll_ok\<close>, the documented behaviour of
  these calls; it leaves open the identifier the driver generates, the place of a new
  document in the scan order and the order of documents whose sort keys agree. A query is
  the predicate it denotes, an update the function it denotes. On top of it,
  \<open>BaseRepository\<close> of \<^verbatim>\<open>app/providers/repositories/base.js\<close>.

  \<open>mem_collection\<close> is a driver that keeps the documents in a list. It shows that the
  hypotheses can hold and lets concrete runs be evaluated.
\<close>

section \<open>The driver's calls and their documented behaviour\<close>

type_synonym 'd order = "('d \<Rightarrow> 'd \<Rightarrow> bool) option"

record 'd collection =
  coll_find :: "('d \<Rightarrow> bool) \<Rightarrow> 'd order \<Rightarrow> nat \<Rightarrow> 'd list \<Rightarrow> 'd list"
  coll_findOne :: "('d \<Rightarrow> bool) \<Rightarrow> 'd list \<Rightarrow> 'd option"
  coll_count :: "('d \<Rightarrow> bool) \<Rightarrow> 'd list \<Rightarrow> nat"
  coll_insertOne :: "(oid \<Rightarrow> 'd) \<Rightarrow> 'd list \<Rightarrow> (oid \<times> 'd list) option"
  coll_insertMany :: "(oid \<Rightarrow> 'd) list \<Rightarrow> 'd list \<Rightarrow> oid list option \<times> 'd list"
  coll_updateOne :: "('d \<Rightarrow> bool) \<Rightarrow> ('d \<Rightarrow> 'd) \<Rightarrow> 'd list \<Rightarrow> 'd list"
  coll_upsertOne :: "('d \<Rightarrow> bool) \<Rightarrow> ('d \<Rightarrow> 'd) \<Rightarrow> (oid \<Rightarrow> 'd) \<Rightarrow> 'd list \<Rightarrow> oid option \<times> 'd list"
  coll_findOneAndUpdate :: "('d \<Rightarrow> bool) \<Rightarrow> ('d \<Rightarrow> 'd) \<Rightarrow> 'd list \<Rightarrow> 'd option \<times> 'd list"
  coll_updateMany :: "('d \<Rightarrow> bool) \<Rightarrow> ('d \<Rightarrow> 'd) \<Rightarrow> 'd list \<Rightarrow> 'd list"
  coll_deleteOne :: "('d \<Rightarrow> bool) \<Rightarrow> 'd list \<Rightarrow> 'd list"
  coll_deleteMany :: "('d \<Rightarrow> bool) \<Rightarrow> 'd list \<Rightarrow> nat \<times> 'd list"

definition sorts_by :: "'d order \<Rightarrow> ('d \<Rightarrow> bool) \<Rightarrow> 'd list \<Rightarrow> 'd list \<Rightarrow> bool" where
  "sorts_by srt P xs ys \<longleftrightarrow> mset ys = mset (filter P xs) \<and>
     (case srt of None \<Rightarrow> ys = filter P xs
      | Some r \<Rightarrow> (transp r \<and> (\<forall>a b. r a b \<or> r b a) \<longrightarrow> sorted_wrt r ys))"

definition inserts :: "('d \<Rightarrow> oid) \<Rightarrow> (oid \<Rightarrow> 'd) \<Rightarrow> 'd list \<Rightarrow> oid \<Rightarrow> 'd list \<Rightarrow> bool" where
  "inserts idf mk xs i ys \<longleftrightarrow> i \<notin> idf ` set xs \<and> mset ys = add_mset (mk i) (mset xs)"

text \<open>
  \<open>clash d e\<close>: a unique index of the collection refuses \<open>d\<close> beside \<open>e\<close>. A refused insert
  is the driver's duplicate-key error (\<open>None\<close>); an ordered \<open>insertMany\<close> has then stored
  some of the documents. An update that would make the document clash with another one is refused too;
  \<open>findOneAndUpdate\<close> of the repository turns that error into \<open>null\<close>.
\<close>

definition insertOne_ok :: "('d \<Rightarrow> oid) \<Rightarrow> ('d \<Rightarrow> 'd \<Rightarrow> bool) \<Rightarrow> 'd collection \<Rightarrow> bool" where
  "insertOne_ok idf clash C \<longleftrightarrow> (\<forall>mk xs. case coll_insertOne C mk xs of
      None \<Rightarrow> \<exists>i. \<exists>x \<in> set xs. clash (mk i) x
    | Some (i, ys) \<Rightarrow> (\<forall>x \<in> set xs. \<not> clash (mk i) x) \<and> inserts idf mk xs i ys)"

definition insertMany_ok :: "('d \<Rightarrow> oid) \<Rightarrow> ('d \<Rightarrow> 'd \<Rightarrow> bool) \<Rightarrow> 'd collection \<Rightarrow> bool" where
  "insertMany_ok idf clash C \<longleftrightarrow> (\<forall>mks xs. case coll_insertMany C mks xs of
      (None, ys) \<Rightarrow> (\<exists>k is. mset ys = mset xs + mset (map2 (\<lambda>mk i. mk i) (take k mks) is)) \<and>
          (\<exists>mk \<in> set mks. \<exists>i. (\<exists>x \<in> set xs. clash (mk i) x) \<or>
             (\<exists>mk' \<in> set mks. \<exists>j. clash (mk i) (mk' j)))
    | (Some is, ys) \<Rightarrow> length is = length mks \<and>
          mset ys = mset xs + mset (map2 (\<lambda>mk i. mk i) mks is) \<and>
          ((\<forall>mk \<in> set mks. \<forall>i. idf (mk i) = i) \<longrightarrow> distinct (map idf xs) \<longrightarrow> distinct (map idf ys)) \<and>
          (\<forall>d \<in> set (map2 (\<lambda>mk i. mk i) mks is). \<forall>x \<in> set xs. \<not> clash d x))"

definition upsertOne_ok :: "('d \<Rightarrow> oid) \<Rightarrow> 'd collection \<Rightarrow> bool" where
  "upsertOne_ok idf C \<longleftrightarrow> (\<forall>P f mk xs. if \<exists>x \<in> set xs. P x
     then coll_upsertOne C P f mk xs = (None, update_first P f xs)
     else \<exists>i ys. coll_upsertOne C P f mk xs = (Some i, ys) \<and> inserts idf mk xs i ys)"

definition coll_ok :: "('d \<Rightarrow> oid) \<Rightarrow> ('d \<Rightarrow> 'd \<Rightarrow> bool) \<Rightarrow> 'd collection \<Rightarrow> bool" where
  "coll_ok idf clash C \<longleftrightarrow>
     (\<forall>P srt n xs. \<exists>ys. sorts_by srt P xs ys \<and> coll_find C P srt n xs = limit n ys) \<and>
     (\<forall>P xs. coll_findOne C P xs = List.find P xs) \<and>
     (\<forall>P xs. coll_count C P xs = length (filter P xs)) \<and>
     insertOne_ok idf clash C \<and> insertMany_ok idf clash C \<and>
     (\<forall>P f xs. (\<forall>x y. clash (f x) y = clash x y) \<longrightarrow> coll_updateOne C P f xs = update_first P f xs) \<and>
     ((\<forall>x y. \<not> clash x y) \<longrightarrow> upsertOne_ok idf C) \<and>
     (\<forall>P f xs. coll_findOneAndUpdate C P f xs = (case List.find P xs of
          None \<Rightarrow> (None, xs)
        | Some x \<Rightarrow> if list_ex (\<lambda>y. clash (f x) y \<and> \<not> clash x y) (remove_first P xs) then (None, xs)
            else (Some (f x), update_first P f xs))) \<and>
     (\<forall>P f xs. (\<forall>x y. clash (f x) y = clash x y) \<longrightarrow>
        coll_updateMany C P f xs = map (\<lambda>x. if P x then f x else x) xs) \<and>
     (\<forall>P xs. coll_deleteOne C P xs = remove_first P xs) \<and>
     (\<forall>P xs. coll_deleteMany C P xs = (length (filter P xs), filter (\<lambda>x. \<not> P x) xs))"

text \<open>A collection without unique indexes.\<close>

abbreviation no_clash :: "'d \<Rightarrow> 'd \<Rightarrow> bool" where
  "no_clash \<equiv> \<lambda>_ _. False"

lemma coll_okD:
  assumes "coll_ok idf clash C"
  shows "coll_findOne C P xs = List.find P xs" "coll_count C P xs = length (filter P xs)"
    "(\<And>x y. clash (f x) y = clash x y) \<Longrightarrow> coll_updateOne C P f xs = update_first P f xs"
    "(\<And>x y. clash (f x) y = clash x y) \<Longrightarrow>
       coll_updateMany C P f xs = map (\<lambda>x. if P x then f x else x) xs"
    "coll_deleteOne C P xs = remove_first P xs"
    "coll_deleteMany C P xs = (length (filter P xs), filter (\<lambda>x. \<not> P x) xs)"
  using assms unfolding coll_ok_def by simp_all

lemma coll_ok_find:
  assumes "coll_ok idf clash C"
  obtains ys where "sorts_by srt P xs ys" "coll_find C P srt n xs = limit n ys"
  using assms[unfolded coll_ok_def, THEN conjunct1, rule_format, of srt P xs n] by blast

lemma coll_ok_insertOne:
  assumes "coll_ok idf clash C" "coll_insertOne C mk xs = Some (i, ys)"
  shows "inserts idf mk xs i ys" "\<forall>x \<in> set xs. \<not> clash (mk i) x"
proof -
  have "insertOne_ok idf clash C" using assms(1) by (simp add: coll_ok_def)
  from this[unfolded insertOne_ok_def, THEN spec[of _ mk], THEN spec[of _ xs]] assms(2)
  show "inserts idf mk xs i ys" "\<forall>x \<in> set xs. \<not> clash (mk i) x" by simp_all
qed

lemma coll_ok_insertOne_None:
  assumes "coll_ok idf clash C" "coll_insertOne C mk xs = None"
  shows "\<exists>i. \<exists>x \<in> set xs. clash (mk i) x"
proof -
  have "insertOne_ok idf clash C" using assms(1) by (simp add: coll_ok_def)
  from this[unfolded insertOne_ok_def, THEN spec[of _ mk], THEN spec[of _ xs]] assms(2)
  show ?thesis by simp
qed

lemma coll_ok_upsertOne_present:
  "coll_ok idf no_clash C \<Longrightarrow> \<exists>x \<in> set xs. P x \<Longrightarrow> coll_upsertOne C P f mk xs = (None, update_first P f xs)"
  by (simp add: coll_ok_def upsertOne_ok_def)

lemma coll_ok_upsertOne_absent:
  assumes "coll_ok idf no_clash C" "\<not> (\<exists>x \<in> set xs. P x)"
  obtains i ys where "coll_upsertOne C P f mk xs = (Some i, ys)" "inserts idf mk xs i ys"
proof -
  have "upsertOne_ok idf C" using assms(1) by (simp add: coll_ok_def)
  with assms(2) show ?thesis using that unfolding upsertOne_ok_def by metis
qed

lemma coll_ok_findOneAndUpdate_cases:
  assumes "coll_ok idf clash C"
  shows "coll_findOneAndUpdate C P f xs = (case List.find P xs of
       None \<Rightarrow> (None, xs)
     | Some x \<Rightarrow> if list_ex (\<lambda>y. clash (f x) y \<and> \<not> clash x y) (remove_first P xs) then (None, xs)
         else (Some (f x), update_first P f xs))"
  using assms unfolding coll_ok_def by simp

lemma coll_ok_findOneAndUpdate:
  assumes "coll_ok idf clash C"
  shows "coll_findOneAndUpdate C P f xs = (None, xs) \<or>
     (\<exists>x. List.find P xs = Some x \<and> coll_findOneAndUpdate C P f xs = (Some (f x), update_first P f xs))"
  by (simp add: coll_ok_findOneAndUpdate_cases[OF assms] split: option.split)

lemma coll_ok_insertMany:
  assumes "coll_ok idf clash C" "coll_insertMany C mks xs = (Some is, ys)"
  shows "length is = length mks" "mset ys = mset xs + mset (map2 (\<lambda>mk i. mk i) mks is)"
    "(\<And>mk i. mk \<in> set mks \<Longrightarrow> idf (mk i) = i) \<Longrightarrow> distinct (map idf xs) \<Longrightarrow> distinct (map idf ys)"
proof -
  have "insertMany_ok idf clash C" using assms(1) by (simp add: coll_ok_def)
  from this[unfolded insertMany_ok_def, THEN spec[of _ mks], THEN spec[of _ xs]] assms(2)
  show "length is = length mks" "mset ys = mset xs + mset (map2 (\<lambda>mk i. mk i) mks is)"
    "(\<And>mk i. mk \<in> set mks \<Longrightarrow> idf (mk i) = i) \<Longrightarrow> distinct (map idf xs) \<Longrightarrow> distinct (map idf ys)"
    by simp_all
qed

section \<open>\<open>BaseRepository\<close>\<close>

text \<open>
  The casts of identifiers in the queries are the identity on renderings. \<open>findAll\<close> without a
  limit returns at most 100 records.
\<close>

definition findAll :: "'d collection \<Rightarrow> ('d \<Rightarrow> bool) \<Rightarrow> nat option \<Rightarrow> 'd order \<Rightarrow> 'd list \<Rightarrow> 'd list" where
  "findAll C query lim sortParams xs =
     coll_find C query sortParams (case lim of None \<Rightarrow> 100 | Some n \<Rightarrow> n) xs"

definition findOne :: "'d collection \<Rightarrow> ('d \<Rightarrow> bool) \<Rightarrow> 'd list \<Rightarrow> 'd option" where
  "findOne C query xs = coll_findOne C query xs"

definition findById :: "('d \<Rightarrow> oid) \<Rightarrow> 'd collection \<Rightarrow> oid \<Rightarrow> 'd list \<Rightarrow> 'd option" where
  "findById idf C i xs = findOne C (\<lambda>d. idf d = i) xs"

definition findAllByIds :: "('d \<Rightarrow> oid) \<Rightarrow> 'd collection \<Rightarrow> oid list \<Rightarrow> nat option \<Rightarrow> 'd list \<Rightarrow> 'd list" where
  "findAllByIds idf C ids lim xs =
     findAll C (\<lambda>d. idf d \<in> set ids) (Some (case lim of None \<Rightarrow> 100 | Some n \<Rightarrow> n)) None xs"

definition count :: "'d collection \<Rightarrow> ('d \<Rightarrow> bool) \<Rightarrow> 'd list \<Rightarrow> nat" where
  "count C query xs = coll_count C query xs"

definition updateOne :: "'d collection \<Rightarrow> ('d \<Rightarrow> bool) \<Rightarrow> ('d \<Rightarrow> 'd) \<Rightarrow> 'd list \<Rightarrow> 'd list" where
  "updateOne C query upd xs = coll_updateOne C query upd xs"

definition updateOneUpsert ::
  "'d collection \<Rightarrow> ('d \<Rightarrow> bool) \<Rightarrow> (oid \<Rightarrow> 'd) \<Rightarrow> 'd list \<Rightarrow> oid option \<times> 'd list" where
  "updateOneUpsert C query setOnInsert xs = coll_upsertOne C query (\<lambda>d. d) setOnInsert xs"

definition findOneAndUpdate ::
  "'d collection \<Rightarrow> ('d \<Rightarrow> bool) \<Rightarrow> ('d \<Rightarrow> 'd) \<Rightarrow> 'd list \<Rightarrow> 'd option \<times> 'd list" where
  "findOneAndUpdate C query upd xs = coll_findOneAndUpdate C query upd xs"

definition updateMany :: "'d collection \<Rightarrow> ('d \<Rightarrow> bool) \<Rightarrow> ('d \<Rightarrow> 'd) \<Rightarrow> 'd list \<Rightarrow> 'd list" where
  "updateMany C query upd xs = coll_updateMany C query upd xs"

definition getAllIdsBy :: "('d \<Rightarrow> oid) \<Rightarrow> 'd collection \<Rightarrow> ('d \<Rightarrow> bool) \<Rightarrow> 'd list \<Rightarrow> oid list" where
  "getAllIdsBy idf C query xs = map idf (coll_find C query None 0 xs)"

definition deleteById :: "('d \<Rightarrow> oid) \<Rightarrow> 'd collection \<Rightarrow> oid \<Rightarrow> 'd list \<Rightarrow> 'd list" where
  "deleteById idf C i xs = coll_deleteOne C (\<lambda>d. idf d = i) xs"

definition deleteMany :: "'d collection \<Rightarrow> ('d \<Rightarrow> bool) \<Rightarrow> 'd list \<Rightarrow> nat \<times> 'd list" where
  "deleteMany C query xs = coll_deleteMany C query xs"

text \<open>
  \<open>prepareParams\<close> stamps a new record with one date for both fields; here \<open>mk now\<close> is the
  stamped record without its identifier. \<open>create\<close> returns the stored record.
\<close>

definition create :: "'d collection \<Rightarrow> (timestamp \<Rightarrow> oid \<Rightarrow> 'd) \<Rightarrow> timestamp \<Rightarrow> 'd list \<Rightarrow> ('d \<times> 'd list) option" where
  "create C mk now xs = map_option (\<lambda>(i, ys). (mk now i, ys)) (coll_insertOne C (mk now) xs)"

definition createMany ::
  "'d collection \<Rightarrow> (timestamp \<Rightarrow> oid \<Rightarrow> 'd) list \<Rightarrow> timestamp \<Rightarrow> 'd list \<Rightarrow> 'd list option \<times> 'd list" where
  "createMany C mks now xs =
     (let ms = map (\<lambda>mk. mk now) mks; (is, ys) = coll_insertMany C ms xs
      in (map_option (map2 (\<lambda>mk i. mk i) ms) is, ys))"

primrec bulkUpsert ::
  "'d collection \<Rightarrow> (('d \<Rightarrow> bool) \<times> ('d \<Rightarrow> 'd) \<times> (oid \<Rightarrow> 'd)) list \<Rightarrow> 'd list \<Rightarrow> 'd list" where
  "bulkUpsert C [] xs = xs"
| "bulkUpsert C (oper # opers) xs =
     (case oper of (filt, upd, ins) \<Rightarrow> bulkUpsert C opers (snd (coll_upsertOne C filt upd ins xs)))"

subsection \<open>What the repository calls do over a driver that meets its documentation\<close>

lemmas base_defs = findAll_def findOne_def findById_def findAllByIds_def count_def updateOne_def
  updateOneUpsert_def findOneAndUpdate_def updateMany_def getAllIdsBy_def deleteById_def deleteMany_def

lemma findOne_eq [simp]: "coll_ok idf clash C \<Longrightarrow> findOne C P xs = List.find P xs"
  by (simp add: findOne_def coll_okD)

lemma findById_eq [simp]: "coll_ok idf clash C \<Longrightarrow> findById idf C i xs = List.find (\<lambda>d. idf d = i) xs"
  by (simp add: findById_def)

lemma count_eq [simp]: "coll_ok idf clash C \<Longrightarrow> count C P xs = length (filter P xs)"
  by (simp add: count_def coll_okD)

lemma updateOne_eq [simp]:
  "coll_ok idf clash C \<Longrightarrow> (\<And>x y. clash (f x) y = clash x y) \<Longrightarrow> updateOne C P f xs = update_first P f xs"
  unfolding updateOne_def by (rule coll_okD)

lemma updateMany_eq [simp]:
  "coll_ok idf clash C \<Longrightarrow> (\<And>x y. clash (f x) y = clash x y) \<Longrightarrow>
   updateMany C P f xs = map (\<lambda>x. if P x then f x else x) xs"
  unfolding updateMany_def by (rule coll_okD)

lemma findOneAndUpdate_eq [simp]:
  "coll_ok idf clash C \<Longrightarrow> (\<And>x y. clash (f x) y = clash x y) \<Longrightarrow>
   findOneAndUpdate C P f xs = (map_option f (List.find P xs), update_first P f xs)"
  unfolding findOneAndUpdate_def
  by (auto simp: coll_ok_findOneAndUpdate_cases list_ex_iff find_None_set update_first_none split: option.split)

lemma deleteById_eq [simp]: "coll_ok idf clash C \<Longrightarrow> deleteById idf C i xs = remove_first (\<lambda>d. idf d = i) xs"
  by (simp add: deleteById_def coll_okD)

lemma deleteMany_eq [simp]:
  "coll_ok idf clash C \<Longrightarrow> deleteMany C P xs = (length (filter P xs), filter (\<lambda>x. \<not> P x) xs)"
  by (simp add: deleteMany_def coll_okD)

lemma findAll_set:
  assumes "coll_ok idf clash C"
  shows "set (findAll C P lim srt xs) \<subseteq> {x \<in> set xs. P x}"
proof -
  obtain ys where "sorts_by srt P xs ys" "findAll C P lim srt xs = limit (case lim of None \<Rightarrow> 100 | Some n \<Rightarrow> n) ys"
    using coll_ok_find[OF assms] unfolding findAll_def by blast
  moreover from this(1) have "set ys = {x \<in> set xs. P x}"
    unfolding sorts_by_def by (metis mset_set_eq set_filter)
  ultimately show ?thesis using set_limit by metis
qed

lemma findAll_all:
  assumes "coll_ok idf clash C" "length (filter P xs) \<le> (case lim of None \<Rightarrow> 100 | Some n \<Rightarrow> n)"
  shows "mset (findAll C P lim srt xs) = mset (filter P xs)"
proof -
  obtain ys where ys: "sorts_by srt P xs ys" "findAll C P lim srt xs = limit (case lim of None \<Rightarrow> 100 | Some n \<Rightarrow> n) ys"
    using coll_ok_find[OF assms(1)] unfolding findAll_def by blast
  from ys(1) have m: "mset ys = mset (filter P xs)" by (simp add: sorts_by_def)
  then have "length ys = length (filter P xs)" by (metis size_mset)
  with ys(2) assms(2) show ?thesis by (simp add: limit_all m)
qed

lemma findAll_distinct:
  assumes "coll_ok idf clash C" "distinct (map g xs)"
  shows "distinct (map g (findAll C P lim srt xs))"
proof -
  obtain ys where ys: "sorts_by srt P xs ys" "findAll C P lim srt xs = limit (case lim of None \<Rightarrow> 100 | Some n \<Rightarrow> n) ys"
    using coll_ok_find[OF assms(1)] unfolding findAll_def by blast
  from ys(1) have "mset ys = mset (filter P xs)" by (simp add: sorts_by_def)
  with assms(2) have "distinct (map g ys)" using mset_distinct_map distinct_map_filter by blast
  with ys(2) show ?thesis by (simp add: limit_def distinct_take flip: take_map)
qed

lemma findAll_length:
  assumes "coll_ok idf clash C" "(case lim of None \<Rightarrow> 100 | Some n \<Rightarrow> n) \<noteq> 0"
  shows "length (findAll C P lim srt xs) \<le> (case lim of None \<Rightarrow> 100 | Some n \<Rightarrow> n)"
proof -
  obtain ys where "findAll C P lim srt xs = limit (case lim of None \<Rightarrow> 100 | Some n \<Rightarrow> n) ys"
    using coll_ok_find[OF assms(1)] unfolding findAll_def by blast
  with assms(2) show ?thesis by (simp add: length_limit)
qed

lemma findAll_sorted:
  assumes "coll_ok idf clash C" "transp r" "\<And>a b. r a b \<or> r b a"
  shows "sorted_wrt r (findAll C P lim (Some r) xs)"
proof -
  obtain ys where ys: "sorts_by (Some r) P xs ys" "findAll C P lim (Some r) xs = limit (case lim of None \<Rightarrow> 100 | Some n \<Rightarrow> n) ys"
    using coll_ok_find[OF assms(1)] unfolding findAll_def by blast
  from ys(1) assms(2,3) have "sorted_wrt r ys" by (simp add: sorts_by_def)
  with ys(2) show ?thesis by (simp add: limit_def sorted_wrt_take)
qed

lemma findAll_Nil:
  assumes "coll_ok idf clash C"
  shows "findAll C P lim srt xs = [] \<longleftrightarrow> (\<forall>x \<in> set xs. \<not> P x)"
proof -
  obtain ys where ys: "sorts_by srt P xs ys" "findAll C P lim srt xs = limit (case lim of None \<Rightarrow> 100 | Some n \<Rightarrow> n) ys"
    using coll_ok_find[OF assms] unfolding findAll_def by blast
  from ys(1) have "ys = [] \<longleftrightarrow> filter P xs = []"
    unfolding sorts_by_def by (metis mset_zero_iff)
  with ys(2) show ?thesis by (auto simp: limit_def filter_empty_conv)
qed

lemma getAllIdsBy_set:
  assumes "coll_ok idf clash C"
  shows "set (getAllIdsBy idf C P xs) = idf ` {x \<in> set xs. P x}"
proof -
  obtain ys where "sorts_by None P xs ys" "coll_find C P None 0 xs = limit 0 ys"
    using coll_ok_find[OF assms] by blast
  then show ?thesis by (simp add: getAllIdsBy_def sorts_by_def limit_def)
qed

lemma getAllIdsBy_distinct:
  assumes "coll_ok idf clash C" "distinct (map idf xs)"
  shows "distinct (getAllIdsBy idf C P xs)"
proof -
  obtain ys where "sorts_by None P xs ys" "coll_find C P None 0 xs = limit 0 ys"
    using coll_ok_find[OF assms(1)] by blast
  then show ?thesis using assms(2) by (simp add: getAllIdsBy_def sorts_by_def limit_def distinct_map_filter)
qed

lemma create_inserts:
  assumes "coll_ok idf clash C" "create C mk now xs = Some (d, ys)"
  shows "mset ys = add_mset d (mset xs)" "set ys = insert d (set xs)" "\<exists>i. d = mk now i \<and> i \<notin> idf ` set xs"
    "\<forall>x \<in> set xs. \<not> clash d x"
proof -
  obtain i where c: "coll_insertOne C (mk now) xs = Some (i, ys)" and d: "d = mk now i"
    using assms(2) by (auto simp: create_def)
  from coll_ok_insertOne[OF assms(1) c] d
  show "mset ys = add_mset d (mset xs)" "\<exists>i. d = mk now i \<and> i \<notin> idf ` set xs" "\<forall>x \<in> set xs. \<not> clash d x"
    by (auto simp: inserts_def)
  then show "set ys = insert d (set xs)" by (metis set_mset_add_mset_insert set_mset_mset)
qed

lemma create_succeeds:
  assumes "coll_ok idf no_clash C"
  obtains d ys where "create C mk now xs = Some (d, ys)"
  using coll_ok_insertOne_None[OF assms] by (cases "coll_insertOne C (mk now) xs") (auto simp: create_def)

section \<open>A driver over a list\<close>

text \<open>The identifier it gives is longer than every identifier of the collection.\<close>

definition mem_fresh :: "('d \<Rightarrow> oid) \<Rightarrow> 'd list \<Rightarrow> oid" where
  "mem_fresh idf xs = replicate (Suc (foldr (\<lambda>d n. max (length (idf d)) n) xs 0)) CHR ''f''"

primrec ord_insert :: "('d \<Rightarrow> 'd \<Rightarrow> bool) \<Rightarrow> 'd \<Rightarrow> 'd list \<Rightarrow> 'd list" where
  "ord_insert r x [] = [x]"
| "ord_insert r x (y # ys) = (if r x y then x # y # ys else y # ord_insert r x ys)"

definition ord_sort :: "'d order \<Rightarrow> 'd list \<Rightarrow> 'd list" where
  "ord_sort srt xs = (case srt of None \<Rightarrow> xs | Some r \<Rightarrow> foldr (ord_insert r) xs [])"

primrec mem_insertMany ::
  "('d \<Rightarrow> oid) \<Rightarrow> ('d \<Rightarrow> 'd \<Rightarrow> bool) \<Rightarrow> (oid \<Rightarrow> 'd) list \<Rightarrow> 'd list \<Rightarrow> oid list option \<times> 'd list" where
  "mem_insertMany idf clash [] xs = (Some [], xs)"
| "mem_insertMany idf clash (mk # mks) xs =
     (let i = mem_fresh idf xs in
      if list_ex (clash (mk i)) xs then (None, xs)
      else let (is, ys) = mem_insertMany idf clash mks (xs @ [mk i]) in (map_option ((#) i) is, ys))"

definition mem_collection :: "('d \<Rightarrow> oid) \<Rightarrow> ('d \<Rightarrow> 'd \<Rightarrow> bool) \<Rightarrow> 'd collection" where
  "mem_collection idf clash = \<lparr>
     coll_find = (\<lambda>P srt n xs. limit n (ord_sort srt (filter P xs))),
     coll_findOne = List.find,
     coll_count = (\<lambda>P xs. length (filter P xs)),
     coll_insertOne = (\<lambda>mk xs. let i = mem_fresh idf xs in
        if list_ex (clash (mk i)) xs then None else Some (i, xs @ [mk i])),
     coll_insertMany = mem_insertMany idf clash,
     coll_updateOne = update_first,
     coll_upsertOne = (\<lambda>P f mk xs. if list_ex P xs then (None, update_first P f xs)
        else (Some (mem_fresh idf xs), xs @ [mk (mem_fresh idf xs)])),
     coll_findOneAndUpdate = (\<lambda>P f xs. case List.find P xs of
        None \<Rightarrow> (None, xs)
      | Some x \<Rightarrow> if list_ex (\<lambda>y. clash (f x) y \<and> \<not> clash x y) (remove_first P xs) then (None, xs)
          else (Some (f x), update_first P f xs)),
     coll_updateMany = (\<lambda>P f xs. map (\<lambda>x. if P x then f x else x) xs),
     coll_deleteOne = remove_first,
     coll_deleteMany = (\<lambda>P xs. (length (filter P xs), filter (\<lambda>x. \<not> P x) xs)) \<rparr>"

lemma mset_ord_insert: "mset (ord_insert r x xs) = add_mset x (mset xs)"
  by (induction xs) auto

lemma mset_ord_sort: "mset (ord_sort srt xs) = mset xs"
proof -
  have "mset (foldr (ord_insert r) xs []) = mset xs" for r
    by (induction xs) (simp_all add: mset_ord_insert)
  then show ?thesis by (simp add: ord_sort_def split: option.splits)
qed

lemma sorted_ord_insert:
  assumes "transp r" "\<And>a b. r a b \<or> r b a" "sorted_wrt r xs"
  shows "sorted_wrt r (ord_insert r x xs)"
  using assms(3)
proof (induction xs)
  case (Cons y ys)
  have "set (ord_insert r x ys) = insert x (set ys)"
    by (metis mset_ord_insert set_mset_add_mset_insert set_mset_mset)
  with Cons assms(1,2) show ?case by (auto dest: transpD)
qed simp

lemma sorted_ord_sort:
  assumes "transp r" "\<And>a b. r a b \<or> r b a"
  shows "sorted_wrt r (ord_sort (Some r) xs)"
  unfolding ord_sort_def using assms by (induction xs) (auto intro: sorted_ord_insert)

lemma mem_fresh_longer: "x \<in> set xs \<Longrightarrow> length (idf x) < length (mem_fresh idf xs)"
proof -
  have "x \<in> set xs \<Longrightarrow> length (idf x) \<le> foldr (\<lambda>d n. max (length (idf d)) n) xs 0"
    by (induction xs) auto
  then show "x \<in> set xs \<Longrightarrow> length (idf x) < length (mem_fresh idf xs)"
    by (simp add: mem_fresh_def)
qed

lemma mem_fresh_notin: "mem_fresh idf xs @ ys \<notin> idf ` set xs"
  using mem_fresh_longer by (metis (no_types, lifting) imageE length_append not_add_less1)

lemma mem_fresh_not_id: "mem_fresh idf xs \<notin> idf ` set xs"
  using mem_fresh_longer[of _ xs idf] by force

lemma mem_insertMany_fails:
  "mem_insertMany idf clash mks xs = (None, ys) \<Longrightarrow>
   (\<exists>k is. mset ys = mset xs + mset (map2 (\<lambda>mk i. mk i) (take k mks) is)) \<and>
   (\<exists>mk \<in> set mks. \<exists>i. (\<exists>x \<in> set xs. clash (mk i) x) \<or> (\<exists>mk' \<in> set mks. \<exists>j. clash (mk i) (mk' j)))"
proof (induction mks arbitrary: xs ys)
  case (Cons mk mks)
  let ?i = "mem_fresh idf xs"
  show ?case
  proof (cases "list_ex (clash (mk ?i)) xs")
    case True
    with Cons.prems have "ys = xs" by (simp add: Let_def)
    then have "mset ys = mset xs + mset (map2 (\<lambda>mk i. mk i) (take 0 (mk # mks)) [])" by simp
    with True show ?thesis by (auto simp: list_ex_iff)
  next
    case False
    with Cons.prems have r: "mem_insertMany idf clash mks (xs @ [mk ?i]) = (None, ys)"
      by (auto simp: Let_def split: prod.splits)
    from Cons.IH[OF r] obtain k "is" where
      "mset ys = mset (xs @ [mk ?i]) + mset (map2 (\<lambda>mk i. mk i) (take k mks) is)" by blast
    then have "mset ys = mset xs + mset (map2 (\<lambda>mk i. mk i) (take (Suc k) (mk # mks)) (?i # is))" by simp
    moreover from Cons.IH[OF r] have "\<exists>mk' \<in> set (mk # mks). \<exists>i. (\<exists>x \<in> set xs. clash (mk' i) x) \<or>
        (\<exists>mk'' \<in> set (mk # mks). \<exists>j. clash (mk' i) (mk'' j))" by auto
    ultimately show ?thesis by blast
  qed
qed simp

lemma mem_insertMany_works:
  "mem_insertMany idf clash mks xs = (Some is, ys) \<Longrightarrow>
   length is = length mks \<and> mset ys = mset xs + mset (map2 (\<lambda>mk i. mk i) mks is) \<and>
   ((\<forall>mk \<in> set mks. \<forall>i. idf (mk i) = i) \<longrightarrow> distinct (map idf xs) \<longrightarrow> distinct (map idf ys)) \<and>
   (\<forall>d \<in> set (map2 (\<lambda>mk i. mk i) mks is). \<forall>x \<in> set xs. \<not> clash d x)"
proof (induction mks arbitrary: xs "is" ys)
  case (Cons mk mks)
  let ?i = "mem_fresh idf xs"
  from Cons.prems have nc: "\<not> list_ex (clash (mk ?i)) xs" by (auto simp: Let_def split: if_splits)
  with Cons.prems obtain is' where is': "is = ?i # is'" and
    r: "mem_insertMany idf clash mks (xs @ [mk ?i]) = (Some is', ys)"
    by (auto simp: Let_def split: prod.splits)
  have "?i \<notin> idf ` set xs" by (rule mem_fresh_not_id)
  with Cons.IH[OF r] is' nc show ?case by (auto simp: list_ex_iff)
qed simp

lemma mem_collection_ok: "coll_ok idf clash (mem_collection idf clash)"
proof -
  let ?C = "mem_collection idf clash"
  have "coll_find ?C P srt n xs = limit n (ord_sort srt (filter P xs)) \<and>
      sorts_by srt P xs (ord_sort srt (filter P xs))" for P srt n xs
    by (auto simp: sorts_by_def mem_collection_def mset_ord_sort sorted_ord_sort ord_sort_def[of None] split: option.splits)
  then have finds: "\<forall>P srt n xs. \<exists>ys. sorts_by srt P xs ys \<and> coll_find ?C P srt n xs = limit n ys"
    by blast
  have one: "insertOne_ok idf clash ?C"
    using mem_fresh_not_id[of idf]
    by (auto simp: insertOne_ok_def mem_collection_def inserts_def Let_def list_ex_iff)
  have insertMany: "coll_insertMany ?C = mem_insertMany idf clash" by (simp add: mem_collection_def)
  have many: "insertMany_ok idf clash ?C"
    unfolding insertMany_ok_def insertMany
  proof (intro allI)
    fix mks xs
    obtain r ys where "mem_insertMany idf clash mks xs = (r, ys)" by fastforce
    with mem_insertMany_fails[of idf clash mks xs ys] mem_insertMany_works[of idf clash mks xs "the r" ys]
    show "case mem_insertMany idf clash mks xs of
        (None, ys) \<Rightarrow> (\<exists>k is. mset ys = mset xs + mset (map2 (\<lambda>mk i. mk i) (take k mks) is)) \<and>
          (\<exists>mk \<in> set mks. \<exists>i. (\<exists>x \<in> set xs. clash (mk i) x) \<or>
             (\<exists>mk' \<in> set mks. \<exists>j. clash (mk i) (mk' j)))
      | (Some is, ys) \<Rightarrow> length is = length mks \<and>
          mset ys = mset xs + mset (map2 (\<lambda>mk i. mk i) mks is) \<and>
          ((\<forall>mk \<in> set mks. \<forall>i. idf (mk i) = i) \<longrightarrow> distinct (map idf xs) \<longrightarrow> distinct (map idf ys)) \<and>
          (\<forall>d \<in> set (map2 (\<lambda>mk i. mk i) mks is). \<forall>x \<in> set xs. \<not> clash d x)"
      by (cases r) simp_all
  qed
  have upsert: "upsertOne_ok idf ?C"
    using mem_fresh_not_id[of idf]
    by (auto simp: upsertOne_ok_def mem_collection_def inserts_def list_ex_iff)
  show ?thesis
    unfolding coll_ok_def using finds one many upsert by (simp add: mem_collection_def)
qed

end
