(* ===== verification/Redis.thy ===== *)
theory Redis
  imports Prelude
begin

text \<open>
  The boundary to Redis, a parameter like the MongoDB driver: \<open>redis_ops\<close> holds the
  commands the server sends, over a store of sets and hashes by key, and \<open>redis_ok\<close> is
  their documented behaviour. The order in which \<open>SMEMBERS\<close> lists a set is left open, and so are the pages of \<open>SCAN\<close>: what is
  documented is that the cursor comes back to 0 after finitely many calls, which together list every matching key. The
  keys of the server's sets and hashes have different prefixes, so no key is
  used with both types. \<open>mem_redis\<close> is a store over lists and maps, on which concrete runs are
  evaluated.
\<close>

text \<open>\<open>rs_keys\<close> are the keys that exist, \<open>rs_ttl\<close> the seconds after which \<open>EXPIRE\<close> lets a key disappear.\<close>

record redis_store =
  rs_sets :: "string \<Rightarrow> string list"
  rs_hashes :: "string \<Rightarrow> string \<rightharpoonup> string"
  rs_keys :: "string list"
  rs_ttl :: "string \<rightharpoonup> nat"

datatype redis_type = SetType | HashType

fun hasType :: "redis_type \<Rightarrow> redis_store \<Rightarrow> string \<Rightarrow> bool" where
  "hasType SetType st k \<longleftrightarrow> rs_sets st k \<noteq> []"
| "hasType HashType st k \<longleftrightarrow> rs_hashes st k \<noteq> Map.empty"

record redis_ops =
  rd_sAdd :: "string \<Rightarrow> string \<Rightarrow> redis_store \<Rightarrow> redis_store"
  rd_sRem :: "string \<Rightarrow> string \<Rightarrow> redis_store \<Rightarrow> redis_store"
  rd_sMembers :: "string \<Rightarrow> redis_store \<Rightarrow> string list"
  rd_hSet :: "string \<Rightarrow> (string \<times> string) list \<Rightarrow> redis_store \<Rightarrow> redis_store"
  rd_hDel :: "string \<Rightarrow> string list \<Rightarrow> redis_store \<Rightarrow> redis_store"
  rd_hGetAll :: "string \<Rightarrow> redis_store \<Rightarrow> (string \<rightharpoonup> string)"
  rd_hGet :: "string \<Rightarrow> string \<Rightarrow> redis_store \<Rightarrow> string option"
  rd_del :: "string \<Rightarrow> redis_store \<Rightarrow> redis_store"
  rd_expire :: "string \<Rightarrow> nat \<Rightarrow> redis_store \<Rightarrow> redis_store"
  rd_keys :: "string \<Rightarrow> redis_store \<Rightarrow> string list"
  rd_scan :: "nat \<Rightarrow> redis_type \<Rightarrow> string \<Rightarrow> redis_store \<Rightarrow> nat \<times> string list"

text \<open>
  The patterns of the server are a prefix followed by \<open>*\<close>; \<open>rd_keys\<close> and \<open>rd_scan\<close> take the prefix. \<open>scan_cursor R ty p st n\<close> is the
  cursor after \<open>n\<close> calls.
\<close>

primrec scan_cursor :: "redis_ops \<Rightarrow> redis_type \<Rightarrow> string \<Rightarrow> redis_store \<Rightarrow> nat \<Rightarrow> nat" where
  "scan_cursor R ty p st 0 = 0"
| "scan_cursor R ty p st (Suc n) = fst (rd_scan R (scan_cursor R ty p st n) ty p st)"

definition scan_ok :: "redis_ops \<Rightarrow> bool" where
  "scan_ok R \<longleftrightarrow> (\<forall>ty p st. \<exists>n > 0. scan_cursor R ty p st n = 0
     \<and> (\<Union>i < n. set (snd (rd_scan R (scan_cursor R ty p st i) ty p st))) = {k \<in> set (rs_keys st). take (length p) k = p \<and> hasType ty st k})"

text \<open>
  The effect of a write on what later reads see: \<open>set (SMEMBERS k)\<close> and \<open>HGETALL k\<close>.
\<close>

definition redis_ok :: "redis_ops \<Rightarrow> bool" where
  "redis_ok R \<longleftrightarrow>
     (\<forall>k st. rd_sMembers R k st = rs_sets st k) \<and>
     (\<forall>k st. rd_hGetAll R k st = rs_hashes st k) \<and>
     (\<forall>k f st. rd_hGet R k f st = rs_hashes st k f) \<and>
     (\<forall>k m st. rs_hashes (rd_sAdd R k m st) = rs_hashes st) \<and>
     (\<forall>k m st k'. set (rs_sets (rd_sAdd R k m st) k') =
        (if k' = k then insert m (set (rs_sets st k)) else set (rs_sets st k'))) \<and>
     (\<forall>k m st. rs_hashes (rd_sRem R k m st) = rs_hashes st) \<and>
     (\<forall>k m st k'. set (rs_sets (rd_sRem R k m st) k') =
        (if k' = k then set (rs_sets st k) - {m} else set (rs_sets st k'))) \<and>
     (\<forall>k kvs st. rs_sets (rd_hSet R k kvs st) = rs_sets st) \<and>
     (\<forall>k kvs st. rs_hashes (rd_hSet R k kvs st) = (rs_hashes st)(k := rs_hashes st k ++ map_of (rev kvs))) \<and>
     (\<forall>k fs st. rs_sets (rd_hDel R k fs st) = rs_sets st) \<and>
     (\<forall>k fs st. rs_hashes (rd_hDel R k fs st) = (rs_hashes st)(k := rs_hashes st k |` (- set fs))) \<and>
     (\<forall>k st. rs_hashes (rd_del R k st) = (rs_hashes st)(k := Map.empty)) \<and>
     (\<forall>k st k'. set (rs_sets (rd_del R k st) k') = (if k' = k then {} else set (rs_sets st k'))) \<and>
     (\<forall>k n st. rs_sets (rd_expire R k n st) = rs_sets st) \<and>
     (\<forall>k n st. rs_hashes (rd_expire R k n st) = rs_hashes st) \<and>
     (\<forall>k n st. rs_keys (rd_expire R k n st) = rs_keys st) \<and>
     (\<forall>k n st. rs_ttl (rd_expire R k n st) = (if k \<in> set (rs_keys st) then (rs_ttl st)(k \<mapsto> n) else rs_ttl st)) \<and>
     (\<forall>k m st. set (rs_keys (rd_sAdd R k m st)) = insert k (set (rs_keys st))) \<and>
     (\<forall>k kvs st. kvs \<noteq> [] \<longrightarrow> set (rs_keys (rd_hSet R k kvs st)) = insert k (set (rs_keys st))) \<and>
     (\<forall>k st. set (rs_keys (rd_del R k st)) = set (rs_keys st) - {k}) \<and>
     (\<forall>p st. set (rd_keys R p st) = {k \<in> set (rs_keys st). take (length p) k = p}) \<and>
     scan_ok R"

lemma redis_okD [simp]:
  assumes "redis_ok R"
  shows "rd_sMembers R k st = rs_sets st k" "rd_hGetAll R k st = rs_hashes st k" "rd_hGet R k f st = rs_hashes st k f"
    "rs_hashes (rd_sAdd R k m st) = rs_hashes st"
    "set (rs_sets (rd_sAdd R k m st) k') = (if k' = k then insert m (set (rs_sets st k)) else set (rs_sets st k'))"
    "rs_hashes (rd_sRem R k m st) = rs_hashes st"
    "set (rs_sets (rd_sRem R k m st) k') = (if k' = k then set (rs_sets st k) - {m} else set (rs_sets st k'))"
    "rs_sets (rd_hSet R k kvs st) = rs_sets st"
    "rs_hashes (rd_hSet R k kvs st) = (rs_hashes st)(k := rs_hashes st k ++ map_of (rev kvs))"
    "rs_sets (rd_hDel R k fs st) = rs_sets st"
    "rs_hashes (rd_hDel R k fs st) = (rs_hashes st)(k := rs_hashes st k |` (- set fs))"
    "rs_hashes (rd_del R k st) = (rs_hashes st)(k := Map.empty)"
    "set (rs_sets (rd_del R k st) k') = (if k' = k then {} else set (rs_sets st k'))"
    "rs_sets (rd_expire R k n st) = rs_sets st" "rs_hashes (rd_expire R k n st) = rs_hashes st"
    "rs_keys (rd_expire R k n st) = rs_keys st"
    "rs_ttl (rd_expire R k n st) = (if k \<in> set (rs_keys st) then (rs_ttl st)(k \<mapsto> n) else rs_ttl st)"
    "set (rs_keys (rd_sAdd R k m st)) = insert k (set (rs_keys st))"
    "kvs \<noteq> [] \<Longrightarrow> set (rs_keys (rd_hSet R k kvs st)) = insert k (set (rs_keys st))"
    "set (rs_keys (rd_del R k st)) = set (rs_keys st) - {k}"
    "set (rd_keys R p st) = {k \<in> set (rs_keys st). take (length p) k = p}" "scan_ok R"
  using assms by (simp_all add: redis_ok_def)

definition mem_scan :: "nat \<Rightarrow> redis_type \<Rightarrow> string \<Rightarrow> redis_store \<Rightarrow> nat \<times> string list" where
  "mem_scan c ty p st = (0, filter (\<lambda>k. take (length p) k = p \<and> hasType ty st k) (rs_keys st))"

definition mem_redis :: redis_ops where
  "mem_redis = \<lparr>
     rd_sAdd = (\<lambda>k m st. st\<lparr>rs_sets := (rs_sets st)(k := List.insert m (rs_sets st k)), rs_keys := List.insert k (rs_keys st)\<rparr>),
     rd_sRem = (\<lambda>k m st. st\<lparr>rs_sets := (rs_sets st)(k := removeAll m (rs_sets st k)),
        rs_keys := (if removeAll m (rs_sets st k) = [] then removeAll k (rs_keys st) else rs_keys st)\<rparr>),
     rd_sMembers = (\<lambda>k st. rs_sets st k),
     rd_hSet = (\<lambda>k kvs st. st\<lparr>rs_hashes := (rs_hashes st)(k := rs_hashes st k ++ map_of (rev kvs)),
        rs_keys := (if kvs = [] then rs_keys st else List.insert k (rs_keys st))\<rparr>),
     rd_hDel = (\<lambda>k fs st. st\<lparr>rs_hashes := (rs_hashes st)(k := rs_hashes st k |` (- set fs))\<rparr>),
     rd_hGetAll = (\<lambda>k st. rs_hashes st k),
     rd_hGet = (\<lambda>k f st. rs_hashes st k f),
     rd_del = (\<lambda>k st. st\<lparr>rs_sets := (rs_sets st)(k := []), rs_hashes := (rs_hashes st)(k := Map.empty),
        rs_keys := removeAll k (rs_keys st), rs_ttl := (rs_ttl st)(k := None)\<rparr>),
     rd_expire = (\<lambda>k n st. if k \<in> set (rs_keys st) then st\<lparr>rs_ttl := (rs_ttl st)(k \<mapsto> n)\<rparr> else st),
     rd_keys = (\<lambda>p st. filter (\<lambda>k. take (length p) k = p) (rs_keys st)),
     rd_scan = mem_scan \<rparr>"

lemma mem_scan_ok: "scan_ok R" if "rd_scan R = mem_scan" for R
  unfolding scan_ok_def
proof (intro allI)
  fix ty p st
  have "scan_cursor R ty p st 1 = 0" by (simp add: that mem_scan_def)
  moreover have "(\<Union>i < (1::nat). set (snd (rd_scan R (scan_cursor R ty p st i) ty p st)))
      = {k \<in> set (rs_keys st). take (length p) k = p \<and> hasType ty st k}"
    by (simp add: that mem_scan_def lessThan_Suc)
  ultimately show "\<exists>n > 0. scan_cursor R ty p st n = 0
     \<and> (\<Union>i < n. set (snd (rd_scan R (scan_cursor R ty p st i) ty p st))) = {k \<in> set (rs_keys st). take (length p) k = p \<and> hasType ty st k}"
    by (intro exI[of _ 1]) simp
qed

lemma mem_redis_ok: "redis_ok mem_redis"
proof -
  have "scan_ok mem_redis" by (rule mem_scan_ok) (simp add: mem_redis_def)
  then show ?thesis unfolding redis_ok_def by (intro conjI allI impI; assumption | simp add: mem_redis_def)
qed

definition empty_redis :: redis_store where
  "empty_redis = \<lparr>rs_sets = (\<lambda>_. []), rs_hashes = (\<lambda>_ _. None), rs_keys = [], rs_ttl = Map.empty\<rparr>"

end
