(* ===== verification/Errors.thy ===== *)
theory Errors
  imports Prelude
begin

text \<open>
  The error statuses of \<^verbatim>\<open>app/constants/errors.js\<close>, one constant per entry of
  \<open>ERROR_STATUES\<close>. A thrown value is one of these
  statuses (the \<open>cause\<close> of the \<open>Error\<close>), a status with a message of its own (the
  conversation handlers), an error with only a message, or the \<open>TypeError\<close> the
  JavaScript runtime raises when a property of \<open>null\<close> or \<open>undefined\<close> is read.
\<close>

record error_status =
  err_status :: nat
  err_message :: string

definition UNAUTHORIZED :: error_status where
  "UNAUTHORIZED = \<lparr>err_status = 401, err_message = ''Unauthorized.''\<rparr>"

definition FORBIDDEN :: error_status where
  "FORBIDDEN = \<lparr>err_status = 403, err_message = ''Forbidden.''\<rparr>"

definition BAD_REQUEST :: error_status where
  "BAD_REQUEST = \<lparr>err_status = 400, err_message = ''Bad Request.''\<rparr>"

definition INVALID_DATA_FORMAT :: error_status where
  "INVALID_DATA_FORMAT = \<lparr>err_status = 400, err_message = ''Bad request - invalid data format''\<rparr>"

definition INCORRECT_TYPE :: error_status where
  "INCORRECT_TYPE = \<lparr>err_status = 422, err_message = ''The type you entered is incorrect.''\<rparr>"

definition ORG_NOT_FOUND :: error_status where
  "ORG_NOT_FOUND = \<lparr>err_status = 404, err_message = ''Organization not found''\<rparr>"

definition INCORRECT_TOKEN :: error_status where
  "INCORRECT_TOKEN = \<lparr>err_status = 422, err_message = ''Incorrect token.''\<rparr>"

definition TOKEN_EXPIRED :: error_status where
  "TOKEN_EXPIRED = \<lparr>err_status = 422, err_message = ''The token has expired.''\<rparr>"

definition ROUTE_NOT_FOUND :: error_status where
  "ROUTE_NOT_FOUND = \<lparr>err_status = 404, err_message = ''Route not found''\<rparr>"

definition USER_ID_MISSED :: error_status where
  "USER_ID_MISSED = \<lparr>err_status = 422, err_message = ''User ID missed.''\<rparr>"

definition USER_NOT_FOUND :: error_status where
  "USER_NOT_FOUND = \<lparr>err_status = 422, err_message = ''We couldn'' @ [CHR 0x27] @ ''t find the specified user.''\<rparr>"

definition USER_LOGIN_OR_PASS :: error_status where
  "USER_LOGIN_OR_PASS = \<lparr>err_status = 422, err_message = ''The '' @ [CHR 0x27] @ ''login'' @ [CHR 0x27] @ '' or '' @ [CHR 0x27] @ ''password'' @ [CHR 0x27] @ '' field is missing.''\<rparr>"

definition USER_SELECTED :: error_status where
  "USER_SELECTED = \<lparr>err_status = 422, err_message = ''Please select at least one user.''\<rparr>"

definition USER_ALREADY_EXISTS :: error_status where
  "USER_ALREADY_EXISTS = \<lparr>err_status = 422, err_message = ''The provided data is already associated with an existing user account.''\<rparr>"

definition TOO_MANY_USERS_IN_PRIVATE :: error_status where
  "TOO_MANY_USERS_IN_PRIVATE = \<lparr>err_status = 422, err_message = ''There are too many users in the private conversation.''\<rparr>"

definition TOO_MANY_USERS_IN_GROUP :: error_status where
  "TOO_MANY_USERS_IN_GROUP = \<lparr>err_status = 422, err_message = ''There are too many users in the group conversation.''\<rparr>"

definition INCORRECT_USER :: error_status where
  "INCORRECT_USER = \<lparr>err_status = 422, err_message = ''The specified user is incorrect.''\<rparr>"

definition INCORRECT_PASSWORD :: error_status where
  "INCORRECT_PASSWORD = \<lparr>err_status = 422, err_message = ''The password entered is incorrect.''\<rparr>"

definition INCORRECT_LOGIN :: error_status where
  "INCORRECT_LOGIN = \<lparr>err_status = 422, err_message = ''The login provided is incorrect.''\<rparr>"

definition INCORRECT_CURRENT_PASSWORD :: error_status where
  "INCORRECT_CURRENT_PASSWORD = \<lparr>err_status = 401, err_message = ''The current password you entered is incorrect.''\<rparr>"

definition INCORRECT_LOGIN_OR_PASSWORD :: error_status where
  "INCORRECT_LOGIN_OR_PASSWORD = \<lparr>err_status = 401, err_message = ''Incorrect username or password.''\<rparr>"

definition ORGANIZATION_BLOCKED :: error_status where
  "ORGANIZATION_BLOCKED = \<lparr>err_status = 403, err_message = ''Organization was blocked.''\<rparr>"

definition INCORRECT_OTP_TOKEN :: error_status where
  "INCORRECT_OTP_TOKEN = \<lparr>err_status = 403, err_message = ''Incorrect token for password recovery.''\<rparr>"

definition DEVICE_ID_MISSED :: error_status where
  "DEVICE_ID_MISSED = \<lparr>err_status = 422, err_message = [CHR 0x27] @ ''device_id'' @ [CHR 0x27] @ '' is required.''\<rparr>"

definition CONTACT_NOT_FOUND :: error_status where
  "CONTACT_NOT_FOUND = \<lparr>err_status = 422, err_message = ''Contact not found.''\<rparr>"

definition CONTACT_ID_MISSED :: error_status where
  "CONTACT_ID_MISSED = \<lparr>err_status = 422, err_message = ''Contact id is missed.''\<rparr>"

definition FULLNAME_IS_MISSED :: error_status where
  "FULLNAME_IS_MISSED = \<lparr>err_status = 422, err_message = [CHR 0x27] @ ''first_name'' @ [CHR 0x27] @ '' or '' @ [CHR 0x27] @ ''last_name'' @ [CHR 0x27] @ '' is missed.''\<rparr>"

definition EMAIL_OR_PHONE_IS_MISSED :: error_status where
  "EMAIL_OR_PHONE_IS_MISSED = \<lparr>err_status = 422, err_message = ''Email or phone is missed.''\<rparr>"

definition CONVERSATION_NOT_FOUND :: error_status where
  "CONVERSATION_NOT_FOUND = \<lparr>err_status = 404, err_message = ''Conversation not found.''\<rparr>"

definition CONVERSATION_EXISTS :: error_status where
  "CONVERSATION_EXISTS = \<lparr>err_status = 404, err_message = ''Conversation exists.''\<rparr>"

definition CONVERSATION_NAME_MISSED :: error_status where
  "CONVERSATION_NAME_MISSED = \<lparr>err_status = 422, err_message = ''You haven'' @ [CHR 0x27] @ ''t specified a conversation name.''\<rparr>"

definition CONVERSATION_TYPE_MISSED :: error_status where
  "CONVERSATION_TYPE_MISSED = \<lparr>err_status = 422, err_message = ''Conversation type missed.''\<rparr>"

definition PARTICIPANTS_NOT_PROVIDED :: error_status where
  "PARTICIPANTS_NOT_PROVIDED = \<lparr>err_status = 422, err_message = ''Participants not provided.''\<rparr>"

definition PARTICIPANT_NOT_FOUND :: error_status where
  "PARTICIPANT_NOT_FOUND = \<lparr>err_status = 404, err_message = ''ConversationParticipant not found.''\<rparr>"

definition PARTICIPANTS_LIMIT :: error_status where
  "PARTICIPANTS_LIMIT = \<lparr>err_status = 422, err_message = ''You'' @ [CHR 0x27] @ ''ve reached the maximum participant limit.''\<rparr>"

definition OPPONENT_NOT_FOUND :: error_status where
  "OPPONENT_NOT_FOUND = \<lparr>err_status = 422, err_message = ''Opponent ID not found.''\<rparr>"

definition HANDLER_NOT_FOUND :: error_status where
  "HANDLER_NOT_FOUND = \<lparr>err_status = 422, err_message = ''Handler for this conversation not found.''\<rparr>"

definition FILE_IDS_MISSED :: error_status where
  "FILE_IDS_MISSED = \<lparr>err_status = 422, err_message = ''File IDS missed.''\<rparr>"

definition FILE_LIMIT_EXCEEDED :: error_status where
  "FILE_LIMIT_EXCEEDED = \<lparr>err_status = 422, err_message = ''You'' @ [CHR 0x27] @ ''ve exceeded the file limit.''\<rparr>"

definition FILE_IDS_EXCEEDED :: error_status where
  "FILE_IDS_EXCEEDED = \<lparr>err_status = 422, err_message = ''File IDs for get download url exceeded.''\<rparr>"

definition INCORRECT_FILE_NAME :: error_status where
  "INCORRECT_FILE_NAME = \<lparr>err_status = 422, err_message = ''Incorrect file name.''\<rparr>"

definition INCORRECT_FILE_SIZE :: error_status where
  "INCORRECT_FILE_SIZE = \<lparr>err_status = 422, err_message = ''Incorrect file size.''\<rparr>"

definition INCORRECT_CONTENT_TYPE :: error_status where
  "INCORRECT_CONTENT_TYPE = \<lparr>err_status = 422, err_message = ''Incorrect content type.''\<rparr>"

definition MESSAGE_ID_NOT_FOUND :: error_status where
  "MESSAGE_ID_NOT_FOUND = \<lparr>err_status = 422, err_message = ''Message ID not found.''\<rparr>"

definition MESSAGE_ID_MISSED :: error_status where
  "MESSAGE_ID_MISSED = \<lparr>err_status = 422, err_message = ''Message ID missed.''\<rparr>"

definition INCORRECT_MESSAGE_ID :: error_status where
  "INCORRECT_MESSAGE_ID = \<lparr>err_status = 422, err_message = ''Incorrect message ID.''\<rparr>"

definition INCORRECT_REPLY_MESSAGE_ID :: error_status where
  "INCORRECT_REPLY_MESSAGE_ID = \<lparr>err_status = 422, err_message = ''Incorrect replied message ID.''\<rparr>"

definition MESSAGE_TYPE_MISSED :: error_status where
  "MESSAGE_TYPE_MISSED = \<lparr>err_status = 422, err_message = ''Message type missed.''\<rparr>"

definition MESSAGE_BODY_AND_ATTACHMENTS_EMPTY :: error_status where
  "MESSAGE_BODY_AND_ATTACHMENTS_EMPTY = \<lparr>err_status = 422, err_message = ''Either message body or attachments required.''\<rparr>"

definition USER_BLOCKED :: error_status where
  "USER_BLOCKED = \<lparr>err_status = 422, err_message = ''Communication is not possible - you are in a block list of the recipient.''\<rparr>"

definition INCORRECT_TYPE_OF_BODY :: error_status where
  "INCORRECT_TYPE_OF_BODY = \<lparr>err_status = 422, err_message = ''Incorrect type of message body.''\<rparr>"

definition INVALID_ATTACHMENT_FIELDS :: error_status where
  "INVALID_ATTACHMENT_FIELDS = \<lparr>err_status = 422, err_message = ''Invalid attachment fields.''\<rparr>"

definition AI_AGENT_ERROR :: error_status where
  "AI_AGENT_ERROR = \<lparr>err_status = 500, err_message = ''An error occurred while processing messages with the AI agent.''\<rparr>"

definition STATUS_ID_MISSED :: error_status where
  "STATUS_ID_MISSED = \<lparr>err_status = 422, err_message = ''Status ID missed.''\<rparr>"

definition STATUS_TYPE_MISSED :: error_status where
  "STATUS_TYPE_MISSED = \<lparr>err_status = 422, err_message = ''Status type missed.''\<rparr>"

definition STATUS_T_MISSED :: error_status where
  "STATUS_T_MISSED = \<lparr>err_status = 422, err_message = ''Status '' @ [CHR 0x27] @ ''t'' @ [CHR 0x27] @ '' missed.''\<rparr>"

definition MESSAGE_BLOCKED_BY_HANDLER :: error_status where
  "MESSAGE_BLOCKED_BY_HANDLER = \<lparr>err_status = 422, err_message = ''Message blocked by conversation rules.''\<rparr>"

definition INCORRECT_PLATFORM_TYPE :: error_status where
  "INCORRECT_PLATFORM_TYPE = \<lparr>err_status = 422, err_message = ''Incorrect platform type.''\<rparr>"

definition INCORRECT_DEVICE_ID :: error_status where
  "INCORRECT_DEVICE_ID = \<lparr>err_status = 422, err_message = ''Incorrect device id.''\<rparr>"

definition INCORRECT_RECIPIENTS_IDS :: error_status where
  "INCORRECT_RECIPIENTS_IDS = \<lparr>err_status = 422, err_message = ''Incorrect recipients IDs.''\<rparr>"

definition RECIPIENTS_NOT_FOUND :: error_status where
  "RECIPIENTS_NOT_FOUND = \<lparr>err_status = 422, err_message = ''Recipients not found.''\<rparr>"

definition NOTIFICATION_MESSAGE_MISSED :: error_status where
  "NOTIFICATION_MESSAGE_MISSED = \<lparr>err_status = 422, err_message = ''Notification message missed.''\<rparr>"

definition NOTIFICATION_NOT_FOUND :: error_status where
  "NOTIFICATION_NOT_FOUND = \<lparr>err_status = 422, err_message = ''Push notification record not found.''\<rparr>"

definition INCORRECT_KEYS :: error_status where
  "INCORRECT_KEYS = \<lparr>err_status = 422, err_message = ''Incorrect keys.''\<rparr>"

definition INCORRECT_IDENTITY_KEY :: error_status where
  "INCORRECT_IDENTITY_KEY = \<lparr>err_status = 422, err_message = ''Incorrect identity device key.''\<rparr>"

definition INCORRECT_SIGNED_KEY :: error_status where
  "INCORRECT_SIGNED_KEY = \<lparr>err_status = 422, err_message = ''Incorrect signed key.''\<rparr>"

definition INCORRECT_ONE_TIME_PRE_KEYS :: error_status where
  "INCORRECT_ONE_TIME_PRE_KEYS = \<lparr>err_status = 422, err_message = ''Incorrect one time pre keys.''\<rparr>"

definition INCORRECT_USER_ID :: error_status where
  "INCORRECT_USER_ID = \<lparr>err_status = 422, err_message = ''Incorrect user id.''\<rparr>"

definition INCORRECT_USERS_ARRAY :: error_status where
  "INCORRECT_USERS_ARRAY = \<lparr>err_status = 422, err_message = ''Incorrect users array.''\<rparr>"

definition LOG_TIMESTAMP_MISSED :: error_status where
  "LOG_TIMESTAMP_MISSED = \<lparr>err_status = 422, err_message = ''Gt or lt query missed.''\<rparr>"

definition CID_REQUIRED :: error_status where
  "CID_REQUIRED = \<lparr>err_status = 422, err_message = [CHR 0x27] @ ''cid'' @ [CHR 0x27] @ '' field is required.''\<rparr>"

definition CIDS_REQUIRED :: error_status where
  "CIDS_REQUIRED = \<lparr>err_status = 422, err_message = [CHR 0x27] @ ''cids'' @ [CHR 0x27] @ '' field is required.''\<rparr>"

definition INTERNAL_SERVER :: error_status where
  "INTERNAL_SERVER = \<lparr>err_status = 500, err_message = ''Internal server error.''\<rparr>"

definition MISSING_AUTH_CREDENTIALS :: error_status where
  "MISSING_AUTH_CREDENTIALS = \<lparr>err_status = 401, err_message = ''Missing authentication credentials.''\<rparr>"

definition MISSING_OTP_SENDER_SERVICE :: error_status where
  "MISSING_OTP_SENDER_SERVICE = \<lparr>err_status = 401, err_message = ''Failed to create OTP sender transporter.''\<rparr>"

definition CORS_RESTRICTIONS :: string where
  "CORS_RESTRICTIONS = ''A CORS error occurred while trying to perform a network request.''"

definition requiredError :: "string \<Rightarrow> error_status" where
  "requiredError field = \<lparr>err_status = 422, err_message = field @ '' field is required.''\<rparr>"

datatype exn =
    Status error_status
  | PlainError string
  | TypeError

lemmas error_defs =
  UNAUTHORIZED_def FORBIDDEN_def BAD_REQUEST_def
  INVALID_DATA_FORMAT_def INCORRECT_TYPE_def ORG_NOT_FOUND_def
  INCORRECT_TOKEN_def TOKEN_EXPIRED_def ROUTE_NOT_FOUND_def
  USER_ID_MISSED_def USER_NOT_FOUND_def USER_LOGIN_OR_PASS_def
  USER_SELECTED_def USER_ALREADY_EXISTS_def TOO_MANY_USERS_IN_PRIVATE_def
  TOO_MANY_USERS_IN_GROUP_def INCORRECT_USER_def INCORRECT_PASSWORD_def
  INCORRECT_LOGIN_def INCORRECT_CURRENT_PASSWORD_def INCORRECT_LOGIN_OR_PASSWORD_def
  ORGANIZATION_BLOCKED_def INCORRECT_OTP_TOKEN_def DEVICE_ID_MISSED_def
  CONTACT_NOT_FOUND_def CONTACT_ID_MISSED_def FULLNAME_IS_MISSED_def
  EMAIL_OR_PHONE_IS_MISSED_def CONVERSATION_NOT_FOUND_def CONVERSATION_EXISTS_def
  CONVERSATION_NAME_MISSED_def CONVERSATION_TYPE_MISSED_def PARTICIPANTS_NOT_PROVIDED_def
  PARTICIPANT_NOT_FOUND_def PARTICIPANTS_LIMIT_def OPPONENT_NOT_FOUND_def
  HANDLER_NOT_FOUND_def FILE_IDS_MISSED_def FILE_LIMIT_EXCEEDED_def
  FILE_IDS_EXCEEDED_def INCORRECT_FILE_NAME_def INCORRECT_FILE_SIZE_def
  INCORRECT_CONTENT_TYPE_def MESSAGE_ID_NOT_FOUND_def MESSAGE_ID_MISSED_def
  INCORRECT_MESSAGE_ID_def INCORRECT_REPLY_MESSAGE_ID_def MESSAGE_TYPE_MISSED_def
  MESSAGE_BODY_AND_ATTACHMENTS_EMPTY_def USER_BLOCKED_def INCORRECT_TYPE_OF_BODY_def
  INVALID_ATTACHMENT_FIELDS_def AI_AGENT_ERROR_def STATUS_ID_MISSED_def
  STATUS_TYPE_MISSED_def STATUS_T_MISSED_def MESSAGE_BLOCKED_BY_HANDLER_def
  INCORRECT_PLATFORM_TYPE_def INCORRECT_DEVICE_ID_def INCORRECT_RECIPIENTS_IDS_def
  RECIPIENTS_NOT_FOUND_def NOTIFICATION_MESSAGE_MISSED_def NOTIFICATION_NOT_FOUND_def
  INCORRECT_KEYS_def INCORRECT_IDENTITY_KEY_def INCORRECT_SIGNED_KEY_def
  INCORRECT_ONE_TIME_PRE_KEYS_def INCORRECT_USER_ID_def INCORRECT_USERS_ARRAY_def
  LOG_TIMESTAMP_MISSED_def CID_REQUIRED_def CIDS_REQUIRED_def
  INTERNAL_SERVER_def MISSING_AUTH_CREDENTIALS_def MISSING_OTP_SENDER_SERVICE_def

end
