(* ===== verification/Json_Text.thy ===== *)
theory Json_Text
  imports Prelude "HOL-Library.AList"
begin

text \<open>
  JSON values and their texts: \<open>JSON.stringify\<close>, which the API applies to every packet, and a reader of JSON texts for integers. The reader is
  the concrete \<open>JSON.parse\<close> of the runs in this library; that it gives back what was written shows that no text of a user can
  change the structure of a packet.
\<close>

section \<open>Values and their texts\<close>

datatype json =
    JNull
  | JBool bool
  | JNum int
  | JStr string
  | JArr "json list"
  | JObj "(string \<times> json) list"

text \<open>A property that is left out when it has no value.\<close>

definition jopt :: "string \<Rightarrow> string option \<Rightarrow> (string \<times> json) list" where
  "jopt k v = (case v of None \<Rightarrow> [] | Some s \<Rightarrow> [(k, JStr s)])"

text \<open>\<open>JSON.stringify\<close> with its escapes; a property whose value is \<open>undefined\<close> is left out.\<close>

definition hexDigit :: "nat \<Rightarrow> char" where
  "hexDigit n = (if n < 10 then char_of (48 + n) else char_of (87 + n))"

definition escapeChar :: "char \<Rightarrow> string" where
  "escapeChar c =
     (let n = of_char c :: nat; backslash = CHR 0x5C in
      if c = CHR 0x22 \<or> c = backslash then [backslash, c]
      else if n = 8 then [backslash, CHR ''b''] else if n = 9 then [backslash, CHR ''t'']
      else if n = 10 then [backslash, CHR ''n''] else if n = 12 then [backslash, CHR ''f'']
      else if n = 13 then [backslash, CHR ''r'']
      else if n < 32 then [backslash] @ ''u00'' @ [hexDigit (n div 16), hexDigit (n mod 16)]
      else [c])"

definition stringText :: "string \<Rightarrow> string" where
  "stringText s = [CHR 0x22] @ concat (map escapeChar s) @ [CHR 0x22]"

fun stringifyMessage :: "json \<Rightarrow> string" and elementTexts :: "json list \<Rightarrow> string list" and propertyTexts :: "(string \<times> json) list \<Rightarrow> string list" where
  "stringifyMessage JNull = ''null''"
| "stringifyMessage (JBool b) = (if b then ''true'' else ''false'')"
| "stringifyMessage (JNum n) = (if n < 0 then ''-'' @ decimal (nat (- n)) else decimal (nat n))"
| "stringifyMessage (JStr s) = stringText s"
| "stringifyMessage (JArr xs) = ''['' @ join_with (CHR '','') (elementTexts xs) @ '']''"
| "stringifyMessage (JObj ps) = ''{'' @ join_with (CHR '','') (propertyTexts ps) @ ''}''"
| "elementTexts [] = []"
| "elementTexts (x # xs) = stringifyMessage x # elementTexts xs"
| "propertyTexts [] = []"
| "propertyTexts ((k, v) # ps) = (stringText k @ '':'' @ stringifyMessage v) # propertyTexts ps"

section \<open>Reading a text\<close>

text \<open>Between the tokens of a text there may be blanks.\<close>

definition skip :: "string \<Rightarrow> string" where
  "skip s = dropWhile (\<lambda>c. c \<in> {CHR '' '', CHR 0x09, CHR 0x0A, CHR 0x0D}) s"

definition digitValue :: "char \<Rightarrow> nat option" where
  "digitValue c = (let n = of_char c in if 48 \<le> n \<and> n < (58::nat) then Some (n - 48)
     else if 97 \<le> n \<and> n < 103 then Some (n - 87) else if 65 \<le> n \<and> n < 71 then Some (n - 55) else None)"

definition isDigit :: "char \<Rightarrow> bool" where
  "isDigit c = (48 \<le> (of_char c :: nat) \<and> (of_char c :: nat) < 58)"

definition simpleEscape :: "char \<Rightarrow> char option" where
  "simpleEscape c = map_of [(CHR 0x22, CHR 0x22), (CHR 0x5C, CHR 0x5C), (CHR ''/'', CHR ''/''), (CHR ''b'', CHR 0x08), (CHR ''f'', CHR 0x0C),
     (CHR ''n'', CHR 0x0A), (CHR ''r'', CHR 0x0D), (CHR ''t'', CHR 0x09)] c"

text \<open>The characters of a string up to the closing quote. Of the escapes with a number those of ASCII characters are read.\<close>

fun readChars :: "string \<Rightarrow> (string \<times> string) option" where
  "readChars (c # cs) =
     (if c = CHR 0x22 then Some ([], cs)
      else if c \<noteq> CHR 0x5C then (if of_char c < (32::nat) then None else map_option (\<lambda>(t, r). (c # t, r)) (readChars cs))
      else (case cs of
          e # a # b # x # y # es \<Rightarrow>
            if e = CHR ''u'' then (case (digitValue a, digitValue b, digitValue x, digitValue y) of
                (Some 0, Some 0, Some h, Some l) \<Rightarrow> if h < 8 then map_option (\<lambda>(t, r). (char_of (16 * h + l) # t, r)) (readChars es) else None
              | _ \<Rightarrow> None)
            else (case simpleEscape e of None \<Rightarrow> None | Some d \<Rightarrow> map_option (\<lambda>(t, r). (d # t, r)) (readChars (a # b # x # y # es)))
        | e # es \<Rightarrow> (case simpleEscape e of None \<Rightarrow> None | Some d \<Rightarrow> map_option (\<lambda>(t, r). (d # t, r)) (readChars es))
        | [] \<Rightarrow> None))"
| "readChars [] = None"

definition readDigits :: "string \<Rightarrow> (nat \<times> string) option" where
  "readDigits s = (let ds = takeWhile isDigit s in
     if ds = [] then None else Some (foldl (\<lambda>n c. 10 * n + (of_char c - 48)) 0 ds, dropWhile isDigit s))"

definition readInt :: "string \<Rightarrow> (int \<times> string) option" where
  "readInt s = (case s of
      c # cs \<Rightarrow> if c = CHR ''-'' then map_option (\<lambda>(n, r). (- int n, r)) (readDigits cs) else map_option (\<lambda>(n, r). (int n, r)) (readDigits s)
    | [] \<Rightarrow> None)"

text \<open>A later property of the same name replaces the value of the earlier one.\<close>

definition assigned :: "(string \<times> json) list \<Rightarrow> (string \<times> json) list" where
  "assigned ps = foldl (\<lambda>qs (k, v). AList.update k v qs) [] ps"

text \<open>The fuel bounds the depth; the length of the text is enough.\<close>

fun parseValue :: "nat \<Rightarrow> string \<Rightarrow> (json \<times> string) option"
  and parseElements :: "nat \<Rightarrow> string \<Rightarrow> (json list \<times> string) option"
  and parseMembers :: "nat \<Rightarrow> string \<Rightarrow> ((string \<times> json) list \<times> string) option" where
  "parseValue 0 s = None"
| "parseValue (Suc n) s = (case skip s of
      [] \<Rightarrow> None
    | c # cs \<Rightarrow>
        if c = CHR 0x22 then map_option (\<lambda>(t, r). (JStr t, r)) (readChars cs)
        else if c = CHR ''['' then (if take 1 (skip cs) = '']'' then Some (JArr [], drop 1 (skip cs))
          else map_option (\<lambda>(xs, r). (JArr xs, r)) (parseElements n cs))
        else if c = CHR ''{'' then (if take 1 (skip cs) = ''}'' then Some (JObj [], drop 1 (skip cs))
          else map_option (\<lambda>(ps, r). (JObj (assigned ps), r)) (parseMembers n cs))
        else if take 4 (c # cs) = ''null'' then Some (JNull, drop 4 (c # cs))
        else if take 4 (c # cs) = ''true'' then Some (JBool True, drop 4 (c # cs))
        else if take 5 (c # cs) = ''false'' then Some (JBool False, drop 5 (c # cs))
        else map_option (\<lambda>(k, r). (JNum k, r)) (readInt (c # cs)))"
| "parseElements 0 s = None"
| "parseElements (Suc n) s = (case parseValue n s of
      None \<Rightarrow> None
    | Some (v, r) \<Rightarrow> (case skip r of
        c # q \<Rightarrow> if c = CHR '','' then map_option (\<lambda>(vs, q'). (v # vs, q')) (parseElements n q) else if c = CHR '']'' then Some ([v], q) else None
      | [] \<Rightarrow> None))"
| "parseMembers 0 s = None"
| "parseMembers (Suc n) s = (case skip s of
      d # cs \<Rightarrow> if d \<noteq> CHR 0x22 then None else (case readChars cs of
          None \<Rightarrow> None
        | Some (k, r) \<Rightarrow> (if take 1 (skip r) \<noteq> '':'' then None else (case parseValue n (drop 1 (skip r)) of
            None \<Rightarrow> None
          | Some (v, q) \<Rightarrow> (case skip q of
              c # q' \<Rightarrow> if c = CHR '','' then map_option (\<lambda>(ps, z). ((k, v) # ps, z)) (parseMembers n q')
                else if c = CHR ''}'' then Some ([(k, v)], q') else None
            | [] \<Rightarrow> None))))
    | [] \<Rightarrow> None)"

definition parseJson :: "string \<Rightarrow> json option" where
  "parseJson s = (case parseValue (Suc (length s)) s of
      None \<Rightarrow> None
    | Some (v, r) \<Rightarrow> if skip r = [] then Some v else None)"

section \<open>What is written is read back\<close>

declare readChars.simps [simp del]

lemma simpleEscape_read:
  assumes "simpleEscape e = Some d"
  shows "readChars (CHR 0x5C # e # s) = map_option (\<lambda>(t, r). (d # t, r)) (readChars s)"
proof -
  have "e \<noteq> CHR ''u''" using assms by (auto simp: simpleEscape_def)
  with assms show ?thesis by (subst readChars.simps) (simp split: list.split)
qed

lemma hexDigit_value: "n < 16 \<Longrightarrow> digitValue (hexDigit n) = Some n"
  by (simp add: hexDigit_def digitValue_def Let_def)

lemma hexDigit_zero: "hexDigit 0 = CHR ''0''"
proof -
  have "of_char (hexDigit 0) = (of_char CHR ''0'' :: nat)" by (simp add: hexDigit_def)
  then show ?thesis by (simp only: of_char_eq_iff)
qed

lemma simple_escapes:
  "escapeChar CHR 0x22 = [CHR 0x5C, CHR 0x22]" "escapeChar CHR 0x5C = [CHR 0x5C, CHR 0x5C]" "escapeChar CHR 0x08 = [CHR 0x5C, CHR ''b'']"
  "escapeChar CHR 0x09 = [CHR 0x5C, CHR ''t'']" "escapeChar CHR 0x0A = [CHR 0x5C, CHR ''n'']" "escapeChar CHR 0x0C = [CHR 0x5C, CHR ''f'']"
  "escapeChar CHR 0x0D = [CHR 0x5C, CHR ''r'']"
  "simpleEscape CHR 0x22 = Some CHR 0x22" "simpleEscape CHR 0x5C = Some CHR 0x5C" "simpleEscape CHR ''b'' = Some CHR 0x08"
  "simpleEscape CHR ''t'' = Some CHR 0x09" "simpleEscape CHR ''n'' = Some CHR 0x0A" "simpleEscape CHR ''f'' = Some CHR 0x0C"
  "simpleEscape CHR ''r'' = Some CHR 0x0D"
  by (simp_all add: escapeChar_def simpleEscape_def Let_def)

lemma readChars_escape: "readChars (escapeChar c @ s) = map_option (\<lambda>(t, r). (c # t, r)) (readChars s)"
proof -
  let ?n = "of_char c :: nat"
  have c: "c = d" if "?n = of_char d" for d using that by simp
  show ?thesis
  proof (cases "c \<in> {CHR 0x22, CHR 0x5C, CHR 0x08, CHR 0x09, CHR 0x0A, CHR 0x0C, CHR 0x0D}")
    case True
    then show ?thesis by (elim insertE emptyE) (simp_all only: simple_escapes append.simps simpleEscape_read)
  next
    case False
    then have other: "c \<noteq> CHR 0x22" "c \<noteq> CHR 0x5C" "?n \<noteq> 8" "?n \<noteq> 9" "?n \<noteq> 10" "?n \<noteq> 12" "?n \<noteq> 13"
      using c[of "CHR 0x08"] c[of "CHR 0x09"] c[of "CHR 0x0A"] c[of "CHR 0x0C"] c[of "CHR 0x0D"] by auto
    show ?thesis
    proof (cases "?n < 32")
      case True
      have esc: "escapeChar c @ s = CHR 0x5C # CHR ''u'' # hexDigit 0 # hexDigit 0 # hexDigit (?n div 16) # hexDigit (?n mod 16) # s"
        using True other by (simp add: escapeChar_def Let_def hexDigit_zero)
      have d: "digitValue (hexDigit 0) = Some 0" "digitValue (hexDigit (?n div 16)) = Some (?n div 16)"
          "digitValue (hexDigit (?n mod 16)) = Some (?n mod 16)" "?n div 16 < 8" "16 * (?n div 16) + ?n mod 16 = ?n"
        using hexDigit_value True by auto
      show ?thesis unfolding esc by (subst readChars.simps) (simp add: d)
    next
      case False
      with other show ?thesis by (simp add: escapeChar_def Let_def readChars.simps(1)[of c])
    qed
  qed
qed

lemma readChars_text: "readChars (concat (map escapeChar t) @ CHR 0x22 # r) = Some (t, r)"
  by (induction t) (simp_all add: readChars.simps(1)[of "CHR 0x22"] readChars_escape)

lemma isDigit_char: "(k::nat) < 10 \<Longrightarrow> isDigit (char_of (48 + k)) \<and> of_char (char_of (48 + k)) - 48 = k"
  by (simp add: isDigit_def)

lemma decimal_digits: "decimal n \<noteq> [] \<and> (\<forall>c \<in> set (decimal n). isDigit c) \<and> foldl (\<lambda>k c. 10 * k + (of_char c - 48)) 0 (decimal n) = n"
proof (induction n rule: decimal.induct)
  case (1 n)
  show ?case
  proof (cases "n < 10")
    case True
    then show ?thesis using isDigit_char[of n] by (simp add: decimal.simps[of n])
  next
    case False
    with 1 show ?thesis using isDigit_char[of "n mod 10"] by (subst (1 2 3) decimal.simps) auto
  qed
qed

definition ends :: "string \<Rightarrow> bool" where
  "ends r \<longleftrightarrow> (r = [] \<or> \<not> isDigit (hd r))"

lemma readDigits_decimal: "ends r \<Longrightarrow> readDigits (decimal n @ r) = Some (n, r)"
proof -
  assume r: "ends r"
  have "takeWhile isDigit (decimal n @ r) = decimal n" "dropWhile isDigit (decimal n @ r) = r"
    using decimal_digits[of n] r by (cases r; auto simp: ends_def takeWhile_append dropWhile_append)+
  then show ?thesis using decimal_digits[of n] by (simp add: readDigits_def)
qed

lemma digit_first: "isDigit c \<Longrightarrow> c \<noteq> CHR 0x22 \<and> c \<noteq> CHR ''['' \<and> c \<noteq> CHR ''{'' \<and> c \<noteq> CHR ''n'' \<and> c \<noteq> CHR ''t'' \<and> c \<noteq> CHR ''f''
    \<and> c \<noteq> CHR ''-'' \<and> c \<noteq> CHR '' '' \<and> c \<noteq> CHR 0x09 \<and> c \<noteq> CHR 0x0A \<and> c \<noteq> CHR 0x0D"
  by (auto simp: isDigit_def)

lemma skip_token: "c \<notin> {CHR '' '', CHR 0x09, CHR 0x0A, CHR 0x0D} \<Longrightarrow> skip (c # s) = c # s"
  by (simp add: skip_def)

lemma parse_number:
  assumes "ends r"
  shows "parseValue (Suc n) (stringifyMessage (JNum k) @ r) = Some (JNum k, r)"
proof (cases "k < 0")
  case True
  have "readInt (CHR ''-'' # decimal (nat (- k)) @ r) = Some (k, r)"
    using True by (simp add: readInt_def readDigits_decimal[OF assms])
  with True show ?thesis by (simp add: skip_token)
next
  case False
  obtain c cs where d: "decimal (nat k) = c # cs" "isDigit c" using decimal_digits[of "nat k"] by (cases "decimal (nat k)") auto
  have "readInt (decimal (nat k) @ r) = Some (k, r)"
    using False digit_first[OF d(2)] readDigits_decimal[OF assms, of "nat k"] unfolding d(1) by (simp add: readInt_def)
  with False digit_first[OF d(2)] show ?thesis unfolding d(1) by (simp add: skip_token d(1))
qed

text \<open>The values of the program: an object has one property of each name.\<close>

fun plainJson :: "json \<Rightarrow> bool" and plainElements :: "json list \<Rightarrow> bool" and plainProperties :: "(string \<times> json) list \<Rightarrow> bool" where
  "plainJson (JArr xs) = plainElements xs"
| "plainJson (JObj ps) = (distinct (map fst ps) \<and> plainProperties ps)"
| "plainJson _ = True"
| "plainElements [] = True"
| "plainElements (x # xs) = (plainJson x \<and> plainElements xs)"
| "plainProperties [] = True"
| "plainProperties ((k, v) # ps) = (plainJson v \<and> plainProperties ps)"

lemma assigned_distinct: "distinct (map fst ps) \<Longrightarrow> assigned ps = ps"
proof -
  have "distinct (map fst (qs @ ps)) \<Longrightarrow> foldl (\<lambda>qs (k, v). AList.update k v qs) qs ps = qs @ ps" for qs
  proof (induction ps arbitrary: qs)
    case (Cons p ps)
    obtain k v where p: "p = (k, v)" by (cases p)
    have "AList.update k v qs = qs @ [(k, v)]" using Cons.prems by (induction qs) (auto simp: p)
    with Cons.IH[of "qs @ [(k, v)]"] Cons.prems show ?case by (simp add: p)
  qed simp
  from this[of "[]"] show "distinct (map fst ps) \<Longrightarrow> assigned ps = ps" by (simp add: assigned_def)
qed

lemma text_first:
  obtains c cs where "stringifyMessage j = c # cs" "c \<notin> {CHR '' '', CHR 0x09, CHR 0x0A, CHR 0x0D, CHR '']'', CHR ''}''}"
proof (cases j)
  case (JNum k)
  obtain c cs where d: "decimal (nat k) = c # cs" "isDigit c" using decimal_digits[of "nat k"] by (cases "decimal (nat k)") auto
  then have "c \<notin> {CHR '']'', CHR ''}''}" by (auto simp: isDigit_def)
  with d digit_first[OF d(2)] JNum that show ?thesis by (cases "k < 0") auto
next
  case (JBool b)
  with that show ?thesis by (cases b) auto
qed (use that in \<open>auto simp: stringText_def\<close>)

lemma skip_text: "skip (stringifyMessage j @ r) = stringifyMessage j @ r"
  by (rule text_first[of j]) (simp add: skip_token)

lemma text_fuel: "length (stringifyMessage j) \<le> n \<Longrightarrow> \<exists>k. n = Suc k"
  by (rule text_first[of j], cases n) simp_all

lemma ends_comma: "ends (CHR '','' # r)" "ends (CHR '']'' # r)" "ends (CHR ''}'' # r)"
  by (simp_all add: ends_def isDigit_def)

lemma elementTexts_Cons: "join_with (CHR '','') (elementTexts (x # xs)) =
    stringifyMessage x @ (if xs = [] then [] else CHR '','' # join_with (CHR '','') (elementTexts xs))"
  by (cases xs) simp_all

lemma propertyTexts_Cons: "join_with (CHR '','') (propertyTexts ((k, v) # ps)) =
    stringText k @ CHR '':'' # stringifyMessage v @ (if ps = [] then [] else CHR '','' # join_with (CHR '','') (propertyTexts ps))"
  by (cases ps) auto

lemma parse_array:
  assumes "xs \<noteq> []" "parseElements k (join_with (CHR '','') (elementTexts xs) @ CHR '']'' # r) = Some (xs, r)"
  shows "parseValue (Suc k) (stringifyMessage (JArr xs) @ r) = Some (JArr xs, r)"
proof -
  obtain y ys where xs: "xs = y # ys" using assms(1) by (cases xs) auto
  have "take 1 (skip (join_with (CHR '','') (elementTexts xs) @ CHR '']'' # r)) \<noteq> '']''"
    unfolding xs elementTexts_Cons append_assoc skip_text by (rule text_first[of y]) simp
  with assms(2) show ?thesis by (simp add: skip_token)
qed

lemma parse_object:
  assumes "ps \<noteq> []" "plainJson (JObj ps)" "parseMembers k (join_with (CHR '','') (propertyTexts ps) @ CHR ''}'' # r) = Some (ps, r)"
  shows "parseValue (Suc k) (stringifyMessage (JObj ps) @ r) = Some (JObj ps, r)"
proof -
  obtain a v qs where ps: "ps = (a, v) # qs" using assms(1) by (cases ps) auto
  have "take 1 (skip (join_with (CHR '','') (propertyTexts ps) @ CHR ''}'' # r)) \<noteq> ''}''"
    unfolding ps propertyTexts_Cons by (simp add: stringText_def skip_token)
  with assms(2,3) show ?thesis by (simp add: skip_token assigned_distinct)
qed

text \<open>One element, or one member, and the list behind it.\<close>

lemma parse_element:
  assumes "\<And>q. ends q \<Longrightarrow> parseValue k (stringifyMessage x @ q) = Some (x, q)"
    "xs \<noteq> [] \<Longrightarrow> parseElements k (join_with (CHR '','') (elementTexts xs) @ CHR '']'' # r) = Some (xs, r)"
  shows "parseElements (Suc k) (join_with (CHR '','') (elementTexts (x # xs)) @ CHR '']'' # r) = Some (x # xs, r)"
proof -
  let ?q = "(if xs = [] then [] else CHR '','' # join_with (CHR '','') (elementTexts xs)) @ CHR '']'' # r"
  have v: "parseValue k (stringifyMessage x @ ?q) = Some (x, ?q)"
    using assms(1)[of ?q] ends_comma by (cases "xs = []") simp_all
  show ?thesis unfolding elementTexts_Cons append_assoc parseElements.simps v using assms(2) by (simp add: skip_token)
qed

lemma parse_property:
  assumes "\<And>q. ends q \<Longrightarrow> parseValue k (stringifyMessage v @ q) = Some (v, q)"
    "ps \<noteq> [] \<Longrightarrow> parseMembers k (join_with (CHR '','') (propertyTexts ps) @ CHR ''}'' # r) = Some (ps, r)"
  shows "parseMembers (Suc k) (join_with (CHR '','') (propertyTexts ((a, v) # ps)) @ CHR ''}'' # r) = Some ((a, v) # ps, r)"
proof -
  let ?q = "(if ps = [] then [] else CHR '','' # join_with (CHR '','') (propertyTexts ps)) @ CHR ''}'' # r"
  have v: "parseValue k (stringifyMessage v @ ?q) = Some (v, ?q)"
    using assms(1)[of ?q] ends_comma by (cases "ps = []") simp_all
  show ?thesis
    unfolding propertyTexts_Cons append_assoc parseMembers.simps stringText_def
    using assms(2) v by (simp add: skip_token readChars_text)
qed

lemma parse_texts:
  "plainJson j \<Longrightarrow> length (stringifyMessage j) \<le> n \<Longrightarrow> ends r \<Longrightarrow> parseValue n (stringifyMessage j @ r) = Some (j, r)"
  "xs \<noteq> [] \<Longrightarrow> plainElements xs \<Longrightarrow> length (join_with (CHR '','') (elementTexts xs)) < n \<Longrightarrow>
     parseElements n (join_with (CHR '','') (elementTexts xs) @ CHR '']'' # r) = Some (xs, r)"
  "ps \<noteq> [] \<Longrightarrow> plainProperties ps \<Longrightarrow> length (join_with (CHR '','') (propertyTexts ps)) < n \<Longrightarrow>
     parseMembers n (join_with (CHR '','') (propertyTexts ps) @ CHR ''}'' # r) = Some (ps, r)"
proof (induction j and xs and ps arbitrary: n r and n r and n r rule: stringifyMessage_elementTexts_propertyTexts.induct)
  case 1
  then show ?case by (cases n) (simp_all add: skip_token)
next
  case (2 b)
  then show ?case by (cases n; cases b) (simp_all add: skip_token)
next
  case (3 k)
  obtain l where n: "n = Suc l" using text_fuel 3(2) by blast
  show ?case unfolding n by (rule parse_number[OF 3(3)])
next
  case (4 s)
  then show ?case by (cases n) (simp_all add: stringText_def skip_token readChars_text)
next
  case (5 xs)
  show ?case
  proof (cases "xs = []")
    case False
    with 5 obtain k where n: "n = Suc k" by (cases n) auto
    show ?thesis unfolding n by (rule parse_array[OF False]) (use 5 False n in simp)
  qed (use 5 in \<open>cases n, simp_all add: skip_token\<close>)
next
  case (6 ps)
  show ?case
  proof (cases "ps = []")
    case False
    with 6 obtain k where n: "n = Suc k" by (cases n) auto
    show ?thesis unfolding n by (rule parse_object[OF False 6(2)]) (use 6 False n in simp)
  qed (use 6 in \<open>cases n, simp_all add: skip_token\<close>)
next
  case (8 x xs)
  then obtain k where n: "n = Suc k" by (cases n) auto
  have "length (stringifyMessage x) \<le> k" "xs \<noteq> [] \<Longrightarrow> length (join_with (CHR '','') (elementTexts xs)) < k"
    using 8(5) unfolding elementTexts_Cons n by auto
  with 8(1,2,4) show ?case unfolding n by (intro parse_element) simp_all
next
  case (10 a v ps)
  then obtain k where n: "n = Suc k" by (cases n) auto
  have "length (stringifyMessage v) \<le> k" "ps \<noteq> [] \<Longrightarrow> length (join_with (CHR '','') (propertyTexts ps)) < k"
    using 10(5) unfolding propertyTexts_Cons n by auto
  with 10(1,2,4) show ?case unfolding n by (intro parse_property) simp_all
qed auto

theorem parse_written: "plainJson j \<Longrightarrow> parseJson (stringifyMessage j) = Some j"
  using parse_texts(1)[of j "Suc (length (stringifyMessage j))" "[]"] by (simp add: parseJson_def ends_def skip_def)

end
