(* ===== verification/Counters.thy ===== *)
theory Counters
  imports Json_Text
begin

text \<open>
  The counters of messages per minute, hour and day: \<open>IncPairDateVal\<close> of \<^verbatim>\<open>services/stats/index.js\<close>. A counter keeps the number of the
  period that runs and the number of the one before it. Dates are formatted and compared by moment, a parameter; what the counters rely
  on is the locale \<open>periods\<close>, which holds for a clock without shifts (UTC). Shown is that a counter answers with the number of messages of
  the previous period, whenever it is asked.
\<close>

section \<open>The counter\<close>

datatype date_type = Minutes | Hours | Days

record calendar =
  cal_format :: "date_type \<Rightarrow> timestamp \<Rightarrow> string"
  cal_diff :: "date_type \<Rightarrow> string \<Rightarrow> timestamp \<Rightarrow> int"

datatype casted = NullValue | UndefinedValue | Counted int

record inc_pair =
  ip_dateTypeKey :: date_type
  ip_castedValue :: casted
  ip_castedKey :: "string option"
  ip_currentValue :: int
  ip_currentKey :: string

definition DATES_DIFF :: int where
  "DATES_DIFF = 2"

definition keyName :: "calendar \<Rightarrow> inc_pair \<Rightarrow> timestamp \<Rightarrow> string" where
  "keyName C p date = cal_format C (ip_dateTypeKey p) date"

definition IncPairDateVal :: "calendar \<Rightarrow> date_type \<Rightarrow> int \<Rightarrow> timestamp \<Rightarrow> inc_pair" where
  "IncPairDateVal C dateTypeKey initValue now = \<lparr>ip_dateTypeKey = dateTypeKey, ip_castedValue = NullValue, ip_castedKey = None,
     ip_currentValue = initValue, ip_currentKey = cal_format C dateTypeKey now\<rparr>"

definition isDateDiffCritical :: "calendar \<Rightarrow> inc_pair \<Rightarrow> timestamp \<Rightarrow> bool" where
  "isDateDiffCritical C p date \<longleftrightarrow> \<bar>cal_diff C (ip_dateTypeKey p) (ip_currentKey p) date\<bar> \<ge> DATES_DIFF"

definition castPair :: "calendar \<Rightarrow> inc_pair \<Rightarrow> timestamp \<Rightarrow> inc_pair" where
  "castPair C p date = p\<lparr>ip_castedValue := (if isDateDiffCritical C p date then Counted 0 else Counted (ip_currentValue p)),
     ip_castedKey := Some (ip_currentKey p), ip_currentValue := 0, ip_currentKey := keyName C p date\<rparr>"

definition incPair :: "calendar \<Rightarrow> inc_pair \<Rightarrow> int \<Rightarrow> timestamp \<Rightarrow> inc_pair" where
  "incPair C p i date = (let p1 = (if keyName C p date \<noteq> ip_currentKey p then castPair C p date else p)
     in p1\<lparr>ip_currentValue := ip_currentValue p1 + i\<rparr>)"

definition retrieve :: "calendar \<Rightarrow> inc_pair \<Rightarrow> timestamp \<Rightarrow> casted \<times> inc_pair" where
  "retrieve C p date = (let checkDateKey = keyName C p date; p1 = (if checkDateKey \<noteq> ip_currentKey p then castPair C p date else p)
     in (if ip_castedKey p1 \<noteq> Some checkDateKey then ip_castedValue p1 else UndefinedValue, p1))"

definition resetPair :: "calendar \<Rightarrow> inc_pair \<Rightarrow> timestamp \<Rightarrow> inc_pair" where
  "resetPair C p date = p\<lparr>ip_castedValue := UndefinedValue, ip_castedKey := None, ip_currentValue := 0, ip_currentKey := keyName C p date\<rparr>"

section \<open>What a counter promises\<close>

text \<open>The uses of a counter, and the number of messages counted in a period.\<close>

datatype counting = Inc int timestamp | Retrieve timestamp

primrec time_of :: "counting \<Rightarrow> timestamp" where
  "time_of (Inc i t) = t"
| "time_of (Retrieve t) = t"

definition count_step :: "calendar \<Rightarrow> counting \<Rightarrow> inc_pair \<Rightarrow> inc_pair" where
  "count_step C e p = (case e of Inc i t \<Rightarrow> incPair C p i t | Retrieve t \<Rightarrow> snd (retrieve C p t))"

definition amount :: "(timestamp \<Rightarrow> nat) \<Rightarrow> nat \<Rightarrow> counting list \<Rightarrow> int" where
  "amount period k es = sum_list (map (\<lambda>e. case e of Inc i t \<Rightarrow> if period t = k then i else 0 | Retrieve t \<Rightarrow> 0) es)"

lemma amount_simps [simp]:
  "amount period k [] = 0" "amount period k (es @ fs) = amount period k es + amount period k fs"
  "amount period k [Inc i t] = (if period t = k then i else 0)" "amount period k [Retrieve t] = 0"
  by (simp_all add: amount_def)

lemma amount_none: "\<forall>e \<in> set es. period (time_of e) \<noteq> k \<Longrightarrow> amount period k es = 0"
  by (induction es) (auto simp: amount_def split: counting.split)

text \<open>Formatting tells periods apart and differences count them.\<close>

locale periods =
  fixes C :: calendar and period :: "date_type \<Rightarrow> timestamp \<Rightarrow> nat"
  assumes same_key: "cal_format C d t = cal_format C d t' \<longleftrightarrow> period d t = period d t'"
    and ordered: "t \<le> t' \<Longrightarrow> period d t \<le> period d t'"
    and distance: "t \<le> t' \<Longrightarrow> cal_diff C d (cal_format C d t) t' = int (period d t) - int (period d t')"
begin

text \<open>After the events \<open>es\<close>, the last one at \<open>t\<close>, of a counter created at \<open>t0\<close>.\<close>

definition tracks :: "date_type \<Rightarrow> timestamp \<Rightarrow> counting list \<Rightarrow> timestamp \<Rightarrow> inc_pair \<Rightarrow> bool" where
  "tracks d t0 es t p \<longleftrightarrow> ip_dateTypeKey p = d \<and> ip_currentKey p = cal_format C d t \<and> ip_currentValue p = amount (period d) (period d t) es \<and>
     (\<forall>e \<in> set es. time_of e \<le> t) \<and> t0 \<le> t \<and>
     (if period d t = period d t0 then ip_castedKey p = None \<and> ip_castedValue p = NullValue
      else ip_castedValue p = Counted (amount (period d) (period d t - 1) es) \<and>
        (\<exists>t1. ip_castedKey p = Some (cal_format C d t1) \<and> period d t1 < period d t))"

lemma tracks_new: "tracks d t0 [] t0 (IncPairDateVal C d 0 t0)"
  by (simp add: tracks_def IncPairDateVal_def)

lemma tracks_same:
  assumes "tracks d t0 es t p" "t \<le> t'" "period d t' = period d t"
  shows "tracks d t0 es t' p"
  using assms same_key[of d t t'] unfolding tracks_def by (auto intro: order.trans)

lemma tracks_cast:
  assumes "tracks d t0 es t p" "t \<le> t'" "period d t' \<noteq> period d t"
  shows "tracks d t0 es t' (castPair C p t')"
proof -
  let ?n = "amount (period d)"
  have p: "ip_dateTypeKey p = d" "ip_currentKey p = cal_format C d t" "ip_currentValue p = ?n (period d t) es" "\<forall>e \<in> set es. time_of e \<le> t" "t0 \<le> t"
    using assms(1) by (simp_all add: tracks_def)
  have lt: "period d t < period d t'" "period d t0 < period d t'"
    using ordered[OF assms(2), of d] ordered[OF p(5), of d] assms(3) by simp_all
  have none: "?n k es = 0" if "period d t < k" for k
    using amount_none[of es "period d" k] that p(4) ordered[of _ t d] by (metis leD)
  have "isDateDiffCritical C p t' \<longleftrightarrow> period d t' \<ge> period d t + 2"
    using distance[OF assms(2), of d] lt p by (auto simp: isDateDiffCritical_def DATES_DIFF_def)
  moreover have "?n (period d t) es = ?n (period d t' - 1) es" if "\<not> period d t' \<ge> period d t + 2"
    using that lt by (metis Suc_eq_plus1 Suc_leI add_2_eq_Suc' diff_Suc_1 le_antisym not_less_eq_eq)
  moreover have "?n (period d t' - 1) es = 0" if "period d t' \<ge> period d t + 2" using that by (intro none) simp
  ultimately have "ip_castedValue (castPair C p t') = Counted (?n (period d t' - 1) es)"
    using p(3) by (simp add: castPair_def)
  with p lt none[OF lt(1)] assms(2) show ?thesis by (auto simp: tracks_def castPair_def keyName_def intro: order.trans)
qed

text \<open>A use of the counter first brings it to its period.\<close>

lemma tracks_roll:
  assumes "tracks d t0 es t p" "t \<le> t'"
  shows "tracks d t0 es t' (if keyName C p t' \<noteq> ip_currentKey p then castPair C p t' else p)"
proof -
  have "keyName C p t' = ip_currentKey p \<longleftrightarrow> period d t' = period d t"
    using assms(1) same_key[of d t' t] by (simp add: tracks_def keyName_def)
  then show ?thesis using tracks_same[OF assms] tracks_cast[OF assms] by simp
qed

lemma tracks_step:
  assumes "tracks d t0 es t p" "t \<le> time_of e"
  shows "tracks d t0 (es @ [e]) (time_of e) (count_step C e p)"
proof (cases e)
  case (Inc i t')
  with tracks_roll[OF assms] assms(2) show ?thesis by (auto simp: tracks_def count_step_def incPair_def Let_def)
next
  case (Retrieve t')
  with tracks_roll[OF assms] assms(2) show ?thesis by (auto simp: tracks_def count_step_def retrieve_def Let_def)
qed

lemma tracks_run:
  assumes "sorted (t # map time_of fs)" "tracks d t0 es t p"
  shows "tracks d t0 (es @ fs) (time_of (last (Retrieve t # fs))) (fold (count_step C) fs p)"
  using assms
proof (induction fs arbitrary: es t p)
  case Nil
  then show ?case by simp
next
  case (Cons e fs)
  have "tracks d t0 (es @ [e]) (time_of e) (count_step C e p)" using Cons.prems by (intro tracks_step) auto
  with Cons.IH[of "time_of e" "es @ [e]" "count_step C e p"] Cons.prems(1) show ?case by auto
qed

lemma tracks_retrieve:
  assumes "tracks d t0 es t p" "t \<le> t'"
  shows "fst (retrieve C p t') = (if period d t' = period d t0 then NullValue else Counted (amount (period d) (period d t' - 1) es))"
proof -
  have "ip_dateTypeKey p = d" using assms(1) by (simp add: tracks_def)
  with tracks_roll[OF assms] show ?thesis by (auto simp: tracks_def retrieve_def Let_def keyName_def same_key split: if_splits)
qed

lemma previous_period:
  assumes "sorted (t0 # map time_of es @ [t])"
  shows "fst (retrieve C (fold (count_step C) es (IncPairDateVal C d 0 t0)) t) =
    (if period d t = period d t0 then NullValue else Counted (amount (period d) (period d t - 1) es))"
proof -
  have "sorted (t0 # map time_of es)" "time_of (last (Retrieve t0 # es)) \<le> t"
    using assms by (auto simp: sorted_append)
  then show ?thesis using tracks_retrieve[OF tracks_run[OF _ tracks_new, of t0 es d]] by simp
qed

end

section \<open>Coordinated universal time\<close>

text \<open>A calendar for concrete runs.\<close>

primrec period_ms :: "date_type \<Rightarrow> nat" where
  "period_ms Minutes = 60000"
| "period_ms Hours = 3600000"
| "period_ms Days = 86400000"

definition utc_period :: "date_type \<Rightarrow> timestamp \<Rightarrow> nat" where
  "utc_period d t = t div period_ms d"

definition utc_calendar :: calendar where
  "utc_calendar = \<lparr>cal_format = (\<lambda>d t. decimal (utc_period d t)),
     cal_diff = (\<lambda>d k t. int (foldl (\<lambda>n c. 10 * n + (of_char c - 48)) 0 k) - int (utc_period d t))\<rparr>"

interpretation utc: periods utc_calendar utc_period
proof -
  have inj: "decimal m = decimal n \<longleftrightarrow> m = n" for m n using decimal_digits[of m] decimal_digits[of n] by metis
  show "periods utc_calendar utc_period"
    by unfold_locales (simp_all add: utc_calendar_def utc_period_def div_le_mono inj decimal_digits)
qed

text \<open>C29: A counter of messages refines the list of what was counted: asked at any time after any sequence of messages and questions, it answers with
  exactly the number of messages of the previous minute, hour or day, zero when there was none, however long nobody asked, and with \<open>null\<close> in the period
  in which it was created.\<close>

theorem retrieve_previous_period:
  assumes "periods C period" "sorted (t0 # map time_of es @ [t])"
  shows "fst (retrieve C (fold (count_step C) es (IncPairDateVal C d 0 t0)) t) =
    (if period d t = period d t0 then NullValue else Counted (amount (period d) (period d t - 1) es))"
  by (rule periods.previous_period[OF assms])

theorem retrieve_previous_period_witness:
  "fst (retrieve utc_calendar (fold (count_step utc_calendar) [Inc 1 1000, Inc 1 61000, Retrieve 62000, Inc 1 63000, Inc 1 119000]
      (IncPairDateVal utc_calendar Minutes 0 1000)) 120000) = Counted 3"
  using retrieve_previous_period[OF utc.periods_axioms, of 1000 "[Inc 1 1000, Inc 1 61000, Retrieve 62000, Inc 1 63000, Inc 1 119000]" 120000 Minutes]
  by (simp add: utc_period_def amount_def)

end
