(* ===== verification/Model.thy ===== *)
theory Model
  imports Mongo Redis Errors Counters
begin

text \<open>
  The data of the server: the documents of its collections (\<^verbatim>\<open>app/models\<close>), the
  in-memory stores of a node (\<^verbatim>\<open>app/store\<close>), the state \<open>world\<close> that a request handler
  reads and writes, and \<open>env\<close>, the configuration and the libraries a node is
  started with. \<open>env_ok\<close> collects the documented behaviour of these libraries.
\<close>

section \<open>Documents\<close>

record organization =
  o_id :: oid
  o_is_blocked :: bool
  o_block_reason :: "string option"
  o_name :: "json option"
  o_created_at :: timestamp
  o_updated_at :: timestamp

record user =
  u_id :: oid
  u_organization_id :: oid
  u_login :: string
  u_email :: "string option"
  u_phone :: "string option"
  u_first_name :: "string option"
  u_last_name :: "string option"
  u_encrypted_password :: "string option"
  u_password_salt :: "string option"
  u_avatar_object :: "(string \<times> json) list option"
  u_recent_activity :: nat
  u_created_at :: timestamp
  u_updated_at :: timestamp

datatype conv_type = Private | Group | Channel \<comment> \<open>\<open>"u"\<close>, \<open>"g"\<close>, \<open>"c"\<close>\<close>

text \<open>A number that arithmetic on a missing value may have turned into \<open>NaN\<close>.\<close>

datatype js_number = JsInt int | JsNaN

fun js_plus :: "js_number \<Rightarrow> int \<Rightarrow> js_number" where
  "js_plus (JsInt a) b = JsInt (a + b)"
| "js_plus JsNaN b = JsNaN"

fun js_greater :: "js_number \<Rightarrow> int \<Rightarrow> bool" where
  "js_greater (JsInt a) b = (a > b)"
| "js_greater JsNaN b = False"

text \<open>\<open>n ?? 0\<close>\<close>

definition orZero :: "js_number option \<Rightarrow> js_number" where
  "orZero n = (case n of None \<Rightarrow> JsInt 0 | Some x \<Rightarrow> x)"

text \<open>
  A conversation; \<open>image_url\<close>, \<open>last_message\<close> and \<open>unread_messages_count\<close> are fields of the value in memory only,
  no stored document has them. The \<open>participants\<close> of a document are those of the last request that edited it: the rows of
  the participants are a collection of their own.
\<close>

record conversation =
  c_id :: oid
  c_organization_id :: oid
  c_type :: conv_type
  c_name :: "string option"
  c_description :: "string option"
  c_owner_id :: oid
  c_opponent_id :: "oid option"
  c_is_encrypted :: "bool option"
  c_image_object :: "json option"
  c_image_url :: "string option"
  c_last_message :: "json option"
  c_unread_messages_count :: "nat option"
  c_participants :: "json option"
  c_subscribers_count :: "js_number option"
  c_created_at :: timestamp
  c_updated_at :: timestamp

datatype role = OwnerRole | AdminRole

record participant =
  cp_id :: oid
  cp_organization_id :: oid
  cp_conversation_id :: oid
  cp_user_id :: oid
  cp_role :: "role option"
  cp_created_at :: timestamp
  cp_updated_at :: timestamp

record message =
  m_id :: oid
  m_organization_id :: oid
  m_cid :: oid
  m_from :: oid
  m_t :: timestamp
  m_body :: "string option"
  m_attachments :: "json list option"
  m_x :: "(string \<times> json) list option"
  m_replied_message_id :: "oid option"
  m_forwarded_message_id :: "oid option"
  m_encrypted_message_type :: "nat option"
  m_deleted_for :: "oid list"
  m_created_at :: timestamp
  m_updated_at :: timestamp

datatype read_status = ReadStatus | DecryptionFailedStatus

record message_status =
  ms_id :: oid
  ms_cid :: oid
  ms_mid :: oid
  ms_user_id :: oid
  ms_status :: read_status
  ms_created_at :: timestamp
  ms_updated_at :: timestamp

record message_reaction =
  mr_id :: oid
  mr_mid :: oid
  mr_user_id :: oid
  mr_reaction :: string
  mr_created_at :: timestamp
  mr_updated_at :: timestamp

record blocked_user =
  bu_id :: oid
  bu_organization_id :: oid
  bu_enabled :: bool
  bu_user_id :: oid
  bu_blocked_user_id :: oid
  bu_created_at :: timestamp
  bu_updated_at :: timestamp

datatype token_value = Jwt string | Otp nat
datatype token_type = AccessToken | RefreshToken | OtpToken

record user_token =
  t_id :: oid
  t_organization_id :: oid
  t_user_id :: oid
  t_device_id :: string
  t_type :: token_type
  t_token :: token_value
  t_created_at :: timestamp
  t_updated_at :: timestamp

record conversation_handler =
  ch_id :: oid
  ch_conversation_id :: oid
  ch_content :: string
  ch_updated_by :: oid
  ch_created_at :: timestamp
  ch_updated_at :: timestamp

text \<open>
  The one-time keys of a device are an object, here its properties in the order in which JavaScript lists them, or an array, in which
  an element that was unset is \<open>null\<close>.
\<close>

datatype one_time_keys = KeyObject "(string \<times> string) list" | KeyArray "string option list"

record encrypted_device =
  ed_id :: oid
  ed_user_id :: oid
  ed_device_id :: string
  ed_identity_key :: string
  ed_signed_key :: string
  ed_one_time_pre_keys :: one_time_keys

text \<open>
  The delivery status of an encrypted message: one field per identity key of a device that has
  not received it yet, each with the value \<open>"notdelivered"\<close>.
\<close>

record encrypted_message_status =
  es_id :: oid
  es_mid :: oid
  es_cid :: oid
  es_keys :: "string list"
  es_created_at :: timestamp
  es_updated_at :: timestamp

record contact_value =
  cval_type :: "string option"
  cval_value :: "string option"
  cval_matched_user_id :: "oid option"

record contact =
  ct_id :: oid
  ct_organization_id :: oid
  ct_user_id :: oid
  ct_first_name :: "string option"
  ct_last_name :: "string option"
  ct_company :: "string option"
  ct_email :: "contact_value list option"
  ct_phone :: "contact_value list option"
  ct_created_at :: timestamp
  ct_updated_at :: timestamp

record op_log =
  ol_id :: oid
  ol_user_id :: oid
  ol_packet :: string
  ol_created_at :: timestamp
  ol_updated_at :: timestamp

record push_subscription =
  ps_id :: oid
  ps_organization_id :: oid
  ps_user_id :: oid
  ps_device_udid :: string
  ps_platform :: string
  ps_web_endpoint :: "string option"
  ps_web_key_auth :: "string option"
  ps_web_key_p256dh :: "string option"
  ps_device_token :: "string option"
  ps_created_at :: timestamp
  ps_updated_at :: timestamp

record push_event =
  pe_id :: oid
  pe_user_id :: oid
  pe_user_ids :: "oid list"
  pe_message :: string
  pe_created_at :: timestamp
  pe_updated_at :: timestamp

record stored_file =
  sf_id :: oid
  sf_organization_id :: oid
  sf_user_id :: oid
  sf_name :: string
  sf_size :: nat
  sf_content_type :: string
  sf_object_id :: string
  sf_created_at :: timestamp
  sf_updated_at :: timestamp

text \<open>The unique indexes of the collections (\<^verbatim>\<open>migrations/\<close>).\<close>

definition users_clash :: "user \<Rightarrow> user \<Rightarrow> bool" where
  "users_clash a b \<longleftrightarrow> u_organization_id a = u_organization_id b \<and>
     (u_login a = u_login b \<or>
      (u_email a \<noteq> None \<and> u_email a \<noteq> Some [] \<and> u_email a = u_email b) \<or>
      (u_phone a \<noteq> None \<and> u_phone a \<noteq> Some [] \<and> u_phone a = u_phone b))"

definition blocked_clash :: "blocked_user \<Rightarrow> blocked_user \<Rightarrow> bool" where
  "blocked_clash a b \<longleftrightarrow> bu_user_id a = bu_user_id b \<and> bu_blocked_user_id a = bu_blocked_user_id b"

definition devices_clash :: "encrypted_device \<Rightarrow> encrypted_device \<Rightarrow> bool" where
  "devices_clash a b \<longleftrightarrow> ed_user_id a = ed_user_id b \<and> ed_device_id a = ed_device_id b"

section \<open>In-memory stores\<close>

text \<open>
  A socket is an object, known by its identity. \<open>SESSIONS\<close> is a \<open>Map\<close>, which lists its
  entries in insertion order; \<open>DEVICES\<close> is an object whose property for a user is absent or a list of connections.
\<close>

type_synonym socket = nat

record session =
  s_organizationId :: oid
  s_userId :: oid
  s_extraParams :: "string \<rightharpoonup> string"

record connection =
  cn_socket :: socket
  cn_deviceId :: string
  cn_organizationId :: oid

text \<open>
  The protocol a socket speaks (\<open>socket.apiType\<close>, set by its first package); the bytes of an incomplete character that the text decoder of the
  process holds back; and what leaves the node: \<open>outbox\<close> lists the packages written
  to sockets, \<open>clusterOutbox\<close> the packets handed to the links to other nodes (the endpoint, the recipient and the
  packet), \<open>pushQueue\<close> the jobs added to the push queue. \<open>clusterNodesConnections\<close> and
  \<open>reconnectingNodesConnections\<close> are the \<open>Map\<close>s of \<open>ClusterManager\<close>: the link to each other node, and for each node that is being
  reconnected whether its \<open>ReconnectManager\<close> has finished. \<open>linkOutbox\<close> lists what was sent on the links, \<open>closedLinks\<close> the links that this node closed.
\<close>

datatype api_type = JSON | XMPP

text \<open>What is written to a HTTP response, and the health of a service the node depends on.\<close>

record http_reply =
  hr_status :: nat
  hr_headers :: "(string \<times> string) list"
  hr_body :: "string option"

record dependency =
  dp_name :: string
  dp_error :: "string option"

record world =
  organizations :: "organization list"
  users :: "user list"
  conversations :: "conversation list"
  participants :: "participant list"
  messages :: "message list"
  message_statuses :: "message_status list"
  message_reactions :: "message_reaction list"
  blocked_users :: "blocked_user list"
  user_tokens :: "user_token list"
  conversation_handlers :: "conversation_handler list"
  encrypted_devices :: "encrypted_device list"
  encrypted_statuses :: "encrypted_message_status list"
  contacts :: "contact list"
  operations_log :: "op_log list"
  push_subscriptions :: "push_subscription list"
  push_events :: "push_event list"
  files :: "stored_file list"
  redis :: redis_store
  SESSIONS :: "(socket \<times> session) list"
  DEVICES :: "oid \<rightharpoonup> connection list"
  SUBSCRIBED_TO :: "oid \<rightharpoonup> oid"
  SUBSCRIBERS :: "oid \<rightharpoonup> oid list"
  apiTypes :: "socket \<rightharpoonup> api_type"
  decoderBuffer :: string
  outbox :: "(socket \<times> string) list"
  clusterOutbox :: "(string \<times> oid \<times> string) list"
  pushQueue :: "(push_subscription list \<times> string) list"
  clusterNodesConnections :: "(string \<times> socket) list"
  reconnectingNodesConnections :: "(string \<times> bool) list"
  linkOutbox :: "(socket \<times> oid \<times> string) list"
  closedLinks :: "socket list"
  httpOutbox :: "(socket \<times> http_reply) list"
  packageListeners :: "socket \<rightharpoonup> api_type"
  messagesPerMinute :: inc_pair
  messagesPerHour :: inc_pair
  messagesPerDay :: inc_pair
  dependenciesStatus :: "(dependency list \<times> timestamp) option"
  clock :: timestamp
  entropy :: nat

section \<open>Configuration and libraries\<close>

record message_params =
  mp_id :: "string option"
  mp_cid :: oid
  mp_body :: "string option"
  mp_attachments :: "json list option"
  mp_x :: "(string \<times> json) list option"
  mp_replied_message_id :: "oid option"
  mp_forwarded_message_id :: "oid option"
  mp_encrypted_message_type :: "nat option"
  mp_deleted_for :: "oid list"

record handler_result =
  hr_accept :: bool
  hr_body :: "json option"
  hr_attachments :: "json list option"
  hr_isReplaceBody :: bool
  hr_errorMessage :: "string option"

text \<open>What a packet carries about its sender, and what its translation knows of a recipient.\<close>

record sender_info =
  si_organizationId :: oid
  si_apiType :: "api_type option"
  si_session :: "session option"
  si_deviceId :: "string option"
  si_node :: string

record recipient_info =
  ri_apiType :: "api_type option"
  ri_session :: "session option"
  ri_deviceId :: string

record env =
  cfg_useXMPP :: bool
  cfg_isStandAloneNode :: bool
  cfg_clusterEndpoint :: string
  cfg_maxParticipants :: nat
  cfg_disableChannelsLogic :: bool
  cfg_isEventsEnabled :: bool
  cfg_messagesPreloadCount :: nat
  cfg_conversationsPreloadCount :: nat
  cfg_chatBotLogin :: string
  cfg_searchLimit :: nat
  cfg_expireDownloadUrl :: nat
  cfg_ip :: string
  cfg_hostName :: string
  cfg_clusterPort :: string
  cfg_isSecure :: bool
  cfg_nodeExpiresIn :: nat
  mg_organizations :: "organization collection"
  mg_users :: "user collection"
  mg_conversations :: "conversation collection"
  mg_participants :: "participant collection"
  mg_messages :: "message collection"
  mg_message_statuses :: "message_status collection"
  mg_message_reactions :: "message_reaction collection"
  mg_blocked_users :: "blocked_user collection"
  mg_user_tokens :: "user_token collection"
  mg_conversation_handlers :: "conversation_handler collection"
  mg_encrypted_devices :: "encrypted_device collection"
  mg_encrypted_statuses :: "encrypted_message_status collection"
  mg_contacts :: "contact collection"
  mg_operations_log :: "op_log collection"
  mg_push_subscriptions :: "push_subscription collection"
  mg_push_events :: "push_event collection"
  mg_files :: "stored_file collection"
  rd :: redis_ops
  sandbox :: "string \<Rightarrow> message_params \<Rightarrow> user \<Rightarrow> handler_result"
  sha512 :: "string \<Rightarrow> string"
  jwt_sign :: "oid \<Rightarrow> string \<Rightarrow> token_type \<Rightarrow> nat \<Rightarrow> string"
  randomSalt :: "nat \<Rightarrow> string"
  randomOtp :: "nat \<Rightarrow> nat"
  uploadUrl :: "string \<Rightarrow> nat \<Rightarrow> string \<times> string"
  downloadUrl :: "string \<Rightarrow> nat \<Rightarrow> string"
  xmppFromJson :: "sender_info \<Rightarrow> recipient_info \<Rightarrow> string \<Rightarrow> string list"
  xmppToJson :: "sender_info \<Rightarrow> recipient_info \<Rightarrow> string \<Rightarrow> string list"
  xmppRecipient :: "sender_info \<Rightarrow> recipient_info \<Rightarrow> string \<Rightarrow> string"
  xmppLastActivity :: "oid \<Rightarrow> oid \<Rightarrow> oid \<Rightarrow> nat \<Rightarrow> bool \<Rightarrow> string"
  jsonParse :: "string \<Rightarrow> json option"
  detectXmpp :: "string \<Rightarrow> bool"
  regexTest :: "string \<Rightarrow> (string \<Rightarrow> bool) option"
  generateText :: "string \<Rightarrow> string option"

definition mongo_ok :: "env \<Rightarrow> bool" where
  "mongo_ok E \<longleftrightarrow>
     coll_ok o_id no_clash (mg_organizations E) \<and>
     coll_ok u_id users_clash (mg_users E) \<and>
     coll_ok c_id no_clash (mg_conversations E) \<and>
     coll_ok cp_id no_clash (mg_participants E) \<and>
     coll_ok m_id no_clash (mg_messages E) \<and>
     coll_ok ms_id no_clash (mg_message_statuses E) \<and>
     coll_ok mr_id no_clash (mg_message_reactions E) \<and>
     coll_ok bu_id blocked_clash (mg_blocked_users E) \<and>
     coll_ok t_id no_clash (mg_user_tokens E) \<and>
     coll_ok ch_id no_clash (mg_conversation_handlers E) \<and>
     coll_ok ed_id devices_clash (mg_encrypted_devices E) \<and>
     coll_ok es_id no_clash (mg_encrypted_statuses E) \<and>
     coll_ok ct_id no_clash (mg_contacts E) \<and>
     coll_ok ol_id no_clash (mg_operations_log E) \<and>
     coll_ok ps_id no_clash (mg_push_subscriptions E) \<and>
     coll_ok pe_id no_clash (mg_push_events E) \<and>
     coll_ok sf_id no_clash (mg_files E)"

lemma mongo_okD [simp]:
  assumes "mongo_ok E"
  shows "coll_ok o_id no_clash (mg_organizations E)" "coll_ok u_id users_clash (mg_users E)"
    "coll_ok c_id no_clash (mg_conversations E)" "coll_ok cp_id no_clash (mg_participants E)"
    "coll_ok m_id no_clash (mg_messages E)" "coll_ok ms_id no_clash (mg_message_statuses E)"
    "coll_ok mr_id no_clash (mg_message_reactions E)" "coll_ok bu_id blocked_clash (mg_blocked_users E)"
    "coll_ok t_id no_clash (mg_user_tokens E)" "coll_ok ch_id no_clash (mg_conversation_handlers E)"
    "coll_ok ed_id devices_clash (mg_encrypted_devices E)" "coll_ok es_id no_clash (mg_encrypted_statuses E)"
    "coll_ok ct_id no_clash (mg_contacts E)" "coll_ok ol_id no_clash (mg_operations_log E)"
    "coll_ok ps_id no_clash (mg_push_subscriptions E)" "coll_ok pe_id no_clash (mg_push_events E)"
    "coll_ok sf_id no_clash (mg_files E)"
  using assms by (simp_all add: mongo_ok_def)

text \<open>The repository calls on each collection, for a driver that meets its documentation.\<close>

lemmas mongo_simps [simp] = mongo_okD[THEN findOne_eq] mongo_okD[THEN findById_eq] mongo_okD[THEN count_eq]
  mongo_okD[THEN updateOne_eq] mongo_okD[THEN updateMany_eq] mongo_okD[THEN findOneAndUpdate_eq]
  mongo_okD[THEN deleteById_eq] mongo_okD[THEN deleteMany_eq]

section \<open>Writing to a collection of the world\<close>

type_synonym 'a handler = "(world, exn, 'a) eff"

text \<open>The duplicate-key error of MongoDB.\<close>

definition E11000 :: exn where
  "E11000 = PlainError ''E11000 duplicate key error''"

definition insertInto ::
  "'d collection \<Rightarrow> (world \<Rightarrow> 'd list) \<Rightarrow> (('d list \<Rightarrow> 'd list) \<Rightarrow> world \<Rightarrow> world) \<Rightarrow>
   (timestamp \<Rightarrow> oid \<Rightarrow> 'd) \<Rightarrow> 'd handler" where
  "insertInto C get upd mk = (\<lambda>w. case create C mk (clock w) (get w) of
      None \<Rightarrow> (Inl E11000, w)
    | Some (d, ds) \<Rightarrow> (Inr d, upd (\<lambda>_. ds) w))"

lemma insertInto_Inr:
  "insertInto C get upd mk w = (Inr d, w') \<longleftrightarrow>
     (\<exists>ds. create C mk (clock w) (get w) = Some (d, ds) \<and> w' = upd (\<lambda>_. ds) w)"
  by (auto simp: insertInto_def split: option.splits prod.splits)

lemma insertInto_Inl:
  "insertInto C get upd mk w = (Inl e, w') \<longleftrightarrow> create C mk (clock w) (get w) = None \<and> e = E11000 \<and> w' = w"
  by (auto simp: insertInto_def split: option.splits prod.splits)

lemma insertInto_succeeds:
  assumes "coll_ok idf no_clash C"
  obtains d ds where "insertInto C get upd mk w = (Inr d, upd (\<lambda>_. ds) w)"
    "create C mk (clock w) (get w) = Some (d, ds)"
  using create_succeeds[OF assms, of mk "clock w" "get w"] by (auto simp: insertInto_def)

lemma insertInto_run:
  assumes "coll_ok idf no_clash C"
  obtains i ds where "insertInto C get upd mk w = (Inr (mk (clock w) i), upd (\<lambda>_. ds) w)"
    "i \<notin> idf ` set (get w)" "mset ds = add_mset (mk (clock w) i) (mset (get w))"
proof -
  obtain d ds where i: "insertInto C get upd mk w = (Inr d, upd (\<lambda>_. ds) w)" and c: "create C mk (clock w) (get w) = Some (d, ds)"
    by (rule insertInto_succeeds[OF assms])
  from create_inserts(1,3)[OF assms c] i that show ?thesis by blast
qed

text \<open>
  Reading a property of \<open>null\<close> or \<open>undefined\<close> raises a \<open>TypeError\<close>; the handlers destructure the session of
  their socket.
\<close>

definition need :: "'a option \<Rightarrow> 'a handler" where
  "need x = (case x of None \<Rightarrow> throw TypeError | Some v \<Rightarrow> ret v)"

lemma need_run [simp]: "need (Some v) = ret v" "need None = throw TypeError"
  by (simp_all add: need_def)

lemma need_Inr [eff_simps]: "need x w = (Inr v, w') \<longleftrightarrow> x = Some v \<and> w' = w"
  by (cases x) auto

lemma need_Inl [eff_simps]: "need x w = (Inl e, w') \<longleftrightarrow> x = None \<and> e = TypeError \<and> w' = w"
  by (cases x) auto

section \<open>A node over in-memory libraries, for concrete runs\<close>

definition mem_env :: env where
  "mem_env = \<lparr> cfg_useXMPP = False,
     cfg_isStandAloneNode = False, cfg_clusterEndpoint = ''ws://n1/'', cfg_maxParticipants = 50,
     cfg_disableChannelsLogic = False, cfg_isEventsEnabled = True, cfg_messagesPreloadCount = 30, cfg_conversationsPreloadCount = 100,
     cfg_chatBotLogin = ''bot'', cfg_searchLimit = 20, cfg_expireDownloadUrl = 3600,
     cfg_ip = ''n1'', cfg_hostName = ''n1'', cfg_clusterPort = ''80'', cfg_isSecure = False, cfg_nodeExpiresIn = 30000,
     mg_organizations = mem_collection o_id no_clash, mg_users = mem_collection u_id users_clash,
     mg_conversations = mem_collection c_id no_clash, mg_participants = mem_collection cp_id no_clash,
     mg_messages = mem_collection m_id no_clash, mg_message_statuses = mem_collection ms_id no_clash,
     mg_message_reactions = mem_collection mr_id no_clash,
     mg_blocked_users = mem_collection bu_id blocked_clash,
     mg_user_tokens = mem_collection t_id no_clash,
     mg_conversation_handlers = mem_collection ch_id no_clash,
     mg_encrypted_devices = mem_collection ed_id devices_clash,
     mg_encrypted_statuses = mem_collection es_id no_clash,
     mg_contacts = mem_collection ct_id no_clash, mg_operations_log = mem_collection ol_id no_clash,
     mg_push_subscriptions = mem_collection ps_id no_clash, mg_push_events = mem_collection pe_id no_clash,
     mg_files = mem_collection sf_id no_clash,
     rd = mem_redis,
     sandbox = (\<lambda>_ _ _. \<lparr>hr_accept = True, hr_body = None, hr_attachments = None,
        hr_isReplaceBody = False, hr_errorMessage = None\<rparr>),
     sha512 = (\<lambda>s. ''#'' @ s),
     jwt_sign = (\<lambda>u s ty n. ''jwt'' @ u),
     randomSalt = (\<lambda>n. replicate n CHR ''s''),
     randomOtp = (\<lambda>n. 100000 + n),
     uploadUrl = (\<lambda>name n. (name, ''put/'' @ name)), downloadUrl = (\<lambda>i n. ''get/'' @ i),
     xmppFromJson = (\<lambda>_ _ p. [p]), xmppToJson = (\<lambda>_ _ p. [p]), xmppRecipient = (\<lambda>_ _ p. p),
     xmppLastActivity = (\<lambda>_ _ u _ _. u), jsonParse = parseJson, detectXmpp = (\<lambda>_. False), regexTest = (\<lambda>pattern. Some (\<lambda>text. True)),
     generateText = Some\<rparr>"

definition empty_world :: world where
  "empty_world = \<lparr>organizations = [], users = [], conversations = [], participants = [], messages = [],
     message_statuses = [], message_reactions = [], blocked_users = [], user_tokens = [],
     conversation_handlers = [], encrypted_devices = [], encrypted_statuses = [], contacts = [], operations_log = [],
     push_subscriptions = [], push_events = [], files = [], redis = empty_redis, SESSIONS = [],
     DEVICES = Map.empty, SUBSCRIBED_TO = Map.empty, SUBSCRIBERS = Map.empty, apiTypes = Map.empty, decoderBuffer = [], outbox = [],
     clusterOutbox = [], pushQueue = [], clusterNodesConnections = [], reconnectingNodesConnections = [], linkOutbox = [], closedLinks = [],
     httpOutbox = [], packageListeners = Map.empty, messagesPerMinute = IncPairDateVal utc_calendar Minutes 0 1000,
     messagesPerHour = IncPairDateVal utc_calendar Hours 0 1000, messagesPerDay = IncPairDateVal utc_calendar Days 0 1000, dependenciesStatus = None, clock = 1000, entropy = 0\<rparr>"

lemma mem_env_ok [simp]: "mongo_ok mem_env" "redis_ok (rd mem_env)"
  by (simp_all add: mongo_ok_def mem_env_def mem_collection_ok mem_redis_ok)

end
