(* ===== verification/Json.thy ===== *)
theory Json
  imports Model
begin

text \<open>
  The access to the properties of JSON values, and the readers that turn the validated data of a request into the
  parameters of an operation. A reader raises a \<open>TypeError\<close> for a value of another type than the operation
  is written for: Joi accepts some of these (a number as a text, an identifier as a number or an object), and what the
  operations do with them is outside of the model.
\<close>

section \<open>Reading values\<close>

text \<open>A property whose value is \<open>undefined\<close> is left out of a text.\<close>

definition withProp :: "string \<Rightarrow> json option \<Rightarrow> (string \<times> json) list \<Rightarrow> (string \<times> json) list" where
  "withProp k v ps = (case v of None \<Rightarrow> ps | Some x \<Rightarrow> (k, x) # ps)"

text \<open>
  \<open>j?.k\<close> for the names that are asked for (of an array only its first element); \<open>a ?? b\<close> skips a missing value and \<open>null\<close>; the truth value; and
  \<open>Object.keys(j)[0]\<close>, which throws for \<open>null\<close>. Properties are in the order of \<open>Object.keys\<close>.
\<close>

fun getProp :: "string \<Rightarrow> json option \<Rightarrow> json option" where
  "getProp k (Some (JObj ps)) = map_of ps k"
| "getProp k (Some (JArr (x # xs))) = (if k = ''0'' then Some x else None)"
| "getProp k _ = None"

fun orElse :: "json option \<Rightarrow> json option \<Rightarrow> json option" where
  "orElse None b = b"
| "orElse (Some JNull) b = b"
| "orElse (Some j) b = Some j"

fun truthyJson :: "json option \<Rightarrow> bool" where
  "truthyJson None = False"
| "truthyJson (Some JNull) = False"
| "truthyJson (Some (JBool b)) = b"
| "truthyJson (Some (JNum n)) = (n \<noteq> 0)"
| "truthyJson (Some (JStr s)) = (s \<noteq> [])"
| "truthyJson (Some _) = True"

fun firstName :: "json \<Rightarrow> exn + string option" where
  "firstName JNull = Inl TypeError"
| "firstName (JObj []) = Inr None"
| "firstName (JObj ((k, _) # _)) = Inr (Some k)"
| "firstName (JArr (_ # _)) = Inr (Some ''0'')"
| "firstName (JStr (_ # _)) = Inr (Some ''0'')"
| "firstName _ = Inr None"

section \<open>The parameters of a request\<close>

fun readText :: "json \<Rightarrow> string option" where
  "readText (JStr s) = Some s"
| "readText _ = None"

fun readNumber :: "json \<Rightarrow> nat option" where
  "readNumber (JNum n) = (if n < 0 then None else Some (nat n))"
| "readNumber _ = None"

fun readFlag :: "json \<Rightarrow> bool option" where
  "readFlag (JBool b) = Some b"
| "readFlag _ = None"

fun readObject :: "json \<Rightarrow> (string \<times> json) list option" where
  "readObject (JObj ps) = Some ps"
| "readObject _ = None"

fun readElements :: "(json \<Rightarrow> 'a option) \<Rightarrow> json list \<Rightarrow> 'a list option" where
  "readElements read [] = Some []"
| "readElements read (j # js) = (case (read j, readElements read js) of (Some x, Some xs) \<Rightarrow> Some (x # xs) | _ \<Rightarrow> None)"

fun readList :: "(json \<Rightarrow> 'a option) \<Rightarrow> json \<Rightarrow> 'a list option" where
  "readList read (JArr js) = readElements read js"
| "readList read _ = None"

text \<open>\<open>x.toString()\<close> of a text or a number.\<close>

fun readDeviceId :: "json \<Rightarrow> string option" where
  "readDeviceId (JStr s) = Some s"
| "readDeviceId (JNum n) = Some (stringifyMessage (JNum n))"
| "readDeviceId _ = None"

text \<open>A property that may be missing, and one whose value is needed.\<close>

definition optional :: "(json \<Rightarrow> 'a option) \<Rightarrow> string \<Rightarrow> json option \<Rightarrow> 'a option handler" where
  "optional read k data = (case getProp k data of
      None \<Rightarrow> ret None
    | Some j \<Rightarrow> (case read j of None \<Rightarrow> throw TypeError | Some x \<Rightarrow> ret (Some x)))"

definition required :: "(json \<Rightarrow> 'a option) \<Rightarrow> string \<Rightarrow> json option \<Rightarrow> 'a handler" where
  "required read k data = andThen (optional read k data) need"

text \<open>Destructuring a missing value or \<open>null\<close> is an error.\<close>

definition destructured :: "json option \<Rightarrow> unit handler" where
  "destructured data = (case data of None \<Rightarrow> throw TypeError | Some JNull \<Rightarrow> throw TypeError | _ \<Rightarrow> ret ())"

lemma readonly_optional: "readonly (optional read k data)"
  by (simp add: optional_def readonly_def split: option.split)

lemma optional_run: "optional read k data w = (case getProp k data of None \<Rightarrow> (Inr None, w)
    | Some j \<Rightarrow> (case read j of None \<Rightarrow> (Inl TypeError, w) | Some x \<Rightarrow> (Inr (Some x), w)))"
  by (simp add: optional_def split: option.split)

lemma keeps_readers [keeps_intros]: "keeps I (optional read k data)" "keeps I (required read k data)" "keeps I (destructured data)"
proof -
  show o: "keeps I (optional read k data)" for read :: "json \<Rightarrow> 'a option" by (rule readonly_keeps[OF readonly_optional])
  show "keeps I (required read k data)" unfolding required_def using readonly_keeps[OF readonly_optional]
    by (rule keeps_andThen) (simp add: keeps_def need_def split: option.split)
  show "keeps I (destructured data)" by (simp add: keeps_def destructured_def split: option.split json.split)
qed

end
