(* ===== verification/Sessions.thy ===== *)
theory Sessions
  imports Model
begin

text \<open>
  \<open>SessionService\<close> (\<^verbatim>\<open>app/providers/services/session/index.js\<close>): the sessions and device
  connections of a node in memory, and the registry of connected devices that the nodes of
  a cluster share in Redis: a set of \<open>organization:user:device\<close> members per node, a set
  of devices per user, a hash of session data per device.
\<close>

section \<open>JavaScript \<open>Map\<close> and object updates, in insertion order\<close>

definition map_delete :: "'k \<Rightarrow> ('k \<times> 'v) list \<Rightarrow> ('k \<times> 'v) list" where
  "map_delete k al = filter (\<lambda>e. fst e \<noteq> k) al"

definition map_set :: "'k \<Rightarrow> 'v \<Rightarrow> ('k \<times> 'v) list \<Rightarrow> ('k \<times> 'v) list" where
  "map_set k v al = (if k \<in> fst ` set al then map (\<lambda>e. if fst e = k then (k, v) else e) al else al @ [(k, v)])"

lemma map_of_map_delete: "map_of (map_delete k al) = (map_of al)(k := None)"
  by (induction al) (auto simp: map_delete_def fun_eq_iff)

lemma map_of_map_set: "map_of (map_set k v al) x = (if x = k then Some v else map_of al x)"
proof (cases "k \<in> fst ` set al")
  case True
  have "x \<noteq> k \<Longrightarrow> map_of (map (\<lambda>e. if fst e = k then (k, v) else e) al) x = map_of al x"
    by (induction al) auto
  moreover have "k \<in> fst ` set al \<Longrightarrow> map_of (map (\<lambda>e. if fst e = k then (k, v) else e) al) k = Some v"
    by (induction al) auto
  ultimately show ?thesis using True by (simp add: map_set_def)
next
  case False
  then have "map_of al k = None" by (simp add: map_of_eq_None_iff)
  with False show ?thesis by (simp add: map_set_def map_add_def split: option.split)
qed

lemma distinct_map_delete: "distinct (map fst al) \<Longrightarrow> distinct (map fst (map_delete k al))"
  by (simp add: map_delete_def distinct_map_filter)

lemma distinct_map_set:
  assumes "distinct (map fst al)"
  shows "distinct (map fst (map_set k v al))"
proof -
  have "map fst (map (\<lambda>e. if fst e = k then (k, v) else e) al) = map fst al"
    by (induction al) auto
  with assms show ?thesis by (cases "k \<in> fst ` set al") (simp_all add: map_set_def del: map_map)
qed

text \<open>Position of the first element that satisfies a predicate (\<open>find\<close> returns that very object).\<close>

primrec find_idx :: "('a \<Rightarrow> bool) \<Rightarrow> 'a list \<Rightarrow> nat option" where
  "find_idx P [] = None"
| "find_idx P (x # xs) = (if P x then Some 0 else map_option Suc (find_idx P xs))"

definition drop_at :: "nat option \<Rightarrow> nat option \<Rightarrow> 'a list \<Rightarrow> 'a list" where
  "drop_at i j xs = map snd (filter (\<lambda>(k, x). Some k \<noteq> i \<and> Some k \<noteq> j) (enumerate 0 xs))"

section \<open>Constants\<close>

definition SESSION_NODE_KEY :: string where "SESSION_NODE_KEY = ''NODE_ENDPOINT''"
definition SESSION_INACTIVE_STATE_KEY :: string where "SESSION_INACTIVE_STATE_KEY = ''MOBILE_INACTIVE''"
definition SESSION_DEVICE_ID_KEY :: string where "SESSION_DEVICE_ID_KEY = ''DEVICE_ID''"
definition HTTP_DEVICE_ID :: string where "HTTP_DEVICE_ID = ''SAMA_HTTP_CLIENT_DEVICE_ID''"
definition NODE_USERS :: string where "NODE_USERS = ''sama-node-users''"
definition USER_DEVICES :: string where "USER_DEVICES = ''sama-user-devices''"
definition USER_DATA :: string where "USER_DATA = ''sama-user-data''"

section \<open>Sessions and connections of this node\<close>

definition getSession :: "world \<Rightarrow> socket \<Rightarrow> session option" where
  "getSession w ws = map_of (SESSIONS w) ws"

definition getSessionUserId :: "world \<Rightarrow> socket \<Rightarrow> oid option" where
  "getSessionUserId w ws = map_option s_userId (getSession w ws)"

definition totalSessions :: "world \<Rightarrow> nat" where
  "totalSessions w = length (SESSIONS w)"

definition getUserDevices :: "world \<Rightarrow> oid \<Rightarrow> connection list" where
  "getUserDevices w userId = (case DEVICES w userId of None \<Rightarrow> [] | Some cs \<Rightarrow> cs)"

definition getDeviceId :: "world \<Rightarrow> socket \<Rightarrow> oid \<Rightarrow> string option" where
  "getDeviceId w ws userId =
     map_option cn_deviceId (List.find (\<lambda>c. cn_socket c = ws) (getUserDevices w userId))"

definition setSession :: "socket \<Rightarrow> oid \<Rightarrow> oid \<Rightarrow> (string \<rightharpoonup> string) \<Rightarrow> world \<Rightarrow> world" where
  "setSession ws organizationId userId extraParams w =
     w\<lparr>SESSIONS := map_set ws \<lparr>s_organizationId = organizationId, s_userId = userId,
        s_extraParams = extraParams\<rparr> (SESSIONS w)\<rparr>"

definition setSessionUserId :: "socket \<Rightarrow> oid \<Rightarrow> oid \<Rightarrow> (string \<rightharpoonup> string) \<Rightarrow> world \<Rightarrow> world" where
  "setSessionUserId ws organizationId userId extraParams w =
     setSession ws organizationId userId extraParams
       (if getSession w ws \<noteq> None then w\<lparr>SESSIONS := map_delete ws (SESSIONS w)\<rparr> else w)"

definition addUserDeviceConnection ::
  "socket \<Rightarrow> oid \<Rightarrow> oid \<Rightarrow> string \<Rightarrow> world \<Rightarrow> (connection option \<times> connection option) \<times> world" where
  "addUserDeviceConnection ws organizationId userId deviceId w =
     (let activeConnections = getUserDevices w userId;
          sameSocket = find_idx (\<lambda>c. cn_socket c = ws) activeConnections;
          sameDevice = find_idx (\<lambda>c. cn_deviceId c = deviceId) activeConnections;
          otherDeviceConnections = drop_at sameSocket sameDevice activeConnections;
          connection = \<lparr>cn_socket = ws, cn_deviceId = deviceId, cn_organizationId = organizationId\<rparr>
      in ((map_option ((!) activeConnections) sameDevice, map_option ((!) activeConnections) sameSocket),
          setSessionUserId ws organizationId userId [SESSION_DEVICE_ID_KEY \<mapsto> deviceId]
            (w\<lparr>DEVICES := (DEVICES w)(userId \<mapsto> otherDeviceConnections @ [connection])\<rparr>)))"

definition listUserDeviceLocal :: "world \<Rightarrow> oid \<Rightarrow> string list" where
  "listUserDeviceLocal w userId =
     filter (\<lambda>d. d \<noteq> HTTP_DEVICE_ID) (map cn_deviceId (getUserDevices w userId))"

section \<open>The registry in Redis\<close>

definition nodesSetCacheKey :: "string \<Rightarrow> string" where
  "nodesSetCacheKey nodeEndpoint = NODE_USERS @ '':'' @ nodeEndpoint"

definition usersSetCacheKey :: "string \<Rightarrow> string \<Rightarrow> string" where
  "usersSetCacheKey organizationId userId = USER_DEVICES @ '':'' @ organizationId @ '':'' @ userId"

definition usersHashCacheKey :: "string \<Rightarrow> string \<Rightarrow> string" where
  "usersHashCacheKey userId deviceId = USER_DATA @ '':'' @ userId @ '':'' @ deviceId"

definition userConnectionMember :: "string \<Rightarrow> string \<Rightarrow> string \<Rightarrow> string" where
  "userConnectionMember organizationId userId deviceId = organizationId @ '':'' @ userId @ '':'' @ deviceId"

definition addUserDeviceToNode :: "redis_ops \<Rightarrow> string \<Rightarrow> oid \<Rightarrow> oid \<Rightarrow> string \<Rightarrow> redis_store \<Rightarrow> redis_store" where
  "addUserDeviceToNode R nodeEndpoint organizationId userId deviceId =
     rd_sAdd R (nodesSetCacheKey nodeEndpoint) (userConnectionMember organizationId userId deviceId)"

definition removeUserDeviceFromNode :: "redis_ops \<Rightarrow> string \<Rightarrow> oid \<Rightarrow> oid \<Rightarrow> string \<Rightarrow> redis_store \<Rightarrow> redis_store" where
  "removeUserDeviceFromNode R nodeEndpoint organizationId userId deviceId =
     rd_sRem R (nodesSetCacheKey nodeEndpoint) (userConnectionMember organizationId userId deviceId)"

text \<open>\<open>const [organizationId, userId, deviceId] = userConnection.split(":")\<close>\<close>

definition parseConnection :: "string \<Rightarrow> string \<times> string \<times> string" where
  "parseConnection m = (case split_on CHR '':'' m of
      a # b # c # _ \<Rightarrow> (a, b, c)
    | [a, b] \<Rightarrow> (a, b, ''undefined'')
    | a # _ \<Rightarrow> (a, ''undefined'', ''undefined'')
    | [] \<Rightarrow> (''undefined'', ''undefined'', ''undefined''))"

definition listNodeUserDevices :: "redis_ops \<Rightarrow> string \<Rightarrow> redis_store \<Rightarrow> (string \<times> string \<times> string) list" where
  "listNodeUserDevices R nodeEndpoint st = map parseConnection (rd_sMembers R (nodesSetCacheKey nodeEndpoint) st)"

definition deleteNodeConnections :: "redis_ops \<Rightarrow> string \<Rightarrow> redis_store \<Rightarrow> redis_store" where
  "deleteNodeConnections R nodeEndpoint = rd_del R (nodesSetCacheKey nodeEndpoint)"

definition addUserDevice :: "redis_ops \<Rightarrow> oid \<Rightarrow> oid \<Rightarrow> string \<Rightarrow> redis_store \<Rightarrow> redis_store" where
  "addUserDevice R organizationId userId deviceId = rd_sAdd R (usersSetCacheKey organizationId userId) deviceId"

definition deleteUserDevices :: "redis_ops \<Rightarrow> oid \<Rightarrow> oid \<Rightarrow> redis_store \<Rightarrow> redis_store" where
  "deleteUserDevices R organizationId userId = rd_del R (usersSetCacheKey organizationId userId)"

definition addUserExtraParams :: "redis_ops \<Rightarrow> oid \<Rightarrow> string \<Rightarrow> (string \<times> string) list \<Rightarrow> redis_store \<Rightarrow> redis_store" where
  "addUserExtraParams R userId deviceId extraParams = rd_hSet R (usersHashCacheKey userId deviceId) extraParams"

definition retrieveUserExtraParams :: "redis_ops \<Rightarrow> oid \<Rightarrow> string \<Rightarrow> redis_store \<Rightarrow> (string \<rightharpoonup> string)" where
  "retrieveUserExtraParams R userId deviceId st = rd_hGetAll R (usersHashCacheKey userId deviceId) st"

definition removeUserExtraParams :: "redis_ops \<Rightarrow> oid \<Rightarrow> string \<Rightarrow> string list \<Rightarrow> redis_store \<Rightarrow> redis_store" where
  "removeUserExtraParams R userId deviceId paramKeys = rd_hDel R (usersHashCacheKey userId deviceId) paramKeys"

definition deleteUserExtraParams :: "redis_ops \<Rightarrow> oid \<Rightarrow> string \<Rightarrow> redis_store \<Rightarrow> redis_store" where
  "deleteUserExtraParams R userId deviceId = rd_del R (usersHashCacheKey userId deviceId)"

definition removeAllUserDeviceDataTransaction ::
  "env \<Rightarrow> string option \<Rightarrow> oid \<Rightarrow> oid \<Rightarrow> string \<Rightarrow> redis_store \<Rightarrow> redis_store" where
  "removeAllUserDeviceDataTransaction E nodeEndpoint organizationId userId deviceId st =
     (let st1 = rd_sRem (rd E) (usersSetCacheKey organizationId userId) deviceId st;
          st2 = rd_del (rd E) (usersHashCacheKey userId deviceId) st1
      in rd_sRem (rd E)
           (nodesSetCacheKey (case nodeEndpoint of None \<Rightarrow> cfg_clusterEndpoint E | Some e \<Rightarrow> e))
           (userConnectionMember organizationId userId deviceId) st2)"

definition addUserDeviceDataTransaction ::
  "env \<Rightarrow> string option \<Rightarrow> oid \<Rightarrow> oid \<Rightarrow> string \<Rightarrow> (string \<times> string) list \<Rightarrow> redis_store \<Rightarrow> redis_store" where
  "addUserDeviceDataTransaction E nodeEndpoint organizationId userId deviceId extParams st =
     (let st1 = rd_sAdd (rd E) (usersSetCacheKey organizationId userId) deviceId st;
          st2 = rd_hSet (rd E) (usersHashCacheKey userId deviceId) extParams st1
      in rd_sAdd (rd E)
           (nodesSetCacheKey (case nodeEndpoint of None \<Rightarrow> cfg_clusterEndpoint E | Some e \<Rightarrow> e))
           (userConnectionMember organizationId userId deviceId) st2)"

text \<open>
  \<open>filterActualDeviceIds\<close> drops, from the listed devices and from Redis, a device whose hash has
  no node (or an empty one) and a device registered at this node that has no connection here.
\<close>

definition notActual :: "env \<Rightarrow> world \<Rightarrow> redis_store \<Rightarrow> oid \<Rightarrow> string \<Rightarrow> bool" where
  "notActual E w st userId deviceId =
     (let ext = retrieveUserExtraParams (rd E) userId deviceId st SESSION_NODE_KEY;
          noEndpointKey = (ext = None \<or> ext = Some []);
          isSameEndpoint = (ext = Some (cfg_clusterEndpoint E));
          hasDeviceConnection = (List.find (\<lambda>c. cn_deviceId c = deviceId) (getUserDevices w userId) \<noteq> None)
      in noEndpointKey \<or> isSameEndpoint \<and> \<not> hasDeviceConnection)"

primrec filterActualDeviceIds ::
  "env \<Rightarrow> world \<Rightarrow> oid \<Rightarrow> oid \<Rightarrow> string list \<Rightarrow> redis_store \<Rightarrow> string list \<times> redis_store" where
  "filterActualDeviceIds E w organizationId userId [] st = ([], st)"
| "filterActualDeviceIds E w organizationId userId (deviceId # deviceIds) st =
     (if notActual E w st userId deviceId
      then filterActualDeviceIds E w organizationId userId deviceIds
             (removeAllUserDeviceDataTransaction E (Some (cfg_clusterEndpoint E)) organizationId userId deviceId st)
      else (case filterActualDeviceIds E w organizationId userId deviceIds st of
              (actual, st') \<Rightarrow> (deviceId # actual, st')))"

definition listUserDevice :: "env \<Rightarrow> oid \<Rightarrow> oid \<Rightarrow> bool \<Rightarrow> world \<Rightarrow> string list \<times> world" where
  "listUserDevice E organizationId userId filterActualDevices w =
     (if cfg_isStandAloneNode E then (listUserDeviceLocal w userId, w)
      else let deviceIds = rd_sMembers (rd E) (usersSetCacheKey organizationId userId) (redis w)
           in if filterActualDevices
              then (case filterActualDeviceIds E w organizationId userId deviceIds (redis w) of
                      (ids, st) \<Rightarrow> (ids, w\<lparr>redis := st\<rparr>))
              else (deviceIds, w))"

definition removeUserDevice :: "env \<Rightarrow> oid \<Rightarrow> oid \<Rightarrow> string \<Rightarrow> world \<Rightarrow> bool \<times> world" where
  "removeUserDevice E organizationId userId deviceId w =
     (let w1 = w\<lparr>redis := rd_sRem (rd E) (usersSetCacheKey organizationId userId) deviceId (redis w)\<rparr>;
          (left, w2) = listUserDevice E organizationId userId False w1
      in (left = [], w2))"

definition removeUserData :: "env \<Rightarrow> oid \<Rightarrow> oid \<Rightarrow> string \<Rightarrow> world \<Rightarrow> bool \<times> world" where
  "removeUserData E organizationId userId deviceId w =
     (let (isLast, w1) = removeUserDevice E organizationId userId deviceId w
      in (isLast, w1\<lparr>redis := deleteUserExtraParams (rd E) userId deviceId (redis w1)\<rparr>))"

definition deleteUserData :: "env \<Rightarrow> oid \<Rightarrow> oid \<Rightarrow> world \<Rightarrow> world" where
  "deleteUserData E organizationId userId w =
     (let (devices, w1) = listUserDevice E organizationId userId False w;
          st = fold (deleteUserExtraParams (rd E) userId) devices (redis w1)
      in w1\<lparr>redis := deleteUserDevices (rd E) organizationId userId st\<rparr>)"

definition removeAllUserDeviceData :: "env \<Rightarrow> oid \<Rightarrow> oid \<Rightarrow> string \<Rightarrow> world \<Rightarrow> bool \<times> world" where
  "removeAllUserDeviceData E organizationId userId deviceId w =
     (let st1 = rd_sRem (rd E) (usersSetCacheKey organizationId userId) deviceId (redis w);
          extraParams = retrieveUserExtraParams (rd E) userId deviceId st1;
          st2 = deleteUserExtraParams (rd E) userId deviceId st1;
          nodeEndpoint = (case extraParams SESSION_NODE_KEY of None \<Rightarrow> cfg_clusterEndpoint E | Some e \<Rightarrow> e);
          st3 = removeUserDeviceFromNode (rd E) nodeEndpoint organizationId userId deviceId st2;
          (leftDevices, w1) = listUserDevice E organizationId userId True (w\<lparr>redis := st3\<rparr>)
      in (leftDevices = [], w1))"

definition storeUserNodeData :: "env \<Rightarrow> socket \<Rightarrow> oid \<Rightarrow> oid \<Rightarrow> string \<Rightarrow> world \<Rightarrow> world" where
  "storeUserNodeData E ws organizationId userId deviceId w =
     (let nodeEndpoint = cfg_clusterEndpoint E;
          w1 = (case getSession w ws of None \<Rightarrow> w
                | Some s \<Rightarrow> w\<lparr>SESSIONS := map_set ws
                     (s\<lparr>s_extraParams := (s_extraParams s)(SESSION_NODE_KEY \<mapsto> nodeEndpoint)\<rparr>) (SESSIONS w)\<rparr>)
      in if cfg_isStandAloneNode E then w1
         else let (userDeviceIds, w2) = listUserDevice E organizationId userId False w1;
                  w3 = (if deviceId \<in> set userDeviceIds
                        then snd (removeAllUserDeviceData E organizationId userId deviceId w2) else w2)
              in w3\<lparr>redis := addUserDeviceDataTransaction E (Some nodeEndpoint) organizationId userId deviceId
                   [(SESSION_NODE_KEY, nodeEndpoint)] (redis w3)\<rparr>)"

definition listUserData :: "env \<Rightarrow> oid \<Rightarrow> oid \<Rightarrow> world \<Rightarrow> (string \<times> (string \<rightharpoonup> string)) list \<times> world" where
  "listUserData E organizationId userId w =
     (if cfg_isStandAloneNode E
      then (fold (\<lambda>c acc. if cn_deviceId c = HTTP_DEVICE_ID then acc
                    else (case getSession w (cn_socket c) of None \<Rightarrow> acc
                          | Some s \<Rightarrow> map_set (cn_deviceId c) (s_extraParams s) acc))
              (getUserDevices w userId) [], w)
      else let (devices, w1) = listUserDevice E organizationId userId False w
           in (fold (\<lambda>d acc. map_set d (retrieveUserExtraParams (rd E) userId d (redis w1)) acc) devices [], w1))"

primrec clearUserConnections ::
  "env \<Rightarrow> (string \<times> string \<times> string) list \<Rightarrow> world \<Rightarrow> (string \<times> string \<times> string) list \<times> world" where
  "clearUserConnections E [] w = ([], w)"
| "clearUserConnections E (d # ds) w = (case d of (organizationId, userId, deviceId) \<Rightarrow>
     (let (isLastUserSession, w1) = removeUserData E organizationId userId deviceId w;
          (rest, w2) = clearUserConnections E ds w1
      in (if isLastUserSession then d # rest else rest, w2)))"

definition clearNodeUsersSession ::
  "env \<Rightarrow> string \<Rightarrow> world \<Rightarrow> (string \<times> string \<times> string) list option \<times> world" where
  "clearNodeUsersSession E nodeEndpoint w =
     (if cfg_isStandAloneNode E then (None, w)
      else let userConnections = listNodeUserDevices (rd E) nodeEndpoint (redis w);
               (lastUserSessions, w1) = clearUserConnections E userConnections w
           in (Some lastUserSessions, w1\<lparr>redis := deleteNodeConnections (rd E) nodeEndpoint (redis w1)\<rparr>))"

section \<open>Closing sessions\<close>

text \<open>
  The template \<^verbatim>\<open>${v}\<close> renders a missing value as \<open>undefined\<close>. A device looked up for a
  user without an entry in \<open>DEVICES\<close> is \<open>null\<close>, one not found among the user's
  connections is \<open>undefined\<close>.
\<close>

definition renderDevice :: "world \<Rightarrow> oid \<Rightarrow> string option \<Rightarrow> string" where
  "renderDevice w userId d =
     (case d of Some x \<Rightarrow> x | None \<Rightarrow> if DEVICES w userId = None then ''null'' else ''undefined'')"

definition setSessionInactiveState :: "env \<Rightarrow> socket \<Rightarrow> bool \<Rightarrow> bool handler" where
  "setSessionInactiveState E ws isInactive = (\<lambda>w. case getSession w ws of
      None \<Rightarrow> (Inl TypeError, w)
    | Some s \<Rightarrow>
        let userId = s_userId s;
            deviceId = renderDevice w userId (getDeviceId w ws userId);
            w1 = w\<lparr>SESSIONS := map_set ws (s\<lparr>s_extraParams :=
              (if isInactive then (s_extraParams s)(SESSION_INACTIVE_STATE_KEY \<mapsto> ''true'')
               else (s_extraParams s)(SESSION_INACTIVE_STATE_KEY := None))\<rparr>) (SESSIONS w)\<rparr>
        in (Inr isInactive,
            if cfg_isStandAloneNode E then w1
            else w1\<lparr>redis := (if isInactive
                then addUserExtraParams (rd E) userId deviceId [(SESSION_INACTIVE_STATE_KEY, ''true'')] (redis w1)
                else removeUserExtraParams (rd E) userId deviceId [SESSION_INACTIVE_STATE_KEY] (redis w1))\<rparr>))"

definition isUserInactive :: "world \<Rightarrow> socket option \<Rightarrow> (string \<rightharpoonup> string) \<Rightarrow> bool" where
  "isUserInactive w ws extraParams =
     (case (case ws of None \<Rightarrow> None | Some s \<Rightarrow> getSession w s) of
        Some s \<Rightarrow> s_extraParams s SESSION_INACTIVE_STATE_KEY \<noteq> None
      | None \<Rightarrow> extraParams SESSION_INACTIVE_STATE_KEY \<noteq> None)"

definition removeFromNodes ::
  "env \<Rightarrow> oid \<Rightarrow> oid \<Rightarrow> (string \<times> (string \<rightharpoonup> string)) list \<Rightarrow> redis_store \<Rightarrow> redis_store" where
  "removeFromNodes E organizationId userId userData st =
     fold (\<lambda>(deviceId, extraParams) st. case extraParams SESSION_NODE_KEY of
         None \<Rightarrow> st
       | Some nodeEndpoint \<Rightarrow> if nodeEndpoint = [] then st
           else removeUserDeviceFromNode (rd E) nodeEndpoint organizationId userId deviceId st) userData st"

definition removeAllUserSessions :: "env \<Rightarrow> socket \<Rightarrow> world \<Rightarrow> world" where
  "removeAllUserSessions E ws w = (case getSession w ws of None \<Rightarrow> w
    | Some s \<Rightarrow>
        let userId = s_userId s; organizationId = s_organizationId s;
            w1 = w\<lparr>DEVICES := (DEVICES w)(userId := None), SESSIONS := map_delete ws (SESSIONS w)\<rparr>
        in if cfg_isStandAloneNode E then w1
           else let (userData, w2) = listUserData E organizationId userId w1;
                    w3 = w2\<lparr>redis := removeFromNodes E organizationId userId userData (redis w2)\<rparr>
                in deleteUserData E organizationId userId w3)"

definition removeUserSession :: "env \<Rightarrow> socket \<Rightarrow> oid option \<Rightarrow> string option \<Rightarrow> world \<Rightarrow> bool \<times> world" where
  "removeUserSession E ws userIdParam deviceIdParam w =
     (let userId = (case userIdParam of Some u \<Rightarrow> Some u | None \<Rightarrow> getSessionUserId w ws);
          deviceId = (case deviceIdParam of Some d \<Rightarrow> Some d
                      | None \<Rightarrow> (case userId of None \<Rightarrow> None | Some u \<Rightarrow> getDeviceId w ws u));
          organizationId = (case getSession w ws of None \<Rightarrow> ''undefined'' | Some s \<Rightarrow> s_organizationId s);
          connections = (case userId of None \<Rightarrow> [] | Some u \<Rightarrow> getUserDevices w u);
          leftActiveConnections = filter (\<lambda>c. Some (cn_deviceId c) \<noteq> deviceId) connections;
          isLastConnection = (leftActiveConnections = []);
          w1 = (case userId of None \<Rightarrow> w
                | Some u \<Rightarrow> w\<lparr>DEVICES := (DEVICES w)(u :=
                     (if leftActiveConnections = [] then None else Some leftActiveConnections))\<rparr>);
          w2 = w1\<lparr>SESSIONS := map_delete ws (SESSIONS w1)\<rparr>
      in case deviceId of None \<Rightarrow> (isLastConnection, w2)
         | Some d \<Rightarrow> if d = [] \<or> cfg_isStandAloneNode E then (isLastConnection, w2)
             else (case userId of None \<Rightarrow> removeAllUserDeviceData E organizationId ''null'' d w2
                   | Some u \<Rightarrow> removeAllUserDeviceData E organizationId u d w2))"

end
