(* ===== verification/Storage.thy ===== *)
theory Storage
  imports Sessions
begin

text \<open>
  Stored files: \<open>FileRepository\<close> and \<open>StorageService\<close> (\<^verbatim>\<open>app/providers/services/storage/index.js\<close>). The bytes of a file are in an object
  store outside the server, which signs the URLs for uploading and downloading: \<open>uploadUrl\<close> and \<open>downloadUrl\<close> stand for its client. The
  server keeps a document per file and caches a download URL in a Redis set for as long as the URL is valid.
\<close>

section \<open>Storage service\<close>

record file_params =
  fp_name :: string
  fp_size :: nat
  fp_content_type :: string

definition File_findByIdWithOrgScope :: "env \<Rightarrow> world \<Rightarrow> oid \<Rightarrow> string \<Rightarrow> stored_file option" where
  "File_findByIdWithOrgScope E w organizationId objectId =
     findOne (mg_files E) (\<lambda>f. sf_organization_id f = organizationId \<and> sf_object_id f = objectId) (files w)"

definition createFile :: "env \<Rightarrow> oid \<Rightarrow> oid \<Rightarrow> file_params \<Rightarrow> (stored_file \<times> string) handler" where
  "createFile E organizationId userId fileObj =
     andThen (transact (\<lambda>w. (uploadUrl E (fp_name fileObj) (entropy w), w\<lparr>entropy := Suc (entropy w)\<rparr>))) (\<lambda>(objectId, url).
     andThen (insertInto (mg_files E) files files_update (\<lambda>now i.
       \<lparr>sf_id = i, sf_organization_id = organizationId, sf_user_id = userId, sf_name = fp_name fileObj, sf_size = fp_size fileObj,
        sf_content_type = fp_content_type fileObj, sf_object_id = objectId, sf_created_at = now, sf_updated_at = now\<rparr>))
       (\<lambda>fileModel. ret (fileModel, url)))"

definition generateKey :: "string \<Rightarrow> string" where
  "generateKey fileObjectId = ''file:'' @ fileObjectId"

definition getFileUrl :: "env \<Rightarrow> world \<Rightarrow> string \<Rightarrow> string option" where
  "getFileUrl E w fileObjectId = (case rd_sMembers (rd E) (generateKey fileObjectId) (redis w) of [] \<Rightarrow> None | url # _ \<Rightarrow> Some url)"

definition storeFileUrl :: "env \<Rightarrow> string \<Rightarrow> string \<Rightarrow> world \<Rightarrow> world" where
  "storeFileUrl E fileObjectId url w = w\<lparr>redis := rd_expire (rd E) (generateKey fileObjectId) (cfg_expireDownloadUrl E)
     (rd_sAdd (rd E) (generateKey fileObjectId) url (redis w))\<rparr>"

text \<open>The clients of the object stores (S3, MinIO, Spaces) have the store sign a URL.\<close>

definition driverDownloadUrl :: "env \<Rightarrow> string \<Rightarrow> string handler" where
  "driverDownloadUrl E fileId = transact (\<lambda>w. (downloadUrl E fileId (entropy w), w\<lparr>entropy := Suc (entropy w)\<rparr>))"

declare driverDownloadUrl_def [simp]

text \<open>An empty URL in the cache is falsy and signed again.\<close>

definition getFileDownloadUrl :: "env \<Rightarrow> oid \<Rightarrow> string \<Rightarrow> string handler" where
  "getFileDownloadUrl E organizationId fileObjectId =
     andThen (gets (\<lambda>w. File_findByIdWithOrgScope E w organizationId fileObjectId)) (\<lambda>file.
       if file = None then throw (PlainError (''Can'' @ [CHR 0x27] @ ''t find file''))
       else andThen (gets (\<lambda>w. getFileUrl E w fileObjectId)) (\<lambda>existedDownloadUrl.
         case existedDownloadUrl of
           Some (c # cs) \<Rightarrow> ret (c # cs)
         | _ \<Rightarrow> andThen (driverDownloadUrl E fileObjectId) (\<lambda>url.
             andThen (modify (storeFileUrl E fileObjectId url)) (\<lambda>_. ret url))))"

text \<open>Asking for a download URL changes nothing but the cache in Redis.\<close>

lemma getFileDownloadUrl_frame: "\<exists>st n. snd (getFileDownloadUrl E org i w) = w\<lparr>entropy := n, redis := st\<rparr>"
proof -
  have same: "\<exists>st n. w = w\<lparr>entropy := n, redis := st\<rparr>" by (rule exI[of _ "redis w"], rule exI[of _ "entropy w"]) simp
  show ?thesis
  proof (cases "File_findByIdWithOrgScope E w org i = None \<or> (\<exists>c cs. getFileUrl E w i = Some (c # cs))")
    case True
    then have "snd (getFileDownloadUrl E org i w) = w" by (auto simp: getFileDownloadUrl_def)
    with same show ?thesis by simp
  next
    case False
    then obtain f where f: "File_findByIdWithOrgScope E w org i = Some f" by auto
    from False have "getFileUrl E w i = None \<or> getFileUrl E w i = Some []" by (metis neq_Nil_conv not_None_eq)
    with f have "snd (getFileDownloadUrl E org i w) = storeFileUrl E i (downloadUrl E i (entropy w)) (w\<lparr>entropy := Suc (entropy w)\<rparr>)"
      by (auto simp: getFileDownloadUrl_def)
    then show ?thesis by (simp add: storeFileUrl_def) blast
  qed
qed

end
