(* ===== verification/Users.thy ===== *)
theory Users
  imports Storage
begin

text \<open>
  Users, their passwords and tokens: \<^verbatim>\<open>app/utils/crypto_utils.js\<close>, the user, user-token and
  encryption repositories, \<open>UserService\<close>, \<open>OrganizationService\<close>, and the operations
  that log a socket in and out and reset a password
  (\<^verbatim>\<open>app/providers/operations/user\<close>). Signing a JWT, SHA-512, the random salt and the
  random one-time password are parameters. Sending the mail with the one-time password is
  not modelled: the operation returns the address and the password the mail is sent with.
\<close>

section \<open>Passwords\<close>

definition STRETCHES :: nat where
  "STRETCHES = 20"

definition generateSalt :: "env \<Rightarrow> nat \<Rightarrow> string" where
  "generateSalt E n =
     (let result = randomSalt E n
      in fold (\<lambda>(a, b). update_first (\<lambda>c. c = a) (\<lambda>_. b))
           [(CHR ''l'', CHR ''s''), (CHR ''I'', CHR ''x''), (CHR ''O'', CHR ''y''), (CHR ''0'', CHR ''z'')] result)"

primrec stretch :: "env \<Rightarrow> nat \<Rightarrow> string \<Rightarrow> string" where
  "stretch E 0 encryptedPassword = encryptedPassword"
| "stretch E (Suc i) encryptedPassword = stretch E i (sha512 E encryptedPassword)"

definition hashPassword :: "env \<Rightarrow> string \<Rightarrow> string \<Rightarrow> string" where
  "hashPassword E plainPassword salt = stretch E STRETCHES (plainPassword @ salt)"

text \<open>A user without a stored salt is hashed with a fresh one, a user without a stored hash never matches.\<close>

definition verifyPassword :: "env \<Rightarrow> nat \<Rightarrow> string \<Rightarrow> string option \<Rightarrow> string option \<Rightarrow> bool" where
  "verifyPassword E n plainPassword encryptedPassword salt =
     (encryptedPassword = Some (hashPassword E plainPassword (case salt of None \<Rightarrow> generateSalt E n | Some s \<Rightarrow> s)))"

section \<open>Users\<close>

definition User_findById :: "env \<Rightarrow> world \<Rightarrow> oid \<Rightarrow> user option" where
  "User_findById E w i = findById u_id (mg_users E) i (users w)"

definition findByLogin :: "env \<Rightarrow> world \<Rightarrow> oid \<Rightarrow> string \<Rightarrow> user option" where
  "findByLogin E w organizationId login =
     findOne (mg_users E) (\<lambda>u. u_organization_id u = organizationId \<and> u_login u = login) (users w)"

definition findByEmail :: "env \<Rightarrow> world \<Rightarrow> oid \<Rightarrow> string \<Rightarrow> user option" where
  "findByEmail E w organizationId email =
     findOne (mg_users E) (\<lambda>u. u_organization_id u = organizationId \<and> u_email u = Some email) (users w)"

definition findWithOrgScopeByIds :: "env \<Rightarrow> world \<Rightarrow> oid \<Rightarrow> oid list \<Rightarrow> user list" where
  "findWithOrgScopeByIds E w organizationId ids =
     findAll (mg_users E) (\<lambda>u. u_organization_id u = organizationId \<and> u_id u \<in> set ids) (Some 100)
       (Some (\<lambda>a b. u_id b \<le> u_id a)) (users w)"

definition retrieveExistedIds :: "env \<Rightarrow> world \<Rightarrow> oid \<Rightarrow> oid list \<Rightarrow> oid list" where
  "retrieveExistedIds E w organizationId userIds =
     getAllIdsBy u_id (mg_users E) (\<lambda>u. u_organization_id u = organizationId \<and> u_id u \<in> set userIds) (users w)"

definition encryptAndSetPassword :: "env \<Rightarrow> string \<Rightarrow> (string \<times> string) handler" where
  "encryptAndSetPassword E plainPassword = transact (\<lambda>w.
     let salt = generateSalt E (entropy w)
     in ((hashPassword E plainPassword salt, salt), w\<lparr>entropy := Suc (entropy w)\<rparr>))"

definition validatePassword :: "env \<Rightarrow> user \<Rightarrow> string \<Rightarrow> bool handler" where
  "validatePassword E user plainPassword = transact (\<lambda>w.
     (verifyPassword E (entropy w) plainPassword (u_encrypted_password user) (u_password_salt user),
      if u_password_salt user = None then w\<lparr>entropy := Suc (entropy w)\<rparr> else w))"

definition updatePassword :: "env \<Rightarrow> oid \<Rightarrow> string \<Rightarrow> user option handler" where
  "updatePassword E userId newPassword =
     andThen (encryptAndSetPassword E newPassword) (\<lambda>(encryptedPassword, salt).
       transact (\<lambda>w.
         let (u, us) = findOneAndUpdate (mg_users E) (\<lambda>u. u_id u = userId)
               (\<lambda>u. u\<lparr>u_password_salt := Some salt, u_encrypted_password := Some encryptedPassword\<rparr>) (users w)
         in (u, w\<lparr>users := us\<rparr>)))"

definition updateActivity :: "env \<Rightarrow> oid \<Rightarrow> nat \<Rightarrow> world \<Rightarrow> world" where
  "updateActivity E userId recentActivity w =
     w\<lparr>users := updateOne (mg_users E) (\<lambda>u. u_id u = userId) (\<lambda>u. u\<lparr>u_recent_activity := recentActivity\<rparr>) (users w)\<rparr>"

definition getDisplayName :: "user \<Rightarrow> string" where
  "getDisplayName user =
     (let first = (case u_first_name user of None \<Rightarrow> [] | Some s \<Rightarrow> s);
          lst = (case u_last_name user of None \<Rightarrow> [] | Some s \<Rightarrow> s);
          space = (\<lambda>c. c = CHR '' '')
      in if first \<noteq> [] \<or> lst \<noteq> []
         then rev (dropWhile space (rev (dropWhile space (first @ '' '' @ lst))))
         else u_login user)"

text \<open>Seconds of the millisecond clock: \<open>Math.ceil\<close> and \<open>Math.round\<close>.\<close>

definition currentTimeStamp :: "world \<Rightarrow> nat" where
  "currentTimeStamp w = (clock w + 999) div 1000"

definition roundSeconds :: "world \<Rightarrow> nat" where
  "roundSeconds w = (clock w + 500) div 1000"

text \<open>The URL of an avatar is asked for with the errors turned into \<open>null\<close>.\<close>

definition orNull :: "'a handler \<Rightarrow> 'a option handler" where
  "orNull m = (\<lambda>w. case m w of (Inl e, w') \<Rightarrow> (Inr None, w') | (Inr x, w') \<Rightarrow> (Inr (Some x), w'))"

definition avatarUrl :: "env \<Rightarrow> user \<Rightarrow> string option handler" where
  "avatarUrl E user = (case u_avatar_object user of
      None \<Rightarrow> ret None
    | Some a \<Rightarrow> (case map_of a ''file_id'' of
        Some (JStr file_id) \<Rightarrow> orNull (getFileDownloadUrl E (u_organization_id user) file_id)
      | _ \<Rightarrow> ret None))"

definition addAvatarUrl :: "env \<Rightarrow> user list \<Rightarrow> (user \<times> string option) list handler" where
  "addAvatarUrl E us = forEach us (\<lambda>user. andThen (avatarUrl E user) (\<lambda>url. ret (user, url)))"

lemma avatarUrl_run: "\<exists>url st n. avatarUrl E user w = (Inr url, w\<lparr>entropy := n, redis := st\<rparr>)"
proof -
  have same: "\<exists>st n. w = w\<lparr>entropy := n, redis := st\<rparr>" by (rule exI[of _ "redis w"], rule exI[of _ "entropy w"]) simp
  have "\<exists>url st n. orNull (getFileDownloadUrl E org i) w = (Inr url, w\<lparr>entropy := n, redis := st\<rparr>)" for org i
    using getFileDownloadUrl_frame[of E org i w] by (cases "getFileDownloadUrl E org i w") (auto simp: orNull_def split: sum.split)
  with same show ?thesis by (auto simp: avatarUrl_def split: option.split json.split)
qed

lemma addAvatarUrl_one: "addAvatarUrl E [user] = andThen (avatarUrl E user) (\<lambda>url. ret [(user, url)])"
  by (rule ext) (simp add: addAvatarUrl_def andThen_def split: prod.split sum.split)

lemma addAvatarUrl_run: "\<exists>url st n. addAvatarUrl E [user] w = (Inr [(user, url)], w\<lparr>entropy := n, redis := st\<rparr>)"
proof -
  obtain url st n where "avatarUrl E user w = (Inr url, w\<lparr>entropy := n, redis := st\<rparr>)" using avatarUrl_run by blast
  then show ?thesis unfolding addAvatarUrl_one by (simp add: andThen_run) blast
qed

section \<open>Organizations\<close>

definition isExist :: "env \<Rightarrow> world \<Rightarrow> oid \<Rightarrow> bool" where
  "isExist E w orgId = (findById o_id (mg_organizations E) orgId (organizations w) \<noteq> None)"

definition isUserFromBlocked :: "env \<Rightarrow> world \<Rightarrow> oid \<Rightarrow> bool" where
  "isUserFromBlocked E w organizationId =
     (case findById o_id (mg_organizations E) organizationId (organizations w) of
        None \<Rightarrow> False | Some org \<Rightarrow> o_is_blocked org)"

section \<open>Tokens\<close>

text \<open>An empty device id is falsy and is left out of the query.\<close>

definition findToken :: "env \<Rightarrow> world \<Rightarrow> token_value option \<Rightarrow> string option \<Rightarrow> token_type option \<Rightarrow> user_token option" where
  "findToken E w jwtToken deviceId tokenType =
     findOne (mg_user_tokens E) (\<lambda>t. Some (t_token t) = jwtToken
       \<and> (case deviceId of None \<Rightarrow> True | Some d \<Rightarrow> d = [] \<or> t_device_id t = d)
       \<and> (case tokenType of None \<Rightarrow> True | Some ty \<Rightarrow> t_type t = ty)) (user_tokens w)"

definition findTokenByUserId :: "env \<Rightarrow> world \<Rightarrow> oid \<Rightarrow> string \<Rightarrow> token_value option \<Rightarrow> user_token option" where
  "findTokenByUserId E w userId deviceId token =
     findOne (mg_user_tokens E) (\<lambda>t. t_user_id t = userId \<and> t_device_id t = deviceId
       \<and> (case token of None \<Rightarrow> True | Some v \<Rightarrow> t_token t = v)) (user_tokens w)"

fun typeName :: "token_type \<Rightarrow> string" where
  "typeName AccessToken = ''access''"
| "typeName RefreshToken = ''refresh''"
| "typeName OtpToken = ''otp''"

definition createToken :: "env \<Rightarrow> oid \<Rightarrow> oid \<Rightarrow> string \<Rightarrow> token_type \<Rightarrow> token_value \<Rightarrow> user_token handler" where
  "createToken E organizationId userId deviceId ty v =
     insertInto (mg_user_tokens E) user_tokens user_tokens_update (\<lambda>now i.
       \<lparr>t_id = i, t_organization_id = organizationId, t_user_id = userId, t_device_id = deviceId,
        t_type = ty, t_token = v, t_created_at = now, t_updated_at = now\<rparr>)"

text \<open>
  The third argument of \<open>findTokenByUserId\<close> is the token, but \<open>updateToken\<close> and
  \<open>UserAuthOperation\<close> pass the type: the query asks for a token whose value is
  \<open>"access"\<close>.
\<close>

definition updateToken ::
  "env \<Rightarrow> user_token option \<Rightarrow> oid \<Rightarrow> oid \<Rightarrow> string \<Rightarrow> token_value \<Rightarrow> token_type \<Rightarrow> user_token handler" where
  "updateToken E token organizationId userId deviceId jwtToken tokenType = (\<lambda>w.
     let existedToken = (case token of
            Some t \<Rightarrow> if tokenType \<noteq> t_type t
              then findTokenByUserId E w userId deviceId (Some (Jwt (typeName tokenType))) else Some t
          | None \<Rightarrow> findTokenByUserId E w userId deviceId (Some (Jwt (typeName tokenType))))
     in case existedToken of
          Some t \<Rightarrow> (Inr (t\<lparr>t_token := jwtToken\<rparr>), w\<lparr>user_tokens := updateOne (mg_user_tokens E)
              (\<lambda>r. t_user_id r = t_user_id t \<and> t_device_id r = deviceId \<and> t_type r = tokenType)
              (\<lambda>r. r\<lparr>t_token := jwtToken, t_updated_at := clock w\<rparr>) (user_tokens w)\<rparr>)
        | None \<Rightarrow> createToken E organizationId userId deviceId tokenType jwtToken w)"

definition upsertOTPToken :: "env \<Rightarrow> oid \<Rightarrow> oid \<Rightarrow> string \<Rightarrow> user_token handler" where
  "upsertOTPToken E organizationId userId deviceId = (\<lambda>w.
     let existedToken = findTokenByUserId E w userId deviceId None;
         newOtpToken = Otp (randomOtp E (entropy w));
         w1 = w\<lparr>entropy := Suc (entropy w)\<rparr>
     in case existedToken of
          Some t \<Rightarrow> (Inr (t\<lparr>t_token := newOtpToken\<rparr>), w1\<lparr>user_tokens := updateOne (mg_user_tokens E)
              (\<lambda>r. t_user_id r = userId \<and> t_organization_id r = organizationId \<and> t_device_id r = deviceId
                 \<and> t_type r = OtpToken)
              (\<lambda>r. r\<lparr>t_token := newOtpToken, t_updated_at := clock w\<rparr>) (user_tokens w1)\<rparr>)
        | None \<Rightarrow> createToken E organizationId userId deviceId OtpToken newOtpToken w1)"

definition Token_deleteByUserId :: "env \<Rightarrow> oid \<Rightarrow> string option \<Rightarrow> world \<Rightarrow> world" where
  "Token_deleteByUserId E userId deviceId w =
     w\<lparr>user_tokens := snd (deleteMany (mg_user_tokens E)
        (\<lambda>t. t_user_id t = userId \<and> Some (t_device_id t) = deviceId) (user_tokens w))\<rparr>"

definition removeByDeviceId :: "env \<Rightarrow> oid \<Rightarrow> string option \<Rightarrow> world \<Rightarrow> world" where
  "removeByDeviceId E userId deviceId w =
     (case findOne (mg_encrypted_devices E) (\<lambda>d. ed_user_id d = userId \<and> Some (ed_device_id d) = deviceId) (encrypted_devices w) of
        None \<Rightarrow> w
      | Some d \<Rightarrow> w\<lparr>encrypted_devices := deleteById ed_id (mg_encrypted_devices E) (ed_id d) (encrypted_devices w)\<rparr>)"

section \<open>Logging in and out\<close>

record user_info =
  ui_organization_id :: oid
  ui_device_id :: string
  ui_token :: "string option"
  ui_userId :: "oid option"
  ui_login :: "string option"
  ui_password :: "string option"

definition authByToken :: "env \<Rightarrow> string \<Rightarrow> string \<Rightarrow> (user option \<times> user_token option) handler" where
  "authByToken E tokenJwt deviceId = (\<lambda>w.
     case findToken E w (Some (Jwt tokenJwt)) (Some deviceId) None of
       None \<Rightarrow> (Inl (Status TOKEN_EXPIRED), w)
     | Some t \<Rightarrow> (Inr (User_findById E w (t_user_id t), Some t), w))"

definition authByUserInfo :: "env \<Rightarrow> oid \<Rightarrow> user_info \<Rightarrow> string \<Rightarrow> (user option \<times> user_token option) handler" where
  "authByUserInfo E organizationId userInfo deviceId =
     andThen (gets (\<lambda>w. case ui_userId userInfo of
           Some i \<Rightarrow> User_findById E w i
         | None \<Rightarrow> (case ui_login userInfo of None \<Rightarrow> None | Some l \<Rightarrow> findByLogin E w organizationId l)))
       (\<lambda>found. case found of
          None \<Rightarrow> throw (Status INCORRECT_LOGIN_OR_PASSWORD)
        | Some user \<Rightarrow>
            andThen (validatePassword E user (case ui_password userInfo of None \<Rightarrow> ''undefined'' | Some p \<Rightarrow> p))
              (\<lambda>isValid. if \<not> isValid then throw (Status INCORRECT_LOGIN_OR_PASSWORD)
                 else gets (\<lambda>w. (Some user, findTokenByUserId E w (u_id user) deviceId (Some (Jwt (typeName AccessToken)))))))"

text \<open>The session part that \<open>UserAuthOperation\<close> and \<open>UserConnectSocketOperation\<close> share.\<close>

definition connectDevice :: "env \<Rightarrow> socket \<Rightarrow> user \<Rightarrow> string \<Rightarrow> world \<Rightarrow> world" where
  "connectDevice E ws user deviceId w =
     (let ((sameDeviceConnection, sameSocketConnection), w1) =
            addUserDeviceConnection ws (u_organization_id user) (u_id user) deviceId w;
          w2 = storeUserNodeData E ws (u_organization_id user) (u_id user) deviceId w1
      in case sameSocketConnection of
           None \<Rightarrow> w2
         | Some c \<Rightarrow> snd (removeAllUserDeviceData E (u_organization_id user) (u_id user) (cn_deviceId c) w2))"

definition generateToken :: "env \<Rightarrow> world \<Rightarrow> user \<Rightarrow> token_type \<Rightarrow> string" where
  "generateToken E w user ty = jwt_sign E (u_id user) (u_login user) ty (clock w)"

definition UserAuth_perform :: "env \<Rightarrow> socket \<Rightarrow> user_info \<Rightarrow> bool \<Rightarrow> ((user \<times> string option) \<times> user_token) handler" where
  "UserAuth_perform E ws userInfo omitDeviceConnection =
     (let organizationId = ui_organization_id userInfo; deviceId = ui_device_id userInfo in
      andThen (case ui_token userInfo of
           Some tk \<Rightarrow> if tk = [] then authByUserInfo E organizationId userInfo deviceId else authByToken E tk deviceId
         | None \<Rightarrow> authByUserInfo E organizationId userInfo deviceId)
        (\<lambda>(found, token). case found of
           None \<Rightarrow> throw TypeError
         | Some user \<Rightarrow>
             andThen (gets (\<lambda>w. isUserFromBlocked E w (u_organization_id user))) (\<lambda>isBlocked.
               if isBlocked then throw (Status ORGANIZATION_BLOCKED)
               else andThen (if omitDeviceConnection then ret () else modify (connectDevice E ws user deviceId)) (\<lambda>_.
                 andThen (gets (\<lambda>w. generateToken E w user AccessToken)) (\<lambda>jwtAccessToken.
                 andThen (updateToken E token organizationId (u_id user) deviceId (Jwt jwtAccessToken) AccessToken)
                   (\<lambda>updatedToken. andThen (addAvatarUrl E [user]) (\<lambda>us. ret (hd us, updatedToken))))))))"

definition createRefreshToken :: "env \<Rightarrow> user \<Rightarrow> string \<Rightarrow> user_token handler" where
  "createRefreshToken E user deviceId =
     andThen (gets (\<lambda>w. generateToken E w user RefreshToken)) (\<lambda>jwtToken.
       updateToken E None (u_organization_id user) (u_id user) deviceId (Jwt jwtToken) RefreshToken)"

definition UserConnect_perform :: "env \<Rightarrow> socket \<Rightarrow> string option \<Rightarrow> string \<Rightarrow> user handler" where
  "UserConnect_perform E ws tokenParam deviceId =
     andThen (gets (\<lambda>w. findToken E w (map_option Jwt tokenParam) (Some deviceId) (Some AccessToken))) (\<lambda>found.
       case found of
         None \<Rightarrow> throw (Status TOKEN_EXPIRED)
       | Some token \<Rightarrow> andThen (gets (\<lambda>w. User_findById E w (t_user_id token))) (\<lambda>u. case u of
            None \<Rightarrow> throw TypeError
          | Some user \<Rightarrow> andThen (modify (connectDevice E ws user deviceId)) (\<lambda>_. ret user)))"

definition UserLogout_perform :: "env \<Rightarrow> socket \<Rightarrow> (oid \<times> oid \<times> bool) handler" where
  "UserLogout_perform E ws = (\<lambda>w. case getSession w ws of
      None \<Rightarrow> (Inl TypeError, w)
    | Some s \<Rightarrow>
        let userId = s_userId s; deviceId = getDeviceId w ws userId;
            w1 = removeByDeviceId E userId deviceId w;
            (isWasLastUserSession, w2) = removeUserSession E ws (Some userId) deviceId w1
        in (Inr (s_organizationId s, userId, isWasLastUserSession), Token_deleteByUserId E userId deviceId w2))"

definition HttpUserLogout_perform ::
  "env \<Rightarrow> string option \<Rightarrow> string option \<Rightarrow> (user_token \<times> bool) handler" where
  "HttpUserLogout_perform E accessToken refreshToken =
     andThen (gets (\<lambda>w. findToken E w (map_option Jwt accessToken) None (Some AccessToken))) (\<lambda>a. case a of
       None \<Rightarrow> throw (Status MISSING_AUTH_CREDENTIALS)
     | Some accessTokenRecord \<Rightarrow>
         andThen (gets (\<lambda>w. findToken E w (map_option Jwt refreshToken) (Some (t_device_id accessTokenRecord)) (Some RefreshToken)))
           (\<lambda>r. case r of
              None \<Rightarrow> throw (Status INCORRECT_TOKEN)
            | Some refreshTokenRecord \<Rightarrow>
                let userId = t_user_id refreshTokenRecord; deviceId = t_device_id refreshTokenRecord in
                andThen (gets (\<lambda>w. map_option cn_socket (List.find (\<lambda>c. cn_deviceId c = deviceId) (getUserDevices w userId))))
                  (\<lambda>socket.
                 andThen (transact (listUserDevice E (t_organization_id refreshTokenRecord) userId True)) (\<lambda>userDevices.
                   case socket of
                     Some ws \<Rightarrow> andThen (UserLogout_perform E ws)
                        (\<lambda>(_, _, isWasLastUserSession). ret (refreshTokenRecord, isWasLastUserSession))
                   | None \<Rightarrow> andThen (modify (Token_deleteByUserId E userId (Some deviceId)))
                        (\<lambda>_. ret (refreshTokenRecord, userDevices = []))))))"

section \<open>Resetting a password\<close>

definition UserSendOTP_perform :: "env \<Rightarrow> oid \<Rightarrow> string \<Rightarrow> string \<Rightarrow> (string option \<times> token_value) handler" where
  "UserSendOTP_perform E organization_id device_id email =
     andThen (gets (\<lambda>w. findByEmail E w organization_id email)) (\<lambda>u. case u of
       None \<Rightarrow> throw (Status USER_NOT_FOUND)
     | Some user \<Rightarrow> andThen (upsertOTPToken E organization_id (u_id user) device_id)
         (\<lambda>otpToken. ret (u_email user, t_token otpToken)))"

definition UserResetPassword_perform ::
  "env \<Rightarrow> oid \<Rightarrow> string \<Rightarrow> string \<Rightarrow> token_value option \<Rightarrow> string \<Rightarrow> unit handler" where
  "UserResetPassword_perform E organization_id email device_id token new_password =
     andThen (gets (\<lambda>w. findByEmail E w organization_id email)) (\<lambda>u. case u of
       None \<Rightarrow> throw TypeError
     | Some user \<Rightarrow>
         andThen (gets (\<lambda>w. findTokenByUserId E w (u_id user) device_id None)) (\<lambda>t. case t of
           None \<Rightarrow> throw (Status INCORRECT_OTP_TOKEN)
         | Some otpToken \<Rightarrow> if Some (t_token otpToken) \<noteq> token then throw (Status INCORRECT_OTP_TOKEN)
             else andThen (updatePassword E (u_id user) new_password) (\<lambda>_.
               modify (Token_deleteByUserId E (u_id user) (Some device_id)))))"

end
