(* ===== verification/Keyed_Rows.thy ===== *)
theory Keyed_Rows
  imports Model
begin

text \<open>
  The interface between the bulk loops of the repositories and the rows they write. Several
  repositories keep rows that are unique by a key although no index of the database
  enforces it (the participants of a conversation, the reactions of a user to a message):
  they insert a row only when no row with its key exists, and delete by key. The locale
  states what the single insert and the single delete promise; what the loops do follows from
  it once for all.
\<close>

text \<open>The loop: run a step per element and collect the keys of those that had an effect.\<close>

primrec collect :: "('x \<Rightarrow> ('s, 'e, bool) eff) \<Rightarrow> ('x \<Rightarrow> 'k) \<Rightarrow> 'x list \<Rightarrow> ('s, 'e, 'k list) eff" where
  "collect f key [] = ret []"
| "collect f key (x # xs) =
     andThen (f x) (\<lambda>done. andThen (collect f key xs) (\<lambda>ks. ret (if done then key x # ks else ks)))"

lemma collect_keeps [keeps_intros]: "(\<And>x. x \<in> set xs \<Longrightarrow> keeps I (f x)) \<Longrightarrow> keeps I (collect f key xs)"
  by (induction xs) (auto intro!: keeps_intros)

locale keyed_rows =
  fixes inv :: "'s \<Rightarrow> bool"
    and members :: "'s \<Rightarrow> 'k set"
    and add :: "'x \<Rightarrow> ('s, 'e, bool) eff"
    and key :: "'x \<Rightarrow> 'k"
    and del :: "'k \<Rightarrow> ('s, 'e, bool) eff"
  assumes finite_members: "inv s \<Longrightarrow> finite (members s)"
    and add_law: "inv s \<Longrightarrow> \<exists>s'. add x s = (Inr (key x \<notin> members s), s') \<and> inv s'
          \<and> members s' = insert (key x) (members s)"
    and del_law: "inv s \<Longrightarrow> \<exists>s'. del k s = (Inr (k \<in> members s), s') \<and> inv s'
          \<and> members s' = members s - {k}"
begin

lemma collect_add:
  assumes "inv s"
  shows "\<exists>ks s'. collect add key xs s = (Inr ks, s') \<and> inv s' \<and> members s' = members s \<union> key ` set xs
    \<and> distinct ks \<and> set ks = key ` set xs - members s"
  using assms
proof (induction xs arbitrary: s)
  case (Cons x xs)
  obtain s1 where s1: "add x s = (Inr (key x \<notin> members s), s1)" "inv s1" "members s1 = insert (key x) (members s)"
    using add_law[OF Cons.prems] by blast
  obtain ks s2 where s2: "collect add key xs s1 = (Inr ks, s2)" "inv s2" "members s2 = members s1 \<union> key ` set xs"
    "distinct ks" "set ks = key ` set xs - members s1"
    using Cons.IH[OF s1(2)] by blast
  have "collect add key (x # xs) s = (Inr (if key x \<notin> members s then key x # ks else ks), s2)"
    using s1(1) s2(1) by (simp add: andThen_run)
  moreover have "members s2 = members s \<union> key ` set (x # xs)" using s1(3) s2(3) by auto
  moreover have "distinct (if key x \<notin> members s then key x # ks else ks)" using s1(3) s2(4,5) by auto
  moreover have "set (if key x \<notin> members s then key x # ks else ks) = key ` set (x # xs) - members s"
    using s1(3) s2(5) by auto
  ultimately show ?case using s2(2) by blast
qed simp

lemma collect_del:
  assumes "inv s"
  shows "\<exists>ks s'. collect del (\<lambda>k. k) xs s = (Inr ks, s') \<and> inv s' \<and> members s' = members s - set xs
    \<and> distinct ks \<and> set ks = set xs \<inter> members s"
  using assms
proof (induction xs arbitrary: s)
  case (Cons x xs)
  obtain s1 where s1: "del x s = (Inr (x \<in> members s), s1)" "inv s1" "members s1 = members s - {x}"
    using del_law[OF Cons.prems] by blast
  obtain ks s2 where s2: "collect del (\<lambda>k. k) xs s1 = (Inr ks, s2)" "inv s2" "members s2 = members s1 - set xs"
    "distinct ks" "set ks = set xs \<inter> members s1"
    using Cons.IH[OF s1(2)] by blast
  have "collect del (\<lambda>k. k) (x # xs) s = (Inr (if x \<in> members s then x # ks else ks), s2)"
    using s1(1) s2(1) by (simp add: andThen_run)
  moreover have "members s2 = members s - set (x # xs)" using s1(3) s2(3) by auto
  moreover have "distinct (if x \<in> members s then x # ks else ks)" using s1(3) s2(4,5) by auto
  moreover have "set (if x \<in> members s then x # ks else ks) = set (x # xs) \<inter> members s"
    using s1(3) s2(5) by auto
  ultimately show ?case using s2(2) by blast
qed simp

text \<open>The number of rows moves by the number of keys the loop reports.\<close>

lemma collect_add_card:
  assumes "inv s" "collect add key xs s = (Inr ks, s')"
  shows "card (members s') = card (members s) + length ks"
proof -
  from collect_add[OF assms(1), of xs] assms(2)
  have m: "members s' = members s \<union> set ks" "distinct ks" "members s \<inter> set ks = {}" by auto
  with finite_members[OF assms(1)] show ?thesis by (simp add: card_Un_disjoint distinct_card)
qed

lemma collect_del_card:
  assumes "inv s" "collect del (\<lambda>k. k) xs s = (Inr ks, s')"
  shows "card (members s') + length ks = card (members s)"
proof -
  from collect_del[OF assms(1), of xs] assms(2)
  have m: "members s' = members s - set ks" "distinct ks" "set ks \<subseteq> members s" by auto
  with finite_members[OF assms(1)] show ?thesis
    by (metis card_Diff_subset distinct_card finite_set le_add_diff_inverse2 card_mono)
qed

end

end
