(* ===== verification/Conversations.thy ===== *)
theory Conversations
  imports Users Keyed_Rows
begin

text \<open>
  Conversations and their participants: the repositories
  \<^verbatim>\<open>app/providers/repositories/conversation\<close> and
  \<^verbatim>\<open>conversation_participants\<close> and \<open>ConversationService\<close>
  (\<^verbatim>\<open>app/providers/services/conversation/index.js\<close>). A \<open>$match\<close>/\<open>$group\<close> pipeline is the matching
  documents grouped by the key. The generator of participant batches is the list of the batches it
  yields. The text search by regular expression and the download URLs of images are not
  modelled.
\<close>

section \<open>Conversation repository\<close>

definition findByIdWithOrgScope :: "env \<Rightarrow> world \<Rightarrow> oid \<Rightarrow> oid \<Rightarrow> conversation option" where
  "findByIdWithOrgScope E w organizationId conversationId =
     findOne (mg_conversations E) (\<lambda>c. c_organization_id c = organizationId \<and> c_id c = conversationId) (conversations w)"

definition findByIdsWithOrgScope :: "env \<Rightarrow> world \<Rightarrow> oid \<Rightarrow> oid list \<Rightarrow> conversation list" where
  "findByIdsWithOrgScope E w organizationId conversationIds =
     findAll (mg_conversations E) (\<lambda>c. c_organization_id c = organizationId \<and> c_id c \<in> set conversationIds)
       None None (conversations w)"

text \<open>The query asks whether the field \<open>is_encrypted\<close> exists, not what it holds.\<close>

definition findExistedPrivateConversation :: "env \<Rightarrow> world \<Rightarrow> oid \<Rightarrow> oid \<Rightarrow> bool option \<Rightarrow> conversation option" where
  "findExistedPrivateConversation E w ownerId opponentId isEncrypted =
     (let query = (\<lambda>c. c_type c = Private \<and> (c_is_encrypted c \<noteq> None) = (isEncrypted = Some True))
      in findOne (mg_conversations E) (\<lambda>c. c_type c = Private \<and>
           (c_owner_id c = ownerId \<and> c_opponent_id c = Some opponentId \<and> query c \<or>
            c_owner_id c = opponentId \<and> c_opponent_id c = Some ownerId \<and> query c)) (conversations w))"

definition findAvailablePrivateConversation :: "env \<Rightarrow> world \<Rightarrow> oid list \<Rightarrow> oid \<Rightarrow> conversation list" where
  "findAvailablePrivateConversation E w conversationIds user_id =
     findAll (mg_conversations E) (\<lambda>c. c_id c \<in> set conversationIds \<and> c_type c = Private \<and>
       (c_owner_id c = user_id \<or> c_opponent_id c = Some user_id)) None None (conversations w)"

definition between :: "nat option \<Rightarrow> nat option \<Rightarrow> nat \<Rightarrow> bool" where
  "between lo hi t = ((case lo of None \<Rightarrow> True | Some a \<Rightarrow> t > a) \<and> (case hi of None \<Rightarrow> True | Some b \<Rightarrow> t < b))"

definition ConversationRepo_list ::
  "env \<Rightarrow> world \<Rightarrow> oid \<Rightarrow> oid list \<Rightarrow> nat option \<Rightarrow> nat option \<Rightarrow> nat option \<Rightarrow> conversation list" where
  "ConversationRepo_list E w organizationId conversationIds updatedAtFrom updatedAtTo lim =
     findAll (mg_conversations E) (\<lambda>c. c_organization_id c = organizationId \<and> c_id c \<in> set conversationIds \<and>
       between updatedAtFrom updatedAtTo (c_updated_at c)) lim (Some (\<lambda>a b. c_id b \<le> c_id a)) (conversations w)"

text \<open>
  The pattern is made of the text of the request as it is: \<open>new RegExp\<close> raises an error for a text that is no pattern (\<open>regexTest\<close> is the
  matching of patterns, ignoring case). A private conversation has no name.
\<close>

definition ConversationRepo_search ::
  "env \<Rightarrow> oid \<Rightarrow> string \<Rightarrow> oid list \<Rightarrow> timestamp option \<Rightarrow> nat \<Rightarrow> conversation list handler" where
  "ConversationRepo_search E organizationId chatNameMatch ignoreIds timeFromUpdate lim =
     (case regexTest E (chatNameMatch @ ''.*'') of
        None \<Rightarrow> throw TypeError
      | Some matches \<Rightarrow> gets (\<lambda>w. findAll (mg_conversations E) (\<lambda>c. c_id c \<notin> set ignoreIds \<and> c_organization_id c = organizationId
          \<and> (case c_name c of None \<Rightarrow> False | Some n \<Rightarrow> matches n)
          \<and> (case timeFromUpdate of None \<Rightarrow> True | Some t \<Rightarrow> t = 0 \<or> t < c_updated_at c))
          (Some lim) (Some (\<lambda>a b. c_updated_at b \<le> c_updated_at a)) (conversations w)))"

definition updateOwner :: "env \<Rightarrow> oid \<Rightarrow> oid \<Rightarrow> world \<Rightarrow> world" where
  "updateOwner E conversationId newOwnerId w = w\<lparr>conversations := updateOne (mg_conversations E)
     (\<lambda>c. c_id c = conversationId) (\<lambda>c. c\<lparr>c_owner_id := newOwnerId\<rparr>) (conversations w)\<rparr>"

definition updateLastActivity :: "env \<Rightarrow> oid \<Rightarrow> timestamp \<Rightarrow> world \<Rightarrow> world" where
  "updateLastActivity E conversationId updatedAt w = w\<lparr>conversations := updateOne (mg_conversations E)
     (\<lambda>c. c_id c = conversationId) (\<lambda>c. c\<lparr>c_updated_at := updatedAt\<rparr>) (conversations w)\<rparr>"

definition updateSubscribersCount :: "env \<Rightarrow> oid \<Rightarrow> js_number \<Rightarrow> world \<Rightarrow> world" where
  "updateSubscribersCount E conversationId subscribersCount w = w\<lparr>conversations := updateOne (mg_conversations E)
     (\<lambda>c. c_id c = conversationId) (\<lambda>c. c\<lparr>c_subscribers_count := Some subscribersCount\<rparr>) (conversations w)\<rparr>"

text \<open>
  The fields an update request may set (\<^verbatim>\<open>conversationsSchemaValidation.update\<close>). The changes of the participants are among them: only
  the identifier and the admins are taken out of the request, and the rest is stored.
\<close>

record conv_update =
  ue_name :: "string option"
  ue_description :: "string option"
  ue_image_object :: "json option"
  ue_participants :: "json option"

definition setFields :: "conv_update \<Rightarrow> conversation \<Rightarrow> conversation" where
  "setFields u c = c\<lparr>
     c_name := (case ue_name u of None \<Rightarrow> c_name c | Some n \<Rightarrow> Some n),
     c_description := (case ue_description u of None \<Rightarrow> c_description c | Some d \<Rightarrow> Some d),
     c_image_object := (case ue_image_object u of None \<Rightarrow> c_image_object c | Some i \<Rightarrow> Some i),
     c_participants := (case ue_participants u of None \<Rightarrow> c_participants c | Some j \<Rightarrow> Some j)\<rparr>"

definition ConversationRepo_update :: "env \<Rightarrow> oid \<Rightarrow> conv_update \<Rightarrow> conversation option handler" where
  "ConversationRepo_update E conversationId updateParams = transact (\<lambda>w.
     let (c, cs) = findOneAndUpdate (mg_conversations E) (\<lambda>c. c_id c = conversationId) (setFields updateParams) (conversations w)
     in (c, w\<lparr>conversations := cs\<rparr>))"

section \<open>Participant repository\<close>

definition participantQuery :: "oid \<Rightarrow> oid list \<Rightarrow> participant \<Rightarrow> bool" where
  "participantQuery conversationId exceptUserIds p =
     (cp_conversation_id p = conversationId \<and> cp_user_id p \<notin> set exceptUserIds)"

definition findConversationParticipants ::
  "env \<Rightarrow> world \<Rightarrow> oid \<Rightarrow> oid list \<Rightarrow> oid option \<Rightarrow> nat option \<Rightarrow> participant list" where
  "findConversationParticipants E w conversationId exceptUserIds lastObjectId lim =
     findAll (mg_participants E) (\<lambda>p. participantQuery conversationId exceptUserIds p \<and>
         (case lastObjectId of None \<Rightarrow> True | Some i \<Rightarrow> cp_id p < i)) lim
       (Some (\<lambda>a b. cp_id b \<le> cp_id a)) (participants w)"

definition countConversationParticipants :: "env \<Rightarrow> world \<Rightarrow> oid \<Rightarrow> oid list \<Rightarrow> nat" where
  "countConversationParticipants E w conversationId exceptUserIds =
     count (mg_participants E) (participantQuery conversationId exceptUserIds) (participants w)"

definition countConversationsParticipants :: "world \<Rightarrow> oid list \<Rightarrow> (oid \<times> nat) list" where
  "countConversationsParticipants w conversationIds =
     map (\<lambda>(k, us). (k, length us))
       (groupBy cp_conversation_id cp_user_id (filter (\<lambda>p. cp_conversation_id p \<in> set conversationIds) (participants w)))"

definition filterAvailableConversationIds :: "env \<Rightarrow> world \<Rightarrow> oid list \<Rightarrow> oid \<Rightarrow> role option \<Rightarrow> oid list" where
  "filterAvailableConversationIds E w conversationIds participantId role =
     map cp_conversation_id (findAll (mg_participants E) (\<lambda>p. cp_conversation_id p \<in> set conversationIds \<and>
        cp_user_id p = participantId \<and> (case role of None \<Rightarrow> True | Some r \<Rightarrow> cp_role p = Some r)) None None (participants w))"

definition findConversationsParticipants :: "world \<Rightarrow> oid list \<Rightarrow> role option \<Rightarrow> (oid \<times> oid list) list" where
  "findConversationsParticipants w conversationIds role =
     groupBy cp_conversation_id cp_user_id (filter (\<lambda>p. cp_conversation_id p \<in> set conversationIds \<and>
        (case role of None \<Rightarrow> True | Some r \<Rightarrow> cp_role p = Some r)) (participants w))"

definition findParticipantConversations :: "env \<Rightarrow> world \<Rightarrow> oid \<Rightarrow> nat option \<Rightarrow> nat option \<Rightarrow> nat option \<Rightarrow> oid list" where
  "findParticipantConversations E w userId updatedAtFrom updatedAtTo lim =
     map cp_conversation_id (findAll (mg_participants E) (\<lambda>p. cp_user_id p = userId \<and>
        between updatedAtFrom updatedAtTo (cp_updated_at p)) lim (Some (\<lambda>a b. cp_id b \<le> cp_id a)) (participants w))"

definition findFirstConversationParticipant :: "env \<Rightarrow> world \<Rightarrow> oid \<Rightarrow> oid option \<Rightarrow> participant option" where
  "findFirstConversationParticipant E w conversationId participantId =
     findOne (mg_participants E) (\<lambda>p. cp_conversation_id p = conversationId \<and>
        (case participantId of None \<Rightarrow> True | Some u \<Rightarrow> cp_user_id p = u)) (participants w)"

definition extractParticipantIdsFromPrivateConversations :: "conversation list \<Rightarrow> oid list" where
  "extractParticipantIdsFromPrivateConversations cs =
     concat (map (\<lambda>c. c_owner_id c # (case c_opponent_id c of None \<Rightarrow> [] | Some o' \<Rightarrow> [o'])) cs)"

record participant_params =
  pp_user_id :: oid
  pp_organization_id :: oid
  pp_role :: "role option"

definition upsertParticipant :: "env \<Rightarrow> oid \<Rightarrow> participant_params \<Rightarrow> bool handler" where
  "upsertParticipant E conversationId pParams = transact (\<lambda>w.
     let (upsertedId, ps) = updateOneUpsert (mg_participants E)
           (\<lambda>p. cp_conversation_id p = conversationId \<and> cp_user_id p = pp_user_id pParams)
           (\<lambda>i. \<lparr>cp_id = i, cp_organization_id = pp_organization_id pParams, cp_conversation_id = conversationId,
              cp_user_id = pp_user_id pParams, cp_role = pp_role pParams, cp_created_at = clock w, cp_updated_at = clock w\<rparr>)
           (participants w)
     in (upsertedId \<noteq> None, w\<lparr>participants := ps\<rparr>))"

definition addNoExistedParticipants :: "env \<Rightarrow> oid \<Rightarrow> participant_params list \<Rightarrow> oid list handler" where
  "addNoExistedParticipants E conversationId participantsParams =
     collect (upsertParticipant E conversationId) pp_user_id participantsParams"

definition deleteParticipant :: "env \<Rightarrow> oid \<Rightarrow> oid \<Rightarrow> bool handler" where
  "deleteParticipant E conversationId pId = transact (\<lambda>w.
     let (deletedCount, ps) = deleteMany (mg_participants E)
           (\<lambda>p. cp_conversation_id p = conversationId \<and> cp_user_id p = pId) (participants w)
     in (deletedCount > 0, w\<lparr>participants := ps\<rparr>))"

definition removeExistedParticipants :: "env \<Rightarrow> oid \<Rightarrow> oid list \<Rightarrow> oid list handler" where
  "removeExistedParticipants E conversationId participantIds =
     collect (deleteParticipant E conversationId) (\<lambda>pId. pId) participantIds"

definition addAdminRole :: "env \<Rightarrow> oid \<Rightarrow> oid list \<Rightarrow> world \<Rightarrow> world" where
  "addAdminRole E conversationId participantIds w = w\<lparr>participants := updateMany (mg_participants E)
     (\<lambda>p. cp_conversation_id p = conversationId \<and> cp_user_id p \<in> set participantIds)
     (\<lambda>p. p\<lparr>cp_role := Some AdminRole\<rparr>) (participants w)\<rparr>"

definition removeAdminRole :: "env \<Rightarrow> oid \<Rightarrow> oid list \<Rightarrow> world \<Rightarrow> world" where
  "removeAdminRole E conversationId participantIds w = w\<lparr>participants := updateMany (mg_participants E)
     (\<lambda>p. cp_conversation_id p = conversationId \<and> cp_user_id p \<in> set participantIds)
     (\<lambda>p. p\<lparr>cp_role := None\<rparr>) (participants w)\<rparr>"

section \<open>Conversation service\<close>

text \<open>
  The methods that change the conversation object they are given (\<open>conversation.set\<close>) return
  it changed.
\<close>

definition addParticipants :: "env \<Rightarrow> conversation \<Rightarrow> oid list \<Rightarrow> bool \<Rightarrow> (oid list \<times> conversation) handler" where
  "addParticipants E conversation participantIds isEmpty =
     andThen (gets (\<lambda>w.
         if isEmpty then JsInt 0
         else if c_type conversation = Channel then orZero (c_subscribers_count conversation)
         else JsInt (int (countConversationParticipants E w (c_id conversation) []))))
       (\<lambda>currentParticipantsCount.
         if js_greater (js_plus currentParticipantsCount (int (length participantIds))) (int (cfg_maxParticipants E))
         then throw (Status PARTICIPANTS_LIMIT)
         else andThen (if participantIds = [] then ret participantIds
             else addNoExistedParticipants E (c_id conversation) (map (\<lambda>pId.
                \<lparr>pp_user_id = pId, pp_organization_id = c_organization_id conversation,
                 pp_role = (if pId = c_owner_id conversation then Some OwnerRole else None)\<rparr>) participantIds))
           (\<lambda>addedIds.
             let participantsCount = js_plus currentParticipantsCount (int (length addedIds)) in
             if c_type conversation = Channel
             then andThen (modify (updateSubscribersCount E (c_id conversation) participantsCount))
                    (\<lambda>_. ret (addedIds, conversation\<lparr>c_subscribers_count := Some participantsCount\<rparr>))
             else ret (addedIds, conversation)))"

record remove_result =
  rr_removedIds :: "oid list"
  rr_newOwnerId :: "oid option"
  rr_isEmptyAndDeleted :: bool

definition removeParticipants :: "env \<Rightarrow> conversation \<Rightarrow> oid list \<Rightarrow> (remove_result \<times> conversation) handler" where
  "removeParticipants E conversation participantIds =
     andThen (removeExistedParticipants E (c_id conversation) participantIds) (\<lambda>removedIds.
     andThen (gets (\<lambda>w. findFirstConversationParticipant E w (c_id conversation) None)) (\<lambda>first.
       case first of
         None \<Rightarrow> andThen (modify (\<lambda>w. w\<lparr>conversations := deleteById c_id (mg_conversations E) (c_id conversation) (conversations w)\<rparr>))
            (\<lambda>_. ret (\<lparr>rr_removedIds = removedIds, rr_newOwnerId = None, rr_isEmptyAndDeleted = True\<rparr>, conversation))
       | Some p \<Rightarrow>
           let newOwnerId = (if c_owner_id conversation \<in> set removedIds \<and> c_type conversation \<noteq> Private
                then Some (cp_user_id p) else None) in
           andThen (case newOwnerId of None \<Rightarrow> ret () | Some o' \<Rightarrow> modify (updateOwner E (c_id conversation) o')) (\<lambda>_.
             let result = \<lparr>rr_removedIds = removedIds, rr_newOwnerId = newOwnerId, rr_isEmptyAndDeleted = False\<rparr> in
             if c_type conversation = Channel
             then let subscribersCount = (case c_subscribers_count conversation of None \<Rightarrow> JsNaN
                       | Some n \<Rightarrow> js_plus n (- int (length removedIds))) in
                  andThen (modify (updateSubscribersCount E (c_id conversation) subscribersCount))
                    (\<lambda>_. ret (result, conversation\<lparr>c_subscribers_count := Some subscribersCount\<rparr>))
             else ret (result, conversation))))"

definition updateParticipants :: "env \<Rightarrow> conversation \<Rightarrow> oid list \<Rightarrow> oid list \<Rightarrow> (oid list \<times> remove_result \<times> conversation) handler" where
  "updateParticipants E conversation addIds removeIds =
     andThen (addParticipants E conversation addIds False) (\<lambda>(addedIds, conversation1).
     andThen (removeParticipants E conversation1 removeIds) (\<lambda>(removeResult, conversation2).
       ret (addedIds, removeResult, conversation2)))"

record conv_params =
  cv_type :: conv_type
  cv_name :: "string option"
  cv_description :: "string option"
  cv_opponent_id :: "oid option"
  cv_is_encrypted :: "bool option"
  cv_image_object :: "json option"
  cv_participants :: "oid list"

definition ConversationService_create :: "env \<Rightarrow> user \<Rightarrow> conv_params \<Rightarrow> oid list \<Rightarrow> conversation handler" where
  "ConversationService_create E user params participantIds =
     andThen (insertInto (mg_conversations E) conversations conversations_update (\<lambda>now i.
        \<lparr>c_id = i, c_organization_id = u_organization_id user, c_type = cv_type params, c_name = cv_name params,
         c_description = cv_description params, c_owner_id = u_id user, c_opponent_id = cv_opponent_id params,
         c_is_encrypted = cv_is_encrypted params, c_image_object = cv_image_object params, c_image_url = None,
         c_last_message = None, c_unread_messages_count = None, c_participants = None,
         c_subscribers_count = None, c_created_at = now, c_updated_at = now\<rparr>))
       (\<lambda>conversation. if participantIds = [] then ret conversation
          else andThen (addParticipants E conversation participantIds True) (\<lambda>(_, conversation1). ret conversation1))"

definition restorePrivateConversation :: "env \<Rightarrow> conversation \<Rightarrow> (oid list \<times> conversation) handler" where
  "restorePrivateConversation E conversation =
     addParticipants E conversation
       (c_owner_id conversation # (case c_opponent_id conversation of None \<Rightarrow> [] | Some o' \<Rightarrow> [o'])) False"

text \<open>
  The URL of the image of a conversation. A file that is not found is an error of the whole request; a missing \<open>file_id\<close> finds no file.
\<close>

definition imageUrl :: "env \<Rightarrow> conversation \<Rightarrow> conversation handler" where
  "imageUrl E conv = (case c_image_object conv of
      Some (JObj img) \<Rightarrow> (case map_of img ''file_id'' of
          Some (JStr file_id) \<Rightarrow> andThen (getFileDownloadUrl E (c_organization_id conv) file_id) (\<lambda>url. ret (conv\<lparr>c_image_url := Some url\<rparr>))
        | _ \<Rightarrow> throw (PlainError (''Can'' @ [CHR 0x27] @ ''t find file'')))
    | _ \<Rightarrow> ret conv)"

definition addImageUrl :: "env \<Rightarrow> conversation list \<Rightarrow> conversation list handler" where
  "addImageUrl E cs = promiseAll cs (imageUrl E)"

definition findOpponentId :: "env \<Rightarrow> oid \<Rightarrow> oid \<Rightarrow> oid option handler" where
  "findOpponentId E cid currentUserId = (\<lambda>w. case findById c_id (mg_conversations E) cid (conversations w) of
      None \<Rightarrow> (Inl TypeError, w)
    | Some c \<Rightarrow> (Inr (if c_owner_id c = currentUserId then c_opponent_id c else Some (c_owner_id c)), w))"

definition validateConvIdsWhichUserHasAccess :: "env \<Rightarrow> world \<Rightarrow> oid list \<Rightarrow> oid \<Rightarrow> oid list" where
  "validateConvIdsWhichUserHasAccess E w conversationIds userId = filterAvailableConversationIds E w conversationIds userId None"

definition conversationsList ::
  "env \<Rightarrow> world \<Rightarrow> user \<Rightarrow> nat option \<Rightarrow> nat option \<Rightarrow> oid list \<Rightarrow> nat option \<Rightarrow> conversation list" where
  "conversationsList E w user gt lt ids lim =
     (let conversationIds = (if ids \<noteq> [] then validateConvIdsWhichUserHasAccess E w ids (u_id user)
            else findParticipantConversations E w (u_id user) gt lt lim)
      in ConversationRepo_list E w (u_organization_id user) conversationIds gt lt lim)"

text \<open>
  The identifiers taken from the aggregation are strings, which the \<open>Set\<close> merges; those of
  the private conversations are objects, which it does not.
\<close>

definition findConversationsParticipantIds ::
  "env \<Rightarrow> world \<Rightarrow> oid list \<Rightarrow> oid \<Rightarrow> oid list \<times> (oid \<times> oid list) list" where
  "findConversationsParticipantIds E w conversationIds userId =
     (let available = validateConvIdsWhichUserHasAccess E w conversationIds userId;
          byCids = findConversationsParticipants w available None;
          private = extractParticipantIdsFromPrivateConversations (findAvailablePrivateConversation E w available userId)
      in (js_set (concat (map snd byCids)) @ private, byCids))"

definition validateConvIdsWhichUserHasAccessAsAdmin :: "env \<Rightarrow> world \<Rightarrow> oid \<Rightarrow> oid list \<Rightarrow> oid \<Rightarrow> conversation list" where
  "validateConvIdsWhichUserHasAccessAsAdmin E w organizationId conversationIds userId =
     (let found = findByIdsWithOrgScope E w organizationId conversationIds;
          asOwner = filter (\<lambda>c. c_owner_id c = userId) found;
          left = filter (\<lambda>c. c_owner_id c \<noteq> userId) found
      in if left = [] then asOwner
         else let verified = filterAvailableConversationIds E w (map c_id left) userId (Some AdminRole)
              in asOwner @ filter (\<lambda>c. c_id c \<in> set verified) left)"

record access =
  ac_conversation :: "conversation option"
  ac_asParticipant :: bool
  ac_asOwner :: bool
  ac_asAdmin :: bool

definition hasAccessToConversation :: "env \<Rightarrow> world \<Rightarrow> oid \<Rightarrow> oid \<Rightarrow> oid \<Rightarrow> access" where
  "hasAccessToConversation E w organizationId conversationId userId =
     (case findByIdWithOrgScope E w organizationId conversationId of
        None \<Rightarrow> \<lparr>ac_conversation = None, ac_asParticipant = False, ac_asOwner = False, ac_asAdmin = False\<rparr>
      | Some c \<Rightarrow>
          let currentParticipant = findFirstConversationParticipant E w conversationId (Some userId)
          in \<lparr>ac_conversation = Some c, ac_asParticipant = (currentParticipant \<noteq> None),
              ac_asOwner = (c_owner_id c = userId),
              ac_asAdmin = (case currentParticipant of None \<Rightarrow> False | Some p \<Rightarrow> cp_role p = Some AdminRole)\<rparr>)"

definition validateAccessToConversation :: "env \<Rightarrow> oid \<Rightarrow> oid \<Rightarrow> oid \<Rightarrow> unit handler" where
  "validateAccessToConversation E organizationId conversationId userId = (\<lambda>w.
     let a = hasAccessToConversation E w organizationId conversationId userId in
     if ac_conversation a = None then (Inl (Status BAD_REQUEST), w)
     else if \<not> ac_asOwner a then (Inl (Status FORBIDDEN), w)
     else (Inr (), w))"

primrec participantBatches ::
  "env \<Rightarrow> world \<Rightarrow> oid \<Rightarrow> oid list \<Rightarrow> nat \<Rightarrow> nat \<Rightarrow> oid option \<Rightarrow> oid list list" where
  "participantBatches E w conversationId exceptUserIds batchSize 0 lastObjectId = []"
| "participantBatches E w conversationId exceptUserIds batchSize (Suc n) lastObjectId =
     (let ps = findConversationParticipants E w conversationId exceptUserIds lastObjectId (Some batchSize);
          lastObjectId' = (if ps = [] then None else Some (cp_id (last ps)))
      in map cp_user_id ps # participantBatches E w conversationId exceptUserIds batchSize n lastObjectId')"

definition conversationParticipantIdsIterator :: "env \<Rightarrow> world \<Rightarrow> oid \<Rightarrow> oid list \<Rightarrow> nat \<Rightarrow> oid list list" where
  "conversationParticipantIdsIterator E w conversationId exceptUserIds batchSize =
     (let totalParticipants = countConversationParticipants E w conversationId exceptUserIds;
          totalBatches = (totalParticipants + batchSize - 1) div batchSize
      in participantBatches E w conversationId exceptUserIds batchSize totalBatches None)"

end
