(* ===== verification/BlockList.thy ===== *)
theory BlockList
  imports Users
begin

text \<open>
  The block list: \<^verbatim>\<open>app/providers/repositories/blocked_user\<close>, \<open>BlockListService\<close> and the operations
  of \<^verbatim>\<open>app/providers/operations/block_list\<close>. A unique index on the pair of user and blocked user
  refuses a second block; an ordered bulk insert has then stored the blocks before it.
\<close>

definition blockedBy :: "bool \<Rightarrow> oid list option \<Rightarrow> oid \<Rightarrow> blocked_user \<Rightarrow> bool" where
  "blockedBy onlyEnabled recipientsIds userId b = (bu_user_id b = userId \<and> (onlyEnabled \<longrightarrow> bu_enabled b) \<and>
     (case recipientsIds of None \<Rightarrow> True | Some rs \<Rightarrow> bu_blocked_user_id b \<in> set rs))"

definition BlockRepo_list :: "env \<Rightarrow> world \<Rightarrow> oid \<Rightarrow> bool \<Rightarrow> oid list option \<Rightarrow> blocked_user list" where
  "BlockRepo_list E w userId onlyEnabled recipientsIds =
     findAll (mg_blocked_users E) (blockedBy onlyEnabled recipientsIds userId) None None (blocked_users w)"

definition blockers :: "env \<Rightarrow> world \<Rightarrow> oid \<Rightarrow> bool \<Rightarrow> oid list option \<Rightarrow> blocked_user list" where
  "blockers E w userId onlyEnabled recipientsIds =
     findAll (mg_blocked_users E) (\<lambda>b. bu_blocked_user_id b = userId \<and> (onlyEnabled \<longrightarrow> bu_enabled b) \<and>
       (case recipientsIds of None \<Rightarrow> True | Some rs \<Rightarrow> bu_user_id b \<in> set rs)) None None (blocked_users w)"

definition BlockRepo_enable :: "env \<Rightarrow> oid \<Rightarrow> bool \<Rightarrow> world \<Rightarrow> world" where
  "BlockRepo_enable E userId enabled w = w\<lparr>blocked_users := updateMany (mg_blocked_users E)
     (\<lambda>b. bu_user_id b = userId) (\<lambda>b. b\<lparr>bu_enabled := enabled\<rparr>) (blocked_users w)\<rparr>"

definition deleteBlockedUser :: "env \<Rightarrow> oid \<Rightarrow> oid list option \<Rightarrow> world \<Rightarrow> world" where
  "deleteBlockedUser E userId blockedUserIds w = w\<lparr>blocked_users := snd (deleteMany (mg_blocked_users E)
     (\<lambda>b. bu_user_id b = userId \<and> (case blockedUserIds of None \<Rightarrow> True | Some us \<Rightarrow> bu_blocked_user_id b \<in> set us))
     (blocked_users w))\<rparr>"

definition deleteAllBlocks :: "env \<Rightarrow> oid \<Rightarrow> world \<Rightarrow> world" where
  "deleteAllBlocks E userId w = w\<lparr>blocked_users := snd (deleteMany (mg_blocked_users E)
     (\<lambda>b. bu_user_id b = userId \<or> bu_blocked_user_id b = userId) (blocked_users w))\<rparr>"

definition blockParams :: "oid \<Rightarrow> oid \<Rightarrow> oid \<Rightarrow> timestamp \<Rightarrow> oid \<Rightarrow> blocked_user" where
  "blockParams organizationId userId blockedUserId now i =
     \<lparr>bu_id = i, bu_organization_id = organizationId, bu_enabled = True, bu_user_id = userId,
      bu_blocked_user_id = blockedUserId, bu_created_at = now, bu_updated_at = now\<rparr>"

definition blockMany :: "env \<Rightarrow> oid \<Rightarrow> oid \<Rightarrow> oid list \<Rightarrow> blocked_user list handler" where
  "blockMany E organizationId userId blockUserIds = (\<lambda>w.
     if userId \<in> set blockUserIds then (Inl (PlainError (''Can'' @ [CHR 0x27] @ ''t block self user'')), w)
     else let (created, bs) = createMany (mg_blocked_users E) (map (blockParams organizationId userId) blockUserIds)
                (clock w) (blocked_users w);
              w' = w\<lparr>blocked_users := bs\<rparr>
          in case created of None \<Rightarrow> (Inl E11000, w') | Some ms \<Rightarrow> (Inr ms, w'))"

definition unblock :: "env \<Rightarrow> oid \<Rightarrow> oid list \<Rightarrow> world \<Rightarrow> world" where
  "unblock E userId blockedUserIds = deleteBlockedUser E userId (Some blockedUserIds)"

definition unblockAll :: "env \<Rightarrow> oid \<Rightarrow> world \<Rightarrow> world" where
  "unblockAll E userId = deleteBlockedUser E userId None"

definition listMutualBlockedIds :: "env \<Rightarrow> world \<Rightarrow> oid \<Rightarrow> oid list \<Rightarrow> oid list" where
  "listMutualBlockedIds E w userId recipientsIds =
     map bu_blocked_user_id (BlockRepo_list E w userId True (Some recipientsIds)) @
     map bu_user_id (blockers E w userId True (Some recipientsIds))"

definition sessionOf :: "socket \<Rightarrow> session handler" where
  "sessionOf ws = andThen (gets (\<lambda>w. getSession w ws)) need"

definition BlockListBlock_perform :: "env \<Rightarrow> socket \<Rightarrow> oid list \<Rightarrow> blocked_user list handler" where
  "BlockListBlock_perform E ws targetUserIds =
     andThen (sessionOf ws) (\<lambda>s.
     andThen (gets (\<lambda>w. retrieveExistedIds E w (s_organizationId s) targetUserIds)) (\<lambda>normalizedIds.
       blockMany E (s_organizationId s) (s_userId s) normalizedIds))"

definition BlockListUnblock_perform :: "env \<Rightarrow> socket \<Rightarrow> oid list \<Rightarrow> oid list handler" where
  "BlockListUnblock_perform E ws targetUserIds =
     andThen (sessionOf ws) (\<lambda>s. andThen (modify (unblock E (s_userId s) targetUserIds)) (\<lambda>_. ret targetUserIds))"

definition BlockListEnable_perform :: "env \<Rightarrow> socket \<Rightarrow> bool \<Rightarrow> bool handler" where
  "BlockListEnable_perform E ws isEnabled =
     andThen (sessionOf ws) (\<lambda>s. andThen (modify (BlockRepo_enable E (s_userId s) isEnabled)) (\<lambda>_. ret True))"

definition BlockListRetrieve_perform :: "env \<Rightarrow> socket \<Rightarrow> oid list handler" where
  "BlockListRetrieve_perform E ws =
     andThen (sessionOf ws) (\<lambda>s. gets (\<lambda>w. map bu_blocked_user_id (BlockRepo_list E w (s_userId s) False None)))"

lemma sessionOf_Inr [eff_simps]: "sessionOf ws w = (Inr s, w') \<longleftrightarrow> getSession w ws = Some s \<and> w' = w"
  by (auto simp: sessionOf_def eff_simps)

lemma sessionOf_Inl [eff_simps]: "sessionOf ws w = (Inl e, w') \<longleftrightarrow> getSession w ws = None \<and> e = TypeError \<and> w' = w"
  by (auto simp: sessionOf_def eff_simps)

lemma sessionOf_run: "getSession w ws = Some s \<Longrightarrow> andThen (sessionOf ws) f w = f s w"
  by (simp add: sessionOf_def andThen_def gets_def)

end
