(* ===== verification/Messages.thy ===== *)
theory Messages
  imports Conversations BlockList
begin

text \<open>
  Messages, their read statuses and reactions: the message, message-status, message-reaction and
  encrypted-message-status repositories, \<open>MessageService\<close>, the scripted
  conversation handlers (\<open>ConversationHandlerService\<close>; the QuickJS sandbox is a parameter) and
  \<open>ConversationNotificationService\<close>, which turns changes of a conversation into events.
  The last section has the fields of a message that clients see (\<open>MessagePublicFields\<close>).
  The grouping pipelines are modelled by their meaning.
\<close>

section \<open>Message repository\<close>

definition Message_findById :: "env \<Rightarrow> world \<Rightarrow> oid \<Rightarrow> message option" where
  "Message_findById E w i = findById m_id (mg_messages E) i (messages w)"

definition findAllOpponentsMessagesFromConversation ::
  "env \<Rightarrow> world \<Rightarrow> oid \<Rightarrow> oid \<Rightarrow> oid list option \<Rightarrow> oid option \<Rightarrow> message list" where
  "findAllOpponentsMessagesFromConversation E w cid readerUserId mids lastReadMessageId =
     findAll (mg_messages E) (\<lambda>m. m_cid m = cid \<and> m_from m \<noteq> readerUserId \<and>
        (case lastReadMessageId of Some i \<Rightarrow> m_id m > i
         | None \<Rightarrow> (case mids of Some is \<Rightarrow> m_id m \<in> set is | None \<Rightarrow> True))) None
       (Some (\<lambda>a b. m_id b \<le> m_id a)) (messages w)"

definition findMessageById :: "env \<Rightarrow> world \<Rightarrow> oid \<Rightarrow> oid \<Rightarrow> oid \<Rightarrow> message option" where
  "findMessageById E w conversationId userId mid =
     findOne (mg_messages E) (\<lambda>m. m_id m = mid \<and> userId \<notin> set (m_deleted_for m) \<and> m_cid m = conversationId) (messages w)"

definition findLastUserMessageForConversation :: "env \<Rightarrow> world \<Rightarrow> oid \<Rightarrow> oid \<Rightarrow> message option" where
  "findLastUserMessageForConversation E w cid userId =
     findOne (mg_messages E) (\<lambda>m. m_cid m = cid \<and> m_from m = userId) (messages w)"

definition isSpace :: "char \<Rightarrow> bool" where
  "isSpace c = (of_char c \<in> {9, 10, 11, 12, 13, 32, 160 :: nat})"

record list_options =
  lo_ids :: "oid list option"
  lo_updatedAtFrom :: "timestamp option"
  lo_updatedAtBefore :: "timestamp option"
  lo_createdAtFrom :: "timestamp option"
  lo_bodyNotEmpty :: bool

definition noOptions :: list_options where
  "noOptions = \<lparr>lo_ids = None, lo_updatedAtFrom = None, lo_updatedAtBefore = None, lo_createdAtFrom = None,
     lo_bodyNotEmpty = False\<rparr>"

text \<open>
  The only caller that sets \<open>createdAtFrom\<close> passes a number (\<open>Math.max\<close> of two dates), and a comparison with a
  number selects no document whose \<open>created_at\<close> is a date.
\<close>

definition listQuery :: "oid \<Rightarrow> oid \<Rightarrow> list_options \<Rightarrow> message \<Rightarrow> bool" where
  "listQuery cid userId opts m = (m_cid m = cid \<and> userId \<notin> set (m_deleted_for m) \<and>
     (case lo_ids opts of None \<Rightarrow> True | Some is \<Rightarrow> m_id m \<in> set is) \<and>
     between (lo_updatedAtFrom opts) (lo_updatedAtBefore opts) (m_updated_at m) \<and>
     lo_createdAtFrom opts = None \<and>
     (lo_bodyNotEmpty opts \<longrightarrow> (case m_body m of None \<Rightarrow> False | Some b \<Rightarrow> list_ex (\<lambda>c. \<not> isSpace c) b)))"

definition MessageRepo_list :: "env \<Rightarrow> world \<Rightarrow> oid \<Rightarrow> oid \<Rightarrow> list_options \<Rightarrow> nat option \<Rightarrow> message list" where
  "MessageRepo_list E w conversationId userId opts lim =
     findAll (mg_messages E) (listQuery conversationId userId opts) lim
       (Some (if lo_updatedAtFrom opts \<noteq> None then (\<lambda>a b. m_created_at a \<le> m_created_at b)
              else (\<lambda>a b. m_id b \<le> m_id a))) (messages w)"

definition listByMids :: "env \<Rightarrow> world \<Rightarrow> oid list \<Rightarrow> list_options \<Rightarrow> nat option \<Rightarrow> message list" where
  "listByMids E w mids opts lim =
     findAll (mg_messages E) (\<lambda>m. m_id m \<in> set mids \<and>
        between (lo_updatedAtFrom opts) (lo_updatedAtBefore opts) (m_updated_at m)) lim
       (Some (\<lambda>a b. m_id b \<le> m_id a)) (messages w)"

text \<open>The last visible message of each conversation: greatest \<open>(t, _id)\<close>.\<close>

definition newest :: "message \<Rightarrow> message option \<Rightarrow> message option" where
  "newest m acc = (case acc of None \<Rightarrow> Some m
     | Some n \<Rightarrow> if m_t m > m_t n \<or> m_t m = m_t n \<and> m_id m > m_id n then Some m else Some n)"

definition findLastMessageForConversations :: "world \<Rightarrow> oid list \<Rightarrow> oid \<Rightarrow> oid \<Rightarrow> message option" where
  "findLastMessageForConversations w cids userId cid =
     (if cid \<in> set cids then fold newest (filter (\<lambda>m. m_cid m = cid \<and> userId \<notin> set (m_deleted_for m)) (messages w)) None
      else None)"

definition countUnreadMessagesByCids :: "world \<Rightarrow> oid list \<Rightarrow> oid \<Rightarrow> (oid \<Rightarrow> oid option) \<Rightarrow> oid \<Rightarrow> nat" where
  "countUnreadMessagesByCids w cids userId lastRead cid =
     (if cids = [] then length (filter (\<lambda>m. m_cid m = cid) (messages w))
      else length (filter (\<lambda>m. m_cid m = cid \<and> cid \<in> set cids \<and> m_from m \<noteq> userId \<and>
         (case lastRead cid of None \<Rightarrow> True | Some i \<Rightarrow> m_id m > i)) (messages w)))"

definition updateBody :: "env \<Rightarrow> oid \<Rightarrow> string \<Rightarrow> world \<Rightarrow> world" where
  "updateBody E messageId newBody w = w\<lparr>messages := updateOne (mg_messages E) (\<lambda>m. m_id m = messageId)
     (\<lambda>m. m\<lparr>m_body := Some newBody, m_updated_at := clock w\<rparr>) (messages w)\<rparr>"

definition deleteByIdsInConversation :: "env \<Rightarrow> oid list \<Rightarrow> oid \<Rightarrow> oid \<Rightarrow> oid option \<Rightarrow> world \<Rightarrow> world" where
  "deleteByIdsInConversation E messageIds cid organizationId authorId w =
     w\<lparr>messages := snd (deleteMany (mg_messages E) (\<lambda>m. m_id m \<in> set messageIds \<and> m_cid m = cid \<and>
        m_organization_id m = organizationId \<and> (case authorId of None \<Rightarrow> True | Some a \<Rightarrow> m_from m = a)) (messages w))\<rparr>"

definition updateDeleteForUser :: "env \<Rightarrow> oid list \<Rightarrow> oid \<Rightarrow> oid \<Rightarrow> oid \<Rightarrow> world \<Rightarrow> world" where
  "updateDeleteForUser E messageIds userId cid organizationId w =
     w\<lparr>messages := updateMany (mg_messages E) (\<lambda>m. m_id m \<in> set messageIds \<and> m_cid m = cid \<and>
          m_organization_id m = organizationId)
        (\<lambda>m. if userId \<in> set (m_deleted_for m) then m else m\<lparr>m_deleted_for := m_deleted_for m @ [userId]\<rparr>) (messages w)\<rparr>"

definition deleteMessageByMids :: "env \<Rightarrow> oid list \<Rightarrow> world \<Rightarrow> world" where
  "deleteMessageByMids E mids w = w\<lparr>messages := snd (deleteMany (mg_messages E) (\<lambda>m. m_id m \<in> set mids) (messages w))\<rparr>"

section \<open>Read statuses\<close>

definition statusUpsert ::
  "oid \<Rightarrow> oid \<Rightarrow> read_status \<Rightarrow> timestamp \<Rightarrow> oid \<Rightarrow> (message_status \<Rightarrow> bool) \<times> (message_status \<Rightarrow> message_status) \<times> (oid \<Rightarrow> message_status)" where
  "statusUpsert cid user_id status now mid =
     ((\<lambda>s. ms_cid s = cid \<and> ms_mid s = mid \<and> ms_user_id s = user_id),
      (\<lambda>s. s\<lparr>ms_status := status, ms_created_at := now, ms_updated_at := now\<rparr>),
      (\<lambda>i. \<lparr>ms_id = i, ms_cid = cid, ms_mid = mid, ms_user_id = user_id, ms_status = status,
         ms_created_at = now, ms_updated_at = now\<rparr>))"

definition upsertMessageStatus :: "env \<Rightarrow> oid \<Rightarrow> oid list \<Rightarrow> oid \<Rightarrow> read_status \<Rightarrow> world \<Rightarrow> world" where
  "upsertMessageStatus E cid mids user_id status w =
     w\<lparr>message_statuses := bulkUpsert (mg_message_statuses E)
        (map (statusUpsert cid user_id status (clock w)) mids) (message_statuses w)\<rparr>"

text \<open>Any status counts, that of a failed decryption too.\<close>

definition findReadStatusForMids :: "world \<Rightarrow> oid list \<Rightarrow> oid \<Rightarrow> oid list" where
  "findReadStatusForMids w mids mid =
     (if mid \<in> set mids then js_set (map ms_user_id (filter (\<lambda>s. ms_mid s = mid) (message_statuses w))) else [])"

definition latest :: "message_status \<Rightarrow> message_status option \<Rightarrow> message_status option" where
  "latest s acc = (case acc of None \<Rightarrow> Some s | Some n \<Rightarrow> if ms_id s > ms_id n then Some s else Some n)"

definition findLastReadMessageByUserForCid :: "world \<Rightarrow> oid list \<Rightarrow> oid \<Rightarrow> oid \<Rightarrow> oid option" where
  "findLastReadMessageByUserForCid w cids userId cid =
     (if cid \<in> set cids then map_option ms_mid
        (fold latest (filter (\<lambda>s. ms_cid s = cid \<and> ms_user_id s = userId) (message_statuses w)) None) else None)"

definition deleteByMidsAndCid :: "env \<Rightarrow> oid list \<Rightarrow> oid \<Rightarrow> world \<Rightarrow> world" where
  "deleteByMidsAndCid E mids cid w = w\<lparr>message_statuses := snd (deleteMany (mg_message_statuses E)
     (\<lambda>s. ms_mid s \<in> set mids \<and> ms_cid s = cid) (message_statuses w))\<rparr>"

definition getLastReadTimeByUser :: "env \<Rightarrow> oid \<Rightarrow> oid \<Rightarrow> oid option \<Rightarrow> timestamp handler" where
  "getLastReadTimeByUser E cid userId mid =
     andThen (gets (\<lambda>w. findOne (mg_message_statuses E)
        (\<lambda>s. ms_cid s = cid \<and> Some (ms_mid s) = mid \<and> ms_user_id s = userId) (message_statuses w)))
       (\<lambda>r. andThen (need r) (\<lambda>s. ret (ms_created_at s)))"

section \<open>Reactions\<close>

definition reactionQuery :: "oid \<Rightarrow> oid \<Rightarrow> string \<Rightarrow> message_reaction \<Rightarrow> bool" where
  "reactionQuery mid userId reaction r = (mr_mid r = mid \<and> mr_user_id r = userId \<and> mr_reaction r = reaction)"

definition Reaction_upsert :: "env \<Rightarrow> oid \<Rightarrow> oid \<Rightarrow> string \<Rightarrow> bool handler" where
  "Reaction_upsert E mid userId reaction =
     andThen (gets (\<lambda>w. findOne (mg_message_reactions E) (reactionQuery mid userId reaction) (message_reactions w))) (\<lambda>existed.
       case existed of Some _ \<Rightarrow> ret False
       | None \<Rightarrow> andThen (insertInto (mg_message_reactions E) message_reactions message_reactions_update (\<lambda>now i.
            \<lparr>mr_id = i, mr_mid = mid, mr_user_id = userId, mr_reaction = reaction, mr_created_at = now, mr_updated_at = now\<rparr>))
            (\<lambda>_. ret True))"

definition Reaction_remove :: "env \<Rightarrow> oid \<Rightarrow> oid \<Rightarrow> string \<Rightarrow> bool handler" where
  "Reaction_remove E mid userId reaction = transact (\<lambda>w.
     let (deletedCount, rs) = deleteMany (mg_message_reactions E) (reactionQuery mid userId reaction) (message_reactions w)
     in (deletedCount > 0, w\<lparr>message_reactions := rs\<rparr>))"

text \<open>Per message: the reader's own reactions, and how many users gave each reaction.\<close>

definition aggregateForUserMessages :: "world \<Rightarrow> oid list \<Rightarrow> oid \<Rightarrow> oid \<Rightarrow> string list \<times> (string \<times> nat) list" where
  "aggregateForUserMessages w mIds userId mid =
     (let rs = filter (\<lambda>r. mr_mid r = mid \<and> mid \<in> set mIds) (message_reactions w)
      in (sort (js_set (map mr_reaction (filter (\<lambda>r. mr_user_id r = userId) rs))),
          map (\<lambda>(k, us). (k, length us)) (groupBy mr_reaction mr_user_id rs)))"

definition aggregateMessageReactions :: "world \<Rightarrow> oid \<Rightarrow> (string \<times> oid list) list" where
  "aggregateMessageReactions w mid =
     map (\<lambda>(k, us). (k, sort (js_set us))) (groupBy mr_reaction mr_user_id (filter (\<lambda>r. mr_mid r = mid) (message_reactions w)))"


section \<open>Encrypted messages\<close>

definition getIdentityKeyByUserId :: "env \<Rightarrow> world \<Rightarrow> oid \<Rightarrow> string option \<Rightarrow> string option" where
  "getIdentityKeyByUserId E w user_id device_id =
     map_option ed_identity_key (findOne (mg_encrypted_devices E)
       (\<lambda>d. ed_user_id d = user_id \<and> Some (ed_device_id d) = device_id) (encrypted_devices w))"

text \<open>A missing key is looked up under the name \<open>undefined\<close>.\<close>

definition getMidsByIdentityKey :: "env \<Rightarrow> string option \<Rightarrow> oid \<Rightarrow> world \<Rightarrow> (oid list \<times> oid list) \<times> world" where
  "getMidsByIdentityKey E identityKey cid w =
     (let key = (case identityKey of None \<Rightarrow> ''undefined'' | Some k \<Rightarrow> k);
          records = findAll (mg_encrypted_statuses E) (\<lambda>e. es_cid e = cid \<and> key \<in> set (es_keys e)) None None (encrypted_statuses w);
          midsToDelivery = map es_mid records;
          midsToRemove = map es_mid (filter (\<lambda>e. set (es_keys e) \<subseteq> {key}) records);
          es1 = snd (deleteMany (mg_encrypted_statuses E) (\<lambda>e. es_mid e \<in> set midsToRemove) (encrypted_statuses w));
          es2 = updateMany (mg_encrypted_statuses E)
                  (\<lambda>e. es_mid e \<in> set (filter (\<lambda>m. m \<notin> set midsToRemove) midsToDelivery))
                  (\<lambda>e. e\<lparr>es_keys := removeAll key (es_keys e)\<rparr>) es1
      in ((midsToDelivery, midsToRemove), w\<lparr>encrypted_statuses := es2\<rparr>))"

definition markAsNotDelivered :: "env \<Rightarrow> oid \<Rightarrow> oid \<Rightarrow> oid \<Rightarrow> unit handler" where
  "markAsNotDelivered E mid cid uid =
     andThen (gets (\<lambda>w. (findOne (mg_encrypted_statuses E) (\<lambda>e. es_mid e = mid) (encrypted_statuses w),
        map ed_identity_key (findAll (mg_encrypted_devices E) (\<lambda>d. ed_user_id d = uid) None None (encrypted_devices w)))))
       (\<lambda>(eMessageStatus, identityKeys). case eMessageStatus of
          None \<Rightarrow> andThen (insertInto (mg_encrypted_statuses E) encrypted_statuses encrypted_statuses_update (\<lambda>now i.
             \<lparr>es_id = i, es_mid = mid, es_cid = cid, es_keys = js_set identityKeys, es_created_at = now, es_updated_at = now\<rparr>))
             (\<lambda>_. ret ())
        | Some _ \<Rightarrow> modify (\<lambda>w. w\<lparr>encrypted_statuses := updateOne (mg_encrypted_statuses E) (\<lambda>e. es_mid e = mid)
             (\<lambda>e. e\<lparr>es_keys := js_set (es_keys e @ identityKeys)\<rparr>) (encrypted_statuses w)\<rparr>))"

section \<open>Message service\<close>

definition MessageService_create :: "env \<Rightarrow> user \<Rightarrow> conversation \<Rightarrow> message_params \<Rightarrow> message handler" where
  "MessageService_create E user conversation params =
     andThen (gets currentTimeStamp) (\<lambda>t.
       insertInto (mg_messages E) messages messages_update (\<lambda>now i.
         \<lparr>m_id = i, m_organization_id = u_organization_id user, m_cid = c_id conversation, m_from = u_id user, m_t = t,
          m_body = mp_body params, m_attachments = mp_attachments params, m_x = mp_x params,
          m_replied_message_id = mp_replied_message_id params, m_forwarded_message_id = mp_forwarded_message_id params,
          m_encrypted_message_type = mp_encrypted_message_type params, m_deleted_for = mp_deleted_for params,
          m_created_at = now, m_updated_at = now\<rparr>))"

definition allowedBotAttachmentFields :: "string list" where
  "allowedBotAttachmentFields =
     [''file_url'', ''file_blur_hash'', ''file_content_type'', ''file_size'', ''file_width'', ''file_height'']"

text \<open>\<open>Object.keys\<close> of an array lists its indices, none of which is an allowed field.\<close>

fun validateAttachmentInMessage :: "json \<Rightarrow> bool" where
  "validateAttachmentInMessage (JObj kvs) = list_all (\<lambda>(k, _). k \<in> set allowedBotAttachmentFields) kvs"
| "validateAttachmentInMessage (JArr xs) = (xs = [])"
| "validateAttachmentInMessage _ = False"

fun truthy :: "json \<Rightarrow> bool" where
  "truthy JNull = False"
| "truthy (JBool b) = b"
| "truthy (JNum n) = (n \<noteq> 0)"
| "truthy (JStr s) = (s \<noteq> [])"
| "truthy _ = True"

text \<open>
  What a conversation handler decided: nothing to change, the message with another body and
  other attachments, or an answer of the chat bot. A falsy body that is not a string is taken as no body.
\<close>

datatype handler_response =
    Unchanged
  | NewFields "string option" "json list option"
  | BotMessage user message_params

definition processHandlerResult :: "env \<Rightarrow> oid \<Rightarrow> message_params \<Rightarrow> handler_result \<Rightarrow> handler_response handler" where
  "processHandlerResult E organizationId baseMessage res =
     (if hr_accept res then ret Unchanged
      else let attachments = (case hr_attachments res of None \<Rightarrow> [] | Some as \<Rightarrow> as);
               body = (case hr_body res of Some (JStr s) \<Rightarrow> Some s | _ \<Rightarrow> None) in
        if \<not> list_all validateAttachmentInMessage attachments then throw (Status INVALID_ATTACHMENT_FIELDS)
        else if (case hr_body res of None \<Rightarrow> False | Some (JStr _) \<Rightarrow> False | Some j \<Rightarrow> truthy j)
             then throw (Status INCORRECT_TYPE_OF_BODY)
        else if (body = None \<or> body = Some []) \<and> attachments = [] then ret Unchanged
        else if hr_isReplaceBody res then ret (NewFields body (hr_attachments res))
        else andThen (gets (\<lambda>w. findByLogin E w organizationId (cfg_chatBotLogin E))) (\<lambda>bot. case bot of
            None \<Rightarrow> ret Unchanged
          | Some b \<Rightarrow> ret (BotMessage b (baseMessage\<lparr>mp_body := body, mp_attachments := hr_attachments res\<rparr>))))"

record messages_list_result =
  ml_messages :: "message list"
  ml_statuses :: "oid \<Rightarrow> oid list"
  ml_reactions :: "oid \<Rightarrow> string list \<times> (string \<times> nat) list"

definition messagesList ::
  "env \<Rightarrow> oid \<Rightarrow> user \<Rightarrow> list_options \<Rightarrow> nat option \<Rightarrow> bool \<Rightarrow> string option \<Rightarrow> world \<Rightarrow> messages_list_result \<times> world" where
  "messagesList E cid user opts lim isEncrypted deviceId w =
     (if isEncrypted
      then let identityKey = getIdentityKeyByUserId E w (u_id user) deviceId;
               ((messageIds, messageIdsToRemove), w1) = getMidsByIdentityKey E identityKey cid w;
               result = \<lparr>ml_messages = listByMids E w1 messageIds opts lim,
                  ml_statuses = findReadStatusForMids w1 messageIds,
                  ml_reactions = aggregateForUserMessages w1 messageIds (u_id user)\<rparr>
           in (result, if messageIdsToRemove = [] then w1
                else deleteByMidsAndCid E messageIdsToRemove cid (deleteMessageByMids E messageIdsToRemove w1))
      else let ms = MessageRepo_list E w cid (u_id user) opts lim; messageIds = map m_id ms
           in (\<lparr>ml_messages = ms, ml_statuses = findReadStatusForMids w messageIds,
                 ml_reactions = aggregateForUserMessages w messageIds (u_id user)\<rparr>, w))"

definition getUnreadMessages :: "env \<Rightarrow> oid \<Rightarrow> oid \<Rightarrow> message list handler" where
  "getUnreadMessages E cid userId =
     andThen (gets (\<lambda>w. (findLastReadMessageByUserForCid w [cid] userId cid, findLastUserMessageForConversation E w cid userId)))
       (\<lambda>(lastReadMessageId, lastUserMessageInChat).
         andThen (getLastReadTimeByUser E cid userId lastReadMessageId) (\<lambda>lastStatusTime.
           let lastReadTime = max (case lastUserMessageInChat of None \<Rightarrow> 0 | Some m \<Rightarrow> m_created_at m) lastStatusTime in
           gets (\<lambda>w. MessageRepo_list E w cid userId (noOptions\<lparr>lo_createdAtFrom :=
               (if lastReadTime = 0 then None else Some lastReadTime), lo_bodyNotEmpty := True\<rparr>) None)))"

text \<open>
  \<open>deletedIds.includes(userId)\<close> compares objects by identity: an identifier read from the database is never
  the object of the session, so \<open>selfDeleted\<close> is always false.
\<close>

record message_access =
  ma_message :: "message option"
  ma_asOwner :: bool
  ma_selfDeleted :: bool

definition hasAccessToMessage :: "env \<Rightarrow> world \<Rightarrow> oid \<Rightarrow> oid \<Rightarrow> message_access" where
  "hasAccessToMessage E w messageId userId = (case Message_findById E w messageId of
      None \<Rightarrow> \<lparr>ma_message = None, ma_asOwner = False, ma_selfDeleted = False\<rparr>
    | Some m \<Rightarrow> \<lparr>ma_message = Some m, ma_asOwner = (m_from m = userId), ma_selfDeleted = False\<rparr>)"

text \<open>
  The last read message is looked up but its field \<open>mid\<close> is read from the identifier itself, so
  the lower bound is always \<open>null\<close>.
\<close>

definition readMessagesInConversation :: "env \<Rightarrow> oid \<Rightarrow> oid \<Rightarrow> oid list option \<Rightarrow> message list handler" where
  "readMessagesInConversation E cid userId mids =
     andThen (gets (\<lambda>w. findAllOpponentsMessagesFromConversation E w cid userId mids None)) (\<lambda>unreadMessages.
       if unreadMessages = [] then ret unreadMessages
       else andThen (modify (upsertMessageStatus E cid (rev (map m_id unreadMessages)) userId ReadStatus))
              (\<lambda>_. ret unreadMessages))"

definition updateReactions :: "env \<Rightarrow> oid \<Rightarrow> oid \<Rightarrow> string option \<Rightarrow> string option \<Rightarrow> (bool \<times> bool) handler" where
  "updateReactions E mid userId addReaction removeReaction =
     andThen (case addReaction of None \<Rightarrow> ret False
        | Some r \<Rightarrow> if r = [] then ret False else Reaction_upsert E mid userId r) (\<lambda>added.
     andThen (case removeReaction of None \<Rightarrow> ret False
        | Some r \<Rightarrow> if r = [] then ret False else Reaction_remove E mid userId r) (\<lambda>removed.
       ret (added, removed)))"

definition findMessagesByIds :: "env \<Rightarrow> world \<Rightarrow> oid list \<Rightarrow> message list" where
  "findMessagesByIds E w messageIds =
     (if messageIds = [] then [] else findAllByIds m_id (mg_messages E) messageIds (Some (length messageIds)) (messages w))"

definition validateMessagesForDelete :: "message list \<Rightarrow> oid \<Rightarrow> oid \<Rightarrow> oid \<Rightarrow> bool \<Rightarrow> unit handler" where
  "validateMessagesForDelete ms cid organizationId userId requireAuthorship =
     (if list_ex (\<lambda>m. m_cid m \<noteq> cid \<or> m_organization_id m \<noteq> organizationId \<or> requireAuthorship \<and> m_from m \<noteq> userId) ms
      then throw (Status FORBIDDEN) else ret ())"

section \<open>Conversation handlers\<close>

definition getHandlerByConversationId :: "env \<Rightarrow> world \<Rightarrow> oid \<Rightarrow> conversation_handler option" where
  "getHandlerByConversationId E w cid =
     findOne (mg_conversation_handlers E) (\<lambda>h. ch_conversation_id h = cid) (conversation_handlers w)"

definition createHandlerByConversationId :: "env \<Rightarrow> oid \<Rightarrow> string \<Rightarrow> oid \<Rightarrow> conversation_handler handler" where
  "createHandlerByConversationId E conversation_id content user_id =
     insertInto (mg_conversation_handlers E) conversation_handlers conversation_handlers_update (\<lambda>now i.
       \<lparr>ch_id = i, ch_conversation_id = conversation_id, ch_content = content, ch_updated_by = user_id,
        ch_created_at = now, ch_updated_at = now\<rparr>)"

definition updateExistedConversationHandler :: "env \<Rightarrow> oid \<Rightarrow> string \<Rightarrow> oid \<Rightarrow> world \<Rightarrow> world" where
  "updateExistedConversationHandler E conversation_id content user_id w =
     w\<lparr>conversation_handlers := updateOne (mg_conversation_handlers E) (\<lambda>h. ch_conversation_id h = conversation_id)
        (\<lambda>h. h\<lparr>ch_content := content, ch_updated_by := user_id\<rparr>) (conversation_handlers w)\<rparr>"

definition deleteConversationHandler :: "env \<Rightarrow> oid \<Rightarrow> world \<Rightarrow> world" where
  "deleteConversationHandler E record_id w =
     w\<lparr>conversation_handlers := deleteById ch_id (mg_conversation_handlers E) record_id (conversation_handlers w)\<rparr>"

definition prepareAndExecuteConversationHandler :: "env \<Rightarrow> string \<Rightarrow> message_params \<Rightarrow> user \<Rightarrow> handler_result handler" where
  "prepareAndExecuteConversationHandler E code message user =
     (let res = sandbox E code message user in
      case hr_errorMessage res of
        None \<Rightarrow> ret res
      | Some e \<Rightarrow> if e = [] then ret res
          else throw (Status (MESSAGE_BLOCKED_BY_HANDLER\<lparr>err_message := e\<rparr>)))"

section \<open>Conversation events\<close>

datatype conversation_event = CREATE | UPDATE | UPDATE_DETAILS | UPDATE_IMAGE | DELETE
datatype participant_event = ADDED | REMOVED | LEFT

fun push_message_body :: "conversation_event \<Rightarrow> string" where
  "push_message_body CREATE = ''created a new conversation''"
| "push_message_body UPDATE = ''added you to conversation''"
| "push_message_body UPDATE_DETAILS = ''Group name or description was updated''"
| "push_message_body UPDATE_IMAGE = ''Group chat image was updated''"
| "push_message_body DELETE = ''removed you from conversation''"

fun event_request_name :: "conversation_event \<Rightarrow> string" where
  "event_request_name CREATE = ''conversation_created''"
| "event_request_name UPDATE = ''conversation_updated''"
| "event_request_name UPDATE_DETAILS = ''conversation_updated''"
| "event_request_name UPDATE_IMAGE = ''conversation_updated''"
| "event_request_name DELETE = ''conversation_kicked''"

fun action_participant_message :: "participant_event \<Rightarrow> string" where
  "action_participant_message ADDED = ''has been added to the conversation''"
| "action_participant_message REMOVED = ''has been removed from the conversation''"
| "action_participant_message LEFT = ''has left the conversation''"

fun participant_event_type :: "participant_event \<Rightarrow> string" where
  "participant_event_type ADDED = ''added_participant''"
| "participant_event_type REMOVED = ''removed_participant''"
| "participant_event_type LEFT = ''left_participants''"

text \<open>
  What is delivered to the clients (a stored message with the type of its conversation, the answer of the chat bot, which is built from the
  parameters of the message and lacks the times of its document, or a system message about a conversation) and what is pushed to those
  offline. The event for a new image passes the conversation where the payload belongs.
\<close>

datatype event_message =
    MessageEvent message "conv_type option"
  | BotEvent message "conv_type option"
  | SystemEvent oid oid oid nat string conversation \<comment> \<open>id, from, cid, t, request name, conversation\<close>

datatype push =
    ChatAlert oid "(string \<times> json) list" \<comment> \<open>sender, payload\<close>
  | PushEvent oid "(string \<times> json) list"
  | PushConversation user conversation

record event =
  ev_message :: event_message
  ev_notification :: push
  ev_participantIds :: "oid list option"
  ev_exceptUserIds :: "oid list"
  ev_ignoreSelf :: bool
  ev_cId :: "oid option"

definition isEnabled :: "env \<Rightarrow> bool" where
  "isEnabled E = cfg_isEventsEnabled E"

definition nameOf :: "conversation \<Rightarrow> string" where
  "nameOf c = (case c_name c of None \<Rightarrow> ''undefined'' | Some n \<Rightarrow> n)"

definition visibleUser :: "user \<Rightarrow> json" where
  "visibleUser u = JObj ([(''_id'', JStr (u_id u)), (''native_id'', JStr (u_id u)),
     (''created_at'', JNum (int (u_created_at u))), (''updated_at'', JNum (int (u_updated_at u))),
     (''recent_activity'', JNum (int (u_recent_activity u))), (''login'', JStr (u_login u))] @
     jopt ''first_name'' (u_first_name u) @ jopt ''last_name'' (u_last_name u) @
     jopt ''email'' (u_email u) @ jopt ''phone'' (u_phone u) @
     (case u_avatar_object u of None \<Rightarrow> [] | Some a \<Rightarrow> [(''avatar_object'', JObj a)]))"

fun visibleUserWithAvatar :: "user \<times> string option \<Rightarrow> json" where
  "visibleUserWithAvatar (u, url) = (case visibleUser u of
      JObj props \<Rightarrow> JObj (props @ (if u_avatar_object u = None then []
         else [(''avatar_url'', case url of None \<Rightarrow> JNull | Some s \<Rightarrow> JStr s)]))
    | other \<Rightarrow> other)"

fun typeCode :: "conv_type \<Rightarrow> string" where
  "typeCode Private = ''u''"
| "typeCode Group = ''g''"
| "typeCode Channel = ''c''"

definition japp :: "string \<Rightarrow> ('a \<Rightarrow> json) \<Rightarrow> 'a option \<Rightarrow> (string \<times> json) list" where
  "japp k f v = (case v of None \<Rightarrow> [] | Some x \<Rightarrow> [(k, f x)])"

definition jnat :: "nat \<Rightarrow> json" where
  "jnat n = JNum (int n)"

definition visibleConversation :: "conversation \<Rightarrow> json" where
  "visibleConversation c = JObj ([(''_id'', JStr (c_id c)), (''organization_id'', JStr (c_organization_id c)),
     (''type'', JStr (typeCode (c_type c))), (''owner_id'', JStr (c_owner_id c)),
     (''created_at'', JNum (int (c_created_at c))), (''updated_at'', JNum (int (c_updated_at c)))] @
     jopt ''name'' (c_name c) @ jopt ''description'' (c_description c) @ jopt ''opponent_id'' (c_opponent_id c) @
     (case c_is_encrypted c of None \<Rightarrow> [] | Some b \<Rightarrow> [(''is_encrypted'', JBool b)]) @
     (case c_image_object c of None \<Rightarrow> [] | Some i \<Rightarrow> [(''image_object'', i)]) @ jopt ''image_url'' (c_image_url c) @
     (case c_subscribers_count c of Some (JsInt n) \<Rightarrow> [(''subscribers_count'', JNum n)]
      | Some JsNaN \<Rightarrow> [(''subscribers_count'', JNull)] | None \<Rightarrow> []) @
     japp ''last_message'' (\<lambda>j. j) (c_last_message c) @ japp ''unread_messages_count'' jnat (c_unread_messages_count c))"

definition plainEvent :: "event_message \<Rightarrow> push \<Rightarrow> event" where
  "plainEvent m p = \<lparr>ev_message = m, ev_notification = p, ev_participantIds = None, ev_exceptUserIds = [],
     ev_ignoreSelf = False, ev_cId = None\<rparr>"

definition actionEvent :: "world \<Rightarrow> conversation_event \<Rightarrow> conversation \<Rightarrow> user \<Rightarrow> event" where
  "actionEvent w eventType conversation user =
     plainEvent (SystemEvent (c_id conversation) (u_id user) (c_id conversation) (currentTimeStamp w)
        (event_request_name eventType) conversation)
       (PushEvent (u_id user) (jopt ''title'' (c_name conversation) @ [(''cid'', JStr (c_id conversation)),
          (''body'', JStr (getDisplayName user @ '' '' @ push_message_body eventType))]))"

definition noParams :: "oid \<Rightarrow> message_params" where
  "noParams cid = \<lparr>mp_id = None, mp_cid = cid, mp_body = None, mp_attachments = None, mp_x = None,
     mp_replied_message_id = None, mp_forwarded_message_id = None, mp_encrypted_message_type = None, mp_deleted_for = []\<rparr>"

definition imageActionEvent :: "env \<Rightarrow> conversation \<Rightarrow> user \<Rightarrow> event handler" where
  "imageActionEvent E conversation userActionCreator =
     andThen (MessageService_create E userActionCreator conversation
        ((noParams (c_id conversation))\<lparr>mp_body := Some (push_message_body UPDATE_IMAGE),
          mp_x := Some [(''type'', JStr ''update_image''), (''conversation'', visibleConversation conversation)]\<rparr>))
       (\<lambda>createdMessage. ret (plainEvent (MessageEvent createdMessage None)
          (PushConversation userActionCreator conversation)))"

definition participantActionEvent :: "env \<Rightarrow> participant_event \<Rightarrow> conversation \<Rightarrow> user \<Rightarrow> user \<Rightarrow> event handler" where
  "participantActionEvent E eventType conversation userActionCreator userActioned =
     andThen (MessageService_create E userActionCreator conversation
        ((noParams (c_id conversation))\<lparr>mp_body := Some (getDisplayName userActioned @ '' '' @ action_participant_message eventType),
          mp_x := Some [(''type'', JStr (participant_event_type eventType)), (''user'', visibleUser userActioned)]\<rparr>))
       (\<lambda>createdMessage. ret (plainEvent (MessageEvent createdMessage None)
          (PushEvent (u_id userActionCreator) ((''title'', JStr (getDisplayName userActionCreator @ '' | '' @ nameOf conversation))
             # jopt ''body'' (m_body createdMessage) @ [(''cid'', JStr (m_cid createdMessage))]))))"

section \<open>The fields of a message that clients see\<close>

text \<open>
  The type of the conversation is read from the object \<open>x\<close> and deleted there. \<open>cType\<close> is the type the caller has put into \<open>x\<close>, which it has then
  created if there was none. A message without stored times has none here.
\<close>

definition withoutType :: "(string \<times> json) list \<Rightarrow> (string \<times> json) list" where
  "withoutType x = filter (\<lambda>(k, _). k \<noteq> ''c_type'') x"

definition typeOf :: "message \<Rightarrow> conv_type option \<Rightarrow> json option" where
  "typeOf m cType = (case cType of Some t \<Rightarrow> Some (JStr (typeCode t))
     | None \<Rightarrow> (case m_x m of None \<Rightarrow> None | Some x \<Rightarrow> map_of x ''c_type''))"

definition xOf :: "message \<Rightarrow> conv_type option \<Rightarrow> (string \<times> json) list option" where
  "xOf m cType = (case (m_x m, cType) of (None, None) \<Rightarrow> None | (None, Some _) \<Rightarrow> Some [] | (Some x, _) \<Rightarrow> Some (withoutType x))"

definition MessagePublicFields :: "message \<Rightarrow> conv_type option \<Rightarrow> bool \<Rightarrow> (string \<times> json) list \<Rightarrow> json" where
  "MessagePublicFields m cType stored virtualFields = JObj (
     [(''_id'', JStr (m_id m)), (''cid'', JStr (m_cid m))] @ japp ''c_type'' (\<lambda>j. j) (typeOf m cType) @
     [(''from'', JStr (m_from m)), (''t'', jnat (m_t m))] @ jopt ''body'' (m_body m) @ japp ''attachments'' JArr (m_attachments m) @
     japp ''x'' JObj (xOf m cType) @ japp ''encrypted_message_type'' jnat (m_encrypted_message_type m) @
     jopt ''replied_message_id'' (m_replied_message_id m) @ jopt ''forwarded_message_id'' (m_forwarded_message_id m) @
     (if stored then [(''updated_at'', jnat (m_updated_at m)), (''created_at'', jnat (m_created_at m))] else []) @ virtualFields)"

text \<open>The reactions of a message: \<open>{}\<close> when it has none.\<close>

definition reactionsView :: "string list \<times> (string \<times> nat) list \<Rightarrow> json" where
  "reactionsView r = (if snd r = [] then JObj []
     else JObj [(''own'', JArr (map JStr (fst r))), (''total'', JObj (map (\<lambda>(k, n). (k, jnat n)) (snd r)))])"

definition listedMessage :: "message \<times> string option \<times> string list \<times> (string \<times> nat) list \<Rightarrow> json" where
  "listedMessage row = (case row of (m, status, reactions) \<Rightarrow>
     MessagePublicFields m None True (jopt ''status'' status @ [(''reactions'', reactionsView reactions)]))"

end
