(* ===== verification/Message_Ops.thy ===== *)
theory Message_Ops
  imports Messages
begin

text \<open>
  The request handlers on messages (\<^verbatim>\<open>app/providers/operations/message\<close> and the typing status of
  \<^verbatim>\<open>app/providers/operations/status\<close>). Each guards its conversation with a \<open>#hasAccess\<close> of its own.
  The summary and tone operations, which call an AI service, are in \<open>Assistant\<close>.
\<close>

section \<open>Access\<close>

definition checkBlocked :: "env \<Rightarrow> oid \<Rightarrow> oid list \<Rightarrow> unit handler" where
  "checkBlocked E currentUserId participantIds =
     andThen (gets (\<lambda>w. listMutualBlockedIds E w currentUserId participantIds)) (\<lambda>blockedUserIds.
       if blockedUserIds \<noteq> [] then throw (Status USER_BLOCKED) else ret ())"

definition privateParticipants :: "conversation \<Rightarrow> oid list" where
  "privateParticipants c = c_owner_id c # (case c_opponent_id c of None \<Rightarrow> [] | Some o' \<Rightarrow> [o'])"

definition MessageCreate_hasAccessToConversation :: "env \<Rightarrow> oid \<Rightarrow> oid \<Rightarrow> oid \<Rightarrow> conversation handler" where
  "MessageCreate_hasAccessToConversation E organizationId conversationId currentUserId =
     andThen (gets (\<lambda>w. hasAccessToConversation E w organizationId conversationId currentUserId)) (\<lambda>a.
       case ac_conversation a of
         None \<Rightarrow> throw (Status CONVERSATION_NOT_FOUND)
       | Some c \<Rightarrow>
           if \<not> cfg_disableChannelsLogic E \<and> c_type c = Channel \<and> \<not> (ac_asOwner a \<or> ac_asAdmin a)
           then throw (Status FORBIDDEN)
           else if \<not> ac_asParticipant a then throw (Status FORBIDDEN)
           else ret c)"

definition MessageCreate_hasAccess :: "env \<Rightarrow> oid \<Rightarrow> oid \<Rightarrow> oid \<Rightarrow> conversation handler" where
  "MessageCreate_hasAccess E organizationId conversationId currentUserId =
     andThen (MessageCreate_hasAccessToConversation E organizationId conversationId currentUserId) (\<lambda>c.
       if c_type c = Private
       then andThen (checkBlocked E currentUserId (privateParticipants c)) (\<lambda>_. ret c)
       else ret c)"

text \<open>The guard of the delete, list and system-message operations; delete also takes the roles.\<close>

definition Message_hasAccess :: "env \<Rightarrow> oid \<Rightarrow> oid \<Rightarrow> oid \<Rightarrow> (conversation \<times> bool \<times> bool) handler" where
  "Message_hasAccess E organizationId conversationId currentUserId =
     andThen (gets (\<lambda>w. hasAccessToConversation E w organizationId conversationId currentUserId)) (\<lambda>a.
       case ac_conversation a of
         None \<Rightarrow> throw (Status CONVERSATION_NOT_FOUND)
       | Some c \<Rightarrow> if \<not> ac_asParticipant a then throw (Status FORBIDDEN) else ret (c, ac_asOwner a, ac_asAdmin a))"

definition MessageRead_hasAccess :: "env \<Rightarrow> oid \<Rightarrow> oid \<Rightarrow> oid \<Rightarrow> conversation handler" where
  "MessageRead_hasAccess E organizationId conversationId currentUserId =
     andThen (gets (\<lambda>w. hasAccessToConversation E w organizationId conversationId currentUserId)) (\<lambda>a.
       case ac_conversation a of
         None \<Rightarrow> throw (Status CONVERSATION_NOT_FOUND)
       | Some c \<Rightarrow>
           if \<not> cfg_disableChannelsLogic E \<and> c_type c = Channel then throw (Status FORBIDDEN)
           else if \<not> ac_asParticipant a then throw (Status FORBIDDEN)
           else ret c)"

definition StatusTyping_hasAccess :: "env \<Rightarrow> oid \<Rightarrow> oid \<Rightarrow> oid \<Rightarrow> conversation handler" where
  "StatusTyping_hasAccess E organizationId conversationId currentUserId =
     andThen (gets (\<lambda>w. hasAccessToConversation E w organizationId conversationId currentUserId)) (\<lambda>a.
       case ac_conversation a of
         None \<Rightarrow> throw (Status CONVERSATION_NOT_FOUND)
       | Some c \<Rightarrow>
           if \<not> cfg_disableChannelsLogic E \<and> c_type c = Channel then throw (Status FORBIDDEN)
           else if \<not> ac_asParticipant a then throw (Status FORBIDDEN)
           else if c_type c = Private
             then andThen (checkBlocked E currentUserId (privateParticipants c)) (\<lambda>_. ret c)
             else ret c)"

section \<open>Sending a message\<close>

definition validateRepliedMessageId :: "env \<Rightarrow> oid \<Rightarrow> oid \<Rightarrow> oid option \<Rightarrow> unit handler" where
  "validateRepliedMessageId E cid userId replied = (case replied of
      None \<Rightarrow> ret ()
    | Some mid \<Rightarrow> andThen (gets (\<lambda>w. findMessageById E w cid userId mid)) (\<lambda>m.
        if m = None then throw (Status INCORRECT_REPLY_MESSAGE_ID) else ret ()))"

text \<open>
  The operation is given the client of the object store as its storage service (\<^verbatim>\<open>operations/message/create/Provider.js\<close>): the URL is
  signed without looking for the file. A \<open>file_id\<close> that is not a text is an error.
\<close>

definition firstAttachmentUrl :: "env \<Rightarrow> json list option \<Rightarrow> json option handler" where
  "firstAttachmentUrl E attachments = (case attachments of
      Some (JObj kvs # _) \<Rightarrow> (case map_of kvs ''file_id'' of
          Some fileId \<Rightarrow> if \<not> truthy fileId then ret (Some fileId)
            else (case fileId of JStr i \<Rightarrow> andThen (driverDownloadUrl E i) (\<lambda>url. ret (Some (JStr url))) | _ \<Rightarrow> throw TypeError)
        | None \<Rightarrow> ret None)
    | Some (_ # _) \<Rightarrow> ret None
    | _ \<Rightarrow> ret (Some JNull))"

definition pushPayload :: "conversation \<Rightarrow> user \<Rightarrow> message \<Rightarrow> json option \<Rightarrow> (string \<times> json) list" where
  "pushPayload conversation user message attachmentUrl =
     [(''title'', JStr (if c_type conversation = Private then u_login user else u_login user @ '' | '' @ nameOf conversation)),
      (''is_encrypted'', JBool (c_is_encrypted conversation = Some True))] @ jopt ''body'' (m_body message) @
     (case attachmentUrl of None \<Rightarrow> [] | Some url \<Rightarrow> [(''firstAttachmentUrl'', url)]) @ [(''cid'', JStr (m_cid message))]"

definition createMessageNotification ::
  "env \<Rightarrow> (message \<Rightarrow> conv_type option \<Rightarrow> event_message) \<Rightarrow> conversation \<Rightarrow> user \<Rightarrow> message \<Rightarrow> conv_type option \<Rightarrow> event handler" where
  "createMessageNotification E kind conversation user message cType =
     andThen (firstAttachmentUrl E (m_attachments message)) (\<lambda>attachmentUrl.
       ret (plainEvent (kind message cType) (ChatAlert (m_from message) (pushPayload conversation user message attachmentUrl))))"

text \<open>The script of the conversation, if it has one, may accept, refuse, replace or answer the message.\<close>

definition runHandler :: "env \<Rightarrow> conversation \<Rightarrow> user option \<Rightarrow> message_params \<Rightarrow> (message_params \<times> handler_response) handler" where
  "runHandler E conversation currentUser params =
     andThen (gets (\<lambda>w. getHandlerByConversationId E w (c_id conversation))) (\<lambda>h. case h of
       None \<Rightarrow> ret (params, Unchanged)
     | Some handler \<Rightarrow>
         andThen (need currentUser) (\<lambda>user.
         andThen (prepareAndExecuteConversationHandler E (ch_content handler) params user) (\<lambda>res.
         andThen (processHandlerResult E (u_organization_id user) params res) (\<lambda>response.
           ret (case response of
                  NewFields body attachments \<Rightarrow> (params\<lparr>mp_body := body, mp_attachments := attachments\<rparr>, response)
                | _ \<Rightarrow> (params, response))))))"

record create_result =
  cr_organizationId :: oid
  cr_messageId :: "string option"
  cr_message :: message
  cr_deliverMessages :: "event list"
  cr_cId :: oid
  cr_participantIds :: "oid list option"
  cr_modifiedFields :: "(string option \<times> json list option) option"
  cr_botMessage :: "(message \<times> conv_type) option"

definition restoreConversation :: "env \<Rightarrow> conversation \<Rightarrow> oid \<Rightarrow> event list handler" where
  "restoreConversation E conversation currentUserId =
     (if c_type conversation \<noteq> Private then ret []
      else andThen (restorePrivateConversation E conversation) (\<lambda>(missedParticipantIds, _).
        if missedParticipantIds \<noteq> [] \<and> isEnabled E
        then andThen (gets (\<lambda>w. User_findById E w currentUserId)) (\<lambda>u. andThen (need u) (\<lambda>user.
               gets (\<lambda>w. [(actionEvent w CREATE conversation user)\<lparr>ev_participantIds := Some missedParticipantIds\<rparr>])))
        else ret []))"

text \<open>
  The answer of the bot shares the object \<open>x\<close> of the sender's message. The handler adds the type of the conversation to \<open>x\<close> and the public
  fields take it out again, before the next message is stored; a bot message without an object \<open>x\<close> is delivered without the type.
\<close>

definition answerOfBot :: "env \<Rightarrow> conversation \<Rightarrow> handler_response \<Rightarrow> ((message \<times> conv_type) option \<times> event list) handler" where
  "answerOfBot E conversation response = (case response of
      BotMessage serverBot botParams \<Rightarrow>
        andThen (MessageService_create E serverBot conversation botParams) (\<lambda>botMessage.
        andThen (createMessageNotification E BotEvent conversation serverBot botMessage
            (if mp_x botParams = None then None else Some (c_type conversation))) (\<lambda>ev.
          ret (Some (botMessage, c_type conversation), [ev])))
    | _ \<Rightarrow> ret (None, []))"

definition MessageCreate_perform :: "env \<Rightarrow> socket \<Rightarrow> message_params \<Rightarrow> create_result handler" where
  "MessageCreate_perform E ws params =
     andThen (sessionOf ws) (\<lambda>s.
     andThen (gets (\<lambda>w. User_findById E w (s_userId s))) (\<lambda>currentUser.
     andThen (MessageCreate_hasAccess E (s_organizationId s) (mp_cid params) (s_userId s)) (\<lambda>conversation.
     andThen (validateRepliedMessageId E (mp_cid params) (s_userId s) (mp_replied_message_id params)) (\<lambda>_.
     andThen (runHandler E conversation currentUser params) (\<lambda>(params1, response).
     andThen (need currentUser) (\<lambda>user.
     andThen (MessageService_create E user conversation params1) (\<lambda>message.
     andThen (restoreConversation E conversation (s_userId s)) (\<lambda>restoreEvents.
     andThen (createMessageNotification E MessageEvent conversation user message (Some (c_type conversation))) (\<lambda>messageEvent.
     andThen (answerOfBot E conversation response) (\<lambda>(botMessage, botEvents).
     andThen (modify (updateLastActivity E (c_id conversation) (m_created_at message))) (\<lambda>_.
       ret \<lparr>cr_organizationId = s_organizationId s, cr_messageId = mp_id params, cr_message = message,
         cr_deliverMessages = restoreEvents @ [messageEvent] @ botEvents, cr_cId = c_id conversation,
         cr_participantIds = (if c_type conversation = Private then Some (privateParticipants conversation) else None),
         cr_modifiedFields = (case response of NewFields b as \<Rightarrow> Some (b, as) | _ \<Rightarrow> None),
         cr_botMessage = botMessage\<rparr>)))))))))))"

section \<open>Editing, deleting, reading and listing\<close>

record edit_result =
  er_organizationId :: oid
  er_cId :: oid
  er_c_type :: conv_type
  er_participantsIds :: "oid list option"
  er_mid :: oid
  er_body :: string
  er_from :: oid

definition MessageEdit_hasAccess :: "env \<Rightarrow> oid \<Rightarrow> oid \<Rightarrow> message handler" where
  "MessageEdit_hasAccess E messageId currentUserId =
     andThen (gets (\<lambda>w. hasAccessToMessage E w messageId currentUserId)) (\<lambda>a. case ma_message a of
       None \<Rightarrow> throw (Status MESSAGE_ID_NOT_FOUND)
     | Some m \<Rightarrow> if \<not> ma_asOwner a then throw (Status FORBIDDEN) else ret m)"

definition participantsOf :: "conversation \<Rightarrow> oid list option" where
  "participantsOf c = (if c_type c = Private then Some (privateParticipants c) else None)"

definition MessageEdit_perform :: "env \<Rightarrow> socket \<Rightarrow> oid \<Rightarrow> string \<Rightarrow> edit_result handler" where
  "MessageEdit_perform E ws messageId newBody =
     andThen (sessionOf ws) (\<lambda>s.
     andThen (MessageEdit_hasAccess E messageId (s_userId s)) (\<lambda>message.
     andThen (modify (updateBody E messageId newBody)) (\<lambda>_.
     andThen (gets (\<lambda>w. findById c_id (mg_conversations E) (m_cid message) (conversations w))) (\<lambda>c.
     andThen (need c) (\<lambda>conversation.
       ret \<lparr>er_organizationId = s_organizationId s, er_cId = c_id conversation, er_c_type = c_type conversation,
         er_participantsIds = participantsOf conversation, er_mid = messageId, er_body = newBody,
         er_from = s_userId s\<rparr>)))))"

definition canModerate :: "conversation \<Rightarrow> bool \<Rightarrow> bool \<Rightarrow> bool" where
  "canModerate conversation asOwner asAdmin = (c_type conversation \<noteq> Private \<and> (asOwner \<or> asAdmin))"

record delete_result =
  dr_organizationId :: oid
  dr_cId :: oid
  dr_c_type :: conv_type
  dr_from :: oid
  dr_participantsIds :: "oid list option"
  dr_deletedMessages :: "oid list option"

definition MessageDelete_perform :: "env \<Rightarrow> socket \<Rightarrow> oid \<Rightarrow> oid list \<Rightarrow> bool \<Rightarrow> delete_result handler" where
  "MessageDelete_perform E ws cId mIds isDeleteAll =
     andThen (sessionOf ws) (\<lambda>s.
     andThen (Message_hasAccess E (s_organizationId s) cId (s_userId s)) (\<lambda>(conversation, asOwner, asAdmin).
     let moderator = canModerate conversation asOwner asAdmin in
     andThen (gets (\<lambda>w. findMessagesByIds E w mIds)) (\<lambda>ms.
     andThen (if ms = [] then ret ()
        else andThen (validateMessagesForDelete ms (c_id conversation) (s_organizationId s) (s_userId s) (isDeleteAll \<and> \<not> moderator))
          (\<lambda>_. if isDeleteAll
             then modify (deleteByIdsInConversation E (map m_id ms) (c_id conversation) (s_organizationId s)
                    (if moderator then None else Some (s_userId s)))
             else modify (updateDeleteForUser E (map m_id ms) (s_userId s) (c_id conversation) (s_organizationId s)))) (\<lambda>_.
       ret \<lparr>dr_organizationId = s_organizationId s, dr_cId = c_id conversation, dr_c_type = c_type conversation, dr_from = s_userId s,
         dr_participantsIds = participantsOf conversation,
         dr_deletedMessages = (if isDeleteAll then Some mIds else None)\<rparr>))))"

text \<open>
  With \<open>resultMessageOnly\<close> the handler calls \<open>findWithOrgScopeById\<close>, which the user repository does not have.
\<close>

definition MessageRead_perform :: "env \<Rightarrow> socket \<Rightarrow> oid \<Rightarrow> oid list option \<Rightarrow> bool \<Rightarrow> (oid \<times> oid \<times> (oid \<times> oid list) list) handler" where
  "MessageRead_perform E ws cid mids resultMessageOnly =
     andThen (sessionOf ws) (\<lambda>s.
     andThen (MessageRead_hasAccess E (s_organizationId s) cid (s_userId s)) (\<lambda>_.
     andThen (if resultMessageOnly then throw TypeError else readMessagesInConversation E cid (s_userId s) mids) (\<lambda>unreadMessages.
       ret (s_organizationId s, s_userId s, groupBy m_from m_id unreadMessages))))"

definition normalizeLimitParam :: "env \<Rightarrow> nat option \<Rightarrow> nat" where
  "normalizeLimitParam E lim = (let preloadCount = cfg_messagesPreloadCount E in
     case lim of None \<Rightarrow> preloadCount
     | Some n \<Rightarrow> if n > preloadCount then preloadCount else if n = 0 then preloadCount else n)"

text \<open>Each message with its status (on the sender's own messages only) and its reactions.\<close>

definition MessageList_perform ::
  "env \<Rightarrow> socket \<Rightarrow> oid \<Rightarrow> list_options \<Rightarrow> nat option \<Rightarrow> (message \<times> string option \<times> string list \<times> (string \<times> nat) list) list handler" where
  "MessageList_perform E ws cId opts lim =
     andThen (sessionOf ws) (\<lambda>s.
     andThen (gets (\<lambda>w. User_findById E w (s_userId s))) (\<lambda>u.
     andThen (Message_hasAccess E (s_organizationId s) cId (s_userId s)) (\<lambda>(conversation, _, _).
     andThen (need u) (\<lambda>currentUser.
     andThen (gets (\<lambda>w. getDeviceId w ws (u_id currentUser))) (\<lambda>deviceId.
     andThen (transact (messagesList E cId currentUser opts (Some (normalizeLimitParam E lim))
        (c_is_encrypted conversation = Some True) deviceId)) (\<lambda>res.
       ret (map (\<lambda>m. (m, if m_from m = s_userId s then Some (if ml_statuses res (m_id m) \<noteq> [] then ''read'' else ''sent'') else None,
           ml_reactions res (m_id m))) (ml_messages res))))))))"

section \<open>Reactions, system messages, failed decryptions and typing\<close>

definition Reactions_hasAccess :: "env \<Rightarrow> oid \<Rightarrow> oid \<Rightarrow> message handler" where
  "Reactions_hasAccess E messageId currentUserId =
     andThen (gets (\<lambda>w. hasAccessToMessage E w messageId currentUserId)) (\<lambda>a. case ma_message a of
       None \<Rightarrow> throw (Status MESSAGE_ID_NOT_FOUND)
     | Some m \<Rightarrow> if ma_selfDeleted a then throw (Status MESSAGE_ID_NOT_FOUND) else ret m)"

record reactions_result =
  re_organizationId :: oid
  re_from :: oid
  re_isUpdated :: bool
  re_conversation :: "conversation option"
  re_add :: bool
  re_remove :: bool

definition ReactionsUpdate_perform :: "env \<Rightarrow> socket \<Rightarrow> oid \<Rightarrow> string option \<Rightarrow> string option \<Rightarrow> reactions_result handler" where
  "ReactionsUpdate_perform E ws messageId addReaction removeReaction =
     andThen (sessionOf ws) (\<lambda>s.
     andThen (Reactions_hasAccess E messageId (s_userId s)) (\<lambda>message.
     andThen (updateReactions E (m_id message) (s_userId s) addReaction removeReaction) (\<lambda>(added, removed).
       if \<not> (added \<or> removed) then ret \<lparr>re_organizationId = s_organizationId s, re_from = s_userId s, re_isUpdated = False, re_conversation = None, re_add = False, re_remove = False\<rparr>
       else andThen (gets (\<lambda>w. findById c_id (mg_conversations E) (m_cid message) (conversations w))) (\<lambda>c.
         andThen (need c) (\<lambda>conversation.
           ret \<lparr>re_organizationId = s_organizationId s, re_from = s_userId s, re_isUpdated = (cfg_disableChannelsLogic E \<or> c_type conversation \<noteq> Channel),
             re_conversation = Some conversation, re_add = added, re_remove = removed\<rparr>)))))"

definition ReactionsList_perform :: "env \<Rightarrow> socket \<Rightarrow> oid \<Rightarrow> (string \<times> oid list) list handler" where
  "ReactionsList_perform E ws messageId =
     andThen (gets (\<lambda>w. getSessionUserId w ws)) (\<lambda>u. andThen (need u) (\<lambda>currentUserId.
     andThen (Reactions_hasAccess E messageId currentUserId) (\<lambda>message.
       gets (\<lambda>w. aggregateMessageReactions w (m_id message)))))"

record system_result =
  sr_organizationId :: oid
  sr_cId :: "oid option"
  sr_recipientsIds :: "oid list option"
  sr_from :: oid
  sr_t :: nat

definition MessageSendSystem_perform :: "env \<Rightarrow> socket \<Rightarrow> oid option \<Rightarrow> oid list \<Rightarrow> system_result handler" where
  "MessageSendSystem_perform E ws cid uids =
     andThen (sessionOf ws) (\<lambda>s.
     andThen (case cid of
         None \<Rightarrow> gets (\<lambda>w. Some (retrieveExistedIds E w (s_organizationId s) uids))
       | Some c \<Rightarrow> andThen (Message_hasAccess E (s_organizationId s) c (s_userId s)) (\<lambda>(conversation, _, _).
           ret (participantsOf conversation))) (\<lambda>recipientsIds.
       gets (\<lambda>w. \<lparr>sr_organizationId = s_organizationId s, sr_cId = cid, sr_recipientsIds = recipientsIds,
         sr_from = s_userId s, sr_t = currentTimeStamp w\<rparr>)))"

definition MessageDecryptionFailed_perform :: "env \<Rightarrow> socket \<Rightarrow> oid \<Rightarrow> oid list \<Rightarrow> (oid option \<times> oid) handler" where
  "MessageDecryptionFailed_perform E ws cid mids =
     andThen (gets (\<lambda>w. case getSessionUserId w ws of None \<Rightarrow> None | Some i \<Rightarrow> User_findById E w i)) (\<lambda>u.
     andThen (need u) (\<lambda>currentUser.
     andThen (modify (upsertMessageStatus E cid mids (u_id currentUser) DecryptionFailedStatus)) (\<lambda>_.
       andThen (findOpponentId E cid (u_id currentUser)) (\<lambda>receiverUserId. ret (receiverUserId, u_id currentUser)))))"

definition StatusTyping_perform :: "env \<Rightarrow> socket \<Rightarrow> oid \<Rightarrow> string option \<Rightarrow> (oid \<times> conversation \<times> oid \<times> nat \<times> string option) handler" where
  "StatusTyping_perform E ws conversationId status =
     andThen (sessionOf ws) (\<lambda>s.
     andThen (StatusTyping_hasAccess E (s_organizationId s) conversationId (s_userId s)) (\<lambda>conversation.
       gets (\<lambda>w. (s_organizationId s, conversation, s_userId s, roundSeconds w, status))))"

end
