(* ===== verification/Conversation_Ops.thy ===== *)
theory Conversation_Ops
  imports Message_Ops
begin

text \<open>
  The request handlers on conversations (\<^verbatim>\<open>app/providers/operations/conversation\<close>) and on the scripts of
  conversations (\<^verbatim>\<open>app/providers/operations/conversation_handlers\<close>). The regular expressions of the search
  are a parameter of the model.
\<close>

section \<open>Creating a conversation\<close>

text \<open>
  An opponent that does not exist is not refused: the error of that branch is constructed but not
  thrown. Without any candidate, \<open>undefined.toString()\<close> raises a \<open>TypeError\<close>.
\<close>

definition validatePrivateConversationParticipant :: "oid \<Rightarrow> oid option \<Rightarrow> oid list \<Rightarrow> oid handler" where
  "validatePrivateConversationParticipant ownerId paramsOpponentId participantIds =
     (if length participantIds \<ge> 3 then throw (Status TOO_MANY_USERS_IN_PRIVATE)
      else let firstOther = List.find (\<lambda>pId. pId \<noteq> ownerId) participantIds;
               opponentId = (case paramsOpponentId of None \<Rightarrow> firstOther | Some o' \<Rightarrow> if o' = [] then firstOther else Some o')
           in case opponentId of
                None \<Rightarrow> throw TypeError
              | Some o' \<Rightarrow> if o' = ownerId then throw (Status INCORRECT_USER) else ret o')"

definition createNewPrivateConversation :: "env \<Rightarrow> user \<Rightarrow> conv_params \<Rightarrow> oid \<Rightarrow> oid \<Rightarrow> conversation handler" where
  "createNewPrivateConversation E user params ownerId opponentId =
     ConversationService_create E user (params\<lparr>cv_opponent_id := Some opponentId\<rparr>) [ownerId, opponentId]"

definition createPrivateConversation :: "env \<Rightarrow> user option \<Rightarrow> oid \<Rightarrow> conv_params \<Rightarrow> oid list \<Rightarrow> conversation handler" where
  "createPrivateConversation E currentUser ownerId params participantIds =
     andThen (validatePrivateConversationParticipant ownerId (cv_opponent_id params) participantIds) (\<lambda>opponentId.
     andThen (need currentUser) (\<lambda>user.
     andThen (gets (\<lambda>w. findExistedPrivateConversation E w (u_id user) opponentId (cv_is_encrypted params))) (\<lambda>existed.
       case existed of
         Some c \<Rightarrow> andThen (restorePrivateConversation E c) (\<lambda>(_, c1). ret c1)
       | None \<Rightarrow> createNewPrivateConversation E user params ownerId opponentId)))"

definition withOwner :: "oid \<Rightarrow> oid list \<Rightarrow> oid list" where
  "withOwner ownerId participantIds = (if ownerId \<in> set participantIds then participantIds else participantIds @ [ownerId])"

definition createGroupConversation :: "env \<Rightarrow> user option \<Rightarrow> conv_params \<Rightarrow> oid list \<Rightarrow> conversation handler" where
  "createGroupConversation E currentUser params participantIds =
     (if length participantIds = 1 then throw (Status PARTICIPANTS_NOT_PROVIDED)
      else andThen (need currentUser) (\<lambda>user. ConversationService_create E user params participantIds))"

definition createChannelConversation :: "env \<Rightarrow> user option \<Rightarrow> conv_params \<Rightarrow> oid list \<Rightarrow> conversation handler" where
  "createChannelConversation E currentUser params participantIds =
     andThen (need currentUser) (\<lambda>user. ConversationService_create E user params participantIds)"

definition withImageUrl :: "env \<Rightarrow> conversation \<Rightarrow> conversation handler" where
  "withImageUrl E conversation = andThen (addImageUrl E [conversation]) (\<lambda>cs. ret (hd cs))"

text \<open>The event of a private conversation goes to the participants of the request, which may be none.\<close>

definition ConversationCreate_perform :: "env \<Rightarrow> socket \<Rightarrow> conv_params \<Rightarrow> (oid \<times> conversation \<times> event option) handler" where
  "ConversationCreate_perform E ws params =
     andThen (sessionOf ws) (\<lambda>s.
     andThen (gets (\<lambda>w. (User_findById E w (s_userId s),
        if cv_participants params = [] then [] else retrieveExistedIds E w (s_organizationId s) (cv_participants params))))
       (\<lambda>(currentUser, paramsParticipantIds).
     let participantIds = (if cv_type params = Private then paramsParticipantIds else withOwner (s_userId s) paramsParticipantIds) in
     andThen (case cv_type params of
         Private \<Rightarrow> createPrivateConversation E currentUser (s_userId s) params participantIds
       | Group \<Rightarrow> andThen (createGroupConversation E currentUser params participantIds) (withImageUrl E)
       | Channel \<Rightarrow> andThen (createChannelConversation E currentUser params participantIds) (withImageUrl E)) (\<lambda>conversation.
       if \<not> isEnabled E then ret (s_organizationId s, conversation, None)
       else andThen (gets (\<lambda>w. User_findById E w (s_userId s))) (\<lambda>u. andThen (need u) (\<lambda>user.
         gets (\<lambda>w. (s_organizationId s, conversation,
           Some ((actionEvent w CREATE conversation user)\<lparr>ev_participantIds := Some participantIds\<rparr>))))))))"

section \<open>Leaving, subscribing and unsubscribing\<close>

definition getConversationDetails :: "env \<Rightarrow> oid \<Rightarrow> oid \<Rightarrow> oid \<Rightarrow> conversation handler" where
  "getConversationDetails E organizationId conversationId userId =
     andThen (gets (\<lambda>w. hasAccessToConversation E w organizationId conversationId userId)) (\<lambda>a. case ac_conversation a of
       None \<Rightarrow> throw (Status BAD_REQUEST)
     | Some c \<Rightarrow> if \<not> ac_asParticipant a then throw (Status PARTICIPANT_NOT_FOUND) else ret c)"

definition participantsActionEvent :: "env \<Rightarrow> participant_event \<Rightarrow> conversation \<Rightarrow> user option \<Rightarrow> oid \<Rightarrow> event handler" where
  "participantsActionEvent E eventType conversation currentUser actionedUserId =
     andThen (gets (\<lambda>w. User_findById E w actionedUserId)) (\<lambda>actioned.
     andThen (need actioned) (\<lambda>actionedUser. andThen (need currentUser) (\<lambda>user.
       participantActionEvent E eventType conversation user actionedUser)))"

definition ConversationDelete_perform :: "env \<Rightarrow> socket \<Rightarrow> oid \<Rightarrow> (oid \<times> oid \<times> event list option) handler" where
  "ConversationDelete_perform E ws conversationId =
     andThen (sessionOf ws) (\<lambda>s.
     andThen (getConversationDetails E (s_organizationId s) conversationId (s_userId s)) (\<lambda>c.
     andThen (removeParticipants E c [s_userId s]) (\<lambda>(_, conversation).
       if \<not> isEnabled E then ret (s_organizationId s, s_userId s, None)
       else andThen (gets (\<lambda>w. User_findById E w (s_userId s))) (\<lambda>currentUser.
         andThen (participantsActionEvent E LEFT conversation currentUser (s_userId s)) (\<lambda>ev.
           ret (s_organizationId s, s_userId s,
             Some [ev\<lparr>ev_cId := Some (c_id conversation), ev_participantIds :=
               (if c_type conversation = Private then Some (case c_opponent_id conversation of None \<Rightarrow> [] | Some o' \<Rightarrow> [o']) else None)\<rparr>]))))))"

datatype subscription = Subscribe | Unsubscribe

definition retrieveConversation :: "env \<Rightarrow> oid \<Rightarrow> oid \<Rightarrow> conversation handler" where
  "retrieveConversation E organizationId conversationId =
     andThen (gets (\<lambda>w. findByIdWithOrgScope E w organizationId conversationId)) (\<lambda>found. case found of
       None \<Rightarrow> throw (Status BAD_REQUEST)
     | Some c \<Rightarrow> if c_type c \<noteq> Channel then throw (Status BAD_REQUEST) else ret c)"

definition ConversationSubscribe_perform :: "env \<Rightarrow> socket \<Rightarrow> subscription \<Rightarrow> oid \<Rightarrow> unit handler" where
  "ConversationSubscribe_perform E ws ty conversationId =
     andThen (sessionOf ws) (\<lambda>s.
     andThen (retrieveConversation E (s_organizationId s) conversationId) (\<lambda>conversation.
       case ty of
         Subscribe \<Rightarrow> andThen (addParticipants E conversation [s_userId s] False) (\<lambda>_. ret ())
       | Unsubscribe \<Rightarrow> andThen (removeParticipants E conversation [s_userId s]) (\<lambda>_. ret ())))"

section \<open>Editing a conversation\<close>

text \<open>A list to add and a list to remove, either of which may be absent.\<close>

record id_changes =
  add_ids :: "oid list option"
  remove_ids :: "oid list option"

record edit_conversation_params =
  ep_id :: oid
  ep_fields :: conv_update
  ep_participants :: "id_changes option"
  ep_admins :: "id_changes option"

record edit_conversation_result =
  ec_organizationId :: oid
  ec_currentUserId :: oid
  ec_conversation :: conversation
  ec_conversationEvents :: "event list option"

text \<open>A private conversation may be edited by every user of the organization.\<close>

definition ConversationEdit_hasAccess :: "env \<Rightarrow> oid \<Rightarrow> oid \<Rightarrow> oid \<Rightarrow> conversation handler" where
  "ConversationEdit_hasAccess E organizationId conversationId userId =
     andThen (gets (\<lambda>w. hasAccessToConversation E w organizationId conversationId userId)) (\<lambda>a. case ac_conversation a of
       None \<Rightarrow> throw (Status BAD_REQUEST)
     | Some c \<Rightarrow> if c_type c \<noteq> Private \<and> \<not> (ac_asOwner a \<or> ac_asAdmin a) then throw (Status FORBIDDEN) else ret c)"

definition idsOf :: "oid list option \<Rightarrow> oid list" where
  "idsOf x = (case x of None \<Rightarrow> [] | Some is \<Rightarrow> is)"

definition existedIds :: "env \<Rightarrow> world \<Rightarrow> oid \<Rightarrow> oid list \<Rightarrow> oid list" where
  "existedIds E w organizationId ids = (if ids = [] then [] else retrieveExistedIds E w organizationId ids)"

definition editParticipants :: "env \<Rightarrow> conversation \<Rightarrow> id_changes \<Rightarrow> (oid list \<times> remove_result \<times> conversation) handler" where
  "editParticipants E conversation changes =
     andThen (gets (\<lambda>w. (existedIds E w (c_organization_id conversation) (idsOf (add_ids changes)),
         existedIds E w (c_organization_id conversation) (idsOf (remove_ids changes)))))
       (\<lambda>(addIds, removeIds). updateParticipants E conversation addIds removeIds)"

definition updateAdmins :: "env \<Rightarrow> conversation \<Rightarrow> id_changes \<Rightarrow> world \<Rightarrow> world" where
  "updateAdmins E conversation changes w =
     (let w1 = (if idsOf (add_ids changes) = [] then w else addAdminRole E (c_id conversation) (idsOf (add_ids changes)) w)
      in if idsOf (remove_ids changes) = [] then w1 else removeAdminRole E (c_id conversation) (idsOf (remove_ids changes)) w1)"

definition aggregateLastMessageForConversation ::
  "world \<Rightarrow> oid list \<Rightarrow> oid \<Rightarrow> oid \<Rightarrow> (message \<times> string \<times> string list \<times> (string \<times> nat) list) option" where
  "aggregateLastMessageForConversation w cids userId cid =
     (case findLastMessageForConversations w cids userId cid of None \<Rightarrow> None
      | Some m \<Rightarrow> Some (m, if findReadStatusForMids w [m_id m] (m_id m) \<noteq> [] then ''read'' else ''sent'',
          aggregateForUserMessages w [m_id m] userId (m_id m)))"

text \<open>
  Whoever is added sees the conversation with its last message, as the editing user sees it, and one unread message. The fields are set
  on the conversation itself: every later event and the answer show them.
\<close>

definition addMessagesInfo :: "world \<Rightarrow> conversation \<Rightarrow> user \<Rightarrow> conversation" where
  "addMessagesInfo w conversation user =
     conversation\<lparr>c_last_message := (case aggregateLastMessageForConversation w [c_id conversation] (u_id user) (c_id conversation) of
         None \<Rightarrow> None
       | Some (m, status, reactions) \<Rightarrow> Some (listedMessage (m, Some status, reactions))),
       c_unread_messages_count := Some 1\<rparr>"

definition createActionEvents ::
  "env \<Rightarrow> conversation \<Rightarrow> oid \<Rightarrow> oid list \<Rightarrow> oid list \<Rightarrow> bool \<Rightarrow> bool \<Rightarrow> (conversation \<times> event list) handler" where
  "createActionEvents E conversation0 currentUserId addedIds removedIds isUpdateConversation isUpdateConversationImage =
     andThen (gets (\<lambda>w. User_findById E w currentUserId)) (\<lambda>currentUser.
     andThen (if addedIds = [] then ret conversation0
        else andThen (need currentUser) (\<lambda>user. gets (\<lambda>w. addMessagesInfo w conversation0 user))) (\<lambda>conversation.
     let plain = (\<lambda>eventType. andThen (need currentUser) (\<lambda>user. gets (\<lambda>w. actionEvent w eventType conversation user))) in
     andThen (if addedIds = [] then ret []
        else andThen (plain UPDATE) (\<lambda>ev.
          andThen (forEach addedIds (participantsActionEvent E ADDED conversation currentUser)) (\<lambda>evs.
            ret (ev\<lparr>ev_participantIds := Some addedIds\<rparr> # evs)))) (\<lambda>addEvents.
     andThen (if removedIds = [] then ret []
        else andThen (forEach removedIds (participantsActionEvent E REMOVED conversation currentUser)) (\<lambda>evs.
          andThen (plain DELETE) (\<lambda>ev. ret (evs @ [ev\<lparr>ev_participantIds := Some removedIds\<rparr>])))) (\<lambda>removeEvents.
     andThen (if \<not> isUpdateConversation then ret []
        else andThen (plain UPDATE_DETAILS) (\<lambda>ev. ret [ev\<lparr>ev_exceptUserIds := addedIds, ev_ignoreSelf := True\<rparr>])) (\<lambda>detailEvents.
     andThen (if \<not> isUpdateConversationImage then ret []
        else andThen (need currentUser) (\<lambda>user. andThen (imageActionEvent E conversation user) (\<lambda>ev. ret [ev]))) (\<lambda>imageEvents.
       ret (conversation, addEvents @ removeEvents @ detailEvents @ imageEvents)))))))"

text \<open>
  New admins join the conversation. An edit that empties the conversation deletes it and answers
  \<open>null\<close>. The changes of the participants also count as an updated field.
\<close>

definition withAdmins :: "oid list \<Rightarrow> id_changes option \<Rightarrow> id_changes option" where
  "withAdmins adminsToAdd changes = (if adminsToAdd = [] then changes
     else Some (case changes of
         None \<Rightarrow> \<lparr>add_ids = Some adminsToAdd, remove_ids = None\<rparr>
       | Some ch \<Rightarrow> ch\<lparr>add_ids := Some (idsOf (add_ids ch) @ adminsToAdd)\<rparr>))"

definition finishEdit ::
  "env \<Rightarrow> session \<Rightarrow> edit_conversation_params \<Rightarrow> conversation \<Rightarrow> oid list \<Rightarrow> oid list \<Rightarrow> edit_conversation_result handler" where
  "finishEdit E s params conversation addedIds removedIds =
     (let result = \<lparr>ec_organizationId = s_organizationId s, ec_currentUserId = s_userId s, ec_conversation = conversation,
            ec_conversationEvents = None\<rparr>;
          fields = ep_fields params
      in andThen (case ep_admins params of None \<Rightarrow> ret () | Some ch \<Rightarrow> modify (updateAdmins E conversation ch)) (\<lambda>_.
         if \<not> isEnabled E then ret result
         else andThen (withImageUrl E conversation) (\<lambda>conversation1.
           andThen (createActionEvents E conversation1 (s_userId s) addedIds removedIds
                (ue_name fields \<noteq> None \<or> ue_description fields \<noteq> None \<or> ue_participants fields \<noteq> None)
                (case ue_image_object fields of None \<Rightarrow> False | Some img \<Rightarrow> truthy img))
           (\<lambda>(conversation2, events). ret (result\<lparr>ec_conversation := conversation2,
              ec_conversationEvents := Some (map (ev_cId_update (\<lambda>_. Some (c_id conversation))) events)\<rparr>)))))"

definition ConversationEdit_perform :: "env \<Rightarrow> socket \<Rightarrow> edit_conversation_params \<Rightarrow> edit_conversation_result option handler" where
  "ConversationEdit_perform E ws params =
     andThen (sessionOf ws) (\<lambda>s.
     andThen (ConversationEdit_hasAccess E (s_organizationId s) (ep_id params) (s_userId s)) (\<lambda>_.
     andThen (ConversationRepo_update E (ep_id params) (ep_fields params)) (\<lambda>updated.
     andThen (need updated) (\<lambda>conversation.
       if c_type conversation = Private
       then ret (Some \<lparr>ec_organizationId = s_organizationId s, ec_currentUserId = s_userId s, ec_conversation = conversation,
              ec_conversationEvents = None\<rparr>)
       else andThen (gets (\<lambda>w. case ep_admins params of None \<Rightarrow> []
              | Some ch \<Rightarrow> existedIds E w (c_organization_id conversation) (idsOf (add_ids ch)))) (\<lambda>adminsToAdd.
         case withAdmins adminsToAdd (ep_participants params) of
           None \<Rightarrow> andThen (finishEdit E s params conversation [] []) (\<lambda>r. ret (Some r))
         | Some changes \<Rightarrow> andThen (editParticipants E conversation changes) (\<lambda>(addedIds, removed, conversation1).
             if rr_isEmptyAndDeleted removed then ret None
             else andThen (finishEdit E s params conversation1 addedIds (rr_removedIds removed)) (\<lambda>r. ret (Some r))))))))"

section \<open>Listing conversations, participants and admins\<close>

definition aggregateCountOfUnreadMessagesByCid :: "world \<Rightarrow> oid list \<Rightarrow> oid \<Rightarrow> oid \<Rightarrow> nat" where
  "aggregateCountOfUnreadMessagesByCid w cids userId cid =
     countUnreadMessagesByCids w cids userId (findLastReadMessageByUserForCid w cids userId) cid"

definition normalizeConversationLimit :: "env \<Rightarrow> nat option \<Rightarrow> nat" where
  "normalizeConversationLimit E lim = (let preloadCount = cfg_conversationsPreloadCount E in
     case lim of None \<Rightarrow> preloadCount
     | Some n \<Rightarrow> if n > preloadCount then preloadCount else if n = 0 then preloadCount else n)"

definition ConversationList_perform ::
  "env \<Rightarrow> socket \<Rightarrow> nat option \<Rightarrow> nat option \<Rightarrow> oid list \<Rightarrow> nat option \<Rightarrow>
   (conversation \<times> (message \<times> string \<times> string list \<times> (string \<times> nat) list) option \<times> nat) list handler" where
  "ConversationList_perform E ws gt lt ids lim =
     andThen (sessionOf ws) (\<lambda>s.
     andThen (gets (\<lambda>w. User_findById E w (s_userId s))) (\<lambda>u. andThen (need u) (\<lambda>currentUser.
     andThen (gets (\<lambda>w. let cs = conversationsList E w currentUser gt lt ids (Some (normalizeConversationLimit E lim)); cids = map c_id cs
        in map (\<lambda>c. (c, aggregateLastMessageForConversation w cids (u_id currentUser) (c_id c),
             aggregateCountOfUnreadMessagesByCid w cids (u_id currentUser) (c_id c))) cs)) (\<lambda>rows.
     andThen (addImageUrl E (map fst rows)) (\<lambda>conversationsWithImages. ret (zip conversationsWithImages (map snd rows)))))))"

definition ConversationListParticipants_perform :: "env \<Rightarrow> socket \<Rightarrow> oid list \<Rightarrow> (json list \<times> (oid \<times> oid list) list) handler" where
  "ConversationListParticipants_perform E ws cids =
     andThen (sessionOf ws) (\<lambda>s.
     andThen (gets (\<lambda>w. findConversationsParticipantIds E w cids (s_userId s))) (\<lambda>(participantIds, byCids).
       if participantIds = [] then ret ([], [])
       else andThen (gets (\<lambda>w. findWithOrgScopeByIds E w (s_organizationId s) participantIds)) (\<lambda>us.
         andThen (addAvatarUrl E us) (\<lambda>usersWithAvatars. ret (map visibleUserWithAvatar usersWithAvatars, byCids)))))"

definition findConversationsAdminIds :: "world \<Rightarrow> conversation list \<Rightarrow> (oid \<times> oid list) list" where
  "findConversationsAdminIds w cs =
     map (\<lambda>c. (c_id c, c_owner_id c # (case map_of (findConversationsParticipants w (map c_id cs) (Some AdminRole)) (c_id c) of
        None \<Rightarrow> [] | Some as \<Rightarrow> as))) cs"

definition ConversationListAdmins_perform :: "env \<Rightarrow> socket \<Rightarrow> oid list \<Rightarrow> (json list \<times> (oid \<times> oid list) list) handler" where
  "ConversationListAdmins_perform E ws cids =
     andThen (sessionOf ws) (\<lambda>s.
     andThen (gets (\<lambda>w. validateConvIdsWhichUserHasAccessAsAdmin E w (s_organizationId s) cids (s_userId s))) (\<lambda>cs.
       if cs = [] then ret ([], [])
       else andThen (gets (\<lambda>w. findConversationsAdminIds w cs)) (\<lambda>byCids.
         andThen (gets (\<lambda>w. findAllByIds u_id (mg_users E) (concat (map snd byCids)) None (users w))) (\<lambda>us.
         andThen (addAvatarUrl E us) (\<lambda>usersWithAvatars. ret (map visibleUserWithAvatar usersWithAvatars, byCids))))))"

text \<open>The limit is the smaller one of the two, and a missing or zero limit of the request is the configured one.\<close>

definition ConversationSearch_perform :: "env \<Rightarrow> socket \<Rightarrow> string \<Rightarrow> timestamp option \<Rightarrow> nat option \<Rightarrow> oid list handler" where
  "ConversationSearch_perform E ws name updated_at_gt lim =
     andThen (sessionOf ws) (\<lambda>s.
     andThen (ConversationRepo_search E (s_organizationId s) name [] updated_at_gt
        (min (case lim of None \<Rightarrow> cfg_searchLimit E | Some n \<Rightarrow> if n = 0 then cfg_searchLimit E else n) (cfg_searchLimit E))) (\<lambda>cs.
       ret (map c_id cs)))"

section \<open>Scripts of conversations\<close>

definition ConversationHandlerCreate_perform :: "env \<Rightarrow> socket \<Rightarrow> oid \<Rightarrow> string \<Rightarrow> unit handler" where
  "ConversationHandlerCreate_perform E ws cid content =
     andThen (sessionOf ws) (\<lambda>s.
     andThen (validateAccessToConversation E (s_organizationId s) cid (s_userId s)) (\<lambda>_.
     andThen (gets (\<lambda>w. getHandlerByConversationId E w cid)) (\<lambda>existed. case existed of
         Some _ \<Rightarrow> modify (updateExistedConversationHandler E cid content (s_userId s))
       | None \<Rightarrow> andThen (createHandlerByConversationId E cid content (s_userId s)) (\<lambda>_. ret ()))))"

definition ConversationHandlerDelete_perform :: "env \<Rightarrow> socket \<Rightarrow> oid \<Rightarrow> unit handler" where
  "ConversationHandlerDelete_perform E ws cid =
     andThen (sessionOf ws) (\<lambda>s.
     andThen (validateAccessToConversation E (s_organizationId s) cid (s_userId s)) (\<lambda>_.
     andThen (gets (\<lambda>w. getHandlerByConversationId E w cid)) (\<lambda>existed. case existed of
         None \<Rightarrow> throw (Status HANDLER_NOT_FOUND)
       | Some h \<Rightarrow> modify (deleteConversationHandler E (ch_id h)))))"

definition ConversationHandlerGet_perform :: "env \<Rightarrow> socket \<Rightarrow> oid \<Rightarrow> (string \<times> oid \<times> timestamp) handler" where
  "ConversationHandlerGet_perform E ws cid =
     andThen (sessionOf ws) (\<lambda>s.
     andThen (validateAccessToConversation E (s_organizationId s) cid (s_userId s)) (\<lambda>_.
     andThen (gets (\<lambda>w. getHandlerByConversationId E w cid)) (\<lambda>found. case found of
         None \<Rightarrow> throw (Status HANDLER_NOT_FOUND)
       | Some h \<Rightarrow> ret (ch_content h, ch_updated_by h, ch_updated_at h))))"

end
