(* ===== verification/Push.thy ===== *)
theory Push
  imports BlockList
begin

text \<open>
  What a user who is offline gets: the operation log (\<^verbatim>\<open>services/operation_logs\<close>, the packets stored for a later
  \<open>op_log_list\<close>) and push notifications (\<^verbatim>\<open>services/push_notifications\<close>, \<^verbatim>\<open>services/push_queue_service\<close> and their operations). The
  queue of the \<open>bull\<close> library is the list of its jobs, in the order they were added.
\<close>

section \<open>Operation log\<close>

definition savePacket :: "env \<Rightarrow> oid \<Rightarrow> string \<Rightarrow> op_log handler" where
  "savePacket E user_id packet = insertInto (mg_operations_log E) operations_log operations_log_update (\<lambda>now i.
     \<lparr>ol_id = i, ol_user_id = user_id, ol_packet = packet, ol_created_at = now, ol_updated_at = now\<rparr>)"

text \<open>\<open>created_at\<close> of the request: \<open>gt\<close> when it is given and not zero, otherwise \<open>lt\<close>.\<close>

datatype created_at = CreatedGt timestamp | CreatedLt timestamp

fun createdIn :: "created_at \<Rightarrow> timestamp \<Rightarrow> bool" where
  "createdIn (CreatedGt t) c \<longleftrightarrow> t < c"
| "createdIn (CreatedLt t) c \<longleftrightarrow> c < t"

definition OpLogs_list :: "env \<Rightarrow> world \<Rightarrow> oid \<Rightarrow> created_at \<Rightarrow> op_log list" where
  "OpLogs_list E w userId createdAt =
     findAll (mg_operations_log E) (\<lambda>l. ol_user_id l = userId \<and> createdIn createdAt (ol_created_at l)) None None (operations_log w)"

definition OpLogsList_perform :: "env \<Rightarrow> socket \<Rightarrow> created_at \<Rightarrow> op_log list handler" where
  "OpLogsList_perform E ws createdAt =
     andThen (sessionOf ws) (\<lambda>s. gets (\<lambda>w. OpLogs_list E w (s_userId s) createdAt))"

section \<open>Base64 of \<open>Buffer\<close>\<close>

definition base64Alphabet :: string where
  "base64Alphabet = ''ABCDEFGHIJKLMNOPQRSTUVWXYZabcdefghijklmnopqrstuvwxyz0123456789+/''"

definition base64Char :: "nat \<Rightarrow> char" where
  "base64Char n = base64Alphabet ! (n mod 64)"

fun base64 :: "string \<Rightarrow> string" where
  "base64 [] = []"
| "base64 [a] = (let n = of_char a * 16 in [base64Char (n div 64), base64Char n, CHR ''='', CHR ''=''])"
| "base64 [a, b] = (let n = (of_char a * 256 + of_char b) * 4
     in [base64Char (n div 4096), base64Char (n div 64), base64Char n, CHR ''=''])"
| "base64 (a # b # c # rest) = (let n = of_char a * 65536 + of_char b * 256 + of_char c
     in [base64Char (n div 262144), base64Char (n div 4096), base64Char (n div 64), base64Char n] @ base64 rest)"

section \<open>Push subscriptions\<close>

record subscription_params =
  sp_platform :: string
  sp_web_endpoint :: "string option"
  sp_web_key_auth :: "string option"
  sp_web_key_p256dh :: "string option"
  sp_device_token :: "string option"

text \<open>The update writes the fields that are present.\<close>

definition orOld :: "'a option \<Rightarrow> 'a option \<Rightarrow> 'a option" where
  "orOld new old = (case new of None \<Rightarrow> old | Some _ \<Rightarrow> new)"

definition findUserSubscription :: "env \<Rightarrow> world \<Rightarrow> oid \<Rightarrow> string \<Rightarrow> push_subscription option" where
  "findUserSubscription E w userId deviceId =
     findOne (mg_push_subscriptions E) (\<lambda>s. ps_user_id s = userId \<and> ps_device_udid s = deviceId) (push_subscriptions w)"

definition findAndUpdate :: "env \<Rightarrow> oid \<Rightarrow> string \<Rightarrow> oid \<Rightarrow> subscription_params \<Rightarrow> push_subscription option handler" where
  "findAndUpdate E userId deviceId organizationId p = transact (\<lambda>w.
     let (s, ss) = findOneAndUpdate (mg_push_subscriptions E) (\<lambda>s. ps_user_id s = userId \<and> ps_device_udid s = deviceId)
           (\<lambda>s. s\<lparr>ps_organization_id := organizationId, ps_platform := sp_platform p,
              ps_web_endpoint := orOld (sp_web_endpoint p) (ps_web_endpoint s),
              ps_web_key_auth := orOld (sp_web_key_auth p) (ps_web_key_auth s),
              ps_web_key_p256dh := orOld (sp_web_key_p256dh p) (ps_web_key_p256dh s),
              ps_device_token := orOld (sp_device_token p) (ps_device_token s)\<rparr>) (push_subscriptions w)
     in (s, w\<lparr>push_subscriptions := ss\<rparr>))"

definition upsertSubscription :: "env \<Rightarrow> oid \<Rightarrow> string \<Rightarrow> oid \<Rightarrow> subscription_params \<Rightarrow> push_subscription handler" where
  "upsertSubscription E userId deviceId organizationId p =
     andThen (findAndUpdate E userId deviceId organizationId p) (\<lambda>subscription. case subscription of
       Some s \<Rightarrow> ret s
     | None \<Rightarrow> insertInto (mg_push_subscriptions E) push_subscriptions push_subscriptions_update (\<lambda>now i.
         \<lparr>ps_id = i, ps_organization_id = organizationId, ps_user_id = userId, ps_device_udid = deviceId,
          ps_platform = sp_platform p, ps_web_endpoint = sp_web_endpoint p, ps_web_key_auth = sp_web_key_auth p,
          ps_web_key_p256dh = sp_web_key_p256dh p, ps_device_token = sp_device_token p,
          ps_created_at = now, ps_updated_at = now\<rparr>))"

definition listSubscriptions :: "env \<Rightarrow> world \<Rightarrow> oid \<Rightarrow> push_subscription list" where
  "listSubscriptions E w userId = findAll (mg_push_subscriptions E) (\<lambda>s. ps_user_id s = userId) None None (push_subscriptions w)"

definition findAndDeleteSubscription :: "env \<Rightarrow> oid \<Rightarrow> string \<Rightarrow> push_subscription option handler" where
  "findAndDeleteSubscription E userId deviceId = transact (\<lambda>w.
     case findUserSubscription E w userId deviceId of
       None \<Rightarrow> (None, w)
     | Some s \<Rightarrow> (Some s, w\<lparr>push_subscriptions := deleteById ps_id (mg_push_subscriptions E) (ps_id s) (push_subscriptions w)\<rparr>))"

definition PushSubscriptionCreate_perform :: "env \<Rightarrow> socket \<Rightarrow> string \<Rightarrow> subscription_params \<Rightarrow> push_subscription handler" where
  "PushSubscriptionCreate_perform E ws device_udid p =
     andThen (sessionOf ws) (\<lambda>s. upsertSubscription E (s_userId s) device_udid (s_organizationId s) p)"

definition PushSubscriptionDelete_perform :: "env \<Rightarrow> socket \<Rightarrow> string \<Rightarrow> unit handler" where
  "PushSubscriptionDelete_perform E ws device_udid =
     andThen (sessionOf ws) (\<lambda>s. andThen (findAndDeleteSubscription E (s_userId s) device_udid) (\<lambda>subscription.
       if subscription = None then throw (Status NOTIFICATION_NOT_FOUND) else ret ()))"

definition PushSubscriptionList_perform :: "env \<Rightarrow> socket \<Rightarrow> push_subscription list handler" where
  "PushSubscriptionList_perform E ws = andThen (sessionOf ws) (\<lambda>s. gets (\<lambda>w. listSubscriptions E w (s_userId s)))"

section \<open>The push queue\<close>

text \<open>The options a push is created with: its sender, its payload as JSON text, its recipients.\<close>

datatype push_options =
    CreateChatAlertEventOptions oid string "oid list"
  | CreatePushEventOptions oid string "oid list"

fun setRecipientIds :: "oid list \<Rightarrow> push_options \<Rightarrow> push_options" where
  "setRecipientIds recipients (CreateChatAlertEventOptions s p _) = CreateChatAlertEventOptions s p recipients"
| "setRecipientIds recipients (CreatePushEventOptions s p _) = CreatePushEventOptions s p recipients"

definition buildPushEvent :: "env \<Rightarrow> oid \<Rightarrow> string \<Rightarrow> oid list \<Rightarrow> push_event handler" where
  "buildPushEvent E user_id payload user_ids = insertInto (mg_push_events E) push_events push_events_update (\<lambda>now i.
     \<lparr>pe_id = i, pe_user_id = user_id, pe_user_ids = user_ids, pe_message = base64 payload, pe_created_at = now, pe_updated_at = now\<rparr>)"

definition addToQueue :: "env \<Rightarrow> push_event \<Rightarrow> unit handler" where
  "addToQueue E pushEvent = modify (\<lambda>w.
     let devices = concat (map (listSubscriptions E w) (pe_user_ids pushEvent))
     in if devices = [] then w else w\<lparr>pushQueue := pushQueue w @ [(devices, pe_message pushEvent)]\<rparr>)"

definition createPushEvent :: "env \<Rightarrow> oid \<Rightarrow> string \<Rightarrow> oid list \<Rightarrow> push_event handler" where
  "createPushEvent E user_id payload user_ids =
     andThen (buildPushEvent E user_id payload user_ids) (\<lambda>pushEvent.
       andThen (addToQueue E pushEvent) (\<lambda>_. ret pushEvent))"

fun createPush :: "env \<Rightarrow> push_options \<Rightarrow> push_event handler" where
  "createPush E (CreateChatAlertEventOptions senderID payload offlineUsersIDs) = createPushEvent E senderID payload offlineUsersIDs"
| "createPush E (CreatePushEventOptions user_id payload user_ids) = createPushEvent E user_id payload user_ids"

definition PushEventCreate_perform :: "env \<Rightarrow> socket \<Rightarrow> oid list \<Rightarrow> string \<Rightarrow> push_event handler" where
  "PushEventCreate_perform E ws recipients_ids message =
     andThen (sessionOf ws) (\<lambda>s.
     andThen (gets (\<lambda>w. retrieveExistedIds E w (s_organizationId s) recipients_ids)) (\<lambda>recipients.
       if recipients = [] then throw (Status RECIPIENTS_NOT_FOUND)
       else createPushEvent E (s_userId s) message recipients))"

end
