(* ===== verification/Networking.thy ===== *)
theory Networking
  imports Push
begin

text \<open>
  The values that a request hands to the network layer (\<^verbatim>\<open>app/networking/models\<close>): a \<open>Response\<close> with the packages for
  the socket that asked and the \<open>DeliverMessage\<close>s for other users; and the translation of a packet between the
  protocols of sender and recipient (\<^verbatim>\<open>app/networking/packet_mapper.js\<close>, \<^verbatim>\<open>APIs.js\<close>, \<^verbatim>\<open>app/common/API.js\<close>). Packages are the
  texts that are sent. The XMPP API is a separate repository: its functions are parameters, and a node may run without it.
\<close>

section \<open>Responses\<close>

record deliver_message =
  dm_socket :: "socket option"
  dm_orgId :: oid
  dm_userIds :: "oid list"
  dm_ignoreSelf :: bool
  dm_cId :: "oid option"
  dm_exceptUserIds :: "oid list"
  dm_packet :: string
  dm_notSaveInOfflineStorage :: bool
  dm_pushQueueMessage :: "push_options option"

definition DeliverMessage :: "oid \<Rightarrow> string \<Rightarrow> bool \<Rightarrow> deliver_message" where
  "DeliverMessage orgId packet notSaveInOfflineStorage =
     \<lparr>dm_socket = None, dm_orgId = orgId, dm_userIds = [], dm_ignoreSelf = True, dm_cId = None, dm_exceptUserIds = [],
      dm_packet = packet, dm_notSaveInOfflineStorage = notSaveInOfflineStorage, dm_pushQueueMessage = None\<rparr>"

definition setIgnoreSelf :: "bool \<Rightarrow> deliver_message \<Rightarrow> deliver_message" where
  "setIgnoreSelf isIgnore m = m\<lparr>dm_ignoreSelf := isIgnore\<rparr>"

text \<open>An absent list of users has no length, like the empty list.\<close>

definition setUsersDestination :: "oid list \<Rightarrow> oid list option \<Rightarrow> deliver_message \<Rightarrow> deliver_message" where
  "setUsersDestination userIds exceptUserIds m =
     m\<lparr>dm_userIds := userIds, dm_exceptUserIds := (case exceptUserIds of None \<Rightarrow> dm_exceptUserIds m | Some us \<Rightarrow> us)\<rparr>"

definition setConversationDestination :: "oid option \<Rightarrow> oid list option \<Rightarrow> deliver_message \<Rightarrow> deliver_message" where
  "setConversationDestination cId exceptUserIds m =
     m\<lparr>dm_cId := cId, dm_exceptUserIds := (case exceptUserIds of None \<Rightarrow> dm_exceptUserIds m | Some us \<Rightarrow> us)\<rparr>"

definition addPushQueueMessage :: "push_options option \<Rightarrow> deliver_message \<Rightarrow> deliver_message" where
  "addPushQueueMessage push m = m\<lparr>dm_pushQueueMessage := push\<rparr>"

datatype activity_status = ONLINE | OFFLINE

record last_activity =
  la_orgId :: "oid option"
  la_userId :: "oid option"
  la_status :: activity_status

record response =
  rp_backMessages :: "string list"
  rp_deliverMessages :: "deliver_message list"
  rp_lastActivityStatusResponse :: "last_activity option"
  rp_closeSocket :: bool
  rp_upgradeTls :: bool

definition Response :: response where
  "Response = \<lparr>rp_backMessages = [], rp_deliverMessages = [], rp_lastActivityStatusResponse = None,
     rp_closeSocket = False, rp_upgradeTls = False\<rparr>"

definition Response_merge :: "response \<Rightarrow> response \<Rightarrow> response" where
  "Response_merge other r =
     r\<lparr>rp_backMessages := rp_backMessages r @ rp_backMessages other,
       rp_deliverMessages := rp_deliverMessages r @ rp_deliverMessages other,
       rp_lastActivityStatusResponse := (case rp_lastActivityStatusResponse other of
          None \<Rightarrow> rp_lastActivityStatusResponse r | Some a \<Rightarrow> Some a)\<rparr>"

definition addBackMessage :: "string list \<Rightarrow> response \<Rightarrow> response" where
  "addBackMessage ms r = r\<lparr>rp_backMessages := rp_backMessages r @ ms\<rparr>"

definition addDeliverMessage :: "deliver_message list \<Rightarrow> response \<Rightarrow> response" where
  "addDeliverMessage ms r = r\<lparr>rp_deliverMessages := rp_deliverMessages r @ ms\<rparr>"

definition updateLastActivityStatus :: "last_activity \<Rightarrow> response \<Rightarrow> response" where
  "updateLastActivityStatus statusResponse r = r\<lparr>rp_lastActivityStatusResponse := Some statusResponse\<rparr>"

definition setCloseSocket :: "bool \<Rightarrow> response \<Rightarrow> response" where
  "setCloseSocket needToClose r = r\<lparr>rp_closeSocket := needToClose\<rparr>"

definition setUpgradeTls :: "bool \<Rightarrow> response \<Rightarrow> response" where
  "setUpgradeTls needUpgrade r = r\<lparr>rp_upgradeTls := needUpgrade\<rparr>"

section \<open>Translating packets\<close>

text \<open>A text is JSON if \<open>JSON.parse\<close> reads it. The first of the node's APIs that recognises the text is taken.\<close>

definition detectJsonMessage :: "env \<Rightarrow> string \<Rightarrow> bool" where
  "detectJsonMessage E message = (jsonParse E message \<noteq> None)"

definition detectAPIType :: "env \<Rightarrow> string \<Rightarrow> api_type option" where
  "detectAPIType E packet =
     (if detectJsonMessage E packet then Some JSON
      else if cfg_useXMPP E \<and> detectXmpp E packet then Some XMPP else None)"

definition PacketMapper_detectAPIType :: "env \<Rightarrow> string \<Rightarrow> api_type" where
  "PacketMapper_detectAPIType E packet = (case detectAPIType E packet of None \<Rightarrow> JSON | Some a \<Rightarrow> a)"

text \<open>
  \<open>None\<close> is the error of a call on an API the node does not run. A single packet is wrapped in a list as the caller does; an empty packet is
  falsy and gives no message.
\<close>

definition mapPacket :: "env \<Rightarrow> api_type option \<Rightarrow> api_type option \<Rightarrow> string \<Rightarrow> sender_info \<Rightarrow> recipient_info \<Rightarrow> string list option" where
  "mapPacket E source destination packet senderInfo recipientInfo =
     (let sourceAPIType = (case source of None \<Rightarrow> PacketMapper_detectAPIType E packet | Some a \<Rightarrow> a);
          destinationAPIType = (case destination of None \<Rightarrow> JSON | Some a \<Rightarrow> a)
      in if sourceAPIType = destinationAPIType then Some (if packet = [] then [] else [packet])
         else if \<not> cfg_useXMPP E then None
         else if sourceAPIType = JSON then Some (xmppFromJson E senderInfo recipientInfo packet)
         else Some (xmppToJson E senderInfo recipientInfo packet))"

definition mapRecipientPacket :: "env \<Rightarrow> api_type option \<Rightarrow> string \<Rightarrow> sender_info \<Rightarrow> recipient_info \<Rightarrow> string option" where
  "mapRecipientPacket E destination packet senderInfo recipientInfo =
     (case (case destination of None \<Rightarrow> PacketMapper_detectAPIType E packet | Some a \<Rightarrow> a) of
        JSON \<Rightarrow> Some packet
      | XMPP \<Rightarrow> if cfg_useXMPP E then Some (xmppRecipient E senderInfo recipientInfo packet) else None)"

section \<open>Last activity packages\<close>

definition quoted :: "string \<Rightarrow> string" where
  "quoted s = [CHR 0x22] @ s @ [CHR 0x22]"

definition buildLastActivityPackage :: "oid \<Rightarrow> activity_status \<Rightarrow> nat \<Rightarrow> string" where
  "buildLastActivityPackage targetUserId status timestamp =
     ''{'' @ quoted ''last_activity'' @ '':{'' @ quoted targetUserId @ '':''
       @ decimal (if status = ONLINE then 0 else timestamp) @ ''}}''"

end
