(* ===== verification/Contacts.thy ===== *)
theory Contacts
  imports BlockList
begin

text \<open>
  The contact book: \<open>ContactRepository\<close>, \<open>ContactService\<close> and the operations of \<^verbatim>\<open>app/providers/operations/contact\<close>. A contact holds lists of
  email and phone values, each marked with the user of the organization it belongs to (\<open>matched_user_id\<close>); the marks are set when a contact
  is written and kept up to date when a user registers, changes or deletes the account.
\<close>

section \<open>Repository\<close>

text \<open>
  A query for \<open>phone.value: phone\<close> asks for an element of the list with that value. A missing value is
  sent as \<open>null\<close>, which matches a contact where no value is stored.
\<close>

definition valueMatches :: "string option \<Rightarrow> contact_value list option \<Rightarrow> bool" where
  "valueMatches v vs = (case v of
      Some _ \<Rightarrow> (\<exists>x \<in> set (case vs of None \<Rightarrow> [] | Some xs \<Rightarrow> xs). cval_value x = v)
    | None \<Rightarrow> (case vs of None \<Rightarrow> True | Some xs \<Rightarrow> xs = [] \<or> (\<exists>x \<in> set xs. cval_value x = None)))"

definition truthyStr :: "string option \<Rightarrow> bool" where
  "truthyStr s \<longleftrightarrow> s \<noteq> None \<and> s \<noteq> Some []"

text \<open>The phone is asked for when an email is given and the email when a phone is given.\<close>

definition findByEmailPhone :: "env \<Rightarrow> world \<Rightarrow> oid \<Rightarrow> string option \<Rightarrow> string option \<Rightarrow> contact list" where
  "findByEmailPhone E w organizationId email phone =
     findAll (mg_contacts E) (\<lambda>c. ct_organization_id c = organizationId
         \<and> ((truthyStr email \<and> valueMatches phone (ct_phone c)) \<or> (truthyStr phone \<and> valueMatches email (ct_email c))))
       None (Some (\<lambda>a b. ct_id b \<le> ct_id a)) (contacts w)"

definition findAllUserContacts :: "env \<Rightarrow> world \<Rightarrow> oid \<Rightarrow> timestamp option \<Rightarrow> nat option \<Rightarrow> contact list" where
  "findAllUserContacts E w ownerId updated_at lim =
     findAll (mg_contacts E) (\<lambda>c. ct_user_id c = ownerId \<and> (case updated_at of None \<Rightarrow> True | Some t \<Rightarrow> t < ct_updated_at c))
       lim (Some (\<lambda>a b. ct_id b \<le> ct_id a)) (contacts w)"

definition deleteUserContact :: "env \<Rightarrow> oid \<Rightarrow> oid \<Rightarrow> world \<Rightarrow> world" where
  "deleteUserContact E ownerId contactId w =
     w\<lparr>contacts := snd (deleteMany (mg_contacts E) (\<lambda>c. ct_id c = contactId \<and> ct_user_id c = ownerId) (contacts w))\<rparr>"

text \<open>The parameters of a contact: the fields a request gives, also used as an update of the fields that are present.\<close>

record contact_params =
  cd_first_name :: "string option"
  cd_last_name :: "string option"
  cd_company :: "string option"
  cd_email :: "contact_value list option"
  cd_phone :: "contact_value list option"

definition orKeep :: "'a option \<Rightarrow> 'a option \<Rightarrow> 'a option" where
  "orKeep new old = (case new of None \<Rightarrow> old | Some _ \<Rightarrow> new)"

definition setContact :: "contact_params \<Rightarrow> contact \<Rightarrow> contact" where
  "setContact p c = c\<lparr>ct_first_name := orKeep (cd_first_name p) (ct_first_name c), ct_last_name := orKeep (cd_last_name p) (ct_last_name c),
     ct_company := orKeep (cd_company p) (ct_company c), ct_email := orKeep (cd_email p) (ct_email c), ct_phone := orKeep (cd_phone p) (ct_phone c)\<rparr>"

definition findByIdAndUpdate :: "env \<Rightarrow> oid \<Rightarrow> oid \<Rightarrow> contact_params \<Rightarrow> contact option handler" where
  "findByIdAndUpdate E userId contactId updateParams = transact (\<lambda>w.
     let (c, cs) = findOneAndUpdate (mg_contacts E) (\<lambda>c. ct_id c = contactId \<and> ct_user_id c = userId) (setContact updateParams) (contacts w)
     in (c, w\<lparr>contacts := cs\<rparr>))"

definition matchUserContact :: "env \<Rightarrow> world \<Rightarrow> oid \<Rightarrow> string option list \<Rightarrow> string option list \<Rightarrow> user list" where
  "matchUserContact E w organizationId emails phones =
     findAll (mg_users E) (\<lambda>u. u_organization_id u = organizationId
       \<and> ((emails \<noteq> [] \<and> u_email u \<in> set emails) \<or> (phones \<noteq> [] \<and> u_phone u \<in> set phones))) None None (users w)"

section \<open>Service\<close>

text \<open>A property name: a missing value reads and writes the property \<open>undefined\<close>.\<close>

definition propName :: "string option \<Rightarrow> string" where
  "propName v = (case v of None \<Rightarrow> ''undefined'' | Some s \<Rightarrow> s)"

definition markMatches :: "(user \<Rightarrow> string option) \<Rightarrow> user list \<Rightarrow> contact_value list \<Rightarrow> contact_value list" where
  "markMatches field found vs =
     (let foundUsersObj = fold (\<lambda>u m. m(propName (field u) \<mapsto> u_id u)) found Map.empty
      in map (\<lambda>x. case foundUsersObj (propName (cval_value x)) of None \<Rightarrow> x | Some i \<Rightarrow> x\<lparr>cval_matched_user_id := Some i\<rparr>) vs)"

text \<open>An \<open>$or\<close> without alternatives is an error of MongoDB.\<close>

definition matchContactWithUser :: "env \<Rightarrow> oid \<Rightarrow> contact_params \<Rightarrow> contact_params handler" where
  "matchContactWithUser E organizationId p =
     (let values = (\<lambda>vs. case vs of None \<Rightarrow> [] | Some xs \<Rightarrow> map cval_value xs);
          emails = values (cd_email p); phones = values (cd_phone p)
      in if cd_email p = None \<and> cd_phone p = None then ret p
         else if emails = [] \<and> phones = [] then throw (PlainError ''$or/$and/$nor entries need to be non-empty'')
         else andThen (gets (\<lambda>w. matchUserContact E w organizationId emails phones)) (\<lambda>found.
           ret (p\<lparr>cd_email := map_option (markMatches u_email found) (cd_email p),
                  cd_phone := map_option (markMatches u_phone found) (cd_phone p)\<rparr>)))"

definition Contact_create :: "env \<Rightarrow> oid \<Rightarrow> oid \<Rightarrow> contact_params \<Rightarrow> contact handler" where
  "Contact_create E organizationId userId p = insertInto (mg_contacts E) contacts contacts_update (\<lambda>now i.
     \<lparr>ct_id = i, ct_organization_id = organizationId, ct_user_id = userId, ct_first_name = cd_first_name p, ct_last_name = cd_last_name p,
      ct_company = cd_company p, ct_email = cd_email p, ct_phone = cd_phone p, ct_created_at = now, ct_updated_at = now\<rparr>)"

definition updateFieldOnCreate :: "oid \<Rightarrow> string option \<Rightarrow> contact_value list \<Rightarrow> contact_value list" where
  "updateFieldOnCreate userId v data = map (\<lambda>el. if cval_value el = v then el\<lparr>cval_matched_user_id := Some userId\<rparr> else el) data"

definition updateFieldOnUpdate :: "oid \<Rightarrow> string option \<Rightarrow> string option \<Rightarrow> contact_value list \<Rightarrow> contact_value list" where
  "updateFieldOnUpdate userId v oldV data =
     map (\<lambda>el. let el1 = (if cval_value el = oldV then el\<lparr>cval_value := v\<rparr> else el)
               in if cval_value el1 = v then el1\<lparr>cval_matched_user_id := Some userId\<rparr> else el1) data"

definition updateFieldOnDelete :: "string option \<Rightarrow> contact_value list \<Rightarrow> contact_value list" where
  "updateFieldOnDelete v data = map (\<lambda>el. if cval_value el = v then el\<lparr>cval_matched_user_id := None\<rparr> else el) data"

text \<open>The loop the three matchings share: contacts without an email or a phone list are skipped, the lists of the others are rewritten.\<close>

definition rewriteContacts ::
  "env \<Rightarrow> (contact_value list \<Rightarrow> contact_value list option) \<Rightarrow> (contact_value list \<Rightarrow> contact_value list option) \<Rightarrow> contact list \<Rightarrow> unit handler" where
  "rewriteContacts E onEmail onPhone cs =
     andThen (forEach cs (\<lambda>c. case (ct_email c, ct_phone c) of
         (Some es, Some ps) \<Rightarrow> andThen (findByIdAndUpdate E (ct_user_id c) (ct_id c)
             \<lparr>cd_first_name = None, cd_last_name = None, cd_company = None, cd_email = onEmail es, cd_phone = onPhone ps\<rparr>) (\<lambda>_. ret ())
       | _ \<Rightarrow> ret ())) (\<lambda>_. ret ())"

definition matchUserWithContactOnCreate :: "env \<Rightarrow> oid \<Rightarrow> oid \<Rightarrow> string option \<Rightarrow> string option \<Rightarrow> unit handler" where
  "matchUserWithContactOnCreate E organizationId userId phone email =
     (if \<not> (truthyStr email \<and> truthyStr phone) then ret ()
      else andThen (gets (\<lambda>w. findByEmailPhone E w organizationId email phone))
        (rewriteContacts E (\<lambda>es. Some (updateFieldOnCreate userId email es)) (\<lambda>ps. Some (updateFieldOnCreate userId phone ps))))"

definition matchUserWithContactOnUpdate ::
  "env \<Rightarrow> oid \<Rightarrow> oid \<Rightarrow> string option \<Rightarrow> string option \<Rightarrow> string option \<Rightarrow> string option \<Rightarrow> unit handler" where
  "matchUserWithContactOnUpdate E organizationId userId phone email oldPhone oldEmail =
     (if \<not> ((truthyStr email \<and> truthyStr oldEmail) \<or> (truthyStr phone \<and> truthyStr oldPhone)) then ret ()
      else andThen (gets (\<lambda>w. findByEmailPhone E w organizationId email phone))
        (rewriteContacts E (\<lambda>es. if truthyStr email then Some (updateFieldOnUpdate userId email oldEmail es) else None)
           (\<lambda>ps. if truthyStr phone then Some (updateFieldOnUpdate userId phone oldPhone ps) else None)))"

definition matchUserWithContactOnDelete :: "env \<Rightarrow> oid \<Rightarrow> oid \<Rightarrow> string option \<Rightarrow> string option \<Rightarrow> unit handler" where
  "matchUserWithContactOnDelete E organizationId userId phone email =
     (if \<not> (truthyStr email \<and> truthyStr phone) then ret ()
      else andThen (gets (\<lambda>w. findByEmailPhone E w organizationId email phone))
        (rewriteContacts E (\<lambda>es. Some (updateFieldOnDelete email es)) (\<lambda>ps. Some (updateFieldOnDelete phone ps))))"

section \<open>Operations\<close>

definition singleAdd :: "env \<Rightarrow> oid \<Rightarrow> oid \<Rightarrow> contact_params \<Rightarrow> contact handler" where
  "singleAdd E organizationId currentUserId contactData =
     andThen (matchContactWithUser E organizationId contactData) (Contact_create E organizationId currentUserId)"

definition batchAdd :: "env \<Rightarrow> oid \<Rightarrow> oid \<Rightarrow> contact_params list \<Rightarrow> contact list handler" where
  "batchAdd E organizationId currentUserId contactsData =
     forEach (filter (\<lambda>p. cd_email p \<noteq> None \<and> cd_phone p \<noteq> None) contactsData) (singleAdd E organizationId currentUserId)"

definition ContactAdd_perform :: "env \<Rightarrow> socket \<Rightarrow> contact_params \<Rightarrow> contact handler" where
  "ContactAdd_perform E ws contactData = andThen (sessionOf ws) (\<lambda>s. singleAdd E (s_organizationId s) (s_userId s) contactData)"

definition ContactBatchAdd_perform :: "env \<Rightarrow> socket \<Rightarrow> contact_params list \<Rightarrow> contact list handler" where
  "ContactBatchAdd_perform E ws contactsData = andThen (sessionOf ws) (\<lambda>s. batchAdd E (s_organizationId s) (s_userId s) contactsData)"

definition ContactEdit_perform :: "env \<Rightarrow> socket \<Rightarrow> oid \<Rightarrow> contact_params \<Rightarrow> contact handler" where
  "ContactEdit_perform E ws contactId contactUpdate =
     andThen (sessionOf ws) (\<lambda>s.
     andThen (matchContactWithUser E (s_organizationId s) contactUpdate) (\<lambda>update.
     andThen (findByIdAndUpdate E (s_userId s) contactId update) (\<lambda>updatedContact. case updatedContact of
       None \<Rightarrow> throw (Status CONTACT_NOT_FOUND) | Some c \<Rightarrow> ret c)))"

definition ContactList_perform :: "env \<Rightarrow> socket \<Rightarrow> timestamp option \<Rightarrow> nat option \<Rightarrow> contact list handler" where
  "ContactList_perform E ws updated_at lim =
     andThen (sessionOf ws) (\<lambda>s. gets (\<lambda>w. findAllUserContacts E w (s_userId s) updated_at lim))"

text \<open>Without a session the owner is \<open>undefined\<close>, which owns no contact.\<close>

definition ContactDelete_perform :: "env \<Rightarrow> socket \<Rightarrow> oid \<Rightarrow> unit handler" where
  "ContactDelete_perform E ws contactId = modify (\<lambda>w. case getSessionUserId w ws of
     None \<Rightarrow> w | Some u \<Rightarrow> deleteUserContact E u contactId w)"

end
