(* ===== verification/Encryption.thy ===== *)
theory Encryption
  imports BlockList
begin

text \<open>
  The keys of end-to-end encryption: \<open>EncryptionRepository\<close>, \<open>EncryptionService\<close> and the operations of
  \<^verbatim>\<open>app/providers/operations/encryption\<close>. A device registers an identity key, a signed key and up to 100 one-time keys; whoever wants to write to a
  user gets the first one-time key of each device, which is then removed.
\<close>

section \<open>Repository and service\<close>

record device_params =
  dp_identity_key :: string
  dp_signed_key :: string
  dp_one_time_pre_keys :: one_time_keys

definition findByDeviceId :: "env \<Rightarrow> world \<Rightarrow> string option \<Rightarrow> encrypted_device option" where
  "findByDeviceId E w device_id = findOne (mg_encrypted_devices E) (\<lambda>d. Some (ed_device_id d) = device_id) (encrypted_devices w)"

definition Encryption_update :: "env \<Rightarrow> oid \<Rightarrow> oid \<Rightarrow> device_params \<Rightarrow> encrypted_device option handler" where
  "Encryption_update E recordId user_id p = transact (\<lambda>w.
     let (d, ds) = findOneAndUpdate (mg_encrypted_devices E) (\<lambda>d. ed_id d = recordId)
           (\<lambda>d. d\<lparr>ed_user_id := user_id, ed_identity_key := dp_identity_key p, ed_signed_key := dp_signed_key p,
              ed_one_time_pre_keys := dp_one_time_pre_keys p\<rparr>) (encrypted_devices w)
     in (d, w\<lparr>encrypted_devices := ds\<rparr>))"

definition getAllUserDevices :: "env \<Rightarrow> world \<Rightarrow> oid \<Rightarrow> encrypted_device list" where
  "getAllUserDevices E w user_id = findAll (mg_encrypted_devices E) (\<lambda>d. ed_user_id d = user_id) None None (encrypted_devices w)"

text \<open>\<open>Object.values(keys)[0]\<close> and \<open>Object.keys(keys)[0]\<close>.\<close>

fun firstValue :: "one_time_keys \<Rightarrow> string option" where
  "firstValue (KeyObject []) = None"
| "firstValue (KeyObject ((k, v) # _)) = Some v"
| "firstValue (KeyArray []) = None"
| "firstValue (KeyArray (v # _)) = v"

fun firstKey :: "one_time_keys \<Rightarrow> string" where
  "firstKey (KeyObject ((k, _) # _)) = k"
| "firstKey (KeyArray (_ # _)) = ''0''"
| "firstKey _ = ''undefined''"

text \<open>
  \<open>$unset\<close> of \<open>one_time_pre_keys.<key>\<close>: it removes the property of an object, sets the element of an array to \<open>null\<close>, and reads a key
  with a dot as a nested path, which does not exist.
\<close>

fun unsetKey :: "string \<Rightarrow> one_time_keys \<Rightarrow> one_time_keys" where
  "unsetKey k (KeyObject kvs) = KeyObject (if CHR ''.'' \<in> set k then kvs else filter (\<lambda>(l, _). l \<noteq> k) kvs)"
| "unsetKey k (KeyArray vs) = KeyArray (if k = ''0'' \<and> vs \<noteq> [] then None # tl vs else vs)"

record device_keys =
  dk_identity_key :: string
  dk_signed_key :: string
  dk_one_time_pre_key :: "string option"

definition deviceKeys :: "encrypted_device \<Rightarrow> device_keys" where
  "deviceKeys d = \<lparr>dk_identity_key = ed_identity_key d, dk_signed_key = ed_signed_key d, dk_one_time_pre_key = firstValue (ed_one_time_pre_keys d)\<rparr>"

text \<open>The aggregation: the devices of the users, grouped by user, the users in descending order of their ids.\<close>

definition getUsersDevices :: "world \<Rightarrow> oid list \<Rightarrow> (oid \<times> device_keys list) list" where
  "getUsersDevices w uids = ord_sort (Some (\<lambda>a b. fst b \<le> fst a))
     (groupBy ed_user_id deviceKeys (filter (\<lambda>d. ed_user_id d \<in> set uids) (encrypted_devices w)))"

definition removeOneKey :: "env \<Rightarrow> encrypted_device \<Rightarrow> world \<Rightarrow> world" where
  "removeOneKey E device w = w\<lparr>encrypted_devices := updateMany (mg_encrypted_devices E) (\<lambda>d. ed_id d = ed_id device)
     (\<lambda>d. d\<lparr>ed_one_time_pre_keys := unsetKey (firstKey (ed_one_time_pre_keys device)) (ed_one_time_pre_keys d)\<rparr>) (encrypted_devices w)\<rparr>"

definition removeFirstOneTimeKey :: "env \<Rightarrow> (oid \<times> device_keys list) list \<Rightarrow> world \<Rightarrow> world" where
  "removeFirstOneTimeKey E devicesByUser w =
     (let devicesIdenityKeys = concat (map (\<lambda>(_, devices). map dk_identity_key devices) devicesByUser);
          devices = findAll (mg_encrypted_devices E) (\<lambda>d. ed_identity_key d \<in> set devicesIdenityKeys) None None (encrypted_devices w)
      in fold (removeOneKey E) devices w)"

section \<open>Operations\<close>

definition EncryptionRegister_perform :: "env \<Rightarrow> socket \<Rightarrow> device_params \<Rightarrow> unit handler" where
  "EncryptionRegister_perform E ws p =
     andThen (sessionOf ws) (\<lambda>s.
     andThen (gets (\<lambda>w. getDeviceId w ws (s_userId s))) (\<lambda>deviceId.
     andThen (gets (\<lambda>w. findByDeviceId E w deviceId)) (\<lambda>existingDevice. case existingDevice of
       Some d \<Rightarrow> andThen (Encryption_update E (ed_id d) (s_userId s) p) (\<lambda>_. ret ())
     | None \<Rightarrow> andThen (gets (\<lambda>w. renderDevice w (s_userId s) deviceId)) (\<lambda>device_id.
         andThen (insertInto (mg_encrypted_devices E) encrypted_devices encrypted_devices_update (\<lambda>now i.
           \<lparr>ed_id = i, ed_user_id = s_userId s, ed_device_id = device_id, ed_identity_key = dp_identity_key p, ed_signed_key = dp_signed_key p,
            ed_one_time_pre_keys = dp_one_time_pre_keys p\<rparr>)) (\<lambda>_. ret ())))))"

definition EncryptionList_perform :: "env \<Rightarrow> socket \<Rightarrow> (string \<times> string \<times> string) list handler" where
  "EncryptionList_perform E ws = gets (\<lambda>w. case getSessionUserId w ws of None \<Rightarrow> []
     | Some userId \<Rightarrow> map (\<lambda>d. (ed_identity_key d, ed_signed_key d, ed_device_id d)) (getAllUserDevices E w userId))"

definition EncryptionDelete_perform :: "env \<Rightarrow> socket \<Rightarrow> string \<Rightarrow> unit handler" where
  "EncryptionDelete_perform E ws device_id =
     andThen (gets (\<lambda>w. findByDeviceId E w (Some device_id))) (\<lambda>device.
     andThen (gets (\<lambda>w. getSessionUserId w ws)) (\<lambda>session. case device of
       None \<Rightarrow> throw (Status FORBIDDEN)
     | Some d \<Rightarrow> (case session of
         None \<Rightarrow> throw TypeError
       | Some userId \<Rightarrow> if ed_user_id d \<noteq> userId then throw (Status FORBIDDEN)
           else modify (\<lambda>w. w\<lparr>encrypted_devices := deleteById ed_id (mg_encrypted_devices E) (ed_id d) (encrypted_devices w)\<rparr>))))"

definition EncryptionRequestKeys_perform :: "env \<Rightarrow> socket \<Rightarrow> oid list \<Rightarrow> (oid \<times> device_keys list) list handler" where
  "EncryptionRequestKeys_perform E ws userIds =
     andThen (sessionOf ws) (\<lambda>s.
     andThen (gets (\<lambda>w. retrieveExistedIds E w (s_organizationId s) userIds)) (\<lambda>existUserIds.
     andThen (gets (\<lambda>w. getUsersDevices w existUserIds)) (\<lambda>deviceList.
     andThen (modify (removeFirstOneTimeKey E deviceList)) (\<lambda>_. ret deviceList))))"

section \<open>A one-time key is handed out once\<close>

definition consumed :: "encrypted_device \<Rightarrow> encrypted_device" where
  "consumed d = d\<lparr>ed_one_time_pre_keys := unsetKey (firstKey (ed_one_time_pre_keys d)) (ed_one_time_pre_keys d)\<rparr>"

lemma consumed_id [simp]: "ed_id (consumed d) = ed_id d" "ed_user_id (consumed d) = ed_user_id d"
    "ed_identity_key (consumed d) = ed_identity_key d" "ed_signed_key (consumed d) = ed_signed_key d"
  by (simp_all add: consumed_def)

lemma removeOneKey_run:
  assumes "mongo_ok E" "distinct (map ed_id (encrypted_devices w))" "d \<in> set (encrypted_devices w)"
  shows "removeOneKey E d w = w\<lparr>encrypted_devices := map (\<lambda>x. if x = d then consumed x else x) (encrypted_devices w)\<rparr>"
proof -
  have one: "x = d" if "x \<in> set (encrypted_devices w)" "ed_id x = ed_id d" for x
    using assms(2,3) that by (auto simp: distinct_map dest: inj_onD)
  have "map (\<lambda>x. if ed_id x = ed_id d then x\<lparr>ed_one_time_pre_keys := unsetKey (firstKey (ed_one_time_pre_keys d)) (ed_one_time_pre_keys x)\<rparr> else x)
      (encrypted_devices w) = map (\<lambda>x. if x = d then consumed x else x) (encrypted_devices w)"
    using one by (intro map_cong refl) (auto simp: consumed_def)
  with assms(1) show ?thesis by (simp add: removeOneKey_def devices_clash_def)
qed

lemma removeKeys_run:
  assumes "mongo_ok E"
  shows "distinct (map ed_id (encrypted_devices w)) \<Longrightarrow> set ds \<subseteq> set (encrypted_devices w) \<Longrightarrow> distinct (map ed_id ds) \<Longrightarrow>
    fold (removeOneKey E) ds w = w\<lparr>encrypted_devices := map (\<lambda>x. if x \<in> set ds then consumed x else x) (encrypted_devices w)\<rparr>"
proof (induction ds arbitrary: w)
  case (Cons d ds)
  let ?step = "\<lambda>x. if x = d then consumed x else x"
  let ?w1 = "w\<lparr>encrypted_devices := map ?step (encrypted_devices w)\<rparr>"
  have "ed_id \<circ> ?step = ed_id" by (rule ext) simp
  with Cons.prems(1) have ids: "distinct (map ed_id (encrypted_devices ?w1))" by simp
  have new: "x \<noteq> d \<and> x \<noteq> consumed d" if "x \<in> set ds" for x using Cons.prems(3) that by (auto simp: image_iff)
  have sub: "set ds \<subseteq> set (encrypted_devices ?w1)"
  proof
    fix x assume x: "x \<in> set ds"
    with Cons.prems(2) new[OF x] have "x \<in> set (encrypted_devices w)" "?step x = x" by auto
    then show "x \<in> set (encrypted_devices ?w1)" using image_eqI[of x ?step x] by simp
  qed
  have "fold (removeOneKey E) ds ?w1 = ?w1\<lparr>encrypted_devices := map (\<lambda>x. if x \<in> set ds then consumed x else x) (encrypted_devices ?w1)\<rparr>"
    using Cons.IH[OF ids sub] Cons.prems(3) by simp
  moreover have "map (\<lambda>x. if x \<in> set ds then consumed x else x) (encrypted_devices ?w1)
      = map (\<lambda>x. if x \<in> set (d # ds) then consumed x else x) (encrypted_devices w)" using new by auto
  ultimately show ?case using removeOneKey_run[OF assms Cons.prems(1), of d] Cons.prems(2) by simp
qed simp

lemma set_ord_sort: "set (ord_sort srt xs) = set xs"
  by (metis mset_ord_sort set_mset_mset)

lemma handed_keys:
  "set (concat (map (\<lambda>(_, devices). map dk_identity_key devices) (getUsersDevices w uids)))
   = ed_identity_key ` {d \<in> set (encrypted_devices w). ed_user_id d \<in> set uids}"
  by (auto simp: getUsersDevices_def set_ord_sort groupBy_def deviceKeys_def image_iff)

text \<open>\<open>offers w ids ks\<close>: \<open>ks\<close> lists, for every device of the users \<open>ids\<close>, its keys with the first of its one-time keys.\<close>

definition offers :: "world \<Rightarrow> oid set \<Rightarrow> (oid \<times> device_keys list) list \<Rightarrow> bool" where
  "offers w ids ks \<longleftrightarrow> (\<forall>u k. (\<exists>dks. (u, dks) \<in> set ks \<and> k \<in> set dks) \<longleftrightarrow>
     (\<exists>d \<in> set (encrypted_devices w). ed_user_id d = u \<and> u \<in> ids \<and> k = deviceKeys d))"

lemma getUsersDevices_offers: "offers w (set ids) (getUsersDevices w ids)"
  by (auto simp: offers_def getUsersDevices_def set_ord_sort groupBy_def intro!: exI image_eqI[OF refl])


definition keys_world :: world where
  "keys_world = empty_world\<lparr>SESSIONS := [(11, \<lparr>s_organizationId = ''o'', s_userId = ''b'', s_extraParams = Map.empty\<rparr>)],
     encrypted_devices := [\<lparr>ed_id = ''1'', ed_user_id = ''u'', ed_device_id = ''d'', ed_identity_key = ''i'', ed_signed_key = ''s'',
       ed_one_time_pre_keys = KeyObject [(''a'', ''x''), (''b'', ''y'')]\<rparr>]\<rparr>"


end
