(* ===== verification/Files.thy ===== *)
theory Files
  imports BlockList
begin

text \<open>
  Files: the operations of \<^verbatim>\<open>app/providers/operations/file\<close> over the storage service, and that download URLs stay inside an
  organization and are signed once.
\<close>

section \<open>Operations\<close>

definition FileCreate_perform :: "env \<Rightarrow> socket \<Rightarrow> file_params list \<Rightarrow> (stored_file \<times> string) list handler" where
  "FileCreate_perform E ws createFiles =
     andThen (sessionOf ws) (\<lambda>s. forEach createFiles (createFile E (s_organizationId s) (s_userId s)))"

text \<open>The answer is an object: a later entry for the same id replaces the earlier one.\<close>

definition FileDownload_perform :: "env \<Rightarrow> socket \<Rightarrow> string list \<Rightarrow> (string \<rightharpoonup> string) handler" where
  "FileDownload_perform E ws objectIds =
     andThen (sessionOf ws) (\<lambda>s.
     andThen (forEach objectIds (getFileDownloadUrl E (s_organizationId s))) (\<lambda>urls.
       ret (map_of (rev (zip objectIds urls)))))"

section \<open>The cache of download URLs\<close>

definition cachedUrls :: "world \<Rightarrow> string \<Rightarrow> string set" where
  "cachedUrls w i = set (rs_sets (redis w) (generateKey i))"

definition cache_ok :: "world \<Rightarrow> bool" where
  "cache_ok w \<longleftrightarrow> (\<forall>i. \<exists>u. u \<noteq> [] \<and> cachedUrls w i \<subseteq> {u})"

definition ownFile :: "world \<Rightarrow> oid \<Rightarrow> string \<Rightarrow> bool" where
  "ownFile w org i \<longleftrightarrow> (\<exists>f \<in> set (files w). sf_organization_id f = org \<and> sf_object_id f = i)"

text \<open>\<open>fetched w w'\<close>: a cached URL stays what it is, and the files and sessions are the same.\<close>

definition fetched :: "world \<Rightarrow> world \<Rightarrow> bool" where
  "fetched w w' \<longleftrightarrow> files w' = files w \<and> SESSIONS w' = SESSIONS w \<and> cache_ok w' \<and> (\<forall>i. cachedUrls w i \<noteq> {} \<longrightarrow> cachedUrls w' i = cachedUrls w i)"

lemma fetched_refl: "cache_ok w \<Longrightarrow> fetched w w"
  by (simp add: fetched_def)

lemma fetched_trans: "fetched w1 w2 \<Longrightarrow> fetched w2 w3 \<Longrightarrow> fetched w1 w3"
  unfolding fetched_def by metis

lemma fetchedD: "fetched w w' \<Longrightarrow> cache_ok w'" "fetched w w' \<Longrightarrow> ownFile w' org i = ownFile w org i"
    "fetched w w' \<Longrightarrow> getSession w' ws = getSession w ws" "fetched w w' \<Longrightarrow> cachedUrls w i = {u} \<Longrightarrow> cachedUrls w' i = {u}"
  by (auto simp: fetched_def ownFile_def getSession_def)

lemma getFileUrl_cached:
  assumes "redis_ok (rd E)" "cache_ok w"
  shows "getFileUrl E w i = Some u \<longleftrightarrow> cachedUrls w i = {u}" "getFileUrl E w i = None \<longleftrightarrow> cachedUrls w i = {}"
proof -
  obtain v where "cachedUrls w i \<subseteq> {v}" using assms(2) unfolding cache_ok_def by blast
  with assms(1) show "getFileUrl E w i = Some u \<longleftrightarrow> cachedUrls w i = {u}" "getFileUrl E w i = None \<longleftrightarrow> cachedUrls w i = {}"
    by (auto simp: getFileUrl_def cachedUrls_def split: list.splits)
qed

lemma generateKey_inj [simp]: "generateKey i = generateKey j \<longleftrightarrow> i = j"
  by (simp add: generateKey_def)

lemma storeFileUrl_caches:
  assumes "redis_ok (rd E)"
  shows "cachedUrls (storeFileUrl E i url w) j = (if j = i then insert url (cachedUrls w i) else cachedUrls w j)"
  using assms by (simp add: storeFileUrl_def cachedUrls_def)

lemma file_found: "mongo_ok E \<Longrightarrow> File_findByIdWithOrgScope E w org i = None \<longleftrightarrow> \<not> ownFile w org i"
  by (auto simp: File_findByIdWithOrgScope_def find_None_iff ownFile_def)

lemma getFileDownloadUrl_refused:
  "mongo_ok E \<Longrightarrow> \<not> ownFile w org i \<Longrightarrow>
   getFileDownloadUrl E org i w = (Inl (PlainError (''Can'' @ [CHR 0x27] @ ''t find file'')), w)"
  by (simp add: getFileDownloadUrl_def andThen_def gets_def file_found throw_def)

lemma getFileDownloadUrl_cached:
  assumes "mongo_ok E" "redis_ok (rd E)" "cache_ok w" "ownFile w org i" "cachedUrls w i = {u}"
  shows "getFileDownloadUrl E org i w = (Inr u, w)"
proof -
  obtain c cs where u: "u = c # cs"
    using assms(3,5) unfolding cache_ok_def by (metis empty_iff insert_subset neq_Nil_conv singletonD)
  have "getFileUrl E w i = Some (c # cs)" using getFileUrl_cached(1)[OF assms(2,3)] assms(5) u by simp
  with assms(1,4) u show ?thesis
    by (simp add: getFileDownloadUrl_def andThen_def gets_def file_found ret_def)
qed

lemma getFileDownloadUrl_fetches:
  assumes "mongo_ok E" "redis_ok (rd E)" "\<And>i n. downloadUrl E i n \<noteq> []" "cache_ok w" "ownFile w org i"
  obtains u w' where "getFileDownloadUrl E org i w = (Inr u, w')" "cachedUrls w' i = {u}" "fetched w w'"
proof (cases "cachedUrls w i = {}")
  case True
  let ?u = "downloadUrl E i (entropy w)" and ?w1 = "w\<lparr>entropy := Suc (entropy w)\<rparr>"
  let ?w' = "storeFileUrl E i ?u ?w1"
  have c: "cachedUrls ?w' j = (if j = i then {?u} else cachedUrls w j)" for j
    using storeFileUrl_caches[OF assms(2), of i ?u ?w1 j] True by (simp add: cachedUrls_def)
  have "cache_ok ?w'" unfolding cache_ok_def
  proof
    fix j show "\<exists>u. u \<noteq> [] \<and> cachedUrls ?w' j \<subseteq> {u}"
      using c[of j] assms(3) assms(4)[unfolded cache_ok_def] by (cases "j = i") auto
  qed
  moreover have "files ?w' = files w" "SESSIONS ?w' = SESSIONS w" by (simp_all add: storeFileUrl_def)
  ultimately have "fetched w ?w'" unfolding fetched_def using c True by auto
  moreover have "getFileDownloadUrl E org i w = (Inr ?u, ?w')"
    using assms(1,5) getFileUrl_cached(2)[OF assms(2,4), of i, THEN iffD2, OF True]
    by (simp add: getFileDownloadUrl_def andThen_def gets_def transact_def modify_def file_found ret_def)
  ultimately show ?thesis using that c by simp
next
  case False
  then obtain u where "cachedUrls w i = {u}"
    using assms(4) unfolding cache_ok_def by (metis subset_singletonD)
  with getFileDownloadUrl_cached[OF assms(1,2,4,5) this] fetched_refl[OF assms(4)] show ?thesis by (intro that)
qed

lemma downloads_refused:
  assumes "mongo_ok E" "redis_ok (rd E)" "\<And>i n. downloadUrl E i n \<noteq> []"
  shows "cache_ok w \<Longrightarrow> \<exists>i \<in> set ids. \<not> ownFile w org i \<Longrightarrow>
    \<exists>w'. forEach ids (getFileDownloadUrl E org) w = (Inl (PlainError (''Can'' @ [CHR 0x27] @ ''t find file'')), w') \<and> fetched w w'"
proof (induction ids arbitrary: w)
  case (Cons i ids)
  show ?case
  proof (cases "ownFile w org i")
    case False
    with getFileDownloadUrl_refused[OF assms(1) False] fetched_refl[OF Cons.prems(1)] show ?thesis by (simp add: andThen_def)
  next
    case True
    obtain u w1 where r: "getFileDownloadUrl E org i w = (Inr u, w1)" "cachedUrls w1 i = {u}" "fetched w w1"
      by (rule getFileDownloadUrl_fetches[OF assms Cons.prems(1) True])
    with Cons.prems(2) True have "\<exists>j \<in> set ids. \<not> ownFile w1 org j" by (auto simp: fetchedD)
    from Cons.IH[OF fetchedD(1)[OF r(3)] this] r show ?thesis by (auto simp: andThen_def intro: fetched_trans)
  qed
qed simp

lemma downloads_fetch:
  assumes "mongo_ok E" "redis_ok (rd E)" "\<And>i n. downloadUrl E i n \<noteq> []"
  shows "cache_ok w \<Longrightarrow> \<forall>i \<in> set ids. ownFile w org i \<Longrightarrow>
    \<exists>us w'. forEach ids (getFileDownloadUrl E org) w = (Inr us, w') \<and> fetched w w' \<and> list_all2 (\<lambda>i u. cachedUrls w' i = {u}) ids us"
proof (induction ids arbitrary: w)
  case Nil
  then show ?case by (simp add: ret_def fetched_refl)
next
  case (Cons i ids)
  from Cons.prems(2) have "ownFile w org i" by simp
  then obtain u w1 where r: "getFileDownloadUrl E org i w = (Inr u, w1)" "cachedUrls w1 i = {u}" "fetched w w1"
    by (rule getFileDownloadUrl_fetches[OF assms Cons.prems(1)])
  have own: "\<forall>j \<in> set ids. ownFile w1 org j" using Cons.prems(2) fetchedD(2)[OF r(3)] by simp
  from Cons.IH[OF fetchedD(1)[OF r(3)] own] obtain us w2 where
    r2: "forEach ids (getFileDownloadUrl E org) w1 = (Inr us, w2)" "fetched w1 w2" "list_all2 (\<lambda>i u. cachedUrls w2 i = {u}) ids us" by blast
  have "cachedUrls w2 i = {u}" using fetchedD(4)[OF r2(2) r(2)] .
  with r r2 show ?case by (auto simp: andThen_def ret_def intro: fetched_trans)
qed

lemma downloads_again:
  assumes "mongo_ok E" "redis_ok (rd E)" "cache_ok w"
  shows "\<forall>i \<in> set ids. ownFile w org i \<Longrightarrow> list_all2 (\<lambda>i u. cachedUrls w i = {u}) ids us \<Longrightarrow>
    forEach ids (getFileDownloadUrl E org) w = (Inr us, w)"
proof (induction ids arbitrary: us)
  case (Cons i ids)
  then obtain u vs where us: "us = u # vs" "cachedUrls w i = {u}" by (cases us) auto
  from Cons us have "forEach ids (getFileDownloadUrl E org) w = (Inr vs, w)" by simp
  with getFileDownloadUrl_cached[OF assms, of org i u] Cons.prems(1) us show ?case by (simp add: andThen_def ret_def)
qed (simp add: ret_def)

text \<open>Download URLs stay inside an organization and are signed once. A request succeeds exactly when every file it names belongs to the
  organization of the session, and otherwise fails with one error; the URL of each file is the one in the cache, and asking again gives the same
  URLs and changes nothing. Signed URLs are not empty, and a file has at most one URL in the cache.\<close>

theorem file_download:
  fixes E :: env and w :: world and ids :: "string list" and ws :: socket
  defines "r \<equiv> FileDownload_perform E ws ids w"
  assumes "mongo_ok E" "redis_ok (rd E)" "\<And>i n. downloadUrl E i n \<noteq> []" "cache_ok w" "getSession w ws = Some s"
  shows "if \<forall>i \<in> set ids. ownFile w (s_organizationId s) i
     then \<exists>urls. fst r = Inr urls \<and> dom urls = set ids \<and> (\<forall>i \<in> set ids. cachedUrls (snd r) i = {the (urls i)})
        \<and> FileDownload_perform E ws ids (snd r) = (Inr urls, snd r)
     else fst r = Inl (PlainError (''Can'' @ [CHR 0x27] @ ''t find file''))"
proof -
  let ?org = "s_organizationId s"
  note ses = sessionOf_run[OF assms(6)]
  show ?thesis
  proof (cases "\<forall>i \<in> set ids. ownFile w ?org i")
    case True
    obtain us w' where f: "forEach ids (getFileDownloadUrl E ?org) w = (Inr us, w')" "fetched w w'"
        and all: "list_all2 (\<lambda>i u. cachedUrls w' i = {u}) ids us"
      using downloads_fetch[OF assms(2-5) True] by blast
    let ?urls = "map_of (rev (zip ids us))"
    have len: "length ids = length us" using all by (rule list_all2_lengthD)
    have r: "r = (Inr ?urls, w')" unfolding r_def by (simp add: FileDownload_perform_def ses andThen_def[of "forEach _ _"] f(1) ret_def)
    have "forEach ids (getFileDownloadUrl E ?org) w' = (Inr us, w')"
      using downloads_again[OF assms(2,3) fetchedD(1)[OF f(2)] _ all] True by (simp add: fetchedD(2)[OF f(2)])
    moreover have "getSession w' ws = Some s" using assms(6) fetchedD(3)[OF f(2)] by simp
    ultimately have again: "FileDownload_perform E ws ids w' = (Inr ?urls, w')"
      by (simp add: FileDownload_perform_def sessionOf_run andThen_def[of "forEach _ _"] ret_def)
    have dom: "dom ?urls = set ids" using len by (metis dom_map_of_conv_image_fst map_fst_zip set_map set_rev)
    have "cachedUrls w' i = {the (?urls i)}" if i: "i \<in> set ids" for i
    proof -
      from i dom obtain u where u: "?urls i = Some u" by blast
      then have "(i, u) \<in> set (zip ids us)" by (metis map_of_SomeD set_rev)
      with all have "cachedUrls w' i = {u}" by (auto simp: list_all2_iff)
      with u show ?thesis by simp
    qed
    with True r again dom show ?thesis by simp
  next
    case False
    from downloads_refused[OF assms(2-5)] False obtain w' where
      "forEach ids (getFileDownloadUrl E ?org) w = (Inl (PlainError (''Can'' @ [CHR 0x27] @ ''t find file'')), w')" by blast
    then have "fst r = Inl (PlainError (''Can'' @ [CHR 0x27] @ ''t find file''))"
      unfolding r_def by (simp add: FileDownload_perform_def ses andThen_def[of "forEach _ _"])
    with False show ?thesis by simp
  qed
qed

definition file_world :: world where
  "file_world = empty_world\<lparr>SESSIONS := [(11, \<lparr>s_organizationId = ''o'', s_userId = ''u'', s_extraParams = Map.empty\<rparr>)],
     files := [\<lparr>sf_id = ''1'', sf_organization_id = ''o'', sf_user_id = ''u'', sf_name = ''n'', sf_size = 1, sf_content_type = ''t'',
       sf_object_id = ''x'', sf_created_at = 0, sf_updated_at = 0\<rparr>]\<rparr>"

theorem file_download_witness:
  "\<exists>urls. fst (FileDownload_perform mem_env 11 [''x''] file_world) = Inr urls \<and> dom urls = {''x''}"
proof -
  have "\<And>i n. downloadUrl mem_env i n \<noteq> []" by (simp add: mem_env_def)
  moreover have "cache_ok file_world" by (auto simp: cache_ok_def cachedUrls_def file_world_def empty_world_def empty_redis_def)
  moreover have "getSession file_world 11 = Some \<lparr>s_organizationId = ''o'', s_userId = ''u'', s_extraParams = Map.empty\<rparr>"
    by (simp add: getSession_def file_world_def)
  moreover have "ownFile file_world ''o'' ''x''" by (simp add: ownFile_def file_world_def)
  ultimately show ?thesis using file_download[OF mem_env_ok, of file_world 11 _ "[''x'']"] by auto
qed

end
