(* ===== verification/Views.thy ===== *)
theory Views
  imports Json Conversation_Ops Networking Contacts Encryption Files
begin

text \<open>
  The JSON values that answers and packets are made of: the packets about messages
  (\<^verbatim>\<open>app/DTO/Response/message\<close>), the visible parameters of the models (\<^verbatim>\<open>app/models\<close>) and, where an operation returns a model as it is, its whole
  document. Times are numbers here. Properties with an \<open>undefined\<close> value are left out, as \<open>JSON.stringify\<close> does.
\<close>

definition jids :: "oid list \<Rightarrow> json" where
  "jids ids = JArr (map JStr ids)"

section \<open>Messages\<close>

definition MessageResponse :: "json \<Rightarrow> json" where
  "MessageResponse messagePublicFields = JObj [(''message'', messagePublicFields)]"

definition SystemMessagePublicFields :: "oid \<Rightarrow> oid \<Rightarrow> nat \<Rightarrow> json \<Rightarrow> oid option \<Rightarrow> json" where
  "SystemMessagePublicFields i from t x cid = JObj ([(''_id'', JStr i), (''from'', JStr from), (''t'', jnat t), (''x'', x)] @
     (if cid = None \<or> cid = Some [] then [] else jopt ''cid'' cid))"

definition SystemMessageResponse :: "json \<Rightarrow> json" where
  "SystemMessageResponse messagePublicFields = JObj [(''system_message'', messagePublicFields)]"

definition EditMessagePublicFields :: "edit_result \<Rightarrow> json" where
  "EditMessagePublicFields p = JObj [(''id'', JStr (er_mid p)), (''cid'', JStr (er_cId p)), (''c_type'', JStr (typeCode (er_c_type p))),
     (''from'', JStr (er_from p)), (''body'', JStr (er_body p))]"

definition EditMessageResponse :: "json \<Rightarrow> json" where
  "EditMessageResponse editMessagePublicFields = JObj [(''message_edit'', editMessagePublicFields)]"

definition MessageReactionsUpdatePublicFields :: "oid \<Rightarrow> conversation \<Rightarrow> oid \<Rightarrow> string option \<Rightarrow> string option \<Rightarrow> json" where
  "MessageReactionsUpdatePublicFields mid conversation from add remove = JObj ([(''mid'', JStr mid), (''cid'', JStr (c_id conversation)),
     (''c_type'', JStr (typeCode (c_type conversation))), (''from'', JStr from)] @
     (if add = Some [] then [] else jopt ''add'' add) @ (if remove = Some [] then [] else jopt ''remove'' remove))"

definition MessageReactionsUpdateResponse :: "json \<Rightarrow> json" where
  "MessageReactionsUpdateResponse messageReactionsUpdate = JObj [(''message_reactions_update'', messageReactionsUpdate)]"

definition ReadMessagesPublicFields :: "oid \<Rightarrow> oid list \<Rightarrow> oid \<Rightarrow> json" where
  "ReadMessagesPublicFields cid messageIds from = JObj [(''ids'', jids messageIds), (''cid'', JStr cid), (''from'', JStr from)]"

definition ReadMessagesResponse :: "json \<Rightarrow> json" where
  "ReadMessagesResponse readMessagesPublicFields = JObj [(''message_read'', readMessagesPublicFields)]"

definition DecryptionFailedMessagesPublicFields :: "oid \<Rightarrow> oid list \<Rightarrow> oid \<Rightarrow> json" where
  "DecryptionFailedMessagesPublicFields cid messageIds from = JObj [(''ids'', jids messageIds), (''cid'', JStr cid), (''from'', JStr from)]"

definition DecryptionFailedMessagesResponse :: "json \<Rightarrow> json" where
  "DecryptionFailedMessagesResponse failedFields = JObj [(''message_decryption_failed'', failedFields)]"

definition DeleteMessagesPublicFields :: "oid list \<Rightarrow> oid \<Rightarrow> conv_type \<Rightarrow> oid \<Rightarrow> json" where
  "DeleteMessagesPublicFields messageIds cid cType from = JObj [(''ids'', jids messageIds), (''cid'', JStr cid),
     (''c_type'', JStr (typeCode cType)), (''from'', JStr from), (''type'', JStr ''all'')]"

definition DeleteMessagesResponse :: "json \<Rightarrow> json" where
  "DeleteMessagesResponse deleteMessagesPublicFields = JObj [(''message_delete'', deleteMessagesPublicFields)]"

section \<open>Events\<close>

text \<open>
  The message of an event as the notification service builds it. \<open>MessageCreateOperation\<close> leaves the fields of a message bare and its controller
  wraps every event, also the system message about a restored conversation, which is a packet already.
\<close>

fun eventPacket :: "event_message \<Rightarrow> json" where
  "eventPacket (MessageEvent m cType) = MessageResponse (MessagePublicFields m cType True [])"
| "eventPacket (BotEvent m cType) = MessageResponse (MessagePublicFields m cType False [])"
| "eventPacket (SystemEvent i from cid t name conversation) =
     SystemMessageResponse (SystemMessagePublicFields i from t (JObj [(name, visibleConversation conversation)]) (Some cid))"

fun createPacket :: "event_message \<Rightarrow> json" where
  "createPacket (SystemEvent i from cid t name conversation) = MessageResponse (eventPacket (SystemEvent i from cid t name conversation))"
| "createPacket ev = eventPacket ev"

text \<open>The payload of a push is stored as JSON text. The event for a new image has the user where the identifier belongs and the whole
  conversation where the payload does.\<close>

definition wholeConversation :: "conversation \<Rightarrow> json" where
  "wholeConversation c = (case visibleConversation c of JObj props \<Rightarrow> JObj (props @ japp ''participants'' (\<lambda>j. j) (c_participants c)) | other \<Rightarrow> other)"

fun pushOptions :: "push \<Rightarrow> push_options" where
  "pushOptions (ChatAlert senderID payload) = CreateChatAlertEventOptions senderID (stringifyMessage (JObj payload)) []"
| "pushOptions (PushEvent senderId payload) = CreatePushEventOptions senderId (stringifyMessage (JObj payload)) []"
| "pushOptions (PushConversation user conversation) = CreatePushEventOptions (u_id user) (stringifyMessage (wholeConversation conversation)) []"

section \<open>Documents\<close>

definition contactValue :: "contact_value \<Rightarrow> json" where
  "contactValue v = JObj (jopt ''type'' (cval_type v) @ jopt ''value'' (cval_value v) @ jopt ''matched_user_id'' (cval_matched_user_id v))"

definition contactDocument :: "contact \<Rightarrow> (string \<times> json) list" where
  "contactDocument c = [(''_id'', JStr (ct_id c)), (''organization_id'', JStr (ct_organization_id c))] @
     jopt ''first_name'' (ct_first_name c) @ jopt ''last_name'' (ct_last_name c) @ jopt ''company'' (ct_company c) @
     japp ''email'' (\<lambda>vs. JArr (map contactValue vs)) (ct_email c) @ japp ''phone'' (\<lambda>vs. JArr (map contactValue vs)) (ct_phone c) @
     [(''created_at'', jnat (ct_created_at c)), (''updated_at'', jnat (ct_updated_at c))]"

definition visibleContact :: "contact \<Rightarrow> json" where
  "visibleContact c = JObj (contactDocument c)"

definition wholeContact :: "contact \<Rightarrow> json" where
  "wholeContact c = JObj (contactDocument c @ [(''user_id'', JStr (ct_user_id c))])"

text \<open>A user as the model is: the hash of the password and its salt are properties of the document.\<close>

definition wholeUser :: "user \<Rightarrow> json" where
  "wholeUser u = (case visibleUser u of
      JObj props \<Rightarrow> JObj (props @ [(''organization_id'', JStr (u_organization_id u))] @
        jopt ''encrypted_password'' (u_encrypted_password u) @ jopt ''password_salt'' (u_password_salt u))
    | other \<Rightarrow> other)"

definition subscriptionView :: "push_subscription \<Rightarrow> json" where
  "subscriptionView s = JObj ([(''_id'', JStr (ps_id s)), (''organization_id'', JStr (ps_organization_id s)), (''user_id'', JStr (ps_user_id s)),
     (''platform'', JStr (ps_platform s))] @ jopt ''web_endpoint'' (ps_web_endpoint s) @ jopt ''web_key_auth'' (ps_web_key_auth s) @
     jopt ''web_key_p256dh'' (ps_web_key_p256dh s) @ [(''device_udid'', JStr (ps_device_udid s))] @ jopt ''device_token'' (ps_device_token s) @
     [(''created_at'', jnat (ps_created_at s)), (''updated_at'', jnat (ps_updated_at s))])"

definition visiblePushEvent :: "push_event \<Rightarrow> json" where
  "visiblePushEvent e = JObj [(''_id'', JStr (pe_id e)), (''user_id'', JStr (pe_user_id e)), (''user_ids'', jids (pe_user_ids e)),
     (''message'', JStr (pe_message e)), (''created_at'', jnat (pe_created_at e)), (''updated_at'', jnat (pe_updated_at e))]"

definition fileView :: "stored_file \<times> string \<Rightarrow> json" where
  "fileView f = (case f of (d, upload_url) \<Rightarrow> JObj [(''_id'', JStr (sf_id d)), (''organization_id'', JStr (sf_organization_id d)),
     (''user_id'', JStr (sf_user_id d)), (''name'', JStr (sf_name d)), (''size'', jnat (sf_size d)), (''content_type'', JStr (sf_content_type d)),
     (''object_id'', JStr (sf_object_id d)), (''created_at'', jnat (sf_created_at d)), (''updated_at'', jnat (sf_updated_at d)),
     (''upload_url'', JStr upload_url)])"

definition opLogView :: "op_log \<Rightarrow> json" where
  "opLogView l = JObj [(''_id'', JStr (ol_id l)), (''user_id'', JStr (ol_user_id l)), (''packet'', JStr (ol_packet l)),
     (''created_at'', jnat (ol_created_at l)), (''updated_at'', jnat (ol_updated_at l))]"

definition deviceKeysView :: "device_keys \<Rightarrow> json" where
  "deviceKeysView k = JObj ([(''identity_key'', JStr (dk_identity_key k)), (''signed_key'', JStr (dk_signed_key k))] @
     jopt ''one_time_pre_key'' (dk_one_time_pre_key k))"

definition listedConversation :: "conversation \<times> (message \<times> string \<times> string list \<times> (string \<times> nat) list) option \<times> nat \<Rightarrow> json" where
  "listedConversation row = (case row of (c, lastMessage, unread) \<Rightarrow> (case visibleConversation c of
      JObj props \<Rightarrow> JObj (japp ''last_message'' (\<lambda>(m, status, reactions). listedMessage (m, Some status, reactions)) lastMessage @
        [(''unread_messages_count'', jnat unread)] @ props)
    | other \<Rightarrow> other))"

text \<open>An object with one property per key of a list of pairs.\<close>

definition idLists :: "(oid \<times> oid list) list \<Rightarrow> json" where
  "idLists m = JObj (map (\<lambda>(k, ids). (k, jids ids)) m)"

definition activityView :: "(oid \<times> nat) list \<Rightarrow> json" where
  "activityView m = JObj (map (\<lambda>(u, n). (u, jnat n)) m)"

end
