(* ===== verification/Activity.thy ===== *)
theory Activity
  imports Networking
begin

text \<open>
  Last-activity subscriptions: \<open>ActivityManagerStandaloneService\<close> (two in-memory objects) and
  \<open>ActivityManagerClusterService\<close> (two Redis hashes, the observers of a target joined by commas in one field), of which a
  node uses one, and the operations of \<^verbatim>\<open>app/providers/operations/activity\<close> on top of them. 
  The response builder \<open>ActivitySender.updateAndBuildUserActivity\<close> of \<^verbatim>\<open>app/networking/activity_sender.js\<close> is here too.
  The calls of the cluster manager to Redis are modelled as one step.
\<close>

section \<open>In memory\<close>

definition observersOf :: "world \<Rightarrow> oid \<Rightarrow> oid list" where
  "observersOf w targetId = (case SUBSCRIBERS w targetId of None \<Rightarrow> [] | Some os \<Rightarrow> os)"

definition Standalone_subscribeTarget :: "world \<Rightarrow> oid \<Rightarrow> oid option" where
  "Standalone_subscribeTarget w observerId = SUBSCRIBED_TO w observerId"

definition Standalone_addSubscribeTarget :: "oid \<Rightarrow> oid \<Rightarrow> world \<Rightarrow> world" where
  "Standalone_addSubscribeTarget observerId targetId w = w\<lparr>SUBSCRIBED_TO := (SUBSCRIBED_TO w)(observerId \<mapsto> targetId)\<rparr>"

definition Standalone_deleteSubscribeTarget :: "oid \<Rightarrow> world \<Rightarrow> world" where
  "Standalone_deleteSubscribeTarget observerId w = w\<lparr>SUBSCRIBED_TO := (SUBSCRIBED_TO w)(observerId := None)\<rparr>"

definition Standalone_subscribers :: "world \<Rightarrow> oid \<Rightarrow> oid list" where
  "Standalone_subscribers w targetId = observersOf w targetId"

definition Standalone_addSubscriber :: "oid \<Rightarrow> oid \<Rightarrow> world \<Rightarrow> world" where
  "Standalone_addSubscriber targetId observerId w =
     (let os = observersOf w targetId
      in w\<lparr>SUBSCRIBERS := (SUBSCRIBERS w)(targetId \<mapsto> (if observerId \<in> set os then os else os @ [observerId]))\<rparr>)"

definition Standalone_deleteSubscriber :: "oid \<Rightarrow> oid \<Rightarrow> world \<Rightarrow> world" where
  "Standalone_deleteSubscriber targetId observerId w = (case SUBSCRIBERS w targetId of
      None \<Rightarrow> w
    | Some os \<Rightarrow> w\<lparr>SUBSCRIBERS := (SUBSCRIBERS w)(targetId \<mapsto> removeAll observerId os)\<rparr>)"

text \<open>An observer without a target deletes from the property named \<open>undefined\<close>.\<close>

definition Standalone_unsubscribeObserver :: "oid \<Rightarrow> world \<Rightarrow> world" where
  "Standalone_unsubscribeObserver observerId w =
     (let targetId = (case Standalone_subscribeTarget w observerId of None \<Rightarrow> ''undefined'' | Some t \<Rightarrow> t)
      in Standalone_deleteSubscriber targetId observerId (Standalone_deleteSubscribeTarget observerId w))"

definition Standalone_subscribeObserverToTarget :: "oid \<Rightarrow> oid \<Rightarrow> world \<Rightarrow> world" where
  "Standalone_subscribeObserverToTarget observerId targetId w =
     Standalone_addSubscriber targetId observerId (Standalone_addSubscribeTarget observerId targetId
       (Standalone_unsubscribeObserver observerId w))"

definition Standalone_clearAllSubscriptionTargets :: "oid \<Rightarrow> world \<Rightarrow> world" where
  "Standalone_clearAllSubscriptionTargets observerId w = w\<lparr>SUBSCRIBED_TO := (SUBSCRIBED_TO w)(observerId := None)\<rparr>"

definition Standalone_clearSubscribed :: "oid \<Rightarrow> world \<Rightarrow> world" where
  "Standalone_clearSubscribed targetId w = w\<lparr>SUBSCRIBERS := (SUBSCRIBERS w)(targetId \<mapsto> [])\<rparr>"

section \<open>In Redis\<close>

definition SUBSCRIBED_TO_KEY :: string where
  "SUBSCRIBED_TO_KEY = ''sama:subscribed_to''"

definition SUBSCRIBERS_KEY :: string where
  "SUBSCRIBERS_KEY = ''sama:subscribers''"

text \<open>An empty string is falsy.\<close>

definition Cluster_subscribeTarget :: "redis_ops \<Rightarrow> redis_store \<Rightarrow> oid \<Rightarrow> oid option" where
  "Cluster_subscribeTarget R st observerId = (case rd_hGet R SUBSCRIBED_TO_KEY observerId st of
     None \<Rightarrow> None | Some t \<Rightarrow> if t = [] then None else Some t)"

definition Cluster_addSubscribeTarget :: "redis_ops \<Rightarrow> oid \<Rightarrow> oid \<Rightarrow> redis_store \<Rightarrow> redis_store" where
  "Cluster_addSubscribeTarget R observerId targetId st = rd_hSet R SUBSCRIBED_TO_KEY [(observerId, targetId)] st"

definition Cluster_deleteSubscribeTarget :: "redis_ops \<Rightarrow> oid \<Rightarrow> redis_store \<Rightarrow> redis_store" where
  "Cluster_deleteSubscribeTarget R observerId st = rd_hDel R SUBSCRIBED_TO_KEY [observerId] st"

definition Cluster_subscribers :: "redis_ops \<Rightarrow> redis_store \<Rightarrow> oid \<Rightarrow> oid list" where
  "Cluster_subscribers R st targetId = (case rd_hGet R SUBSCRIBERS_KEY targetId st of
     None \<Rightarrow> [] | Some v \<Rightarrow> if v = [] then [] else split_on (CHR '','') v)"

definition Cluster_addSubscriber :: "redis_ops \<Rightarrow> oid \<Rightarrow> oid \<Rightarrow> redis_store \<Rightarrow> redis_store" where
  "Cluster_addSubscriber R targetId observerId st =
     (let observersIds = js_set (Cluster_subscribers R st targetId @ [observerId])
      in rd_hSet R SUBSCRIBERS_KEY [(targetId, join_with (CHR '','') observersIds)] st)"

definition Cluster_clearSubscribed :: "redis_ops \<Rightarrow> oid \<Rightarrow> redis_store \<Rightarrow> redis_store" where
  "Cluster_clearSubscribed R targetId st = rd_hDel R SUBSCRIBERS_KEY [targetId] st"

definition Cluster_deleteSubscriber :: "redis_ops \<Rightarrow> oid \<Rightarrow> oid \<Rightarrow> redis_store \<Rightarrow> redis_store" where
  "Cluster_deleteSubscriber R targetId observerId st =
     (let observersIds = removeAll observerId (js_set (Cluster_subscribers R st targetId))
      in if observersIds = [] then Cluster_clearSubscribed R targetId st
         else rd_hSet R SUBSCRIBERS_KEY [(targetId, join_with (CHR '','') observersIds)] st)"

definition Cluster_unsubscribeObserver :: "redis_ops \<Rightarrow> oid \<Rightarrow> redis_store \<Rightarrow> redis_store" where
  "Cluster_unsubscribeObserver R observerId st =
     (let targetId = Cluster_subscribeTarget R st observerId;
          st1 = Cluster_deleteSubscribeTarget R observerId st
      in case targetId of None \<Rightarrow> st1 | Some t \<Rightarrow> Cluster_deleteSubscriber R t observerId st1)"

definition Cluster_subscribeObserverToTarget :: "redis_ops \<Rightarrow> oid \<Rightarrow> oid \<Rightarrow> redis_store \<Rightarrow> redis_store" where
  "Cluster_subscribeObserverToTarget R observerId targetId st =
     Cluster_addSubscriber R targetId observerId (Cluster_addSubscribeTarget R observerId targetId
       (Cluster_unsubscribeObserver R observerId st))"

section \<open>The activity manager of a node\<close>

definition unsubscribeObserver :: "env \<Rightarrow> oid \<Rightarrow> world \<Rightarrow> world" where
  "unsubscribeObserver E observerId w = (if cfg_isStandAloneNode E then Standalone_unsubscribeObserver observerId w
     else w\<lparr>redis := Cluster_unsubscribeObserver (rd E) observerId (redis w)\<rparr>)"

definition subscribeObserverToTarget :: "env \<Rightarrow> oid \<Rightarrow> oid \<Rightarrow> world \<Rightarrow> world" where
  "subscribeObserverToTarget E observerId targetId w =
     (if cfg_isStandAloneNode E then Standalone_subscribeObserverToTarget observerId targetId w
      else w\<lparr>redis := Cluster_subscribeObserverToTarget (rd E) observerId targetId (redis w)\<rparr>)"

definition activitySubscribers :: "env \<Rightarrow> world \<Rightarrow> oid \<Rightarrow> oid list" where
  "activitySubscribers E w targetId = (if cfg_isStandAloneNode E then Standalone_subscribers w targetId
     else Cluster_subscribers (rd E) (redis w) targetId)"

record activity_delivery =
  ad_subscribers :: "oid list"
  ad_targetUserId :: oid
  ad_timestamp :: nat
  ad_status :: activity_status

definition updateUserActivity :: "env \<Rightarrow> oid \<Rightarrow> activity_status \<Rightarrow> world \<Rightarrow> activity_delivery option \<times> world" where
  "updateUserActivity E userId status w =
     (let currentTime = roundSeconds w;
          w1 = updateActivity E userId currentTime w;
          w2 = (if status \<noteq> ONLINE then unsubscribeObserver E userId w1 else w1);
          os = activitySubscribers E w2 userId
      in (if os = [] then None
          else Some \<lparr>ad_subscribers = os, ad_targetUserId = userId, ad_timestamp = currentTime, ad_status = status\<rparr>, w2))"

text \<open>
  One response per subscriber, addressed to that subscriber alone. The package is written in the protocol of the socket (JSON when
  there is no socket).
\<close>

definition detectSocketAPI :: "world \<Rightarrow> socket option \<Rightarrow> api_type" where
  "detectSocketAPI w socket = (case Option.bind socket (apiTypes w) of None \<Rightarrow> JSON | Some a \<Rightarrow> a)"

definition lastActivityMessage :: "env \<Rightarrow> api_type \<Rightarrow> oid \<Rightarrow> oid \<Rightarrow> activity_delivery \<Rightarrow> string" where
  "lastActivityMessage E api orgId subscriberUserId deliver = (case api of
      JSON \<Rightarrow> buildLastActivityPackage (ad_targetUserId deliver) (ad_status deliver) (ad_timestamp deliver)
    | XMPP \<Rightarrow> xmppLastActivity E orgId subscriberUserId (ad_targetUserId deliver) (ad_timestamp deliver) (ad_status deliver = ONLINE))"

definition buildOfflineActivityResponse :: "oid option \<Rightarrow> oid option \<Rightarrow> response" where
  "buildOfflineActivityResponse orgId userId =
     updateLastActivityStatus \<lparr>la_orgId = orgId, la_userId = userId, la_status = OFFLINE\<rparr> Response"

definition updateAndBuildUserActivity ::
  "env \<Rightarrow> socket option \<Rightarrow> oid \<Rightarrow> oid \<Rightarrow> activity_status \<Rightarrow> world \<Rightarrow> response list \<times> world" where
  "updateAndBuildUserActivity E socket orgId userId status w =
     (case updateUserActivity E userId status w of
        (None, w') \<Rightarrow> ([], w')
      | (Some deliver, w') \<Rightarrow>
          (map (\<lambda>subscriberUserId. addDeliverMessage [setUsersDestination [subscriberUserId] None
              (DeliverMessage orgId (lastActivityMessage E (detectSocketAPI w' socket) orgId subscriberUserId deliver) True)] Response)
             (ad_subscribers deliver), w'))"

section \<open>Operations\<close>

definition ActivityUserSubscribe_perform :: "env \<Rightarrow> socket \<Rightarrow> oid \<Rightarrow> (oid \<times> nat) handler" where
  "ActivityUserSubscribe_perform E ws targetUserId =
     andThen (sessionOf ws) (\<lambda>s.
     andThen (gets (\<lambda>w. User_findById E w targetUserId)) (\<lambda>u. case u of
       None \<Rightarrow> throw (Status INCORRECT_USER)
     | Some targetUser \<Rightarrow>
         if u_organization_id targetUser \<noteq> s_organizationId s then throw (Status INCORRECT_USER)
         else andThen (modify (subscribeObserverToTarget E (s_userId s) targetUserId)) (\<lambda>_.
           andThen (transact (listUserDevice E (s_organizationId s) targetUserId True)) (\<lambda>devicesList.
             ret (targetUserId, if devicesList \<noteq> [] then 0 else u_recent_activity targetUser)))))"

definition ActivityUserUnsubscribe_perform :: "env \<Rightarrow> socket \<Rightarrow> unit handler" where
  "ActivityUserUnsubscribe_perform E ws = andThen (sessionOf ws) (\<lambda>s. modify (unsubscribeObserver E (s_userId s)))"

definition ActivityUserRetrieve_perform :: "env \<Rightarrow> socket \<Rightarrow> oid list \<Rightarrow> (oid \<times> nat) list handler" where
  "ActivityUserRetrieve_perform E ws targetUserIds =
     andThen (sessionOf ws) (\<lambda>s.
     andThen (gets (\<lambda>w. findWithOrgScopeByIds E w (s_organizationId s) targetUserIds)) (\<lambda>targetUsers.
       forEach targetUsers (\<lambda>targetUser.
         andThen (transact (listUserDevice E (s_organizationId s) (u_id targetUser) True)) (\<lambda>devicesList.
           ret (u_id targetUser, if devicesList \<noteq> [] then 0 else u_recent_activity targetUser)))))"

definition ActivityMark_perform :: "env \<Rightarrow> socket \<Rightarrow> bool \<Rightarrow> unit handler" where
  "ActivityMark_perform E ws isMarkInactive = andThen (setSessionInactiveState E ws isMarkInactive) (\<lambda>_. ret ())"

end
