(* ===== verification/Delivery.thy ===== *)
theory Delivery
  imports Activity Conversations
begin

text \<open>
  Delivery of packets: \<open>PacketManager\<close> (\<^verbatim>\<open>app/networking/packet_manager.js\<close>) sorts the destinations of a packet into connections of this
  node, connections of other nodes and offline users, and \<open>BaseProtocolProcessor\<close>
  (\<^verbatim>\<open>app/networking/protocol_processors/base.js\<close>) carries out the response of a request: the update of the last activity, the
  answer, the deliveries to users or to the participants of a conversation; and what happens when a socket closes. Sending
  appends to the outbox; the deliveries that the code starts side by side follow one another here.
\<close>

section \<open>Packet manager\<close>

definition activeDevices :: "world \<Rightarrow> oid \<Rightarrow> string option \<Rightarrow> connection list" where
  "activeDevices w userId exceptDeviceId =
     filter (\<lambda>c. cn_deviceId c \<noteq> HTTP_DEVICE_ID \<and> Some (cn_deviceId c) \<noteq> exceptDeviceId) (getUserDevices w userId)"

definition recipientInfo :: "world \<Rightarrow> connection \<Rightarrow> recipient_info" where
  "recipientInfo w c = \<lparr>ri_apiType = apiTypes w (cn_socket c), ri_session = getSession w (cn_socket c), ri_deviceId = cn_deviceId c\<rparr>"

text \<open>An error of the translation is logged; what was sent before it stays sent.\<close>

primrec mapRecipientPackets :: "env \<Rightarrow> sender_info \<Rightarrow> recipient_info \<Rightarrow> string list \<Rightarrow> string list" where
  "mapRecipientPackets E si ri [] = []"
| "mapRecipientPackets E si ri (m # ms) = (case mapRecipientPacket E (ri_apiType ri) m si ri of
     None \<Rightarrow> [] | Some p \<Rightarrow> p # mapRecipientPackets E si ri ms)"

definition recipientPackets :: "env \<Rightarrow> sender_info \<Rightarrow> recipient_info \<Rightarrow> string \<Rightarrow> string list" where
  "recipientPackets E si ri packet = (case mapPacket E (si_apiType si) (ri_apiType ri) packet si ri of
     None \<Rightarrow> [] | Some ms \<Rightarrow> mapRecipientPackets E si ri ms)"

definition deliverToUserOnThisNode :: "env \<Rightarrow> oid \<Rightarrow> string option \<Rightarrow> string \<Rightarrow> sender_info \<Rightarrow> world \<Rightarrow> world" where
  "deliverToUserOnThisNode E userId exceptDeviceId packet si w =
     w\<lparr>outbox := outbox w @ concat (map (\<lambda>c. map (Pair (cn_socket c)) (recipientPackets E si (recipientInfo w c) packet))
        (activeDevices w userId exceptDeviceId))\<rparr>"

definition deliverClusterMessageToUser :: "env \<Rightarrow> oid \<Rightarrow> string \<Rightarrow> sender_info \<Rightarrow> world \<Rightarrow> world" where
  "deliverClusterMessageToUser E userId packet si w = deliverToUserOnThisNode E userId None packet si w"

text \<open>
  The accumulators of the loop over the destinations: the users without a connection or with an inactive one, the users
  of this node, and the users of each other node, as properties in insertion order.
\<close>

record destinations =
  ds_offlineUsersIds :: "oid list"
  ds_currentNodesUserIds :: "oid list"
  ds_otherNodes :: "(string \<times> oid list) list"

definition addKey :: "'a \<Rightarrow> 'a list \<Rightarrow> 'a list" where
  "addKey k ks = (if k \<in> set ks then ks else ks @ [k])"

fun addOther :: "string \<Rightarrow> oid \<Rightarrow> (string \<times> oid list) list \<Rightarrow> (string \<times> oid list) list" where
  "addOther e u [] = [(e, [u])]"
| "addOther e u ((e', us) # rest) = (if e' = e then (e', addKey u us) # rest else (e', us) # addOther e u rest)"

primrec reduceUserNodeConnections :: "env \<Rightarrow> string \<Rightarrow> oid \<Rightarrow> (string \<rightharpoonup> string) list \<Rightarrow> destinations \<Rightarrow> destinations" where
  "reduceUserNodeConnections E target userId [] acc = acc"
| "reduceUserNodeConnections E target userId (connectionsParams # rest) acc =
     reduceUserNodeConnections E target userId rest
       (case connectionsParams SESSION_NODE_KEY of
          None \<Rightarrow> acc
        | Some connectionEndpoint \<Rightarrow>
            if connectionEndpoint = [] then acc
            else if connectionEndpoint = target \<or> cfg_isStandAloneNode E
              then acc\<lparr>ds_currentNodesUserIds := addKey userId (ds_currentNodesUserIds acc)\<rparr>
              else acc\<lparr>ds_otherNodes := addOther connectionEndpoint userId (ds_otherNodes acc)\<rparr>)"

primrec sortDestinations :: "env \<Rightarrow> oid \<Rightarrow> string \<Rightarrow> bool \<Rightarrow> oid list \<Rightarrow> destinations \<Rightarrow> destinations handler" where
  "sortDestinations E orgId packet notSave [] acc = ret acc"
| "sortDestinations E orgId packet notSave (userId # userIds) acc =
     andThen (transact (listUserData E orgId userId)) (\<lambda>userConnections.
     andThen (gets (\<lambda>w. list_ex (\<lambda>(_, p). isUserInactive w None p) userConnections)) (\<lambda>isInactive.
       let isOffline = (userConnections = []);
           acc1 = (if isOffline \<or> isInactive then acc\<lparr>ds_offlineUsersIds := ds_offlineUsersIds acc @ [userId]\<rparr> else acc)
       in andThen (if isOffline \<and> \<not> notSave then andThen (savePacket E userId packet) (\<lambda>_. ret ()) else ret ()) (\<lambda>_.
            sortDestinations E orgId packet notSave userIds
              (if isOffline then acc1
               else reduceUserNodeConnections E (cfg_clusterEndpoint E) userId (map snd userConnections) acc1))))"

text \<open>
  What the packet says about its sender. Without a session on the socket (it is closing) the session is an
  object with the organization only, and the device of an undefined user is not found.
\<close>

definition senderInfo :: "env \<Rightarrow> world \<Rightarrow> oid \<Rightarrow> socket option \<Rightarrow> sender_info" where
  "senderInfo E w organizationId socket = (case socket of
      None \<Rightarrow> \<lparr>si_organizationId = organizationId, si_apiType = None, si_session = None, si_deviceId = None, si_node = cfg_clusterEndpoint E\<rparr>
    | Some ws \<Rightarrow> \<lparr>si_organizationId = organizationId, si_apiType = apiTypes w ws, si_session = getSession w ws,
        si_deviceId = (case getSession w ws of None \<Rightarrow> None | Some s \<Rightarrow> getDeviceId w ws (s_userId s)), si_node = cfg_clusterEndpoint E\<rparr>)"

definition sendToOtherNodes :: "string \<Rightarrow> (string \<times> oid list) list \<Rightarrow> world \<Rightarrow> world" where
  "sendToOtherNodes packet otherNodes w =
     w\<lparr>clusterOutbox := clusterOutbox w @ concat (map (\<lambda>(nodeEndpoint, userIds). map (\<lambda>userId. (nodeEndpoint, userId, packet)) userIds) otherNodes)\<rparr>"

definition noDestinations :: destinations where
  "noDestinations = \<lparr>ds_offlineUsersIds = [], ds_currentNodesUserIds = [], ds_otherNodes = []\<rparr>"

definition deliverToUserOrUsers ::
  "env \<Rightarrow> oid \<Rightarrow> socket option \<Rightarrow> oid list \<Rightarrow> string \<Rightarrow> bool \<Rightarrow> bool \<Rightarrow> push_options option \<Rightarrow> unit handler" where
  "deliverToUserOrUsers E organizationId socket destinationUserIds packet notSave ignoreSelf pushQueueMessage =
     (if destinationUserIds = [] then ret ()
      else andThen (gets (\<lambda>w. senderInfo E w organizationId socket)) (\<lambda>si.
        andThen (sortDestinations E organizationId packet notSave destinationUserIds noDestinations) (\<lambda>ds.
        andThen (modify (fold (\<lambda>userId. deliverToUserOnThisNode E userId (if ignoreSelf then si_deviceId si else None) packet si)
            (ds_currentNodesUserIds ds))) (\<lambda>_.
        andThen (modify (sendToOtherNodes packet (ds_otherNodes ds))) (\<lambda>_.
          case pushQueueMessage of
            None \<Rightarrow> ret ()
          | Some push \<Rightarrow> if ds_offlineUsersIds ds = [] then ret ()
              else andThen (createPush E (setRecipientIds (ds_offlineUsersIds ds) push)) (\<lambda>_. ret ()))))))"

section \<open>Protocol processor\<close>

definition processBackResponse :: "socket option \<Rightarrow> string list \<Rightarrow> world \<Rightarrow> world" where
  "processBackResponse socket backPackages w = (case socket of
     None \<Rightarrow> w | Some ws \<Rightarrow> w\<lparr>outbox := outbox w @ map (Pair ws) backPackages\<rparr>)"

text \<open>An error of a delivery is logged, its effects stay.\<close>

definition logged :: "unit handler \<Rightarrow> unit handler" where
  "logged m = (\<lambda>w. (Inr (), snd (m w)))"

definition processDeliverUserMessage :: "env \<Rightarrow> deliver_message \<Rightarrow> oid list option \<Rightarrow> unit handler" where
  "processDeliverUserMessage E m participantIds =
     logged (deliverToUserOrUsers E (dm_orgId m) (dm_socket m) (case participantIds of None \<Rightarrow> dm_userIds m | Some us \<Rightarrow> us)
       (dm_packet m) (dm_notSaveInOfflineStorage m) (dm_ignoreSelf m) (dm_pushQueueMessage m))"

text \<open>The participants are iterated in batches of 100; deliveries do not change them.\<close>

definition processDeliverConversationMessage :: "env \<Rightarrow> deliver_message \<Rightarrow> oid \<Rightarrow> unit handler" where
  "processDeliverConversationMessage E m cId =
     andThen (gets (\<lambda>w. conversationParticipantIdsIterator E w cId (dm_exceptUserIds m) 100)) (\<lambda>batches.
       andThen (forEach batches (\<lambda>participantIds.
         if participantIds = [] then ret () else processDeliverUserMessage E m (Some participantIds))) (\<lambda>_. ret ()))"

definition processDeliverMessage :: "env \<Rightarrow> socket option \<Rightarrow> deliver_message \<Rightarrow> unit handler" where
  "processDeliverMessage E socket deliverPackage =
     (let m = deliverPackage\<lparr>dm_socket := (case dm_socket deliverPackage of None \<Rightarrow> socket | Some s \<Rightarrow> Some s)\<rparr>
      in if dm_userIds m \<noteq> [] then processDeliverUserMessage E m None
         else case dm_cId m of None \<Rightarrow> ret () | Some cId \<Rightarrow> processDeliverConversationMessage E m cId)"

definition processDeliverResponse :: "env \<Rightarrow> socket option \<Rightarrow> deliver_message list \<Rightarrow> unit handler" where
  "processDeliverResponse E socket deliverPackages =
     andThen (forEach deliverPackages (processDeliverMessage E socket)) (\<lambda>_. ret ())"

text \<open>
  The organization and the user of a status response default to those of the session of the socket. The code calls this only for
  requests of a user with a session and for users that a node lost; without either, nothing is known to update.
\<close>

definition processUpdateLastActivityResponse :: "env \<Rightarrow> socket option \<Rightarrow> response \<Rightarrow> last_activity \<Rightarrow> response handler" where
  "processUpdateLastActivityResponse E socket r status = (\<lambda>w.
     let session = Option.bind socket (getSession w);
         organizationId = (case la_orgId status of Some i \<Rightarrow> Some i | None \<Rightarrow> map_option s_organizationId session);
         userId = (case la_userId status of Some i \<Rightarrow> Some i | None \<Rightarrow> map_option s_userId session)
     in case (organizationId, userId) of
          (Some orgId, Some u) \<Rightarrow>
            (case updateAndBuildUserActivity E socket orgId u (la_status status) w of
               (responses, w') \<Rightarrow> (Inr (fold Response_merge responses r), w'))
        | _ \<Rightarrow> (Inr r, w))"

definition processAPIResponse :: "env \<Rightarrow> socket option \<Rightarrow> response \<Rightarrow> unit handler" where
  "processAPIResponse E socket r =
     andThen (case rp_lastActivityStatusResponse r of None \<Rightarrow> ret r
        | Some status \<Rightarrow> processUpdateLastActivityResponse E socket r status) (\<lambda>r'.
     andThen (modify (processBackResponse socket (rp_backMessages r'))) (\<lambda>_.
       processDeliverResponse E socket (rp_deliverMessages r')))"

section \<open>Closing a socket\<close>

definition updateLastUserLastActivityOnClose :: "env \<Rightarrow> socket \<Rightarrow> unit handler" where
  "updateLastUserLastActivityOnClose E ws =
     andThen (gets (\<lambda>w. getSession w ws)) (\<lambda>session. case session of
       None \<Rightarrow> ret ()
     | Some s \<Rightarrow>
         andThen (transact (removeUserSession E ws (Some (s_userId s)) None)) (\<lambda>isWasLastUserSession.
           if \<not> isWasLastUserSession then ret ()
           else processAPIResponse E (Some ws) (buildOfflineActivityResponse (Some (s_organizationId s)) (Some (s_userId s)))))"

definition onClose :: "env \<Rightarrow> socket \<Rightarrow> unit handler" where
  "onClose E ws = updateLastUserLastActivityOnClose E ws"

end
