(* ===== verification/User_Admin.thy ===== *)
theory User_Admin
  imports Contacts Files Activity Messages
begin

text \<open>
  Accounts: the rest of \<open>UserRepository\<close> and \<open>UserService\<close> (registration, profile, search, avatars) and the operations
  \<^verbatim>\<open>create\<close>, \<^verbatim>\<open>edit\<close>, \<^verbatim>\<open>delete\<close>, \<^verbatim>\<open>list\<close> and \<^verbatim>\<open>search\<close> of \<^verbatim>\<open>app/providers/operations/user\<close>. Registering, changing
  and deleting an account keep the marks in the contact books of the others up to date.
\<close>

section \<open>Repository\<close>

definition findRegistered :: "env \<Rightarrow> world \<Rightarrow> oid \<Rightarrow> string \<Rightarrow> string option \<Rightarrow> string option \<Rightarrow> user option" where
  "findRegistered E w organizationId login email phone =
     findOne (mg_users E) (\<lambda>u. u_organization_id u = organizationId \<and>
       (u_login u = login \<or> (truthyStr email \<and> u_email u = email) \<or> (truthyStr phone \<and> u_phone u = phone))) (users w)"

text \<open>
  The search term is escaped, so the regular expression asks for it as a substring, ignoring the case of letters. A missing name matches
  nothing and is sorted before every name.
\<close>

definition lowerChar :: "char \<Rightarrow> char" where
  "lowerChar c = (if (65::nat) \<le> of_char c \<and> of_char c \<le> (90::nat) then char_of (of_char c + (32::nat)) else c)"

definition containsMatch :: "string \<Rightarrow> string \<Rightarrow> bool" where
  "containsMatch pat s = (let p = map lowerChar pat; t = map lowerChar s
     in list_ex (\<lambda>i. take (length p) (drop i t) = p) [0..<Suc (length t)])"

fun nameLess :: "string option \<Rightarrow> string option \<Rightarrow> bool" where
  "nameLess None (Some _) = True"
| "nameLess (Some a) (Some b) = (a < b)"
| "nameLess _ None = False"

definition searchOrder :: "user \<Rightarrow> user \<Rightarrow> bool" where
  "searchOrder a b \<longleftrightarrow> nameLess (u_first_name b) (u_first_name a) \<or> (u_first_name a = u_first_name b \<and>
     (nameLess (u_last_name a) (u_last_name b) \<or> (u_last_name a = u_last_name b \<and> u_login a \<le> u_login b)))"

definition searchMatches :: "string \<Rightarrow> user \<Rightarrow> bool" where
  "searchMatches keyword u \<longleftrightarrow> containsMatch keyword (u_login u)
     \<or> (case u_first_name u of None \<Rightarrow> False | Some s \<Rightarrow> containsMatch keyword s)
     \<or> (case u_last_name u of None \<Rightarrow> False | Some s \<Rightarrow> containsMatch keyword s)"

definition User_search :: "env \<Rightarrow> world \<Rightarrow> oid \<Rightarrow> string \<Rightarrow> oid list \<Rightarrow> timestamp option \<Rightarrow> nat \<Rightarrow> user list" where
  "User_search E w organizationId keyword ignoreIds timeFromUpdate lim =
     findAll (mg_users E) (\<lambda>u. u_id u \<notin> set ignoreIds \<and> u_organization_id u = organizationId \<and> searchMatches keyword u
         \<and> (case timeFromUpdate of None \<Rightarrow> True | Some t \<Rightarrow> t = 0 \<or> t < u_updated_at u)) (Some lim) (Some searchOrder) (users w)"

section \<open>Service\<close>

record user_params =
  cu_organization_id :: oid
  cu_login :: string
  cu_password :: "string option"
  cu_email :: "string option"
  cu_phone :: "string option"

definition UserService_create :: "env \<Rightarrow> user_params \<Rightarrow> user handler" where
  "UserService_create E p =
     andThen (if truthyStr (cu_password p)
        then andThen (encryptAndSetPassword E (the (cu_password p))) (\<lambda>(encryptedPassword, salt). ret (Some encryptedPassword, Some salt))
        else ret (None, None)) (\<lambda>(encrypted, salt).
     andThen (gets roundSeconds) (\<lambda>recent_activity.
       insertInto (mg_users E) users users_update (\<lambda>now i.
         \<lparr>u_id = i, u_organization_id = cu_organization_id p, u_login = cu_login p, u_email = cu_email p, u_phone = cu_phone p,
          u_first_name = None, u_last_name = None, u_encrypted_password = encrypted, u_password_salt = salt, u_avatar_object = None,
          u_recent_activity = recent_activity, u_created_at = now, u_updated_at = now\<rparr>)))"

record user_update =
  eu_current_password :: "string option"
  eu_new_password :: "string option"
  eu_email :: "string option"
  eu_phone :: "string option"
  eu_login :: "string option"
  eu_first_name :: "string option"
  eu_last_name :: "string option"
  eu_avatar_object :: "(string \<times> json) list option"

definition setUser :: "user_update \<Rightarrow> (string \<times> string) option \<Rightarrow> timestamp \<Rightarrow> user \<Rightarrow> user" where
  "setUser p password now u = u\<lparr>u_email := orKeep (eu_email p) (u_email u), u_phone := orKeep (eu_phone p) (u_phone u),
     u_login := (case eu_login p of None \<Rightarrow> u_login u | Some l \<Rightarrow> l), u_first_name := orKeep (eu_first_name p) (u_first_name u),
     u_last_name := orKeep (eu_last_name p) (u_last_name u), u_avatar_object := orKeep (eu_avatar_object p) (u_avatar_object u),
     u_encrypted_password := orKeep (map_option fst password) (u_encrypted_password u),
     u_password_salt := orKeep (map_option snd password) (u_password_salt u), u_updated_at := now\<rparr>"

definition newPassword :: "env \<Rightarrow> user \<Rightarrow> user_update \<Rightarrow> (string \<times> string) option handler" where
  "newPassword E user p =
     (if \<not> truthyStr (eu_new_password p) then ret None
      else andThen (if \<not> truthyStr (eu_current_password p) then ret False else validatePassword E user (the (eu_current_password p)))
        (\<lambda>isValid. if \<not> isValid then throw (Status INCORRECT_CURRENT_PASSWORD)
           else andThen (encryptAndSetPassword E (the (eu_new_password p))) (\<lambda>pw. ret (Some pw))))"

definition UserService_update :: "env \<Rightarrow> user \<Rightarrow> user_update \<Rightarrow> user handler" where
  "UserService_update E user p =
     andThen (newPassword E user p) (\<lambda>password.
     andThen (transact (\<lambda>w.
         let (u, us) = findOneAndUpdate (mg_users E) (\<lambda>u. u_id u = u_id user) (setUser p password (clock w)) (users w)
         in (u, w\<lparr>users := us\<rparr>))) (\<lambda>updatedUser. case updatedUser of
       None \<Rightarrow> throw (Status USER_ALREADY_EXISTS)
     | Some u \<Rightarrow> ret u))"

section \<open>Operations\<close>

definition UserCreate_perform :: "env \<Rightarrow> user_params \<Rightarrow> user handler" where
  "UserCreate_perform E p =
     andThen (gets (\<lambda>w. isExist E w (cu_organization_id p))) (\<lambda>isOrgExist.
       if \<not> isOrgExist then throw (Status ORG_NOT_FOUND)
       else andThen (gets (\<lambda>w. isUserFromBlocked E w (cu_organization_id p))) (\<lambda>isBlocked.
         if isBlocked then throw (Status ORGANIZATION_BLOCKED)
         else andThen (gets (\<lambda>w. findRegistered E w (cu_organization_id p) (cu_login p) (cu_email p) (cu_phone p))) (\<lambda>existingUser.
           if existingUser \<noteq> None then throw (Status USER_ALREADY_EXISTS)
           else andThen (UserService_create E p) (\<lambda>createdUser.
             andThen (matchUserWithContactOnCreate E (u_organization_id createdUser) (u_id createdUser) (u_phone createdUser) (u_email createdUser))
               (\<lambda>_. ret createdUser)))))"

definition UserEdit_perform :: "env \<Rightarrow> socket \<Rightarrow> user_update \<Rightarrow> user handler" where
  "UserEdit_perform E ws p =
     andThen (gets (\<lambda>w. case getSessionUserId w ws of None \<Rightarrow> None | Some i \<Rightarrow> User_findById E w i)) (\<lambda>found. case found of
       None \<Rightarrow> throw (Status USER_LOGIN_OR_PASS)
     | Some currentUser \<Rightarrow> andThen (UserService_update E currentUser p) (\<lambda>updatedUser.
         andThen (matchUserWithContactOnUpdate E (u_organization_id updatedUser) (u_id updatedUser) (u_phone updatedUser) (u_email updatedUser)
             (u_phone currentUser) (u_email currentUser))
           (\<lambda>_. ret updatedUser)))"

definition UserDelete_perform :: "env \<Rightarrow> socket \<Rightarrow> oid handler" where
  "UserDelete_perform E ws =
     andThen (gets (\<lambda>w. getSessionUserId w ws)) (\<lambda>session. case session of
       None \<Rightarrow> throw (Status FORBIDDEN)
     | Some userId \<Rightarrow>
         andThen (modify (unsubscribeObserver E userId)) (\<lambda>_.
         andThen (modify (removeAllUserSessions E ws)) (\<lambda>_.
         andThen (gets (\<lambda>w. User_findById E w userId)) (\<lambda>found. case found of
           None \<Rightarrow> throw (Status FORBIDDEN)
         | Some user \<Rightarrow>
             andThen (modify (deleteAllBlocks E (u_id user))) (\<lambda>_.
             andThen (matchUserWithContactOnDelete E (u_organization_id user) (u_id user) (u_phone user) (u_email user)) (\<lambda>_.
             andThen (modify (\<lambda>w. w\<lparr>users := deleteById u_id (mg_users E) (u_id user) (users w)\<rparr>)) (\<lambda>_. ret userId)))))))"

definition UserList_perform :: "env \<Rightarrow> socket \<Rightarrow> oid list \<Rightarrow> json list handler" where
  "UserList_perform E ws userIds =
     andThen (sessionOf ws) (\<lambda>s.
     andThen (gets (\<lambda>w. findWithOrgScopeByIds E w (s_organizationId s) userIds)) (\<lambda>us.
     andThen (addAvatarUrl E us) (\<lambda>usersWithAvatars. ret (map visibleUserWithAvatar usersWithAvatars))))"

record search_params =
  se_keyword :: string
  se_ignore_ids :: "oid list"
  se_updated_at_gt :: "timestamp option"
  se_limit :: "nat option"

definition searchLimit :: "env \<Rightarrow> nat option \<Rightarrow> nat" where
  "searchLimit E lim = (case lim of
      None \<Rightarrow> cfg_searchLimit E
    | Some n \<Rightarrow> if n > cfg_searchLimit E then cfg_searchLimit E else if n = 0 then cfg_searchLimit E else n)"

definition UserSearch_perform :: "env \<Rightarrow> socket \<Rightarrow> search_params \<Rightarrow> json list handler" where
  "UserSearch_perform E ws p =
     andThen (sessionOf ws) (\<lambda>s.
     andThen (gets (\<lambda>w. User_search E w (s_organizationId s) (se_keyword p) (s_userId s # se_ignore_ids p) (se_updated_at_gt p)
         (searchLimit E (se_limit p)))) (\<lambda>us.
     andThen (addAvatarUrl E us) (\<lambda>usersWithAvatars. ret (map visibleUserWithAvatar usersWithAvatars))))"

end
