(* ===== verification/Online.thy ===== *)
theory Online
  imports BlockList
begin

text \<open>
  The list of online users: the paged scans of \<^verbatim>\<open>app/lib/redis.js\<close>, the queries of \<open>SessionService\<close> on one node and over the
  cluster, and \<open>OnlineListOperation\<close>. A scan ends when Redis gives the cursor 0 back, which nothing in the code guarantees: the loops are
  partial functions, \<open>None\<close> means that they run forever, and that they end is a theorem.
\<close>

section \<open>Scanning Redis\<close>

text \<open>The loop over the items of one page; the flag tells that the limit was reached, which returns from the whole scan.\<close>

primrec scanItems :: "nat \<Rightarrow> nat \<Rightarrow> string list \<Rightarrow> string list \<Rightarrow> nat \<Rightarrow> bool \<times> string list \<times> nat" where
  "scanItems offset lim [] results scanned = (False, results, scanned)"
| "scanItems offset lim (item # items) results scanned =
     (if offset \<le> scanned
      then if lim \<le> length (results @ [item]) then (True, results @ [item], scanned)
           else scanItems offset lim items (results @ [item]) (Suc scanned)
      else scanItems offset lim items results (Suc scanned))"

partial_function (option) scanLoop ::
  "redis_ops \<Rightarrow> redis_type \<Rightarrow> string \<Rightarrow> redis_store \<Rightarrow> nat \<Rightarrow> nat \<Rightarrow> nat \<Rightarrow> string list \<Rightarrow> nat \<Rightarrow> string list option" where
  "scanLoop R ty p st offset lim cursor results scanned =
     (let (cursor', items) = rd_scan R cursor ty p st;
          (isFull, results', scanned') = scanItems offset lim items results scanned
      in if isFull then Some results'
         else if cursor' \<noteq> 0 then scanLoop R ty p st offset lim cursor' results' scanned'
         else Some results')"

definition scanWithPagination :: "redis_ops \<Rightarrow> redis_type \<Rightarrow> string \<Rightarrow> nat \<Rightarrow> nat \<Rightarrow> redis_store \<Rightarrow> string list option" where
  "scanWithPagination R ty p offset lim st = scanLoop R ty p st offset lim 0 [] 0"

partial_function (option) countLoop :: "redis_ops \<Rightarrow> redis_type \<Rightarrow> string \<Rightarrow> redis_store \<Rightarrow> nat \<Rightarrow> nat \<Rightarrow> nat option" where
  "countLoop R ty p st cursor matchCount =
     (let (cursor', items) = rd_scan R cursor ty p st
      in if cursor' \<noteq> 0 then countLoop R ty p st cursor' (matchCount + length items) else Some (matchCount + length items))"

definition countWithMatch :: "redis_ops \<Rightarrow> redis_type \<Rightarrow> string \<Rightarrow> redis_store \<Rightarrow> nat option" where
  "countWithMatch R ty p st = countLoop R ty p st 0 0"

section \<open>Online users\<close>

definition usersPattern :: "oid \<Rightarrow> string" where
  "usersPattern organizationId = usersSetCacheKey organizationId []"

text \<open>The users without an actual device are dropped, and the listing cleans up after them.\<close>

primrec dropOffline :: "env \<Rightarrow> oid \<Rightarrow> oid list \<Rightarrow> oid list \<Rightarrow> world \<Rightarrow> oid list \<times> world" where
  "dropOffline E organizationId [] actual w = (actual, w)"
| "dropOffline E organizationId (u # us) actual w =
     (let (actualDevices, w1) = listUserDevice E organizationId u True w
      in dropOffline E organizationId us (if actualDevices = [] then filter (\<lambda>v. v \<noteq> u) actual else actual) w1)"

definition onlineUsersListWithNode :: "env \<Rightarrow> oid \<Rightarrow> nat \<Rightarrow> nat \<Rightarrow> world \<Rightarrow> (oid list \<times> world) option" where
  "onlineUsersListWithNode E organizationId offset lim w =
     (case scanWithPagination (rd E) SetType (usersPattern organizationId) offset lim (redis w) of
        None \<Rightarrow> None
      | Some userKeys \<Rightarrow> let userIds = map (\<lambda>userKey. last (split_on (CHR '':'') userKey)) userKeys
                         in Some (dropOffline E organizationId userIds (js_set userIds) w))"

definition onlineUsersCountWithNodes :: "env \<Rightarrow> world \<Rightarrow> oid \<Rightarrow> nat option" where
  "onlineUsersCountWithNodes E w organizationId = countWithMatch (rd E) SetType (usersPattern organizationId) (redis w)"

text \<open>
  On a single node. The comparison function subtracts identifiers, whose order is up to the runtime: \<open>sortIds\<close> stands for the
  result of sorting with it.
\<close>

definition retrieveLocalActiveSessionUserIds :: "(oid list \<Rightarrow> oid list) \<Rightarrow> world \<Rightarrow> oid \<Rightarrow> oid list" where
  "retrieveLocalActiveSessionUserIds sortIds w organizationId =
     js_set (sortIds (map (\<lambda>(_, s). s_userId s) (filter (\<lambda>(_, s). s_organizationId s = organizationId
        \<and> s_extraParams s SESSION_DEVICE_ID_KEY \<noteq> Some HTTP_DEVICE_ID \<and> s_userId s \<noteq> [] \<and> listUserDeviceLocal w (s_userId s) \<noteq> []) (SESSIONS w))))"

definition onlineUsersListLocal :: "(oid list \<Rightarrow> oid list) \<Rightarrow> world \<Rightarrow> oid \<Rightarrow> nat \<Rightarrow> nat \<Rightarrow> oid list" where
  "onlineUsersListLocal sortIds w organizationId offset lim =
     take (offset + lim - offset) (drop offset (retrieveLocalActiveSessionUserIds sortIds w organizationId))"

definition onlineUsersCountLocal :: "(oid list \<Rightarrow> oid list) \<Rightarrow> world \<Rightarrow> oid \<Rightarrow> nat" where
  "onlineUsersCountLocal sortIds w organizationId = length (retrieveLocalActiveSessionUserIds sortIds w organizationId)"

definition onlineUsersList :: "env \<Rightarrow> (oid list \<Rightarrow> oid list) \<Rightarrow> oid \<Rightarrow> nat option \<Rightarrow> nat option \<Rightarrow> world \<Rightarrow> (oid list \<times> world) option" where
  "onlineUsersList E sortIds organizationId offsetParam limParam w =
     (let offset = (case offsetParam of None \<Rightarrow> 0 | Some n \<Rightarrow> n); lim = (case limParam of None \<Rightarrow> 10 | Some n \<Rightarrow> n)
      in if cfg_isStandAloneNode E then Some (onlineUsersListLocal sortIds w organizationId offset lim, w)
         else onlineUsersListWithNode E organizationId offset lim w)"

definition onlineUsersCount :: "env \<Rightarrow> (oid list \<Rightarrow> oid list) \<Rightarrow> world \<Rightarrow> oid \<Rightarrow> nat option" where
  "onlineUsersCount E sortIds w organizationId =
     (if cfg_isStandAloneNode E then Some (onlineUsersCountLocal sortIds w organizationId) else onlineUsersCountWithNodes E w organizationId)"

datatype online_result = OnlineCount nat | OnlineIds "oid list" | OnlineUsers "user list"

record online_params =
  op_count :: bool
  op_idsOnly :: bool
  op_offset :: "nat option"
  op_limit :: "nat option"

definition OnlineList_perform ::
  "env \<Rightarrow> (oid list \<Rightarrow> oid list) \<Rightarrow> socket \<Rightarrow> online_params \<Rightarrow> world \<Rightarrow> ((exn + online_result) \<times> world) option" where
  "OnlineList_perform E sortIds ws p w = (case getSession w ws of
      None \<Rightarrow> Some (Inl TypeError, w)
    | Some s \<Rightarrow>
        if op_count p then map_option (\<lambda>n. (Inr (OnlineCount n), w)) (onlineUsersCount E sortIds w (s_organizationId s))
        else map_option (\<lambda>(userIds, w1).
            if op_idsOnly p then (Inr (OnlineIds userIds), w1)
            else (Inr (OnlineUsers (findAllByIds u_id (mg_users E) userIds None (users w1))), w1))
          (onlineUsersList E sortIds (s_organizationId s) (op_offset p) (op_limit p) w))"

definition HttpActivityOnlineList_perform ::
  "env \<Rightarrow> (oid list \<Rightarrow> oid list) \<Rightarrow> socket \<Rightarrow> oid \<Rightarrow> oid \<Rightarrow> online_params \<Rightarrow> world \<Rightarrow> ((exn + online_result) \<times> world) option" where
  "HttpActivityOnlineList_perform E sortIds res organizationId userId p w =
     OnlineList_perform E sortIds res p (snd (addUserDeviceConnection res organizationId userId HTTP_DEVICE_ID w))"

section \<open>The scans end\<close>

text \<open>What the first \<open>n\<close> calls of \<open>SCAN\<close> list, and the number of calls until the cursor is 0.\<close>

definition pages :: "redis_ops \<Rightarrow> redis_type \<Rightarrow> string \<Rightarrow> redis_store \<Rightarrow> nat \<Rightarrow> string list" where
  "pages R ty p st n = concat (map (\<lambda>i. snd (rd_scan R (scan_cursor R ty p st i) ty p st)) [0..<n])"

definition calls :: "redis_ops \<Rightarrow> redis_type \<Rightarrow> string \<Rightarrow> redis_store \<Rightarrow> nat" where
  "calls R ty p st = (LEAST n. 0 < n \<and> scan_cursor R ty p st n = 0)"

lemma pages_Suc: "pages R ty p st (Suc n) = pages R ty p st n @ snd (rd_scan R (scan_cursor R ty p st n) ty p st)"
  by (simp add: pages_def)

lemma calls:
  assumes "scan_ok R"
  shows "0 < calls R ty p st" "scan_cursor R ty p st (calls R ty p st) = 0"
    "0 < k \<Longrightarrow> k < calls R ty p st \<Longrightarrow> scan_cursor R ty p st k \<noteq> 0"
proof -
  let ?P = "\<lambda>n. 0 < n \<and> scan_cursor R ty p st n = 0"
  from assms[unfolded scan_ok_def, rule_format, of ty p st] obtain n where "?P n" by blast
  then have "?P (calls R ty p st)" unfolding calls_def by (rule LeastI)
  then show "0 < calls R ty p st" "scan_cursor R ty p st (calls R ty p st) = 0" by (rule conjunct1, rule conjunct2)
  show "0 < k \<Longrightarrow> k < calls R ty p st \<Longrightarrow> scan_cursor R ty p st k \<noteq> 0"
    unfolding calls_def by (metis (mono_tags, lifting) not_less_Least)
qed

lemma scanItems_page:
  "length (drop offset seen) < max 1 lim \<Longrightarrow> length (drop offset (seen @ items)) < max 1 lim \<Longrightarrow>
   scanItems offset lim items (drop offset seen) (length seen) = (False, drop offset (seen @ items), length (seen @ items))"
proof (induction items arbitrary: seen)
  case (Cons item items)
  have "length (drop offset (seen @ [item])) < max 1 lim" using Cons.prems(2) by auto
  from Cons.IH[OF this] Cons.prems(2) this show ?case by auto
qed simp

lemma scanItems_full:
  "length (drop offset seen) < max 1 lim \<Longrightarrow> max 1 lim \<le> length (drop offset (seen @ items)) \<Longrightarrow>
   \<exists>n. scanItems offset lim items (drop offset seen) (length seen) = (True, take (max 1 lim) (drop offset (seen @ items)), n)"
proof (induction items arbitrary: seen)
  case Nil
  then show ?case by (metis append_Nil2 not_le)
next
  case (Cons item items)
  show ?case
  proof (cases "max 1 lim \<le> length (drop offset (seen @ [item]))")
    case True
    with Cons.prems(1) have off: "offset \<le> length seen" by (auto split: if_splits)
    with True Cons.prems(1) have len: "max 1 lim = length (drop offset seen @ [item])" by auto
    then have "take (max 1 lim) (drop offset (seen @ item # items)) = drop offset seen @ [item]" using off by simp
    moreover have "lim \<le> length (drop offset seen @ [item])" using len by simp
    ultimately show ?thesis using off by simp
  next
    case False
    then have "length (drop offset (seen @ [item])) < max 1 lim" by (simp only: not_le)
    from Cons.IH[OF this] Cons.prems(2) have "\<exists>n. scanItems offset lim items (drop offset (seen @ [item])) (length (seen @ [item]))
        = (True, take (max 1 lim) (drop offset (seen @ item # items)), n)" by simp
    with False show ?thesis by auto
  qed
qed

lemma scanLoop_run:
  assumes "scan_ok R" "i < calls R ty p st" "length (drop offset (pages R ty p st i)) < max 1 lim"
  shows "scanLoop R ty p st offset lim (scan_cursor R ty p st i) (drop offset (pages R ty p st i)) (length (pages R ty p st i))
    = Some (take (max 1 lim) (drop offset (pages R ty p st (calls R ty p st))))"
  using assms(2,3)
proof (induction "calls R ty p st - i" arbitrary: i)
  case (Suc n)
  let ?c = "calls R ty p st" and ?items = "snd (rd_scan R (scan_cursor R ty p st i) ty p st)"
  let ?all = "pages R ty p st"
  have next_page: "?all (Suc i) = ?all i @ ?items" by (rule pages_Suc)
  have more: "\<exists>zs. ?all ?c = ?all (Suc i) @ zs"
  proof -
    have "[0..<?c] = [0..<Suc i] @ [Suc i..<?c]" using Suc.prems(1) upt_add_eq_append[of 0 "Suc i" "?c - Suc i"] by simp
    then show ?thesis unfolding pages_def by (metis concat_append map_append)
  qed
  note full = scanItems_full[OF Suc.prems(2), of ?items] and page = scanItems_page[OF Suc.prems(2), of ?items]
  show ?case
  proof (cases "max 1 lim \<le> length (drop offset (?all (Suc i)))")
    case True
    with more have "take (max 1 lim) (drop offset (?all ?c)) = take (max 1 lim) (drop offset (?all (Suc i)))" by auto
    moreover obtain n where "scanItems offset lim ?items (drop offset (?all i)) (length (?all i))
        = (True, take (max 1 lim) (drop offset (?all (Suc i))), n)" using full True next_page by auto
    ultimately show ?thesis by (subst scanLoop.simps) (simp add: split_beta Let_def flip: scan_cursor.simps(2) del: scan_cursor.simps(2))
  next
    case False
    then have pg: "scanItems offset lim ?items (drop offset (?all i)) (length (?all i)) = (False, drop offset (?all (Suc i)), length (?all (Suc i)))"
      by (intro page[folded next_page]) (simp only: not_le)
    have step: "scanLoop R ty p st offset lim (scan_cursor R ty p st i) (drop offset (?all i)) (length (?all i)) =
        (if scan_cursor R ty p st (Suc i) \<noteq> 0
         then scanLoop R ty p st offset lim (scan_cursor R ty p st (Suc i)) (drop offset (?all (Suc i))) (length (?all (Suc i)))
         else Some (drop offset (?all (Suc i))))"
      by (subst scanLoop.simps) (simp add: pg split_beta Let_def flip: scan_cursor.simps(2) del: scan_cursor.simps(2))
    show ?thesis
    proof (cases "Suc i = ?c")
      case True
      have "take (max 1 lim) (drop offset (?all ?c)) = drop offset (?all ?c)" using False unfolding True by (intro take_all less_imp_le) (simp only: not_le)
      with True calls(2)[OF assms(1), of ty p st] step show ?thesis by simp
    next
      case neq: False
      with Suc.prems(1) have lt: "Suc i < ?c" by simp
      have n: "n = ?c - Suc i" using Suc.hyps(2) by simp
      have short: "length (drop offset (?all (Suc i))) < max 1 lim" using False by (simp only: not_le)
      have "scan_cursor R ty p st (Suc i) \<noteq> 0" using calls(3)[OF assms(1) _ lt] by blast
      then show ?thesis using step Suc.hyps(1)[OF n lt short] by (simp only: if_True simp_thms)
    qed
  qed
qed simp

lemma countLoop_run:
  assumes "scan_ok R" "i < calls R ty p st"
  shows "countLoop R ty p st (scan_cursor R ty p st i) (length (pages R ty p st i)) = Some (length (pages R ty p st (calls R ty p st)))"
  using assms(2)
proof (induction "calls R ty p st - i" arbitrary: i)
  case (Suc n)
  let ?c = "calls R ty p st"
  have step: "countLoop R ty p st (scan_cursor R ty p st i) (length (pages R ty p st i)) =
      (if scan_cursor R ty p st (Suc i) \<noteq> 0
       then countLoop R ty p st (scan_cursor R ty p st (Suc i)) (length (pages R ty p st (Suc i)))
       else Some (length (pages R ty p st (Suc i))))"
    by (subst countLoop.simps) (simp add: pages_Suc split_beta Let_def)
  show ?case
  proof (cases "Suc i = ?c")
    case True
    with calls(2)[OF assms(1), of ty p st] step show ?thesis by simp
  next
    case False
    with Suc.prems have "Suc i < ?c" by simp
    with calls(3)[OF assms(1) _ this] step Suc.hyps(1)[of "Suc i"] Suc.hyps(2) show ?thesis by simp
  qed
qed simp

lemma pages_keys:
  assumes "scan_ok R"
  shows "set (pages R ty p st (calls R ty p st)) \<subseteq> {k \<in> set (rs_keys st). take (length p) k = p \<and> hasType ty st k}"
proof -
  from assms obtain n where n: "0 < n" "scan_cursor R ty p st n = 0"
    "(\<Union>i < n. set (snd (rd_scan R (scan_cursor R ty p st i) ty p st))) = {k \<in> set (rs_keys st). take (length p) k = p \<and> hasType ty st k}"
    unfolding scan_ok_def by blast
  then have "calls R ty p st \<le> n" unfolding calls_def by (intro Least_le) simp
  then have "set (pages R ty p st (calls R ty p st)) \<subseteq> (\<Union>i < n. set (snd (rd_scan R (scan_cursor R ty p st i) ty p st)))"
    by (fastforce simp: pages_def)
  with n(3) show ?thesis by simp
qed



end
