(* ===== verification/Assistant.thy ===== *)
theory Assistant
  imports Message_Ops
begin

text \<open>
  The two requests that a language model answers: the summary of a conversation and a text in another tone
  (\<^verbatim>\<open>app/providers/operations/message/summary\<close>, \<^verbatim>\<open>tone\<close>). \<open>generateText\<close> stands for the service that is asked; it may fail. Neither request
  changes the state.
\<close>

definition SUMMARY_AI_PROMPT :: string where
  "SUMMARY_AI_PROMPT =
     ''You are a helpful assistant. Please provide a concise summary of the following chat messages in en. Use bullet points or a short paragraph. ''
     @ ''Focus on meaningful conversation and skip system messages or irrelevant technical info. Each line is a message from a participant. ''
     @ ''If a message includes attachments (serialized as JSON), try to understand what they are and include relevant info in the summary ''
     @ [CHR 0xE2, CHR 0x80, CHR 0x94]
     @ '' for example, if it contains an image, video, or file name. Messages: ''"

definition SUMMARY_AI_DEFAULT_RETURN_MESSAGE :: string where
  "SUMMARY_AI_DEFAULT_RETURN_MESSAGE = ''There are no messages to process in this chat.''"

definition MESSAGE_TONE_AI_PROMPT :: string where
  "MESSAGE_TONE_AI_PROMPT =
     ''Use its original language, or en if unclear. Avoid using italicized emotional interjections. Instead, express the same emotions directly ''
     @ ''using plain text or appropriate emojis. Keep all meaning. Output only the rewritten text.''"

definition Summary_hasAccess :: "env \<Rightarrow> oid \<Rightarrow> oid \<Rightarrow> oid \<Rightarrow> unit handler" where
  "Summary_hasAccess E organizationId conversationId currentUserId =
     andThen (gets (\<lambda>w. hasAccessToConversation E w organizationId conversationId currentUserId)) (\<lambda>a.
       case ac_conversation a of
         None \<Rightarrow> throw (Status CONVERSATION_NOT_FOUND)
       | Some c \<Rightarrow> if c_type c = Channel then throw (Status FORBIDDEN)
           else if \<not> ac_asParticipant a then throw (Status FORBIDDEN) else ret ())"

definition messagesSince :: "env \<Rightarrow> oid \<Rightarrow> oid \<Rightarrow> nat \<Rightarrow> message list handler" where
  "messagesSince E cid currentUserId span =
     gets (\<lambda>w. MessageRepo_list E w cid currentUserId (noOptions\<lparr>lo_updatedAtFrom := Some (clock w - span)\<rparr>) None)"

definition filteredMessages :: "env \<Rightarrow> oid \<Rightarrow> oid \<Rightarrow> string option \<Rightarrow> message list handler" where
  "filteredMessages E cid currentUserId filterName =
     (if filterName = Some ''last-7-days'' then messagesSince E cid currentUserId 604800000
      else if filterName = Some ''last-day'' then messagesSince E cid currentUserId 86400000
      else if filterName = Some ''unreads'' then getUnreadMessages E cid currentUserId
      else ret [])"

text \<open>A message without a body is an empty line; an author who is not found has no name to show.\<close>

definition summaryLine :: "user list \<Rightarrow> message \<Rightarrow> string handler" where
  "summaryLine us m = (case m_body m of
      None \<Rightarrow> ret []
    | Some body \<Rightarrow> if body = [] then ret []
        else andThen (need (List.find (\<lambda>u. u_id u = m_from m) us)) (\<lambda>user. ret (''- '' @ getDisplayName user @ '': '' @ body)))"

definition trim :: "string \<Rightarrow> string" where
  "trim s = (let white = (\<lambda>c. c \<in> {CHR '' '', CHR 0x09, CHR 0x0A, CHR 0x0D})
     in rev (dropWhile white (rev (dropWhile white s))))"

definition askModel :: "env \<Rightarrow> string \<Rightarrow> string handler" where
  "askModel E prompt = (case generateText E prompt of None \<Rightarrow> throw (Status AI_AGENT_ERROR) | Some answer \<Rightarrow> ret answer)"

definition MessageSummary_perform :: "env \<Rightarrow> socket \<Rightarrow> oid \<Rightarrow> string option \<Rightarrow> string handler" where
  "MessageSummary_perform E ws cid filterName =
     andThen (sessionOf ws) (\<lambda>s.
     andThen (Summary_hasAccess E (s_organizationId s) cid (s_userId s)) (\<lambda>_.
     andThen (filteredMessages E cid (s_userId s) filterName) (\<lambda>ms.
       if ms = [] then ret SUMMARY_AI_DEFAULT_RETURN_MESSAGE
       else andThen (gets (\<lambda>w. findWithOrgScopeByIds E w (s_organizationId s) (map m_from ms))) (\<lambda>us.
         andThen (forEach ms (summaryLine us)) (\<lambda>lines.
           askModel E (trim (SUMMARY_AI_PROMPT @ join_with (CHR 0x0A) lines)))))))"

definition MessageTone_perform :: "env \<Rightarrow> socket \<Rightarrow> string \<Rightarrow> string option \<Rightarrow> string handler" where
  "MessageTone_perform E ws body tone =
     askModel E (''Rewrite the text '' @ [CHR 0x22] @ body @ [CHR 0x22] @ '' in '' @ (case tone of None \<Rightarrow> ''undefined'' | Some t \<Rightarrow> t)
       @ '' tone.'' @ MESSAGE_TONE_AI_PROMPT)"

end
