(* ===== verification/Controllers.thy ===== *)
theory Controllers
  imports Views Delivery User_Admin Online Assistant
begin

text \<open>
  The controllers of the JSON API (\<^verbatim>\<open>src/APIs/JSON/controllers\<close>), one definition per method: the data of the request is read, the operation performed
  and its result turned into a \<open>Response\<close>: packages for the socket that asked and packets for others. \<open>data\<close> is the request,
  whose property with the name of the request holds the parameters and whose \<open>id\<close> is repeated in the answer.
\<close>

section \<open>Answers\<close>

record api_response =
  ar_backMessages :: "json list"
  ar_deliverMessages :: "(json \<times> deliver_message) list"
  ar_lastActivity :: "last_activity option"

definition apiResponse :: "json list \<Rightarrow> (json \<times> deliver_message) list \<Rightarrow> api_response" where
  "apiResponse backMessages deliverMessages =
     \<lparr>ar_backMessages = backMessages, ar_deliverMessages = deliverMessages, ar_lastActivity = None\<rparr>"

definition responsePacket :: "json \<Rightarrow> (string \<times> json) list \<Rightarrow> json" where
  "responsePacket data ps = JObj [(''response'', JObj (withProp ''id'' (getProp ''id'' (Some data)) ps))]"

definition answer :: "json \<Rightarrow> (string \<times> json) list \<Rightarrow> api_response" where
  "answer data ps = apiResponse [responsePacket data ps] []"

definition success :: "json \<Rightarrow> api_response" where
  "success data = answer data [(''success'', JBool True)]"

definition deliver :: "oid \<Rightarrow> bool \<Rightarrow> json \<Rightarrow> (deliver_message \<Rightarrow> deliver_message) \<Rightarrow> json \<times> deliver_message" where
  "deliver orgId notSave packet destination = (packet, destination (DeliverMessage orgId [] notSave))"

definition toUsers :: "oid list option \<Rightarrow> deliver_message \<Rightarrow> deliver_message" where
  "toUsers userIds = setUsersDestination (idsOf userIds) None"

definition toConversation :: "oid option \<Rightarrow> deliver_message \<Rightarrow> deliver_message" where
  "toConversation cId = setConversationDestination cId None"

definition withActivity :: "oid \<Rightarrow> oid \<Rightarrow> activity_status \<Rightarrow> api_response \<Rightarrow> api_response" where
  "withActivity orgId userId status r = r\<lparr>ar_lastActivity := Some \<lparr>la_orgId = Some orgId, la_userId = Some userId, la_status = status\<rparr>\<rparr>"

definition params :: "string \<Rightarrow> json \<Rightarrow> json option" where
  "params name data = getProp name (Some data)"

text \<open>A time of a request: zero is falsy and no limit.\<close>

definition timeParam :: "string \<Rightarrow> json option \<Rightarrow> timestamp option handler" where
  "timeParam k data = andThen (optional readNumber k data) (\<lambda>t. ret (if t = Some 0 then None else t))"

section \<open>Messages and typing\<close>

definition messageParams :: "json option \<Rightarrow> message_params handler" where
  "messageParams p =
     andThen (optional readText ''id'' p) (\<lambda>i. andThen (required readText ''cid'' p) (\<lambda>cid.
     andThen (optional readText ''body'' p) (\<lambda>body. andThen (optional (readList Some) ''attachments'' p) (\<lambda>attachments.
     andThen (optional readObject ''x'' p) (\<lambda>x. andThen (optional readText ''replied_message_id'' p) (\<lambda>replied.
     andThen (optional readText ''forwarded_message_id'' p) (\<lambda>forwarded.
     andThen (optional readNumber ''encrypted_message_type'' p) (\<lambda>encryptedType.
     andThen (optional (readList readText) ''deleted_for'' p) (\<lambda>deletedFor.
       ret \<lparr>mp_id = i, mp_cid = cid, mp_body = body, mp_attachments = attachments, mp_x = x, mp_replied_message_id = replied,
         mp_forwarded_message_id = forwarded, mp_encrypted_message_type = encryptedType, mp_deleted_for = idsOf deletedFor\<rparr>)))))))))"

text \<open>
  The message of the bot is answered as the model is. Its object \<open>x\<close> keeps the type of the conversation when the operation had to create it.
\<close>

definition wholeBotMessage :: "conv_type \<Rightarrow> message \<Rightarrow> json" where
  "wholeBotMessage cType m = JObj ([(''x'', JObj (case m_x m of None \<Rightarrow> [(''c_type'', JStr (typeCode cType))] | Some x \<Rightarrow> withoutType x)),
     (''_id'', JStr (m_id m)), (''cid'', JStr (m_cid m))] @ jopt ''body'' (m_body m) @ japp ''attachments'' JArr (m_attachments m) @
     jopt ''replied_message_id'' (m_replied_message_id m) @ jopt ''forwarded_message_id'' (m_forwarded_message_id m) @
     (if m_deleted_for m = [] then [] else [(''deleted_for'', jids (m_deleted_for m))]) @
     japp ''encrypted_message_type'' jnat (m_encrypted_message_type m) @ [(''from'', JStr (m_from m)),
     (''organization_id'', JStr (m_organization_id m)), (''t'', jnat (m_t m)),
     (''created_at'', jnat (m_created_at m)), (''updated_at'', jnat (m_updated_at m))])"

definition askPacket :: "create_result \<Rightarrow> json" where
  "askPacket r = JObj [(''ask'', JObj (jopt ''mid'' (cr_messageId r) @ [(''server_mid'', JStr (m_id (cr_message r))), (''t'', jnat (m_t (cr_message r))),
     (''modified'', case cr_modifiedFields r of None \<Rightarrow> JNull
        | Some (body, attachments) \<Rightarrow> JObj (jopt ''body'' body @ japp ''attachments'' JArr attachments)),
     (''bot_message'', case cr_botMessage r of None \<Rightarrow> JNull | Some (m, cType) \<Rightarrow> wholeBotMessage cType m)]))]"

definition createdDelivery :: "create_result \<Rightarrow> event \<Rightarrow> json \<times> deliver_message" where
  "createdDelivery r ev = deliver (cr_organizationId r) False (createPacket (ev_message ev)) (\<lambda>m.
     toConversation (Some (cr_cId r)) (toUsers (case ev_participantIds ev of Some us \<Rightarrow> Some us | None \<Rightarrow> cr_participantIds r)
       (addPushQueueMessage (Some (pushOptions (ev_notification ev))) m)))"

definition MessagesController_create :: "env \<Rightarrow> socket \<Rightarrow> json \<Rightarrow> api_response handler" where
  "MessagesController_create E ws data =
     andThen (messageParams (params ''message'' data)) (\<lambda>p.
     andThen (MessageCreate_perform E ws p) (\<lambda>r.
       ret (apiResponse [askPacket r] (map (createdDelivery r) (cr_deliverMessages r)))))"

definition MessagesController_sendSystem :: "env \<Rightarrow> socket \<Rightarrow> json \<Rightarrow> api_response handler" where
  "MessagesController_sendSystem E ws data = (let p = params ''system_message'' data in
     andThen (required readText ''id'' p) (\<lambda>i. andThen (optional readText ''cid'' p) (\<lambda>cid.
     andThen (required Some ''x'' p) (\<lambda>x. andThen (optional (readList readText) ''uids'' p) (\<lambda>uids.
     andThen (if cid = None \<and> uids = None then throw TypeError else ret ()) (\<lambda>_.
     andThen (MessageSendSystem_perform E ws cid (idsOf uids)) (\<lambda>r.
       ret (apiResponse [JObj [(''ask'', JObj [(''mid'', JStr i), (''t'', jnat (sr_t r))])]]
         [deliver (sr_organizationId r) True (SystemMessageResponse (SystemMessagePublicFields i (sr_from r) (sr_t r) x cid))
            (\<lambda>m. toUsers (sr_recipientsIds r) (toConversation (sr_cId r) m))]))))))))"

text \<open>Without an \<open>id\<close> no message is found.\<close>

definition MessagesController_edit :: "env \<Rightarrow> socket \<Rightarrow> json \<Rightarrow> api_response handler" where
  "MessagesController_edit E ws data = (let p = params ''message_edit'' data in
     andThen (optional readText ''id'' p) (\<lambda>i. andThen (required readText ''body'' p) (\<lambda>body.
     andThen (case i of None \<Rightarrow> andThen (sessionOf ws) (\<lambda>_. throw (Status MESSAGE_ID_NOT_FOUND))
        | Some mid \<Rightarrow> MessageEdit_perform E ws mid body) (\<lambda>r.
       ret (apiResponse [responsePacket data [(''success'', JBool True)]]
         [deliver (er_organizationId r) True (EditMessageResponse (EditMessagePublicFields r))
            (\<lambda>m. toUsers (er_participantsIds r) (toConversation (Some (er_cId r)) m))])))))"

definition MessagesController_reactions_update :: "env \<Rightarrow> socket \<Rightarrow> json \<Rightarrow> api_response handler" where
  "MessagesController_reactions_update E ws data = (let p = params ''message_reactions_update'' data in
     andThen (required readText ''mid'' p) (\<lambda>mid. andThen (optional readText ''add'' p) (\<lambda>add.
     andThen (optional readText ''remove'' p) (\<lambda>remove.
     andThen (ReactionsUpdate_perform E ws mid add remove) (\<lambda>r.
       ret (apiResponse [responsePacket data [(''success'', JBool True)]]
         (case re_conversation r of
            Some c \<Rightarrow> if re_isUpdated r
              then [deliver (re_organizationId r) True (MessageReactionsUpdateResponse (MessageReactionsUpdatePublicFields mid c (re_from r)
                 (if re_add r then add else None) (if re_remove r then remove else None)))
                 (\<lambda>m. toUsers (participantsOf c) (toConversation (Some (c_id c)) m))] else []
          | None \<Rightarrow> [])))))))"

definition listOptions :: "json option \<Rightarrow> list_options handler" where
  "listOptions p =
     andThen (optional (readList readText) ''ids'' p) (\<lambda>ids.
     andThen (timeParam ''gt'' (getProp ''updated_at'' p)) (\<lambda>gt. andThen (timeParam ''lt'' (getProp ''updated_at'' p)) (\<lambda>lt.
       ret (noOptions\<lparr>lo_ids := ids, lo_updatedAtFrom := gt, lo_updatedAtBefore := lt\<rparr>))))"

definition MessagesController_list :: "env \<Rightarrow> socket \<Rightarrow> json \<Rightarrow> api_response handler" where
  "MessagesController_list E ws data = (let p = params ''message_list'' data in
     andThen (required readText ''cid'' p) (\<lambda>cid. andThen (listOptions p) (\<lambda>opts. andThen (optional readNumber ''limit'' p) (\<lambda>lim.
     andThen (MessageList_perform E ws cid opts lim) (\<lambda>rows.
       ret (answer data [(''messages'', JArr (map listedMessage rows))]))))))"

definition MessagesController_reactions_list :: "env \<Rightarrow> socket \<Rightarrow> json \<Rightarrow> api_response handler" where
  "MessagesController_reactions_list E ws data =
     andThen (required readText ''mid'' (params ''message_reactions_list'' data)) (\<lambda>mid.
     andThen (ReactionsList_perform E ws mid) (\<lambda>reactions. ret (answer data [(''reactions'', idLists reactions)])))"

definition MessagesController_read :: "env \<Rightarrow> socket \<Rightarrow> json \<Rightarrow> api_response handler" where
  "MessagesController_read E ws data = (let p = params ''message_read'' data in
     andThen (required readText ''cid'' p) (\<lambda>cid. andThen (optional (readList readText) ''ids'' p) (\<lambda>ids.
     andThen (MessageRead_perform E ws cid ids (truthyJson (getProp ''resultMessageOnly'' p))) (\<lambda>(organizationId, from, groups).
       ret (apiResponse [responsePacket data [(''success'', JBool True)]]
         (map (\<lambda>(userId, messageIds). deliver organizationId False (ReadMessagesResponse (ReadMessagesPublicFields cid messageIds from))
            (toUsers (Some [userId]))) groups))))))"

text \<open>The list with the receiver is passed in the place of the organization, and the packet has no destination.\<close>

definition MessagesController_decryption_failed :: "env \<Rightarrow> socket \<Rightarrow> json \<Rightarrow> api_response handler" where
  "MessagesController_decryption_failed E ws data = (let p = params ''message_decryption_failed'' data in
     andThen (required readText ''cid'' p) (\<lambda>cid. andThen (required (readList readText) ''ids'' p) (\<lambda>ids.
     andThen (MessageDecryptionFailed_perform E ws cid ids) (\<lambda>(receiverUserId, from).
       ret (apiResponse [responsePacket data [(''success'', JBool True)]]
         [deliver (case receiverUserId of None \<Rightarrow> [] | Some u \<Rightarrow> u) False
            (DecryptionFailedMessagesResponse (DecryptionFailedMessagesPublicFields cid ids from)) (\<lambda>m. m)])))))"

definition MessagesController_delete :: "env \<Rightarrow> socket \<Rightarrow> json \<Rightarrow> api_response handler" where
  "MessagesController_delete E ws data = (let p = params ''message_delete'' data in
     andThen (required readText ''cid'' p) (\<lambda>cid. andThen (required (readList readText) ''ids'' p) (\<lambda>ids.
     andThen (optional readText ''type'' p) (\<lambda>type.
     andThen (MessageDelete_perform E ws cid ids (type = Some ''all'')) (\<lambda>r.
       ret (apiResponse [responsePacket data [(''success'', JBool True)]]
         (case dr_deletedMessages r of
            None \<Rightarrow> []
          | Some deletedIds \<Rightarrow> [deliver (dr_organizationId r) True
              (DeleteMessagesResponse (DeleteMessagesPublicFields deletedIds cid (dr_c_type r) (dr_from r)))
              (\<lambda>m. toUsers (dr_participantsIds r) (toConversation (Some (dr_cId r)) m))])))))))"

definition MessagesController_summary :: "env \<Rightarrow> socket \<Rightarrow> json \<Rightarrow> api_response handler" where
  "MessagesController_summary E ws data = (let p = params ''message_summary'' data in
     andThen (required readText ''cid'' p) (\<lambda>cid. andThen (optional readText ''filter'' p) (\<lambda>f.
     andThen (MessageSummary_perform E ws cid f) (\<lambda>message. ret (answer data [(''message'', JStr message)])))))"

definition MessagesController_tone :: "env \<Rightarrow> socket \<Rightarrow> json \<Rightarrow> api_response handler" where
  "MessagesController_tone E ws data = (let p = params ''message_tone'' data in
     andThen (required readText ''body'' p) (\<lambda>body. andThen (optional readText ''tone'' p) (\<lambda>tone.
     andThen (MessageTone_perform E ws body tone) (\<lambda>message. ret (answer data [(''message'', JStr message)])))))"

definition StatusesController_ping :: "socket \<Rightarrow> json \<Rightarrow> api_response handler" where
  "StatusesController_ping ws data = ret (answer data [(''pong'', JObj [])])"

definition StatusesController_typing :: "env \<Rightarrow> socket \<Rightarrow> json \<Rightarrow> api_response handler" where
  "StatusesController_typing E ws data = (let p = params ''typing'' data in
     andThen (required readText ''cid'' p) (\<lambda>cid. andThen (optional readText ''status'' p) (\<lambda>st.
     andThen (StatusTyping_perform E ws cid st) (\<lambda>(organizationId, conversation, from, t, status).
       ret (apiResponse [] [deliver organizationId False (JObj [(''typing'', JObj ([(''cid'', JStr cid),
          (''c_type'', JStr (typeCode (c_type conversation))), (''from'', JStr from), (''t'', jnat t)] @ jopt ''status'' status))])
          (toConversation (Some (c_id conversation)))])))))"

section \<open>Users\<close>

definition userParams :: "json option \<Rightarrow> user_params handler" where
  "userParams p =
     andThen (required readText ''organization_id'' p) (\<lambda>org. andThen (required readText ''login'' p) (\<lambda>login.
     andThen (optional readText ''password'' p) (\<lambda>password. andThen (optional readText ''email'' p) (\<lambda>email.
     andThen (optional readText ''phone'' p) (\<lambda>phone.
       ret \<lparr>cu_organization_id = org, cu_login = login, cu_password = password, cu_email = email, cu_phone = phone\<rparr>)))))"

definition UsersController_create :: "env \<Rightarrow> socket \<Rightarrow> json \<Rightarrow> api_response handler" where
  "UsersController_create E ws data =
     andThen (userParams (params ''user_create'' data)) (\<lambda>p.
     andThen (UserCreate_perform E p) (\<lambda>user. ret (answer data [(''user'', visibleUser user)])))"

definition UsersController_connect :: "env \<Rightarrow> socket \<Rightarrow> json \<Rightarrow> api_response handler" where
  "UsersController_connect E ws data = (let p = params ''connect'' data in
     andThen (required readDeviceId ''device_id'' p) (\<lambda>deviceId. andThen (optional readText ''token'' p) (\<lambda>token.
     andThen (UserConnect_perform E ws token deviceId) (\<lambda>user.
       ret (withActivity (u_organization_id user) (u_id user) ONLINE (success data))))))"

definition userInfo :: "json option \<Rightarrow> user_info handler" where
  "userInfo p =
     andThen (required readText ''organization_id'' p) (\<lambda>org. andThen (required readDeviceId ''device_id'' p) (\<lambda>deviceId.
     andThen (optional readText ''token'' p) (\<lambda>token. andThen (optional readText ''userId'' p) (\<lambda>userId.
     andThen (optional readText ''login'' p) (\<lambda>login. andThen (optional readText ''password'' p) (\<lambda>password.
       ret \<lparr>ui_organization_id = org, ui_device_id = deviceId, ui_token = token, ui_userId = userId, ui_login = login, ui_password = password\<rparr>))))))"

fun tokenView :: "token_value \<Rightarrow> json" where
  "tokenView (Jwt s) = JStr s"
| "tokenView (Otp n) = jnat n"

definition UsersController_login :: "env \<Rightarrow> socket \<Rightarrow> json \<Rightarrow> api_response handler" where
  "UsersController_login E ws data =
     andThen (userInfo (params ''user_login'' data)) (\<lambda>p.
     andThen (UserAuth_perform E ws p False) (\<lambda>(user, token).
       ret (withActivity (u_organization_id (fst user)) (u_id (fst user)) ONLINE
         (answer data [(''user'', visibleUserWithAvatar user), (''token'', tokenView (t_token token))]))))"

definition userUpdate :: "json option \<Rightarrow> user_update handler" where
  "userUpdate p =
     andThen (optional readText ''current_password'' p) (\<lambda>current. andThen (optional readText ''new_password'' p) (\<lambda>new.
     andThen (optional readText ''email'' p) (\<lambda>email. andThen (optional readText ''phone'' p) (\<lambda>phone.
     andThen (optional readText ''login'' p) (\<lambda>login. andThen (optional readText ''first_name'' p) (\<lambda>firstN.
     andThen (optional readText ''last_name'' p) (\<lambda>lastN. andThen (optional readObject ''avatar_object'' p) (\<lambda>avatar.
       ret \<lparr>eu_current_password = current, eu_new_password = new, eu_email = email, eu_phone = phone, eu_login = login,
         eu_first_name = firstN, eu_last_name = lastN, eu_avatar_object = avatar\<rparr>))))))))"

definition UsersController_edit :: "env \<Rightarrow> socket \<Rightarrow> json \<Rightarrow> api_response handler" where
  "UsersController_edit E ws data =
     andThen (userUpdate (params ''user_edit'' data)) (\<lambda>p.
     andThen (UserEdit_perform E ws p) (\<lambda>user. ret (answer data [(''user'', visibleUser user)])))"

definition UsersController_logout :: "env \<Rightarrow> socket \<Rightarrow> json \<Rightarrow> api_response handler" where
  "UsersController_logout E ws data =
     andThen (UserLogout_perform E ws) (\<lambda>(organizationId, userId, isWasLastUserSession).
       ret (if isWasLastUserSession then withActivity organizationId userId OFFLINE (success data) else success data))"

text \<open>The mail with the one-time password is sent by a service that is not part of the state.\<close>

definition UsersController_send_otp :: "env \<Rightarrow> socket \<Rightarrow> json \<Rightarrow> api_response handler" where
  "UsersController_send_otp E ws data = (let p = params ''user_send_otp'' data in
     andThen (required readText ''organization_id'' p) (\<lambda>org. andThen (required readText ''device_id'' p) (\<lambda>deviceId.
     andThen (required readText ''email'' p) (\<lambda>email.
     andThen (UserSendOTP_perform E org deviceId email) (\<lambda>_. ret (success data))))))"

fun readToken :: "json \<Rightarrow> token_value option" where
  "readToken (JStr s) = Some (Jwt s)"
| "readToken (JNum n) = (if n < 0 then None else Some (Otp (nat n)))"
| "readToken _ = None"

definition UsersController_reset_password :: "env \<Rightarrow> socket \<Rightarrow> json \<Rightarrow> api_response handler" where
  "UsersController_reset_password E ws data = (let p = params ''user_reset_password'' data in
     andThen (required readText ''organization_id'' p) (\<lambda>org. andThen (required readText ''email'' p) (\<lambda>email.
     andThen (required readText ''device_id'' p) (\<lambda>deviceId. andThen (optional readToken ''token'' p) (\<lambda>token.
     andThen (required readText ''new_password'' p) (\<lambda>new.
     andThen (UserResetPassword_perform E org email deviceId token new) (\<lambda>_. ret (success data))))))))"

definition UsersController_delete :: "env \<Rightarrow> socket \<Rightarrow> json \<Rightarrow> api_response handler" where
  "UsersController_delete E ws data = andThen (UserDelete_perform E ws) (\<lambda>userId. ret (success data))"

text \<open>The list of the users to ignore is spread into another one, so the request fails without it.\<close>

definition UsersController_search :: "env \<Rightarrow> socket \<Rightarrow> json \<Rightarrow> api_response handler" where
  "UsersController_search E ws data = (let p = params ''user_search'' data in
     andThen (required readText ''keyword'' p) (\<lambda>keyword. andThen (optional readNumber ''limit'' p) (\<lambda>lim.
     andThen (timeParam ''gt'' (getProp ''updated_at'' p)) (\<lambda>gt. andThen (required (readList readText) ''ignore_ids'' p) (\<lambda>ignoreIds.
     andThen (UserSearch_perform E ws \<lparr>se_keyword = keyword, se_ignore_ids = ignoreIds, se_updated_at_gt = gt, se_limit = lim\<rparr>) (\<lambda>us.
       ret (answer data [(''users'', JArr us)])))))))"

definition UsersController_list :: "env \<Rightarrow> socket \<Rightarrow> json \<Rightarrow> api_response handler" where
  "UsersController_list E ws data =
     andThen (required (readList readText) ''ids'' (params ''get_users_by_ids'' data)) (\<lambda>ids.
     andThen (UserList_perform E ws ids) (\<lambda>us. ret (answer data [(''users'', JArr us)])))"

section \<open>Contacts and blocked users\<close>

fun readContactValue :: "json \<Rightarrow> contact_value option" where
  "readContactValue (JObj ps) =
     (case (map_of ps ''type'', map_of ps ''value'') of
        (None, None) \<Rightarrow> Some \<lparr>cval_type = None, cval_value = None, cval_matched_user_id = None\<rparr>
      | (Some (JStr ty), None) \<Rightarrow> Some \<lparr>cval_type = Some ty, cval_value = None, cval_matched_user_id = None\<rparr>
      | (None, Some (JStr v)) \<Rightarrow> Some \<lparr>cval_type = None, cval_value = Some v, cval_matched_user_id = None\<rparr>
      | (Some (JStr ty), Some (JStr v)) \<Rightarrow> Some \<lparr>cval_type = Some ty, cval_value = Some v, cval_matched_user_id = None\<rparr>
      | _ \<Rightarrow> None)"
| "readContactValue _ = None"

definition contactParams :: "json option \<Rightarrow> contact_params handler" where
  "contactParams p =
     andThen (optional readText ''first_name'' p) (\<lambda>firstN. andThen (optional readText ''last_name'' p) (\<lambda>lastN.
     andThen (optional readText ''company'' p) (\<lambda>company. andThen (optional (readList readContactValue) ''email'' p) (\<lambda>email.
     andThen (optional (readList readContactValue) ''phone'' p) (\<lambda>phone.
       ret \<lparr>cd_first_name = firstN, cd_last_name = lastN, cd_company = company, cd_email = email, cd_phone = phone\<rparr>)))))"

definition ContactsController_contact_add :: "env \<Rightarrow> socket \<Rightarrow> json \<Rightarrow> api_response handler" where
  "ContactsController_contact_add E ws data =
     andThen (contactParams (params ''contact_add'' data)) (\<lambda>p.
     andThen (ContactAdd_perform E ws p) (\<lambda>contact. ret (answer data [(''contact'', visibleContact contact)])))"

definition ContactsController_contact_batch_add :: "env \<Rightarrow> socket \<Rightarrow> json \<Rightarrow> api_response handler" where
  "ContactsController_contact_batch_add E ws data =
     andThen (required (readList Some) ''contacts'' (params ''contact_batch_add'' data)) (\<lambda>js.
     andThen (forEach js (\<lambda>j. contactParams (Some j))) (\<lambda>ps.
     andThen (ContactBatchAdd_perform E ws ps) (\<lambda>contactsList. ret (answer data [(''contacts'', JArr (map wholeContact contactsList))]))))"

definition ContactsController_contact_update :: "env \<Rightarrow> socket \<Rightarrow> json \<Rightarrow> api_response handler" where
  "ContactsController_contact_update E ws data = (let p = params ''contact_update'' data in
     andThen (required readText ''id'' p) (\<lambda>i. andThen (contactParams p) (\<lambda>update.
     andThen (ContactEdit_perform E ws i update) (\<lambda>contact. ret (answer data [(''contact'', wholeContact contact)])))))"

definition ContactsController_contact_list :: "env \<Rightarrow> socket \<Rightarrow> json \<Rightarrow> api_response handler" where
  "ContactsController_contact_list E ws data = (let p = params ''contact_list'' data in
     andThen (optional readNumber ''updated_at'' p) (\<lambda>updatedAt. andThen (optional readNumber ''limit'' p) (\<lambda>lim.
     andThen (ContactList_perform E ws updatedAt lim) (\<lambda>cs. ret (answer data [(''contacts'', JArr (map wholeContact cs))])))))"

definition ContactsController_contact_delete :: "env \<Rightarrow> socket \<Rightarrow> json \<Rightarrow> api_response handler" where
  "ContactsController_contact_delete E ws data =
     andThen (required readText ''id'' (params ''contact_delete'' data)) (\<lambda>i.
     andThen (ContactDelete_perform E ws i) (\<lambda>_. ret (success data)))"

definition UsersBlockController_block :: "env \<Rightarrow> socket \<Rightarrow> json \<Rightarrow> api_response handler" where
  "UsersBlockController_block E ws data =
     andThen (required (readList readText) ''ids'' (params ''block_user'' data)) (\<lambda>ids.
     andThen (BlockListBlock_perform E ws ids) (\<lambda>_. ret (success data)))"

definition UsersBlockController_unblock :: "env \<Rightarrow> socket \<Rightarrow> json \<Rightarrow> api_response handler" where
  "UsersBlockController_unblock E ws data = (let p = params ''unblock_user'' data in
     andThen (optional (readList readText) ''ids'' p) (\<lambda>uIds.
     andThen (case uIds of Some ids \<Rightarrow> ret ids | None \<Rightarrow> andThen (required readText ''id'' p) (\<lambda>uId. ret [uId])) (\<lambda>ids.
     andThen (BlockListUnblock_perform E ws ids) (\<lambda>_. ret (success data)))))"

definition UsersBlockController_enable :: "env \<Rightarrow> socket \<Rightarrow> json \<Rightarrow> api_response handler" where
  "UsersBlockController_enable E ws data = (let p = params ''block_list_enable'' data in
     andThen (destructured p) (\<lambda>_.
     andThen (BlockListEnable_perform E ws (truthyJson (getProp ''enable'' p))) (\<lambda>_. ret (success data))))"

definition UsersBlockController_list :: "env \<Rightarrow> socket \<Rightarrow> json \<Rightarrow> api_response handler" where
  "UsersBlockController_list E ws data =
     andThen (BlockListRetrieve_perform E ws) (\<lambda>ids. ret (answer data [(''users'', jids ids)]))"

section \<open>Activities\<close>

definition ActivitiesController_status_subscribe :: "env \<Rightarrow> socket \<Rightarrow> json \<Rightarrow> api_response handler" where
  "ActivitiesController_status_subscribe E ws data =
     andThen (required readText ''id'' (params ''user_last_activity_subscribe'' data)) (\<lambda>targetUserId.
     andThen (ActivityUserSubscribe_perform E ws targetUserId) (\<lambda>activity. ret (answer data [(''last_activity'', activityView [activity])])))"

definition ActivitiesController_status_unsubscribe :: "env \<Rightarrow> socket \<Rightarrow> json \<Rightarrow> api_response handler" where
  "ActivitiesController_status_unsubscribe E ws data = andThen (ActivityUserUnsubscribe_perform E ws) (\<lambda>_. ret (success data))"

definition ActivitiesController_get_user_status :: "env \<Rightarrow> socket \<Rightarrow> json \<Rightarrow> api_response handler" where
  "ActivitiesController_get_user_status E ws data =
     andThen (required (readList readText) ''ids'' (params ''user_last_activity'' data)) (\<lambda>ids.
     andThen (ActivityUserRetrieve_perform E ws ids) (\<lambda>activities. ret (answer data [(''last_activity'', activityView activities)])))"

text \<open>A scan that never ended would have no result; on the scans of Redis it always ends.\<close>

definition awaited :: "(world \<Rightarrow> ((exn + 'a) \<times> world) option) \<Rightarrow> 'a handler" where
  "awaited m = (\<lambda>w. case m w of None \<Rightarrow> (Inl TypeError, w) | Some r \<Rightarrow> r)"

fun onlineView :: "online_result \<Rightarrow> json" where
  "onlineView (OnlineCount n) = jnat n"
| "onlineView (OnlineIds ids) = jids ids"
| "onlineView (OnlineUsers us) = JArr (map wholeUser us)"

definition ActivitiesController_online_list :: "env \<Rightarrow> (oid list \<Rightarrow> oid list) \<Rightarrow> socket \<Rightarrow> json \<Rightarrow> api_response handler" where
  "ActivitiesController_online_list E sortIds ws data = (let p = params ''online_list'' data; count = truthyJson (getProp ''count'' p) in
     andThen (destructured p) (\<lambda>_.
     andThen (optional readNumber ''offset'' p) (\<lambda>offset. andThen (optional readNumber ''limit'' p) (\<lambda>lim.
     andThen (awaited (OnlineList_perform E sortIds ws \<lparr>op_count = count, op_idsOnly = truthyJson (getProp ''idsOnly'' p),
        op_offset = offset, op_limit = lim\<rparr>)) (\<lambda>result.
       ret (answer data [(if count then ''count'' else ''users'', onlineView result)]))))))"

definition ActivitiesController_activity_status :: "env \<Rightarrow> socket \<Rightarrow> json \<Rightarrow> api_response handler" where
  "ActivitiesController_activity_status E ws data = (let p = params ''activity_status'' data in
     andThen (destructured p) (\<lambda>_.
     andThen (ActivityMark_perform E ws (truthyJson (getProp ''isInactive'' p))) (\<lambda>_. ret (success data))))"

section \<open>Conversations\<close>

fun readType :: "json \<Rightarrow> conv_type option" where
  "readType (JStr s) = (if s = ''u'' then Some Private else if s = ''g'' then Some Group else if s = ''c'' then Some Channel else None)"
| "readType _ = None"

definition conversationParams :: "json option \<Rightarrow> conv_params handler" where
  "conversationParams p =
     andThen (required readType ''type'' p) (\<lambda>ty. andThen (optional readText ''name'' p) (\<lambda>name.
     andThen (optional readText ''description'' p) (\<lambda>description. andThen (optional readText ''opponent_id'' p) (\<lambda>opponent.
     andThen (optional readFlag ''is_encrypted'' p) (\<lambda>isEncrypted. andThen (optional Some ''image_object'' p) (\<lambda>imageObject.
     andThen (optional (readList readText) ''participants'' p) (\<lambda>participants.
       ret \<lparr>cv_type = ty, cv_name = name, cv_description = description, cv_opponent_id = opponent, cv_is_encrypted = isEncrypted,
         cv_image_object = imageObject, cv_participants = idsOf participants\<rparr>)))))))"

definition ConversationsController_create :: "env \<Rightarrow> socket \<Rightarrow> json \<Rightarrow> api_response handler" where
  "ConversationsController_create E ws data =
     andThen (conversationParams (params ''conversation_create'' data)) (\<lambda>p.
     andThen (ConversationCreate_perform E ws p) (\<lambda>(organizationId, conversation, event).
       ret (apiResponse [responsePacket data [(''conversation'', visibleConversation conversation)]]
         (case event of
            None \<Rightarrow> []
          | Some ev \<Rightarrow> [deliver organizationId False (eventPacket (ev_message ev)) (\<lambda>m.
              let m1 = toUsers (ev_participantIds ev) m
              in if c_type conversation = Private then m1 else addPushQueueMessage (Some (pushOptions (ev_notification ev))) m1)]))))"

fun readChanges :: "json \<Rightarrow> id_changes option" where
  "readChanges (JObj ps) = (let ids = (\<lambda>k. case map_of ps k of None \<Rightarrow> Some None | Some j \<Rightarrow> map_option Some (readList readText j)) in
     case (ids ''add'', ids ''remove'') of (Some a, Some r) \<Rightarrow> Some \<lparr>add_ids = a, remove_ids = r\<rparr> | _ \<Rightarrow> None)"
| "readChanges _ = None"

definition editConversationParams :: "json option \<Rightarrow> edit_conversation_params handler" where
  "editConversationParams p =
     andThen (required readText ''id'' p) (\<lambda>i. andThen (optional readText ''name'' p) (\<lambda>name.
     andThen (optional readText ''description'' p) (\<lambda>description. andThen (optional Some ''image_object'' p) (\<lambda>imageObject.
     andThen (optional readChanges ''participants'' p) (\<lambda>participants. andThen (optional readChanges ''admins'' p) (\<lambda>admins.
     andThen (optional Some ''participants'' p) (\<lambda>stored.
       ret \<lparr>ep_id = i, ep_fields = \<lparr>ue_name = name, ue_description = description, ue_image_object = imageObject, ue_participants = stored\<rparr>,
         ep_participants = participants, ep_admins = admins\<rparr>)))))))"

definition updatedDelivery :: "oid \<Rightarrow> event \<Rightarrow> json \<times> deliver_message" where
  "updatedDelivery organizationId ev = deliver organizationId False (eventPacket (ev_message ev)) (\<lambda>m.
     setIgnoreSelf (ev_ignoreSelf ev) (setConversationDestination (ev_cId ev) (Some (ev_exceptUserIds ev))
       (setUsersDestination (idsOf (ev_participantIds ev)) (Some (ev_exceptUserIds ev))
         (addPushQueueMessage (Some (pushOptions (ev_notification ev))) m))))"

definition ConversationsController_update :: "env \<Rightarrow> socket \<Rightarrow> json \<Rightarrow> api_response handler" where
  "ConversationsController_update E ws data =
     andThen (editConversationParams (params ''conversation_update'' data)) (\<lambda>p.
     andThen (ConversationEdit_perform E ws p) (\<lambda>result. case result of
         None \<Rightarrow> ret (answer data [(''deleted'', JBool True)])
       | Some r \<Rightarrow> ret (apiResponse [responsePacket data [(''conversation'', visibleConversation (ec_conversation r))]]
           (map (updatedDelivery (ec_organizationId r)) (case ec_conversationEvents r of None \<Rightarrow> [] | Some evs \<Rightarrow> evs)))))"

definition ConversationsController_list :: "env \<Rightarrow> socket \<Rightarrow> json \<Rightarrow> api_response handler" where
  "ConversationsController_list E ws data = (let p = params ''conversation_list'' data in
     andThen (optional readNumber ''limit'' p) (\<lambda>lim.
     andThen (timeParam ''gt'' (getProp ''updated_at'' p)) (\<lambda>gt. andThen (timeParam ''lt'' (getProp ''updated_at'' p)) (\<lambda>lt.
     andThen (optional (readList readText) ''ids'' p) (\<lambda>ids.
     andThen (ConversationList_perform E ws gt lt (idsOf ids) lim) (\<lambda>rows.
       ret (answer data [(''conversations'', JArr (map listedConversation rows))])))))))"

definition ConversationsController_delete :: "env \<Rightarrow> socket \<Rightarrow> json \<Rightarrow> api_response handler" where
  "ConversationsController_delete E ws data =
     andThen (required readText ''id'' (params ''conversation_delete'' data)) (\<lambda>conversationId.
     andThen (ConversationDelete_perform E ws conversationId) (\<lambda>(organizationId, currentUserId, events).
       let evs = (case events of None \<Rightarrow> [] | Some es \<Rightarrow> es) in
       ret (apiResponse
         (map (\<lambda>ev. eventPacket (ev_message ev)) (filter (\<lambda>ev. currentUserId \<in> set (idsOf (ev_participantIds ev))) evs)
            @ [responsePacket data [(''success'', JBool True)]])
         (map (\<lambda>ev. deliver organizationId False (eventPacket (ev_message ev)) (\<lambda>m. toConversation (ev_cId ev)
            (toUsers (ev_participantIds ev) (addPushQueueMessage (Some (pushOptions (ev_notification ev))) m)))) evs))))"

definition usersByCids :: "json \<Rightarrow> json list \<times> (oid \<times> oid list) list \<Rightarrow> api_response" where
  "usersByCids data r = answer data [(''users'', JArr (fst r)), (''conversations'', idLists (snd r))]"

definition ConversationsController_get_participants_by_cids :: "env \<Rightarrow> socket \<Rightarrow> json \<Rightarrow> api_response handler" where
  "ConversationsController_get_participants_by_cids E ws data =
     andThen (required (readList readText) ''cids'' (params ''get_participants_by_cids'' data)) (\<lambda>cids.
     andThen (ConversationListParticipants_perform E ws cids) (\<lambda>r. ret (usersByCids data r)))"

definition ConversationsController_get_admins_by_cids :: "env \<Rightarrow> socket \<Rightarrow> json \<Rightarrow> api_response handler" where
  "ConversationsController_get_admins_by_cids E ws data =
     andThen (required (readList readText) ''cids'' (params ''get_admins_by_cids'' data)) (\<lambda>cids.
     andThen (ConversationListAdmins_perform E ws cids) (\<lambda>r. ret (usersByCids data r)))"

definition ConversationsController_search :: "env \<Rightarrow> socket \<Rightarrow> json \<Rightarrow> api_response handler" where
  "ConversationsController_search E ws data = (let p = params ''conversation_search'' data in
     andThen (required readText ''name'' p) (\<lambda>name. andThen (optional readNumber ''limit'' p) (\<lambda>lim.
     andThen (timeParam ''gt'' (getProp ''updated_at'' p)) (\<lambda>gt.
     andThen (ConversationSearch_perform E ws name gt lim) (\<lambda>ids. ret (answer data [(''conversations'', jids ids)]))))))"

text \<open>Without a \<open>cid\<close> no conversation is found.\<close>

definition subscribeRequest :: "env \<Rightarrow> socket \<Rightarrow> subscription \<Rightarrow> string \<Rightarrow> json \<Rightarrow> api_response handler" where
  "subscribeRequest E ws ty name data =
     andThen (optional readText ''cid'' (params name data)) (\<lambda>cid.
     andThen (case cid of None \<Rightarrow> andThen (sessionOf ws) (\<lambda>_. throw (Status BAD_REQUEST))
        | Some c \<Rightarrow> ConversationSubscribe_perform E ws ty c) (\<lambda>_. ret (success data)))"

definition ConversationsController_subscribe_channel :: "env \<Rightarrow> socket \<Rightarrow> json \<Rightarrow> api_response handler" where
  "ConversationsController_subscribe_channel E ws = subscribeRequest E ws Subscribe ''conversation_subscribe''"

definition ConversationsController_unsubscribe_channel :: "env \<Rightarrow> socket \<Rightarrow> json \<Rightarrow> api_response handler" where
  "ConversationsController_unsubscribe_channel E ws = subscribeRequest E ws Unsubscribe ''conversation_unsubscribe''"

definition ConversationHandlersController_create :: "env \<Rightarrow> socket \<Rightarrow> json \<Rightarrow> api_response handler" where
  "ConversationHandlersController_create E ws data = (let p = params ''conversation_handler_create'' data in
     andThen (required readText ''cid'' p) (\<lambda>cid. andThen (required readText ''content'' p) (\<lambda>content.
     andThen (ConversationHandlerCreate_perform E ws cid content) (\<lambda>_. ret (success data)))))"

definition ConversationHandlersController_get :: "env \<Rightarrow> socket \<Rightarrow> json \<Rightarrow> api_response handler" where
  "ConversationHandlersController_get E ws data =
     andThen (required readText ''cid'' (params ''get_conversation_handler'' data)) (\<lambda>cid.
     andThen (ConversationHandlerGet_perform E ws cid) (\<lambda>(content, updatedBy, updatedAt).
       ret (answer data [(''conversation_handler'', JObj [(''content'', JStr content), (''updated_by'', JStr updatedBy), (''updated_at'', jnat updatedAt)])])))"

definition ConversationHandlersController_delete :: "env \<Rightarrow> socket \<Rightarrow> json \<Rightarrow> api_response handler" where
  "ConversationHandlersController_delete E ws data =
     andThen (required readText ''cid'' (params ''conversation_handler_delete'' data)) (\<lambda>cid.
     andThen (ConversationHandlerDelete_perform E ws cid) (\<lambda>_. ret (success data)))"

section \<open>Files, logs, push notifications and devices\<close>

fun readFile :: "json \<Rightarrow> file_params option" where
  "readFile (JObj ps) = (case (map_of ps ''name'', map_of ps ''size'', map_of ps ''content_type'') of
      (Some (JStr name), Some sz, Some (JStr ty)) \<Rightarrow> map_option (\<lambda>n. \<lparr>fp_name = name, fp_size = n, fp_content_type = ty\<rparr>) (readNumber sz)
    | _ \<Rightarrow> None)"
| "readFile _ = None"

definition FilesController_create_url :: "env \<Rightarrow> socket \<Rightarrow> json \<Rightarrow> api_response handler" where
  "FilesController_create_url E ws data =
     andThen (required (readList readFile) ''create_files'' (Some data)) (\<lambda>fs.
     andThen (FileCreate_perform E ws fs) (\<lambda>created. ret (answer data [(''files'', JArr (map fileView created))])))"

definition FilesController_get_download_url :: "env \<Rightarrow> socket \<Rightarrow> json \<Rightarrow> api_response handler" where
  "FilesController_get_download_url E ws data =
     andThen (required (readList readText) ''file_ids'' (params ''get_file_urls'' data)) (\<lambda>ids.
     andThen (FileDownload_perform E ws ids) (\<lambda>urls.
       ret (answer data [(''file_urls'', JObj (concat (map (\<lambda>i. jopt i (urls i)) (js_set ids))))])))"

definition createdAt :: "json option \<Rightarrow> created_at handler" where
  "createdAt p =
     andThen (timeParam ''gt'' p) (\<lambda>gt. case gt of
       Some t \<Rightarrow> ret (CreatedGt t)
     | None \<Rightarrow> andThen (required readNumber ''lt'' p) (\<lambda>t. ret (CreatedLt t)))"

text \<open>
  The answer is meant to be translated to the protocol of the socket before it is sent; the API turns the \<open>MappableMessage\<close> into a text first, with its
  packet as a property.
\<close>

definition OperationsLogController_logs :: "env \<Rightarrow> socket \<Rightarrow> json \<Rightarrow> api_response handler" where
  "OperationsLogController_logs E ws data =
     andThen (createdAt (getProp ''created_at'' (params ''op_log_list'' data))) (\<lambda>c.
     andThen (OpLogsList_perform E ws c) (\<lambda>logs.
       ret (apiResponse [JObj [(''packet'', responsePacket data [(''logs'', JArr (map opLogView logs))])]] [])))"

definition subscriptionParams :: "json option \<Rightarrow> subscription_params handler" where
  "subscriptionParams p =
     andThen (required readText ''platform'' p) (\<lambda>platform. andThen (optional readText ''web_endpoint'' p) (\<lambda>endpoint.
     andThen (optional readText ''web_key_auth'' p) (\<lambda>auth. andThen (optional readText ''web_key_p256dh'' p) (\<lambda>p256dh.
     andThen (optional readText ''device_token'' p) (\<lambda>token.
       ret \<lparr>sp_platform = platform, sp_web_endpoint = endpoint, sp_web_key_auth = auth, sp_web_key_p256dh = p256dh, sp_device_token = token\<rparr>)))))"

definition PushNotificationsController_push_subscription_create :: "env \<Rightarrow> socket \<Rightarrow> json \<Rightarrow> api_response handler" where
  "PushNotificationsController_push_subscription_create E ws data = (let p = params ''push_subscription_create'' data in
     andThen (required readText ''device_udid'' p) (\<lambda>udid. andThen (subscriptionParams p) (\<lambda>sp.
     andThen (PushSubscriptionCreate_perform E ws udid sp) (\<lambda>s. ret (answer data [(''subscription'', subscriptionView s)])))))"

definition PushNotificationsController_push_subscription_list :: "env \<Rightarrow> socket \<Rightarrow> json \<Rightarrow> api_response handler" where
  "PushNotificationsController_push_subscription_list E ws data =
     andThen (PushSubscriptionList_perform E ws) (\<lambda>ss. ret (answer data [(''subscriptions'', JArr (map subscriptionView ss))]))"

definition PushNotificationsController_push_subscription_delete :: "env \<Rightarrow> socket \<Rightarrow> json \<Rightarrow> api_response handler" where
  "PushNotificationsController_push_subscription_delete E ws data =
     andThen (required readText ''device_udid'' (params ''push_subscription_delete'' data)) (\<lambda>udid.
     andThen (PushSubscriptionDelete_perform E ws udid) (\<lambda>_. ret (success data)))"

definition PushNotificationsController_push_event_create :: "env \<Rightarrow> socket \<Rightarrow> json \<Rightarrow> api_response handler" where
  "PushNotificationsController_push_event_create E ws data = (let p = params ''push_event_create'' data in
     andThen (required (readList readText) ''recipients_ids'' p) (\<lambda>ids. andThen (required Some ''message'' p) (\<lambda>message.
     andThen (PushEventCreate_perform E ws ids (stringifyMessage message)) (\<lambda>ev. ret (answer data [(''event'', visiblePushEvent ev)])))))"

fun readKeys :: "json \<Rightarrow> one_time_keys option" where
  "readKeys (JObj ps) = map_option (\<lambda>vs. KeyObject (zip (map fst ps) vs)) (readElements readText (map snd ps))"
| "readKeys (JArr js) = map_option (\<lambda>vs. KeyArray (map Some vs)) (readElements readText js)"
| "readKeys _ = None"

definition EncryptionController_register :: "env \<Rightarrow> socket \<Rightarrow> json \<Rightarrow> api_response handler" where
  "EncryptionController_register E ws data = (let p = params ''device_register'' data in
     andThen (required readText ''identity_key'' p) (\<lambda>identityKey. andThen (required readText ''signed_key'' p) (\<lambda>signedKey.
     andThen (required readKeys ''one_time_pre_keys'' p) (\<lambda>keys.
     andThen (EncryptionRegister_perform E ws \<lparr>dp_identity_key = identityKey, dp_signed_key = signedKey, dp_one_time_pre_keys = keys\<rparr>) (\<lambda>_.
       ret (success data))))))"

definition EncryptionController_list :: "env \<Rightarrow> socket \<Rightarrow> json \<Rightarrow> api_response handler" where
  "EncryptionController_list E ws data = andThen (EncryptionList_perform E ws) (\<lambda>ds.
     ret (answer data [(''devices'', JArr (map (\<lambda>(identityKey, signedKey, deviceId). JObj [(''identity_key'', JStr identityKey),
       (''signed_key'', JStr signedKey), (''device_id'', JStr deviceId)]) ds))]))"

definition EncryptionController_request_keys :: "env \<Rightarrow> socket \<Rightarrow> json \<Rightarrow> api_response handler" where
  "EncryptionController_request_keys E ws data =
     andThen (required (readList readText) ''user_ids'' (params ''request_keys'' data)) (\<lambda>ids.
     andThen (EncryptionRequestKeys_perform E ws ids) (\<lambda>ds.
       ret (answer data [(''devices'', JObj (map (\<lambda>(u, ks). (u, JArr (map deviceKeysView ks))) ds))])))"

definition EncryptionController_delete :: "env \<Rightarrow> socket \<Rightarrow> json \<Rightarrow> api_response handler" where
  "EncryptionController_delete E ws data =
     andThen (required readText ''device_id'' (params ''device_delete'' data)) (\<lambda>deviceId.
     andThen (EncryptionDelete_perform E ws deviceId) (\<lambda>_. ret (success data)))"

end
