(* ===== verification/Schemas.thy ===== *)
theory Schemas
  imports Model
begin

text \<open>
  The schemas of the requests (\<^verbatim>\<open>src/APIs/JSON/validations\<close>) as values of a data type with one constructor per construct of the Joi
  library they are written in. What Joi does with a schema is code of that library; \<open>conforms\<close> states what its
  documentation promises of a value that a schema accepts: kinds, required keys, lengths, bounds, lists of valid values and relations between keys.
  Joi converts by default, so a number may also be given as a text that reads as one, a boolean as the text of one, and a date as a number or a
  text; patterns are left to Joi.
\<close>

section \<open>The schema language\<close>

datatype rule = Min nat | Max nat | Valid "string list" | Allow "json list" | Pattern string | Default json

datatype relation = Or "string list" | Xor "string list" | Oxor "string list" | With string "string list"

text \<open>What an error function of a schema reads of an error that Joi found: its code, the key, the peers and the limit in its local context.\<close>

record joi_report =
  jr_code :: string
  jr_key :: "string option"
  jr_peers :: "string list option"
  jr_limit :: "nat option"
  jr_error :: "exn option"

text \<open>
  \<open>JoiError\<close> replaces an error: \<open>None\<close> leaves Joi's own. \<open>JoiWhen\<close> adds the second schema to the third for the values that match the first.
\<close>

datatype kind = TextKind | NumberKind | BooleanKind | DateKind | ObjectKind

datatype schema =
    JoiKind kind "rule list"
  | JoiExist
  | JoiObject "(string \<times> schema) list" "relation list" bool
  | JoiArray schema "rule list"
  | JoiTry "schema list"
  | JoiConditional string schema schema schema
  | JoiConditionalThen string schema schema
  | JoiWhen schema schema schema
  | JoiRequired schema
  | JoiError "joi_report \<Rightarrow> exn option" schema

abbreviation JoiString :: "rule list \<Rightarrow> schema" where "JoiString \<equiv> JoiKind TextKind"
abbreviation JoiNumber :: "rule list \<Rightarrow> schema" where "JoiNumber \<equiv> JoiKind NumberKind"
abbreviation JoiBoolean :: "rule list \<Rightarrow> schema" where "JoiBoolean \<equiv> JoiKind BooleanKind"
abbreviation JoiDate :: schema where "JoiDate \<equiv> JoiKind DateKind []"
abbreviation JoiAnyObject :: "rule list \<Rightarrow> schema" where "JoiAnyObject \<equiv> JoiKind ObjectKind"

definition withinRules :: "nat \<Rightarrow> rule list \<Rightarrow> bool" where
  "withinRules n rs = list_all (\<lambda>r. case r of Min k \<Rightarrow> k \<le> n | Max k \<Rightarrow> n \<le> k | _ \<Rightarrow> True) rs"

definition withinBounds :: "int \<Rightarrow> rule list \<Rightarrow> bool" where
  "withinBounds n rs = list_all (\<lambda>r. case r of Min k \<Rightarrow> int k \<le> n | Max k \<Rightarrow> n \<le> int k | _ \<Rightarrow> True) rs"

definition validText :: "string \<Rightarrow> rule list \<Rightarrow> bool" where
  "validText s rs = list_all (\<lambda>r. case r of Valid vs \<Rightarrow> s \<in> set vs | _ \<Rightarrow> True) rs"

definition allowed :: "rule list \<Rightarrow> json \<Rightarrow> bool" where
  "allowed rs j = list_ex (\<lambda>r. case r of Allow vs \<Rightarrow> j \<in> set vs | _ \<Rightarrow> False) rs"

definition numericText :: "string \<Rightarrow> bool" where
  "numericText s = (s \<noteq> [] \<and> list_all (\<lambda>c. c \<in> set ''0123456789+-.eE '') s)"

definition booleanText :: "string \<Rightarrow> bool" where
  "booleanText s = (map (\<lambda>c. if of_char c < (91::nat) then char_of (of_char c + (32::nat)) else c) s \<in> {''true'', ''false''} \<or> s \<in> {''true'', ''false''})"

definition given :: "string \<Rightarrow> (string \<times> json) list \<Rightarrow> bool" where
  "given k ps = (map_of ps k \<noteq> None)"

fun related :: "(string \<times> json) list \<Rightarrow> relation \<Rightarrow> bool" where
  "related ps (Or ks) = list_ex (\<lambda>k. given k ps) ks"
| "related ps (Xor ks) = (length (filter (\<lambda>k. given k ps) ks) = 1)"
| "related ps (Oxor ks) = (length (filter (\<lambda>k. given k ps) ks) \<le> 1)"
| "related ps (With k ks) = (given k ps \<longrightarrow> list_all (\<lambda>k'. given k' ps) ks)"

fun isRequired :: "schema \<Rightarrow> bool" where
  "isRequired (JoiRequired _) = True"
| "isRequired (JoiError _ s) = isRequired s"
| "isRequired _ = False"

text \<open>A value of a simple kind.\<close>

definition ofKind :: "kind \<Rightarrow> rule list \<Rightarrow> json \<Rightarrow> bool" where
  "ofKind k rs j = (allowed rs j \<or> (case j of
      JStr s \<Rightarrow> (case k of TextKind \<Rightarrow> s \<noteq> [] \<and> withinRules (length s) rs \<and> validText s rs
         | NumberKind \<Rightarrow> numericText s | BooleanKind \<Rightarrow> booleanText s | DateKind \<Rightarrow> True | ObjectKind \<Rightarrow> False)
    | JNum n \<Rightarrow> k = NumberKind \<and> withinBounds n rs \<or> k = DateKind
    | JBool b \<Rightarrow> k = BooleanKind
    | JObj qs \<Rightarrow> k = ObjectKind \<and> withinRules (length qs) rs
    | _ \<Rightarrow> False))"

text \<open>\<open>conforms s ps v\<close>: the value \<open>v\<close>, missing when \<open>None\<close>, is one the schema accepts as a property of an object with the properties \<open>ps\<close>.\<close>

definition conformsObject :: "(string \<times> ((string \<times> json) list \<Rightarrow> json option \<Rightarrow> bool)) list \<Rightarrow> relation list \<Rightarrow> bool \<Rightarrow> json \<Rightarrow> bool" where
  "conformsObject ks rels unknown j = (case j of
      JObj qs \<Rightarrow> list_all (\<lambda>(k, accepts). accepts qs (map_of qs k)) ks
        \<and> (unknown \<or> list_all (\<lambda>(k, _). list_ex (\<lambda>(k', _). k' = k) ks) qs) \<and> list_all (related qs) rels
    | _ \<Rightarrow> False)"

definition conformsArray :: "(json \<Rightarrow> bool) \<Rightarrow> bool \<Rightarrow> rule list \<Rightarrow> json \<Rightarrow> bool" where
  "conformsArray accepts notEmpty rs j = (case j of
      JArr xs \<Rightarrow> list_all accepts xs \<and> (notEmpty \<longrightarrow> xs \<noteq> []) \<and> withinRules (length xs) rs
    | _ \<Rightarrow> False)"

primrec conforms :: "schema \<Rightarrow> (string \<times> json) list \<Rightarrow> json option \<Rightarrow> bool" where
  "conforms (JoiKind k rs) = (\<lambda>ps v. pred_option (ofKind k rs) v)"
| "conforms JoiExist = (\<lambda>ps v. v \<noteq> None)"
| "conforms (JoiObject ks rels unknown) = (\<lambda>ps v. pred_option (conformsObject (map (map_prod (\<lambda>k. k) conforms) ks) rels unknown) v)"
| "conforms (JoiArray s rs) = (\<lambda>ps v. pred_option (conformsArray (\<lambda>x. conforms s [] (Some x)) (isRequired s) rs) v)"
| "conforms (JoiTry ss) = (\<lambda>ps v. v = None \<or> list_ex (\<lambda>accepts. accepts ps v) (map conforms ss))"
| "conforms (JoiConditional k is t e) = (\<lambda>ps v. if conforms is ps (map_of ps k) then conforms t ps v else conforms e ps v)"
| "conforms (JoiConditionalThen k is t) = (\<lambda>ps v. v = None \<or> \<not> conforms is ps (map_of ps k) \<or> conforms t ps v)"
| "conforms (JoiWhen is t s) = (\<lambda>ps v. conforms s ps v \<and> (conforms is ps v \<longrightarrow> conforms t ps v))"
| "conforms (JoiRequired s) = (\<lambda>ps v. v \<noteq> None \<and> conforms s ps v)"
| "conforms (JoiError h s) = (\<lambda>ps v. conforms s ps v)"

definition failWith :: "error_status \<Rightarrow> schema \<Rightarrow> schema" where
  "failWith st s = JoiError (\<lambda>_. Some (Status st)) s"

text \<open>\<open>Joi.object({...})\<close> accepts no other keys.\<close>

definition object :: "(string \<times> schema) list \<Rightarrow> schema" where
  "object ks = JoiObject ks [] False"

text \<open>An identifier: an object, a text or a number.\<close>

definition anyId :: schema where
  "anyId = JoiTry [JoiAnyObject [], JoiString [], JoiNumber []]"

definition objectOrText :: schema where
  "objectOrText = JoiTry [JoiAnyObject [], JoiString []]"

lemmas schema_defs = failWith_def object_def anyId_def objectOrText_def

end
