(* ===== verification/Validations.thy ===== *)
theory Validations
  imports Schemas
begin

text \<open>
  The schemas of \<^verbatim>\<open>src/APIs/JSON/validations\<close>, one definition per property of their exported objects. \<open>failWith\<close> is \<open>.error(new Error(...))\<close>;
  the error functions of the source are written out where they are used.
\<close>

section \<open>Messages and typing\<close>

definition attachmentSchema :: schema where
  "attachmentSchema = JoiObject [
     (''file_id'', JoiString []), (''file_name'', JoiString [Max 255]), (''file_blur_hash'', JoiString [Max 255]),
     (''file_content_type'', JoiString [Max 255]), (''file_size'', JoiNumber [Max 104857601]),
     (''file_width'', JoiNumber [Max 10000]), (''file_height'', JoiNumber [Max 10000])] [] True"

definition messagesSchema_create :: schema where
  "messagesSchema_create = JoiObject [
     (''id'', failWith INCORRECT_MESSAGE_ID (JoiString [Min 1])),
     (''cid'', failWith CID_REQUIRED (JoiRequired (JoiString []))),
     (''x'', JoiAnyObject []),
     (''body'', failWith MESSAGE_BODY_AND_ATTACHMENTS_EMPTY (JoiString [Max 65536, Allow [JStr []]])),
     (''attachments'', failWith MESSAGE_BODY_AND_ATTACHMENTS_EMPTY (JoiArray attachmentSchema [Min 1])),
     (''replied_message_id'', JoiString []),
     (''forwarded_message_id'', JoiString []),
     (''deleted_for'', JoiArray (JoiRequired anyId) []),
     (''encrypted_message_type'', JoiNumber [Allow [JNum 1, JNum 0]])]
     [Or [''body'', ''attachments'']] False"

definition messagesSchema_edit :: schema where
  "messagesSchema_edit = JoiRequired (object [
     (''id'', failWith INCORRECT_MESSAGE_ID objectOrText),
     (''body'', failWith MESSAGE_BODY_AND_ATTACHMENTS_EMPTY (JoiRequired (JoiString [Max 65536])))])"

definition messagesSchema_reactions_update :: schema where
  "messagesSchema_reactions_update = JoiObject [
     (''mid'', failWith INCORRECT_MESSAGE_ID (JoiRequired objectOrText)),
     (''add'', JoiString [Max 10]),
     (''remove'', JoiString [Max 10])] [Or [''add'', ''remove'']] False"

text \<open>\<open>allow\<close> lists values, not schemas: every object is accepted as \<open>updated_at\<close>.\<close>

definition messagesSchema_list :: schema where
  "messagesSchema_list = JoiRequired (object [
     (''cid'', failWith CID_REQUIRED (JoiRequired (JoiString []))),
     (''ids'', JoiArray (JoiString []) [Max 100]),
     (''limit'', JoiNumber []),
     (''updated_at'', JoiAnyObject [])])"

definition messagesSchema_reactions_list :: schema where
  "messagesSchema_reactions_list = object [(''mid'', failWith INCORRECT_MESSAGE_ID (JoiRequired objectOrText))]"

definition messagesSchema_read :: schema where
  "messagesSchema_read = JoiRequired (object [
     (''cid'', failWith CID_REQUIRED (JoiRequired (JoiString []))),
     (''ids'', JoiArray objectOrText [])])"

definition messagesSchema_decryption_failed :: schema where
  "messagesSchema_decryption_failed = JoiRequired (object [
     (''cid'', failWith CID_REQUIRED (JoiRequired (JoiString []))),
     (''ids'', JoiRequired (JoiArray objectOrText [Min 1]))])"

definition byOnlyCode :: "error_status \<Rightarrow> error_status \<Rightarrow> joi_report \<Rightarrow> exn option" where
  "byOnlyCode only other e = Some (Status (if jr_code e = ''any.only'' then only else other))"

definition messagesSchema_delete :: schema where
  "messagesSchema_delete = JoiRequired (object [
     (''cid'', failWith CID_REQUIRED (JoiRequired (JoiString []))),
     (''type'', JoiError (byOnlyCode INCORRECT_TYPE MESSAGE_TYPE_MISSED) (JoiRequired (JoiString [Valid [''all'', ''myself'']]))),
     (''ids'', failWith MESSAGE_ID_MISSED (JoiRequired (JoiArray (JoiRequired objectOrText) [Min 1]))),
     (''deleted_for'', JoiArray (JoiRequired anyId) [])])"

definition quote :: "string \<Rightarrow> string" where
  "quote s = [CHR 0x27] @ s @ [CHR 0x27]"

definition systemError :: "joi_report \<Rightarrow> exn option" where
  "systemError e =
     (if jr_error e \<noteq> None then jr_error e
      else if jr_limit e \<noteq> None \<and> jr_limit e \<noteq> Some 0
        then Some (Status \<lparr>err_status = 422, err_message = quote (case jr_key e of None \<Rightarrow> ''undefined'' | Some k \<Rightarrow> k) @ '' max length ''
          @ decimal (the (jr_limit e))\<rparr>)
      else if jr_peers e = Some [''cid'', ''uids''] then Some (Status (requiredError (quote ''cid'' @ '' or '' @ quote ''uids'')))
      else None)"

definition messagesSchema_system :: schema where
  "messagesSchema_system = JoiRequired (JoiError systemError (JoiObject [
     (''id'', failWith INCORRECT_MESSAGE_ID (JoiRequired (JoiString [Min 1]))),
     (''cid'', JoiString []),
     (''uids'', JoiArray (JoiRequired anyId) [Max 20]),
     (''x'', failWith (requiredError (quote ''x'')) (JoiRequired (JoiObject [] [] True)))]
     [Or [''cid'', ''uids''], Oxor [''cid'', ''uids'']] False))"

definition messagesSchema_summary :: schema where
  "messagesSchema_summary = JoiRequired (object [
     (''cid'', JoiRequired (JoiString [])),
     (''filter'', JoiString [Valid [''last-7-days'', ''last-day'', ''unreads'']])])"

definition messagesSchema_tone :: schema where
  "messagesSchema_tone = JoiRequired (object [
     (''body'', JoiRequired (JoiString [Min 1])),
     (''tone'', JoiString [Valid [''positive'', ''negative'', ''cringe'']])])"

definition statusSchema_typing :: schema where
  "statusSchema_typing = JoiRequired (object [
     (''cid'', failWith CID_REQUIRED (JoiRequired (JoiString []))),
     (''status'', JoiString [Allow [JStr ''start'', JStr ''stop'']])])"

section \<open>Users, block lists and activities\<close>

definition numberOrText255 :: schema where
  "numberOrText255 = JoiTry [JoiRequired (JoiNumber [Max 255]), JoiRequired (JoiString [Max 255])]"

definition deviceIdRequired :: schema where
  "deviceIdRequired = failWith DEVICE_ID_MISSED (JoiRequired (JoiTry [JoiNumber [], JoiString [Max 255]]))"

definition emailPattern :: string where
  "emailPattern = ''^[a-z0-9._%+-]+@[a-z0-9.-]+'' @ [CHR 0x5C] @ ''.[a-z]{2,4}$''"

definition usersSchema_create :: schema where
  "usersSchema_create = object [
     (''organization_id'', JoiRequired (JoiString [])),
     (''login'', failWith INCORRECT_LOGIN (JoiRequired (JoiString [Min 3, Max 40]))),
     (''password'', failWith INCORRECT_PASSWORD (JoiRequired (JoiString [Min 3, Max 40]))),
     (''email'', JoiRequired (JoiString [])),
     (''phone'', JoiString [Min 3, Max 15]),
     (''device_id'', numberOrText255)]"

definition avatarSchema :: schema where
  "avatarSchema = object [(''file_id'', JoiString []), (''file_name'', JoiString [Max 255]), (''file_blur_hash'', JoiString [Max 255])]"

definition usersSchema_edit :: schema where
  "usersSchema_edit = JoiObject [
     (''current_password'', failWith INCORRECT_CURRENT_PASSWORD (JoiString [])),
     (''new_password'', JoiString [Min 3, Max 40]),
     (''email'', JoiString [Pattern emailPattern]),
     (''phone'', JoiString [Min 3, Max 15]),
     (''login'', JoiString [Min 3, Max 40]),
     (''first_name'', JoiString [Min 1, Max 20]),
     (''last_name'', JoiString [Min 1, Max 20]),
     (''avatar_object'', avatarSchema)] [With ''current_password'' [''current_password'']] False"

definition usersSchema_connect :: schema where
  "usersSchema_connect = object [(''token'', JoiString []), (''device_id'', deviceIdRequired)]"

definition usersSchema_login :: schema where
  "usersSchema_login = JoiObject [
     (''organization_id'', JoiRequired (JoiString [])),
     (''login'', failWith USER_LOGIN_OR_PASS (JoiString [])),
     (''userId'', anyId),
     (''token'', JoiString []),
     (''password'', JoiString []),
     (''device_id'', deviceIdRequired)]
     [Oxor [''token'', ''login''], With ''login'' [''password'']] True"

definition usersSchema_logout :: schema where
  "usersSchema_logout = JoiRequired (object [])"

definition usersSchema_delete :: schema where
  "usersSchema_delete = JoiRequired (object [])"

definition usersSchema_search :: schema where
  "usersSchema_search = JoiRequired (object [
     (''keyword'', JoiRequired (JoiString [])),
     (''limit'', JoiNumber [Min 1, Max 100]),
     (''updated_at'', object [(''gt'', JoiDate)]),
     (''ignore_ids'', JoiArray anyId [])])"

definition usersSchema_send_otp :: schema where
  "usersSchema_send_otp = JoiRequired (object [
     (''organization_id'', JoiRequired (JoiString [])),
     (''email'', JoiString [Pattern emailPattern]),
     (''device_id'', numberOrText255)])"

definition usersSchema_reset_password :: schema where
  "usersSchema_reset_password = JoiRequired (object [
     (''organization_id'', JoiRequired (JoiString [])),
     (''email'', JoiString [Pattern emailPattern]),
     (''device_id'', numberOrText255),
     (''token'', JoiTry [JoiString [], JoiNumber []]),
     (''new_password'', JoiString [Min 3, Max 40])])"

definition usersSchema_list :: schema where
  "usersSchema_list = JoiRequired (object [(''ids'', JoiArray anyId [Min 1, Max 100])])"

definition blockIds :: schema where
  "blockIds = failWith INVALID_DATA_FORMAT (JoiRequired (object [
     (''ids'', JoiRequired (JoiArray (JoiTry [JoiAnyObject [], JoiString [Min 24], JoiNumber []]) []))]))"

definition usersBlockSchema_block :: schema where
  "usersBlockSchema_block = blockIds"

definition usersBlockSchema_unblock :: schema where
  "usersBlockSchema_unblock = blockIds"

definition usersBlockSchema_list :: schema where
  "usersBlockSchema_list = JoiRequired (object [])"

definition usersBlockSchema_enable :: schema where
  "usersBlockSchema_enable = object [(''enable'', JoiBoolean [])]"

definition activitiesSchema_status_subscribe :: schema where
  "activitiesSchema_status_subscribe = JoiRequired (object [(''id'', failWith USER_ID_MISSED (JoiRequired anyId))])"

definition activitiesSchema_status_unsubscribe :: schema where
  "activitiesSchema_status_unsubscribe = JoiRequired (object [])"

definition activitiesSchema_get_user_status :: schema where
  "activitiesSchema_get_user_status = JoiRequired (object [(''ids'', JoiRequired (JoiArray (JoiRequired anyId) []))])"

definition activitiesSchema_online_list :: schema where
  "activitiesSchema_online_list = object [
     (''count'', JoiBoolean []), (''idsOnly'', JoiBoolean []), (''limit'', JoiNumber [Max 100, Min 1]), (''offset'', JoiNumber [Min 0])]"

definition activitiesSchema_activity_status :: schema where
  "activitiesSchema_activity_status = JoiRequired (object [(''isInactive'', JoiBoolean [Default (JBool False)])])"

section \<open>Contacts\<close>

definition contactValues :: schema where
  "contactValues = JoiArray (object [(''type'', JoiString []), (''value'', JoiString [])]) []"

definition contactKeys :: "(string \<times> schema) list" where
  "contactKeys = [
     (''first_name'', JoiString [Min 2, Max 255]), (''last_name'', JoiString [Min 2, Max 255]), (''company'', JoiString [Min 2, Max 255]),
     (''email'', contactValues), (''phone'', contactValues)]"

text \<open>An error without peers makes the function itself fail; other peers leave an \<open>undefined\<close> in the place of the error.\<close>

definition contactError :: "joi_report \<Rightarrow> exn option" where
  "contactError e = (case jr_peers e of
      Some peers \<Rightarrow> if peers = [''email'', ''phone''] then Some (Status EMAIL_OR_PHONE_IS_MISSED)
        else if peers = [''first_name'', ''last_name''] then Some (Status FULLNAME_IS_MISSED) else Some TypeError
    | None \<Rightarrow> Some TypeError)"

definition contactSchema :: schema where
  "contactSchema = JoiError contactError (JoiObject contactKeys [Or [''email'', ''phone''], Or [''first_name'', ''last_name'']] False)"

definition contactsSchema_contact_add :: schema where
  "contactsSchema_contact_add = JoiRequired contactSchema"

definition contactsSchema_contact_batch_add :: schema where
  "contactsSchema_contact_batch_add = JoiRequired (object [(''contacts'', JoiArray contactSchema [])])"

definition contactsSchema_contact_update :: schema where
  "contactsSchema_contact_update = JoiRequired (object ((''id'', failWith CONTACT_ID_MISSED (JoiRequired (JoiString []))) # contactKeys))"

definition contactsSchema_contact_delete :: schema where
  "contactsSchema_contact_delete = JoiRequired (object [(''id'', failWith CONTACT_ID_MISSED (JoiRequired (JoiString [])))])"

definition contactsSchema_contact_list :: schema where
  "contactsSchema_contact_list = JoiRequired (object [(''updated_at'', JoiDate), (''limit'', JoiNumber [])])"

section \<open>Conversations\<close>

definition conversationHandlersSchema_create :: schema where
  "conversationHandlersSchema_create = object [(''cid'', JoiRequired (JoiString [])), (''content'', JoiRequired (JoiString []))]"

definition conversationHandlersSchema_get :: schema where
  "conversationHandlersSchema_get = object [(''cid'', JoiRequired (JoiString []))]"

definition conversationHandlersSchema_delete :: schema where
  "conversationHandlersSchema_delete = object [(''cid'', JoiRequired (JoiString []))]"

definition participantsError :: "joi_report \<Rightarrow> exn option" where
  "participantsError e = Some (Status (if jr_code e = ''array.max'' then TOO_MANY_USERS_IN_GROUP else USER_SELECTED))"

definition participantIdsSchema :: "nat \<Rightarrow> schema" where
  "participantIdsSchema maxParticipants = JoiArray (JoiRequired anyId) [Min 1, Max maxParticipants]"

definition conversationsSchema_create :: "env \<Rightarrow> schema" where
  "conversationsSchema_create E = JoiRequired (object [
     (''type'', JoiError (byOnlyCode INCORRECT_TYPE CONVERSATION_TYPE_MISSED) (JoiRequired (JoiString [Valid [''u'', ''g'', ''c'']]))),
     (''name'', JoiConditional ''type'' (JoiString [Valid [''g'', ''c'']])
        (failWith CONVERSATION_NAME_MISSED (JoiRequired (JoiString [Max 255])))
        (JoiString [Max 255])),
     (''description'', JoiString [Max 255]),
     (''opponent_id'', JoiConditionalThen ''type'' (JoiRequired (JoiString [Valid [''u'']])) anyId),
     (''owner_id'', anyId),
     (''participants'', JoiError participantsError (JoiConditional ''type'' (JoiString [Valid [''c'']])
        (participantIdsSchema (cfg_maxParticipants E)) (JoiRequired (participantIdsSchema (cfg_maxParticipants E))))),
     (''image_object'', avatarSchema),
     (''is_encrypted'', JoiBoolean [Allow [JBool True]])])"

definition idChangesSchema :: schema where
  "idChangesSchema = object [(''add'', JoiArray anyId []), (''remove'', JoiArray anyId [])]"

definition conversationsSchema_update :: schema where
  "conversationsSchema_update = object [
     (''id'', JoiRequired (JoiString [])),
     (''name'', JoiString [Max 255]),
     (''description'', JoiString [Max 255]),
     (''participants'', idChangesSchema),
     (''admins'', idChangesSchema),
     (''image_object'', avatarSchema)]"

definition conversationsSchema_list :: schema where
  "conversationsSchema_list = JoiRequired (object [
     (''limit'', JoiNumber []),
     (''updated_at'', object [(''gt'', JoiDate), (''lt'', JoiDate)]),
     (''ids'', JoiArray objectOrText [Max 10])])"

definition conversationsSchema_delete :: schema where
  "conversationsSchema_delete = JoiRequired (object [(''id'', JoiRequired (JoiString []))])"

definition cidsSchema :: schema where
  "cidsSchema = JoiRequired (object [(''cids'', failWith CIDS_REQUIRED (JoiRequired (JoiArray objectOrText [])))])"

definition conversationsSchema_get_participants_by_cids :: schema where
  "conversationsSchema_get_participants_by_cids = cidsSchema"

definition conversationsSchema_get_admins_by_cids :: schema where
  "conversationsSchema_get_admins_by_cids = cidsSchema"

definition conversationsSchema_search :: schema where
  "conversationsSchema_search = JoiRequired (object [
     (''name'', JoiRequired (JoiString [])),
     (''limit'', JoiNumber [Min 1, Max 100]),
     (''updated_at'', object [(''gt'', JoiDate)])])"

definition conversationsSchema_subscribe :: schema where
  "conversationsSchema_subscribe = object [(''cid'', objectOrText)]"

definition conversationsSchema_unsubscribe :: schema where
  "conversationsSchema_unsubscribe = object [(''cid'', objectOrText)]"

section \<open>Devices, files, logs and push notifications\<close>

definition encryptionSchema_device_register :: schema where
  "encryptionSchema_device_register = object [
     (''identity_key'', failWith INCORRECT_IDENTITY_KEY (JoiRequired (JoiString [Max 255]))),
     (''signed_key'', failWith INCORRECT_SIGNED_KEY (JoiRequired (JoiString [Max 255]))),
     (''one_time_pre_keys'', failWith INCORRECT_ONE_TIME_PRE_KEYS
        (JoiRequired (JoiTry [JoiAnyObject [Max 100], JoiArray (JoiString [Max 255]) [Max 100]])))]"

definition encryptionSchema_device_list :: schema where
  "encryptionSchema_device_list = object []"

definition encryptionSchema_request_keys :: schema where
  "encryptionSchema_request_keys = object [
     (''user_ids'', failWith INCORRECT_USERS_ARRAY (JoiRequired (JoiArray (failWith INCORRECT_USER_ID (JoiString [])) [Max 50])))]"

definition encryptionSchema_device_delete :: schema where
  "encryptionSchema_device_delete = object [(''device_id'', JoiRequired numberOrText255)]"

text \<open>Another key leaves an \<open>undefined\<close> in the place of the error.\<close>

definition filesError :: "joi_report \<Rightarrow> exn option" where
  "filesError e =
     (if jr_code e = ''array.max'' then Some (Status FILE_LIMIT_EXCEEDED)
      else if jr_key e = Some ''name'' then Some (Status INCORRECT_FILE_NAME)
      else if jr_key e = Some ''size'' then Some (Status INCORRECT_FILE_SIZE)
      else if jr_key e = Some ''content_type'' then Some (Status INCORRECT_CONTENT_TYPE)
      else Some TypeError)"

definition filesSchema_create_url :: schema where
  "filesSchema_create_url = JoiError filesError (JoiRequired (JoiArray (object [
     (''name'', JoiRequired (JoiString [Max 255])),
     (''size'', JoiRequired (JoiNumber [])),
     (''content_type'', JoiRequired (JoiString []))]) [Max 10]))"

definition fileIdsError :: "joi_report \<Rightarrow> exn option" where
  "fileIdsError e = Some (Status (if jr_code e = ''array.max'' then FILE_IDS_EXCEEDED else FILE_IDS_MISSED))"

definition filesSchema_get_download_url :: schema where
  "filesSchema_get_download_url = JoiRequired (object [
     (''file_ids'', JoiError fileIdsError (JoiRequired (JoiArray (JoiString []) [Min 1, Max 10])))])"

definition operationsLogSchema_logs :: schema where
  "operationsLogSchema_logs = JoiRequired (object [
     (''created_at'', failWith LOG_TIMESTAMP_MISSED (JoiObject [(''gt'', JoiDate), (''lt'', JoiDate)] [Oxor [''gt'', ''lt'']] False))])"

definition pushError :: "joi_report \<Rightarrow> exn option" where
  "pushError e =
     (if jr_code e = ''object.missing'' then Some (Status INCORRECT_TOKEN)
      else if jr_key e = Some ''platform'' then Some (Status INCORRECT_PLATFORM_TYPE)
      else if jr_key e = Some ''web_endpoint'' then Some (Status INCORRECT_TOKEN)
      else if jr_key e = Some ''web_key_auth'' then Some (Status INCORRECT_KEYS)
      else if jr_key e = Some ''web_key_p256dh'' then Some (Status INCORRECT_KEYS)
      else if jr_key e = Some ''device_udid'' then Some (Status INCORRECT_DEVICE_ID)
      else if jr_key e = Some ''device_token'' then Some (Status INCORRECT_TOKEN)
      else Some TypeError)"

definition pushSchema_push_subscription_create :: schema where
  "pushSchema_push_subscription_create = JoiError pushError (JoiWhen
     (JoiObject [(''web_endpoint'', JoiExist)] [] True)
     (JoiObject [(''web_key_auth'', JoiRequired (JoiString [])), (''web_key_p256dh'', JoiRequired (JoiString []))] [] True)
     (JoiObject [
       (''platform'', JoiRequired (JoiString [Valid [''web'', ''ios'', ''android'']])),
       (''web_endpoint'', JoiString []), (''web_key_auth'', JoiString []), (''web_key_p256dh'', JoiString []),
       (''device_udid'', JoiRequired (JoiString [])), (''device_token'', JoiString [])]
       [Xor [''web_endpoint'', ''device_token'']] False))"

definition pushSchema_push_subscription_list :: schema where
  "pushSchema_push_subscription_list = JoiRequired (object [(''user_id'', failWith USER_ID_MISSED (JoiRequired anyId))])"

definition pushSchema_push_subscription_delete :: schema where
  "pushSchema_push_subscription_delete = JoiRequired (object [(''device_udid'', failWith DEVICE_ID_MISSED (JoiRequired (JoiString [])))])"

definition pushSchema_push_event_create :: schema where
  "pushSchema_push_event_create = JoiRequired (object [
     (''recipients_ids'', failWith INCORRECT_RECIPIENTS_IDS (JoiRequired (JoiArray anyId [Min 1]))),
     (''message'', failWith NOTIFICATION_MESSAGE_MISSED (JoiRequired (object [
        (''title'', JoiString []), (''topic'', JoiString []), (''body'', JoiString []), (''message'', JoiString [])])))])"

end
