(* ===== verification/Stats.thy ===== *)
theory Stats
  imports Sessions
begin

text \<open>
  The statistics of a node: \<^verbatim>\<open>services/stats/index.js\<close>, with the middleware \<^verbatim>\<open>app/common/stats_messages_middleware.js\<close> that counts
  the requests which carry messages. The calendar (moment), the answers of the databases to a ping and the time the process runs are
  parameters.
\<close>

section \<open>Counting messages\<close>

text \<open>A ping is answered, fails with a message, or is not answered within the time limit.\<close>

datatype ping = Pong | PingError string | NoPong

record stats_libs =
  sl_calendar :: calendar
  sl_mongoPing :: "world \<Rightarrow> ping"
  sl_redisPing :: "world \<Rightarrow> ping"
  sl_uptimeMs :: "world \<Rightarrow> nat"

text \<open>\<open>parseInt\<close> gives a number or \<open>NaN\<close>.\<close>

definition normalizeInc :: "int option \<Rightarrow> int" where
  "normalizeInc parsed = (case parsed of None \<Rightarrow> 0 | Some i \<Rightarrow> i)"

definition incMessagesCount :: "stats_libs \<Rightarrow> int option \<Rightarrow> world \<Rightarrow> world" where
  "incMessagesCount L parsed w = (let i = normalizeInc parsed; C = sl_calendar L; date = clock w in
     w\<lparr>messagesPerMinute := incPair C (messagesPerMinute w) i date, messagesPerHour := incPair C (messagesPerHour w) i date,
       messagesPerDay := incPair C (messagesPerDay w) i date\<rparr>)"

definition statsMessages_handle :: "stats_libs \<Rightarrow> world \<Rightarrow> world" where
  "statsMessages_handle L = incMessagesCount L (Some 1)"

definition resetChatStatsAll :: "stats_libs \<Rightarrow> world \<Rightarrow> world" where
  "resetChatStatsAll L w = (let C = sl_calendar L; date = clock w in
     w\<lparr>messagesPerMinute := resetPair C (messagesPerMinute w) date, messagesPerHour := resetPair C (messagesPerHour w) date,
       messagesPerDay := resetPair C (messagesPerDay w) date\<rparr>)"

section \<open>The health of the node\<close>

definition STATS_DEPENDENCIES_CACHE_TTL_MS :: nat where
  "STATS_DEPENDENCIES_CACHE_TTL_MS = 10000"

definition withTimeout :: "ping \<Rightarrow> string option" where
  "withTimeout p = (case p of Pong \<Rightarrow> None | PingError e \<Rightarrow> Some e | NoPong \<Rightarrow> Some ''ping timeout'')"

definition pingMongo :: "stats_libs \<Rightarrow> world \<Rightarrow> dependency" where
  "pingMongo L w = \<lparr>dp_name = ''mongodb'', dp_error = withTimeout (sl_mongoPing L w)\<rparr>"

definition pingRedis :: "stats_libs \<Rightarrow> world \<Rightarrow> dependency" where
  "pingRedis L w = \<lparr>dp_name = ''redis'', dp_error = withTimeout (sl_redisPing L w)\<rparr>"

definition collectHealthStats :: "stats_libs \<Rightarrow> world \<Rightarrow> dependency list" where
  "collectHealthStats L w = [pingMongo L w, pingRedis L w]"

definition dependencyView :: "dependency \<Rightarrow> json" where
  "dependencyView d = JObj ([(''name'', JStr (dp_name d)), (''status'', JStr (if dp_error d = None then ''ok'' else ''fail''))] @ jopt ''error'' (dp_error d))"

definition collectServerStats :: "env \<Rightarrow> stats_libs \<Rightarrow> bool \<Rightarrow> world \<Rightarrow> (string \<times> json) list \<times> world" where
  "collectServerStats E L force w =
     (let isOld = (case dependenciesStatus w of
            Some (_, lastUpdate) \<Rightarrow> if force then True else int (clock w) - int lastUpdate > int STATS_DEPENDENCIES_CACHE_TTL_MS
          | None \<Rightarrow> True);
          (dependencies, lastUpdate) = (if isOld then (collectHealthStats L w, clock w) else the (dependenciesStatus w));
          isOk = list_all (\<lambda>d. dp_error d = None) dependencies
      in ([(''status'', JStr (if isOk then ''ok'' else ''fail'')), (''hostname'', JStr (cfg_hostName E)),
           (''uptime_seconds'', JNum (int (sl_uptimeMs L w div 1000))), (''dependencies'', JArr (map dependencyView dependencies)),
           (''lastUpdateDependencies'', JNum (int lastUpdate))],
          w\<lparr>dependenciesStatus := Some (dependencies, lastUpdate)\<rparr>))"

definition collectUsersStats :: "world \<Rightarrow> (string \<times> json) list" where
  "collectUsersStats w = [(''online_users'', JNum (int (totalSessions w)))]"

fun castedView :: "string \<Rightarrow> casted \<Rightarrow> (string \<times> json) list" where
  "castedView k NullValue = [(k, JNull)]"
| "castedView k UndefinedValue = []"
| "castedView k (Counted i) = [(k, JNum i)]"

definition collectChatStats :: "stats_libs \<Rightarrow> world \<Rightarrow> (string \<times> json) list \<times> world" where
  "collectChatStats L w =
     (let C = sl_calendar L; (m, pm) = retrieve C (messagesPerMinute w) (clock w); (h, ph) = retrieve C (messagesPerHour w) (clock w);
          (d, pd) = retrieve C (messagesPerDay w) (clock w)
      in (castedView ''messages_per_minute'' m @ castedView ''messages_per_hour'' h @ castedView ''messages_per_day'' d,
          w\<lparr>messagesPerMinute := pm, messagesPerHour := ph, messagesPerDay := pd\<rparr>))"

text \<open>\<open>Object.assign\<close> keeps the place of the host name.\<close>

definition collectStats :: "env \<Rightarrow> stats_libs \<Rightarrow> world \<Rightarrow> (string \<times> json) list \<times> world" where
  "collectStats E L w =
     (let (serverStats, w1) = collectServerStats E L True w; (chatStats, w2) = collectChatStats L w1
      in ((''hostname'', JStr (cfg_hostName E)) # filter (\<lambda>(k, _). k \<noteq> ''hostname'') serverStats @ collectUsersStats w1 @ chatStats, w2))"

definition HttpStatsCollect_perform :: "env \<Rightarrow> stats_libs \<Rightarrow> bool \<Rightarrow> world \<Rightarrow> (string \<times> json) list \<times> world" where
  "HttpStatsCollect_perform E L onlyServer w = (if onlyServer then collectServerStats E L False w else collectStats E L w)"

text \<open>For concrete runs.\<close>

definition plain_stats :: stats_libs where
  "plain_stats = \<lparr>sl_calendar = utc_calendar, sl_mongoPing = (\<lambda>_. Pong), sl_redisPing = (\<lambda>_. Pong), sl_uptimeMs = clock\<rparr>"

text \<open>Within ten seconds the remembered health is answered, and the databases are not asked.\<close>

lemma health_remembered:
  assumes "dependenciesStatus w = Some (ds, t)" "clock w \<le> t + STATS_DEPENDENCIES_CACHE_TTL_MS"
  shows "collectServerStats E L False w = ([(''status'', JStr (if list_all (\<lambda>d. dp_error d = None) ds then ''ok'' else ''fail'')),
      (''hostname'', JStr (cfg_hostName E)), (''uptime_seconds'', JNum (int (sl_uptimeMs L w div 1000))), (''dependencies'', JArr (map dependencyView ds)),
      (''lastUpdateDependencies'', JNum (int t))], w)"
  using assms by (simp add: collectServerStats_def)

end
