(* ===== verification/Api.thy ===== *)
theory Api
  imports Controllers Validations Stats
begin

text \<open>
  The JSON API from the bytes of a package to the answer: \<open>BaseProtocolProcessor.onPackage\<close>
  (\<^verbatim>\<open>app/networking/protocol_processors/base.js\<close>), the packet processor and the table of routes (\<^verbatim>\<open>src/APIs/JSON/routes\<close>), the guard for
  sockets without a session, and the chaining of middleware and validation (\<^verbatim>\<open>app/common/controller.js\<close>).

  Parameters: \<open>joiValidate\<close> runs a Joi schema and gives the error it reports, \<open>errorText\<close> is the text the engine gives
  to its own errors, \<open>xmppOnMessage\<close> the entry of the XMPP API, \<open>sortIds\<close> the order of the users of a node, \<open>statsLibs\<close> what the statistics need.
\<close>

section \<open>Routes\<close>

record api_libs =
  joiValidate :: "schema \<Rightarrow> json option \<Rightarrow> exn option"
  errorText :: string
  xmppOnMessage :: "socket \<Rightarrow> string \<Rightarrow> response handler"
  sortIds :: "oid list \<Rightarrow> oid list"
  statsLibs :: stats_libs

record route =
  rt_guard :: bool
  rt_counted :: bool
  rt_schema :: "schema option"
  rt_controller :: "socket \<Rightarrow> json \<Rightarrow> api_response handler"

definition openRoute :: "schema option \<Rightarrow> (socket \<Rightarrow> json \<Rightarrow> api_response handler) \<Rightarrow> route" where
  "openRoute schema controller = \<lparr>rt_guard = False, rt_counted = False, rt_schema = schema, rt_controller = controller\<rparr>"

definition guardedRoute :: "schema \<Rightarrow> (socket \<Rightarrow> json \<Rightarrow> api_response handler) \<Rightarrow> route" where
  "guardedRoute schema controller = \<lparr>rt_guard = True, rt_counted = False, rt_schema = Some schema, rt_controller = controller\<rparr>"

text \<open>The routes that also count a message in the statistics.\<close>

definition countedRoute :: "schema \<Rightarrow> (socket \<Rightarrow> json \<Rightarrow> api_response handler) \<Rightarrow> route" where
  "countedRoute schema controller = (guardedRoute schema controller)\<lparr>rt_counted := True\<rparr>"

definition statusRoutes :: "env \<Rightarrow> (string \<times> route) list" where
  "statusRoutes E = [
     (''ping'', openRoute None StatusesController_ping),
     (''typing'', guardedRoute statusSchema_typing (StatusesController_typing E))]"

definition messageRoutes :: "env \<Rightarrow> (string \<times> route) list" where
  "messageRoutes E = [
     (''message'', countedRoute messagesSchema_create (MessagesController_create E)),
     (''message_edit'', countedRoute messagesSchema_edit (MessagesController_edit E)),
     (''message_reactions_update'', countedRoute messagesSchema_reactions_update (MessagesController_reactions_update E)),
     (''message_list'', guardedRoute messagesSchema_list (MessagesController_list E)),
     (''message_reactions_list'', guardedRoute messagesSchema_reactions_list (MessagesController_reactions_list E)),
     (''message_read'', guardedRoute messagesSchema_read (MessagesController_read E)),
     (''message_decryption_failed'', guardedRoute messagesSchema_decryption_failed (MessagesController_decryption_failed E)),
     (''message_delete'', guardedRoute messagesSchema_delete (MessagesController_delete E)),
     (''message_summary'', guardedRoute messagesSchema_summary (MessagesController_summary E)),
     (''message_tone'', guardedRoute messagesSchema_tone (MessagesController_tone E)),
     (''system_message'', countedRoute messagesSchema_system (MessagesController_sendSystem E))]"

definition userRoutes :: "env \<Rightarrow> (string \<times> route) list" where
  "userRoutes E = [
     (''connect'', openRoute (Some usersSchema_connect) (UsersController_connect E)),
     (''user_create'', openRoute (Some usersSchema_create) (UsersController_create E)),
     (''user_edit'', guardedRoute usersSchema_edit (UsersController_edit E)),
     (''user_login'', openRoute (Some usersSchema_login) (UsersController_login E)),
     (''user_logout'', guardedRoute usersSchema_logout (UsersController_logout E)),
     (''user_delete'', guardedRoute usersSchema_delete (UsersController_delete E)),
     (''user_send_otp'', openRoute (Some usersSchema_send_otp) (UsersController_send_otp E)),
     (''user_reset_password'', openRoute (Some usersSchema_reset_password) (UsersController_reset_password E)),
     (''user_search'', guardedRoute usersSchema_search (UsersController_search E)),
     (''get_users_by_ids'', guardedRoute usersSchema_list (UsersController_list E))]"

definition contactRoutes :: "env \<Rightarrow> (string \<times> route) list" where
  "contactRoutes E = [
     (''contact_add'', guardedRoute contactsSchema_contact_add (ContactsController_contact_add E)),
     (''contact_batch_add'', guardedRoute contactsSchema_contact_batch_add (ContactsController_contact_batch_add E)),
     (''contact_update'', guardedRoute contactsSchema_contact_update (ContactsController_contact_update E)),
     (''contact_delete'', guardedRoute contactsSchema_contact_delete (ContactsController_contact_delete E)),
     (''contact_list'', guardedRoute contactsSchema_contact_list (ContactsController_contact_list E))]"

definition fileRoutes :: "env \<Rightarrow> (string \<times> route) list" where
  "fileRoutes E = [
     (''create_files'', guardedRoute filesSchema_create_url (FilesController_create_url E)),
     (''get_file_urls'', guardedRoute filesSchema_get_download_url (FilesController_get_download_url E)),
     (''op_log_list'', guardedRoute operationsLogSchema_logs (OperationsLogController_logs E))]"

definition blockRoutes :: "env \<Rightarrow> (string \<times> route) list" where
  "blockRoutes E = [
     (''block_user'', guardedRoute usersBlockSchema_block (UsersBlockController_block E)),
     (''unblock_user'', guardedRoute usersBlockSchema_unblock (UsersBlockController_unblock E)),
     (''list_blocked_users'', guardedRoute usersBlockSchema_list (UsersBlockController_list E)),
     (''block_list_enable'', guardedRoute usersBlockSchema_enable (UsersBlockController_enable E))]"

definition activityRoutes :: "env \<Rightarrow> api_libs \<Rightarrow> (string \<times> route) list" where
  "activityRoutes E A = [
     (''user_last_activity_subscribe'', guardedRoute activitiesSchema_status_subscribe (ActivitiesController_status_subscribe E)),
     (''user_last_activity_unsubscribe'', guardedRoute activitiesSchema_status_unsubscribe (ActivitiesController_status_unsubscribe E)),
     (''user_last_activity'', guardedRoute activitiesSchema_get_user_status (ActivitiesController_get_user_status E)),
     (''online_list'', guardedRoute activitiesSchema_online_list (ActivitiesController_online_list E (sortIds A))),
     (''activity_status'', guardedRoute activitiesSchema_activity_status (ActivitiesController_activity_status E))]"

definition conversationRoutes :: "env \<Rightarrow> (string \<times> route) list" where
  "conversationRoutes E = [
     (''get_participants_by_cids'', guardedRoute conversationsSchema_get_participants_by_cids (ConversationsController_get_participants_by_cids E)),
     (''get_admins_by_cids'', guardedRoute conversationsSchema_get_admins_by_cids (ConversationsController_get_admins_by_cids E)),
     (''conversation_create'', guardedRoute (conversationsSchema_create E) (ConversationsController_create E)),
     (''conversation_delete'', guardedRoute conversationsSchema_delete (ConversationsController_delete E)),
     (''conversation_update'', guardedRoute conversationsSchema_update (ConversationsController_update E)),
     (''conversation_list'', guardedRoute conversationsSchema_list (ConversationsController_list E)),
     (''conversation_search'', guardedRoute conversationsSchema_search (ConversationsController_search E)),
     (''conversation_subscribe'', guardedRoute conversationsSchema_subscribe (ConversationsController_subscribe_channel E)),
     (''conversation_unsubscribe'', guardedRoute conversationsSchema_unsubscribe (ConversationsController_unsubscribe_channel E)),
     (''conversation_handler_create'', guardedRoute conversationHandlersSchema_create (ConversationHandlersController_create E)),
     (''get_conversation_handler'', guardedRoute conversationHandlersSchema_get (ConversationHandlersController_get E)),
     (''conversation_handler_delete'', guardedRoute conversationHandlersSchema_delete (ConversationHandlersController_delete E))]"

definition pushRoutes :: "env \<Rightarrow> (string \<times> route) list" where
  "pushRoutes E = [
     (''push_subscription_create'', guardedRoute pushSchema_push_subscription_create (PushNotificationsController_push_subscription_create E)),
     (''push_subscription_list'', guardedRoute pushSchema_push_subscription_list (PushNotificationsController_push_subscription_list E)),
     (''push_subscription_delete'', guardedRoute pushSchema_push_subscription_delete (PushNotificationsController_push_subscription_delete E)),
     (''push_event_create'', guardedRoute pushSchema_push_event_create (PushNotificationsController_push_event_create E))]"

definition encryptionRoutes :: "env \<Rightarrow> (string \<times> route) list" where
  "encryptionRoutes E = [
     (''device_register'', guardedRoute encryptionSchema_device_register (EncryptionController_register E)),
     (''device_list'', guardedRoute encryptionSchema_device_list (EncryptionController_list E)),
     (''request_keys'', guardedRoute encryptionSchema_request_keys (EncryptionController_request_keys E)),
     (''device_delete'', guardedRoute encryptionSchema_device_delete (EncryptionController_delete E))]"

definition routes :: "env \<Rightarrow> api_libs \<Rightarrow> (string \<times> route) list" where
  "routes E A = statusRoutes E @ messageRoutes E @ userRoutes E @ contactRoutes E @ fileRoutes E @ blockRoutes E @ activityRoutes E A
     @ conversationRoutes E @ pushRoutes E @ encryptionRoutes E"

text \<open>
  The guard asks for a session, or for one of the requests that need none: it looks for their names among all properties of the request, not only
  at the first one, which selects the route.
\<close>

definition publicNames :: "string list" where
  "publicNames = [''user_create'', ''user_login'', ''connect'', ''user_send_otp'', ''user_reset_password'']"

definition authGuard :: "socket \<Rightarrow> json \<Rightarrow> unit handler" where
  "authGuard ws json = andThen (gets (\<lambda>w. getSession w ws)) (\<lambda>session.
     if session = None \<and> list_all (\<lambda>k. \<not> truthyJson (getProp k (Some json))) publicNames then throw (Status UNAUTHORIZED) else ret ())"

text \<open>The values that Joi converts are not kept: the controller gets the data as it came.\<close>

definition validate :: "api_libs \<Rightarrow> schema \<Rightarrow> json option \<Rightarrow> unit handler" where
  "validate A schema data = (case joiValidate A schema data of None \<Rightarrow> ret () | Some e \<Rightarrow> throw e)"

definition runRoute :: "api_libs \<Rightarrow> string \<Rightarrow> route \<Rightarrow> socket \<Rightarrow> json \<Rightarrow> api_response handler" where
  "runRoute A name r ws json =
     andThen (if rt_guard r then authGuard ws json else ret ()) (\<lambda>_.
     andThen (if rt_counted r then modify (statsMessages_handle (statsLibs A)) else ret ()) (\<lambda>_.
     andThen (case rt_schema r of None \<Rightarrow> ret () | Some schema \<Rightarrow> validate A schema (getProp name (Some json))) (\<lambda>_.
       rt_controller r ws json)))"

section \<open>Processing a package\<close>

text \<open>
  The table is an object and inherits the properties of \<open>Object.prototype\<close>: some of these functions return a falsy value, some a value
  that is no response, the others throw; a name that is found nowhere is \<open>undefined\<close> and cannot be called.
\<close>

datatype route_result = Answered api_response | NoAnswer | NotAResponse

definition inheritedRoute :: "string \<Rightarrow> exn + route_result" where
  "inheritedRoute name =
     (if name \<in> {''hasOwnProperty'', ''isPrototypeOf'', ''propertyIsEnumerable'', ''__lookupGetter__'', ''__lookupSetter__''} then Inr NoAnswer
      else if name \<in> {''constructor'', ''toString'', ''toLocaleString'', ''valueOf''} then Inr NotAResponse
      else Inl TypeError)"

text \<open>The name of the request and its data: the request is the value itself or, wrapped, its property \<open>request\<close>.\<close>

definition unwrapRequest :: "json \<Rightarrow> exn + (string option \<times> json)" where
  "unwrapRequest json = (case firstName json of
      Inl e \<Rightarrow> Inl e
    | Inr topName \<Rightarrow>
        if topName = Some ''request''
        then (case getProp ''request'' (Some json) of
            None \<Rightarrow> Inl TypeError
          | Some reqData \<Rightarrow> (case firstName reqData of Inl e \<Rightarrow> Inl e | Inr name \<Rightarrow> Inr (name, reqData)))
        else Inr (topName, json))"

definition processMessage :: "env \<Rightarrow> api_libs \<Rightarrow> socket \<Rightarrow> json \<Rightarrow> route_result handler" where
  "processMessage E A ws json =
     andThen (liftE (unwrapRequest json)) (\<lambda>(name, reqData).
       case name of
         None \<Rightarrow> throw TypeError
       | Some n \<Rightarrow> (case map_of (routes E A) n of
           None \<Rightarrow> liftE (inheritedRoute n)
         | Some r \<Rightarrow> andThen (runRoute A n r ws reqData) (\<lambda>res. ret (Answered res))))"

definition exnJson :: "api_libs \<Rightarrow> exn \<Rightarrow> json" where
  "exnJson A e = (case e of
      Status s \<Rightarrow> JObj [(''status'', JNum (int (err_status s))), (''message'', JStr (err_message s))]
    | PlainError text \<Rightarrow> JStr text
    | TypeError \<Rightarrow> JStr (errorText A))"

definition requestTrackId :: "json option \<Rightarrow> json option" where
  "requestTrackId json = orElse (getProp ''id'' (getProp ''request'' json)) (orElse (getProp ''id'' (getProp ''message'' json))
     (orElse (getProp ''id'' (getProp ''system_message'' json)) (getProp ''id'' json)))"

definition topLevelElement :: "json option \<Rightarrow> string" where
  "topLevelElement json = (if truthyJson json
     then (case json of None \<Rightarrow> ''undefined'' | Some j \<Rightarrow> (case firstName j of Inr (Some k) \<Rightarrow> k | _ \<Rightarrow> ''undefined''))
     else ''undefined'')"

definition errorBackMessage :: "api_libs \<Rightarrow> json option \<Rightarrow> exn \<Rightarrow> json" where
  "errorBackMessage A json e =
     (if truthyJson (getProp ''request'' json)
      then JObj [(''response'', JObj (withProp ''id'' (orElse (getProp ''id'' (getProp ''request'' json)) (requestTrackId json)) [(''error'', exnJson A e)]))]
      else JObj [(topLevelElement json, JObj (withProp ''id'' (orElse (getProp ''id'' (getProp (topLevelElement json) json)) (requestTrackId json))
                [(''error'', exnJson A e)]))])"

definition processMessageOrError :: "env \<Rightarrow> api_libs \<Rightarrow> socket \<Rightarrow> string \<Rightarrow> route_result handler" where
  "processMessageOrError E A ws text = (\<lambda>w.
     let json = jsonParse E text; failed = (\<lambda>e. Answered (apiResponse [errorBackMessage A json e] []))
     in case json of
          None \<Rightarrow> (Inr (failed TypeError), w)
        | Some j \<Rightarrow> (case processMessage E A ws j w of (Inl e, w1) \<Rightarrow> (Inr (failed e), w1) | (Inr r, w1) \<Rightarrow> (Inr r, w1)))"

definition stringifyResponse :: "api_response \<Rightarrow> response" where
  "stringifyResponse r = Response\<lparr>rp_backMessages := map stringifyMessage (ar_backMessages r),
     rp_deliverMessages := map (\<lambda>(packet, m). m\<lparr>dm_packet := stringifyMessage packet\<rparr>) (ar_deliverMessages r),
     rp_lastActivityStatusResponse := ar_lastActivity r\<rparr>"

definition onMessage :: "env \<Rightarrow> api_libs \<Rightarrow> socket \<Rightarrow> string \<Rightarrow> response handler" where
  "onMessage E A ws text = andThen (processMessageOrError E A ws text) (\<lambda>result. case result of
      Answered r \<Rightarrow> ret (stringifyResponse r)
    | NoAnswer \<Rightarrow> ret Response
    | NotAResponse \<Rightarrow> throw TypeError)"

text \<open>
  The text decoder of the process is shared by all sockets. A package that ends within a character of several bytes leaves its bytes in
  the decoder, which puts them before the next package. (Texts are their bytes in UTF-8; the replacement of invalid bytes is left out.)
\<close>

definition isLead :: "nat \<Rightarrow> char \<Rightarrow> bool" where
  "isLead n c = ((if n = 1 then 192 else if n = 2 then 224 else 240) \<le> (of_char c :: nat) \<and> (of_char c :: nat) < 248)"

definition isContinuation :: "char \<Rightarrow> bool" where
  "isContinuation c = (128 \<le> (of_char c :: nat) \<and> (of_char c :: nat) < 192)"

fun incompleteTail :: "string \<Rightarrow> nat" where
  "incompleteTail (a # b # c # cs) = (if isLead 1 a then 1 else if isLead 2 b \<and> isContinuation a then 2
     else if isLead 3 c \<and> isContinuation a \<and> isContinuation b then 3 else 0)"
| "incompleteTail [a, b] = (if isLead 1 a then 1 else if isLead 2 b \<and> isContinuation a then 2 else 0)"
| "incompleteTail [a] = (if isLead 1 a then 1 else 0)"
| "incompleteTail [] = 0"

definition decodePackage :: "string \<Rightarrow> string handler" where
  "decodePackage buffer = transact (\<lambda>w.
     let bytes = decoderBuffer w @ buffer; n = length bytes - incompleteTail (rev bytes)
     in (take n bytes, w\<lparr>decoderBuffer := drop n bytes\<rparr>))"

definition processPackage :: "env \<Rightarrow> api_libs \<Rightarrow> socket \<Rightarrow> string \<Rightarrow> unit handler" where
  "processPackage E A ws text =
     (if text = [] then ret ()
      else andThen (gets (\<lambda>w. apiTypes w ws)) (\<lambda>known.
        andThen (case known of
            Some a \<Rightarrow> ret a
          | None \<Rightarrow> (case detectAPIType E text of
               None \<Rightarrow> throw (PlainError ''Unknown message format'')
             | Some a \<Rightarrow> andThen (modify (\<lambda>w. w\<lparr>apiTypes := (apiTypes w)(ws \<mapsto> a)\<rparr>)) (\<lambda>_. ret a))) (\<lambda>api.
        andThen (case api of JSON \<Rightarrow> onMessage E A ws text | XMPP \<Rightarrow> xmppOnMessage A ws text) (\<lambda>r.
          processAPIResponse E (Some ws) r))))"

definition onProcessingError :: "socket \<Rightarrow> world \<Rightarrow> world" where
  "onProcessingError ws w = w\<lparr>outbox := outbox w @ [(ws, stringifyMessage (JObj [(''response'', JObj [(''error'',
     JObj [(''status'', JNum (int (err_status INVALID_DATA_FORMAT))), (''message'', JStr (err_message INVALID_DATA_FORMAT))])])]))]\<rparr>"

definition onPackage :: "env \<Rightarrow> api_libs \<Rightarrow> socket \<Rightarrow> string \<Rightarrow> world \<Rightarrow> world" where
  "onPackage E A ws packageData w = (case andThen (decodePackage packageData) (processPackage E A ws) w of
      (Inr _, w1) \<Rightarrow> w1
    | (Inl _, w1) \<Rightarrow> onProcessingError ws w1)"

section \<open>A concrete instance\<close>

text \<open>Parameters for concrete runs: validation refuses what does not conform to the schema.\<close>

definition plain_libs :: api_libs where
  "plain_libs = \<lparr>joiValidate = (\<lambda>s v. if conforms s [] v then None else Some (PlainError ''ValidationError'')), errorText = ''TypeError'',
     xmppOnMessage = (\<lambda>_ _. ret Response), sortIds = (\<lambda>ids. ids), statsLibs = plain_stats\<rparr>"

end
