(* ===== verification/Http.thy ===== *)
theory Http
  imports Api
begin

text \<open>
  The HTTP API: \<^verbatim>\<open>app/networking/protocol_processors/http.js\<close>, the controllers of \<^verbatim>\<open>APIs/JSON/controllers/http\<close>, the operations of
  \<^verbatim>\<open>operations/http\<close> and the cookies of \<^verbatim>\<open>APIs/JSON/utils/cookie-tools.js\<close>. A request is answered once; the packets for others are
  delivered while the answer is on its way, and in the meantime the session that the request opened is removed. \<open>late\<close> is the number of packets
  that are delivered before that.

  Parameters (\<open>http_libs\<close>) are the configuration and the cookie libraries. A response object is named by a number, like a socket. Requests arrive whole.
  Requests of this API are not validated: parameters of another type than the operations are written for are read as errors, as for the JSON API.
\<close>

section \<open>Requests and answers\<close>

record cookie_options =
  co_maxAge :: nat
  co_httpOnly :: bool
  co_secure :: bool
  co_sameSite :: string

record http_libs =
  hl_cookieSecret :: "string option"
  hl_corsOrigin :: "string option"
  hl_apiKey :: "string option"
  hl_accessExpiresIn :: nat
  hl_refreshExpiresIn :: nat
  hl_cookieParse :: "string \<Rightarrow> (string \<times> string) list option"
  hl_signedCookies :: "(string \<times> string) list \<Rightarrow> string \<Rightarrow> (string \<times> json) list"
  hl_cookieSign :: "string \<Rightarrow> string \<Rightarrow> string"
  hl_cookieSerialize :: "string \<Rightarrow> string \<Rightarrow> cookie_options \<Rightarrow> string"

record http_request =
  hq_method :: string
  hq_url :: string
  hq_headers :: "(string \<times> string) list"
  hq_body :: string

record http_context =
  hc_headers :: "(string \<times> string) list"
  hc_signedCookies :: "(string \<times> json) list option"
  hc_body :: json

record http_response =
  hp_status :: nat
  hp_headers :: "(string \<times> string) list"
  hp_cookies :: "(string \<times> string \<times> cookie_options) list"
  hp_body :: "json option"

definition HttpResponse :: "nat \<Rightarrow> json option \<Rightarrow> http_response" where
  "HttpResponse status body = \<lparr>hp_status = status, hp_headers = [], hp_cookies = [], hp_body = body\<rparr>"

definition addCookie :: "string \<Rightarrow> string \<Rightarrow> cookie_options \<Rightarrow> http_response \<Rightarrow> http_response" where
  "addCookie name v options r = r\<lparr>hp_cookies := hp_cookies r @ [(name, v, options)]\<rparr>"

definition addHeader :: "string \<Rightarrow> string \<Rightarrow> http_response \<Rightarrow> http_response" where
  "addHeader name v r = r\<lparr>hp_headers := AList.update name v (hp_headers r)\<rparr>"

definition stringifyBody :: "http_response \<Rightarrow> string option" where
  "stringifyBody r = (if truthyJson (hp_body r) then map_option stringifyMessage (hp_body r) else None)"

record http_answer =
  ha_http :: http_response
  ha_response :: api_response

definition httpAnswer :: "nat \<Rightarrow> (string \<times> json) list \<Rightarrow> (json \<times> deliver_message) list \<Rightarrow> http_answer" where
  "httpAnswer status ps deliverMessages = \<lparr>ha_http = HttpResponse status (Some (JObj ps)), ha_response = apiResponse [] deliverMessages\<rparr>"

section \<open>Cookies, headers and the body\<close>

text \<open>Without a secret the signed cookies are \<open>undefined\<close>, and signing throws.\<close>

definition parserCookies :: "http_libs \<Rightarrow> string \<Rightarrow> exn + (string \<times> json) list option" where
  "parserCookies L cookieStr = (case hl_cookieParse L cookieStr of
      None \<Rightarrow> Inl TypeError
    | Some cookies \<Rightarrow> Inr (case hl_cookieSecret L of None \<Rightarrow> None
        | Some secret \<Rightarrow> if secret = [] then None else Some (hl_signedCookies L cookies secret)))"

definition serializeCookie :: "http_libs \<Rightarrow> string \<Rightarrow> string \<Rightarrow> cookie_options \<Rightarrow> exn + string" where
  "serializeCookie L name v options =
     (if co_secure options
      then (case hl_cookieSecret L of None \<Rightarrow> Inl TypeError | Some secret \<Rightarrow> Inr (hl_cookieSerialize L name (''s:'' @ hl_cookieSign L v secret) options))
      else Inr (hl_cookieSerialize L name v options))"

text \<open>Of a header that comes several times the last one counts; an error of the cookie parser is logged.\<close>

definition headerOf :: "string \<Rightarrow> http_context \<Rightarrow> string option" where
  "headerOf name ctx = map_of (rev (hc_headers ctx)) name"

definition parseBaseParams :: "http_libs \<Rightarrow> http_request \<Rightarrow> http_context" where
  "parseBaseParams L req = \<lparr>hc_headers = hq_headers req,
     hc_signedCookies = (case map_of (rev (hq_headers req)) ''cookie'' of
         None \<Rightarrow> Some []
       | Some c \<Rightarrow> if c = [] then Some [] else (case parserCookies L c of Inl _ \<Rightarrow> Some [] | Inr cs \<Rightarrow> cs)),
     hc_body = JObj []\<rparr>"

definition includesText :: "string \<Rightarrow> string \<Rightarrow> bool" where
  "includesText s part \<longleftrightarrow> list_ex (\<lambda>i. take (length part) (drop i s) = part) [0..<Suc (length s)]"

text \<open>\<open>+text\<close> of the digits of a length; anything else is \<open>NaN\<close>, which is falsy like zero.\<close>

definition lengthOf :: "string \<Rightarrow> nat" where
  "lengthOf s = (if list_all isDigit s then foldl (\<lambda>n c. 10 * n + (of_char c - 48)) 0 s else 0)"

definition parseJsonBody :: "env \<Rightarrow> http_request \<Rightarrow> http_context \<Rightarrow> http_context" where
  "parseJsonBody E req ctx =
     (case (headerOf ''content-type'' ctx, headerOf ''content-length'' ctx) of
        (Some contentType, Some contentLength) \<Rightarrow>
          if \<not> includesText contentType ''application/json'' \<or> lengthOf contentLength = 0 then ctx
          else (case jsonParse E (hq_body req) of None \<Rightarrow> ctx | Some j \<Rightarrow> ctx\<lparr>hc_body := j\<rparr>)
      | _ \<Rightarrow> ctx)"

definition HTTP_ADMIN_API_KEY_HEADER :: string where
  "HTTP_ADMIN_API_KEY_HEADER = ''admin-api-key''"

text \<open>The server gives an empty text for a header that is missing.\<close>

definition adminApiKeyValidation :: "http_libs \<Rightarrow> http_request \<Rightarrow> unit handler" where
  "adminApiKeyValidation L req =
     (let apiKey = (case map_of (hq_headers req) HTTP_ADMIN_API_KEY_HEADER of None \<Rightarrow> [] | Some k \<Rightarrow> k)
      in if Some apiKey \<noteq> hl_apiKey L then throw (Status UNAUTHORIZED) else ret ())"

definition addCorsHeaders :: "http_libs \<Rightarrow> http_context \<Rightarrow> (string \<times> string) list" where
  "addCorsHeaders L ctx = [
     (''Access-Control-Allow-Origin'', case hl_corsOrigin L of Some o' \<Rightarrow> o'
        | None \<Rightarrow> (case headerOf ''origin'' ctx of Some o' \<Rightarrow> o' | None \<Rightarrow> ''*'')),
     (''Access-Control-Allow-Credentials'', ''true''),
     (''Access-Control-Allow-Methods'', ''POST, PUT, DELETE''),
     (''Access-Control-Allow-Headers'', ''Content-Type, Authorization, API-Key'')]"

section \<open>Login and logout\<close>

definition extractAccessTokenFromAuthHeader :: "string option \<Rightarrow> string option" where
  "extractAccessTokenFromAuthHeader authHeader = (case authHeader of None \<Rightarrow> None
    | Some h \<Rightarrow> (case split_on CHR '' '' h of _ # token # _ \<Rightarrow> Some token | _ \<Rightarrow> None))"

definition refreshCookie :: "http_context \<Rightarrow> string option handler" where
  "refreshCookie ctx = (case hc_signedCookies ctx of
      None \<Rightarrow> throw TypeError
    | Some cookies \<Rightarrow> ret (case map_of cookies ''refresh_token'' of Some (JStr t) \<Rightarrow> Some t | _ \<Rightarrow> None))"

definition truthyText :: "string option \<Rightarrow> bool" where
  "truthyText t \<longleftrightarrow> t \<noteq> None \<and> t \<noteq> Some []"

text \<open>\<open>None\<close> stands for a missing identifier as the empty text: no document has it.\<close>

definition textOr :: "string option \<Rightarrow> string" where
  "textOr t = (case t of None \<Rightarrow> [] | Some s \<Rightarrow> s)"

definition HttpUserAuth_perform :: "env \<Rightarrow> http_libs \<Rightarrow> socket \<Rightarrow> http_context \<Rightarrow> ((user \<times> string option) \<times> user_token \<times> nat \<times> user_token) handler" where
  "HttpUserAuth_perform E L res ctx = (let p = Some (hc_body ctx) in
     andThen (refreshCookie ctx) (\<lambda>refreshToken.
     let accessToken = extractAccessTokenFromAuthHeader (headerOf ''authorization'' ctx) in
     andThen (destructured p) (\<lambda>_.
     if \<not> truthyJson (getProp ''device_id'' p) then throw (Status DEVICE_ID_MISSED)
     else andThen (required readText ''device_id'' p) (\<lambda>device_id.
     andThen (optional readText ''organization_id'' p) (\<lambda>organization_id.
     andThen (optional readText ''login'' p) (\<lambda>login. andThen (optional readText ''password'' p) (\<lambda>password.
     andThen (if truthyText login \<and> truthyText password
        then ret \<lparr>ui_organization_id = textOr organization_id, ui_device_id = device_id, ui_token = None, ui_userId = None,
          ui_login = login, ui_password = password\<rparr>
        else if truthyText accessToken \<or> truthyText refreshToken
        then ret \<lparr>ui_organization_id = [], ui_device_id = device_id,
          ui_token = (if truthyText accessToken then accessToken else refreshToken), ui_userId = None, ui_login = None, ui_password = None\<rparr>
        else throw (Status MISSING_AUTH_CREDENTIALS)) (\<lambda>userInfo.
     andThen (UserAuth_perform E res userInfo True) (\<lambda>(user, newAccessToken).
     andThen (createRefreshToken E (fst user) device_id) (\<lambda>newRefreshToken.
       ret (user, newAccessToken, t_updated_at newAccessToken + hl_accessExpiresIn L * 1000, newRefreshToken)))))))))))"

fun tokenText :: "token_value \<Rightarrow> string" where
  "tokenText (Jwt s) = s"
| "tokenText (Otp n) = decimal n"

definition refreshOptions :: "nat \<Rightarrow> cookie_options" where
  "refreshOptions maxAge = \<lparr>co_maxAge = maxAge, co_httpOnly = True, co_secure = True, co_sameSite = ''lax''\<rparr>"

definition HttpAuthController_login :: "env \<Rightarrow> http_libs \<Rightarrow> http_context \<Rightarrow> socket \<Rightarrow> http_answer handler" where
  "HttpAuthController_login E L ctx res =
     andThen (HttpUserAuth_perform E L res ctx) (\<lambda>(user, newAccessToken, accessTokenExpiredAt, newRefreshToken).
       ret \<lparr>ha_http = addCookie ''refresh_token'' (tokenText (t_token newRefreshToken)) (refreshOptions (hl_refreshExpiresIn L))
          (HttpResponse 200 (Some (JObj [(''user'', visibleUserWithAvatar user), (''access_token'', tokenView (t_token newAccessToken)),
             (''expired_at'', jnat accessTokenExpiredAt)]))),
          ha_response = apiResponse [] []\<rparr>)"

definition HttpAuthController_logout :: "env \<Rightarrow> http_context \<Rightarrow> socket \<Rightarrow> http_answer handler" where
  "HttpAuthController_logout E ctx res =
     andThen (refreshCookie ctx) (\<lambda>refreshToken.
     andThen (HttpUserLogout_perform E (extractAccessTokenFromAuthHeader (headerOf ''authorization'' ctx)) refreshToken)
       (\<lambda>(refreshTokenRecord, isWasLastUserSession).
       ret \<lparr>ha_http = addCookie ''refresh_token'' (tokenText (t_token refreshTokenRecord)) (refreshOptions 0)
          (HttpResponse 200 (Some (JObj [(''success'', JBool True)]))),
          ha_response = (if isWasLastUserSession
             then withActivity (t_organization_id refreshTokenRecord) (t_user_id refreshTokenRecord) OFFLINE (apiResponse [] []) else apiResponse [] [])\<rparr>))"

section \<open>Messages on behalf of a user\<close>

text \<open>The request acts as a user: its response object gets a session as a device of that user.\<close>

definition actAs :: "socket \<Rightarrow> string \<Rightarrow> json \<Rightarrow> unit handler" where
  "actAs res k payload =
     andThen (destructured (Some payload)) (\<lambda>_.
     andThen (optional readText ''organizationId'' (Some payload)) (\<lambda>organizationId. andThen (optional readText k (Some payload)) (\<lambda>userId.
       modify (\<lambda>w. snd (addUserDeviceConnection res (textOr organizationId) (textOr userId) HTTP_DEVICE_ID w)))))"

definition withDefault :: "string \<Rightarrow> json \<Rightarrow> json option \<Rightarrow> json option" where
  "withDefault k d data = (case data of
      Some (JObj ps) \<Rightarrow> Some (JObj (if map_of ps k = None then (k, d) # ps else ps))
    | None \<Rightarrow> None
    | Some JNull \<Rightarrow> Some JNull
    | Some _ \<Rightarrow> Some (JObj [(k, d)]))"

definition HttpMessageCreate_perform :: "env \<Rightarrow> socket \<Rightarrow> json \<Rightarrow> create_result handler" where
  "HttpMessageCreate_perform E res payload =
     andThen (actAs res ''senderId'' payload) (\<lambda>_.
     andThen (destructured (params ''message'' payload)) (\<lambda>_.
     andThen (messageParams (withDefault ''cid'' (JStr []) (params ''message'' payload))) (MessageCreate_perform E res)))"

definition HttpMessageController_message :: "env \<Rightarrow> http_context \<Rightarrow> socket \<Rightarrow> http_answer handler" where
  "HttpMessageController_message E ctx res =
     andThen (HttpMessageCreate_perform E res (hc_body ctx)) (\<lambda>r.
       ret \<lparr>ha_http = HttpResponse 201 (Some (askPacket r)), ha_response = apiResponse [] (map (createdDelivery r) (cr_deliverMessages r))\<rparr>)"

text \<open>The other operations give the parameters that the answer repeats along with the result.\<close>

definition HttpMessageSendSystem_perform :: "env \<Rightarrow> socket \<Rightarrow> json \<Rightarrow> (string option \<times> oid option \<times> system_result) handler" where
  "HttpMessageSendSystem_perform E res payload = (let p = params ''messageSystem'' payload in
     andThen (actAs res ''senderId'' payload) (\<lambda>_.
     andThen (destructured p) (\<lambda>_.
     andThen (optional readText ''id'' p) (\<lambda>i. andThen (optional readText ''cid'' p) (\<lambda>cidParam.
     andThen (optional (readList readText) ''uids'' p) (\<lambda>uids.
     let cid = (if truthyText cidParam then cidParam else None) in
     andThen (if cid = None \<and> uids = None then throw TypeError else ret ()) (\<lambda>_.
     andThen (MessageSendSystem_perform E res cid (idsOf uids)) (\<lambda>r. ret (i, cid, r)))))))))"

definition HttpMessageController_system_message :: "env \<Rightarrow> http_context \<Rightarrow> socket \<Rightarrow> http_answer handler" where
  "HttpMessageController_system_message E ctx res = (let payload = hc_body ctx in
     andThen (HttpMessageSendSystem_perform E res payload) (\<lambda>(i, cid, r).
       ret (httpAnswer 201 [(''ask'', JObj (jopt ''mid'' i @ [(''t'', jnat (sr_t r))]))]
         [deliver (sr_organizationId r) True
            (SystemMessageResponse (JObj (jopt ''_id'' i @ [(''from'', JStr (sr_from r)), (''t'', jnat (sr_t r))] @
               withProp ''x'' (getProp ''x'' (params ''messageSystem'' payload)) (jopt ''cid'' cid))))
            (\<lambda>m. toUsers (sr_recipientsIds r) (toConversation (sr_cId r) m))])))"

definition HttpMessageRead_perform :: "env \<Rightarrow> socket \<Rightarrow> json \<Rightarrow> (oid \<times> oid \<times> oid \<times> (oid \<times> oid list) list) handler" where
  "HttpMessageRead_perform E res payload = (let p = params ''messageRead'' payload in
     andThen (actAs res ''senderId'' payload) (\<lambda>_.
     andThen (destructured p) (\<lambda>_.
     andThen (optional readText ''cid'' p) (\<lambda>cid. andThen (optional (readList readText) ''ids'' p) (\<lambda>ids.
     andThen (MessageRead_perform E res (textOr cid) ids (truthyJson (getProp ''resultMessageOnly'' p))) (\<lambda>r. ret (textOr cid, r)))))))"

definition HttpMessageController_read :: "env \<Rightarrow> http_context \<Rightarrow> socket \<Rightarrow> http_answer handler" where
  "HttpMessageController_read E ctx res =
     andThen (HttpMessageRead_perform E res (hc_body ctx)) (\<lambda>(cid, organizationId, from, groups).
       ret (httpAnswer 200 [(''success'', JBool True)]
         (map (\<lambda>(userId, messageIds). deliver organizationId False (ReadMessagesResponse (ReadMessagesPublicFields cid messageIds from))
            (toUsers (Some [userId]))) groups)))"

definition HttpMessageEdit_perform :: "env \<Rightarrow> socket \<Rightarrow> json \<Rightarrow> edit_result handler" where
  "HttpMessageEdit_perform E res payload = (let p = params ''messageEdit'' payload in
     andThen (actAs res ''senderId'' payload) (\<lambda>_.
     andThen (destructured p) (\<lambda>_.
     andThen (optional readText ''id'' p) (\<lambda>i. andThen (required readText ''body'' p) (\<lambda>body. MessageEdit_perform E res (textOr i) body)))))"

definition HttpMessageController_edit :: "env \<Rightarrow> http_context \<Rightarrow> socket \<Rightarrow> http_answer handler" where
  "HttpMessageController_edit E ctx res =
     andThen (HttpMessageEdit_perform E res (hc_body ctx)) (\<lambda>r.
       ret (httpAnswer 200 [(''success'', JBool True)]
         [deliver (er_organizationId r) True (EditMessageResponse (EditMessagePublicFields r))
            (\<lambda>m. toUsers (er_participantsIds r) (toConversation (Some (er_cId r)) m))]))"

definition HttpMessageReaction_perform :: "env \<Rightarrow> socket \<Rightarrow> json \<Rightarrow> (oid \<times> string option \<times> string option \<times> reactions_result) handler" where
  "HttpMessageReaction_perform E res payload = (let p = params ''messageReaction'' payload in
     andThen (actAs res ''senderId'' payload) (\<lambda>_.
     andThen (destructured p) (\<lambda>_.
     andThen (optional readText ''mid'' p) (\<lambda>mid. andThen (optional readText ''add'' p) (\<lambda>add.
     andThen (optional readText ''remove'' p) (\<lambda>remove.
     andThen (ReactionsUpdate_perform E res (textOr mid) add remove) (\<lambda>r. ret (textOr mid, add, remove, r))))))))"

text \<open>Unlike the JSON API, the update is delivered in channels too.\<close>

definition HttpMessageController_reaction :: "env \<Rightarrow> http_context \<Rightarrow> socket \<Rightarrow> http_answer handler" where
  "HttpMessageController_reaction E ctx res =
     andThen (HttpMessageReaction_perform E res (hc_body ctx)) (\<lambda>(mid, add, remove, r).
       ret (httpAnswer 200 [(''success'', JBool True)]
         (case re_conversation r of None \<Rightarrow> []
          | Some c \<Rightarrow> [deliver (re_organizationId r) True (MessageReactionsUpdateResponse (MessageReactionsUpdatePublicFields mid c (re_from r)
              (if re_add r then add else None) (if re_remove r then remove else None)))
              (\<lambda>m. toUsers (participantsOf c) (toConversation (Some (c_id c)) m))])))"

definition HttpMessageDelete_perform :: "env \<Rightarrow> socket \<Rightarrow> json \<Rightarrow> (oid \<times> delete_result) handler" where
  "HttpMessageDelete_perform E res payload = (let p = params ''messageDelete'' payload in
     andThen (actAs res ''senderId'' payload) (\<lambda>_.
     andThen (destructured p) (\<lambda>_.
     andThen (optional readText ''cid'' p) (\<lambda>cid. andThen (required (readList readText) ''ids'' p) (\<lambda>ids.
     andThen (optional readText ''type'' p) (\<lambda>type.
     andThen (MessageDelete_perform E res (textOr cid) ids (type = Some ''all'')) (\<lambda>r. ret (textOr cid, r))))))))"

definition HttpMessageController_delete :: "env \<Rightarrow> http_context \<Rightarrow> socket \<Rightarrow> http_answer handler" where
  "HttpMessageController_delete E ctx res =
     andThen (HttpMessageDelete_perform E res (hc_body ctx)) (\<lambda>(cid, r).
       ret (httpAnswer 200 [(''success'', JBool True)]
         (case dr_deletedMessages r of
            None \<Rightarrow> []
          | Some deletedIds \<Rightarrow> [deliver (dr_organizationId r) True
              (DeleteMessagesResponse (DeleteMessagesPublicFields deletedIds cid (dr_c_type r) (dr_from r)))
              (\<lambda>m. toUsers (dr_participantsIds r) (toConversation (Some (dr_cId r)) m))])))"

lemmas http_message_defs = HttpMessageController_message_def HttpMessageCreate_perform_def
  HttpMessageController_system_message_def HttpMessageSendSystem_perform_def HttpMessageController_read_def HttpMessageRead_perform_def
  HttpMessageController_edit_def HttpMessageEdit_perform_def HttpMessageController_reaction_def HttpMessageReaction_perform_def
  HttpMessageController_delete_def HttpMessageDelete_perform_def

section \<open>Administration\<close>

definition HttpActivityController_online_list :: "env \<Rightarrow> (oid list \<Rightarrow> oid list) \<Rightarrow> http_context \<Rightarrow> socket \<Rightarrow> http_answer handler" where
  "HttpActivityController_online_list E sorter ctx res =
     (let payload = hc_body ctx; p = Some payload; count = truthyJson (getProp ''count'' p) in
     andThen (destructured p) (\<lambda>_.
     andThen (optional readText ''organizationId'' p) (\<lambda>organizationId. andThen (optional readText ''userId'' p) (\<lambda>userId.
     andThen (optional readNumber ''offset'' p) (\<lambda>offset. andThen (optional readNumber ''limit'' p) (\<lambda>lim.
     andThen (awaited (HttpActivityOnlineList_perform E sorter res (textOr organizationId) (textOr userId)
        \<lparr>op_count = count, op_idsOnly = truthyJson (getProp ''idsOnly'' p), op_offset = offset, op_limit = lim\<rparr>)) (\<lambda>result.
       ret (httpAnswer 200 [(if count then ''count'' else ''users'', onlineView result)] []))))))))"

definition OrganizationService_create :: "env \<Rightarrow> json option \<Rightarrow> organization handler" where
  "OrganizationService_create E name = insertInto (mg_organizations E) organizations organizations_update
     (\<lambda>t i. \<lparr>o_id = i, o_is_blocked = False, o_block_reason = None, o_name = name, o_created_at = t, o_updated_at = t\<rparr>)"

definition organizationView :: "organization \<Rightarrow> json" where
  "organizationView o' = JObj ([(''_id'', JStr (o_id o'))] @ withProp ''name'' (o_name o') [] @
     (if o_is_blocked o' then [(''is_blocked'', JBool True)] else []) @ jopt ''block_reason'' (o_block_reason o') @
     [(''created_at'', jnat (o_created_at o')), (''updated_at'', jnat (o_updated_at o'))])"

definition HttpOrganizationCreate_perform :: "env \<Rightarrow> json \<Rightarrow> organization handler" where
  "HttpOrganizationCreate_perform E payload =
     andThen (destructured (Some payload)) (\<lambda>_. OrganizationService_create E (getProp ''name'' (Some payload)))"

definition HttpOrganizationController_create :: "env \<Rightarrow> http_context \<Rightarrow> socket \<Rightarrow> http_answer handler" where
  "HttpOrganizationController_create E ctx res =
     andThen (HttpOrganizationCreate_perform E (hc_body ctx)) (\<lambda>organization.
       ret (httpAnswer 200 [(''organization'', organizationView organization)] []))"

definition HttpStatsController_collect :: "env \<Rightarrow> stats_libs \<Rightarrow> bool \<Rightarrow> http_context \<Rightarrow> socket \<Rightarrow> http_answer handler" where
  "HttpStatsController_collect E S onlyServer ctx res =
     andThen (transact (HttpStatsCollect_perform E S onlyServer)) (\<lambda>stats. ret (httpAnswer 200 stats []))"

definition optionsRequestHandler :: "http_context \<Rightarrow> socket \<Rightarrow> http_answer handler" where
  "optionsRequestHandler ctx res = ret \<lparr>ha_http = HttpResponse 204 None, ha_response = apiResponse [] []\<rparr>"

definition healthCheckHandler :: "env \<Rightarrow> http_context \<Rightarrow> socket \<Rightarrow> http_answer handler" where
  "healthCheckHandler E ctx res = ret \<lparr>ha_http = addHeader ''Content-Type'' ''application/json''
     (HttpResponse 200 (Some (JObj [(''status'', JStr ''ok''), (''hostname'', JStr (cfg_hostName E))]))), ha_response = apiResponse [] []\<rparr>"

definition notFoundHandler :: "http_context \<Rightarrow> socket \<Rightarrow> http_answer handler" where
  "notFoundHandler ctx res = throw (Status ROUTE_NOT_FOUND)"

section \<open>Handling a request\<close>

definition unbindSession :: "env \<Rightarrow> socket \<Rightarrow> world \<Rightarrow> world" where
  "unbindSession E res w = (case getSession w res of None \<Rightarrow> w
    | Some s \<Rightarrow> if s_userId s = [] then w else snd (removeUserSession E res (Some (s_userId s)) (Some HTTP_DEVICE_ID) w))"

text \<open>The response object has no \<open>safeSend\<close>: messages back to it are lost, which is logged.\<close>

definition deliverAndUnbind :: "env \<Rightarrow> nat \<Rightarrow> socket \<Rightarrow> response \<Rightarrow> world \<Rightarrow> world" where
  "deliverAndUnbind E late res r w =
     (case (case rp_lastActivityStatusResponse r of None \<Rightarrow> (Inr r, w)
         | Some status \<Rightarrow> processUpdateLastActivityResponse E (Some res) r status w) of
        (Inl e, w1) \<Rightarrow> unbindSession E res w1
      | (Inr r1, w1) \<Rightarrow>
          let ms = rp_deliverMessages r1; send = (\<lambda>ms w. snd (processDeliverResponse E (Some res) ms w))
          in send (drop late ms) (unbindSession E res (send (take late ms) w1)))"

fun serializedCookies :: "http_libs \<Rightarrow> (string \<times> string \<times> cookie_options) list \<Rightarrow> exn + string list" where
  "serializedCookies L [] = Inr []"
| "serializedCookies L ((name, v, options) # cs) = (case serializeCookie L name v options of
      Inl e \<Rightarrow> Inl e
    | Inr c \<Rightarrow> (case serializedCookies L cs of Inl e \<Rightarrow> Inl e | Inr ts \<Rightarrow> Inr (c # ts)))"

fun joinedCookies :: "string list \<Rightarrow> string" where
  "joinedCookies [] = []"
| "joinedCookies [c] = c"
| "joinedCookies (c # cs) = c @ ''; '' @ joinedCookies cs"

definition processHttpResponse :: "http_libs \<Rightarrow> http_context \<Rightarrow> http_response \<Rightarrow> exn + http_reply" where
  "processHttpResponse L ctx r = (case serializedCookies L (hp_cookies r) of
      Inl e \<Rightarrow> Inl e
    | Inr cs \<Rightarrow>
        let r1 = (if cs = [] then r else addHeader ''Set-Cookie'' (joinedCookies cs) r); bodyStr = stringifyBody r1
        in Inr \<lparr>hr_status = (if bodyStr = None then 204 else if hp_status r1 = 0 then 200 else hp_status r1),
             hr_headers = addCorsHeaders L ctx @ (if bodyStr = None then [] else [(''Content-Type'', ''application/json'')]) @ hp_headers r1,
             hr_body = bodyStr\<rparr>)"

definition errorReply :: "api_libs \<Rightarrow> http_libs \<Rightarrow> http_context \<Rightarrow> exn \<Rightarrow> http_reply" where
  "errorReply A L ctx e = \<lparr>hr_status = (case e of Status s \<Rightarrow> err_status s | _ \<Rightarrow> err_status INTERNAL_SERVER),
     hr_headers = addCorsHeaders L ctx @ [(''Content-Type'', ''text/plain'')],
     hr_body = Some (case e of Status s \<Rightarrow> err_message s | PlainError t \<Rightarrow> t | TypeError \<Rightarrow> errorText A)\<rparr>"

definition replied :: "socket \<Rightarrow> http_reply \<Rightarrow> world \<Rightarrow> world" where
  "replied res r w = w\<lparr>httpOutbox := httpOutbox w @ [(res, r)]\<rparr>"

record http_route =
  ht_admin :: bool
  ht_handler :: "http_context \<Rightarrow> socket \<Rightarrow> http_answer handler"

definition requestHandler :: "env \<Rightarrow> api_libs \<Rightarrow> http_libs \<Rightarrow> nat \<Rightarrow> socket \<Rightarrow> http_request \<Rightarrow> http_route \<Rightarrow> world \<Rightarrow> world" where
  "requestHandler E A L late res req r w =
     (let ctx = parseBaseParams L req
      in case andThen (if ht_admin r then adminApiKeyValidation L req else ret ())
           (\<lambda>_. ht_handler r (parseJsonBody E req ctx) res) w of
           (Inl e, w1) \<Rightarrow> unbindSession E res (replied res (errorReply A L ctx e) w1)
         | (Inr ans, w1) \<Rightarrow> (case processHttpResponse L ctx (ha_http ans) of
             Inl e \<Rightarrow> unbindSession E res (replied res (errorReply A L ctx e) w1)
           | Inr reply \<Rightarrow> deliverAndUnbind E late res (stringifyResponse (ha_response ans)) (replied res reply w1)))"

definition httpRoutes :: "env \<Rightarrow> api_libs \<Rightarrow> http_libs \<Rightarrow> ((string \<times> string) \<times> http_route) list" where
  "httpRoutes E A L = (let S = statsLibs A; open' = (\<lambda>h. \<lparr>ht_admin = False, ht_handler = h\<rparr>); admin = (\<lambda>h. \<lparr>ht_admin = True, ht_handler = h\<rparr>) in [
     ((''get'', ''/health''), open' (healthCheckHandler E)),
     ((''get'', ''/health-stats''), open' (HttpStatsController_collect E S True)),
     ((''get'', ''/admin/server-stats''), admin (HttpStatsController_collect E S False)),
     ((''post'', ''/login''), open' (HttpAuthController_login E L)),
     ((''post'', ''/logout''), open' (HttpAuthController_logout E)),
     ((''post'', ''/admin/organization''), admin (HttpOrganizationController_create E)),
     ((''post'', ''/admin/message/system''), admin (HttpMessageController_system_message E)),
     ((''put'', ''/admin/message/read''), admin (HttpMessageController_read E)),
     ((''put'', ''/admin/message''), admin (HttpMessageController_edit E)),
     ((''put'', ''/admin/message/reaction''), admin (HttpMessageController_reaction E)),
     ((''delete'', ''/admin/message''), admin (HttpMessageController_delete E)),
     ((''post'', ''/admin/message''), admin (HttpMessageController_message E)),
     ((''post'', ''/admin/activity/online''), admin (HttpActivityController_online_list E (sortIds A)))])"

definition httpRoute :: "env \<Rightarrow> api_libs \<Rightarrow> http_libs \<Rightarrow> http_request \<Rightarrow> http_route" where
  "httpRoute E A L req =
     (if hq_method req = ''options'' then \<lparr>ht_admin = False, ht_handler = optionsRequestHandler\<rparr>
      else case map_of (httpRoutes E A L) (hq_method req, hq_url req) of
        Some r \<Rightarrow> r
      | None \<Rightarrow> \<lparr>ht_admin = False, ht_handler = notFoundHandler\<rparr>)"

definition onHttpRequest :: "env \<Rightarrow> api_libs \<Rightarrow> http_libs \<Rightarrow> nat \<Rightarrow> socket \<Rightarrow> http_request \<Rightarrow> world \<Rightarrow> world" where
  "onHttpRequest E A L late res req w = requestHandler E A L late res req (httpRoute E A L req) w"

end
