(* ===== verification/Session_Props.thy ===== *)
theory Session_Props
  imports Sessions
begin

text \<open>
  What \<open>SessionService\<close> promises: the shape of the connection lists in every reachable
  state of a node, what a device connection does to them, and the contents of the Redis
  registry after a device connects, after its session closes, after a listing that
  cleans up stale devices, and after the data of a crashed node is cleared.
\<close>

section \<open>Connections of one user\<close>

lemma find_idx_nth:
  "distinct (map f xs) \<Longrightarrow> k < length xs \<Longrightarrow> find_idx (\<lambda>x. f x = a) xs = Some k \<longleftrightarrow> f (xs ! k) = a"
proof (induction xs arbitrary: k)
  case (Cons x xs)
  show ?case
  proof (cases k)
    case (Suc n)
    with Cons.prems have "f (xs ! n) \<in> f ` set xs" by simp
    with Cons.prems(1) have "f x \<noteq> f (xs ! n)" by (metis distinct.simps(2) list.map(2) list.set_map)
    with Suc Cons show ?thesis by auto
  qed auto
qed simp

lemma drop_at_filter:
  assumes "\<And>k. k < length xs \<Longrightarrow> (Some k \<noteq> i \<and> Some k \<noteq> j) = Q (xs ! k)"
  shows "drop_at i j xs = filter Q xs"
proof -
  have "map snd (filter (\<lambda>(k, x). Some k \<noteq> i \<and> Some k \<noteq> j) (enumerate n ys)) = filter Q ys"
    if "\<And>k. k < length ys \<Longrightarrow> (Some (n + k) \<noteq> i \<and> Some (n + k) \<noteq> j) = Q (ys ! k)" for n ys
    using that
  proof (induction ys arbitrary: n)
    case (Cons y ys)
    have "map snd (filter (\<lambda>(k, x). Some k \<noteq> i \<and> Some k \<noteq> j) (enumerate (Suc n) ys)) = filter Q ys"
      by (rule Cons.IH) (use Cons.prems[of "Suc _"] in simp)
    with Cons.prems[of 0] show ?case by simp
  qed simp
  from this[of xs 0] assms show ?thesis by (simp add: drop_at_def)
qed

definition connections_ok :: "world \<Rightarrow> bool" where
  "connections_ok w \<longleftrightarrow> distinct (map fst (SESSIONS w)) \<and>
     (\<forall>u cs. DEVICES w u = Some cs \<longrightarrow>
        cs \<noteq> [] \<and> distinct (map cn_socket cs) \<and> distinct (map cn_deviceId cs))"

lemma connections_ok_devices:
  assumes "connections_ok w"
  shows "distinct (map cn_socket (getUserDevices w u))" "distinct (map cn_deviceId (getUserDevices w u))"
  using assms by (auto simp: connections_ok_def getUserDevices_def split: option.splits)

lemma add_others:
  assumes "connections_ok w"
  shows "drop_at (find_idx (\<lambda>c. cn_socket c = ws) (getUserDevices w u))
           (find_idx (\<lambda>c. cn_deviceId c = d) (getUserDevices w u)) (getUserDevices w u) =
         filter (\<lambda>c. cn_socket c \<noteq> ws \<and> cn_deviceId c \<noteq> d) (getUserDevices w u)"
proof (rule drop_at_filter)
  fix k assume "k < length (getUserDevices w u)"
  from find_idx_nth[OF connections_ok_devices(1)[OF assms] this, of ws]
    find_idx_nth[OF connections_ok_devices(2)[OF assms] this, of d]
  show "(Some k \<noteq> find_idx (\<lambda>c. cn_socket c = ws) (getUserDevices w u) \<and>
      Some k \<noteq> find_idx (\<lambda>c. cn_deviceId c = d) (getUserDevices w u)) =
      (cn_socket (getUserDevices w u ! k) \<noteq> ws \<and> cn_deviceId (getUserDevices w u ! k) \<noteq> d)" by auto
qed

lemma find_idx_find: "map_option ((!) xs) (find_idx P xs) = List.find P xs"
proof (induction xs)
  case (Cons x xs)
  then show ?case by (cases "find_idx P xs") auto
qed simp

text \<open>Fields of the world that a step of the session service leaves alone.\<close>

lemma setSessionUserId_fields [simp]:
  "DEVICES (setSessionUserId ws o' u x w) = DEVICES w" "redis (setSessionUserId ws o' u x w) = redis w"
  by (simp_all add: setSessionUserId_def setSession_def)

lemma getSession_setSessionUserId:
  "getSession (setSessionUserId ws o' u x w) ws' =
     (if ws' = ws then Some \<lparr>s_organizationId = o', s_userId = u, s_extraParams = x\<rparr> else getSession w ws')"
  by (simp add: getSession_def setSessionUserId_def setSession_def map_of_map_set map_of_map_delete)

lemma distinct_setSessionUserId:
  "distinct (map fst (SESSIONS w)) \<Longrightarrow> distinct (map fst (SESSIONS (setSessionUserId ws o' u x w)))"
  by (simp add: setSessionUserId_def setSession_def distinct_map_set distinct_map_delete)

lemma listUserDevice_fields [simp]:
  "SESSIONS (snd (listUserDevice E o' u f w)) = SESSIONS w"
  "DEVICES (snd (listUserDevice E o' u f w)) = DEVICES w"
  by (simp_all add: listUserDevice_def Let_def split: prod.split)

lemma removeUserDevice_fields [simp]:
  "SESSIONS (snd (removeUserDevice E o' u d w)) = SESSIONS w"
  "DEVICES (snd (removeUserDevice E o' u d w)) = DEVICES w"
  using listUserDevice_fields by (simp_all add: removeUserDevice_def Let_def split_beta)

lemma removeAllUserDeviceData_fields [simp]:
  "SESSIONS (snd (removeAllUserDeviceData E o' u d w)) = SESSIONS w"
  "DEVICES (snd (removeAllUserDeviceData E o' u d w)) = DEVICES w"
  by (simp_all add: removeAllUserDeviceData_def Let_def split_beta)

lemma removeUserData_fields [simp]:
  "SESSIONS (snd (removeUserData E o' u d w)) = SESSIONS w"
  "DEVICES (snd (removeUserData E o' u d w)) = DEVICES w"
  by (simp_all add: removeUserData_def Let_def split_beta)

lemma clearUserConnections_fields [simp]:
  "SESSIONS (snd (clearUserConnections E ds w)) = SESSIONS w"
  "DEVICES (snd (clearUserConnections E ds w)) = DEVICES w"
  by (induction ds arbitrary: w) (simp_all add: Let_def split_beta)

lemma storeUserNodeData_fields:
  "DEVICES (storeUserNodeData E ws o' u d w) = DEVICES w"
  "map fst (SESSIONS (storeUserNodeData E ws o' u d w)) = map fst (SESSIONS w)"
proof -
  have "map fst (map_set ws s al) = map fst al" if "map_of al ws = Some s'" for s s' and al :: "(socket \<times> session) list"
    using that by (auto simp: map_set_def dest: map_of_SomeD intro: rev_image_eqI)
  then show "DEVICES (storeUserNodeData E ws o' u d w) = DEVICES w"
    "map fst (SESSIONS (storeUserNodeData E ws o' u d w)) = map fst (SESSIONS w)"
    by (auto simp: storeUserNodeData_def Let_def split_beta getSession_def split: option.split)
qed

lemma deleteUserData_fields [simp]:
  "SESSIONS (deleteUserData E o' u w) = SESSIONS w" "DEVICES (deleteUserData E o' u w) = DEVICES w"
  by (simp_all add: deleteUserData_def Let_def split_beta)

lemma listUserData_fields [simp]:
  "SESSIONS (snd (listUserData E o' u w)) = SESSIONS w" "DEVICES (snd (listUserData E o' u w)) = DEVICES w"
  by (simp_all add: listUserData_def Let_def split_beta)

section \<open>The node's session machine\<close>

inductive session_step :: "env \<Rightarrow> world \<Rightarrow> world \<Rightarrow> bool" for E where
  connect: "session_step E w (snd (addUserDeviceConnection ws org u d w))"
| store: "session_step E w (storeUserNodeData E ws org u d w)"
| forget_device: "session_step E w (snd (removeAllUserDeviceData E org u d w))"
| mark: "session_step E w (snd (setSessionInactiveState E ws b w))"
| list_devices: "session_step E w (snd (listUserDevice E org u b w))"
| close: "session_step E w (snd (removeUserSession E ws ou od w))"
| close_all: "session_step E w (removeAllUserSessions E ws w)"
| clear_node: "session_step E w (snd (clearNodeUsersSession E n w))"

inductive node_run :: "env \<Rightarrow> world \<Rightarrow> bool" for E where
  start: "SESSIONS w = [] \<Longrightarrow> DEVICES w = Map.empty \<Longrightarrow> node_run E w"
| step: "node_run E w \<Longrightarrow> session_step E w w' \<Longrightarrow> node_run E w'"

lemma connections_ok_cong:
  "DEVICES w' = DEVICES w \<Longrightarrow> map fst (SESSIONS w') = map fst (SESSIONS w) \<Longrightarrow>
   connections_ok w' = connections_ok w"
  by (simp add: connections_ok_def)

lemma connections_ok_add:
  assumes "connections_ok w"
  shows "connections_ok (snd (addUserDeviceConnection ws o' u d w))"
proof -
  let ?cs = "filter (\<lambda>c. cn_socket c \<noteq> ws \<and> cn_deviceId c \<noteq> d) (getUserDevices w u)"
  have "distinct (map cn_socket ?cs)" "distinct (map cn_deviceId ?cs)"
    using connections_ok_devices[OF assms] by (simp_all add: distinct_map_filter)
  with assms show ?thesis
    by (auto simp: addUserDeviceConnection_def Let_def add_others[OF assms] connections_ok_def
        intro!: distinct_setSessionUserId)
qed

lemma removeUserSession_SESSIONS: "SESSIONS (snd (removeUserSession E ws ou od w)) = map_delete ws (SESSIONS w)"
  by (simp add: removeUserSession_def Let_def split: option.split)

lemma removeUserSession_DEVICES:
  "DEVICES (snd (removeUserSession E ws ou od w)) =
     (case (case ou of Some u \<Rightarrow> Some u | None \<Rightarrow> getSessionUserId w ws) of
        None \<Rightarrow> DEVICES w
      | Some u \<Rightarrow>
         let left = filter (\<lambda>c. Some (cn_deviceId c) \<noteq>
               (case od of Some d \<Rightarrow> Some d | None \<Rightarrow> getDeviceId w ws u)) (getUserDevices w u)
         in (DEVICES w)(u := (if left = [] then None else Some left)))"
  unfolding removeUserSession_def Let_def
  by (cases ou; cases od; cases "getSessionUserId w ws") (auto split: option.splits)

lemma connections_ok_close:
  assumes "connections_ok w"
  shows "connections_ok (snd (removeUserSession E ws ou od w))"
proof -
  have "distinct (map cn_socket (filter P (getUserDevices w u))) \<and>
      distinct (map cn_deviceId (filter P (getUserDevices w u)))" for P u
    using connections_ok_devices[OF assms] by (simp add: distinct_map_filter)
  moreover have "distinct (map fst (map_delete ws (SESSIONS w)))"
    using assms by (simp add: connections_ok_def distinct_map_delete)
  ultimately show ?thesis
    using assms unfolding connections_ok_def removeUserSession_SESSIONS removeUserSession_DEVICES
    by (simp add: Let_def split: option.split)
qed

lemma connections_ok_step:
  assumes "session_step E w w'" "connections_ok w"
  shows "connections_ok w'"
  using assms(1)
proof cases
  case (connect ws org u d)
  with assms(2) show ?thesis by (simp add: connections_ok_add)
next
  case (store ws org u d)
  with assms(2) connections_ok_cong[OF storeUserNodeData_fields] show ?thesis by simp
next
  case (forget_device org u d)
  with assms(2) show ?thesis by (simp add: connections_ok_def)
next
  case (mark ws b)
  have "map fst (map_set ws s al) = map fst al" if "map_of al ws = Some s'" for s s' and al :: "(socket \<times> session) list"
    using that by (auto simp: map_set_def dest: map_of_SomeD intro: rev_image_eqI)
  with mark assms(2) show ?thesis
    by (simp add: setSessionInactiveState_def connections_ok_def Let_def getSession_def split: option.splits)
next
  case (list_devices org u b)
  with assms(2) show ?thesis by (simp add: connections_ok_def)
next
  case (close ws ou od)
  with assms(2) show ?thesis by (simp add: connections_ok_close)
next
  case (close_all ws)
  with assms(2) show ?thesis
    by (auto simp: removeAllUserSessions_def connections_ok_def Let_def split_beta distinct_map_delete
        split: option.splits)
next
  case (clear_node n)
  with assms(2) show ?thesis by (simp add: clearNodeUsersSession_def connections_ok_def Let_def split_beta)
qed

lemma node_run_connections_ok: "node_run E w \<Longrightarrow> connections_ok w"
proof (induction rule: node_run.induct)
  case (start w)
  then show ?case by (simp add: connections_ok_def)
next
  case (step w w')
  then show ?case by (blast intro: connections_ok_step)
qed

section \<open>Keys and members of the registry\<close>

lemmas key_defs = nodesSetCacheKey_def usersSetCacheKey_def usersHashCacheKey_def NODE_USERS_def
  USER_DEVICES_def USER_DATA_def

lemma keys_apart [simp]:
  "nodesSetCacheKey n \<noteq> usersSetCacheKey o' u" "usersSetCacheKey o' u \<noteq> nodesSetCacheKey n"
  "nodesSetCacheKey n \<noteq> usersHashCacheKey u d" "usersSetCacheKey o' u \<noteq> usersHashCacheKey u' d"
  "usersHashCacheKey u d \<noteq> nodesSetCacheKey n" "usersHashCacheKey u' d \<noteq> usersSetCacheKey o' u"
  by (simp_all add: key_defs)

lemma usersHashCacheKey_inj [simp]: "usersHashCacheKey u d = usersHashCacheKey u d' \<longleftrightarrow> d = d'"
  by (simp add: key_defs)

lemma colon_free_inj:
  assumes "CHR '':'' \<notin> set a" "CHR '':'' \<notin> set a'"
  shows "a @ CHR '':'' # b = a' @ CHR '':'' # b' \<longleftrightarrow> a = a' \<and> b = b'"
  using assms by (auto simp: append_eq_append_conv2 append_eq_Cons_conv Cons_eq_append_conv)

lemma usersSetCacheKey_inj:
  assumes "CHR '':'' \<notin> set o1" "CHR '':'' \<notin> set o2"
  shows "usersSetCacheKey o1 u1 = usersSetCacheKey o2 u2 \<longleftrightarrow> o1 = o2 \<and> u1 = u2"
  using colon_free_inj[OF assms] by (simp add: key_defs)

text \<open>An identifier without a colon: every ObjectId, and every device id of the clients.\<close>

definition plain :: "string \<Rightarrow> bool" where
  "plain s \<longleftrightarrow> CHR '':'' \<notin> set s"

lemma parse_member:
  "plain o' \<Longrightarrow> plain u \<Longrightarrow> plain d \<Longrightarrow> parseConnection (userConnectionMember o' u d) = (o', u, d)"
  by (simp add: plain_def parseConnection_def userConnectionMember_def split_on_append split_on_free)

lemma split_on_parts: "p \<in> set (split_on c s) \<Longrightarrow> c \<notin> set p"
proof (induction s arbitrary: p)
  case (Cons x s)
  then show ?case by (cases "split_on c s") (auto split: if_splits)
qed simp

lemma parse_plain: "parseConnection m = (o', u, d) \<Longrightarrow> plain o' \<and> plain u"
  using split_on_parts[of _ "CHR '':''" m]
  by (auto simp: parseConnection_def plain_def split: list.splits)

section \<open>Writes that only shrink the registry\<close>

definition shrinks :: "redis_store \<Rightarrow> redis_store \<Rightarrow> bool" where
  "shrinks st st' \<longleftrightarrow> (\<forall>k. set (rs_sets st' k) \<subseteq> set (rs_sets st k)) \<and>
     (\<forall>k. rs_hashes st' k = rs_hashes st k \<or> rs_hashes st' k = Map.empty)"

lemma shrinks_refl [simp]: "shrinks st st"
  by (simp add: shrinks_def)

lemma shrinks_trans: "shrinks a b \<Longrightarrow> shrinks b c \<Longrightarrow> shrinks a c"
  unfolding shrinks_def by (metis order_trans)

lemma shrinks_transaction:
  "redis_ok (rd E) \<Longrightarrow> shrinks st (removeAllUserDeviceDataTransaction E n o' u d st)"
  by (auto simp: shrinks_def removeAllUserDeviceDataTransaction_def Let_def)

lemma shrinks_filterActual:
  "redis_ok (rd E) \<Longrightarrow> shrinks st (snd (filterActualDeviceIds E w o' u ds st))"
  by (induction ds arbitrary: st) (auto simp: split_beta intro: shrinks_trans shrinks_transaction)

lemma shrinks_listUserDevice: "redis_ok (rd E) \<Longrightarrow> shrinks (redis w) (redis (snd (listUserDevice E o' u f w)))"
  using shrinks_filterActual[of E "redis w" w o' u] by (simp add: listUserDevice_def Let_def split_beta)

section \<open>Listing the devices of a user\<close>

lemma transaction_hash:
  "redis_ok (rd E) \<Longrightarrow> rs_hashes (removeAllUserDeviceDataTransaction E n o' u d st) =
     (rs_hashes st)(usersHashCacheKey u d := Map.empty)"
  by (simp add: removeAllUserDeviceDataTransaction_def Let_def)

lemma notActual_transaction:
  assumes "redis_ok (rd E)" "notActual E w st u d"
  shows "notActual E w (removeAllUserDeviceDataTransaction E n o' u d st) u d' = notActual E w st u d'"
  using assms by (auto simp: notActual_def retrieveUserExtraParams_def transaction_hash Let_def)

lemma filterActual_fst:
  assumes "redis_ok (rd E)"
  shows "fst (filterActualDeviceIds E w o' u ds st) = filter (\<lambda>d. \<not> notActual E w st u d) ds"
proof (induction ds arbitrary: st)
  case (Cons d ds)
  show ?case
  proof (cases "notActual E w st u d")
    case True
    then show ?thesis using Cons notActual_transaction[OF assms True] by simp
  next
    case False
    then show ?thesis using Cons by (simp add: split_beta)
  qed
qed simp

lemma filterActual_members:
  assumes "redis_ok (rd E)"
  shows "set (rs_sets (snd (filterActualDeviceIds E w o' u ds st)) (usersSetCacheKey o' u)) =
     set (rs_sets st (usersSetCacheKey o' u)) - {d \<in> set ds. notActual E w st u d}"
proof (induction ds arbitrary: st)
  case (Cons d ds)
  show ?case
  proof (cases "notActual E w st u d")
    case True
    have "set (rs_sets (removeAllUserDeviceDataTransaction E n o' u d st) (usersSetCacheKey o' u)) =
        set (rs_sets st (usersSetCacheKey o' u)) - {d}" for n
      using assms by (simp add: removeAllUserDeviceDataTransaction_def Let_def)
    then show ?thesis using True Cons notActual_transaction[OF assms True] by auto
  next
    case False
    then show ?thesis using Cons by (auto simp: split_beta)
  qed
qed simp

section \<open>Properties\<close>

text \<open>C8: In every state a node can reach, the sessions have distinct sockets and every user's
  connection list is non-empty and holds each socket and each device id at most once.\<close>

theorem reachable_connections:
  assumes "node_run E w" "DEVICES w u = Some cs"
  shows "cs \<noteq> [] \<and> distinct (map cn_socket cs) \<and> distinct (map cn_deviceId cs) \<and> distinct (map fst (SESSIONS w))"
  using node_run_connections_ok[OF assms(1)] assms(2) by (simp add: connections_ok_def)

theorem reachable_connections_witness:
  "let w = snd (addUserDeviceConnection 1 ''o'' ''u'' ''d'' empty_world) in
   distinct (map cn_deviceId [\<lparr>cn_socket = 1, cn_deviceId = ''d'', cn_organizationId = ''o''\<rparr>]) \<and>
   DEVICES w ''u'' = Some [\<lparr>cn_socket = 1, cn_deviceId = ''d'', cn_organizationId = ''o''\<rparr>]"
proof -
  let ?w = "snd (addUserDeviceConnection 1 ''o'' ''u'' ''d'' empty_world)"
  have run: "node_run mem_env ?w"
    by (rule node_run.step[OF node_run.start session_step.connect]) (simp_all add: empty_world_def)
  have dev: "DEVICES ?w ''u'' = Some [\<lparr>cn_socket = 1, cn_deviceId = ''d'', cn_organizationId = ''o''\<rparr>]"
    by (simp add: addUserDeviceConnection_def empty_world_def getUserDevices_def drop_at_def)
  from reachable_connections[OF run dev] dev show ?thesis by (simp add: Let_def)
qed

lemma addUserDeviceConnection_effect:
  assumes "connections_ok w" "addUserDeviceConnection ws org u d w = ((sameDevice, sameSocket), w')"
  shows "getUserDevices w' u = filter (\<lambda>c. cn_socket c \<noteq> ws \<and> cn_deviceId c \<noteq> d) (getUserDevices w u) @
           [\<lparr>cn_socket = ws, cn_deviceId = d, cn_organizationId = org\<rparr>]
    \<and> (\<forall>u'. u' \<noteq> u \<longrightarrow> getUserDevices w' u' = getUserDevices w u')
    \<and> getSession w' ws = Some \<lparr>s_organizationId = org, s_userId = u, s_extraParams = [SESSION_DEVICE_ID_KEY \<mapsto> d]\<rparr>
    \<and> (\<forall>ws'. ws' \<noteq> ws \<longrightarrow> getSession w' ws' = getSession w ws')
    \<and> sameDevice = List.find (\<lambda>c. cn_deviceId c = d) (getUserDevices w u)
    \<and> sameSocket = List.find (\<lambda>c. cn_socket c = ws) (getUserDevices w u)"
proof -
  have w': "w' = setSessionUserId ws org u [SESSION_DEVICE_ID_KEY \<mapsto> d] (w\<lparr>DEVICES := (DEVICES w)(u \<mapsto>
      filter (\<lambda>c. cn_socket c \<noteq> ws \<and> cn_deviceId c \<noteq> d) (getUserDevices w u) @
      [\<lparr>cn_socket = ws, cn_deviceId = d, cn_organizationId = org\<rparr>])\<rparr>)"
    and same: "sameDevice = List.find (\<lambda>c. cn_deviceId c = d) (getUserDevices w u)"
      "sameSocket = List.find (\<lambda>c. cn_socket c = ws) (getUserDevices w u)"
    using assms(2) by (auto simp: addUserDeviceConnection_def Let_def add_others[OF assms(1)] find_idx_find)
  have "getSession (w\<lparr>DEVICES := dv\<rparr>) ws' = getSession w ws'" for dv ws' by (simp add: getSession_def)
  then show ?thesis unfolding w' same by (simp add: getSession_setSessionUserId getUserDevices_def)
qed

text \<open>Connecting a device of a user: the connections of the user with that socket or that device
  are replaced by the new one, all others stay in order, other users' connections and other
  sockets' sessions are untouched, the socket's session is the user's, and the replaced
  connections are reported.\<close>

theorem addUserDeviceConnection_spec:
  assumes "connections_ok w" "addUserDeviceConnection ws org u d w = ((sameDevice, sameSocket), w')"
  shows "getUserDevices w' u = filter (\<lambda>c. cn_socket c \<noteq> ws \<and> cn_deviceId c \<noteq> d) (getUserDevices w u) @
           [\<lparr>cn_socket = ws, cn_deviceId = d, cn_organizationId = org\<rparr>]
    \<and> (\<forall>u'. u' \<noteq> u \<longrightarrow> getUserDevices w' u' = getUserDevices w u')
    \<and> getSession w' ws = Some \<lparr>s_organizationId = org, s_userId = u, s_extraParams = [SESSION_DEVICE_ID_KEY \<mapsto> d]\<rparr>
    \<and> (\<forall>ws'. ws' \<noteq> ws \<longrightarrow> getSession w' ws' = getSession w ws')
    \<and> sameDevice = List.find (\<lambda>c. cn_deviceId c = d) (getUserDevices w u)
    \<and> sameSocket = List.find (\<lambda>c. cn_socket c = ws) (getUserDevices w u)"
  using assms by (rule addUserDeviceConnection_effect)

theorem addUserDeviceConnection_spec_witness:
  "let w1 = snd (addUserDeviceConnection 1 ''o'' ''u'' ''d'' empty_world);
       w2 = snd (addUserDeviceConnection 2 ''o'' ''u'' ''d'' w1)
   in getUserDevices w2 ''u'' = [\<lparr>cn_socket = 2, cn_deviceId = ''d'', cn_organizationId = ''o''\<rparr>]"
proof -
  let ?w1 = "snd (addUserDeviceConnection 1 ''o'' ''u'' ''d'' empty_world)"
  have ok: "connections_ok ?w1"
    by (rule connections_ok_add) (simp add: connections_ok_def empty_world_def)
  have dev: "getUserDevices ?w1 ''u'' = [\<lparr>cn_socket = 1, cn_deviceId = ''d'', cn_organizationId = ''o''\<rparr>]"
    by (simp add: addUserDeviceConnection_def empty_world_def getUserDevices_def drop_at_def)
  obtain a b w2 where w2: "addUserDeviceConnection 2 ''o'' ''u'' ''d'' ?w1 = ((a, b), w2)" by (metis prod.collapse)
  from addUserDeviceConnection_spec[OF ok w2] dev w2 show ?thesis by (simp add: Let_def)
qed

text \<open>A socket that logs in as another user stays in the connection list of the first user, while
  its session already belongs to the second user.\<close>

theorem relogin_keeps_old_connection:
  assumes "u2 \<noteq> u1" "c \<in> set (getUserDevices w u1)" "cn_socket c = ws"
  shows "let w' = snd (addUserDeviceConnection ws org u2 d w) in
         c \<in> set (getUserDevices w' u1) \<and> getSessionUserId w' ws = Some u2"
  using assms
  by (simp add: addUserDeviceConnection_def Let_def getUserDevices_def getSessionUserId_def
      getSession_setSessionUserId split: option.splits)

theorem relogin_keeps_old_connection_witness:
  "let w1 = snd (addUserDeviceConnection 7 ''o'' ''u1'' ''d'' empty_world);
       w2 = snd (addUserDeviceConnection 7 ''o'' ''u2'' ''d'' w1);
       c = \<lparr>cn_socket = 7, cn_deviceId = ''d'', cn_organizationId = ''o''\<rparr>
   in c \<in> set (getUserDevices w2 ''u1'') \<and> getSessionUserId w2 7 = Some ''u2''"
proof -
  let ?w1 = "snd (addUserDeviceConnection 7 ''o'' ''u1'' ''d'' empty_world)"
  have "\<lparr>cn_socket = 7, cn_deviceId = ''d'', cn_organizationId = ''o''\<rparr> \<in> set (getUserDevices ?w1 ''u1'')"
    by (simp add: addUserDeviceConnection_def empty_world_def getUserDevices_def drop_at_def)
  from relogin_keeps_old_connection[OF _ this, of "''u2''" 7 "''o''" "''d''"]
  show ?thesis by (simp add: Let_def)
qed

text \<open>In a cluster, listing a user's actual devices returns the registered devices, in order,
  without the stale ones (no node recorded, or recorded at this node with no connection here),
  and removes exactly these from the registered set.\<close>

theorem listUserDevice_actual:
  assumes "redis_ok (rd E)" "\<not> cfg_isStandAloneNode E"
    "listUserDevice E org u True w = (ids, w')"
  shows "ids = filter (\<lambda>d. \<not> notActual E w (redis w) u d) (rs_sets (redis w) (usersSetCacheKey org u))
    \<and> set (rs_sets (redis w') (usersSetCacheKey org u)) = set ids"
proof -
  let ?ds = "rs_sets (redis w) (usersSetCacheKey org u)"
  have "ids = fst (filterActualDeviceIds E w org u ?ds (redis w))"
    "redis w' = snd (filterActualDeviceIds E w org u ?ds (redis w))"
    using assms by (auto simp: listUserDevice_def Let_def split_beta)
  with filterActual_fst[OF assms(1)] filterActual_members[OF assms(1)] show ?thesis by auto
qed

definition registry_example :: world where
  "registry_example = empty_world\<lparr>redis := \<lparr>
     rs_sets = (\<lambda>k. if k = usersSetCacheKey ''o'' ''u'' then [''d1'', ''d2''] else []),
     rs_hashes = (\<lambda>k. if k = usersHashCacheKey ''u'' ''d1'' then [SESSION_NODE_KEY \<mapsto> ''ws://n2/''] else Map.empty),
     rs_keys = [usersSetCacheKey ''o'' ''u'', usersHashCacheKey ''u'' ''d1''], rs_ttl = Map.empty\<rparr>\<rparr>"

theorem listUserDevice_actual_witness:
  "fst (listUserDevice mem_env ''o'' ''u'' True registry_example) = [''d1'']"
proof -
  obtain ids w' where l: "listUserDevice mem_env ''o'' ''u'' True registry_example = (ids, w')" by fastforce
  have "\<not> cfg_isStandAloneNode mem_env" by (simp add: mem_env_def)
  from listUserDevice_actual[OF mem_env_ok(2) this l] l show ?thesis
    by (simp add: registry_example_def notActual_def Let_def retrieveUserExtraParams_def mem_env_def
        mem_redis_def usersHashCacheKey_def)
qed

text \<open>After a node of a cluster stored a connected device, the device is listed for its user, its
  session data names this node, and the node's member list parses back to the triple of
  organization, user and device (for identifiers without a colon).\<close>

theorem storeUserNodeData_registers:
  assumes "redis_ok (rd E)" "\<not> cfg_isStandAloneNode E" "plain org" "plain u" "plain d"
    "w' = storeUserNodeData E ws org u d w"
  shows "d \<in> set (fst (listUserDevice E org u False w'))
    \<and> retrieveUserExtraParams (rd E) u d (redis w') SESSION_NODE_KEY = Some (cfg_clusterEndpoint E)
    \<and> (org, u, d) \<in> set (listNodeUserDevices (rd E) (cfg_clusterEndpoint E) (redis w'))"
proof -
  obtain st where st: "redis w' = addUserDeviceDataTransaction E (Some (cfg_clusterEndpoint E)) org u d
      [(SESSION_NODE_KEY, cfg_clusterEndpoint E)] st"
    using assms(2,6) by (auto simp: storeUserNodeData_def Let_def split_beta)
  have "userConnectionMember org u d \<in> set (rs_sets (redis w') (nodesSetCacheKey (cfg_clusterEndpoint E)))"
    "d \<in> set (rs_sets (redis w') (usersSetCacheKey org u))"
    "rs_hashes (redis w') (usersHashCacheKey u d) SESSION_NODE_KEY = Some (cfg_clusterEndpoint E)"
    using assms(1) by (simp_all add: st addUserDeviceDataTransaction_def Let_def)
  with assms(1,2) parse_member[OF assms(3-5)] show ?thesis
    by (auto simp: listUserDevice_def retrieveUserExtraParams_def listNodeUserDevices_def Let_def
        intro: rev_image_eqI)
qed

theorem storeUserNodeData_registers_witness:
  "(''o'', ''u'', ''d'') \<in> set (listNodeUserDevices (rd mem_env) (cfg_clusterEndpoint mem_env)
     (redis (storeUserNodeData mem_env 1 ''o'' ''u'' ''d'' empty_world)))"
  using storeUserNodeData_registers[OF mem_env_ok(2), of "''o''" "''u''" "''d''"
      "storeUserNodeData mem_env 1 ''o'' ''u'' ''d'' empty_world" 1 empty_world]
  by (simp add: plain_def mem_env_def)

lemma removeAllUserDeviceData_forgets:
  assumes "redis_ok (rd E)" "w' = snd (removeAllUserDeviceData E org u d w)"
  shows "d \<notin> set (rs_sets (redis w') (usersSetCacheKey org u))"
    "rs_hashes (redis w') (usersHashCacheKey u d) = Map.empty"
    "userConnectionMember org u d \<notin> set (rs_sets (redis w') (nodesSetCacheKey
       (case rs_hashes (redis w) (usersHashCacheKey u d) SESSION_NODE_KEY of None \<Rightarrow> cfg_clusterEndpoint E | Some e \<Rightarrow> e)))"
proof -
  let ?n = "case rs_hashes (redis w) (usersHashCacheKey u d) SESSION_NODE_KEY of None \<Rightarrow> cfg_clusterEndpoint E | Some e \<Rightarrow> e"
  let ?st = "removeUserDeviceFromNode (rd E) ?n org u d
      (deleteUserExtraParams (rd E) u d (rd_sRem (rd E) (usersSetCacheKey org u) d (redis w)))"
  have w': "w' = snd (listUserDevice E org u True (w\<lparr>redis := ?st\<rparr>))"
    using assms by (simp add: removeAllUserDeviceData_def Let_def split_beta retrieveUserExtraParams_def)
  have "shrinks ?st (redis w')"
    unfolding w' using shrinks_listUserDevice[OF assms(1), of "w\<lparr>redis := ?st\<rparr>"] by simp
  moreover have "d \<notin> set (rs_sets ?st (usersSetCacheKey org u))"
    "rs_hashes ?st (usersHashCacheKey u d) = Map.empty"
    "userConnectionMember org u d \<notin> set (rs_sets ?st (nodesSetCacheKey ?n))"
    using assms(1) by (simp_all add: removeUserDeviceFromNode_def deleteUserExtraParams_def)
  ultimately show "d \<notin> set (rs_sets (redis w') (usersSetCacheKey org u))"
    "rs_hashes (redis w') (usersHashCacheKey u d) = Map.empty"
    "userConnectionMember org u d \<notin> set (rs_sets (redis w') (nodesSetCacheKey ?n))"
    unfolding shrinks_def by (blast, metis, blast)
qed

text \<open>Closing the session of a connected socket: the socket has no session, the user keeps exactly
  the connections of his other devices, and in a cluster the device is gone from the user's
  set, from the node that held it and its session data is erased.\<close>

theorem removeUserSession_closes:
  assumes "redis_ok (rd E)" "\<not> cfg_isStandAloneNode E" "getSession w ws = Some s"
    "getDeviceId w ws (s_userId s) = Some d" "d \<noteq> []"
    "w' = snd (removeUserSession E ws None None w)"
  shows "getSession w' ws = None
    \<and> getUserDevices w' (s_userId s) = filter (\<lambda>c. cn_deviceId c \<noteq> d) (getUserDevices w (s_userId s))
    \<and> d \<notin> set (rs_sets (redis w') (usersSetCacheKey (s_organizationId s) (s_userId s)))
    \<and> rs_hashes (redis w') (usersHashCacheKey (s_userId s) d) = Map.empty
    \<and> userConnectionMember (s_organizationId s) (s_userId s) d \<notin> set (rs_sets (redis w') (nodesSetCacheKey
        (case rs_hashes (redis w) (usersHashCacheKey (s_userId s) d) SESSION_NODE_KEY of
           None \<Rightarrow> cfg_clusterEndpoint E | Some e \<Rightarrow> e)))"
proof -
  have u: "getSessionUserId w ws = Some (s_userId s)" using assms(3) by (simp add: getSessionUserId_def)
  have sess: "getSession w' ws = None"
    unfolding assms(6) getSession_def removeUserSession_SESSIONS by (simp add: map_of_map_delete)
  have dev: "getUserDevices w' (s_userId s) = filter (\<lambda>c. cn_deviceId c \<noteq> d) (getUserDevices w (s_userId s))"
    unfolding assms(6) getUserDevices_def[of "snd _"] removeUserSession_DEVICES using u assms(4) by (simp add: Let_def)
  define w2 where "w2 = w\<lparr>DEVICES := DEVICES (snd (removeUserSession E ws None None w)), SESSIONS := map_delete ws (SESSIONS w)\<rparr>"
  have w2: "redis w2 = redis w" "w' = snd (removeAllUserDeviceData E (s_organizationId s) (s_userId s) d w2)"
    using assms(2-6) u unfolding w2_def removeUserSession_DEVICES
    by (simp_all add: removeUserSession_def Let_def)
  from removeAllUserDeviceData_forgets[OF assms(1) w2(2)] w2(1) sess dev show ?thesis by simp
qed

theorem removeUserSession_closes_witness:
  "let w1 = snd (addUserDeviceConnection 1 ''o'' ''u'' ''d'' empty_world);
       w2 = snd (removeUserSession mem_env 1 None None w1)
   in getSession w2 1 = None \<and> getUserDevices w2 ''u'' = []"
proof -
  let ?w1 = "snd (addUserDeviceConnection 1 ''o'' ''u'' ''d'' empty_world)"
  have s: "getSession ?w1 1 = Some \<lparr>s_organizationId = ''o'', s_userId = ''u'', s_extraParams = [SESSION_DEVICE_ID_KEY \<mapsto> ''d'']\<rparr>"
    by (simp add: addUserDeviceConnection_def getSession_setSessionUserId Let_def)
  have dev: "getUserDevices ?w1 ''u'' = [\<lparr>cn_socket = 1, cn_deviceId = ''d'', cn_organizationId = ''o''\<rparr>]"
    by (simp add: addUserDeviceConnection_def empty_world_def getUserDevices_def drop_at_def)
  have st: "\<not> cfg_isStandAloneNode mem_env" by (simp add: mem_env_def)
  from removeUserSession_closes[OF mem_env_ok(2) st s _ _ refl, of "''d''"] dev
  show ?thesis by (simp add: Let_def getDeviceId_def)
qed

section \<open>Clearing the data of a node\<close>

lemma removeUserData_redis:
  assumes "redis_ok (rd E)" "\<not> cfg_isStandAloneNode E" "removeUserData E org u d w = (isLast, w')"
  shows "isLast \<longleftrightarrow> set (rs_sets (redis w) (usersSetCacheKey org u)) \<subseteq> {d}"
    "set (rs_sets (redis w') k) = (if k = usersSetCacheKey org u then set (rs_sets (redis w) k) - {d}
       else if k = usersHashCacheKey u d then {} else set (rs_sets (redis w) k))"
    "rs_hashes (redis w') = (rs_hashes (redis w))(usersHashCacheKey u d := Map.empty)"
proof -
  let ?st = "rd_sRem (rd E) (usersSetCacheKey org u) d (redis w)"
  have "isLast \<longleftrightarrow> rs_sets ?st (usersSetCacheKey org u) = []"
    and st: "redis w' = deleteUserExtraParams (rd E) u d ?st"
    using assms by (auto simp: removeUserData_def removeUserDevice_def listUserDevice_def Let_def)
  then show "isLast \<longleftrightarrow> set (rs_sets (redis w) (usersSetCacheKey org u)) \<subseteq> {d}"
    using assms(1) by (auto simp flip: set_empty)
  show "set (rs_sets (redis w') k) = (if k = usersSetCacheKey org u then set (rs_sets (redis w) k) - {d}
       else if k = usersHashCacheKey u d then {} else set (rs_sets (redis w) k))"
    "rs_hashes (redis w') = (rs_hashes (redis w))(usersHashCacheKey u d := Map.empty)"
    using assms(1) by (simp_all add: st deleteUserExtraParams_def)
qed

lemma clearUserConnections_spec:
  assumes "redis_ok (rd E)" "\<not> cfg_isStandAloneNode E"
    "\<forall>t \<in> set ds. plain (fst t)" "clearUserConnections E ds w = (gone, w')" "plain org"
  shows "set (rs_sets (redis w') (usersSetCacheKey org u)) =
           set (rs_sets (redis w) (usersSetCacheKey org u)) - {d. (org, u, d) \<in> set ds}
    \<and> (\<forall>d. rs_hashes (redis w') (usersHashCacheKey u d) =
       (if usersHashCacheKey u d \<in> (\<lambda>(_, u', d'). usersHashCacheKey u' d') ` set ds then Map.empty
        else rs_hashes (redis w) (usersHashCacheKey u d)))
    \<and> ((\<exists>d. (org, u, d) \<in> set ds) \<longrightarrow>
       (set (rs_sets (redis w') (usersSetCacheKey org u)) = {} \<longleftrightarrow> (\<exists>d. (org, u, d) \<in> set gone)))
    \<and> set gone \<subseteq> set ds"
  using assms(3,4)
proof (induction ds arbitrary: w gone)
  case (Cons t ds)
  obtain o1 u1 d1 where t: "t = (o1, u1, d1)" by (metis prod_cases3)
  obtain isLast w1 where r: "removeUserData E o1 u1 d1 w = (isLast, w1)" by fastforce
  define rest where "rest = fst (clearUserConnections E ds w1)"
  then have c: "clearUserConnections E ds w1 = (rest, w')"
    and gn: "gone = (if isLast then t # rest else rest)"
    using Cons.prems(2) r by (auto simp: t Let_def split_beta prod_eq_iff)
  have pl: "plain o1" using Cons.prems(1) t by simp
  have inj: "usersSetCacheKey org u = usersSetCacheKey o1 u1 \<longleftrightarrow> org = o1 \<and> u = u1"
    using usersSetCacheKey_inj[of org o1] assms(5) pl by (auto simp: plain_def)
  note rd1 = removeUserData_redis[OF assms(1,2) r]
  have pre: "\<forall>t \<in> set ds. plain (fst t)" using Cons.prems(1) by auto
  note IH = Cons.IH[OF pre c]
  have s: "set (rs_sets (redis w') (usersSetCacheKey org u)) =
       set (rs_sets (redis w) (usersSetCacheKey org u)) - {d. (org, u, d) \<in> set (t # ds)}"
    using IH rd1(2)[of "usersSetCacheKey org u"] inj by (auto simp: t split: if_splits)
  have h: "rs_hashes (redis w') (usersHashCacheKey u d) =
      (if usersHashCacheKey u d \<in> (\<lambda>(_, u', d'). usersHashCacheKey u' d') ` set (t # ds) then Map.empty
       else rs_hashes (redis w) (usersHashCacheKey u d))" for d
    using IH[THEN conjunct2, THEN conjunct1, THEN spec[of _ d]] rd1(3) by (simp add: t)
  have g: "set (rs_sets (redis w') (usersSetCacheKey org u)) = {} \<longleftrightarrow> (\<exists>d. (org, u, d) \<in> set gone)"
    if ex: "\<exists>d. (org, u, d) \<in> set (t # ds)"
  proof (cases "\<exists>d. (org, u, d) \<in> set ds")
    case True
    have "isLast \<Longrightarrow> org = o1 \<Longrightarrow> u = u1 \<Longrightarrow> set (rs_sets (redis w') (usersSetCacheKey org u)) = {}"
      using s rd1(1) by (auto simp: t)
    moreover have "set (rs_sets (redis w') (usersSetCacheKey org u)) = {} \<longleftrightarrow> (\<exists>d. (org, u, d) \<in> set rest)"
      using IH True by blast
    ultimately show ?thesis using gn t by (cases isLast) auto
  next
    case False
    with ex t have eq: "org = o1" "u = u1" by auto
    from False IH have "\<not> (\<exists>d. (org, u, d) \<in> set rest)" by auto
    with gn eq t have "(\<exists>d. (org, u, d) \<in> set gone) \<longleftrightarrow> isLast" by auto
    moreover have "set (rs_sets (redis w') (usersSetCacheKey org u)) = set (rs_sets (redis w) (usersSetCacheKey org u)) - {d1}"
      using s False eq by (auto simp: t)
    ultimately show ?thesis using rd1(1) eq by auto
  qed
  have "set gone \<subseteq> set (t # ds)" using IH gn by auto
  with s h g show ?case by blast
qed simp

text \<open>C31: Clearing a crashed node: none of the node's users keeps a device of that node, the node's
  member set is empty, and the users reported as gone offline are exactly the users of the
  node who have no device left anywhere.\<close>

theorem clearNodeUsersSession_clears:
  assumes "redis_ok (rd E)" "\<not> cfg_isStandAloneNode E"
    "clearNodeUsersSession E n w = (Some gone, w')" "plain org"
    "(org, u, d) \<in> set (listNodeUserDevices (rd E) n (redis w))"
  shows "rs_sets (redis w') (nodesSetCacheKey n) = []
    \<and> d \<notin> set (rs_sets (redis w') (usersSetCacheKey org u))
    \<and> rs_hashes (redis w') (usersHashCacheKey u d) = Map.empty
    \<and> ((\<exists>d'. (org, u, d') \<in> set gone) \<longleftrightarrow> rs_sets (redis w') (usersSetCacheKey org u) = [])"
proof -
  let ?ds = "listNodeUserDevices (rd E) n (redis w)"
  define w1 where "w1 = snd (clearUserConnections E ?ds w)"
  then have c: "clearUserConnections E ?ds w = (gone, w1)"
    and w': "redis w' = deleteNodeConnections (rd E) n (redis w1)"
    using assms(2,3) by (auto simp: clearNodeUsersSession_def Let_def split_beta prod_eq_iff)
  have pl: "\<forall>t \<in> set ?ds. plain (fst t)"
    using parse_plain by (auto simp: listNodeUserDevices_def) (metis prod.collapse)
  note cleared = clearUserConnections_spec[OF assms(1,2) pl c assms(4)]
  have sets: "set (rs_sets (redis w') (usersSetCacheKey org u)) = set (rs_sets (redis w1) (usersSetCacheKey org u))"
    "rs_hashes (redis w') (usersHashCacheKey u d) = rs_hashes (redis w1) (usersHashCacheKey u d)"
    "set (rs_sets (redis w') (nodesSetCacheKey n)) = {}"
    using assms(1) by (simp_all add: w' deleteNodeConnections_def)
  from cleared[of u] assms(5) have "d \<notin> set (rs_sets (redis w1) (usersSetCacheKey org u))" by auto
  moreover from cleared[of u, THEN conjunct2, THEN conjunct1, THEN spec[of _ d]] assms(5) have "rs_hashes (redis w1) (usersHashCacheKey u d) = Map.empty"
    by (force split: if_splits)
  ultimately show ?thesis using cleared[of u] assms(5) sets by (auto simp flip: set_empty)
qed

definition node_example :: world where
  "node_example = empty_world\<lparr>redis := \<lparr>
     rs_sets = (\<lambda>k. if k = usersSetCacheKey ''o'' ''u'' then [''d''] else
        if k = nodesSetCacheKey ''n'' then [''o:u:d''] else []),
     rs_hashes = (\<lambda>k. Map.empty), rs_keys = [usersSetCacheKey ''o'' ''u'', nodesSetCacheKey ''n''], rs_ttl = Map.empty\<rparr>\<rparr>"

theorem clearNodeUsersSession_clears_witness:
  "\<exists>gone. fst (clearNodeUsersSession mem_env ''n'' node_example) = Some gone \<and> (\<exists>d. (''o'', ''u'', d) \<in> set gone)"
proof -
  have st: "\<not> cfg_isStandAloneNode mem_env" by (simp add: mem_env_def)
  then obtain gone w' where c: "clearNodeUsersSession mem_env ''n'' node_example = (Some gone, w')"
    by (auto simp: clearNodeUsersSession_def Let_def split_beta)
  have mem: "(''o'', ''u'', ''d'') \<in> set (listNodeUserDevices (rd mem_env) ''n'' (redis node_example))"
    by (simp add: listNodeUserDevices_def mem_env_def mem_redis_def node_example_def parseConnection_def)
  have "rs_sets (redis w') (usersSetCacheKey ''o'' ''u'') = []"
    using c by (simp add: clearNodeUsersSession_def mem_env_def mem_redis_def listNodeUserDevices_def
        node_example_def parseConnection_def Let_def removeUserData_def removeUserDevice_def listUserDevice_def
        deleteUserExtraParams_def deleteNodeConnections_def split_beta) auto
  with clearNodeUsersSession_clears[OF mem_env_ok(2) st c _ mem] c show ?thesis by (auto simp: plain_def)
qed

end
