(* ===== verification/User_Props.thy ===== *)
theory User_Props
  imports Users Session_Props
begin

text \<open>
  Properties of passwords, tokens, login and logout: a password that was set is accepted, a
  rejected login leaves no trace, a successful one opens the session of the user whose
  password was verified, a logout removes the session and the device's tokens, and the
  one-time password reset works for a device without tokens and fails for one that has some.
\<close>

section \<open>Frame of the session operations and of the token writes\<close>

lemma connectDevice_fields [simp]:
  "users (connectDevice E ws u d w) = users w" "user_tokens (connectDevice E ws u d w) = user_tokens w"
  "clock (connectDevice E ws u d w) = clock w"
  "organizations (connectDevice E ws u d w) = organizations w"
  by (auto simp: connectDevice_def Let_def split_beta addUserDeviceConnection_def storeUserNodeData_def
      setSessionUserId_def setSession_def removeAllUserDeviceData_def listUserDevice_def split: option.splits)

lemma connectDevice_session:
  "\<exists>s. getSession (connectDevice E ws u d w) ws = Some s \<and> s_userId s = u_id u \<and> s_organizationId s = u_organization_id u"
proof -
  let ?w1 = "snd (addUserDeviceConnection ws (u_organization_id u) (u_id u) d w)"
  have "getSession ?w1 ws = Some \<lparr>s_organizationId = u_organization_id u, s_userId = u_id u,
      s_extraParams = [SESSION_DEVICE_ID_KEY \<mapsto> d]\<rparr>"
    by (simp add: addUserDeviceConnection_def getSession_setSessionUserId Let_def)
  then have "\<exists>s. getSession (storeUserNodeData E ws (u_organization_id u) (u_id u) d ?w1) ws = Some s \<and>
      s_userId s = u_id u \<and> s_organizationId s = u_organization_id u"
    by (simp add: storeUserNodeData_def getSession_def Let_def split_beta map_of_map_set)
  then show ?thesis
    by (auto simp: connectDevice_def Let_def split_beta getSession_def split: option.splits)
qed

lemma createToken_succeeds:
  assumes "mongo_ok E"
  obtains i ts where "createToken E org u d ty v w = (Inr \<lparr>t_id = i, t_organization_id = org, t_user_id = u,
      t_device_id = d, t_type = ty, t_token = v, t_created_at = clock w, t_updated_at = clock w\<rparr>, w\<lparr>user_tokens := ts\<rparr>)"
    "mset ts = add_mset \<lparr>t_id = i, t_organization_id = org, t_user_id = u,
      t_device_id = d, t_type = ty, t_token = v, t_created_at = clock w, t_updated_at = clock w\<rparr> (mset (user_tokens w))"
    "i \<notin> t_id ` set (user_tokens w)"
proof -
  let ?mk = "\<lambda>now i. \<lparr>t_id = i, t_organization_id = org, t_user_id = u,
      t_device_id = d, t_type = ty, t_token = v, t_created_at = now, t_updated_at = now\<rparr>"
  obtain r ds where r: "createToken E org u d ty v w = (Inr r, w\<lparr>user_tokens := ds\<rparr>)"
    "create (mg_user_tokens E) ?mk (clock w) (user_tokens w) = Some (r, ds)"
    using insertInto_succeeds[OF mongo_okD(9)[OF assms], of user_tokens user_tokens_update ?mk w]
    by (auto simp: createToken_def)
  from create_inserts[OF mongo_okD(9)[OF assms] r(2)] r(1) show ?thesis using that by auto
qed

lemma createToken_inserts:
  assumes "mongo_ok E" "createToken E org u d ty v w = (Inr t, w')"
  shows "\<exists>ts. w' = w\<lparr>user_tokens := ts\<rparr> \<and> mset ts = add_mset t (mset (user_tokens w))"
    "t_user_id t = u" "t_device_id t = d" "t_type t = ty" "t_token t = v" "t_organization_id t = org"
proof -
  obtain ds where c: "create (mg_user_tokens E) (\<lambda>now i. \<lparr>t_id = i, t_organization_id = org, t_user_id = u,
      t_device_id = d, t_type = ty, t_token = v, t_created_at = now, t_updated_at = now\<rparr>) (clock w) (user_tokens w) = Some (t, ds)"
    and w': "w' = w\<lparr>user_tokens := ds\<rparr>"
    using assms(2) by (auto simp: createToken_def insertInto_Inr)
  from create_inserts[OF mongo_okD(9)[OF assms(1)] c] w'
  show "\<exists>ts. w' = w\<lparr>user_tokens := ts\<rparr> \<and> mset ts = add_mset t (mset (user_tokens w))"
    "t_user_id t = u" "t_device_id t = d" "t_type t = ty" "t_token t = v" "t_organization_id t = org"
    by auto
qed

lemma updateToken_succeeds:
  assumes "mongo_ok E"
  shows "\<exists>t w'. updateToken E tk org u d v ty w = (Inr t, w') \<and> t_token t = v"
proof -
  obtain i ts where "createToken E org u d ty v w = (Inr \<lparr>t_id = i, t_organization_id = org, t_user_id = u,
      t_device_id = d, t_type = ty, t_token = v, t_created_at = clock w, t_updated_at = clock w\<rparr>, w\<lparr>user_tokens := ts\<rparr>)"
    using createToken_succeeds[OF assms] by blast
  then show ?thesis by (auto simp: updateToken_def Let_def split: option.splits)
qed

lemma users_clash_password [simp]:
  "users_clash (a\<lparr>u_password_salt := s, u_encrypted_password := p\<rparr>) b = users_clash a b"
  by (simp add: users_clash_def)

section \<open>Passwords\<close>

text \<open>A password that was set is the password that is accepted: after \<open>updatePassword\<close> the stored
  user validates with the new password, whatever hash function is used.\<close>

theorem updatePassword_validates:
  assumes "mongo_ok E" "User_findById E w i = Some u0"
  shows "\<exists>u w'. updatePassword E i p w = (Inr (Some u), w') \<and> User_findById E w' i = Some u
    \<and> validatePassword E u p w' = (Inr True, w')"
proof -
  let ?salt = "generateSalt E (entropy w)"
  let ?f = "\<lambda>u. u\<lparr>u_password_salt := Some ?salt, u_encrypted_password := Some (hashPassword E p ?salt)\<rparr>"
  have "List.find (\<lambda>u. u_id u = i) (update_first (\<lambda>u. u_id u = i) ?f (users w)) = Some (?f u0)"
    using assms find_update_first[of "\<lambda>u. u_id u = i" ?f "users w"] by (simp add: User_findById_def del: map_option_eq_Some)
  moreover have "List.find (\<lambda>u. u_id u = i) (users w) = Some u0" using assms by (simp add: User_findById_def)
  ultimately show ?thesis using assms(1)
    by (simp add: updatePassword_def encryptAndSetPassword_def User_findById_def Let_def validatePassword_def
        verifyPassword_def)
qed

definition user_example :: user where
  "user_example = \<lparr>u_id = ''u1'', u_organization_id = ''o'', u_login = ''ann'', u_email = Some ''a@b.co'',
     u_phone = None, u_first_name = Some ''Ann'', u_last_name = None,
     u_encrypted_password = Some (hashPassword mem_env ''pw'' ''s''), u_password_salt = Some ''s'',
     u_avatar_object = None, u_recent_activity = 0, u_created_at = 0, u_updated_at = 0\<rparr>"

definition user_world :: world where
  "user_world = empty_world\<lparr>users := [user_example]\<rparr>"

lemma user_world_find:
  "User_findById mem_env user_world ''u1'' = Some user_example"
  "findByLogin mem_env user_world ''o'' ''ann'' = Some user_example"
  "findByEmail mem_env user_world ''o'' ''a@b.co'' = Some user_example"
  by (simp_all add: User_findById_def findByLogin_def findByEmail_def user_world_def user_example_def)

theorem updatePassword_validates_witness:
  "\<exists>u w'. updatePassword mem_env ''u1'' ''secret'' user_world = (Inr (Some u), w')
     \<and> validatePassword mem_env u ''secret'' w' = (Inr True, w')"
  using updatePassword_validates[OF mem_env_ok(1) user_world_find(1)] by blast

section \<open>Login\<close>

lemma validatePassword_run [simp]:
  "validatePassword E u p w = (Inr (verifyPassword E (entropy w) p (u_encrypted_password u) (u_password_salt u)),
     if u_password_salt u = None then w\<lparr>entropy := Suc (entropy w)\<rparr> else w)"
  by (simp add: validatePassword_def)

lemma authByUserInfo_entropy: "authByUserInfo E org ui d w = (r, w') \<Longrightarrow> w' = w\<lparr>entropy := entropy w'\<rparr>"
  by (auto simp: authByUserInfo_def andThen_def split: option.splits if_splits)

lemma authByToken_readonly: "authByToken E tk d w = (r, w') \<Longrightarrow> w' = w"
  by (auto simp: authByToken_def split: option.splits)

lemma auth_entropy:
  "(case tk of Some t \<Rightarrow> if t = [] then authByUserInfo E org ui d else authByToken E t d
     | None \<Rightarrow> authByUserInfo E org ui d) w = (r, w') \<Longrightarrow> w' = w\<lparr>entropy := entropy w'\<rparr>"
  by (auto dest: authByUserInfo_entropy authByToken_readonly split: option.splits if_splits)

text \<open>C23: A login that is refused, by a wrong password, an unknown login, an unknown token, a deleted user or a
  blocked organization, leaves no trace: no session, connection, token or registry entry changes.\<close>

theorem UserAuth_refused_no_trace:
  assumes "mongo_ok E" "UserAuth_perform E ws ui om w = (Inl e, w')"
  shows "w' = w\<lparr>entropy := entropy w'\<rparr>"
proof -
  let ?auth = "case ui_token ui of
      Some tk \<Rightarrow> if tk = [] then authByUserInfo E (ui_organization_id ui) ui (ui_device_id ui) else authByToken E tk (ui_device_id ui)
    | None \<Rightarrow> authByUserInfo E (ui_organization_id ui) ui (ui_device_id ui)"
  obtain r w1 where a: "?auth w = (r, w1)" by fastforce
  note e = auth_entropy[OF a]
  show ?thesis
  proof (cases r)
    case (Inl x)
    with assms(2) a have "w' = w1" by (simp add: UserAuth_perform_def Let_def andThen_run)
    with e show ?thesis by simp
  next
    case (Inr p)
    obtain found token where p: "p = (found, token)" by fastforce
    have never: "updateToken E tk org u d v ty w2 \<noteq> (Inl x, w3)" "addAvatarUrl E [u'] w2 \<noteq> (Inl x, w3)" for tk org u d v ty w2 x w3 u'
      using updateToken_succeeds[OF assms(1), of tk org u d v ty w2] addAvatarUrl_run[of E u' w2] by auto
    show ?thesis
    proof (cases found)
      case None
      with assms(2) a Inr p have "w' = w1" by (simp add: UserAuth_perform_def Let_def andThen_run)
      with e show ?thesis by simp
    next
      case (Some user)
      with assms(2) a Inr p have "w' = w1"
        by (auto simp: UserAuth_perform_def Let_def andThen_run andThen_Inl never split: if_splits)
      with e show ?thesis by simp
    qed
  qed
qed

definition wrong_login :: user_info where
  "wrong_login = \<lparr>ui_organization_id = ''o'', ui_device_id = ''d'', ui_token = None, ui_userId = None,
     ui_login = Some ''bob'', ui_password = Some ''pw''\<rparr>"

theorem UserAuth_refused_no_trace_witness:
  "fst (UserAuth_perform mem_env 1 wrong_login False user_world) = Inl (Status INCORRECT_LOGIN_OR_PASSWORD)
   \<and> getSession (snd (UserAuth_perform mem_env 1 wrong_login False user_world)) 1 = None"
proof -
  have none: "findByLogin mem_env user_world ''o'' ''bob'' = None"
    by (simp add: findByLogin_def user_world_def user_example_def)
  have r: "UserAuth_perform mem_env 1 wrong_login False user_world =
      (Inl (Status INCORRECT_LOGIN_OR_PASSWORD), user_world)"
    by (simp add: UserAuth_perform_def authByUserInfo_def wrong_login_def none Let_def andThen_run)
  from UserAuth_refused_no_trace[OF mem_env_ok(1) r] r show ?thesis
    by (simp add: getSession_def user_world_def empty_world_def)
qed


text \<open>C22: A login by name and password succeeds only for the user of that name in that organization
  whose stored hash the password matches and whose organization is not blocked; then the
  socket's session is that user's, and the token table gains exactly the returned access
  token: every token issued before stays in it and stays valid. (The lookup of the token
  to replace asks for a token of value \<open>access\<close>, which no issued token has.)\<close>

theorem UserAuth_password_login:
  assumes "mongo_ok E" "UserAuth_perform E ws ui False w = (Inr ((user, url), tok), w')"
    "ui_token ui = None" "ui_userId ui = None" "ui_login ui = Some l"
    "\<forall>t \<in> set (user_tokens w). t_token t \<noteq> Jwt ''access''"
  shows "findByLogin E w (ui_organization_id ui) l = Some user
    \<and> verifyPassword E (entropy w) (case ui_password ui of None \<Rightarrow> ''undefined'' | Some p \<Rightarrow> p)
        (u_encrypted_password user) (u_password_salt user)
    \<and> \<not> isUserFromBlocked E w (u_organization_id user)
    \<and> getSessionUserId w' ws = Some (u_id user)
    \<and> mset (user_tokens w') = add_mset tok (mset (user_tokens w))
    \<and> t_user_id tok = u_id user \<and> t_device_id tok = ui_device_id ui \<and> t_type tok = AccessToken"
proof -
  let ?p = "case ui_password ui of None \<Rightarrow> ''undefined'' | Some p \<Rightarrow> p"
  let ?tk = "\<lambda>w u. findTokenByUserId E w u (ui_device_id ui) (Some (Jwt ''access''))"
  have none: "?tk w2 u = None" if "user_tokens w2 = user_tokens w" for w2 u
    using assms(1,6) that by (auto simp: findTokenByUserId_def find_None_set)
  from assms(2-5) obtain token w1 w3 us where a: "authByUserInfo E (ui_organization_id ui) ui (ui_device_id ui) w = (Inr (Some user, token), w1)"
    and blk: "\<not> isUserFromBlocked E w1 (u_organization_id user)"
    and up: "updateToken E token (ui_organization_id ui) (u_id user) (ui_device_id ui)
      (Jwt (generateToken E (connectDevice E ws user (ui_device_id ui) w1) user AccessToken)) AccessToken
      (connectDevice E ws user (ui_device_id ui) w1) = (Inr tok, w3)"
    and av: "addAvatarUrl E [user] w3 = (Inr us, w')"
    by (auto simp: UserAuth_perform_def Let_def andThen_Inr addAvatarUrl_one split: option.splits if_splits)
  obtain st n where w': "w' = w3\<lparr>entropy := n, redis := st\<rparr>" using addAvatarUrl_run[of E user w3] av by auto
  have w1: "w1 = w\<lparr>entropy := entropy w1\<rparr>" using authByUserInfo_entropy[OF a] .
  then have t1: "user_tokens w1 = user_tokens w" "organizations w1 = organizations w"
    by (cases w1, cases w, simp)+
  have tok: "token = None"
    using a assms(3-5) none[OF t1(1)] none[OF refl] by (auto simp: authByUserInfo_def andThen_Inr split: option.splits if_splits)
  have found: "findByLogin E w (ui_organization_id ui) l = Some user"
    "verifyPassword E (entropy w) ?p (u_encrypted_password user) (u_password_salt user)"
    using a assms(3-5) by (auto simp: authByUserInfo_def andThen_Inr split: option.splits if_splits)
  let ?w2 = "connectDevice E ws user (ui_device_id ui) w1"
  have new: "createToken E (ui_organization_id ui) (u_id user) (ui_device_id ui) AccessToken (Jwt (generateToken E ?w2 user AccessToken)) ?w2 = (Inr tok, w3)"
    using up tok none[of ?w2] t1 by (simp add: updateToken_def)
  then obtain ts where ts: "w3 = ?w2\<lparr>user_tokens := ts\<rparr>" "mset ts = add_mset tok (mset (user_tokens w))"
    using createToken_inserts(1)[OF assms(1) new] t1 by auto
  have "getSessionUserId w' ws = Some (u_id user)"
    using connectDevice_session[of E ws user "ui_device_id ui" w1] ts(1) w'
    by (auto simp: getSessionUserId_def getSession_def)
  with found ts w' t1 blk createToken_inserts(2-4)[OF assms(1) new] show ?thesis by (simp add: isUserFromBlocked_def)
qed

definition ann_login :: user_info where
  "ann_login = wrong_login\<lparr>ui_login := Some ''ann''\<rparr>"

lemma ann_auth:
  "authByUserInfo mem_env ''o'' ann_login ''d'' user_world = (Inr (Some user_example, None), user_world)"
proof -
  have pw: "verifyPassword mem_env n ''pw'' (u_encrypted_password user_example) (u_password_salt user_example)" for n
    by (simp add: verifyPassword_def user_example_def)
  have "u_password_salt user_example \<noteq> None" "user_tokens user_world = []"
    by (simp_all add: user_example_def user_world_def empty_world_def)
  then show ?thesis using user_world_find(2) pw
    by (simp add: authByUserInfo_def ann_login_def wrong_login_def andThen_run findTokenByUserId_def)
qed

theorem UserAuth_password_login_witness:
  "\<exists>tok w'. UserAuth_perform mem_env 1 ann_login False user_world = (Inr ((user_example, None), tok), w')
     \<and> getSessionUserId w' 1 = Some ''u1'' \<and> t_type tok = AccessToken"
proof -
  let ?w = "connectDevice mem_env 1 user_example ''d'' user_world"
  have fields: "ui_token ann_login = None" "ui_userId ann_login = None" "ui_login ann_login = Some ''ann''"
    "ui_organization_id ann_login = ''o''" "ui_device_id ann_login = ''d''"
    by (simp_all add: ann_login_def wrong_login_def)
  obtain tok w' where up: "updateToken mem_env None ''o'' ''u1'' ''d''
      (Jwt (generateToken mem_env ?w user_example AccessToken)) AccessToken ?w = (Inr tok, w')"
    using updateToken_succeeds[OF mem_env_ok(1)] by blast
  have "\<not> isUserFromBlocked mem_env user_world (u_organization_id user_example)"
    by (simp add: isUserFromBlocked_def user_world_def empty_world_def)
  moreover have "addAvatarUrl mem_env [user_example] w' = (Inr [(user_example, None)], w')"
    by (simp add: addAvatarUrl_one avatarUrl_def user_example_def)
  ultimately have run: "UserAuth_perform mem_env 1 ann_login False user_world = (Inr ((user_example, None), tok), w')"
    using up fields by (simp add: UserAuth_perform_def ann_auth andThen_run Let_def user_example_def)
  from UserAuth_password_login[OF mem_env_ok(1) run fields(1-3)] run show ?thesis
    by (simp add: user_world_def empty_world_def user_example_def)
qed

text \<open>A socket that logs in again as the same user with the same device ends up connected on its
  node but erased from the registry of the cluster: the device just stored is removed as that
  of the replaced connection.\<close>

theorem relogin_same_device_unregisters:
  assumes "redis_ok (rd E)" "connections_ok w" "c \<in> set (getUserDevices w (u_id user))"
    "cn_socket c = ws" "cn_deviceId c = d" "w' = connectDevice E ws user d w"
  shows "(\<exists>c' \<in> set (getUserDevices w' (u_id user)). cn_socket c' = ws \<and> cn_deviceId c' = d)
    \<and> d \<notin> set (rs_sets (redis w') (usersSetCacheKey (u_organization_id user) (u_id user)))
    \<and> rs_hashes (redis w') (usersHashCacheKey (u_id user) d) = Map.empty"
proof -
  obtain sd ss w1 where a: "addUserDeviceConnection ws (u_organization_id user) (u_id user) d w = ((sd, ss), w1)"
    by (metis prod.collapse)
  have "distinct (map cn_socket (getUserDevices w (u_id user)))"
    using assms(2,3) by (auto simp: connections_ok_def getUserDevices_def split: option.splits)
  from find_unique[OF this assms(3)] assms(4) addUserDeviceConnection_effect[OF assms(2) a]
  have ss: "ss = Some c" "getUserDevices w1 (u_id user) = filter (\<lambda>c. cn_socket c \<noteq> ws \<and> cn_deviceId c \<noteq> d)
      (getUserDevices w (u_id user)) @ [\<lparr>cn_socket = ws, cn_deviceId = d, cn_organizationId = u_organization_id user\<rparr>]"
    by simp_all
  let ?w2 = "storeUserNodeData E ws (u_organization_id user) (u_id user) d w1"
  have w': "w' = snd (removeAllUserDeviceData E (u_organization_id user) (u_id user) d ?w2)"
    using a ss(1) assms(5,6) by (simp add: connectDevice_def)
  have "getUserDevices w' (u_id user) = getUserDevices w1 (u_id user)"
    using w' by (simp add: getUserDevices_def storeUserNodeData_fields)
  with removeAllUserDeviceData_forgets(1,2)[OF assms(1) w'] ss(2) show ?thesis by simp
qed

theorem relogin_same_device_unregisters_witness:
  "let w1 = connectDevice mem_env 1 user_example ''d'' user_world;
       w2 = connectDevice mem_env 1 user_example ''d'' w1
   in ''d'' \<in> set (map cn_deviceId (getUserDevices w2 ''u1''))
    \<and> rs_hashes (redis w2) (usersHashCacheKey ''u1'' ''d'') = Map.empty"
proof -
  let ?w1 = "snd (addUserDeviceConnection 1 ''o'' ''u1'' ''d'' user_world)"
  let ?c = "connectDevice mem_env 1 user_example ''d'' user_world"
  have u: "u_id user_example = ''u1''" "u_organization_id user_example = ''o''" by (simp_all add: user_example_def)
  have fresh: "getUserDevices user_world u' = []" for u'
    by (simp add: user_world_def empty_world_def getUserDevices_def)
  have c: "?c = storeUserNodeData mem_env 1 ''o'' ''u1'' ''d'' ?w1"
    by (simp add: connectDevice_def u Let_def split_beta addUserDeviceConnection_def fresh)
  have ok1: "connections_ok ?w1"
    by (rule connections_ok_add) (simp add: connections_ok_def user_world_def empty_world_def)
  have ok: "connections_ok ?c"
    using ok1 unfolding c connections_ok_def by (simp add: storeUserNodeData_fields)
  have dev: "getUserDevices ?c ''u1'' = [\<lparr>cn_socket = 1, cn_deviceId = ''d'', cn_organizationId = ''o''\<rparr>]"
    unfolding c getUserDevices_def storeUserNodeData_fields
    by (simp add: addUserDeviceConnection_def Let_def fresh drop_at_def)
  have rel: "(\<exists>c' \<in> set (getUserDevices w' ''u1''). cn_socket c' = 1 \<and> cn_deviceId c' = ''d'')
      \<and> rs_hashes (redis w') (usersHashCacheKey ''u1'' ''d'') = Map.empty"
    if "w' = connectDevice mem_env 1 user_example ''d'' ?c" for w'
    using relogin_same_device_unregisters[OF mem_env_ok(2) ok _ _ _ that] dev by (simp add: u)
  show ?thesis using rel[OF refl] unfolding Let_def set_map by force
qed

section \<open>Logout\<close>

text \<open>Logging a connected device out closes the socket's session and its connection, deletes every
  token of that user on that device and no other token, so no stored token connects the
  user from that device again.\<close>

theorem UserLogout_closes:
  assumes "mongo_ok E" "getSession w ws = Some s" "getDeviceId w ws (s_userId s) = Some d"
    "UserLogout_perform E ws w = (r, w')"
  shows "getSession w' ws = None
    \<and> (\<forall>c \<in> set (getUserDevices w' (s_userId s)). cn_deviceId c \<noteq> d)
    \<and> user_tokens w' = filter (\<lambda>t. \<not> (t_user_id t = s_userId s \<and> t_device_id t = d)) (user_tokens w)
    \<and> (\<forall>tk ty t. findToken E w' tk (Some d) ty = Some t \<longrightarrow> d \<noteq> [] \<longrightarrow> t_user_id t \<noteq> s_userId s)"
proof -
  let ?w1 = "removeByDeviceId E (s_userId s) (Some d) w"
  let ?w2 = "snd (removeUserSession E ws (Some (s_userId s)) (Some d) ?w1)"
  have w1: "SESSIONS ?w1 = SESSIONS w" "DEVICES ?w1 = DEVICES w" "user_tokens ?w1 = user_tokens w"
    by (auto simp: removeByDeviceId_def split: option.splits)
  have w': "w' = Token_deleteByUserId E (s_userId s) (Some d) ?w2"
    using assms(2-4) by (auto simp: UserLogout_perform_def Let_def split_beta)
  have sess: "SESSIONS w' = map_delete ws (SESSIONS w)" "DEVICES w' = DEVICES ?w2"
    using w1(1) by (simp_all add: w' Token_deleteByUserId_def removeUserSession_SESSIONS)
  have toks: "user_tokens ?w2 = user_tokens w"
    using w1(3) by (auto simp: removeUserSession_def Let_def removeAllUserDeviceData_def listUserDevice_def
        split_beta split: option.splits)
  have left: "getUserDevices w' (s_userId s) = filter (\<lambda>c. cn_deviceId c \<noteq> d) (getUserDevices w (s_userId s))"
    using w1(2) unfolding getUserDevices_def sess(2) removeUserSession_DEVICES by (simp add: Let_def getUserDevices_def)
  have t: "user_tokens w' = filter (\<lambda>t. \<not> (t_user_id t = s_userId s \<and> t_device_id t = d)) (user_tokens w)"
    using assms(1) toks by (simp add: w' Token_deleteByUserId_def)
  have "t_user_id t \<noteq> s_userId s" if "findToken E w' tk (Some d) ty = Some t" "d \<noteq> []" for tk ty t
    using that assms(1) t by (auto simp: findToken_def dest!: find_Some_iff_set)
  with sess(1) left t show ?thesis by (simp add: getSession_def map_of_map_delete)
qed

theorem UserLogout_closes_witness:
  "let w1 = snd (addUserDeviceConnection 1 ''o'' ''u1'' ''d'' user_world);
       w2 = snd (UserLogout_perform mem_env 1 w1)
   in getSession w2 1 = None \<and> getUserDevices w2 ''u1'' = []"
proof -
  let ?w1 = "snd (addUserDeviceConnection 1 ''o'' ''u1'' ''d'' user_world)"
  have s: "getSession ?w1 1 = Some \<lparr>s_organizationId = ''o'', s_userId = ''u1'', s_extraParams = [SESSION_DEVICE_ID_KEY \<mapsto> ''d'']\<rparr>"
    by (simp add: addUserDeviceConnection_def getSession_setSessionUserId Let_def)
  have dev: "getUserDevices ?w1 ''u1'' = [\<lparr>cn_socket = 1, cn_deviceId = ''d'', cn_organizationId = ''o''\<rparr>]"
    by (simp add: addUserDeviceConnection_def user_world_def empty_world_def getUserDevices_def drop_at_def)
  obtain r w2 where r: "UserLogout_perform mem_env 1 ?w1 = (r, w2)" by fastforce
  have left: "getUserDevices w2 ''u1'' = []"
  proof (rule ccontr)
    assume "getUserDevices w2 ''u1'' \<noteq> []"
    moreover have "set (getUserDevices w2 ''u1'') \<subseteq> set (getUserDevices ?w1 ''u1'')"
      using r s dev by (auto simp: UserLogout_perform_def Let_def split_beta Token_deleteByUserId_def getUserDevices_def
          removeUserSession_DEVICES removeByDeviceId_def getDeviceId_def split: option.splits if_splits)
    ultimately show False using UserLogout_closes[OF mem_env_ok(1) s _ r, of "''d''"] dev
      by (cases "getUserDevices w2 ''u1''") (auto simp: getDeviceId_def)
  qed
  from UserLogout_closes[OF mem_env_ok(1) s _ r, of "''d''"] dev r left show ?thesis
    by (simp add: Let_def getDeviceId_def)
qed

section \<open>One-time passwords\<close>



text \<open>If the device already has a token of the user (it once logged in) and none is a one-time
  password, the mailed one-time password is stored nowhere and the reset with it is
  refused.\<close>

theorem otp_lost_for_known_device:
  assumes "mongo_ok E" "findByEmail E w org email = Some user"
    "findTokenByUserId E w (u_id user) d None = Some t" "\<forall>x \<in> set (user_tokens w). t_type x \<noteq> OtpToken"
    "\<forall>x \<in> set (user_tokens w). \<exists>s. t_token x = Jwt s"
  shows "\<exists>otp w1. UserSendOTP_perform E org d email w = (Inr (u_email user, otp), w1)
    \<and> user_tokens w1 = user_tokens w
    \<and> UserResetPassword_perform E org email d (Some otp) p w1 = (Inl (Status INCORRECT_OTP_TOKEN), w1)"
proof -
  let ?P = "\<lambda>r. t_user_id r = u_id user \<and> t_organization_id r = org \<and> t_device_id r = d \<and> t_type r = OtpToken"
  have "update_first ?P f (user_tokens w) = user_tokens w" for f
    using assms(4) by (intro update_first_none) auto
  then have send: "UserSendOTP_perform E org d email w =
      (Inr (u_email user, Otp (randomOtp E (entropy w))), w\<lparr>entropy := Suc (entropy w)\<rparr>)"
    using assms(1-3) by (simp add: UserSendOTP_perform_def upsertOTPToken_def Let_def andThen_run)
  have "t \<in> set (user_tokens w)" using assms(1,3) by (auto simp: findTokenByUserId_def dest!: find_Some_iff_set)
  then obtain s where "t_token t = Jwt s" using assms(5) by blast
  with send assms(2,3) show ?thesis
    by (simp add: UserResetPassword_perform_def findByEmail_def findTokenByUserId_def andThen_run)
qed

definition token_example :: user_token where
  "token_example = \<lparr>t_id = ''t1'', t_organization_id = ''o'', t_user_id = ''u1'', t_device_id = ''d'',
     t_type = AccessToken, t_token = Jwt ''jwt1'', t_created_at = 0, t_updated_at = 0\<rparr>"

theorem otp_lost_for_known_device_witness:
  "\<exists>otp w1. UserSendOTP_perform mem_env ''o'' ''d'' ''a@b.co'' (user_world\<lparr>user_tokens := [token_example]\<rparr>) = (Inr (Some ''a@b.co'', otp), w1)
    \<and> UserResetPassword_perform mem_env ''o'' ''a@b.co'' ''d'' (Some otp) ''new'' w1 = (Inl (Status INCORRECT_OTP_TOKEN), w1)"
proof -
  let ?w = "user_world\<lparr>user_tokens := [token_example]\<rparr>"
  have e: "findByEmail mem_env ?w ''o'' ''a@b.co'' = Some user_example"
    using user_world_find(3) by (simp add: findByEmail_def)
  have t: "findTokenByUserId mem_env ?w (u_id user_example) ''d'' None = Some token_example"
    by (simp add: findTokenByUserId_def token_example_def user_example_def)
  have u: "u_email user_example = Some ''a@b.co''" by (simp add: user_example_def)
  from otp_lost_for_known_device[OF mem_env_ok(1) e t, of "''new''"] show ?thesis
    unfolding u by (simp add: token_example_def) blast
qed

end
