(* ===== verification/Conversation_Props.thy ===== *)
theory Conversation_Props
  imports Conversations User_Props
begin

text \<open>
  Properties of conversations and participants: the participants of a conversation as a set
  of users kept by unique rows (an interpretation of the keyed-rows interface), the
  participant limit, the subscriber counter of a channel, the hand-over of ownership, and
  the completeness of the batched iteration over participants.
\<close>

section \<open>Participants as unique rows\<close>

definition part_key :: "participant \<Rightarrow> oid \<times> oid" where
  "part_key p = (cp_conversation_id p, cp_user_id p)"

definition parts_ok :: "participant list \<Rightarrow> bool" where
  "parts_ok ps \<longleftrightarrow> distinct (map cp_id ps) \<and> distinct (map part_key ps)"

definition members_of :: "oid \<Rightarrow> world \<Rightarrow> oid set" where
  "members_of cid w = cp_user_id ` {p \<in> set (participants w). cp_conversation_id p = cid}"

definition rows_frame :: "env \<Rightarrow> oid \<Rightarrow> world \<Rightarrow> world \<Rightarrow> bool" where
  "rows_frame E cid w0 w \<longleftrightarrow> mongo_ok E \<and> parts_ok (participants w) \<and> w = w0\<lparr>participants := participants w\<rparr> \<and>
     filter_mset (\<lambda>p. cp_conversation_id p \<noteq> cid) (mset (participants w)) =
     filter_mset (\<lambda>p. cp_conversation_id p \<noteq> cid) (mset (participants w0))"

lemma members_of_iff: "u \<in> members_of cid w \<longleftrightarrow> (\<exists>p \<in> set (participants w). cp_conversation_id p = cid \<and> cp_user_id p = u)"
  by (auto simp: members_of_def)

lemma members_of_finite [simp]: "finite (members_of cid w)"
  by (simp add: members_of_def)

lemma members_of_cong: "participants w' = participants w \<Longrightarrow> members_of cid w' = members_of cid w"
  by (simp add: members_of_def)

lemma members_of_update [simp]:
  "members_of cid (w\<lparr>conversations := cs\<rparr>) = members_of cid w"
  by (simp add: members_of_def)

lemma count_members:
  assumes "parts_ok (participants w)"
  shows "length (filter (\<lambda>p. cp_conversation_id p = cid) (participants w)) = card (members_of cid w)"
proof -
  let ?ps = "filter (\<lambda>p. cp_conversation_id p = cid) (participants w)"
  have "distinct (map part_key ?ps)" using assms by (simp add: parts_ok_def distinct_map_filter)
  moreover have "map part_key ?ps = map (Pair cid) (map cp_user_id ?ps)" by (simp add: part_key_def)
  ultimately have "distinct (map cp_user_id ?ps)" by (metis distinct_map)
  then have "length ?ps = card (set (map cp_user_id ?ps))" by (metis distinct_card length_map)
  then show ?thesis by (simp add: members_of_def)
qed

lemma participantQuery_Nil: "participantQuery cid [] = (\<lambda>p. cp_conversation_id p = cid)"
  by (simp add: participantQuery_def fun_eq_iff)

lemma parts_ok_mset: "mset ps = mset qs \<Longrightarrow> parts_ok ps = parts_ok qs"
  unfolding parts_ok_def by (metis mset_distinct_map)

lemma rows_frame_update: "rows_frame E cid w0 w \<Longrightarrow> w\<lparr>participants := ps\<rparr> = w0\<lparr>participants := ps\<rparr>"
  unfolding rows_frame_def by (cases w, cases w0) simp

lemma upsertParticipant_law:
  assumes "rows_frame E cid w0 w"
  shows "\<exists>w'. upsertParticipant E cid x w = (Inr (pp_user_id x \<notin> members_of cid w), w') \<and> rows_frame E cid w0 w'
    \<and> members_of cid w' = insert (pp_user_id x) (members_of cid w)"
proof -
  let ?P = "\<lambda>p. cp_conversation_id p = cid \<and> cp_user_id p = pp_user_id x"
  let ?mk = "\<lambda>i. \<lparr>cp_id = i, cp_organization_id = pp_organization_id x, cp_conversation_id = cid,
      cp_user_id = pp_user_id x, cp_role = pp_role x, cp_created_at = clock w, cp_updated_at = clock w\<rparr>"
  have ok: "coll_ok cp_id no_clash (mg_participants E)" using assms by (simp add: rows_frame_def)
  show ?thesis
  proof (cases "pp_user_id x \<in> members_of cid w")
    case True
    then have ex: "\<exists>p \<in> set (participants w). ?P p" by (auto simp: members_of_def)
    have same: "update_first Q (\<lambda>d. d) qs = qs" for Q and qs :: "participant list" by (induction qs) auto
    have "upsertParticipant E cid x w = (Inr False, w)"
      using coll_ok_upsertOne_present[OF ok ex] by (simp add: upsertParticipant_def updateOneUpsert_def same)
    with True assms show ?thesis by (auto simp: insert_absorb)
  next
    case False
    then have ex: "\<not> (\<exists>p \<in> set (participants w). ?P p)" by (simp add: members_of_iff)
    obtain i ps where u: "coll_upsertOne (mg_participants E) ?P (\<lambda>d. d) ?mk (participants w) = (Some i, ps)"
      and ins: "inserts cp_id ?mk (participants w) i ps"
      by (rule coll_ok_upsertOne_absent[OF ok ex])
    have m: "mset ps = add_mset (?mk i) (mset (participants w))" "i \<notin> cp_id ` set (participants w)"
      using ins by (auto simp: inserts_def)
    have s: "set ps = insert (?mk i) (set (participants w))" using m(1) by (metis set_mset_add_mset_insert set_mset_mset)
    have "parts_ok (?mk i # participants w)"
      using assms m(2) ex by (auto simp: rows_frame_def parts_ok_def part_key_def)
    then have "parts_ok ps" using m(1) parts_ok_mset[of ps "?mk i # participants w"] by simp
    moreover have "w\<lparr>participants := ps\<rparr> = w0\<lparr>participants := ps\<rparr>"
      using assms rows_frame_update by blast
    ultimately have "rows_frame E cid w0 (w\<lparr>participants := ps\<rparr>)"
      using assms m(1) by (simp add: rows_frame_def)
    moreover have "members_of cid (w\<lparr>participants := ps\<rparr>) = insert (pp_user_id x) (members_of cid w)"
      by (rule set_eqI) (simp add: s members_of_iff, blast)
    moreover have "upsertParticipant E cid x w = (Inr True, w\<lparr>participants := ps\<rparr>)"
      using u by (simp add: upsertParticipant_def updateOneUpsert_def)
    ultimately show ?thesis using False by auto
  qed
qed

lemma deleteParticipant_law:
  assumes "rows_frame E cid w0 w"
  shows "\<exists>w'. deleteParticipant E cid k w = (Inr (k \<in> members_of cid w), w') \<and> rows_frame E cid w0 w'
    \<and> members_of cid w' = members_of cid w - {k}"
proof -
  let ?P = "\<lambda>p. cp_conversation_id p = cid \<and> cp_user_id p = k"
  let ?ps = "filter (\<lambda>p. \<not> ?P p) (participants w)"
  have d: "deleteParticipant E cid k w = (Inr (filter ?P (participants w) \<noteq> []), w\<lparr>participants := ?ps\<rparr>)"
    using assms by (simp add: deleteParticipant_def rows_frame_def)
  have "filter ?P (participants w) \<noteq> [] \<longleftrightarrow> k \<in> members_of cid w"
    by (auto simp: members_of_def filter_empty_conv)
  moreover have "rows_frame E cid w0 (w\<lparr>participants := ?ps\<rparr>)"
  proof -
    have "w\<lparr>participants := ?ps\<rparr> = w0\<lparr>participants := ?ps\<rparr>"
      using assms rows_frame_update by blast
    moreover have "filter_mset (\<lambda>p. cp_conversation_id p \<noteq> cid) (mset ?ps) =
        filter_mset (\<lambda>p. cp_conversation_id p \<noteq> cid) (mset (participants w))"
      unfolding mset_filter[symmetric] filter_filter by (intro arg_cong[of _ _ mset] filter_cong) auto
    ultimately show ?thesis using assms by (simp add: rows_frame_def parts_ok_def distinct_map_filter)
  qed
  moreover have "members_of cid (w\<lparr>participants := ?ps\<rparr>) = members_of cid w - {k}"
    by (rule set_eqI) (auto simp: members_of_iff)
  ultimately show ?thesis using d by auto
qed

interpretation cparts: keyed_rows "rows_frame E cid w0" "members_of cid" "upsertParticipant E cid" pp_user_id
  "deleteParticipant E cid" for E cid w0
  by unfold_locales (simp_all add: upsertParticipant_law deleteParticipant_law)

lemma rows_frame_start: "mongo_ok E \<Longrightarrow> parts_ok (participants w) \<Longrightarrow> rows_frame E cid w w"
  by (simp add: rows_frame_def)

lemma rows_frame_others:
  assumes "rows_frame E cid w0 w" "k \<noteq> cid"
  shows "members_of k w = members_of k w0"
proof -
  have "set_mset (filter_mset (\<lambda>p. cp_conversation_id p \<noteq> cid) (mset (participants w))) =
      set_mset (filter_mset (\<lambda>p. cp_conversation_id p \<noteq> cid) (mset (participants w0)))"
    using assms(1) by (simp add: rows_frame_def)
  then have "p \<in> set (participants w) \<longleftrightarrow> p \<in> set (participants w0)" if "cp_conversation_id p = k" for p
    using that assms(2) by (auto simp: set_eq_iff)
  then show ?thesis by (auto simp: members_of_iff set_eq_iff)
qed


section \<open>The state of the conversations\<close>

text \<open>
  Identifiers are unique, a user is at most once in a conversation, participants belong to a
  conversation that exists, and the counter of a channel is the number of its
  participants.
\<close>

definition counter_ok :: "world \<Rightarrow> conversation \<Rightarrow> bool" where
  "counter_ok w c \<longleftrightarrow> (c_type c = Channel \<longrightarrow> orZero (c_subscribers_count c) = JsInt (int (card (members_of (c_id c) w))))"

definition conv_ok :: "world \<Rightarrow> bool" where
  "conv_ok w \<longleftrightarrow> distinct (map c_id (conversations w)) \<and> parts_ok (participants w)
     \<and> cp_conversation_id ` set (participants w) \<subseteq> c_id ` set (conversations w)
     \<and> (\<forall>c \<in> set (conversations w). counter_ok w c)"

lemma conv_okD:
  assumes "conv_ok w"
  shows "distinct (map c_id (conversations w))" "parts_ok (participants w)"
    "cp_conversation_id ` set (participants w) \<subseteq> c_id ` set (conversations w)"
    "c \<in> set (conversations w) \<Longrightarrow> counter_ok w c"
  using assms by (simp_all add: conv_ok_def)

text \<open>The writes to one conversation, as a change of the record with that identifier.\<close>

definition at_conv :: "oid \<Rightarrow> (conversation \<Rightarrow> conversation) \<Rightarrow> conversation list \<Rightarrow> conversation list" where
  "at_conv cid f cs = map (\<lambda>c. if c_id c = cid then f c else c) cs"

lemma at_conv_ids [simp]:
  "(\<And>c. c_id (f c) = c_id c) \<Longrightarrow> map c_id (at_conv cid f cs) = map c_id cs"
  by (simp add: at_conv_def)

lemma at_conv_id_set: "(\<And>c. c_id (f c) = c_id c) \<Longrightarrow> c_id ` set (at_conv cid f cs) = c_id ` set cs"
  using at_conv_ids[of f cid cs] by (metis set_map)

lemma conversation_writes:
  assumes "mongo_ok E" "distinct (map c_id (conversations w))"
  shows "updateSubscribersCount E cid n w = w\<lparr>conversations := at_conv cid (\<lambda>c. c\<lparr>c_subscribers_count := Some n\<rparr>) (conversations w)\<rparr>"
    "updateOwner E cid u w = w\<lparr>conversations := at_conv cid (\<lambda>c. c\<lparr>c_owner_id := u\<rparr>) (conversations w)\<rparr>"
    "updateLastActivity E cid t w = w\<lparr>conversations := at_conv cid (\<lambda>c. c\<lparr>c_updated_at := t\<rparr>) (conversations w)\<rparr>"
  using assms by (simp_all add: updateSubscribersCount_def updateOwner_def updateLastActivity_def at_conv_def update_first_unique)

lemma counter_ok_cong: "members_of (c_id c) w' = members_of (c_id c) w \<Longrightarrow> counter_ok w' c = counter_ok w c"
  by (simp add: counter_ok_def)

lemma at_conv_counter:
  assumes "\<forall>c \<in> set cs. c_id c \<noteq> cid \<longrightarrow> counter_ok w c" "\<And>c. c \<in> set cs \<Longrightarrow> c_id c = cid \<Longrightarrow> counter_ok w (f c)"
  shows "\<forall>c \<in> set (at_conv cid f cs). counter_ok w c"
  using assms by (auto simp: at_conv_def)

lemma unique_conversation:
  "distinct (map c_id cs) \<Longrightarrow> c \<in> set cs \<Longrightarrow> d \<in> set cs \<Longrightarrow> c_id c = c_id d \<Longrightarrow> c = d"
  by (simp add: distinct_map inj_on_def)

lemma rows_frame_refs:
  assumes "rows_frame E cid w0 w" "cp_conversation_id ` set (participants w0) \<subseteq> ids" "cid \<in> ids"
  shows "cp_conversation_id ` set (participants w) \<subseteq> ids"
proof -
  have "set_mset (filter_mset (\<lambda>p. cp_conversation_id p \<noteq> cid) (mset (participants w))) =
      set_mset (filter_mset (\<lambda>p. cp_conversation_id p \<noteq> cid) (mset (participants w0)))"
    using assms(1) by (simp add: rows_frame_def)
  then have "p \<in> set (participants w0)" if "p \<in> set (participants w)" "cp_conversation_id p \<noteq> cid" for p
    using that by (auto simp: set_eq_iff)
  with assms(2,3) show ?thesis by blast
qed

text \<open>
  Writing the counter of a channel back after its participants changed keeps the state
  consistent; other types of conversation have no counter.
\<close>

definition set_count :: "conversation \<Rightarrow> nat \<Rightarrow> conversation list \<Rightarrow> conversation list" where
  "set_count c n cs = (if c_type c = Channel
     then at_conv (c_id c) (\<lambda>d. d\<lparr>c_subscribers_count := Some (JsInt (int n))\<rparr>) cs else cs)"

definition counted :: "conversation \<Rightarrow> nat \<Rightarrow> conversation" where
  "counted c n = (if c_type c = Channel then c\<lparr>c_subscribers_count := Some (JsInt (int n))\<rparr> else c)"

lemma set_count_ids [simp]: "map c_id (set_count c n cs) = map c_id cs"
  by (simp add: set_count_def)

lemma counted_in: "c \<in> set cs \<Longrightarrow> counted c n \<in> set (set_count c n cs)"
  by (auto simp: counted_def set_count_def at_conv_def)

lemma counted_simps [simp]:
  "c_id (counted c n) = c_id c" "c_type (counted c n) = c_type c" "c_owner_id (counted c n) = c_owner_id c"
  "c_organization_id (counted c n) = c_organization_id c" "c_opponent_id (counted c n) = c_opponent_id c"
  "c_name (counted c n) = c_name c"
  by (simp_all add: counted_def)

lemma conv_ok_counted:
  assumes "conv_ok w" "c \<in> set (conversations w)" "rows_frame E (c_id c) w w1"
    "n = card (members_of (c_id c) w1)"
  shows "conv_ok (w1\<lparr>conversations := set_count c n (conversations w)\<rparr>)"
proof -
  let ?cs = "set_count c n (conversations w)"
  have others: "counter_ok w1 d" if "d \<in> set (conversations w)" "c_id d \<noteq> c_id c" for d
    using that conv_okD(4)[OF assms(1)] rows_frame_others[OF assms(3)] counter_ok_cong by metis
  have cnt: "\<forall>d \<in> set ?cs. counter_ok w1 d"
  proof (cases "c_type c = Channel")
    case True
    have new: "counter_ok w1 (d\<lparr>c_subscribers_count := Some (JsInt (int n))\<rparr>)" if "c_id d = c_id c" for d
      using that assms(4) by (simp add: counter_ok_def orZero_def)
    show ?thesis unfolding set_count_def if_P[OF True]
      by (rule at_conv_counter) (use others new in blast)+
  next
    case False
    have "counter_ok w1 d" if "d \<in> set (conversations w)" for d
    proof (cases "c_id d = c_id c")
      case True
      then have "d = c" using unique_conversation[OF conv_okD(1)[OF assms(1)] that assms(2)] by simp
      with False show ?thesis by (simp add: counter_ok_def)
    qed (use that others in blast)
    then show ?thesis using False by (simp add: set_count_def)
  qed
  have "c_id ` set ?cs = c_id ` set (conversations w)" by (metis set_count_ids set_map)
  moreover have "cp_conversation_id ` set (participants w1) \<subseteq> c_id ` set (conversations w)"
    using rows_frame_refs[OF assms(3) conv_okD(3)[OF assms(1)]] assms(2) by simp
  ultimately show ?thesis
    using cnt conv_okD(1)[OF assms(1)] assms(3) unfolding conv_ok_def rows_frame_def by (simp add: counter_ok_def)
qed

lemma rows_frame_conversations: "rows_frame E cid w w1 \<Longrightarrow> conversations w1 = conversations w"
  unfolding rows_frame_def by (cases w, cases w1) simp

lemma rows_frame_self: "rows_frame E cid w w1 \<Longrightarrow> w1\<lparr>conversations := conversations w\<rparr> = w1"
  unfolding rows_frame_def by (cases w, cases w1) simp

lemma rows_frame_both:
  "rows_frame E cid w w1 \<Longrightarrow> w1\<lparr>conversations := cs\<rparr> = w\<lparr>participants := participants w1, conversations := cs\<rparr>"
  unfolding rows_frame_def by (cases w, cases w1) simp

section \<open>Adding participants\<close>

definition params_of :: "conversation \<Rightarrow> oid \<Rightarrow> participant_params" where
  "params_of c u = \<lparr>pp_user_id = u, pp_organization_id = c_organization_id c,
     pp_role = (if u = c_owner_id c then Some OwnerRole else None)\<rparr>"

lemma addNoExisted_spec:
  assumes "mongo_ok E" "parts_ok (participants w)"
  shows "\<exists>added w'. addNoExistedParticipants E cid (map (params_of c) ids) w = (Inr added, w')
    \<and> rows_frame E cid w w' \<and> members_of cid w' = members_of cid w \<union> set ids
    \<and> distinct added \<and> set added = set ids - members_of cid w
    \<and> card (members_of cid w') = card (members_of cid w) + length added"
proof -
  note start = rows_frame_start[OF assms, of cid]
  obtain added w' where a: "collect (upsertParticipant E cid) pp_user_id (map (params_of c) ids) w = (Inr added, w')"
    "rows_frame E cid w w'" "members_of cid w' = members_of cid w \<union> pp_user_id ` set (map (params_of c) ids)"
    "distinct added" "set added = pp_user_id ` set (map (params_of c) ids) - members_of cid w"
    using cparts.collect_add[OF start, of "map (params_of c) ids"] by blast
  have ids: "pp_user_id ` set (map (params_of c) ids) = set ids" by (simp add: params_of_def image_image)
  from a cparts.collect_add_card[OF start a(1)] show ?thesis unfolding addNoExistedParticipants_def ids by blast
qed

lemma addParticipants_count:
  assumes "mongo_ok E" "conv_ok w" "c \<in> set (conversations w)" "isEmpty \<longrightarrow> members_of (c_id c) w = {}"
  shows "(if isEmpty then JsInt 0 else if c_type c = Channel then orZero (c_subscribers_count c)
      else JsInt (int (countConversationParticipants E w (c_id c) []))) = JsInt (int (card (members_of (c_id c) w)))"
  using assms conv_okD(4)[OF assms(2,3)] count_members[OF conv_okD(2)[OF assms(2)], of "c_id c"]
  by (simp add: counter_ok_def countConversationParticipants_def participantQuery_Nil)

text \<open>The run of \<open>addParticipants\<close> within the limit: the new rows, then the counter of a channel.\<close>

lemma addParticipants_run:
  assumes "mongo_ok E" "conv_ok w" "c \<in> set (conversations w)" "isEmpty \<longrightarrow> members_of (c_id c) w = {}"
    and le: "card (members_of (c_id c) w) + length ids \<le> cfg_maxParticipants E"
    and a: "addNoExistedParticipants E (c_id c) (map (params_of c) ids) w = (Inr added, w1)" "rows_frame E (c_id c) w w1"
    and n: "card (members_of (c_id c) w) + length added = n"
  shows "addParticipants E c ids isEmpty w =
    (Inr (added, counted c n), w\<lparr>participants := participants w1, conversations := set_count c n (conversations w)\<rparr>)"
proof -
  note cs = rows_frame_conversations[OF a(2)]
  let ?loop = "if ids = [] then ret ids else addNoExistedParticipants E (c_id c) (map (params_of c) ids)"
  have loop: "?loop w = (Inr added, w1)"
    using a(1) by (cases ids) (simp_all add: addNoExistedParticipants_def)
  have upd: "updateSubscribersCount E (c_id c) x w1 =
      w\<lparr>participants := participants w1, conversations := at_conv (c_id c) (\<lambda>d. d\<lparr>c_subscribers_count := Some x\<rparr>) (conversations w)\<rparr>" for x
    using conversation_writes(1)[OF assms(1), of w1 "c_id c"] conv_okD(1)[OF assms(2)] cs rows_frame_both[OF a(2)] by simp
  have same: "w1 = w\<lparr>participants := participants w1, conversations := conversations w\<rparr>"
    using rows_frame_both[OF a(2), of "conversations w"] cs by (metis world.surjective world.update_convs(3))
  have r: "addParticipants E c ids isEmpty w = (if c_type c = Channel
      then (Inr (added, c\<lparr>c_subscribers_count := Some (JsInt (int n))\<rparr>), updateSubscribersCount E (c_id c) (JsInt (int n)) w1)
      else (Inr (added, c), w1))"
    using le n unfolding addParticipants_def params_of_def[symmetric]
    by (simp add: addParticipants_count[OF assms(1-4)] andThen_run(1)[of ?loop, OF loop] Let_def flip: n)
  show ?thesis
  proof (cases "c_type c = Channel")
    case True
    with r upd show ?thesis by (simp add: counted_def set_count_def)
  next
    case False
    then show ?thesis unfolding counted_def set_count_def if_not_P[OF False] same[symmetric] using r by simp
  qed
qed

text \<open>What \<open>addParticipants\<close> does, on the branch that refuses and on the one that adds.\<close>

lemma addParticipants_spec:
  assumes "mongo_ok E" "conv_ok w" "c \<in> set (conversations w)" "isEmpty \<longrightarrow> members_of (c_id c) w = {}"
  shows "card (members_of (c_id c) w) + length ids > cfg_maxParticipants E \<Longrightarrow>
      addParticipants E c ids isEmpty w = (Inl (Status PARTICIPANTS_LIMIT), w)"
    "card (members_of (c_id c) w) + length ids \<le> cfg_maxParticipants E \<Longrightarrow>
      \<exists>added ps. let w' = w\<lparr>participants := ps, conversations := set_count c (card (members_of (c_id c) w \<union> set ids)) (conversations w)\<rparr> in
        addParticipants E c ids isEmpty w = (Inr (added, counted c (card (members_of (c_id c) w \<union> set ids))), w')
      \<and> conv_ok w' \<and> rows_frame E (c_id c) w (w\<lparr>participants := ps\<rparr>)
      \<and> members_of (c_id c) w' = members_of (c_id c) w \<union> set ids
      \<and> distinct added \<and> set added = set ids - members_of (c_id c) w"
proof -
  let ?m = "card (members_of (c_id c) w)"
  note cur = addParticipants_count[OF assms]
  show "addParticipants E c ids isEmpty w = (Inl (Status PARTICIPANTS_LIMIT), w)" if "?m + length ids > cfg_maxParticipants E"
    using that by (simp add: addParticipants_def cur)
  assume le: "?m + length ids \<le> cfg_maxParticipants E"
  obtain added w1 where a: "addNoExistedParticipants E (c_id c) (map (params_of c) ids) w = (Inr added, w1)"
    "rows_frame E (c_id c) w w1" "members_of (c_id c) w1 = members_of (c_id c) w \<union> set ids"
    "distinct added" "set added = set ids - members_of (c_id c) w" "card (members_of (c_id c) w1) = ?m + length added"
    using addNoExisted_spec[OF assms(1) conv_okD(2)[OF assms(2)]] by blast
  let ?n = "card (members_of (c_id c) w \<union> set ids)"
  let ?w = "w\<lparr>participants := participants w1, conversations := set_count c ?n (conversations w)\<rparr>"
  have run: "addParticipants E c ids isEmpty w = (Inr (added, counted c ?n), ?w)"
    by (rule addParticipants_run[OF assms le a(1,2)]) (use a(3,6) in simp)
  have ok: "conv_ok ?w"
    using conv_ok_counted[OF assms(2,3) a(2), of ?n] a(3) rows_frame_both[OF a(2)] by simp
  have "rows_frame E (c_id c) w (w\<lparr>participants := participants w1\<rparr>)"
    using a(2) rows_frame_update[OF a(2)] by (metis rows_frame_def)
  moreover have "members_of (c_id c) ?w = members_of (c_id c) w \<union> set ids" using a(3) by (simp add: members_of_def)
  ultimately show "\<exists>added ps. let w' = w\<lparr>participants := ps, conversations := set_count c ?n (conversations w)\<rparr> in
        addParticipants E c ids isEmpty w = (Inr (added, counted c ?n), w')
      \<and> conv_ok w' \<and> rows_frame E (c_id c) w (w\<lparr>participants := ps\<rparr>)
      \<and> members_of (c_id c) w' = members_of (c_id c) w \<union> set ids
      \<and> distinct added \<and> set added = set ids - members_of (c_id c) w"
    unfolding Let_def using run ok a(4,5) by blast
qed

section \<open>Removing participants\<close>

lemma removeExisted_spec:
  assumes "mongo_ok E" "parts_ok (participants w)"
  shows "\<exists>removed w'. removeExistedParticipants E cid ids w = (Inr removed, w')
    \<and> rows_frame E cid w w' \<and> members_of cid w' = members_of cid w - set ids
    \<and> distinct removed \<and> set removed = set ids \<inter> members_of cid w
    \<and> card (members_of cid w') + length removed = card (members_of cid w)"
proof -
  note start = rows_frame_start[OF assms, of cid]
  obtain removed w' where a: "collect (deleteParticipant E cid) (\<lambda>k. k) ids w = (Inr removed, w')"
    "rows_frame E cid w w'" "members_of cid w' = members_of cid w - set ids"
    "distinct removed" "set removed = set ids \<inter> members_of cid w"
    using cparts.collect_del[OF start, of ids] by blast
  from a cparts.collect_del_card[OF start a(1)] show ?thesis unfolding removeExistedParticipants_def by blast
qed

text \<open>The owner after a removal: the first participant left takes over when the owner of a group or channel went.\<close>

definition owner_after :: "conversation \<Rightarrow> oid list \<Rightarrow> oid \<Rightarrow> oid option" where
  "owner_after c removed first = (if c_owner_id c \<in> set removed \<and> c_type c \<noteq> Private then Some first else None)"

definition set_owner :: "conversation \<Rightarrow> oid option \<Rightarrow> conversation list \<Rightarrow> conversation list" where
  "set_owner c u cs = (case u of None \<Rightarrow> cs | Some o' \<Rightarrow> at_conv (c_id c) (\<lambda>d. d\<lparr>c_owner_id := o'\<rparr>) cs)"

lemma set_owner_ids [simp]: "map c_id (set_owner c u cs) = map c_id cs"
  by (simp add: set_owner_def split: option.split)

lemma set_owner_counters:
  "conv_ok (w\<lparr>conversations := cs\<rparr>) \<Longrightarrow> conv_ok (w\<lparr>conversations := set_owner c u cs\<rparr>)"
proof -
  have "c_id ` set (set_owner c u cs) = c_id ` set cs" by (metis set_map set_owner_ids)
  moreover have "\<forall>d \<in> set cs. counter_ok w d \<Longrightarrow> \<forall>d \<in> set (set_owner c u cs). counter_ok w d"
    by (auto simp: counter_ok_def set_owner_def at_conv_def split: option.splits)
  moreover have "counter_ok (w\<lparr>conversations := x\<rparr>) = counter_ok w" for x by (simp add: counter_ok_def fun_eq_iff)
  ultimately show "conv_ok (w\<lparr>conversations := cs\<rparr>) \<Longrightarrow> conv_ok (w\<lparr>conversations := set_owner c u cs\<rparr>)"
    by (simp add: conv_ok_def)
qed

lemma set_count_owner: "set_count c n (set_owner c u cs) = set_owner c u (set_count c n cs)"
  by (auto simp: set_count_def set_owner_def at_conv_def split: option.splits)

text \<open>The counter of a channel that keeps members is their number after the removal.\<close>

lemma count_after_removal:
  assumes "conv_ok w" "c \<in> set (conversations w)" "c_type c = Channel" "members_of (c_id c) w \<noteq> {}" "finite (members_of (c_id c) w)"
    "n + length removed = card (members_of (c_id c) w)"
  shows "(case c_subscribers_count c of None \<Rightarrow> JsNaN | Some k \<Rightarrow> js_plus k (- int (length removed))) = JsInt (int n)"
proof -
  from conv_okD(4)[OF assms(1,2)] assms(3) have "orZero (c_subscribers_count c) = JsInt (int (card (members_of (c_id c) w)))"
    by (simp add: counter_ok_def)
  moreover have "card (members_of (c_id c) w) \<noteq> 0" using assms(4,5) by simp
  ultimately show ?thesis using assms(6) by (auto simp: orZero_def split: option.splits)
qed

lemma findFirst_member:
  assumes "mongo_ok E"
  shows "(findFirstConversationParticipant E w cid None = None \<and> members_of cid w = {}) \<or>
    (\<exists>p. findFirstConversationParticipant E w cid None = Some p \<and> cp_user_id p \<in> members_of cid w)"
proof -
  let ?P = "\<lambda>p. cp_conversation_id p = cid"
  have "findFirstConversationParticipant E w cid None = List.find ?P (participants w)"
    using assms by (simp add: findFirstConversationParticipant_def)
  then show ?thesis
    using find_None_set[of ?P "participants w"] find_Some_iff_set[of ?P "participants w"]
    by (cases "List.find ?P (participants w)") (auto simp: members_of_def)
qed

text \<open>
  What \<open>removeParticipants\<close> does: with nobody left it deletes the conversation, otherwise it hands
  the conversation of a removed owner over and writes the counter of a channel.
\<close>

lemma removeParticipants_spec:
  assumes "mongo_ok E" "conv_ok w" "c \<in> set (conversations w)"
  shows "\<exists>removed ps first.
      let M = members_of (c_id c) w - set ids;
          w1 = w\<lparr>participants := ps\<rparr>;
          u = owner_after c removed first
      in rows_frame E (c_id c) w w1 \<and> members_of (c_id c) w1 = M
       \<and> distinct removed \<and> set removed = set ids \<inter> members_of (c_id c) w
       \<and> (M = {} \<longrightarrow> removeParticipants E c ids w =
            (Inr (\<lparr>rr_removedIds = removed, rr_newOwnerId = None, rr_isEmptyAndDeleted = True\<rparr>, c),
             w1\<lparr>conversations := filter (\<lambda>d. c_id d \<noteq> c_id c) (conversations w)\<rparr>))
       \<and> (M \<noteq> {} \<longrightarrow> first \<in> M \<and> removeParticipants E c ids w =
            (Inr (\<lparr>rr_removedIds = removed, rr_newOwnerId = u, rr_isEmptyAndDeleted = False\<rparr>, counted c (card M)),
             w1\<lparr>conversations := set_count c (card M) (set_owner c u (conversations w))\<rparr>))"
proof -
  obtain removed w1 where a: "removeExistedParticipants E (c_id c) ids w = (Inr removed, w1)"
    "rows_frame E (c_id c) w w1" "members_of (c_id c) w1 = members_of (c_id c) w - set ids"
    "distinct removed" "set removed = set ids \<inter> members_of (c_id c) w"
    "card (members_of (c_id c) w1) + length removed = card (members_of (c_id c) w)"
    using removeExisted_spec[OF assms(1) conv_okD(2)[OF assms(2)]] by blast
  let ?M = "members_of (c_id c) w - set ids"
  note cs = rows_frame_conversations[OF a(2)]
  have w1: "w1 = w\<lparr>participants := participants w1\<rparr>" using a(2) by (simp add: rows_frame_def)
  have ids: "distinct (map c_id (conversations w))" using conv_okD(1)[OF assms(2)] .
  note first = findFirst_member[OF assms(1), of w1 "c_id c"]
  show ?thesis
  proof (cases "?M = {}")
    case True
    then have "findFirstConversationParticipant E w1 (c_id c) None = None" using first a(3) by auto
    then have "removeParticipants E c ids w =
        (Inr (\<lparr>rr_removedIds = removed, rr_newOwnerId = None, rr_isEmptyAndDeleted = True\<rparr>, c),
         w1\<lparr>conversations := filter (\<lambda>d. c_id d \<noteq> c_id c) (conversations w)\<rparr>)"
      using assms(1) cs ids by (simp add: removeParticipants_def andThen_run(1)[of "removeExistedParticipants E (c_id c) ids", OF a(1)] remove_first_unique)
    then show ?thesis using True a w1 unfolding Let_def by metis
  next
    case False
    then obtain p where p: "findFirstConversationParticipant E w1 (c_id c) None = Some p" "cp_user_id p \<in> ?M" using first a(3) by auto
    let ?u = "owner_after c removed (cp_user_id p)"
    have wr: "updateOwner E (c_id c) o' w1 = w1\<lparr>conversations := at_conv (c_id c) (\<lambda>d. d\<lparr>c_owner_id := o'\<rparr>) (conversations w)\<rparr>"
      "updateSubscribersCount E (c_id c) n (w1\<lparr>conversations := set_owner c x (conversations w)\<rparr>) =
        w1\<lparr>conversations := at_conv (c_id c) (\<lambda>d. d\<lparr>c_subscribers_count := Some n\<rparr>) (set_owner c x (conversations w))\<rparr>" for o' n x
      using conversation_writes[OF assms(1), of w1] conversation_writes[OF assms(1), of "w1\<lparr>conversations := set_owner c x (conversations w)\<rparr>"]
        cs ids by simp_all
    let ?own = "case ?u of None \<Rightarrow> ret () | Some o' \<Rightarrow> modify (updateOwner E (c_id c) o')"
    have own: "?own w1 =
        (Inr (), w1\<lparr>conversations := set_owner c ?u (conversations w)\<rparr>)"
      using wr(1) rows_frame_self[OF a(2)] by (cases ?u) (simp_all add: set_owner_def)
    have cnt: "(case c_subscribers_count c of None \<Rightarrow> JsNaN | Some n \<Rightarrow> js_plus n (- int (length removed))) = JsInt (int (card ?M))"
      if "c_type c = Channel"
      by (rule count_after_removal[OF assms(2,3) that]) (use False a(3,6) in auto)
    have "removeParticipants E c ids w =
        (Inr (\<lparr>rr_removedIds = removed, rr_newOwnerId = ?u, rr_isEmptyAndDeleted = False\<rparr>, counted c (card ?M)),
         w1\<lparr>conversations := set_count c (card ?M) (set_owner c ?u (conversations w))\<rparr>)"
      using p(1) cnt wr(2)
      by (simp add: removeParticipants_def andThen_run(1)[of "removeExistedParticipants E (c_id c) ids", OF a(1)] owner_after_def[symmetric] Let_def
          andThen_run(1)[of ?own, OF own] counted_def set_count_def)
    then show ?thesis using False a w1 p(2) unfolding Let_def by metis
  qed
qed


lemma conv_ok_deleted:
  assumes "conv_ok w" "rows_frame E (c_id c) w w1" "members_of (c_id c) w1 = {}" "c \<in> set (conversations w)"
  shows "conv_ok (w1\<lparr>conversations := filter (\<lambda>d. c_id d \<noteq> c_id c) (conversations w)\<rparr>)"
proof -
  let ?cs = "filter (\<lambda>d. c_id d \<noteq> c_id c) (conversations w)"
  have "counter_ok w1 d" if "d \<in> set ?cs" for d
    using that conv_okD(4)[OF assms(1)] rows_frame_others[OF assms(2)] counter_ok_cong[of d w1 w] by simp
  moreover have "cp_conversation_id ` set (participants w1) \<subseteq> c_id ` set ?cs"
  proof -
    have "cp_conversation_id p \<in> c_id ` set ?cs" if "p \<in> set (participants w1)" for p
    proof -
      have "cp_conversation_id p \<noteq> c_id c" using that assms(3) members_of_iff[of "cp_user_id p" "c_id c" w1] by auto
      moreover have "cp_conversation_id p \<in> c_id ` set (conversations w)"
        using rows_frame_refs[OF assms(2) conv_okD(3)[OF assms(1)]] assms(4) that by blast
      ultimately show ?thesis by auto
    qed
    then show ?thesis by blast
  qed
  ultimately show ?thesis
    using conv_okD(1)[OF assms(1)] assms(2)
    by (simp add: conv_ok_def rows_frame_def counter_ok_def distinct_map_filter)
qed

lemma removeParticipants_cases:
  assumes "mongo_ok E" "conv_ok w" "c \<in> set (conversations w)" "removeParticipants E c ids w = (r, w')"
  shows "\<exists>removed ps first. rows_frame E (c_id c) w (w\<lparr>participants := ps\<rparr>)
    \<and> members_of (c_id c) (w\<lparr>participants := ps\<rparr>) = members_of (c_id c) w - set ids
    \<and> distinct removed \<and> set removed = set ids \<inter> members_of (c_id c) w
    \<and> (members_of (c_id c) w - set ids = {} \<longrightarrow>
       r = Inr (\<lparr>rr_removedIds = removed, rr_newOwnerId = None, rr_isEmptyAndDeleted = True\<rparr>, c) \<and>
       w' = w\<lparr>participants := ps, conversations := filter (\<lambda>d. c_id d \<noteq> c_id c) (conversations w)\<rparr>)
    \<and> (members_of (c_id c) w - set ids \<noteq> {} \<longrightarrow> first \<in> members_of (c_id c) w - set ids \<and>
       r = Inr (\<lparr>rr_removedIds = removed, rr_newOwnerId = owner_after c removed first,
           rr_isEmptyAndDeleted = False\<rparr>, counted c (card (members_of (c_id c) w - set ids))) \<and>
       w' = w\<lparr>participants := ps, conversations := set_count c (card (members_of (c_id c) w - set ids))
           (set_owner c (owner_after c removed first) (conversations w))\<rparr>)"
  using removeParticipants_spec[OF assms(1-3), of ids] unfolding Let_def assms(4) prod.inject by assumption

lemma removeParticipants_conv_ok:
  assumes "mongo_ok E" "conv_ok w" "c \<in> set (conversations w)" "removeParticipants E c ids w = (r, w')"
  shows "conv_ok w'"
proof -
  let ?M = "members_of (c_id c) w - set ids"
  obtain removed ps first where a: "rows_frame E (c_id c) w (w\<lparr>participants := ps\<rparr>)"
    "members_of (c_id c) (w\<lparr>participants := ps\<rparr>) = ?M" "distinct removed" "set removed = set ids \<inter> members_of (c_id c) w"
    "?M = {} \<longrightarrow> r = Inr (\<lparr>rr_removedIds = removed, rr_newOwnerId = None, rr_isEmptyAndDeleted = True\<rparr>, c) \<and>
       w' = w\<lparr>participants := ps, conversations := filter (\<lambda>d. c_id d \<noteq> c_id c) (conversations w)\<rparr>"
    "?M \<noteq> {} \<longrightarrow> first \<in> ?M \<and> r = Inr (\<lparr>rr_removedIds = removed, rr_newOwnerId = owner_after c removed first,
         rr_isEmptyAndDeleted = False\<rparr>, counted c (card ?M)) \<and>
       w' = w\<lparr>participants := ps, conversations := set_count c (card ?M) (set_owner c (owner_after c removed first) (conversations w))\<rparr>"
    using removeParticipants_cases[OF assms] by (elim exE conjE) (rule that)
  show ?thesis
  proof (cases "members_of (c_id c) w - set ids = {}")
    case True
    with conv_ok_deleted[OF assms(2) a(1) _ assms(3)] a(2,5) show ?thesis by simp
  next
    case False
    from conv_ok_counted[OF assms(2,3) a(1) refl] a(2)
    have "conv_ok (w\<lparr>participants := ps, conversations := set_count c (card (members_of (c_id c) w - set ids)) (conversations w)\<rparr>)"
      by simp
    from set_owner_counters[OF this, of c "owner_after c removed first"] a(6) False
    show ?thesis by (simp add: set_count_owner)
  qed
qed

section \<open>Properties\<close>

text \<open>C17: Adding participants to a conversation either refuses with \<open>PARTICIPANTS_LIMIT\<close>, changing nothing,
  exactly when the present and the given users together exceed the configured maximum, or
  makes the members the union of both, reports exactly the users who were not members before
  (each once), leaves every other conversation's members alone, and keeps the
  conversation's members within the maximum and all counters of channels exact.\<close>

theorem addParticipants_adds:
  assumes "mongo_ok E" "conv_ok w" "c \<in> set (conversations w)" "isEmpty \<longrightarrow> members_of (c_id c) w = {}"
    "addParticipants E c ids isEmpty w = (r, w')"
  shows "conv_ok w' \<and> (case r of
      Inl e \<Rightarrow> e = Status PARTICIPANTS_LIMIT \<and> w' = w \<and> card (members_of (c_id c) w) + length ids > cfg_maxParticipants E
    | Inr (added, c') \<Rightarrow> members_of (c_id c) w' = members_of (c_id c) w \<union> set ids
        \<and> distinct added \<and> set added = set ids - members_of (c_id c) w
        \<and> card (members_of (c_id c) w') \<le> cfg_maxParticipants E
        \<and> (\<forall>k. k \<noteq> c_id c \<longrightarrow> members_of k w' = members_of k w)
        \<and> c' \<in> set (conversations w') \<and> c_id c' = c_id c)"
proof (cases "card (members_of (c_id c) w) + length ids > cfg_maxParticipants E")
  case True
  with addParticipants_spec(1)[OF assms(1-4) True] assms(2,5) show ?thesis by simp
next
  case False
  let ?n = "card (members_of (c_id c) w \<union> set ids)"
  from False obtain added ps where a: "r = Inr (added, counted c ?n)"
    "w' = w\<lparr>participants := ps, conversations := set_count c ?n (conversations w)\<rparr>" "conv_ok w'"
    "rows_frame E (c_id c) w (w\<lparr>participants := ps\<rparr>)"
    "members_of (c_id c) w' = members_of (c_id c) w \<union> set ids" "distinct added" "set added = set ids - members_of (c_id c) w"
    using addParticipants_spec(2)[OF assms(1-4), of ids] assms(5) unfolding Let_def by fastforce
  have "?n \<le> card (members_of (c_id c) w) + length ids"
    by (meson add_left_mono card_Un_le card_length le_trans)
  moreover have "members_of k w' = members_of k w" if "k \<noteq> c_id c" for k
    using rows_frame_others[OF a(4) that] a(2) by (simp add: members_of_def)
  moreover have "counted c ?n \<in> set (conversations w')" using counted_in[OF assms(3)] a(2) by simp
  ultimately show ?thesis using a False by simp
qed

definition channel_example :: conversation where
  "channel_example = \<lparr>c_id = ''c1'', c_organization_id = ''o'', c_type = Channel, c_name = Some ''news'',
     c_description = None, c_owner_id = ''u1'', c_opponent_id = None, c_is_encrypted = None, c_image_object = None, c_image_url = None,
         c_last_message = None, c_unread_messages_count = None, c_participants = None,
     c_subscribers_count = Some (JsInt 2), c_created_at = 0, c_updated_at = 0\<rparr>"

definition part_example :: "oid \<Rightarrow> oid \<Rightarrow> participant" where
  "part_example i u = \<lparr>cp_id = i, cp_organization_id = ''o'', cp_conversation_id = ''c1'', cp_user_id = u,
     cp_role = None, cp_created_at = 0, cp_updated_at = 0\<rparr>"

definition channel_world :: world where
  "channel_world = empty_world\<lparr>conversations := [channel_example],
     participants := [part_example ''p1'' ''u1'', part_example ''p2'' ''u2'']\<rparr>"

lemma channel_world_members [simp]: "members_of ''c1'' channel_world = {''u1'', ''u2''}"
  by (rule set_eqI) (auto simp: members_of_iff channel_world_def part_example_def)

lemma channel_world_ok: "conv_ok channel_world" "channel_example \<in> set (conversations channel_world)"
proof -
  have "counter_ok channel_world channel_example"
    by (simp add: counter_ok_def orZero_def channel_example_def)
  then show "conv_ok channel_world"
    by (simp add: conv_ok_def channel_world_def parts_ok_def part_key_def part_example_def channel_example_def)
  show "channel_example \<in> set (conversations channel_world)" by (simp add: channel_world_def)
qed

lemma channel_id [simp]: "c_id channel_example = ''c1''" "c_owner_id channel_example = ''u1''"
  by (simp_all add: channel_example_def)

theorem addParticipants_adds_witness:
  "let w' = snd (addParticipants mem_env channel_example [''u2'', ''u3''] False channel_world)
   in conv_ok w' \<and> members_of ''c1'' w' = {''u1'', ''u2'', ''u3''}"
proof -
  obtain r w' where r: "addParticipants mem_env channel_example [''u2'', ''u3''] False channel_world = (r, w')" by fastforce
  have "card {''u1'', ''u2''} + length [''u2'', ''u3''] \<le> cfg_maxParticipants mem_env" by (simp add: mem_env_def)
  with addParticipants_adds[OF mem_env_ok(1) channel_world_ok _ r] r show ?thesis
    by (cases r) (auto simp: Let_def)
qed

text \<open>C18: Removing participants takes exactly the given users out and reports those who were members.
  When nobody is left the conversation is deleted with them; otherwise a group or
  channel whose owner was a member still has a member as its owner, and the counters of
  all channels stay exact.\<close>

theorem removeParticipants_hands_over:
  assumes "mongo_ok E" "conv_ok w" "c \<in> set (conversations w)" "removeParticipants E c ids w = (r, w')"
  shows "conv_ok w' \<and> members_of (c_id c) w' = members_of (c_id c) w - set ids
    \<and> (\<exists>res c'. r = Inr (res, c') \<and> distinct (rr_removedIds res)
        \<and> set (rr_removedIds res) = set ids \<inter> members_of (c_id c) w
        \<and> rr_isEmptyAndDeleted res = (members_of (c_id c) w \<subseteq> set ids))
    \<and> (members_of (c_id c) w \<subseteq> set ids \<longrightarrow> c_id c \<notin> c_id ` set (conversations w'))
    \<and> (\<not> members_of (c_id c) w \<subseteq> set ids \<longrightarrow> c_type c \<noteq> Private \<longrightarrow> c_owner_id c \<in> members_of (c_id c) w \<longrightarrow>
        (\<exists>d \<in> set (conversations w'). c_id d = c_id c \<and> c_owner_id d \<in> members_of (c_id c) w'))"
proof -
  let ?M = "members_of (c_id c) w - set ids"
  obtain removed ps first where a: "rows_frame E (c_id c) w (w\<lparr>participants := ps\<rparr>)"
    "members_of (c_id c) (w\<lparr>participants := ps\<rparr>) = ?M" "distinct removed" "set removed = set ids \<inter> members_of (c_id c) w"
    "?M = {} \<longrightarrow> r = Inr (\<lparr>rr_removedIds = removed, rr_newOwnerId = None, rr_isEmptyAndDeleted = True\<rparr>, c) \<and>
       w' = w\<lparr>participants := ps, conversations := filter (\<lambda>d. c_id d \<noteq> c_id c) (conversations w)\<rparr>"
    "?M \<noteq> {} \<longrightarrow> first \<in> ?M \<and> r = Inr (\<lparr>rr_removedIds = removed, rr_newOwnerId = owner_after c removed first,
         rr_isEmptyAndDeleted = False\<rparr>, counted c (card ?M)) \<and>
       w' = w\<lparr>participants := ps, conversations := set_count c (card ?M) (set_owner c (owner_after c removed first) (conversations w))\<rparr>"
    using removeParticipants_cases[OF assms] by (elim exE conjE) (rule that)
  have m: "members_of (c_id c) w' = ?M"
    using a(2,5,6) by (cases "?M = {}") (simp_all add: members_of_def)
  have own: "\<exists>d \<in> set (conversations w'). c_id d = c_id c \<and> c_owner_id d \<in> ?M"
    if "?M \<noteq> {}" "c_type c \<noteq> Private" "c_owner_id c \<in> members_of (c_id c) w"
  proof -
    let ?u = "owner_after c removed first"
    let ?d = "c\<lparr>c_owner_id := (case ?u of None \<Rightarrow> c_owner_id c | Some u \<Rightarrow> u)\<rparr>"
    have "?d \<in> set (set_owner c ?u (conversations w))"
      using assms(3) by (auto simp: set_owner_def at_conv_def split: option.split)
    then have "counted ?d (card ?M) \<in> set (conversations w')"
      using a(6) that(1) by (auto simp: set_count_def counted_def at_conv_def)
    moreover have "c_owner_id (counted ?d (card ?M)) \<in> ?M"
      using a(4,6) that by (auto simp: owner_after_def)
    moreover have "c_id (counted ?d (card ?M)) = c_id c" by simp
    ultimately show ?thesis by blast
  qed
  have "c_id c \<notin> c_id ` set (conversations w')" if "?M = {}" using a(5) that by auto
  moreover have "\<exists>res c'. r = Inr (res, c') \<and> distinct (rr_removedIds res)
      \<and> set (rr_removedIds res) = set ids \<inter> members_of (c_id c) w \<and> rr_isEmptyAndDeleted res = (?M = {})"
    using a(3-6) by (cases "?M = {}") auto
  ultimately show ?thesis
    using removeParticipants_conv_ok[OF assms] m own by (simp add: Diff_eq_empty_iff)
qed


theorem removeParticipants_hands_over_witness:
  "let w' = snd (removeParticipants mem_env channel_example [''u1''] channel_world)
   in members_of ''c1'' w' = {''u2''} \<and> (\<exists>d \<in> set (conversations w'). c_id d = ''c1'' \<and> c_owner_id d \<in> members_of ''c1'' w')"
proof -
  obtain r w' where r: "removeParticipants mem_env channel_example [''u1''] channel_world = (r, w')" by fastforce
  have "c_type channel_example \<noteq> Private" by (simp add: channel_example_def)
  with removeParticipants_hands_over[OF mem_env_ok(1) channel_world_ok r] r show ?thesis by (auto simp: Let_def)
qed

section \<open>The batches of participants\<close>

text \<open>The participants of a conversation in the order of the query, and the list cut into chunks.\<close>

definition in_order :: "world \<Rightarrow> oid \<Rightarrow> oid list \<Rightarrow> participant list" where
  "in_order w cid exc = rev (sort_key cp_id (filter (participantQuery cid exc) (participants w)))"

primrec chunks :: "nat \<Rightarrow> nat \<Rightarrow> 'a list \<Rightarrow> 'a list list" where
  "chunks n 0 xs = []"
| "chunks n (Suc m) xs = take n xs # chunks n m (drop n xs)"

lemma concat_chunks: "length xs \<le> m * n \<Longrightarrow> concat (chunks n m xs) = xs"
proof (induction m arbitrary: xs)
  case (Suc m)
  then have "concat (chunks n m (drop n xs)) = drop n xs" by simp
  then show ?case by simp
qed simp

lemma chunks_length: "ys \<in> set (chunks n m xs) \<Longrightarrow> length ys \<le> n"
  by (induction m arbitrary: xs) auto

lemma descending_unique:
  fixes key :: "'a \<Rightarrow> 'b :: linorder"
  assumes "mset xs = mset ys" "sorted_wrt (\<lambda>a b. key b \<le> key a) xs" "sorted_wrt (\<lambda>a b. key b \<le> key a) ys"
    "distinct (map key xs)"
  shows "xs = ys"
proof -
  have "sorted (rev (map key zs))" if "sorted_wrt (\<lambda>a b. key b \<le> key a) zs" for zs
    using that by (simp add: sorted_wrt_rev sorted_wrt_map flip: rev_map)
  with assms(2,3) have "rev (map key xs) = rev (map key ys)"
    using assms(1) by (metis mset_map mset_rev properties_for_sort)
  then have "map key xs = map key ys" by simp
  moreover have "inj_on key (set xs \<union> set ys)"
    using assms(1,4) mset_set_eq[OF assms(1)] by (simp add: distinct_map)
  ultimately show ?thesis by (rule map_inj_on)
qed

lemma in_order_sorted: "sorted_wrt (\<lambda>a b. cp_id b \<le> cp_id a) (in_order w cid exc)"
  unfolding in_order_def sorted_wrt_rev using sorted_sort_key[of cp_id] by (simp add: sorted_wrt_map)

lemma in_order_mset: "mset (in_order w cid exc) = mset (filter (participantQuery cid exc) (participants w))"
  by (simp add: in_order_def)

lemma findConversationParticipants_eq:
  assumes "mongo_ok E" "distinct (map cp_id (participants w))" "0 < n"
  shows "findConversationParticipants E w cid exc l (Some n) =
    take n (filter (\<lambda>p. case l of None \<Rightarrow> True | Some i \<Rightarrow> cp_id p < i) (in_order w cid exc))"
proof -
  let ?Q = "\<lambda>p. participantQuery cid exc p \<and> (case l of None \<Rightarrow> True | Some i \<Rightarrow> cp_id p < i)"
  let ?r = "\<lambda>a b. cp_id b \<le> cp_id a"
  let ?zs = "filter (\<lambda>p. case l of None \<Rightarrow> True | Some i \<Rightarrow> cp_id p < i) (in_order w cid exc)"
  obtain ys where ys: "sorts_by (Some ?r) ?Q (participants w) ys"
    "coll_find (mg_participants E) ?Q (Some ?r) n (participants w) = limit n ys"
    using coll_ok_find[OF mongo_okD(4)[OF assms(1)]] by blast
  have "sorted_wrt ?r ys" using ys(1) by (auto simp: sorts_by_def transp_def)
  moreover have "sorted_wrt ?r ?zs" using in_order_sorted sorted_wrt_filter by blast
  moreover have m: "mset ys = mset ?zs"
    using ys(1) by (simp add: sorts_by_def in_order_mset filter_filter_mset)
  moreover have "distinct (map cp_id ys)"
  proof -
    have "mset ys = mset (filter ?Q (participants w))" using ys(1) by (simp add: sorts_by_def)
    from mset_distinct_map[OF this, of cp_id] assms(2) show ?thesis by (simp add: distinct_map_filter)
  qed
  ultimately have "ys = ?zs" by (intro descending_unique) auto
  with ys(2) assms(3) show ?thesis by (simp add: findConversationParticipants_def findAll_def limit_def)
qed

lemma below_last:
  assumes "sorted_wrt (\<lambda>a b. cp_id b \<le> cp_id a) (as @ bs)" "distinct (map cp_id (as @ bs))" "as \<noteq> []"
  shows "filter (\<lambda>p. cp_id p < cp_id (last as)) (as @ bs) = bs"
proof -
  have "cp_id (last as) \<le> cp_id p" if "p \<in> set as" for p
    using that assms(1,3) by (induction as) (auto simp: sorted_wrt_append split: if_splits)
  moreover have "cp_id p < cp_id (last as)" if "p \<in> set bs" for p
    using that assms last_in_set[OF assms(3)] by (fastforce simp: sorted_wrt_append order_less_le)
  ultimately show ?thesis by (fastforce simp: filter_empty_conv filter_id_conv not_less)
qed

lemma batches_left:
  assumes "Suc m = (length bs + n - 1) div n" "0 < n" "bs \<noteq> []"
  shows "m = (length (drop n bs) + n - 1) div n"
proof (cases "length bs \<le> n")
  case True
  then have "length bs - 1 < n" using assms(2) by linarith
  then have "(length bs - 1 + n) div n = 1" using assms(2) by (subst div_add_self2) simp_all
  moreover have "length bs + n - 1 = length bs - 1 + n" using assms(3) by (cases bs) simp_all
  ultimately have "m = 0" using assms(1) by (metis One_nat_def nat.inject)
  moreover have "(length (drop n bs) + n - 1) div n = 0" using True assms(2) by simp
  ultimately show ?thesis by simp
next
  case False
  then have "length bs + n - 1 = (length (drop n bs) + n - 1) + n" using assms(2) by simp
  then have "Suc m = Suc ((length (drop n bs) + n - 1) div n)"
    using assms(1,2) by (metis Suc_eq_plus1 div_add_self2 neq0_conv)
  then show ?thesis by (rule Suc_inject)
qed

lemma batches_chunks:
  assumes "mongo_ok E" "distinct (map cp_id (participants w))" "0 < n" "in_order w cid exc = as @ bs"
    "l = (if as = [] then None else Some (cp_id (last as)))" "m = (length bs + n - 1) div n"
  shows "participantBatches E w cid exc n m l = map (map cp_user_id) (chunks n m bs)"
  using assms(4-6)
proof (induction m arbitrary: as bs l)
  case (Suc m)
  have dist: "distinct (map cp_id (as @ bs))"
    using assms(2) mset_distinct_map[OF in_order_mset, of cp_id w cid exc] Suc.prems(1) by (simp add: distinct_map_filter)
  have "filter (\<lambda>p. case l of None \<Rightarrow> True | Some i \<Rightarrow> cp_id p < i) (as @ bs) = bs"
    using below_last[OF _ dist] in_order_sorted[of w cid exc] Suc.prems(1,2) by (cases "as = []") auto
  with findConversationParticipants_eq[OF assms(1-3), of cid exc l] Suc.prems(1)
  have f: "findConversationParticipants E w cid exc l (Some n) = take n bs" by (simp del: filter_append)
  have "bs \<noteq> []" using Suc.prems(3) assms(3) by auto
  then have ne: "take n bs \<noteq> []" using assms(3) by simp
  have "m = (length (drop n bs) + n - 1) div n"
    using batches_left[OF Suc.prems(3) assms(3) \<open>bs \<noteq> []\<close>] .
  from Suc.IH[of "as @ take n bs" "drop n bs", OF _ refl this] Suc.prems(1) ne f show ?case by (simp add: Let_def)
qed simp


lemma iterator_chunks:
  fixes cid :: oid and exc :: "oid list"
  assumes "mongo_ok E" "distinct (map cp_id (participants w))" "0 < n"
  defines "L \<equiv> in_order w cid exc"
  shows "conversationParticipantIdsIterator E w cid exc n = map (map cp_user_id) (chunks n ((length L + n - 1) div n) L)"
    "concat (conversationParticipantIdsIterator E w cid exc n) = map cp_user_id L"
proof -
  let ?m = "(length L + n - 1) div n"
  have len: "countConversationParticipants E w cid exc = length L"
    using assms(1) by (simp add: countConversationParticipants_def in_order_def L_def)
  show it: "conversationParticipantIdsIterator E w cid exc n = map (map cp_user_id) (chunks n ?m L)"
    using batches_chunks[OF assms(1-3), of cid exc "[]" L None ?m]
    by (simp add: conversationParticipantIdsIterator_def len Let_def L_def)
  have "length L + n - 1 = ?m * n + (length L + n - 1) mod n" by (metis div_mult_mod_eq)
  moreover have "(length L + n - 1) mod n < n" using assms(3) by simp
  ultimately have "length L \<le> ?m * n" using assms(3) by linarith
  then show "concat (conversationParticipantIdsIterator E w cid exc n) = map cp_user_id L"
    by (simp add: it concat_chunks flip: map_concat)
qed

text \<open>C26: Iterating over the participants of a conversation in batches visits every participant who is
  not excepted exactly once, newest first, in batches of at most the given size. The query
  for a batch continues below the identifier that ended the batch before.\<close>

theorem iterator_visits_all:
  assumes "mongo_ok E" "distinct (map cp_id (participants w))" "0 < n"
  shows "concat (conversationParticipantIdsIterator E w cid exc n) = map cp_user_id (in_order w cid exc)
    \<and> mset (in_order w cid exc) = mset (filter (\<lambda>p. cp_conversation_id p = cid \<and> cp_user_id p \<notin> set exc) (participants w))
    \<and> (\<forall>batch \<in> set (conversationParticipantIdsIterator E w cid exc n). length batch \<le> n)"
proof -
  have "participantQuery cid exc = (\<lambda>p. cp_conversation_id p = cid \<and> cp_user_id p \<notin> set exc)"
    by (simp add: participantQuery_def fun_eq_iff)
  then show ?thesis using iterator_chunks[OF assms, of cid exc] in_order_mset[of w cid exc]
      chunks_length[of _ n "(length (in_order w cid exc) + n - 1) div n" "in_order w cid exc"] by auto
qed

theorem iterator_visits_all_witness:
  "concat (conversationParticipantIdsIterator mem_env channel_world ''c1'' [''u9''] 1) = [''u2'', ''u1'']"
proof -
  have "distinct (map cp_id (participants channel_world))" by (simp add: channel_world_def part_example_def)
  moreover have "map cp_user_id (in_order channel_world ''c1'' [''u9'']) = [''u2'', ''u1'']"
    by (simp add: in_order_def channel_world_def participantQuery_def part_example_def)
  ultimately show ?thesis using iterator_visits_all[OF mem_env_ok(1), of channel_world 1 "''c1''" "[''u9'']"] by simp
qed

end
