(* ===== verification/Message_Access.thy ===== *)
theory Message_Access
  imports Message_Ops Conversation_Props
begin

text \<open>
  Who may do what in a conversation. Every operation on messages opens with a guard of its own
  that reads the state, and answers with the conversation or an error. The locale
  states what a guard promises relative to the policy it stands for (which members are
  allowed); the consequences for an operation behind the guard are proved once. The four guards of the
  code are its interpretations.
\<close>

section \<open>The facts a guard consults\<close>

definition conversationAt :: "world \<Rightarrow> oid \<Rightarrow> oid \<Rightarrow> conversation option" where
  "conversationAt w org cid = List.find (\<lambda>c. c_organization_id c = org \<and> c_id c = cid) (conversations w)"

text \<open>Two users block one another when an enabled block in either direction exists.\<close>

definition blocking :: "world \<Rightarrow> oid \<Rightarrow> oid \<Rightarrow> bool" where
  "blocking w a b \<longleftrightarrow> (\<exists>r \<in> set (blocked_users w). bu_enabled r \<and>
     (bu_user_id r = a \<and> bu_blocked_user_id r = b \<or> bu_user_id r = b \<and> bu_blocked_user_id r = a))"

definition adminOf :: "world \<Rightarrow> oid \<Rightarrow> oid \<Rightarrow> bool" where
  "adminOf w cid u = (case List.find (\<lambda>p. cp_conversation_id p = cid \<and> cp_user_id p = u) (participants w) of
     None \<Rightarrow> False | Some p \<Rightarrow> cp_role p = Some AdminRole)"

definition noBlock :: "world \<Rightarrow> conversation \<Rightarrow> oid \<Rightarrow> bool" where
  "noBlock w c u \<longleftrightarrow> (c_type c = Private \<longrightarrow> (\<forall>v \<in> set (privateParticipants c). \<not> blocking w u v))"

definition mayView :: "env \<Rightarrow> world \<Rightarrow> conversation \<Rightarrow> oid \<Rightarrow> bool" where
  "mayView E w c u = True"

definition mayRead :: "env \<Rightarrow> world \<Rightarrow> conversation \<Rightarrow> oid \<Rightarrow> bool" where
  "mayRead E w c u \<longleftrightarrow> cfg_disableChannelsLogic E \<or> c_type c \<noteq> Channel"

definition mayType :: "env \<Rightarrow> world \<Rightarrow> conversation \<Rightarrow> oid \<Rightarrow> bool" where
  "mayType E w c u \<longleftrightarrow> mayRead E w c u \<and> noBlock w c u"

definition mayPost :: "env \<Rightarrow> world \<Rightarrow> conversation \<Rightarrow> oid \<Rightarrow> bool" where
  "mayPost E w c u \<longleftrightarrow> (cfg_disableChannelsLogic E \<or> c_type c \<noteq> Channel \<or> c_owner_id c = u \<or> adminOf w (c_id c) u)
     \<and> noBlock w c u"

lemma blocking_sym: "blocking w a b \<longleftrightarrow> blocking w b a"
  by (auto simp: blocking_def)

lemma conversationAt_Some:
  "conversationAt w org cid = Some c \<Longrightarrow> c \<in> set (conversations w) \<and> c_id c = cid \<and> c_organization_id c = org"
  unfolding conversationAt_def by (drule find_Some_iff_set) simp

lemma member_find:
  "u \<in> members_of cid w \<longleftrightarrow> (\<exists>p. List.find (\<lambda>p. cp_conversation_id p = cid \<and> cp_user_id p = u) (participants w) = Some p)"
  by (cases "List.find (\<lambda>p. cp_conversation_id p = cid \<and> cp_user_id p = u) (participants w)")
    (auto simp: find_None_set members_of_iff dest!: find_Some_iff_set)

lemma listMutualBlockedIds_Nil:
  assumes "mongo_ok E"
  shows "listMutualBlockedIds E w u vs = [] \<longleftrightarrow> (\<forall>v \<in> set vs. \<not> blocking w u v)"
proof -
  have "findAll (mg_blocked_users E) P None None bs = [] \<longleftrightarrow> (\<forall>b \<in> set bs. \<not> P b)" for P bs
    by (rule findAll_Nil[OF mongo_okD(8)[OF assms]])
  then show ?thesis
    by (auto simp: listMutualBlockedIds_def BlockRepo_list_def blockers_def blockedBy_def blocking_def)
qed

lemma checkBlocked_eq:
  assumes "mongo_ok E"
  shows "checkBlocked E u vs w = (if \<forall>v \<in> set vs. \<not> blocking w u v then (Inr (), w) else (Inl (Status USER_BLOCKED), w))"
  using listMutualBlockedIds_Nil[OF assms] by (simp add: checkBlocked_def)

lemma hasAccess_eq:
  assumes "mongo_ok E"
  shows "hasAccessToConversation E w org cid u = (case conversationAt w org cid of
      None \<Rightarrow> \<lparr>ac_conversation = None, ac_asParticipant = False, ac_asOwner = False, ac_asAdmin = False\<rparr>
    | Some c \<Rightarrow> \<lparr>ac_conversation = Some c, ac_asParticipant = (u \<in> members_of cid w), ac_asOwner = (c_owner_id c = u),
        ac_asAdmin = adminOf w cid u\<rparr>)"
  using assms
  by (auto simp: hasAccessToConversation_def findByIdWithOrgScope_def findFirstConversationParticipant_def
      conversationAt_def adminOf_def member_find Let_def split: option.splits)

section \<open>The contract of a guard\<close>

locale access_policy =
  fixes guard :: "env \<Rightarrow> oid \<Rightarrow> oid \<Rightarrow> oid \<Rightarrow> 'a handler"
    and conversation_of :: "'a \<Rightarrow> conversation"
    and allowed :: "env \<Rightarrow> world \<Rightarrow> conversation \<Rightarrow> oid \<Rightarrow> bool"
  assumes missing: "mongo_ok E \<Longrightarrow> conversationAt w org cid = None \<Longrightarrow>
        guard E org cid u w = (Inl (Status CONVERSATION_NOT_FOUND), w)"
    and stranger: "mongo_ok E \<Longrightarrow> conversationAt w org cid = Some c \<Longrightarrow> u \<notin> members_of cid w \<Longrightarrow>
        guard E org cid u w = (Inl (Status FORBIDDEN), w)"
    and forbidden: "mongo_ok E \<Longrightarrow> conversationAt w org cid = Some c \<Longrightarrow> \<not> allowed E w c u \<Longrightarrow>
        guard E org cid u w \<in> {(Inl (Status FORBIDDEN), w), (Inl (Status USER_BLOCKED), w)}"
    and granted: "mongo_ok E \<Longrightarrow> conversationAt w org cid = Some c \<Longrightarrow> u \<in> members_of cid w \<Longrightarrow> allowed E w c u \<Longrightarrow>
        \<exists>a. guard E org cid u w = (Inr a, w) \<and> conversation_of a = c"
begin

lemma guarded_stranger:
  assumes "mongo_ok E" "u \<notin> members_of cid w"
  shows "\<exists>e \<in> {CONVERSATION_NOT_FOUND, FORBIDDEN}. andThen (guard E org cid u) f w = (Inl (Status e), w)"
proof (cases "conversationAt w org cid")
  case None
  from andThen_run(2)[of "guard E org cid u", OF missing[OF assms(1) None], of f] show ?thesis by simp
next
  case (Some c)
  from andThen_run(2)[of "guard E org cid u", OF stranger[OF assms(1) Some assms(2)], of f] show ?thesis by simp
qed

lemma guarded_forbidden:
  assumes "mongo_ok E" "conversationAt w org cid = Some c" "\<not> allowed E w c u"
  shows "\<exists>e \<in> {FORBIDDEN, USER_BLOCKED}. andThen (guard E org cid u) f w = (Inl (Status e), w)"
  using forbidden[OF assms] by (auto simp: andThen_def)

lemma guard_sound:
  assumes "mongo_ok E" "guard E org cid u w = (Inr a, w')"
  shows "w' = w \<and> conversationAt w org cid = Some (conversation_of a) \<and> u \<in> members_of cid w \<and> allowed E w (conversation_of a) u"
proof (cases "conversationAt w org cid")
  case None
  with missing[OF assms(1) None] assms(2) show ?thesis by simp
next
  case (Some c)
  have m: "u \<in> members_of cid w" using stranger[OF assms(1) Some] assms(2) by fastforce
  have a: "allowed E w c u" using forbidden[OF assms(1) Some] assms(2) by fastforce
  from granted[OF assms(1) Some m a] assms(2) Some m a show ?thesis by auto
qed

lemma guard_readonly:
  assumes "mongo_ok E"
  shows "snd (guard E org cid u w) = w"
proof (cases "conversationAt w org cid")
  case (Some c)
  then show ?thesis
    using stranger[OF assms Some, of u] forbidden[OF assms Some, of u] granted[OF assms Some, of u]
    by (metis insertE singletonD snd_conv)
qed (simp add: missing[OF assms])

end

section \<open>The guards of the code\<close>

interpretation viewing: access_policy Message_hasAccess fst mayView
  by unfold_locales (auto simp: Message_hasAccess_def hasAccess_eq mayView_def)

interpretation reading: access_policy MessageRead_hasAccess "\<lambda>c. c" mayRead
  by unfold_locales (auto simp: MessageRead_hasAccess_def hasAccess_eq mayRead_def)

lemma andThen_checkBlocked:
  "mongo_ok E \<Longrightarrow> andThen (checkBlocked E u vs) f w =
     (if \<forall>v \<in> set vs. \<not> blocking w u v then f () w else (Inl (Status USER_BLOCKED), w))"
  using checkBlocked_eq[of E u vs w] by (auto simp: andThen_def)

interpretation typing: access_policy StatusTyping_hasAccess "\<lambda>c. c" mayType
  by unfold_locales (auto simp: StatusTyping_hasAccess_def hasAccess_eq mayType_def mayRead_def noBlock_def
      andThen_checkBlocked)

lemma MessageCreate_guard_eq:
  assumes "mongo_ok E"
  shows "MessageCreate_hasAccess E org cid u w = (case conversationAt w org cid of
      None \<Rightarrow> (Inl (Status CONVERSATION_NOT_FOUND), w)
    | Some c \<Rightarrow>
        if \<not> cfg_disableChannelsLogic E \<and> c_type c = Channel \<and> c_owner_id c \<noteq> u \<and> \<not> adminOf w cid u
        then (Inl (Status FORBIDDEN), w)
        else if u \<notin> members_of cid w then (Inl (Status FORBIDDEN), w)
        else if \<not> noBlock w c u then (Inl (Status USER_BLOCKED), w)
        else (Inr c, w))"
proof (cases "conversationAt w org cid")
  case None
  then show ?thesis using assms
    by (simp add: MessageCreate_hasAccess_def MessageCreate_hasAccessToConversation_def hasAccess_eq andThen_def)
next
  case (Some c)
  have "MessageCreate_hasAccessToConversation E org cid u w =
      (if \<not> cfg_disableChannelsLogic E \<and> c_type c = Channel \<and> c_owner_id c \<noteq> u \<and> \<not> adminOf w cid u \<or> u \<notin> members_of cid w
       then (Inl (Status FORBIDDEN), w) else (Inr c, w))"
    using assms Some by (simp add: MessageCreate_hasAccessToConversation_def hasAccess_eq)
  then show ?thesis using assms Some
    by (auto simp: MessageCreate_hasAccess_def andThen_run andThen_checkBlocked noBlock_def)
qed

interpretation posting: access_policy MessageCreate_hasAccess "\<lambda>c. c" mayPost
proof
  fix E w org cid u c
  assume *: "mongo_ok E" "conversationAt w org cid = Some c" "\<not> mayPost E w c u"
  then show "MessageCreate_hasAccess E org cid u w \<in> {(Inl (Status FORBIDDEN), w), (Inl (Status USER_BLOCKED), w)}"
    using conversationAt_Some[of w org cid c] by (auto simp: MessageCreate_guard_eq mayPost_def)
next
  fix E w org cid u c
  assume *: "mongo_ok E" "conversationAt w org cid = Some c" "u \<in> members_of cid w" "mayPost E w c u"
  then show "\<exists>a. MessageCreate_hasAccess E org cid u w = (Inr a, w) \<and> a = c"
    using conversationAt_Some[of w org cid c] by (auto simp: MessageCreate_guard_eq mayPost_def)
qed (simp_all add: MessageCreate_guard_eq)

end
