(* ===== verification/Message_Props.thy ===== *)
theory Message_Props
  imports Message_Access
begin

text \<open>
  Properties of the message operations: strangers and blocked users are refused without a
  trace, what sending, editing, deleting, hiding, reading and listing messages do to the stored
  messages, and reactions as unique rows.
\<close>

section \<open>A private conversation, for concrete runs\<close>

definition chat_conversation :: conversation where
  "chat_conversation = channel_example\<lparr>c_type := Private, c_opponent_id := Some ''u2'', c_subscribers_count := None\<rparr>"

definition chat_session :: "oid \<Rightarrow> session" where
  "chat_session u = \<lparr>s_organizationId = ''o'', s_userId = u, s_extraParams = Map.empty\<rparr>"

definition chat_message :: "oid \<Rightarrow> oid \<Rightarrow> message" where
  "chat_message i u = \<lparr>m_id = i, m_organization_id = ''o'', m_cid = ''c1'', m_from = u, m_t = 1, m_body = Some ''hi'',
     m_attachments = None, m_x = None, m_replied_message_id = None, m_forwarded_message_id = None,
     m_encrypted_message_type = None, m_deleted_for = [], m_created_at = 1000, m_updated_at = 1000\<rparr>"

definition chat_world :: world where
  "chat_world = channel_world\<lparr>users := [user_example, user_example\<lparr>u_id := ''u2'', u_login := ''bob'', u_email := None\<rparr>],
     conversations := [chat_conversation], messages := [chat_message ''m1'' ''u1'', chat_message ''m2'' ''u2''],
     SESSIONS := [(11, chat_session ''u1''), (12, chat_session ''u2''), (13, chat_session ''u3'')]\<rparr>"

lemma chat_members [simp]: "members_of ''c1'' chat_world = {''u1'', ''u2''}"
  using channel_world_members by (simp add: chat_world_def members_of_def)

lemma chat_sessions [simp]:
  "getSession chat_world 11 = Some (chat_session ''u1'')" "getSession chat_world 12 = Some (chat_session ''u2'')"
  "getSession chat_world 13 = Some (chat_session ''u3'')" "s_userId (chat_session u) = u" "s_organizationId (chat_session u) = ''o''"
  by (simp_all add: getSession_def chat_world_def chat_session_def)

lemma chat_conversationAt [simp]:
  "conversationAt chat_world ''o'' ''c1'' = Some chat_conversation" "c_type chat_conversation = Private"
  "c_id chat_conversation = ''c1''" "privateParticipants chat_conversation = [''u1'', ''u2'']"
  by (simp_all add: conversationAt_def chat_world_def chat_conversation_def channel_example_def privateParticipants_def)

section \<open>Strangers\<close>

definition refused :: "'a handler \<Rightarrow> world \<Rightarrow> bool" where
  "refused m w \<longleftrightarrow> (\<exists>e \<in> {CONVERSATION_NOT_FOUND, FORBIDDEN}. m w = (Inl (Status e), w))"

text \<open>C4: A user who is not a member of a conversation can neither send a message or a system message to
  it, nor delete, read or list its messages, nor show a typing status in it: every such request
  is answered with \<open>CONVERSATION_NOT_FOUND\<close> or \<open>FORBIDDEN\<close> and leaves the whole state as it was.\<close>

theorem strangers_refused:
  assumes "mongo_ok E" "getSession w ws = Some s" "s_userId s \<notin> members_of cid w" "mp_cid p = cid"
  shows "refused (MessageCreate_perform E ws p) w \<and> refused (MessageSendSystem_perform E ws (Some cid) uids) w
    \<and> refused (MessageDelete_perform E ws cid mids isDeleteAll) w
    \<and> refused (MessageRead_perform E ws cid optMids resultMessageOnly) w
    \<and> refused (MessageList_perform E ws cid opts lim) w \<and> refused (StatusTyping_perform E ws cid status) w"
proof -
  note enter = sessionOf_run[OF assms(2)]
  note view = viewing.guarded_stranger[OF assms(1,3), of "s_organizationId s"]
  have 1: "refused (MessageCreate_perform E ws p) w"
    using posting.guarded_stranger[OF assms(1,3), of "s_organizationId s"]
    unfolding refused_def MessageCreate_perform_def enter by (simp add: assms(4))
  have 2: "refused (MessageSendSystem_perform E ws (Some cid) uids) w"
    unfolding refused_def MessageSendSystem_perform_def enter
    using view[of "\<lambda>(c, _, _). ret (participantsOf c)"] by (auto simp: andThen_run)
  have 3: "refused (MessageDelete_perform E ws cid mids isDeleteAll) w"
    unfolding refused_def MessageDelete_perform_def enter by (rule view)
  have 4: "refused (MessageRead_perform E ws cid optMids resultMessageOnly) w"
    unfolding refused_def MessageRead_perform_def enter by (rule reading.guarded_stranger[OF assms(1,3)])
  have 5: "refused (MessageList_perform E ws cid opts lim) w"
    using view unfolding refused_def MessageList_perform_def enter by simp
  have 6: "refused (StatusTyping_perform E ws cid status) w"
    unfolding refused_def StatusTyping_perform_def enter by (rule typing.guarded_stranger[OF assms(1,3)])
  from 1 2 3 4 5 6 show ?thesis by blast
qed

theorem strangers_refused_witness:
  "refused (MessageCreate_perform mem_env 13 (noParams ''c1'')) chat_world
   \<and> refused (MessageDelete_perform mem_env 13 ''c1'' [''m1''] True) chat_world"
  using strangers_refused[of mem_env chat_world 13 "chat_session ''u3''" "''c1''" "noParams ''c1''"] by (simp add: noParams_def)

section \<open>Blocking\<close>

lemma blockMany_blocks:
  assumes "mongo_ok E" "blockMany E org u vs w = (Inr bs, w')"
  shows "w' = w\<lparr>blocked_users := blocked_users w'\<rparr>" "set (blocked_users w) \<subseteq> set (blocked_users w')"
    "v \<in> set vs \<Longrightarrow> blocking w' u v" "u \<notin> set vs"
proof -
  let ?mks = "map (\<lambda>v. blockParams org u v (clock w)) vs"
  obtain "is" ys where i: "coll_insertMany (mg_blocked_users E) ?mks (blocked_users w) = (Some is, ys)"
    and w': "w' = w\<lparr>blocked_users := ys\<rparr>" and u: "u \<notin> set vs"
    using assms(2) by (cases "coll_insertMany (mg_blocked_users E) ?mks (blocked_users w)")
      (auto simp: blockMany_def createMany_def comp_def Let_def split: if_splits option.splits)
  note m = coll_ok_insertMany[OF mongo_okD(8)[OF assms(1)] i]
  have s: "set ys = set (blocked_users w) \<union> set (map2 (\<lambda>mk i. mk i) ?mks is)"
    using m(2) by (metis mset_append mset_set_eq set_append)
  show "w' = w\<lparr>blocked_users := blocked_users w'\<rparr>" "set (blocked_users w) \<subseteq> set (blocked_users w')" "u \<notin> set vs"
    using w' s u by auto
  assume "v \<in> set vs"
  then obtain k where k: "k < length vs" "vs ! k = v" by (auto simp: in_set_conv_nth)
  then have "blockParams org u v (clock w) (is ! k) \<in> set (map2 (\<lambda>mk i. mk i) ?mks is)"
    using m(1) nth_mem[of k "map2 (\<lambda>mk i. mk i) ?mks is"] by simp
  then have "blockParams org u v (clock w) (is ! k) \<in> set (blocked_users w')" using s w' by simp
  then show "blocking w' u v" unfolding blocking_def by (rule bexI[rotated]) (simp add: blockParams_def)
qed

lemma getSession_blocked [simp]: "getSession (w\<lparr>blocked_users := bs\<rparr>) ws = getSession w ws"
  by (simp add: getSession_def)

lemma conversationAt_blocked [simp]: "conversationAt (w\<lparr>blocked_users := bs\<rparr>) org cid = conversationAt w org cid"
  by (simp add: conversationAt_def)

lemma members_of_blocked [simp]: "members_of cid (w\<lparr>blocked_users := bs\<rparr>) = members_of cid w"
  by (rule members_of_cong) simp

lemma blocked_silent:
  assumes "mongo_ok E" "getSession w ws = Some s" "conversationAt w (s_organizationId s) cid = Some c" "c_type c = Private"
    "s_userId s \<in> members_of cid w" "v \<in> set (privateParticipants c)" "blocking w (s_userId s) v" "mp_cid p = cid"
  shows "MessageCreate_perform E ws p w = (Inl (Status USER_BLOCKED), w)"
    "StatusTyping_perform E ws cid status w = (Inl (Status USER_BLOCKED), w)"
proof -
  have nb: "\<not> noBlock w c (s_userId s)" using assms(4,6,7) by (auto simp: noBlock_def)
  have "MessageCreate_hasAccess E (s_organizationId s) cid (s_userId s) w = (Inl (Status USER_BLOCKED), w)"
    using assms nb by (simp add: MessageCreate_guard_eq)
  then show "MessageCreate_perform E ws p w = (Inl (Status USER_BLOCKED), w)"
    unfolding MessageCreate_perform_def sessionOf_run[OF assms(2)] by (simp add: assms(8) andThen_run)
  have "StatusTyping_hasAccess E (s_organizationId s) cid (s_userId s) w = (Inl (Status USER_BLOCKED), w)"
    using assms by (auto simp: StatusTyping_hasAccess_def hasAccess_eq andThen_checkBlocked)
  then show "StatusTyping_perform E ws cid status w = (Inl (Status USER_BLOCKED), w)"
    unfolding StatusTyping_perform_def sessionOf_run[OF assms(2)] by (simp add: andThen_run)
qed

lemma retrieveExistedIds_set:
  "mongo_ok E \<Longrightarrow> set (retrieveExistedIds E w org ids) = u_id ` {u \<in> set (users w). u_organization_id u = org \<and> u_id u \<in> set ids}"
  by (simp add: retrieveExistedIds_def getAllIdsBy_set[OF mongo_okD(2)])

text \<open>C16: Once a user has blocked another, neither of the two can send a message to their private conversation or
  show a typing status in it: both are answered with \<open>USER_BLOCKED\<close>, and nothing is stored.\<close>

theorem block_silences:
  assumes "mongo_ok E" "getSession w wsA = Some a" "getSession w wsB = Some b" "s_organizationId b = s_organizationId a"
    "\<exists>u \<in> set (users w). u_id u = s_userId b \<and> u_organization_id u = s_organizationId a"
    "BlockListBlock_perform E wsA [s_userId b] w = (Inr blocks, w1)"
    "conversationAt w (s_organizationId a) cid = Some c" "c_type c = Private"
    "set (privateParticipants c) = {s_userId a, s_userId b}" "members_of cid w = {s_userId a, s_userId b}" "mp_cid p = cid"
  shows "\<forall>ws \<in> {wsA, wsB}. MessageCreate_perform E ws p w1 = (Inl (Status USER_BLOCKED), w1)
      \<and> StatusTyping_perform E ws cid status w1 = (Inl (Status USER_BLOCKED), w1)"
proof -
  have r: "set (retrieveExistedIds E w (s_organizationId a) [s_userId b]) = {s_userId b}"
    unfolding retrieveExistedIds_set[OF assms(1)] using assms(5) by force
  have "blockMany E (s_organizationId a) (s_userId a) (retrieveExistedIds E w (s_organizationId a) [s_userId b]) w = (Inr blocks, w1)"
    using assms(6) unfolding BlockListBlock_perform_def sessionOf_run[OF assms(2)] by simp
  note bm = blockMany_blocks[OF assms(1) this]
  have bl: "blocking w1 (s_userId a) (s_userId b)" "blocking w1 (s_userId b) (s_userId a)"
    using bm(3) r blocking_sym by auto
  obtain bs where w1: "w1 = w\<lparr>blocked_users := bs\<rparr>" using bm(1) by metis
  have "MessageCreate_perform E wsA p w1 = (Inl (Status USER_BLOCKED), w1)
      \<and> StatusTyping_perform E wsA cid status w1 = (Inl (Status USER_BLOCKED), w1)"
    using blocked_silent[OF assms(1), of w1 wsA a cid c "s_userId b" p] assms bl w1 by simp
  moreover have "MessageCreate_perform E wsB p w1 = (Inl (Status USER_BLOCKED), w1)
      \<and> StatusTyping_perform E wsB cid status w1 = (Inl (Status USER_BLOCKED), w1)"
    using blocked_silent[OF assms(1), of w1 wsB b cid c "s_userId a" p] assms bl w1 by simp
  ultimately show ?thesis by blast
qed

theorem block_silences_witness:
  "\<exists>blocks w1. BlockListBlock_perform mem_env 11 [''u2''] chat_world = (Inr blocks, w1)
     \<and> MessageCreate_perform mem_env 12 (noParams ''c1'') w1 = (Inl (Status USER_BLOCKED), w1)"
proof -
  have r: "retrieveExistedIds mem_env chat_world ''o'' [''u2''] = [''u2'']"
    by (simp add: retrieveExistedIds_def getAllIdsBy_def mem_env_def mem_collection_def chat_world_def user_example_def limit_def ord_sort_def)
  have "\<exists>blocks w1. blockMany mem_env ''o'' ''u1'' [''u2''] chat_world = (Inr blocks, w1)"
    by (simp add: blockMany_def createMany_def mem_env_def mem_collection_def chat_world_def channel_world_def empty_world_def
        blockParams_def blocked_clash_def Let_def)
  then obtain blocks w1 where b: "BlockListBlock_perform mem_env 11 [''u2''] chat_world = (Inr blocks, w1)"
    by (auto simp: BlockListBlock_perform_def sessionOf_run[of _ _ "chat_session ''u1''"] r)
  have "\<exists>u \<in> set (users chat_world). u_id u = ''u2'' \<and> u_organization_id u = ''o''"
    by (simp add: chat_world_def user_example_def)
  with block_silences[of mem_env chat_world 11 "chat_session ''u1''" 12 "chat_session ''u2''" blocks w1 "''c1''" chat_conversation
      "noParams ''c1''"] b show ?thesis by (auto simp: noParams_def)
qed

text \<open>Unblocking undoes one's own block only: afterwards the two users block one another exactly when
  the other side has an enabled block of its own, and no other block changes.\<close>

theorem unblock_lifts_own_block:
  assumes "mongo_ok E" "getSession w ws = Some s" "BlockListUnblock_perform E ws [v] w = (r, w1)"
  shows "r = Inr [v] \<and> (blocking w1 (s_userId s) v \<longleftrightarrow>
      (\<exists>b \<in> set (blocked_users w). bu_enabled b \<and> bu_user_id b = v \<and> bu_blocked_user_id b = s_userId s \<and> v \<noteq> s_userId s))
    \<and> filter (\<lambda>b. \<not> (bu_user_id b = s_userId s \<and> bu_blocked_user_id b = v)) (blocked_users w) = blocked_users w1"
proof -
  have "r = Inr [v]" "w1 = w\<lparr>blocked_users := filter (\<lambda>b. \<not> (bu_user_id b = s_userId s \<and> bu_blocked_user_id b = v)) (blocked_users w)\<rparr>"
    using assms(1,3) unfolding BlockListUnblock_perform_def sessionOf_run[OF assms(2)]
    by (simp_all add: unblock_def deleteBlockedUser_def)
  then show ?thesis by (auto simp: blocking_def)
qed

theorem unblock_lifts_own_block_witness:
  "let w = chat_world\<lparr>blocked_users := [blockParams ''o'' ''u1'' ''u2'' 0 ''b1'']\<rparr>
   in blocking w ''u1'' ''u2'' \<and> \<not> blocking (snd (BlockListUnblock_perform mem_env 11 [''u2''] w)) ''u1'' ''u2''"
proof -
  let ?w = "chat_world\<lparr>blocked_users := [blockParams ''o'' ''u1'' ''u2'' 0 ''b1'']\<rparr>"
  have "getSession ?w 11 = Some (chat_session ''u1'')" by simp
  from unblock_lifts_own_block[OF mem_env_ok(1) this, of "''u2''"]
  show ?thesis by (auto simp: Let_def blocking_def blockParams_def split: prod.splits) (metis prod.collapse snd_conv)+
qed

section \<open>Sending a message\<close>

text \<open>The document that \<open>MessageService.create\<close> stores.\<close>

definition sent_message :: "user \<Rightarrow> conversation \<Rightarrow> message_params \<Rightarrow> world \<Rightarrow> oid \<Rightarrow> message" where
  "sent_message user c p w i = \<lparr>m_id = i, m_organization_id = u_organization_id user, m_cid = c_id c, m_from = u_id user,
     m_t = currentTimeStamp w, m_body = mp_body p, m_attachments = mp_attachments p, m_x = mp_x p,
     m_replied_message_id = mp_replied_message_id p, m_forwarded_message_id = mp_forwarded_message_id p,
     m_encrypted_message_type = mp_encrypted_message_type p, m_deleted_for = mp_deleted_for p,
     m_created_at = clock w, m_updated_at = clock w\<rparr>"

lemma sent_message_simps [simp]:
  "m_id (sent_message user c p w i) = i" "m_from (sent_message user c p w i) = u_id user"
  "m_cid (sent_message user c p w i) = c_id c" "m_body (sent_message user c p w i) = mp_body p"
  "m_attachments (sent_message user c p w i) = mp_attachments p" "m_created_at (sent_message user c p w i) = clock w"
  by (simp_all add: sent_message_def)

lemma MessageService_create_run:
  assumes "mongo_ok E"
  obtains i ms where "MessageService_create E user c p w = (Inr (sent_message user c p w i), w\<lparr>messages := ms\<rparr>)"
    "i \<notin> m_id ` set (messages w)" "mset ms = add_mset (sent_message user c p w i) (mset (messages w))"
proof -
  let ?mk = "\<lambda>now i. (sent_message user c p w i)\<lparr>m_created_at := now, m_updated_at := now\<rparr>"
  have d: "MessageService_create E user c p w = insertInto (mg_messages E) messages messages_update ?mk w"
    by (simp add: MessageService_create_def sent_message_def)
  obtain m ms where i: "insertInto (mg_messages E) messages messages_update ?mk w = (Inr m, w\<lparr>messages := ms\<rparr>)"
    and c: "create (mg_messages E) ?mk (clock w) (messages w) = Some (m, ms)"
    by (rule insertInto_succeeds[OF mongo_okD(5)[OF assms], of messages messages_update ?mk w])
  obtain i where m: "m = sent_message user c p w i" and fresh: "i \<notin> m_id ` set (messages w)"
    using create_inserts(3)[OF mongo_okD(5)[OF assms] c] by (auto simp: sent_message_def)
  have "mset ms = add_mset (sent_message user c p w i) (mset (messages w))"
    using create_inserts(1)[OF mongo_okD(5)[OF assms] c] m by simp
  moreover have "MessageService_create E user c p w = (Inr (sent_message user c p w i), w\<lparr>messages := ms\<rparr>)"
    using d i m by simp
  ultimately show ?thesis using fresh that by blast
qed

text \<open>The state of the conversations does not depend on the other collections.\<close>

lemma conv_ok_cong: "conversations w' = conversations w \<Longrightarrow> participants w' = participants w \<Longrightarrow> conv_ok w' = conv_ok w"
  by (simp add: conv_ok_def counter_ok_def members_of_def)

lemma conv_ok_messages [simp]: "conv_ok (w\<lparr>messages := ms\<rparr>) = conv_ok w"
  by (rule conv_ok_cong) simp_all

lemma members_of_messages [simp]: "members_of cid (w\<lparr>messages := ms\<rparr>) = members_of cid w"
  by (rule members_of_cong) simp

lemma conv_ok_at_conv:
  assumes "conv_ok w" "\<And>c. c_id (f c) = c_id c" "\<And>c. c_type (f c) = c_type c"
    "\<And>c. c_subscribers_count (f c) = c_subscribers_count c"
  shows "conv_ok (w\<lparr>conversations := at_conv cid f (conversations w)\<rparr>)"
proof -
  have "counter_ok w (f c)" if "counter_ok w c" for c using that assms(2-4) by (simp add: counter_ok_def)
  then have "\<forall>c \<in> set (at_conv cid f (conversations w)). counter_ok w c"
    using assms(1) by (auto simp: at_conv_def conv_ok_def)
  then show ?thesis using assms(1) at_conv_ids[of f, OF assms(2)] at_conv_id_set[of f, OF assms(2)]
    by (simp add: conv_ok_def counter_ok_def)
qed

lemma restoreConversation_run:
  assumes "mongo_ok E" "conv_ok w" "c \<in> set (conversations w)" "User_findById E w u = Some user"
    "c_type c = Private \<longrightarrow> card (members_of (c_id c) w) + 2 \<le> cfg_maxParticipants E"
  obtains evs ps where "restoreConversation E c u w = (Inr evs, w\<lparr>participants := ps\<rparr>)" "conv_ok (w\<lparr>participants := ps\<rparr>)"
    "members_of (c_id c) (w\<lparr>participants := ps\<rparr>) = members_of (c_id c) w \<union> (if c_type c = Private then set (privateParticipants c) else {})"
    "rows_frame E (c_id c) w (w\<lparr>participants := ps\<rparr>)"
proof (cases "c_type c = Private")
  case False
  have "w\<lparr>participants := participants w\<rparr> = w" by simp
  moreover have "rows_frame E (c_id c) w w" using assms(1,2) by (simp add: rows_frame_start conv_okD(2))
  ultimately show ?thesis using that[of "[]" "participants w"] False assms(2) by (simp add: restoreConversation_def)
next
  case True
  have len: "card (members_of (c_id c) w) + length (privateParticipants c) \<le> cfg_maxParticipants E"
    using assms(5) True by (auto simp: privateParticipants_def split: option.split)
  have sc: "set_count c n cs = cs" for n cs using True by (simp add: set_count_def)
  have same: "w\<lparr>participants := ps, conversations := conversations w\<rparr> = w\<lparr>participants := ps\<rparr>" for ps by (cases w) simp
  obtain added c' ps where a: "addParticipants E c (privateParticipants c) False w = (Inr (added, c'), w\<lparr>participants := ps\<rparr>)"
    and ok: "conv_ok (w\<lparr>participants := ps\<rparr>)" "rows_frame E (c_id c) w (w\<lparr>participants := ps\<rparr>)"
      "members_of (c_id c) (w\<lparr>participants := ps\<rparr>) = members_of (c_id c) w \<union> set (privateParticipants c)"
    using addParticipants_spec(2)[OF assms(1-3) _ len, of False] unfolding Let_def sc same
    by simp (elim exE conjE, rule that)
  have "User_findById E (w\<lparr>participants := ps\<rparr>) u = Some user" using assms(4) by (simp add: User_findById_def)
  then obtain evs where "restoreConversation E c u w = (Inr evs, w\<lparr>participants := ps\<rparr>)"
    using True a by (cases "added \<noteq> [] \<and> isEnabled E")
      (auto simp: restoreConversation_def restorePrivateConversation_def privateParticipants_def andThen_run)
  with that ok True show ?thesis by simp
qed

text \<open>A request that passes every check: its sender may post, nothing scripted stands in the way, a reply has its message.\<close>

definition ready_to_send :: "env \<Rightarrow> world \<Rightarrow> socket \<Rightarrow> message_params \<Rightarrow> user \<Rightarrow> conversation \<Rightarrow> bool" where
  "ready_to_send E w ws p user c \<longleftrightarrow> (case getSession w ws of None \<Rightarrow> False | Some s \<Rightarrow>
     User_findById E w (s_userId s) = Some user \<and> conversationAt w (s_organizationId s) (mp_cid p) = Some c \<and>
     s_userId s \<in> members_of (mp_cid p) w \<and> mayPost E w c (s_userId s) \<and>
     getHandlerByConversationId E w (mp_cid p) = None \<and>
     (case mp_replied_message_id p of None \<Rightarrow> True | Some mid \<Rightarrow> findMessageById E w (mp_cid p) (s_userId s) mid \<noteq> None) \<and>
     (c_type c = Private \<longrightarrow> card (members_of (mp_cid p) w) + 2 \<le> cfg_maxParticipants E))"

text \<open>The handler up to the point where the message is stored and the conversation restored.\<close>

lemma MessageCreate_stored:
  assumes "mongo_ok E" "conv_ok w" "ready_to_send E w ws p user c"
  obtains i ms ps evs where "i \<notin> m_id ` set (messages w)" "mset ms = add_mset (sent_message user c p w i) (mset (messages w))"
    "conv_ok (w\<lparr>messages := ms, participants := ps\<rparr>)" "rows_frame E (c_id c) w (w\<lparr>participants := ps\<rparr>)"
    "members_of (c_id c) (w\<lparr>participants := ps\<rparr>) = members_of (c_id c) w \<union> (if c_type c = Private then set (privateParticipants c) else {})"
    "MessageCreate_perform E ws p w = andThen (createMessageNotification E MessageEvent c user (sent_message user c p w i) (Some (c_type c))) (\<lambda>messageEvent w1. (Inr \<lparr>cr_organizationId = c_organization_id c, cr_messageId = mp_id p,
         cr_message = sent_message user c p w i, cr_deliverMessages = evs @ [messageEvent], cr_cId = c_id c,
         cr_participantIds = participantsOf c, cr_modifiedFields = None, cr_botMessage = None\<rparr>, updateLastActivity E (c_id c) (clock w) w1))
         (w\<lparr>messages := ms, participants := ps\<rparr>)"
proof -
  obtain s where s: "getSession w ws = Some s" and r: "User_findById E w (s_userId s) = Some user"
      "conversationAt w (s_organizationId s) (mp_cid p) = Some c" "s_userId s \<in> members_of (mp_cid p) w" "mayPost E w c (s_userId s)"
      "getHandlerByConversationId E w (mp_cid p) = None"
      "case mp_replied_message_id p of None \<Rightarrow> True | Some mid \<Rightarrow> findMessageById E w (mp_cid p) (s_userId s) mid \<noteq> None"
      "c_type c = Private \<longrightarrow> card (members_of (mp_cid p) w) + 2 \<le> cfg_maxParticipants E"
    using assms(3) by (auto simp: ready_to_send_def split: option.splits)
  note c = conversationAt_Some[OF r(2)]
  have enter: "MessageCreate_hasAccess E (s_organizationId s) (mp_cid p) (s_userId s) w = (Inr c, w)"
    using posting.granted[OF assms(1) r(2,3,4)] by simp
  have valid: "validateRepliedMessageId E (mp_cid p) (s_userId s) (mp_replied_message_id p) w = (Inr (), w)"
    using r(6) by (auto simp: validateRepliedMessageId_def split: option.splits)
  have handler: "runHandler E c (Some user) p w = (Inr (p, Unchanged), w)"
    using r(5) c by (simp add: runHandler_def)
  obtain i ms where m: "MessageService_create E user c p w = (Inr (sent_message user c p w i), w\<lparr>messages := ms\<rparr>)"
    "i \<notin> m_id ` set (messages w)" "mset ms = add_mset (sent_message user c p w i) (mset (messages w))"
    by (rule MessageService_create_run[OF assms(1)])
  have u: "User_findById E (w\<lparr>messages := ms\<rparr>) (s_userId s) = Some user" using r(1) by (simp add: User_findById_def)
  obtain evs ps where rest: "restoreConversation E c (s_userId s) (w\<lparr>messages := ms\<rparr>) = (Inr evs, w\<lparr>messages := ms, participants := ps\<rparr>)"
    "conv_ok (w\<lparr>messages := ms, participants := ps\<rparr>)"
    "members_of (c_id c) (w\<lparr>messages := ms, participants := ps\<rparr>) = members_of (c_id c) (w\<lparr>messages := ms\<rparr>) \<union> (if c_type c = Private then set (privateParticipants c) else {})"
    "rows_frame E (c_id c) (w\<lparr>messages := ms\<rparr>) (w\<lparr>messages := ms, participants := ps\<rparr>)"
    by (rule restoreConversation_run[OF assms(1) _ _ u, of c]) (use assms(2) c r(7) in simp_all)
  have frame: "rows_frame E (c_id c) w (w\<lparr>participants := ps\<rparr>)" using rest(4) by (simp add: rows_frame_def)
  have members: "members_of (c_id c) (w\<lparr>participants := ps\<rparr>) = members_of (c_id c) w \<union> (if c_type c = Private then set (privateParticipants c) else {})"
    using rest(3) by (simp add: members_of_def)
  have run: "MessageCreate_perform E ws p w = andThen (createMessageNotification E MessageEvent c user (sent_message user c p w i) (Some (c_type c))) (\<lambda>messageEvent w1. (Inr \<lparr>cr_organizationId = c_organization_id c, cr_messageId = mp_id p,
         cr_message = sent_message user c p w i, cr_deliverMessages = evs @ [messageEvent], cr_cId = c_id c,
         cr_participantIds = participantsOf c, cr_modifiedFields = None, cr_botMessage = None\<rparr>, updateLastActivity E (c_id c) (clock w) w1))
         (w\<lparr>messages := ms, participants := ps\<rparr>)"
    unfolding MessageCreate_perform_def sessionOf_run[OF s]
    using c by (cases "c_type c = Private") (simp_all add: r(1) andThen_run(1)[of "MessageCreate_hasAccess _ _ _ _", OF enter] andThen_run(1)[of "validateRepliedMessageId _ _ _ _", OF valid]
        andThen_run(1)[of "runHandler _ _ _ _", OF handler] andThen_run(1)[of "MessageService_create _ _ _ _", OF m(1)]
        andThen_run(1)[of "restoreConversation _ _ _", OF rest(1)] answerOfBot_def participantsOf_def)
  show ?thesis by (rule that[OF m(2,3) rest(2) frame members run])
qed

text \<open>The first attachment names its stored file, if any, by a text, as the schema asks.\<close>

definition fileIdOk :: "json list option \<Rightarrow> bool" where
  "fileIdOk attachments = (case attachments of Some (JObj kvs # _) \<Rightarrow>
     (case map_of kvs ''file_id'' of Some f \<Rightarrow> (case f of JStr _ \<Rightarrow> True | _ \<Rightarrow> \<not> truthy f) | None \<Rightarrow> True) | _ \<Rightarrow> True)"

lemma firstAttachmentUrl_cases:
  assumes "fileIdOk as"
  shows "(\<exists>url. firstAttachmentUrl E as = ret url) \<or> (\<exists>i. firstAttachmentUrl E as = andThen (driverDownloadUrl E i) (\<lambda>url. ret (Some (JStr url))))"
proof (cases "\<exists>kvs xs. as = Some (JObj kvs # xs)")
  case True
  then obtain kvs xs where obj: "as = Some (JObj kvs # xs)" by blast
  show ?thesis
  proof (cases "map_of kvs ''file_id''")
    case None
    then show ?thesis unfolding firstAttachmentUrl_def obj by auto
  next
    case (Some f)
    then have "(\<exists>i. f = JStr i) \<or> \<not> truthy f" using assms by (cases f) (auto simp: fileIdOk_def obj)
    with Some show ?thesis unfolding firstAttachmentUrl_def obj by (auto simp del: driverDownloadUrl_def)
  qed
next
  case False
  then have "\<exists>url. firstAttachmentUrl E as = ret url" by (auto simp: firstAttachmentUrl_def split: option.split list.split json.split)
  then show ?thesis ..
qed

lemma firstAttachmentUrl_run:
  assumes "fileIdOk as"
  shows "\<exists>url n. firstAttachmentUrl E as w = (Inr url, w\<lparr>entropy := n\<rparr>)"
  using firstAttachmentUrl_cases[OF assms, of E]
proof
  assume "\<exists>url. firstAttachmentUrl E as = ret url"
  then obtain url where "firstAttachmentUrl E as = ret url" ..
  then show ?thesis by (intro exI[of _ url] exI[of _ "entropy w"]) simp
next
  assume "\<exists>i. firstAttachmentUrl E as = andThen (driverDownloadUrl E i) (\<lambda>url. ret (Some (JStr url)))"
  then obtain i where "firstAttachmentUrl E as = andThen (driverDownloadUrl E i) (\<lambda>url. ret (Some (JStr url)))" ..
  then show ?thesis by (intro exI[of _ "Some (JStr (downloadUrl E i (entropy w)))"] exI[of _ "Suc (entropy w)"]) (simp add: andThen_def)
qed

lemma MessageCreate_run:
  assumes "mongo_ok E" "conv_ok w" "ready_to_send E w ws p user c" "fileIdOk (mp_attachments p)"
  obtains i ms ps n evs pl where "i \<notin> m_id ` set (messages w)" "mset ms = add_mset (sent_message user c p w i) (mset (messages w))"
    "conv_ok (w\<lparr>messages := ms, participants := ps, entropy := n, conversations := at_conv (c_id c) (\<lambda>d. d\<lparr>c_updated_at := clock w\<rparr>) (conversations w)\<rparr>)"
    "rows_frame E (c_id c) w (w\<lparr>participants := ps\<rparr>)"
    "members_of (c_id c) (w\<lparr>participants := ps\<rparr>) = members_of (c_id c) w \<union> (if c_type c = Private then set (privateParticipants c) else {})"
    "MessageCreate_perform E ws p w = (Inr \<lparr>cr_organizationId = c_organization_id c, cr_messageId = mp_id p, cr_message = sent_message user c p w i,
       cr_deliverMessages = evs @ [plainEvent (MessageEvent (sent_message user c p w i) (Some (c_type c))) (ChatAlert (u_id user) pl)],
       cr_cId = c_id c, cr_participantIds = participantsOf c, cr_modifiedFields = None, cr_botMessage = None\<rparr>,
       w\<lparr>messages := ms, participants := ps, entropy := n, conversations := at_conv (c_id c) (\<lambda>d. d\<lparr>c_updated_at := clock w\<rparr>) (conversations w)\<rparr>)"
proof -
  obtain i ms ps evs where m: "i \<notin> m_id ` set (messages w)" "mset ms = add_mset (sent_message user c p w i) (mset (messages w))"
    and ok: "conv_ok (w\<lparr>messages := ms, participants := ps\<rparr>)" "rows_frame E (c_id c) w (w\<lparr>participants := ps\<rparr>)"
    "members_of (c_id c) (w\<lparr>participants := ps\<rparr>) = members_of (c_id c) w \<union> (if c_type c = Private then set (privateParticipants c) else {})"
    and run: "MessageCreate_perform E ws p w = andThen (createMessageNotification E MessageEvent c user (sent_message user c p w i) (Some (c_type c)))
      (\<lambda>messageEvent w1. (Inr \<lparr>cr_organizationId = c_organization_id c, cr_messageId = mp_id p,
         cr_message = sent_message user c p w i, cr_deliverMessages = evs @ [messageEvent], cr_cId = c_id c,
         cr_participantIds = participantsOf c, cr_modifiedFields = None, cr_botMessage = None\<rparr>, updateLastActivity E (c_id c) (clock w) w1))
       (w\<lparr>messages := ms, participants := ps\<rparr>)"
    by (rule MessageCreate_stored[OF assms(1-3)])
  obtain url n where url: "firstAttachmentUrl E (mp_attachments p) (w\<lparr>messages := ms, participants := ps\<rparr>) = (Inr url, w\<lparr>messages := ms, participants := ps, entropy := n\<rparr>)"
    using firstAttachmentUrl_run[OF assms(4), of E "w\<lparr>messages := ms, participants := ps\<rparr>"] by auto
  let ?w1 = "w\<lparr>messages := ms, participants := ps, entropy := n\<rparr>"
  let ?act = "at_conv (c_id c) (\<lambda>d. d\<lparr>c_updated_at := clock w\<rparr>) (conversations w)"
  have act: "updateLastActivity E (c_id c) (clock w) ?w1 = ?w1\<lparr>conversations := ?act\<rparr>"
    using conversation_writes(3)[OF assms(1), of ?w1] conv_okD(1)[OF assms(2)] by simp
  have "conv_ok ?w1" using ok(1) by (simp add: conv_ok_def counter_ok_def members_of_def)
  then have ok': "conv_ok (?w1\<lparr>conversations := ?act\<rparr>)"
    using conv_ok_at_conv[of ?w1 "\<lambda>d. d\<lparr>c_updated_at := clock w\<rparr>" "c_id c"] by simp
  have nt: "createMessageNotification E MessageEvent c user (sent_message user c p w i) (Some (c_type c)) (w\<lparr>messages := ms, participants := ps\<rparr>) =
      (Inr (plainEvent (MessageEvent (sent_message user c p w i) (Some (c_type c)))
         (ChatAlert (u_id user) (pushPayload c user (sent_message user c p w i) url))), ?w1)"
    by (simp add: createMessageNotification_def andThen_def url)
  show ?thesis
    by (rule that[OF m ok' ok(2,3)]) (unfold run andThen_run(1)[of "createMessageNotification _ _ _ _ _ _", OF nt] act, rule refl)
qed

text \<open>C5: A message that passes the checks is sent, with or without stored files: the request succeeds, exactly one
  message is stored, under a fresh identifier, with the sender, conversation, time and content
  of the request; both sides of a private conversation are members again, no
  other membership changes; the conversation's last activity is the time of the message; and the last delivered event
  is that message. Participants and counters stay consistent.\<close>

theorem MessageCreate_delivers:
  assumes "mongo_ok E" "conv_ok w" "ready_to_send E w ws p user c" "fileIdOk (mp_attachments p)"
  shows "\<exists>r w' i. MessageCreate_perform E ws p w = (Inr r, w') \<and> cr_message r = sent_message user c p w i
    \<and> i \<notin> m_id ` set (messages w) \<and> mset (messages w') = add_mset (cr_message r) (mset (messages w))
    \<and> conv_ok w' \<and> members_of (c_id c) w' = members_of (c_id c) w \<union> (if c_type c = Private then set (privateParticipants c) else {})
    \<and> (\<forall>k. k \<noteq> c_id c \<longrightarrow> members_of k w' = members_of k w)
    \<and> conversations w' = at_conv (c_id c) (\<lambda>d. d\<lparr>c_updated_at := clock w\<rparr>) (conversations w)
    \<and> ev_message (last (cr_deliverMessages r)) = MessageEvent (cr_message r) (Some (c_type c))"
proof (rule MessageCreate_run[OF assms], intro exI conjI, assumption)
  fix i ms ps n evs pl
  assume r: "rows_frame E (c_id c) w (w\<lparr>participants := ps\<rparr>)"
    "members_of (c_id c) (w\<lparr>participants := ps\<rparr>) = members_of (c_id c) w \<union> (if c_type c = Private then set (privateParticipants c) else {})"
  have mem: "members_of k (w\<lparr>messages := ms, participants := ps, entropy := n, conversations := cs\<rparr>) = members_of k (w\<lparr>participants := ps\<rparr>)" for k cs
    by (simp add: members_of_def)
  show "members_of (c_id c) (w\<lparr>messages := ms, participants := ps, entropy := n, conversations := cs\<rparr>)
      = members_of (c_id c) w \<union> (if c_type c = Private then set (privateParticipants c) else {})"
    "\<forall>k. k \<noteq> c_id c \<longrightarrow> members_of k (w\<lparr>messages := ms, participants := ps, entropy := n, conversations := cs\<rparr>) = members_of k w" for cs
    using r(2) rows_frame_others[OF r(1)] mem by simp_all
qed (simp_all add: plainEvent_def)

lemma chat_ok [simp]: "conv_ok chat_world"
  using channel_world_ok(1) by (simp add: conv_ok_def chat_world_def channel_world_def chat_conversation_def counter_ok_def)

lemma chat_ready:
  assumes "mp_cid p = ''c1''" "mp_replied_message_id p = None"
  shows "ready_to_send mem_env chat_world 11 p user_example chat_conversation"
proof -
  have u: "User_findById mem_env chat_world ''u1'' = Some user_example"
    by (simp add: User_findById_def chat_world_def user_example_def)
  have h: "conversation_handlers chat_world = []" "blocked_users chat_world = []"
    by (simp_all add: chat_world_def channel_world_def empty_world_def)
  have "mayPost mem_env chat_world chat_conversation ''u1''"
    by (simp add: mayPost_def noBlock_def blocking_def h)
  moreover have "cfg_maxParticipants mem_env = 50" by (simp add: mem_env_def)
  ultimately show ?thesis using u assms by (simp add: ready_to_send_def getHandlerByConversationId_def h)
qed

theorem MessageCreate_delivers_witness:
  "\<exists>r w'. MessageCreate_perform mem_env 11 ((noParams ''c1'')\<lparr>mp_body := Some ''hello'', mp_attachments := Some [JObj [(''file_id'', JStr ''f1'')]]\<rparr>) chat_world = (Inr r, w')
     \<and> size (mset (messages w')) = 3 \<and> m_body (cr_message r) = Some ''hello''"
proof -
  let ?p = "(noParams ''c1'')\<lparr>mp_body := Some ''hello'', mp_attachments := Some [JObj [(''file_id'', JStr ''f1'')]]\<rparr>"
  have r: "ready_to_send mem_env chat_world 11 ?p user_example chat_conversation"
    by (rule chat_ready) (simp_all add: noParams_def)
  have n: "size (mset (messages chat_world)) = 2" by (simp add: chat_world_def)
  have f: "fileIdOk (mp_attachments ?p)" by (simp add: fileIdOk_def noParams_def)
  from MessageCreate_delivers[OF mem_env_ok(1) chat_ok r f] obtain q w' i where q: "MessageCreate_perform mem_env 11 ?p chat_world = (Inr q, w')"
      "cr_message q = sent_message user_example chat_conversation ?p chat_world i" "mset (messages w') = add_mset (cr_message q) (mset (messages chat_world))"
    by (elim exE conjE) (rule that)
  have "size (mset (messages w')) = 3" unfolding q(3) using n by simp
  with q(1,2) show ?thesis by simp
qed

section \<open>Editing\<close>

text \<open>Only the author edits a message. A message that does not exist is answered with
  \<open>MESSAGE_ID_NOT_FOUND\<close>, someone else's with \<open>FORBIDDEN\<close>, without effect; for its author the request replaces the body
  and the time of change of that message alone, and reports the conversation it belongs to.\<close>

theorem MessageEdit_author_only:
  assumes "mongo_ok E" "getSession w ws = Some s" "distinct (map m_id (messages w))" "MessageEdit_perform E ws mid body w = (r, w')"
  shows "case List.find (\<lambda>m. m_id m = mid) (messages w) of
      None \<Rightarrow> r = Inl (Status MESSAGE_ID_NOT_FOUND) \<and> w' = w
    | Some m \<Rightarrow>
        if m_from m \<noteq> s_userId s then r = Inl (Status FORBIDDEN) \<and> w' = w
        else w' = w\<lparr>messages := map (\<lambda>m. if m_id m = mid then m\<lparr>m_body := Some body, m_updated_at := clock w\<rparr> else m) (messages w)\<rparr>
          \<and> (if m_cid m \<in> c_id ` set (conversations w) then \<exists>x. r = Inr x \<and> er_cId x = m_cid m \<and> er_body x = body
             else r = Inl TypeError)"
proof (cases "List.find (\<lambda>m. m_id m = mid) (messages w)")
  case None
  with assms(4) show ?thesis unfolding MessageEdit_perform_def sessionOf_run[OF assms(2)]
    by (simp add: MessageEdit_hasAccess_def hasAccessToMessage_def Message_findById_def assms(1) andThen_def)
next
  case (Some m)
  have acc: "MessageEdit_hasAccess E mid (s_userId s) w = (if m_from m \<noteq> s_userId s then (Inl (Status FORBIDDEN), w) else (Inr m, w))"
    using Some by (simp add: MessageEdit_hasAccess_def hasAccessToMessage_def Message_findById_def assms(1))
  let ?w = "w\<lparr>messages := map (\<lambda>m. if m_id m = mid then m\<lparr>m_body := Some body, m_updated_at := clock w\<rparr> else m) (messages w)\<rparr>"
  have upd: "updateBody E mid body w = ?w"
    using assms(1,3) by (simp add: updateBody_def update_first_unique)
  have conv: "List.find (\<lambda>c. c_id c = m_cid m) (conversations w) = None \<longleftrightarrow> m_cid m \<notin> c_id ` set (conversations w)"
    by (rule find_key_None)
  show ?thesis
  proof (cases "List.find (\<lambda>c. c_id c = m_cid m) (conversations w)")
    case None
    with Some acc upd conv assms(1,4) show ?thesis unfolding MessageEdit_perform_def sessionOf_run[OF assms(2)]
      by (auto simp: andThen_def[of "MessageEdit_hasAccess _ _ _"])
  next
    case c: (Some c)
    have "c_id c = m_cid m" using find_Some_iff_set[OF c] by simp
    with Some c acc upd conv assms(1,4) show ?thesis
      unfolding MessageEdit_perform_def sessionOf_run[OF assms(2)]
      by (auto simp: andThen_def[of "MessageEdit_hasAccess _ _ _"])
  qed
qed

theorem MessageEdit_author_only_witness:
  "snd (MessageEdit_perform mem_env 11 ''m2'' ''x'' chat_world) = chat_world
   \<and> fst (MessageEdit_perform mem_env 11 ''m2'' ''x'' chat_world) = Inl (Status FORBIDDEN)"
proof -
  have "distinct (map m_id (messages chat_world))" by (simp add: chat_world_def chat_message_def)
  from MessageEdit_author_only[OF mem_env_ok(1) chat_sessions(1) this, of "''m2''" "''x''"]
  show ?thesis by (cases "MessageEdit_perform mem_env 11 ''m2'' ''x'' chat_world") (simp add: chat_world_def chat_message_def)
qed

section \<open>Deleting and hiding\<close>

text \<open>The messages a request names, and when the user may delete all of them for everyone.\<close>

definition named :: "world \<Rightarrow> oid list \<Rightarrow> message list" where
  "named w mids = filter (\<lambda>m. m_id m \<in> set mids) (messages w)"

definition moderates :: "world \<Rightarrow> conversation \<Rightarrow> oid \<Rightarrow> bool" where
  "moderates w c u \<longleftrightarrow> c_type c \<noteq> Private \<and> (c_owner_id c = u \<or> adminOf w (c_id c) u)"

definition deletable :: "world \<Rightarrow> session \<Rightarrow> oid \<Rightarrow> oid list \<Rightarrow> bool \<Rightarrow> bool" where
  "deletable w s cid mids everyone \<longleftrightarrow> s_userId s \<in> members_of cid w \<and>
     (case conversationAt w (s_organizationId s) cid of None \<Rightarrow> False | Some c \<Rightarrow>
        \<forall>m \<in> set (named w mids). m_cid m = cid \<and> m_organization_id m = s_organizationId s \<and>
          (everyone \<longrightarrow> m_from m = s_userId s \<or> moderates w c (s_userId s)))"

lemma findMessagesByIds_mset:
  assumes "mongo_ok E" "distinct (map m_id (messages w))"
  shows "mset (findMessagesByIds E w mids) = mset (named w mids)"
proof (cases "mids = []")
  case False
  have "length (named w mids) = card (m_id ` set (named w mids))"
    using assms(2) distinct_card[of "map m_id (named w mids)"] by (simp add: named_def distinct_map_filter)
  also have "\<dots> \<le> card (set mids)" by (rule card_mono) (auto simp: named_def)
  also have "\<dots> \<le> length mids" by (rule card_length)
  finally have "length (filter (\<lambda>m. m_id m \<in> set mids) (messages w)) \<le> length mids" by (simp add: named_def)
  then show ?thesis unfolding findMessagesByIds_def findAllByIds_def named_def
    using False findAll_all[OF mongo_okD(5)[OF assms(1)], of "\<lambda>m. m_id m \<in> set mids" "messages w" "Some (length mids)" None] by simp
qed (simp add: findMessagesByIds_def named_def)

text \<open>The two ways of deleting, where every named message belongs to the conversation and may be deleted.\<close>

definition without_messages :: "oid \<Rightarrow> oid list \<Rightarrow> bool \<Rightarrow> message list \<Rightarrow> message list" where
  "without_messages u mids everyone ms = (if everyone then filter (\<lambda>m. m_id m \<notin> set mids) ms
     else map (\<lambda>m. if m_id m \<in> set mids \<and> u \<notin> set (m_deleted_for m) then m\<lparr>m_deleted_for := m_deleted_for m @ [u]\<rparr> else m) ms)"

lemma delete_stored:
  assumes "mongo_ok E" "set ids \<inter> m_id ` set (messages w) = set mids \<inter> m_id ` set (messages w)"
    "\<And>m. m \<in> set (messages w) \<Longrightarrow> m_id m \<in> set mids \<Longrightarrow> m_cid m = cid \<and> m_organization_id m = org"
  shows "(\<And>m. m \<in> set (messages w) \<Longrightarrow> m_id m \<in> set mids \<Longrightarrow> from = None \<or> from = Some (m_from m)) \<Longrightarrow>
      deleteByIdsInConversation E ids cid org from w = w\<lparr>messages := without_messages u mids True (messages w)\<rparr>"
    "updateDeleteForUser E ids u cid org w = w\<lparr>messages := without_messages u mids False (messages w)\<rparr>"
proof -
  have member: "m_id m \<in> set ids \<longleftrightarrow> m_id m \<in> set mids" if "m \<in> set (messages w)" for m
    using that assms(2) by auto
  show "deleteByIdsInConversation E ids cid org from w = w\<lparr>messages := without_messages u mids True (messages w)\<rparr>"
    if author: "\<And>m. m \<in> set (messages w) \<Longrightarrow> m_id m \<in> set mids \<Longrightarrow> from = None \<or> from = Some (m_from m)"
  proof -
    have "(m_id m \<in> set ids \<and> m_cid m = cid \<and> m_organization_id m = org \<and> (case from of None \<Rightarrow> True | Some a \<Rightarrow> m_from m = a))
        \<longleftrightarrow> m_id m \<in> set mids" if "m \<in> set (messages w)" for m
      using member[OF that] assms(3)[OF that] author[OF that] by (cases "from") auto
    then show ?thesis
      unfolding deleteByIdsInConversation_def deleteMany_eq[OF mongo_okD(5)[OF assms(1)]] snd_conv without_messages_def if_True
      by (intro arg_cong[of _ _ "\<lambda>ms. w\<lparr>messages := ms\<rparr>"] filter_cong refl) simp
  qed
  show "updateDeleteForUser E ids u cid org w = w\<lparr>messages := without_messages u mids False (messages w)\<rparr>"
    unfolding updateDeleteForUser_def updateMany_eq[OF mongo_okD(5)[OF assms(1)] refl] without_messages_def if_False
    by (intro arg_cong[of _ _ "\<lambda>ms. w\<lparr>messages := ms\<rparr>"] map_cong refl) (use member assms(3) in auto)
qed

lemma without_messages_none: "set mids \<inter> m_id ` set ms = {} \<Longrightarrow> without_messages u mids everyone ms = ms"
  by (cases everyone) (auto simp: without_messages_def disjoint_iff intro!: map_idI filter_True)

text \<open>The handler, with its queries resolved.\<close>

lemma MessageDelete_run:
  assumes "mongo_ok E" "distinct (map m_id (messages w))" "getSession w ws = Some s"
    "conversationAt w (s_organizationId s) cid = Some c" "s_userId s \<in> members_of cid w"
  shows "deletable w s cid mids everyone \<Longrightarrow> \<exists>x. MessageDelete_perform E ws cid mids everyone w =
      (Inr x, w\<lparr>messages := without_messages (s_userId s) mids everyone (messages w)\<rparr>)"
    "\<not> deletable w s cid mids everyone \<Longrightarrow> MessageDelete_perform E ws cid mids everyone w = (Inl (Status FORBIDDEN), w)"
proof -
  let ?u = "s_userId s"
  let ?org = "s_organizationId s"
  let ?ms = "findMessagesByIds E w mids"
  let ?mod = "canModerate c (c_owner_id c = ?u) (adminOf w cid ?u)"
  note c = conversationAt_Some[OF assms(4)]
  have set_ms: "set ?ms = set (named w mids)" by (rule mset_set_eq[OF findMessagesByIds_mset[OF assms(1,2)]])
  have ids: "m_id ` set ?ms = set mids \<inter> m_id ` set (messages w)" unfolding set_ms by (auto simp: named_def)
  have acc: "Message_hasAccess E ?org cid ?u w = (Inr (c, c_owner_id c = ?u, adminOf w cid ?u), w)"
    using assms(1,4,5) by (simp add: Message_hasAccess_def hasAccess_eq)
  have mod: "?mod = moderates w c ?u" using c by (simp add: canModerate_def moderates_def)
  let ?stores = "if everyone then deleteByIdsInConversation E (map m_id ?ms) cid ?org (if ?mod then None else Some ?u)
      else updateDeleteForUser E (map m_id ?ms) ?u cid ?org"
  let ?done = "if ?ms = [] then w else ?stores w"
  have del: "deletable w s cid mids everyone \<longleftrightarrow>
      \<not> list_ex (\<lambda>m. m_cid m \<noteq> cid \<or> m_organization_id m \<noteq> ?org \<or> (everyone \<and> \<not> ?mod) \<and> m_from m \<noteq> ?u) ?ms"
    unfolding list_ex_iff set_ms mod using assms(4,5) by (auto simp: deletable_def)
  show "MessageDelete_perform E ws cid mids everyone w = (Inl (Status FORBIDDEN), w)" if "\<not> deletable w s cid mids everyone"
    unfolding MessageDelete_perform_def sessionOf_run[OF assms(3)] andThen_run(1)[of "Message_hasAccess _ _ _ _", OF acc]
    using that c by (auto simp: del validateMessagesForDelete_def Let_def andThen_def)
  assume d: "deletable w s cid mids everyone"
  then have run: "\<exists>x. MessageDelete_perform E ws cid mids everyone w = (Inr x, ?done)"
    unfolding MessageDelete_perform_def sessionOf_run[OF assms(3)] andThen_run(1)[of "Message_hasAccess _ _ _ _", OF acc]
    using c by (auto simp: del validateMessagesForDelete_def Let_def andThen_def)
  have all: "m_cid m = cid \<and> m_organization_id m = ?org \<and> (everyone \<longrightarrow> ?mod \<or> m_from m = ?u)"
    if "m \<in> set (messages w)" "m_id m \<in> set mids" for m
    using d that assms(4) by (auto simp: deletable_def mod named_def)
  have ids': "set (map m_id ?ms) \<inter> m_id ` set (messages w) = set mids \<inter> m_id ` set (messages w)" using ids by auto
  have "?done = w\<lparr>messages := without_messages ?u mids everyone (messages w)\<rparr>"
  proof (cases "?ms = []")
    case True
    with ids have "set mids \<inter> m_id ` set (messages w) = {}" by auto
    then show ?thesis using True by (simp add: without_messages_none)
  next
    case False
    then show ?thesis using delete_stored[OF assms(1) ids'] all by (cases everyone) auto
  qed
  with run show "\<exists>x. MessageDelete_perform E ws cid mids everyone w =
      (Inr x, w\<lparr>messages := without_messages (s_userId s) mids everyone (messages w)\<rparr>)" by simp
qed

lemma MessageDelete_refused:
  assumes "mongo_ok E" "distinct (map m_id (messages w))" "getSession w ws = Some s" "\<not> deletable w s cid mids everyone"
  shows "\<exists>e \<in> {FORBIDDEN, CONVERSATION_NOT_FOUND}. MessageDelete_perform E ws cid mids everyone w = (Inl (Status e), w)"
proof (cases "s_userId s \<in> members_of cid w")
  case False
  show ?thesis
    using viewing.guarded_stranger[OF assms(1) False, of "s_organizationId s"]
    unfolding MessageDelete_perform_def sessionOf_run[OF assms(3)] by blast
next
  case True
  show ?thesis
  proof (cases "conversationAt w (s_organizationId s) cid")
    case None
    have "MessageDelete_perform E ws cid mids everyone w = (Inl (Status CONVERSATION_NOT_FOUND), w)"
      unfolding MessageDelete_perform_def sessionOf_run[OF assms(3)]
      by (rule andThen_run(2), rule viewing.missing[OF assms(1) None])
    then show ?thesis by simp
  next
    case (Some c)
    from MessageDelete_run(2)[OF assms(1-3) Some True assms(4)] show ?thesis by simp
  qed
qed

text \<open>C15: Deleting messages for everyone is all or nothing. It succeeds exactly when the user is a member of the
  conversation, every named message that exists belongs to it, and the user wrote
  them all or, in a group or channel, is its owner or an admin. Then exactly the named messages are
  gone; otherwise the request is refused and nothing changes.\<close>

theorem MessageDelete_for_everyone:
  assumes "mongo_ok E" "distinct (map m_id (messages w))" "getSession w ws = Some s"
  shows "if deletable w s cid mids True
    then \<exists>x. MessageDelete_perform E ws cid mids True w = (Inr x, w\<lparr>messages := filter (\<lambda>m. m_id m \<notin> set mids) (messages w)\<rparr>)
    else \<exists>e \<in> {FORBIDDEN, CONVERSATION_NOT_FOUND}. MessageDelete_perform E ws cid mids True w = (Inl (Status e), w)"
proof (cases "deletable w s cid mids True")
  case True
  then obtain c where "conversationAt w (s_organizationId s) cid = Some c" "s_userId s \<in> members_of cid w"
    by (auto simp: deletable_def split: option.splits)
  from MessageDelete_run(1)[OF assms this True] True show ?thesis by (simp add: without_messages_def)
next
  case False
  from MessageDelete_refused[OF assms False] False show ?thesis by simp
qed

lemma chat_message_ids: "distinct (map m_id (messages chat_world))"
  by (simp add: chat_world_def chat_message_def)

lemma chat_named:
  "named chat_world [''m1''] = [chat_message ''m1'' ''u1'']" "named chat_world [''m2''] = [chat_message ''m2'' ''u2'']"
  by (simp_all add: named_def chat_world_def chat_message_def)

lemma chat_message_simps [simp]:
  "m_id (chat_message i u) = i" "m_cid (chat_message i u) = ''c1''" "m_from (chat_message i u) = u"
  "m_organization_id (chat_message i u) = ''o''" "m_deleted_for (chat_message i u) = []"
  by (simp_all add: chat_message_def)

theorem MessageDelete_for_everyone_witness:
  "(\<exists>x w'. MessageDelete_perform mem_env 11 ''c1'' [''m1''] True chat_world = (Inr x, w') \<and> messages w' = [chat_message ''m2'' ''u2''])
   \<and> snd (MessageDelete_perform mem_env 11 ''c1'' [''m2''] True chat_world) = chat_world"
proof -
  have "deletable chat_world (chat_session ''u1'') ''c1'' [''m1''] True"
    "\<not> deletable chat_world (chat_session ''u1'') ''c1'' [''m2''] True"
    by (simp_all add: deletable_def chat_named moderates_def)
  with MessageDelete_for_everyone[OF mem_env_ok(1) chat_message_ids chat_sessions(1), of "''c1''" "[''m1'']"]
    MessageDelete_for_everyone[OF mem_env_ok(1) chat_message_ids chat_sessions(1), of "''c1''" "[''m2'']"]
  have "\<exists>x. MessageDelete_perform mem_env 11 ''c1'' [''m1''] True chat_world =
      (Inr x, chat_world\<lparr>messages := filter (\<lambda>m. m_id m \<notin> set [''m1'']) (messages chat_world)\<rparr>)"
    "\<exists>e. MessageDelete_perform mem_env 11 ''c1'' [''m2''] True chat_world = (Inl (Status e), chat_world)" by auto
  moreover have "filter (\<lambda>m. m_id m \<notin> set [''m1'']) (messages chat_world) = [chat_message ''m2'' ''u2'']"
    by (simp add: chat_world_def chat_message_def)
  ultimately show ?thesis by auto
qed

section \<open>Listing\<close>

lemma listing_order:
  "transp (\<lambda>a b. m_id b \<le> m_id a)" "m_id b \<le> m_id a \<or> m_id a \<le> m_id b"
  by (auto simp: transp_def)

lemma MessageList_run:
  assumes "mongo_ok E" "getSession w ws = Some s" "conversationAt w (s_organizationId s) cid = Some c" "c_is_encrypted c \<noteq> Some True"
    "s_userId s \<in> members_of cid w" "User_findById E w (s_userId s) = Some user"
  shows "\<exists>rows. MessageList_perform E ws cid opts lim w = (Inr rows, w) \<and>
    map fst rows = MessageRepo_list E w cid (s_userId s) opts (Some (normalizeLimitParam E lim))"
proof -
  have g: "\<exists>a. Message_hasAccess E (s_organizationId s) cid (s_userId s) w = (Inr a, w) \<and> fst a = c"
    using viewing.granted[OF assms(1,3,5)] by (simp add: mayView_def)
  have id: "u_id user = s_userId s" using find_Some_iff_set assms(1,6) by (fastforce simp: User_findById_def)
  from g assms(4,6) id show ?thesis
    unfolding MessageList_perform_def sessionOf_run[OF assms(2)]
    by (auto simp: andThen_run messagesList_def Let_def comp_def)
qed


lemma chat_user [simp]: "User_findById mem_env chat_world ''u1'' = Some user_example" "c_is_encrypted chat_conversation = None"
  by (simp_all add: User_findById_def chat_world_def user_example_def chat_conversation_def channel_example_def)


text \<open>Deleting messages for oneself hides them: they are missing from every later list the user asks for, while what
  any other user is shown stays the same messages.\<close>

theorem MessageDelete_hides:
  assumes "mongo_ok E" "distinct (map m_id (messages w))" "getSession w ws = Some s"
    "MessageDelete_perform E ws cid mids False w = (Inr x, w1)" "conversationAt w (s_organizationId s) cid = Some c"
    "c_is_encrypted c \<noteq> Some True" "User_findById E w (s_userId s) = Some user" "MessageList_perform E ws cid opts lim w1 = (Inr rows, w2)"
  shows "(\<forall>m \<in> set (map fst rows). m_id m \<notin> set mids) \<and>
    (\<forall>u. u \<noteq> s_userId s \<longrightarrow> map m_id (filter (listQuery cid u opts) (messages w1)) = map m_id (filter (listQuery cid u opts) (messages w)))"
proof -
  let ?hide = "\<lambda>m. if m_id m \<in> set mids \<and> s_userId s \<notin> set (m_deleted_for m) then m\<lparr>m_deleted_for := m_deleted_for m @ [s_userId s]\<rparr> else m"
  have d: "deletable w s cid mids False" using MessageDelete_refused[OF assms(1-3)] assms(4) by fastforce
  then have mem: "s_userId s \<in> members_of cid w" by (simp add: deletable_def)
  from MessageDelete_run(1)[OF assms(1-3,5) mem d] assms(4) have w1: "w1 = w\<lparr>messages := map ?hide (messages w)\<rparr>" by (simp add: without_messages_def)
  have c1: "conversationAt w1 (s_organizationId s) cid = Some c" and s1: "getSession w1 ws = Some s"
    using assms(3,5) w1 by (simp_all add: conversationAt_def getSession_def)
  have "s_userId s \<in> members_of cid w1" "User_findById E w1 (s_userId s) = Some user"
    using mem assms(7) w1 by (simp_all add: User_findById_def)
  from MessageList_run[OF assms(1) s1 c1 assms(6) this, of opts lim] assms(8)
  have rows: "map fst rows = MessageRepo_list E w1 cid (s_userId s) opts (Some (normalizeLimitParam E lim))" by auto
  have "m_id m \<notin> set mids" if "m \<in> set (map fst rows)" for m
  proof -
    have "m \<in> ?hide ` set (messages w)" "s_userId s \<notin> set (m_deleted_for m)"
      using that findAll_set[OF mongo_okD(5)[OF assms(1)], of "listQuery cid (s_userId s) opts"]
      unfolding rows MessageRepo_list_def w1 by (fastforce simp: listQuery_def)+
    then show ?thesis by (auto split: if_splits)
  qed
  moreover have "map m_id (filter (listQuery cid u opts) (messages w1)) = map m_id (filter (listQuery cid u opts) (messages w))"
    if "u \<noteq> s_userId s" for u
  proof -
    have "listQuery cid u opts (?hide m) = listQuery cid u opts m" for m using that by (simp add: listQuery_def split: option.split)
    then have "filter (listQuery cid u opts) (map ?hide ms) = map ?hide (filter (listQuery cid u opts) ms)" for ms
      by (simp add: filter_map comp_def)
    then show ?thesis unfolding w1 by simp
  qed
  ultimately show ?thesis by blast
qed

theorem MessageDelete_hides_witness:
  "\<exists>x w1 rows w2. MessageDelete_perform mem_env 11 ''c1'' [''m2''] False chat_world = (Inr x, w1)
     \<and> MessageList_perform mem_env 11 ''c1'' noOptions None w1 = (Inr rows, w2) \<and> (\<forall>m \<in> set (map fst rows). m_id m \<noteq> ''m2'')"
proof -
  have "deletable chat_world (chat_session ''u1'') ''c1'' [''m2''] False"
    by (simp add: deletable_def chat_named)
  from MessageDelete_run(1)[OF mem_env_ok(1) chat_message_ids chat_sessions(1), of "''c1''" chat_conversation, OF _ _ this]
  obtain x w1 where d: "MessageDelete_perform mem_env 11 ''c1'' [''m2''] False chat_world = (Inr x, w1)"
    and w1: "\<exists>ms. w1 = chat_world\<lparr>messages := ms\<rparr>" by auto
  have "getSession w1 11 = Some (chat_session ''u1'')" "conversationAt w1 ''o'' ''c1'' = Some chat_conversation"
    "''u1'' \<in> members_of ''c1'' w1" "User_findById mem_env w1 ''u1'' = Some user_example"
    using w1 chat_sessions(1) chat_conversationAt(1) chat_user(1)
    by (auto simp: getSession_def conversationAt_def User_findById_def simp del: chat_sessions chat_conversationAt chat_user)
  with MessageList_run[OF mem_env_ok(1), of w1 11 "chat_session ''u1''" "''c1''" chat_conversation user_example noOptions None]
  obtain rows where l: "MessageList_perform mem_env 11 ''c1'' noOptions None w1 = (Inr rows, w1)" by auto
  from MessageDelete_hides[OF mem_env_ok(1) chat_message_ids chat_sessions(1) d _ _ _ l, of chat_conversation user_example] d l
  show ?thesis by (intro exI conjI) auto
qed

end
