(* ===== verification/Reaction_Props.thy ===== *)
theory Reaction_Props
  imports Message_Props
begin

text \<open>
  Properties of what users attach to messages: read statuses, which the sender's list shows, and
  reactions, kept as unique rows like the participants (a second interpretation of the keyed-rows
  interface). Also the decisions of a scripted conversation handler.
\<close>

section \<open>Read statuses\<close>

lemma bulkUpsert_statuses:
  assumes "mongo_ok E"
  shows "mid \<in> set mids \<Longrightarrow> \<exists>s \<in> set (bulkUpsert (mg_message_statuses E) (map (statusUpsert cid u st now) mids) ss).
      ms_cid s = cid \<and> ms_mid s = mid \<and> ms_user_id s = u \<and> ms_status s = st"
    "filter_mset (\<lambda>s. ms_user_id s \<noteq> u \<or> ms_cid s \<noteq> cid) (mset (bulkUpsert (mg_message_statuses E) (map (statusUpsert cid u st now) mids) ss))
      = filter_mset (\<lambda>s. ms_user_id s \<noteq> u \<or> ms_cid s \<noteq> cid) (mset ss)"
proof -
  let ?P = "\<lambda>mid s. ms_cid s = cid \<and> ms_mid s = mid \<and> ms_user_id s = u"
  let ?f = "\<lambda>s. s\<lparr>ms_status := st, ms_created_at := now, ms_updated_at := now\<rparr>"
  let ?mk = "\<lambda>mid i. \<lparr>ms_id = i, ms_cid = cid, ms_mid = mid, ms_user_id = u, ms_status = st, ms_created_at = now, ms_updated_at = now\<rparr>"
  let ?step = "\<lambda>mid ss. snd (coll_upsertOne (mg_message_statuses E) (?P mid) ?f (?mk mid) ss)"
  let ?Q = "\<lambda>s. ms_user_id s \<noteq> u \<or> ms_cid s \<noteq> cid"
  let ?has = "\<lambda>mid ss. \<exists>s \<in> set ss. ?P mid s \<and> ms_status s = st"
  have upd: "?has mid' ss \<Longrightarrow> ?has mid' (update_first (?P mid) ?f ss)" for mid mid' ss
    by (induction ss) auto
  have fst_upd: "\<exists>s \<in> set ss. ?P mid s \<Longrightarrow> ?has mid (update_first (?P mid) ?f ss)" for mid ss
    by (induction ss) auto
  have filt: "filter ?Q (update_first (?P mid) ?f ss) = filter ?Q ss" for mid ss by (induction ss) auto
  have step: "?has mid (?step mid ss) \<and> (\<forall>mid'. ?has mid' ss \<longrightarrow> ?has mid' (?step mid ss))
      \<and> filter_mset ?Q (mset (?step mid ss)) = filter_mset ?Q (mset ss)" for mid ss
  proof (cases "\<exists>s \<in> set ss. ?P mid s")
    case True
    then have e: "?step mid ss = update_first (?P mid) ?f ss"
      using coll_ok_upsertOne_present[OF mongo_okD(6)[OF assms]] by simp
    show ?thesis unfolding e mset_filter[symmetric] filt by (intro conjI allI impI refl fst_upd[OF True] upd)
  next
    case False
    obtain i ys where "coll_upsertOne (mg_message_statuses E) (?P mid) ?f (?mk mid) ss = (Some i, ys)" "inserts ms_id (?mk mid) ss i ys"
      by (rule coll_ok_upsertOne_absent[OF mongo_okD(6)[OF assms] False])
    then have y: "?step mid ss = ys" "mset ys = mset (?mk mid i # ss)" by (simp_all add: inserts_def)
    have "set ys = insert (?mk mid i) (set ss)" using mset_set_eq[OF y(2)] by simp
    then show ?thesis using y by auto
  qed
  have all: "(\<forall>mid. mid \<in> set mids \<or> ?has mid ss \<longrightarrow> ?has mid (bulkUpsert (mg_message_statuses E) (map (statusUpsert cid u st now) mids) ss))
      \<and> filter_mset ?Q (mset (bulkUpsert (mg_message_statuses E) (map (statusUpsert cid u st now) mids) ss)) = filter_mset ?Q (mset ss)"
  proof (induction mids arbitrary: ss)
    case (Cons m mids)
    have "bulkUpsert (mg_message_statuses E) (map (statusUpsert cid u st now) (m # mids)) ss =
        bulkUpsert (mg_message_statuses E) (map (statusUpsert cid u st now) mids) (?step m ss)"
      by (simp add: statusUpsert_def)
    with Cons[of "?step m ss"] step[of m ss] show ?case by auto
  qed simp
  from all show "mid \<in> set mids \<Longrightarrow> \<exists>s \<in> set (bulkUpsert (mg_message_statuses E) (map (statusUpsert cid u st now) mids) ss).
      ms_cid s = cid \<and> ms_mid s = mid \<and> ms_user_id s = u \<and> ms_status s = st"
    "filter_mset ?Q (mset (bulkUpsert (mg_message_statuses E) (map (statusUpsert cid u st now) mids) ss)) = filter_mset ?Q (mset ss)"
    by blast+
qed

text \<open>The messages a read request is about: those of the others, all or the named ones.\<close>

definition opponents :: "world \<Rightarrow> oid \<Rightarrow> oid \<Rightarrow> oid list option \<Rightarrow> message list" where
  "opponents w cid u mids = filter (\<lambda>m. m_cid m = cid \<and> m_from m \<noteq> u \<and> (case mids of Some is \<Rightarrow> m_id m \<in> set is | None \<Rightarrow> True)) (messages w)"



section \<open>Reactions as unique rows\<close>

definition reactions_of :: "oid \<Rightarrow> oid \<Rightarrow> world \<Rightarrow> string set" where
  "reactions_of mid u w = mr_reaction ` {r \<in> set (message_reactions w). mr_mid r = mid \<and> mr_user_id r = u}"

definition reactions_ok :: "world \<Rightarrow> bool" where
  "reactions_ok w \<longleftrightarrow> distinct (map (\<lambda>r. (mr_mid r, mr_user_id r, mr_reaction r)) (message_reactions w))"

definition reactions_frame :: "env \<Rightarrow> oid \<Rightarrow> oid \<Rightarrow> world \<Rightarrow> world \<Rightarrow> bool" where
  "reactions_frame E mid u w0 w \<longleftrightarrow> mongo_ok E \<and> reactions_ok w \<and> w = w0\<lparr>message_reactions := message_reactions w\<rparr> \<and>
     (\<forall>mid' u'. (mid', u') \<noteq> (mid, u) \<longrightarrow> reactions_of mid' u' w = reactions_of mid' u' w0)"

lemma reactions_of_iff: "x \<in> reactions_of mid u w \<longleftrightarrow> (\<exists>r \<in> set (message_reactions w). reactionQuery mid u x r)"
  by (auto simp: reactions_of_def reactionQuery_def)

lemma reactions_frame_update: "reactions_frame E mid u w0 w \<Longrightarrow> w\<lparr>message_reactions := rs\<rparr> = w0\<lparr>message_reactions := rs\<rparr>"
  unfolding reactions_frame_def by (cases w, cases w0) simp

lemma Reaction_upsert_law:
  assumes "reactions_frame E mid u w0 w"
  shows "\<exists>w'. Reaction_upsert E mid u x w = (Inr (x \<notin> reactions_of mid u w), w') \<and> reactions_frame E mid u w0 w'
    \<and> reactions_of mid u w' = insert x (reactions_of mid u w)"
proof -
  have E: "mongo_ok E" using assms by (simp add: reactions_frame_def)
  show ?thesis
  proof (cases "x \<in> reactions_of mid u w")
    case True
    then obtain r where "List.find (reactionQuery mid u x) (message_reactions w) = Some r"
      by (metis find_exists reactions_of_iff)
    with True assms E show ?thesis by (auto simp: Reaction_upsert_def insert_absorb)
  next
    case False
    then have none: "List.find (reactionQuery mid u x) (message_reactions w) = None"
      by (simp add: find_None_set reactions_of_iff)
    let ?mk = "\<lambda>now i. \<lparr>mr_id = i, mr_mid = mid, mr_user_id = u, mr_reaction = x, mr_created_at = now, mr_updated_at = now\<rparr>"
    obtain r rs where i: "insertInto (mg_message_reactions E) message_reactions message_reactions_update ?mk w = (Inr r, w\<lparr>message_reactions := rs\<rparr>)"
      and c: "create (mg_message_reactions E) ?mk (clock w) (message_reactions w) = Some (r, rs)"
      by (rule insertInto_succeeds[OF mongo_okD(7)[OF E], of message_reactions message_reactions_update ?mk w])
    note ins = create_inserts[OF mongo_okD(7)[OF E] c]
    have r: "mr_mid r = mid" "mr_user_id r = u" "mr_reaction r = x" using ins(3) by auto
    have of: "reactions_of mid' u' (w\<lparr>message_reactions := rs\<rparr>) = (if (mid', u') = (mid, u) then {x} else {}) \<union> reactions_of mid' u' w" for mid' u'
      using ins(2) r by (auto simp: reactions_of_def)
    have "distinct (map (\<lambda>r. (mr_mid r, mr_user_id r, mr_reaction r)) (r # message_reactions w))"
      using assms False r by (auto simp: reactions_frame_def reactions_ok_def reactions_of_def)
    then have "reactions_ok (w\<lparr>message_reactions := rs\<rparr>)"
      unfolding reactions_ok_def
      using mset_distinct_map[of rs "r # message_reactions w" "\<lambda>r. (mr_mid r, mr_user_id r, mr_reaction r)"] ins(1) by simp
    then have "reactions_frame E mid u w0 (w\<lparr>message_reactions := rs\<rparr>)"
      using assms of reactions_frame_update[OF assms] by (simp add: reactions_frame_def)
    moreover have "Reaction_upsert E mid u x w = (Inr True, w\<lparr>message_reactions := rs\<rparr>)"
      using none i E by (simp add: Reaction_upsert_def andThen_run)
    ultimately show ?thesis using False of by auto
  qed
qed

lemma Reaction_remove_law:
  assumes "reactions_frame E mid u w0 w"
  shows "\<exists>w'. Reaction_remove E mid u x w = (Inr (x \<in> reactions_of mid u w), w') \<and> reactions_frame E mid u w0 w'
    \<and> reactions_of mid u w' = reactions_of mid u w - {x}"
proof -
  let ?rs = "filter (\<lambda>r. \<not> reactionQuery mid u x r) (message_reactions w)"
  have "Reaction_remove E mid u x w = (Inr (x \<in> reactions_of mid u w), w\<lparr>message_reactions := ?rs\<rparr>)"
    using assms by (auto simp: Reaction_remove_def reactions_frame_def reactions_of_iff filter_empty_conv)
  moreover have of: "reactions_of mid' u' (w\<lparr>message_reactions := ?rs\<rparr>) = reactions_of mid' u' w - (if (mid', u') = (mid, u) then {x} else {})" for mid' u'
    by (auto simp: reactions_of_iff reactionQuery_def)
  moreover have "reactions_frame E mid u w0 (w\<lparr>message_reactions := ?rs\<rparr>)"
    using assms of reactions_frame_update[OF assms] by (simp add: reactions_frame_def reactions_ok_def distinct_map_filter)
  ultimately show ?thesis by auto
qed

interpretation reactions: keyed_rows "reactions_frame E mid u w0" "reactions_of mid u" "Reaction_upsert E mid u" "\<lambda>x. x"
  "Reaction_remove E mid u" for E mid u w0
  by unfold_locales (simp_all add: Reaction_upsert_law Reaction_remove_law, simp add: reactions_of_def)

lemma updateReactions_run:
  assumes "mongo_ok E" "reactions_ok w" "a \<noteq> []" "b \<noteq> []"
  shows "\<exists>w'. updateReactions E mid u (Some a) (Some b) w = (Inr (a \<notin> reactions_of mid u w, b \<in> insert a (reactions_of mid u w)), w')
    \<and> reactions_frame E mid u w w' \<and> reactions_of mid u w' = insert a (reactions_of mid u w) - {b}"
proof -
  have f: "reactions_frame E mid u w w" using assms(1,2) by (simp add: reactions_frame_def)
  obtain w1 where 1: "Reaction_upsert E mid u a w = (Inr (a \<notin> reactions_of mid u w), w1)" "reactions_frame E mid u w w1"
    "reactions_of mid u w1 = insert a (reactions_of mid u w)" using reactions.add_law[OF f] by blast
  obtain w2 where 2: "Reaction_remove E mid u b w1 = (Inr (b \<in> reactions_of mid u w1), w2)" "reactions_frame E mid u w w2"
    "reactions_of mid u w2 = reactions_of mid u w1 - {b}" using reactions.del_law[OF 1(2)] by blast
  show ?thesis
    using assms(3,4) 1 2 by (intro exI[of _ w2]) (simp add: updateReactions_def andThen_run)
qed

text \<open>C33: A request that adds the reaction \<open>a\<close> and removes \<open>b\<close> (both non-empty) from a message makes the user's reactions
  to it the old ones with \<open>a\<close> and without \<open>b\<close>. It changes nobody else's reactions and nothing but reactions, keeps every
  reaction of a user to a message stored once, and reports as added and removed exactly what changed. A
  message that does not exist is answered with \<open>MESSAGE_ID_NOT_FOUND\<close>, without effect.\<close>

theorem ReactionsUpdate_changes:
  assumes "mongo_ok E" "getSession w ws = Some s" "reactions_ok w" "a \<noteq> []" "b \<noteq> []"
  shows "case List.find (\<lambda>m. m_id m = mid) (messages w) of
      None \<Rightarrow> ReactionsUpdate_perform E ws mid (Some a) (Some b) w = (Inl (Status MESSAGE_ID_NOT_FOUND), w)
    | Some m \<Rightarrow> \<exists>r w'. ReactionsUpdate_perform E ws mid (Some a) (Some b) w = (r, w')
        \<and> reactions_of mid (s_userId s) w' = insert a (reactions_of mid (s_userId s) w) - {b}
        \<and> reactions_ok w' \<and> w' = w\<lparr>message_reactions := message_reactions w'\<rparr>
        \<and> (\<forall>mid' u. (mid', u) \<noteq> (mid, s_userId s) \<longrightarrow> reactions_of mid' u w' = reactions_of mid' u w)
        \<and> (case r of Inl e \<Rightarrow> e = TypeError \<and> m_cid m \<notin> c_id ` set (conversations w)
           | Inr x \<Rightarrow> re_add x = (a \<notin> reactions_of mid (s_userId s) w) \<and> re_remove x = (b \<in> insert a (reactions_of mid (s_userId s) w)))"
proof (cases "List.find (\<lambda>m. m_id m = mid) (messages w)")
  case None
  then show ?thesis unfolding ReactionsUpdate_perform_def sessionOf_run[OF assms(2)]
    by (simp add: Reactions_hasAccess_def hasAccessToMessage_def Message_findById_def assms(1) andThen_def)
next
  case (Some m)
  let ?u = "s_userId s"
  have id: "m_id m = mid" using find_Some_iff_set[OF Some] by simp
  have acc: "Reactions_hasAccess E mid ?u w = (Inr m, w)"
    using Some by (simp add: Reactions_hasAccess_def hasAccessToMessage_def Message_findById_def assms(1))
  obtain w' where w': "updateReactions E mid ?u (Some a) (Some b) w = (Inr (a \<notin> reactions_of mid ?u w, b \<in> insert a (reactions_of mid ?u w)), w')"
    "reactions_frame E mid ?u w w'" "reactions_of mid ?u w' = insert a (reactions_of mid ?u w) - {b}"
    using updateReactions_run[OF assms(1,3-5)] by blast
  have cs: "conversations w' = conversations w" using w'(2) unfolding reactions_frame_def by (cases w, cases w') simp
  let ?added = "a \<notin> reactions_of mid ?u w" and ?removed = "b \<in> insert a (reactions_of mid ?u w)"
  have step: "ReactionsUpdate_perform E ws mid (Some a) (Some b) w =
      (if \<not> (?added \<or> ?removed) then (Inr \<lparr>re_organizationId = s_organizationId s, re_from = ?u, re_isUpdated = False, re_conversation = None, re_add = False, re_remove = False\<rparr>, w')
       else case List.find (\<lambda>c. c_id c = m_cid m) (conversations w) of None \<Rightarrow> (Inl TypeError, w')
         | Some c \<Rightarrow> (Inr \<lparr>re_organizationId = s_organizationId s, re_from = ?u, re_isUpdated = (cfg_disableChannelsLogic E \<or> c_type c \<noteq> Channel), re_conversation = Some c,
             re_add = ?added, re_remove = ?removed\<rparr>, w'))"
    unfolding ReactionsUpdate_perform_def sessionOf_run[OF assms(2)] andThen_run(1)[of "Reactions_hasAccess _ _ _", OF acc] id
      andThen_run(1)[of "updateReactions _ _ _ _ _", OF w'(1)] by (simp add: assms(1) cs split: option.split)
  obtain r where run: "ReactionsUpdate_perform E ws mid (Some a) (Some b) w = (r, w')"
    and r: "case r of Inl e \<Rightarrow> e = TypeError \<and> m_cid m \<notin> c_id ` set (conversations w)
           | Inr x \<Rightarrow> re_add x = (a \<notin> reactions_of mid ?u w) \<and> re_remove x = (b \<in> insert a (reactions_of mid ?u w))"
  proof (cases "?added \<or> ?removed")
    case False
    then show ?thesis using that step by simp
  next
    case True
    then show ?thesis using that step find_key_None[of c_id "m_cid m" "conversations w"]
      by (cases "List.find (\<lambda>c. c_id c = m_cid m) (conversations w)") simp_all
  qed
  have fr: "reactions_ok w'" "w' = w\<lparr>message_reactions := message_reactions w'\<rparr>"
      "\<forall>mid' u. (mid', u) \<noteq> (mid, ?u) \<longrightarrow> reactions_of mid' u w' = reactions_of mid' u w"
    using w'(2) unfolding reactions_frame_def by blast+
  show ?thesis unfolding Some option.case
    by (intro exI[of _ r] exI[of _ w'] conjI run w'(3) fr r)
qed

theorem ReactionsUpdate_changes_witness:
  "\<exists>r w'. ReactionsUpdate_perform mem_env 11 ''m2'' (Some ''+1'') (Some ''x'') chat_world = (r, w') \<and> reactions_of ''m2'' ''u1'' w' = {''+1''}"
proof -
  have e: "message_reactions chat_world = []" by (simp add: chat_world_def channel_world_def empty_world_def)
  then have k: "reactions_ok chat_world" "reactions_of ''m2'' ''u1'' chat_world = {}" by (simp_all add: reactions_ok_def reactions_of_def)
  have f: "List.find (\<lambda>m. m_id m = ''m2'') (messages chat_world) = Some (chat_message ''m2'' ''u2'')" by (simp add: chat_world_def)
  from ReactionsUpdate_changes[OF mem_env_ok(1) chat_sessions(1) k(1), of "''+1''" "''x''" "''m2''"]
  show ?thesis unfolding f by (auto simp: k(2))
qed

end
