(* ===== verification/Invariants.thy ===== *)
theory Invariants
  imports Reaction_Props Conversation_Ops
begin

text \<open>
  The invariant of the stored data, and that every request handler on conversations and messages keeps it,
  whether it succeeds or throws half-way: conversations and participants are
  consistent (\<open>conv_ok\<close>), identifiers of messages are unique, and a user's reaction to a message is stored
  once. The theorems about single requests assume these facts; here they are shown to hold in
  every state the server reaches.
\<close>

definition server_ok :: "world \<Rightarrow> bool" where
  "server_ok w \<longleftrightarrow> conv_ok w \<and> distinct (map m_id (messages w)) \<and> reactions_ok w"

lemma server_ok_cong:
  "conversations w' = conversations w \<Longrightarrow> participants w' = participants w \<Longrightarrow> messages w' = messages w \<Longrightarrow>
   message_reactions w' = message_reactions w \<Longrightarrow> server_ok w' = server_ok w"
  using conv_ok_cong[of w' w] by (simp add: server_ok_def reactions_ok_def)

lemma keeps_need [keeps_intros]: "keeps I (need x)"
  by (cases x) (simp_all add: keeps_intros)

lemma keeps_sessionOf [keeps_intros]: "keeps I (sessionOf ws)"
  unfolding sessionOf_def by (intro keeps_intros)

text \<open>Asking for the URL of a file touches no chat document.\<close>

lemma keeps_getFileDownloadUrl [keeps_intros]: "keeps server_ok (getFileDownloadUrl E org i)"
proof (unfold keeps_def, intro allI impI)
  fix w assume "server_ok w"
  obtain st n where "snd (getFileDownloadUrl E org i w) = w\<lparr>entropy := n, redis := st\<rparr>" using getFileDownloadUrl_frame by blast
  then show "server_ok (snd (getFileDownloadUrl E org i w))" using \<open>server_ok w\<close> server_ok_cong[of "w\<lparr>entropy := n, redis := st\<rparr>" w] by simp
qed

lemma keeps_addImageUrl [keeps_intros]: "keeps server_ok (addImageUrl E cs)"
proof -
  have "keeps server_ok (imageUrl E c)" for c
    unfolding imageUrl_def by (auto intro!: keeps_intros split: option.split json.split)
  then show ?thesis unfolding addImageUrl_def by (intro keeps_intros)
qed

lemma keeps_withImageUrl [keeps_intros]: "keeps server_ok (withImageUrl E c)"
  unfolding withImageUrl_def by (intro keeps_intros)

section \<open>Messages\<close>

lemma distinct_after_insert:
  assumes "distinct (map m_id (messages w))" "m_id m \<notin> m_id ` set (messages w)" "mset ms = add_mset m (mset (messages w))"
  shows "distinct (map m_id ms)"
  using assms mset_distinct_map[of ms "m # messages w" m_id] by simp

lemma keeps_MessageService_create [keeps_intros]:
  assumes "mongo_ok E"
  shows "keeps server_ok (MessageService_create E user c p)"
proof (rule keepsI)
  fix w r w' assume ok: "server_ok w" and run: "MessageService_create E user c p w = (r, w')"
  obtain i ms where m: "MessageService_create E user c p w = (Inr (sent_message user c p w i), w\<lparr>messages := ms\<rparr>)"
    "i \<notin> m_id ` set (messages w)" "mset ms = add_mset (sent_message user c p w i) (mset (messages w))"
    by (rule MessageService_create_run[OF assms])
  with ok run distinct_after_insert[of w "sent_message user c p w i" ms] show "server_ok w'"
    by (auto simp: server_ok_def reactions_ok_def)
qed

lemma server_ok_messages:
  assumes "server_ok w" "map m_id ms = map m_id (messages w) \<or> (\<exists>P. ms = filter P (messages w))"
  shows "server_ok (w\<lparr>messages := ms\<rparr>)"
  using assms by (auto simp: server_ok_def reactions_ok_def distinct_map_filter)

lemma keeps_status [simp]: "server_ok (upsertMessageStatus E cid mids u st w) = server_ok w"
  by (rule server_ok_cong) (simp_all add: upsertMessageStatus_def)

lemma keeps_events [keeps_intros]:
  "mongo_ok E \<Longrightarrow> keeps server_ok (participantActionEvent E ty c u v)" "mongo_ok E \<Longrightarrow> keeps server_ok (imageActionEvent E c u)"
  unfolding participantActionEvent_def imageActionEvent_def by (intro keeps_intros; assumption)+

lemma keeps_participantsActionEvent [keeps_intros]: "mongo_ok E \<Longrightarrow> keeps server_ok (participantsActionEvent E ty c u v)"
  unfolding participantsActionEvent_def by (intro keeps_intros; assumption)

lemma keeps_createActionEvents [keeps_intros]: "mongo_ok E \<Longrightarrow> keeps server_ok (createActionEvents E c u as rs a b)"
  unfolding createActionEvents_def by (intro keeps_intros; assumption)

section \<open>Conversations\<close>

text \<open>Adding and removing participants, for a conversation object that is stored as it is.\<close>

lemma triple_addParticipants:
  assumes "mongo_ok E"
  shows "triple (\<lambda>w. server_ok w \<and> c \<in> set (conversations w) \<and> (isEmpty \<longrightarrow> members_of (c_id c) w = {}))
     (addParticipants E c ids isEmpty) (\<lambda>(_, c') w. server_ok w \<and> c' \<in> set (conversations w)) server_ok"
proof (rule tripleI)
  fix w assume ok: "server_ok w \<and> c \<in> set (conversations w) \<and> (isEmpty \<longrightarrow> members_of (c_id c) w = {})"
  then have pre: "conv_ok w" "c \<in> set (conversations w)" "isEmpty \<longrightarrow> members_of (c_id c) w = {}"
    by (auto simp: server_ok_def)
  note spec = addParticipants_spec[OF assms pre, of ids]
  have more: "\<exists>added ps cs. addParticipants E c ids isEmpty w = (Inr (added, counted c n), w\<lparr>participants := ps, conversations := cs\<rparr>)
      \<and> conv_ok (w\<lparr>participants := ps, conversations := cs\<rparr>) \<and> counted c n \<in> set cs"
    if "card (members_of (c_id c) w) + length ids \<le> cfg_maxParticipants E" "n = card (members_of (c_id c) w \<union> set ids)" for n
    using spec(2)[OF that(1)] counted_in[OF pre(2)] that(2) by (auto simp: Let_def)
  show "server_ok w'" if "addParticipants E c ids isEmpty w = (Inl e, w')" for e w'
    using that spec(1) more ok by (cases "card (members_of (c_id c) w) + length ids \<le> cfg_maxParticipants E") auto
  show "(\<lambda>(_, c') w. server_ok w \<and> c' \<in> set (conversations w)) x w'" if "addParticipants E c ids isEmpty w = (Inr x, w')" for x w'
    using that spec(1) more ok by (cases "card (members_of (c_id c) w) + length ids \<le> cfg_maxParticipants E")
      (auto simp: server_ok_def reactions_ok_def)
qed

lemma triple_removeParticipants:
  assumes "mongo_ok E"
  shows "triple (\<lambda>w. server_ok w \<and> c \<in> set (conversations w)) (removeParticipants E c ids) (\<lambda>_. server_ok) server_ok"
proof (rule tripleI)
  fix w assume ok: "server_ok w \<and> c \<in> set (conversations w)"
  have "server_ok w'" if run: "removeParticipants E c ids w = (r, w')" for r w'
  proof -
    have "conv_ok w'" using removeParticipants_conv_ok[OF assms _ _ run] ok by (simp add: server_ok_def)
    moreover have "\<exists>ps cs. w' = w\<lparr>participants := ps, conversations := cs\<rparr>"
      using removeParticipants_cases[OF assms _ _ run] ok by (auto simp: server_ok_def)
    ultimately show ?thesis using ok by (auto simp: server_ok_def reactions_ok_def)
  qed
  then show "removeParticipants E c ids w = (Inl e, w') \<Longrightarrow> server_ok w'" "removeParticipants E c ids w = (Inr x, w') \<Longrightarrow> server_ok w'" for e x w'
    by blast+
qed

text \<open>Creating a conversation document: its identifier is new, so nobody is a member yet.\<close>

lemma conv_ok_inserted:
  assumes "conv_ok w" "c_id c \<notin> c_id ` set (conversations w)" "mset cs = add_mset c (mset (conversations w))" "c_subscribers_count c = None"
  shows "conv_ok (w\<lparr>conversations := cs\<rparr>) \<and> members_of (c_id c) w = {}"
proof -
  have e: "members_of (c_id c) w = {}" using conv_okD(3)[OF assms(1)] assms(2)
    by (auto simp: members_of_def) (metis imageI subsetD)
  have d: "distinct (map c_id cs)" using conv_okD(1)[OF assms(1)] assms(2,3) mset_distinct_map[of cs "c # conversations w" c_id] by simp
  have s: "set cs = insert c (set (conversations w))" using mset_set_eq[of cs "c # conversations w"] assms(3) by simp
  have "counter_ok w c" using e assms(4) by (simp add: counter_ok_def orZero_def)
  then have "\<forall>x \<in> set cs. counter_ok (w\<lparr>conversations := cs\<rparr>) x"
    using conv_okD(4)[OF assms(1)] s by (auto simp: counter_ok_def)
  moreover have "cp_conversation_id ` set (participants w) \<subseteq> c_id ` set cs" using conv_okD(3)[OF assms(1)] s by auto
  ultimately show ?thesis using d e conv_okD(2)[OF assms(1)] by (simp add: conv_ok_def)
qed

lemma keeps_ConversationService_create [keeps_intros]:
  assumes "mongo_ok E"
  shows "keeps server_ok (ConversationService_create E user params ids)"
  unfolding ConversationService_create_def
proof (rule keeps_andThen_fact[where F = "\<lambda>c w. c \<in> set (conversations w) \<and> members_of (c_id c) w = {}"])
  let ?mk = "\<lambda>now i. \<lparr>c_id = i, c_organization_id = u_organization_id user, c_type = cv_type params, c_name = cv_name params,
         c_description = cv_description params, c_owner_id = u_id user, c_opponent_id = cv_opponent_id params,
         c_is_encrypted = cv_is_encrypted params, c_image_object = cv_image_object params, c_image_url = None,
         c_last_message = None, c_unread_messages_count = None, c_participants = None,
         c_subscribers_count = None, c_created_at = now, c_updated_at = now\<rparr>"
  show "triple server_ok (insertInto (mg_conversations E) conversations conversations_update ?mk)
      (\<lambda>c w. server_ok w \<and> c \<in> set (conversations w) \<and> members_of (c_id c) w = {}) server_ok"
  proof (rule tripleI)
    fix w c w' assume ok: "server_ok w" and "insertInto (mg_conversations E) conversations conversations_update ?mk w = (Inr c, w')"
    then obtain cs where c: "create (mg_conversations E) ?mk (clock w) (conversations w) = Some (c, cs)" and w': "w' = w\<lparr>conversations := cs\<rparr>"
      by (auto simp: insertInto_Inr)
    note ins = create_inserts[OF mongo_okD(3)[OF assms] c]
    have "conv_ok (w\<lparr>conversations := cs\<rparr>) \<and> members_of (c_id c) w = {}"
      by (rule conv_ok_inserted) (use ok ins in \<open>auto simp: server_ok_def\<close>)
    with ok w' ins(2) show "server_ok w' \<and> c \<in> set (conversations w') \<and> members_of (c_id c) w' = {}"
      by (simp add: server_ok_def reactions_ok_def)
  qed (simp add: insertInto_Inl)
  fix c
  show "triple (\<lambda>w. server_ok w \<and> c \<in> set (conversations w) \<and> members_of (c_id c) w = {})
      (if ids = [] then ret c else andThen (addParticipants E c ids True) (\<lambda>(_, c1). ret c1)) (\<lambda>_. server_ok) server_ok"
  proof (cases "ids = []")
    case False
    have "triple (\<lambda>w. server_ok w \<and> c \<in> set (conversations w) \<and> members_of (c_id c) w = {})
        (andThen (addParticipants E c ids True) (\<lambda>(_, c1). ret c1)) (\<lambda>_. server_ok) server_ok"
      by (rule triple_andThen[OF triple_pre[OF triple_addParticipants[OF assms]]]) (auto simp: triple_def)
    with False show ?thesis by simp
  qed (simp add: triple_def)
qed

text \<open>A guard that hands on a stored conversation.\<close>

lemma stored_conversation:
  assumes "mongo_ok E" "findByIdWithOrgScope E w org cid = Some c"
  shows "c \<in> set (conversations w) \<and> c_id c = cid"
  using assms conversationAt_Some[of w org cid c] by (simp add: findByIdWithOrgScope_def conversationAt_def)

lemma hasAccess_stored:
  assumes "mongo_ok E" "ac_conversation (hasAccessToConversation E w org cid u) = Some c"
  shows "c \<in> set (conversations w) \<and> c_id c = cid"
  using assms(2) stored_conversation[OF assms(1)] by (auto simp: hasAccessToConversation_def Let_def split: option.splits)

lemma keeps_private [keeps_intros]:
  assumes "mongo_ok E"
  shows "keeps server_ok (andThen (gets (\<lambda>w. findExistedPrivateConversation E w a b e)) (\<lambda>existed. case existed of
      Some c \<Rightarrow> andThen (restorePrivateConversation E c) (\<lambda>(_, c1). ret c1)
    | None \<Rightarrow> createNewPrivateConversation E user params x y))"
proof (rule keeps_andThen_fact[where F = "\<lambda>existed w. \<forall>c. existed = Some c \<longrightarrow> c \<in> set (conversations w)"])
  show "triple server_ok (gets (\<lambda>w. findExistedPrivateConversation E w a b e))
      (\<lambda>existed w. server_ok w \<and> (\<forall>c. existed = Some c \<longrightarrow> c \<in> set (conversations w))) server_ok"
    using assms find_Some_iff_set by (fastforce simp: triple_def findExistedPrivateConversation_def Let_def)
  fix existed
  show "triple (\<lambda>w. server_ok w \<and> (\<forall>c. existed = Some c \<longrightarrow> c \<in> set (conversations w)))
     (case existed of Some c \<Rightarrow> andThen (restorePrivateConversation E c) (\<lambda>(_, c1). ret c1)
      | None \<Rightarrow> createNewPrivateConversation E user params x y) (\<lambda>_. server_ok) server_ok"
  proof (cases existed)
    case None
    have "keeps server_ok (createNewPrivateConversation E user params x y)"
      unfolding createNewPrivateConversation_def by (intro keeps_intros assms)
    then show ?thesis using None by (simp add: keeps_triple)
  next
    case (Some c)
    have "triple (\<lambda>w. server_ok w \<and> c \<in> set (conversations w)) (andThen (restorePrivateConversation E c) (\<lambda>(_, c1). ret c1)) (\<lambda>_. server_ok) server_ok"
      unfolding restorePrivateConversation_def
      by (rule triple_andThen[OF triple_pre[OF triple_addParticipants[OF assms]]]) (auto simp: triple_def)
    with Some show ?thesis by simp
  qed
qed

lemma keeps_ConversationCreate: "mongo_ok E \<Longrightarrow> keeps server_ok (ConversationCreate_perform E ws params)"
  unfolding ConversationCreate_perform_def createPrivateConversation_def createGroupConversation_def createChannelConversation_def
    validatePrivateConversationParticipant_def
  by (intro keeps_intros; (split conv_type.split)?; intro conjI impI keeps_intros; assumption)

lemma keeps_ConversationDelete:
  assumes "mongo_ok E"
  shows "keeps server_ok (ConversationDelete_perform E ws cid)"
  unfolding ConversationDelete_perform_def
proof (rule keeps_andThen[OF keeps_sessionOf], rule keeps_andThen_fact[where F = "\<lambda>c w. c \<in> set (conversations w)"])
  fix s
  show "triple server_ok (getConversationDetails E (s_organizationId s) cid (s_userId s)) (\<lambda>c w. server_ok w \<and> c \<in> set (conversations w)) server_ok"
    using hasAccess_stored[OF assms] by (auto simp: triple_def getConversationDetails_def split: option.splits)
  fix c
  show "triple (\<lambda>w. server_ok w \<and> c \<in> set (conversations w)) (andThen (removeParticipants E c [s_userId s]) (\<lambda>(_, conversation).
       if \<not> isEnabled E then ret (s_organizationId s, s_userId s, None)
       else andThen (gets (\<lambda>w. User_findById E w (s_userId s))) (\<lambda>currentUser.
         andThen (participantsActionEvent E LEFT conversation currentUser (s_userId s)) (\<lambda>ev.
           ret (s_organizationId s, s_userId s,
             Some [ev\<lparr>ev_cId := Some (c_id conversation), ev_participantIds :=
               (if c_type conversation = Private then Some (case c_opponent_id conversation of None \<Rightarrow> [] | Some o' \<Rightarrow> [o']) else None)\<rparr>])))))
     (\<lambda>_. server_ok) server_ok"
    by (rule triple_andThen[OF triple_removeParticipants[OF assms]], unfold keeps_triple[symmetric]) (intro keeps_intros assms)
qed

lemma keeps_ConversationSubscribe:
  assumes "mongo_ok E"
  shows "keeps server_ok (ConversationSubscribe_perform E ws ty cid)"
  unfolding ConversationSubscribe_perform_def
proof (rule keeps_andThen[OF keeps_sessionOf], rule keeps_andThen_fact[where F = "\<lambda>c w. c \<in> set (conversations w)"])
  fix s
  show "triple server_ok (retrieveConversation E (s_organizationId s) cid) (\<lambda>c w. server_ok w \<and> c \<in> set (conversations w)) server_ok"
    using stored_conversation[OF assms] by (auto simp: triple_def retrieveConversation_def split: option.splits)
  fix c
  show "triple (\<lambda>w. server_ok w \<and> c \<in> set (conversations w)) (case ty of
      Subscribe \<Rightarrow> andThen (addParticipants E c [s_userId s] False) (\<lambda>_. ret ())
    | Unsubscribe \<Rightarrow> andThen (removeParticipants E c [s_userId s]) (\<lambda>_. ret ())) (\<lambda>_. server_ok) server_ok"
  proof (cases ty)
    case Subscribe
    have "triple (\<lambda>w. server_ok w \<and> c \<in> set (conversations w)) (andThen (addParticipants E c [s_userId s] False) (\<lambda>_. ret ())) (\<lambda>_. server_ok) server_ok"
      by (rule triple_andThen[OF triple_pre[OF triple_addParticipants[OF assms]]]) (auto simp: triple_def)
    with Subscribe show ?thesis by simp
  next
    case Unsubscribe
    have "triple (\<lambda>w. server_ok w \<and> c \<in> set (conversations w)) (andThen (removeParticipants E c [s_userId s]) (\<lambda>_. ret ())) (\<lambda>_. server_ok) server_ok"
      by (rule triple_andThen[OF triple_removeParticipants[OF assms]]) (simp add: triple_def)
    with Unsubscribe show ?thesis by simp
  qed
qed

section \<open>Editing a conversation\<close>

lemma conv_ok_roles:
  assumes "conv_ok w" "\<And>p. cp_id (f p) = cp_id p" "\<And>p. cp_conversation_id (f p) = cp_conversation_id p" "\<And>p. cp_user_id (f p) = cp_user_id p"
  shows "conv_ok (w\<lparr>participants := map f (participants w)\<rparr>)"
proof -
  have m: "members_of k (w\<lparr>participants := map f (participants w)\<rparr>) = members_of k w" for k
    by (rule set_eqI) (simp add: members_of_iff assms(3,4))
  have "part_key \<circ> f = part_key" "cp_id \<circ> f = cp_id" by (simp_all add: fun_eq_iff part_key_def assms(2-4))
  then have "parts_ok (map f (participants w)) = parts_ok (participants w)" unfolding parts_ok_def by simp
  moreover have "cp_conversation_id ` set (map f (participants w)) = cp_conversation_id ` set (participants w)"
    by (simp add: image_image assms(3))
  ultimately show ?thesis using assms(1) m by (simp add: conv_ok_def counter_ok_def)
qed

lemma server_ok_updateAdmins:
  assumes "mongo_ok E" "server_ok w"
  shows "server_ok (updateAdmins E c ch w)"
proof -
  have role: "server_ok (w\<lparr>participants := updateMany (mg_participants E) P (\<lambda>p. p\<lparr>cp_role := x\<rparr>) (participants w)\<rparr>)" if "server_ok w" for w P x
    using that conv_ok_roles[of w "\<lambda>p. if P p then p\<lparr>cp_role := x\<rparr> else p"] assms(1) by (simp add: server_ok_def reactions_ok_def)
  show ?thesis unfolding updateAdmins_def addAdminRole_def removeAdminRole_def Let_def
    using role[OF assms(2)] role[OF role[OF assms(2)]] assms(2) by simp
qed

lemma keeps_finishEdit [keeps_intros]: "mongo_ok E \<Longrightarrow> keeps server_ok (finishEdit E s params c as rs)"
  unfolding finishEdit_def by (intro keeps_intros; (rule server_ok_updateAdmins)?; assumption)

lemma triple_ConversationRepo_update:
  assumes "mongo_ok E"
  shows "triple server_ok (ConversationRepo_update E cid u) (\<lambda>c w. server_ok w \<and> (\<forall>c'. c = Some c' \<longrightarrow> c' \<in> set (conversations w))) server_ok"
proof (rule tripleI)
  fix w c w' assume ok: "server_ok w" and run: "ConversationRepo_update E cid u w = (Inr c, w')"
  have u: "update_first (\<lambda>c. c_id c = cid) (setFields u) (conversations w) = at_conv cid (setFields u) (conversations w)"
    using ok by (simp add: server_ok_def conv_ok_def at_conv_def update_first_unique)
  have r: "c = map_option (setFields u) (List.find (\<lambda>c. c_id c = cid) (conversations w))"
    "w' = w\<lparr>conversations := at_conv cid (setFields u) (conversations w)\<rparr>"
    using run assms u by (simp_all add: ConversationRepo_update_def)
  have "conv_ok w'" unfolding r(2) by (rule conv_ok_at_conv) (use ok in \<open>simp_all add: setFields_def server_ok_def\<close>)
  moreover have "\<forall>c'. c = Some c' \<longrightarrow> c' \<in> set (conversations w')"
    unfolding r using find_Some_iff_set by (fastforce simp: at_conv_def)
  ultimately show "server_ok w' \<and> (\<forall>c'. c = Some c' \<longrightarrow> c' \<in> set (conversations w'))"
    using ok r(2) by (simp add: server_ok_def reactions_ok_def)
qed (simp add: ConversationRepo_update_def)

lemma triple_editParticipants:
  assumes "mongo_ok E"
  shows "triple (\<lambda>w. server_ok w \<and> c \<in> set (conversations w)) (editParticipants E c ch) (\<lambda>_. server_ok) server_ok"
proof -
  have upd: "triple (\<lambda>w. server_ok w \<and> c \<in> set (conversations w)) (updateParticipants E c as rs) (\<lambda>_. server_ok) server_ok" for as rs
    unfolding updateParticipants_def
  proof (rule triple_andThen[OF triple_pre[OF triple_addParticipants[OF assms]]], goal_cases)
    case (2 x)
    obtain added c1 where x: "x = (added, c1)" by (cases x)
    show ?case unfolding x prod.case
      by (rule triple_andThen[OF triple_removeParticipants[OF assms]]) (auto simp: triple_def)
  qed simp
  show ?thesis unfolding editParticipants_def
    by (rule triple_andThen[where Q' = "\<lambda>_ w. server_ok w \<and> c \<in> set (conversations w)"])
      (simp add: triple_def, simp add: upd split: prod.split)
qed

lemma keeps_ConversationEdit:
  assumes "mongo_ok E"
  shows "keeps server_ok (ConversationEdit_perform E ws params)"
  unfolding ConversationEdit_perform_def
proof (rule keeps_andThen[OF keeps_sessionOf], rule keeps_andThen)
  fix s
  show "keeps server_ok (ConversationEdit_hasAccess E (s_organizationId s) (ep_id params) (s_userId s))"
    unfolding ConversationEdit_hasAccess_def by (intro keeps_intros)
next
  fix s u
  let ?stored = "\<lambda>c w. server_ok w \<and> c \<in> set (conversations w)"
  have part: "triple (?stored c) (andThen (editParticipants E c ch) (\<lambda>(addedIds, removed, conversation1).
      if rr_isEmptyAndDeleted removed then ret None
      else andThen (finishEdit E s params conversation1 addedIds (rr_removedIds removed)) (\<lambda>r. ret (Some r)))) (\<lambda>_. server_ok) server_ok" for c ch
    by (rule triple_andThen[OF triple_editParticipants[OF assms]], unfold keeps_triple[symmetric]) (intro keeps_intros assms)
  have none: "triple (?stored c) (andThen (finishEdit E s params c [] []) (\<lambda>r. ret (Some r))) (\<lambda>_. server_ok) server_ok" for c
    by (rule triple_pre[of server_ok], unfold keeps_triple[symmetric]) (intro keeps_intros assms, simp)
  show "keeps server_ok (andThen (ConversationRepo_update E (ep_id params) (ep_fields params)) (\<lambda>updated.
     andThen (need updated) (\<lambda>conversation.
       if c_type conversation = Private
       then ret (Some \<lparr>ec_organizationId = s_organizationId s, ec_currentUserId = s_userId s, ec_conversation = conversation,
              ec_conversationEvents = None\<rparr>)
       else andThen (gets (\<lambda>w. case ep_admins params of None \<Rightarrow> []
              | Some ch \<Rightarrow> existedIds E w (c_organization_id conversation) (idsOf (add_ids ch)))) (\<lambda>adminsToAdd.
         case withAdmins adminsToAdd (ep_participants params) of
           None \<Rightarrow> andThen (finishEdit E s params conversation [] []) (\<lambda>r. ret (Some r))
         | Some changes \<Rightarrow> andThen (editParticipants E conversation changes) (\<lambda>(addedIds, removed, conversation1).
             if rr_isEmptyAndDeleted removed then ret None
             else andThen (finishEdit E s params conversation1 addedIds (rr_removedIds removed)) (\<lambda>r. ret (Some r)))))))"
  proof (rule keeps_andThen_fact[OF triple_ConversationRepo_update[OF assms]], rule triple_andThen[where Q' = ?stored], goal_cases)
    case (1 updated)
    show ?case by (cases updated) (auto simp: triple_def)
  next
    case (2 updated c)
    show ?case
    proof (cases "c_type c = Private")
      case False
      have "triple (?stored c) (case withAdmins x (ep_participants params) of
           None \<Rightarrow> andThen (finishEdit E s params c [] []) (\<lambda>r. ret (Some r))
         | Some changes \<Rightarrow> andThen (editParticipants E c changes) (\<lambda>(addedIds, removed, conversation1).
             if rr_isEmptyAndDeleted removed then ret None
             else andThen (finishEdit E s params conversation1 addedIds (rr_removedIds removed)) (\<lambda>r. ret (Some r)))) (\<lambda>_. server_ok) server_ok" for x
        using part none by (simp split: option.split)
      with False show ?thesis by (simp add: triple_def)
    qed (simp add: triple_def)
  qed
qed

section \<open>Requests on messages\<close>

lemma keeps_guards [keeps_intros]:
  assumes "mongo_ok E"
  shows "keeps I (MessageCreate_hasAccess E org cid u)" "keeps I (Message_hasAccess E org cid u)" "keeps I (MessageRead_hasAccess E org cid u)"
    "keeps I (MessageEdit_hasAccess E mid u)" "keeps I (Reactions_hasAccess E mid u)" "keeps I (validateRepliedMessageId E cid u r)"
    "keeps I (runHandler E c user p)"
proof -
  show "keeps I (MessageCreate_hasAccess E org cid u)" by (simp add: keeps_def posting.guard_readonly[OF assms])
  show "keeps I (Message_hasAccess E org cid u)" by (simp add: keeps_def viewing.guard_readonly[OF assms])
  show "keeps I (MessageRead_hasAccess E org cid u)" by (simp add: keeps_def reading.guard_readonly[OF assms])
  show "keeps I (MessageEdit_hasAccess E mid u)" "keeps I (Reactions_hasAccess E mid u)" "keeps I (validateRepliedMessageId E cid u r)"
    unfolding MessageEdit_hasAccess_def Reactions_hasAccess_def validateRepliedMessageId_def by (intro keeps_intros)+
  show "keeps I (runHandler E c user p)"
    unfolding runHandler_def prepareAndExecuteConversationHandler_def processHandlerResult_def by (intro keeps_intros)
qed

lemma keeps_createMessageNotification [keeps_intros]: "keeps server_ok (createMessageNotification E k c u m t)"
proof -
  have "server_ok (w\<lparr>entropy := n\<rparr>) = server_ok w" for w n by (rule server_ok_cong) simp_all
  then have "keeps server_ok (firstAttachmentUrl E (m_attachments m))"
    by (simp add: keeps_def firstAttachmentUrl_def andThen_def split: option.split list.split json.split)
  then show ?thesis unfolding createMessageNotification_def by (intro keeps_intros)
qed

lemma keeps_answerOfBot [keeps_intros]: "mongo_ok E \<Longrightarrow> keeps server_ok (answerOfBot E c r)"
  unfolding answerOfBot_def by (auto intro!: keeps_intros split: handler_response.split)

lemma server_ok_activity: "mongo_ok E \<Longrightarrow> server_ok w \<Longrightarrow> server_ok (updateLastActivity E cid t w)"
  using conversation_writes(3)[of E w cid t] conv_ok_at_conv[of w "\<lambda>c. c\<lparr>c_updated_at := t\<rparr>" cid]
  by (simp add: server_ok_def conv_okD(1) reactions_ok_def)

text \<open>
  Sending restores the conversation object the guard found. Nothing in between removes the object from the store.
\<close>

lemma triple_restoreConversation:
  assumes "mongo_ok E"
  shows "triple (\<lambda>w. server_ok w \<and> c \<in> set (conversations w)) (restoreConversation E c u) (\<lambda>_. server_ok) server_ok"
proof (cases "c_type c = Private")
  case True
  have k: "keeps server_ok (if missed \<noteq> [] \<and> isEnabled E
        then andThen (gets (\<lambda>w. User_findById E w u)) (\<lambda>u. andThen (need u) (\<lambda>user.
               gets (\<lambda>w. [(actionEvent w CREATE c user)\<lparr>ev_participantIds := Some missed\<rparr>])))
        else ret [])" for missed by (intro keeps_intros)
  have "triple (\<lambda>w. server_ok w \<and> c \<in> set (conversations w)) (andThen (restorePrivateConversation E c) (\<lambda>(missed, _).
       if missed \<noteq> [] \<and> isEnabled E
        then andThen (gets (\<lambda>w. User_findById E w u)) (\<lambda>u. andThen (need u) (\<lambda>user.
               gets (\<lambda>w. [(actionEvent w CREATE c user)\<lparr>ev_participantIds := Some missed\<rparr>])))
        else ret [])) (\<lambda>_. server_ok) server_ok"
    unfolding restorePrivateConversation_def
  proof (rule triple_andThen[OF triple_pre[OF triple_addParticipants[OF assms]]], goal_cases)
    case (2 x)
    obtain missed c1 where x: "x = (missed, c1)" by (cases x)
    show ?case unfolding x prod.case by (rule triple_pre[OF k[unfolded keeps_triple]]) simp
  qed simp
  with True show ?thesis by (simp add: restoreConversation_def)
qed (simp add: restoreConversation_def triple_def)

text \<open>Steps that leave the stored conversations alone, before an object from the store is used.\<close>

abbreviation stored :: "conversation \<Rightarrow> world \<Rightarrow> bool" where
  "stored c w \<equiv> server_ok w \<and> c \<in> set (conversations w)"

definition quiet :: "'a handler \<Rightarrow> bool" where
  "quiet m \<longleftrightarrow> (\<forall>w. server_ok w \<longrightarrow> server_ok (snd (m w)) \<and> conversations (snd (m w)) = conversations w)"

lemma quiet_readonly:
  assumes "\<And>I. keeps I m"
  shows "quiet m"
proof -
  have "snd (m w) = w" for w using assms[of "\<lambda>w'. w' = w"] by (simp add: keeps_def)
  then show ?thesis by (simp add: quiet_def)
qed

lemma quiet_andThen:
  assumes "quiet m" "\<And>x. triple (stored c) (f x) Q server_ok"
  shows "triple (stored c) (andThen m f) Q server_ok"
proof (rule triple_andThen[OF _ assms(2)], rule tripleI)
  fix w r w' assume "stored c w" "m w = (r, w')"
  then have "stored c w'" using assms(1) unfolding quiet_def by (metis snd_conv)
  then show "stored c w'" "server_ok w'" by simp_all
qed

lemma quiet_MessageService_create:
  assumes "mongo_ok E"
  shows "quiet (MessageService_create E user c p)"
  unfolding quiet_def
proof (intro allI impI conjI)
  fix w assume "server_ok w"
  then show "server_ok (snd (MessageService_create E user c p w))" using keeps_MessageService_create[OF assms] by (simp add: keeps_def)
  show "conversations (snd (MessageService_create E user c p w)) = conversations w"
    by (rule MessageService_create_run[OF assms, of user c p w]) simp
qed

lemma triple_prod: "(\<And>a b. triple P (f a b) Q R) \<Longrightarrow> triple P (case x of (a, b) \<Rightarrow> f a b) Q R"
  by (cases x) simp

lemma keeps_MessageCreate:
  assumes "mongo_ok E"
  shows "keeps server_ok (MessageCreate_perform E ws p)"
  unfolding MessageCreate_perform_def
proof (rule keeps_andThen[OF keeps_sessionOf], rule keeps_andThen[OF keeps_gets],
    rule keeps_andThen_fact[where F = "\<lambda>c w. c \<in> set (conversations w)"], goal_cases)
  case (1 s)
  show ?case
  proof (rule tripleI)
    fix w e w' assume "server_ok w" "MessageCreate_hasAccess E (s_organizationId s) (mp_cid p) (s_userId s) w = (Inl e, w')"
    then show "server_ok w'" using posting.guard_readonly[OF assms] by (metis snd_conv)
  next
    fix w c w' assume "server_ok w" "MessageCreate_hasAccess E (s_organizationId s) (mp_cid p) (s_userId s) w = (Inr c, w')"
    then show "server_ok w' \<and> c \<in> set (conversations w')"
      using posting.guard_sound[OF assms] conversationAt_Some by metis
  qed
next
  case (2 s u c)
  show ?case
    by (intro quiet_andThen triple_prod quiet_MessageService_create[OF assms] quiet_readonly keeps_guards[OF assms] keeps_need
        triple_andThen[OF triple_restoreConversation[OF assms]], unfold keeps_triple[symmetric])
      (intro keeps_intros assms server_ok_activity; assumption)
qed

lemma server_ok_filter: "server_ok w \<Longrightarrow> server_ok (w\<lparr>messages := filter P (messages w)\<rparr>)"
  by (rule server_ok_messages) auto

lemma server_ok_message_writes:
  assumes "mongo_ok E" "server_ok w"
  shows "server_ok (updateBody E mid b w)" "server_ok (deleteByIdsInConversation E mids cid org a w)"
    "server_ok (updateDeleteForUser E mids u cid org w)" "server_ok (deleteMessageByMids E mids w)" "server_ok (deleteByMidsAndCid E mids cid w)"
proof -
  have "distinct (map m_id (messages w))" using assms(2) by (simp add: server_ok_def)
  then show "server_ok (updateBody E mid b w)"
    using server_ok_messages[OF assms(2)] assms(1) by (simp add: updateBody_def update_first_unique comp_def if_distrib cong: if_cong)
  show "server_ok (deleteByIdsInConversation E mids cid org a w)" "server_ok (deleteMessageByMids E mids w)"
    using assms(1) by (simp_all add: deleteByIdsInConversation_def deleteMessageByMids_def server_ok_filter[OF assms(2)])
  have "map m_id (map (\<lambda>m. if P m then if Q m then m else m\<lparr>m_deleted_for := g m\<rparr> else m) ms) = map m_id ms" for P Q g ms by simp
  then show "server_ok (updateDeleteForUser E mids u cid org w)"
    using server_ok_messages[OF assms(2)] assms(1) by (simp add: updateDeleteForUser_def comp_def)
  show "server_ok (deleteByMidsAndCid E mids cid w)"
    using server_ok_cong[of "deleteByMidsAndCid E mids cid w" w] assms(2) by (simp add: deleteByMidsAndCid_def)
qed

lemma keeps_updateReactions [keeps_intros]:
  assumes "mongo_ok E"
  shows "keeps server_ok (updateReactions E mid u a b)"
proof -
  have frame: "server_ok w'" if "server_ok w" "reactions_frame E mid u w w'" for w w'
  proof -
    have "conversations w' = conversations w" "participants w' = participants w" "messages w' = messages w"
      using that(2) unfolding reactions_frame_def by (cases w, cases w', simp)+
    with that conv_ok_cong[of w' w] show ?thesis by (simp add: server_ok_def reactions_frame_def)
  qed
  have start: "reactions_frame E mid u w w" if "server_ok w" for w
    using that assms by (simp add: reactions_frame_def server_ok_def)
  have "keeps server_ok (Reaction_upsert E mid u r)" for r
  proof (rule keepsI)
    fix w x w' assume *: "server_ok w" "Reaction_upsert E mid u r w = (x, w')"
    with reactions.add_law[OF start, of w r] have "reactions_frame E mid u w w'" by auto
    with * frame show "server_ok w'" by blast
  qed
  moreover have "keeps server_ok (Reaction_remove E mid u r)" for r
  proof (rule keepsI)
    fix w x w' assume *: "server_ok w" "Reaction_remove E mid u r w = (x, w')"
    with reactions.del_law[OF start, of w r] have "reactions_frame E mid u w w'" by auto
    with * frame show "server_ok w'" by blast
  qed
  ultimately show ?thesis unfolding updateReactions_def by (intro keeps_intros)
qed

lemma keeps_message_requests:
  assumes "mongo_ok E"
  shows "keeps server_ok (MessageEdit_perform E ws mid body)" "keeps server_ok (MessageDelete_perform E ws cid mids everyone)"
    "keeps server_ok (MessageRead_perform E ws cid optMids only)" "keeps server_ok (ReactionsUpdate_perform E ws mid a b)"
    "keeps server_ok (MessageDecryptionFailed_perform E ws cid mids)"
proof -
  note ok = server_ok_message_writes[OF assms]
  show "keeps server_ok (MessageEdit_perform E ws mid body)" unfolding MessageEdit_perform_def
    by (intro keeps_intros assms ok)
  show "keeps server_ok (MessageDelete_perform E ws cid mids everyone)" unfolding MessageDelete_perform_def validateMessagesForDelete_def
    by (intro keeps_intros assms ok)
  show "keeps server_ok (MessageRead_perform E ws cid optMids only)" unfolding MessageRead_perform_def readMessagesInConversation_def
    by (intro keeps_intros assms) simp_all
  show "keeps server_ok (ReactionsUpdate_perform E ws mid a b)" unfolding ReactionsUpdate_perform_def
    by (intro keeps_intros assms)
  have "keeps server_ok (findOpponentId E cid u)" for u
    by (auto simp: keeps_def findOpponentId_def split: option.split)
  then show "keeps server_ok (MessageDecryptionFailed_perform E ws cid mids)" unfolding MessageDecryptionFailed_perform_def
    by (intro keeps_intros assms) simp_all
qed

lemma keeps_MessageList:
  assumes "mongo_ok E"
  shows "keeps server_ok (MessageList_perform E ws cid opts lim)"
proof -
  have enc: "server_ok (snd (getMidsByIdentityKey E k cid w)) = server_ok w" for k w
    by (rule server_ok_cong) (simp_all add: getMidsByIdentityKey_def Let_def)
  have "server_ok (snd (messagesList E cid u opts l e d w))" if "server_ok w" for u l e d w
    using that enc server_ok_message_writes[OF assms] by (auto simp: messagesList_def Let_def split: prod.split) (metis snd_conv)+
  then show ?thesis unfolding MessageList_perform_def by (intro keeps_intros assms)
qed

lemma keeps_block_requests:
  assumes "mongo_ok E"
  shows "keeps server_ok (BlockListBlock_perform E ws us)" "keeps server_ok (BlockListUnblock_perform E ws us)"
    "keeps server_ok (BlockListEnable_perform E ws b)"
proof -
  have b: "server_ok (w\<lparr>blocked_users := bs\<rparr>) = server_ok w" for w bs by (rule server_ok_cong) simp_all
  have "keeps server_ok (blockMany E org u vs)" for org u vs
    by (auto simp: keeps_def blockMany_def Let_def b split: prod.split option.split)
  then show "keeps server_ok (BlockListBlock_perform E ws us)" unfolding BlockListBlock_perform_def by (intro keeps_intros)
  show "keeps server_ok (BlockListUnblock_perform E ws us)" "keeps server_ok (BlockListEnable_perform E ws b')" for b'
    unfolding BlockListUnblock_perform_def BlockListEnable_perform_def unblock_def deleteBlockedUser_def BlockRepo_enable_def
    by (intro keeps_intros; simp add: b)+
qed

lemma keeps_handler_requests:
  assumes "mongo_ok E"
  shows "keeps server_ok (ConversationHandlerCreate_perform E ws cid content)" "keeps server_ok (ConversationHandlerDelete_perform E ws cid)"
proof -
  have h: "server_ok (w\<lparr>conversation_handlers := hs\<rparr>) = server_ok w" for w hs by (rule server_ok_cong) simp_all
  have v: "keeps server_ok (validateAccessToConversation E org cid u)" for org u
    by (auto simp: keeps_def validateAccessToConversation_def Let_def)
  have c: "keeps server_ok (createHandlerByConversationId E cid content u)" for u
    by (auto simp: keeps_def createHandlerByConversationId_def insertInto_def h split: option.split)
  show "keeps server_ok (ConversationHandlerCreate_perform E ws cid content)" "keeps server_ok (ConversationHandlerDelete_perform E ws cid)"
    unfolding ConversationHandlerCreate_perform_def ConversationHandlerDelete_perform_def updateExistedConversationHandler_def deleteConversationHandler_def
    by (intro keeps_intros v c; simp add: h)+
qed

end
