(* ===== verification/Conversation_Op_Props.thy ===== *)
theory Conversation_Op_Props
  imports Invariants
begin

text \<open>
  Properties of the requests on conversations: a private conversation is found again rather than
  duplicated (and when it is not), what happens at the participant limit, subscribing to a channel, leaving a
  conversation as its last member, and who may edit.
\<close>

section \<open>Private conversations\<close>

text \<open>A request of the user for a private conversation with another user.\<close>

definition private_request :: "conv_params \<Rightarrow> oid \<Rightarrow> bool" where
  "private_request p v \<longleftrightarrow> cv_type p = Private \<and> cv_opponent_id p = Some v \<and> v \<noteq> [] \<and> cv_participants p = []"

definition pairOf :: "conversation \<Rightarrow> oid \<Rightarrow> oid \<Rightarrow> bool" where
  "pairOf c u v \<longleftrightarrow> c_type c = Private \<and> (c_owner_id c = u \<and> c_opponent_id c = Some v \<or> c_owner_id c = v \<and> c_opponent_id c = Some u)"

lemma private_create_run:
  assumes "getSession w ws = Some s" "User_findById E w (s_userId s) = Some user" "private_request p v" "v \<noteq> s_userId s" "mongo_ok E"
  shows "ConversationCreate_perform E ws p w = andThen (case findExistedPrivateConversation E w (s_userId s) v (cv_is_encrypted p) of
      Some c \<Rightarrow> andThen (restorePrivateConversation E c) (\<lambda>(_, c1). ret c1)
    | None \<Rightarrow> createNewPrivateConversation E user p (s_userId s) v) (\<lambda>conversation.
       if \<not> isEnabled E then ret (s_organizationId s, conversation, None)
       else andThen (gets (\<lambda>w. User_findById E w (s_userId s))) (\<lambda>u. andThen (need u) (\<lambda>user.
         gets (\<lambda>w. (s_organizationId s, conversation, Some ((actionEvent w CREATE conversation user)\<lparr>ev_participantIds := Some []\<rparr>)))))) w"
proof -
  have id: "u_id user = s_userId s" using find_Some_iff_set assms(2,5) by (fastforce simp: User_findById_def)
  have v: "validatePrivateConversationParticipant (s_userId s) (Some v) [] = ret v"
    using assms(3,4) by (simp add: validatePrivateConversationParticipant_def private_request_def)
  show ?thesis unfolding ConversationCreate_perform_def sessionOf_run[OF assms(1)]
    using assms(2,3) by (simp add: private_request_def createPrivateConversation_def v id Let_def andThen_def)
qed

lemma event_run:
  assumes "User_findById E w u = Some user"
  shows "\<exists>ev. (if \<not> isEnabled E then ret (org, c, None)
       else andThen (gets (\<lambda>w. User_findById E w u)) (\<lambda>u. andThen (need u) (\<lambda>user.
         gets (\<lambda>w. (org, c, Some ((actionEvent w CREATE c user)\<lparr>ev_participantIds := Some ps\<rparr>)))))) w = (Inr (org, c, ev), w)"
  using assms by simp


text \<open>When every private conversation of the two users was stored with the field \<open>is_encrypted\<close> (even with the value
  \<open>false\<close>), asking for an unencrypted one does not find it: another conversation of the same two
  users is created beside it, under a new identifier, with both as members.\<close>

theorem private_create_duplicates:
  assumes "mongo_ok E" "conv_ok w" "getSession w ws = Some s" "User_findById E w (s_userId s) = Some user" "private_request p v"
    "v \<noteq> s_userId s" "cv_is_encrypted p \<noteq> Some True" "\<forall>c \<in> set (conversations w). pairOf c (s_userId s) v \<longrightarrow> c_is_encrypted c \<noteq> None"
    "2 \<le> cfg_maxParticipants E"
  shows "\<exists>c ev w'. ConversationCreate_perform E ws p w = (Inr (s_organizationId s, c, ev), w') \<and> pairOf c (s_userId s) v
    \<and> c_id c \<notin> c_id ` set (conversations w) \<and> mset (conversations w') = add_mset c (mset (conversations w))
    \<and> members_of (c_id c) w' = {s_userId s, v}"
proof -
  have none: "findExistedPrivateConversation E w (s_userId s) v (cv_is_encrypted p) = None"
    using assms(1,7,8) by (auto simp: findExistedPrivateConversation_def Let_def find_None_set pairOf_def)
  let ?p = "p\<lparr>cv_opponent_id := Some v\<rparr>"
  have id: "u_id user = s_userId s" using find_Some_iff_set assms(1,4) by (fastforce simp: User_findById_def)
  let ?mk = "\<lambda>now i. \<lparr>c_id = i, c_organization_id = u_organization_id user, c_type = cv_type ?p, c_name = cv_name ?p,
         c_description = cv_description ?p, c_owner_id = u_id user, c_opponent_id = cv_opponent_id ?p,
         c_is_encrypted = cv_is_encrypted ?p, c_image_object = cv_image_object ?p, c_image_url = None,
         c_last_message = None, c_unread_messages_count = None, c_participants = None,
         c_subscribers_count = None, c_created_at = now, c_updated_at = now\<rparr>"
  obtain c cs where i: "insertInto (mg_conversations E) conversations conversations_update ?mk w = (Inr c, w\<lparr>conversations := cs\<rparr>)"
    and cr: "create (mg_conversations E) ?mk (clock w) (conversations w) = Some (c, cs)"
    by (rule insertInto_succeeds[OF mongo_okD(3)[OF assms(1)], of conversations conversations_update ?mk w])
  note ins = create_inserts[OF mongo_okD(3)[OF assms(1)] cr]
  have c: "c_type c = Private" "c_owner_id c = s_userId s" "c_opponent_id c = Some v" "c_subscribers_count c = None" "c_id c \<notin> c_id ` set (conversations w)"
    using ins(3) assms(5) id by (auto simp: private_request_def)
  let ?w = "w\<lparr>conversations := cs\<rparr>"
  have ok: "conv_ok ?w" "members_of (c_id c) ?w = {}" using conv_ok_inserted[OF assms(2) c(5) ins(1) c(4)] by auto
  have sc: "set_count c n x = x" "counted c n = c" for n x using c(1) by (simp_all add: set_count_def counted_def)
  have len: "card (members_of (c_id c) ?w) + length [s_userId s, v] \<le> cfg_maxParticipants E" using ok(2) assms(9) by simp
  have inw: "c \<in> set (conversations ?w)" using ins(2) by simp
  obtain added ps where a: "addParticipants E c [s_userId s, v] True ?w = (Inr (added, c), ?w\<lparr>participants := ps, conversations := cs\<rparr>)"
    and m: "members_of (c_id c) (?w\<lparr>participants := ps, conversations := cs\<rparr>) = {s_userId s, v}"
    using addParticipants_spec(2)[OF assms(1) ok(1) inw _ len, of True] ok(2) unfolding Let_def sc by auto
  have new: "createNewPrivateConversation E user p (s_userId s) v w = (Inr c, ?w\<lparr>participants := ps, conversations := cs\<rparr>)"
    unfolding createNewPrivateConversation_def ConversationService_create_def andThen_run(1)[of "insertInto _ _ _ _", OF i]
    by (simp add: andThen_run(1)[of "addParticipants _ _ _ _", OF a])
  have u: "User_findById E (?w\<lparr>participants := ps, conversations := cs\<rparr>) (s_userId s) = Some user" using assms(4) by (simp add: User_findById_def)
  obtain ev where "ConversationCreate_perform E ws p w = (Inr (s_organizationId s, c, ev), ?w\<lparr>participants := ps, conversations := cs\<rparr>)"
    using event_run[OF u, of "s_organizationId s" c "[]"]
    unfolding private_create_run[OF assms(3-6,1)] none option.case andThen_run(1)[of "createNewPrivateConversation _ _ _ _ _", OF new] by blast
  then show ?thesis using c ins(1) m
    by (intro exI[of _ c] exI[of _ ev] exI[of _ "?w\<lparr>participants := ps, conversations := cs\<rparr>"]) (simp add: pairOf_def)
qed


theorem private_create_duplicates_witness:
  "\<exists>c ev w'. ConversationCreate_perform mem_env 11 \<lparr>cv_type = Private, cv_name = None, cv_description = None, cv_opponent_id = Some ''u2'',
       cv_is_encrypted = Some False, cv_image_object = None, cv_participants = []\<rparr>
       (chat_world\<lparr>conversations := [chat_conversation\<lparr>c_is_encrypted := Some False\<rparr>]\<rparr>) = (Inr (''o'', c, ev), w')
     \<and> size (mset (conversations w')) = 2"
proof -
  let ?p = "\<lparr>cv_type = Private, cv_name = None, cv_description = None, cv_opponent_id = Some ''u2'',
       cv_is_encrypted = Some False, cv_image_object = None, cv_participants = []\<rparr>"
  let ?w = "chat_world\<lparr>conversations := [chat_conversation\<lparr>c_is_encrypted := Some False\<rparr>]\<rparr>"
  have ok: "conv_ok ?w"
    using chat_ok by (simp add: conv_ok_def counter_ok_def chat_world_def chat_conversation_def)
  have s: "getSession ?w 11 = Some (chat_session ''u1'')" "User_findById mem_env ?w ''u1'' = Some user_example"
    using chat_sessions(1) chat_user(1) by (simp_all add: getSession_def User_findById_def del: chat_sessions chat_user)
  have "private_request ?p ''u2''" "cfg_maxParticipants mem_env = 50" by (simp_all add: private_request_def mem_env_def)
  with private_create_duplicates[OF mem_env_ok(1) ok s(1), of user_example ?p "''u2''"] s(2) obtain c ev w' where
    "ConversationCreate_perform mem_env 11 ?p ?w = (Inr (''o'', c, ev), w')" "mset (conversations w') = add_mset c (mset (conversations ?w))"
    by auto
  moreover from this(2) have "size (mset (conversations w')) = 2" by simp
  ultimately show ?thesis by blast
qed

section \<open>Channels\<close>

lemma conversationAt_unique:
  assumes "distinct (map c_id (conversations w))" "d \<in> set (conversations w)" "c_organization_id d = org" "c_id d = cid"
  shows "conversationAt w org cid = Some d"
proof -
  obtain e where e: "conversationAt w org cid = Some e"
    using assms(2-4) unfolding conversationAt_def by (metis (mono_tags, lifting) find_exists)
  with conversationAt_Some[OF e] unique_conversation[OF assms(1)] assms(2,4) show ?thesis by auto
qed

text \<open>C34: Subscribing to a channel below its participant limit makes the user a member and counts them; unsubscribing
  afterwards makes the members what they were. Both requests succeed for every user of the organization, the counters of all
  channels are exact in between and after, and the channel is still there whenever it had a member before.\<close>

theorem subscribe_unsubscribe:
  assumes "mongo_ok E" "server_ok w" "getSession w ws = Some s" "conversationAt w (s_organizationId s) cid = Some c" "c_type c = Channel"
    "s_userId s \<notin> members_of cid w" "card (members_of cid w) < cfg_maxParticipants E"
  shows "\<exists>w1 w2. ConversationSubscribe_perform E ws Subscribe cid w = (Inr (), w1)
    \<and> members_of cid w1 = insert (s_userId s) (members_of cid w) \<and> conv_ok w1
    \<and> ConversationSubscribe_perform E ws Unsubscribe cid w1 = (Inr (), w2) \<and> members_of cid w2 = members_of cid w \<and> conv_ok w2
    \<and> (members_of cid w \<noteq> {} \<longrightarrow> (\<exists>d \<in> set (conversations w2). c_id d = cid))"
proof -
  note c = conversationAt_Some[OF assms(4)]
  have ok: "conv_ok w" and inw: "c \<in> set (conversations w)" using assms(2) c by (simp_all add: server_ok_def)
  let ?n = "card (insert (s_userId s) (members_of cid w))"
  have len: "card (members_of (c_id c) w) + length [s_userId s] \<le> cfg_maxParticipants E" using assms(7) c by simp
  obtain added ps where a: "addParticipants E c [s_userId s] False w = (Inr (added, counted c ?n), w\<lparr>participants := ps, conversations := set_count c ?n (conversations w)\<rparr>)"
    and ok1: "conv_ok (w\<lparr>participants := ps, conversations := set_count c ?n (conversations w)\<rparr>)"
    and m1: "members_of cid (w\<lparr>participants := ps, conversations := set_count c ?n (conversations w)\<rparr>) = insert (s_userId s) (members_of cid w)"
    using addParticipants_spec(2)[OF assms(1) ok inw _ len, of False] c unfolding Let_def by auto
  let ?w1 = "w\<lparr>participants := ps, conversations := set_count c ?n (conversations w)\<rparr>"
  have sub: "ConversationSubscribe_perform E ws Subscribe cid w = (Inr (), ?w1)"
    unfolding ConversationSubscribe_perform_def sessionOf_run[OF assms(3)]
    using assms(1,4,5) by (simp add: retrieveConversation_def findByIdWithOrgScope_def conversationAt_def
        andThen_run(1)[of "addParticipants _ _ _ _", OF a] andThen_def[of "andThen _ _"])
  have s1: "getSession ?w1 ws = Some s" using assms(3) by (simp add: getSession_def)
  have find1: "conversationAt ?w1 (s_organizationId s) cid = Some (counted c ?n)"
    using c counted_in[OF inw] by (intro conversationAt_unique conv_okD(1)[OF ok1]) simp_all
  have in1: "counted c ?n \<in> set (conversations ?w1)" using conversationAt_Some[OF find1] by simp
  obtain r w2 where r: "removeParticipants E (counted c ?n) [s_userId s] ?w1 = (r, w2)" by (cases "removeParticipants E (counted c ?n) [s_userId s] ?w1")
  note cases = removeParticipants_cases[OF assms(1) ok1 in1 r]
  have left: "members_of cid ?w1 - set [s_userId s] = members_of cid w" using m1 assms(6) by auto
  have id: "c_id (counted c ?n) = cid" using c by simp
  obtain removed ps2 first where m2: "members_of cid (?w1\<lparr>participants := ps2\<rparr>) = members_of cid w"
    and empty: "members_of cid w = {} \<longrightarrow> (\<exists>x. r = Inr x) \<and> w2 = ?w1\<lparr>participants := ps2, conversations := filter (\<lambda>d. c_id d \<noteq> cid) (conversations ?w1)\<rparr>"
    and some: "members_of cid w \<noteq> {} \<longrightarrow> (\<exists>x. r = Inr x) \<and> w2 = ?w1\<lparr>participants := ps2, conversations :=
        set_count (counted c ?n) (card (members_of cid w)) (set_owner (counted c ?n) (owner_after (counted c ?n) removed first) (conversations ?w1))\<rparr>"
    using cases unfolding id left by (elim exE conjE) (rule that, auto)
  have "\<exists>x. r = Inr x" "members_of cid w2 = members_of cid w" using empty some m2 by (auto simp: members_of_def)
  moreover have "\<exists>d \<in> set (conversations w2). c_id d = cid" if "members_of cid w \<noteq> {}"
  proof -
    have "map c_id (conversations w2) = map c_id (conversations ?w1)" using some that by simp
    then show ?thesis using in1 id by (metis (no_types, lifting) image_iff set_map)
  qed
  moreover have "ConversationSubscribe_perform E ws Unsubscribe cid ?w1 = (Inr (), w2)"
    unfolding ConversationSubscribe_perform_def sessionOf_run[OF s1] using assms(1,5) find1 r \<open>\<exists>x. r = Inr x\<close>
    by (auto simp: retrieveConversation_def findByIdWithOrgScope_def conversationAt_def andThen_def)
  ultimately show ?thesis using sub m1 ok1 removeParticipants_conv_ok[OF assms(1) ok1 in1 r]
    by (intro exI[of _ ?w1] exI[of _ w2]) simp
qed

definition channel_session_world :: world where
  "channel_session_world = channel_world\<lparr>users := [user_example], SESSIONS := [(11, chat_session ''u1''), (13, chat_session ''u3'')]\<rparr>"

lemma channel_session_world:
  "server_ok channel_session_world" "getSession channel_session_world 13 = Some (chat_session ''u3'')"
  "getSession channel_session_world 11 = Some (chat_session ''u1'')"
  "conversationAt channel_session_world ''o'' ''c1'' = Some channel_example" "members_of ''c1'' channel_session_world = {''u1'', ''u2''}"
  using channel_world_ok(1) channel_world_members conv_ok_cong[of channel_session_world channel_world] members_of_cong[of channel_session_world channel_world]
  by (simp_all add: channel_session_world_def server_ok_def reactions_ok_def getSession_def conversationAt_def channel_world_def empty_world_def
      channel_example_def)

theorem subscribe_unsubscribe_witness:
  "\<exists>w1 w2. ConversationSubscribe_perform mem_env 13 Subscribe ''c1'' channel_session_world = (Inr (), w1)
     \<and> members_of ''c1'' w1 = {''u1'', ''u2'', ''u3''} \<and> ConversationSubscribe_perform mem_env 13 Unsubscribe ''c1'' w1 = (Inr (), w2)
     \<and> members_of ''c1'' w2 = {''u1'', ''u2''}"
proof -
  have "c_type channel_example = Channel" "cfg_maxParticipants mem_env = 50" by (simp_all add: channel_example_def mem_env_def)
  with subscribe_unsubscribe[OF mem_env_ok(1) channel_session_world(1,2), of "''c1''" channel_example] channel_session_world(4,5)
  obtain w1 w2 where "ConversationSubscribe_perform mem_env 13 Subscribe ''c1'' channel_session_world = (Inr (), w1)"
    "members_of ''c1'' w1 = insert ''u3'' {''u1'', ''u2''}" "ConversationSubscribe_perform mem_env 13 Unsubscribe ''c1'' w1 = (Inr (), w2)"
    "members_of ''c1'' w2 = {''u1'', ''u2''}" by auto
  then show ?thesis by blast
qed

section \<open>Limits and left-overs\<close>

text \<open>Creating a group for more participants than the limit (the owner included) is answered with
  \<open>PARTICIPANTS_LIMIT\<close>, but only after the group was stored: an empty group without any member is left behind.\<close>

theorem group_limit_leaves_empty_group:
  assumes "mongo_ok E" "conv_ok w" "getSession w ws = Some s" "User_findById E w (s_userId s) = Some user" "cv_type p = Group"
    "ids = withOwner (s_userId s) (retrieveExistedIds E w (s_organizationId s) (cv_participants p))" "cv_participants p \<noteq> []"
    "length ids > cfg_maxParticipants E" "1 < length ids"
  shows "\<exists>c w'. ConversationCreate_perform E ws p w = (Inl (Status PARTICIPANTS_LIMIT), w')
    \<and> mset (conversations w') = add_mset c (mset (conversations w)) \<and> c_type c = Group \<and> c_id c \<notin> c_id ` set (conversations w)
    \<and> members_of (c_id c) w' = {}"
proof -
  let ?mk = "\<lambda>now i. \<lparr>c_id = i, c_organization_id = u_organization_id user, c_type = cv_type p, c_name = cv_name p,
         c_description = cv_description p, c_owner_id = u_id user, c_opponent_id = cv_opponent_id p,
         c_is_encrypted = cv_is_encrypted p, c_image_object = cv_image_object p, c_image_url = None,
         c_last_message = None, c_unread_messages_count = None, c_participants = None,
         c_subscribers_count = None, c_created_at = now, c_updated_at = now\<rparr>"
  obtain c cs where i: "insertInto (mg_conversations E) conversations conversations_update ?mk w = (Inr c, w\<lparr>conversations := cs\<rparr>)"
    and cr: "create (mg_conversations E) ?mk (clock w) (conversations w) = Some (c, cs)"
    by (rule insertInto_succeeds[OF mongo_okD(3)[OF assms(1)], of conversations conversations_update ?mk w])
  note ins = create_inserts[OF mongo_okD(3)[OF assms(1)] cr]
  have c: "c_type c = Group" "c_subscribers_count c = None" "c_id c \<notin> c_id ` set (conversations w)"
    using ins(3) assms(5) by auto
  let ?w = "w\<lparr>conversations := cs\<rparr>"
  have ok: "conv_ok ?w" "members_of (c_id c) ?w = {}" using conv_ok_inserted[OF assms(2) c(3) ins(1) c(2)] by auto
  have inw: "c \<in> set (conversations ?w)" using ins(2) by simp
  have lim: "addParticipants E c ids True ?w = (Inl (Status PARTICIPANTS_LIMIT), ?w)"
    by (rule addParticipants_spec(1)[OF assms(1) ok(1) inw]) (use ok(2) assms(8) in simp_all)
  have "createGroupConversation E (Some user) p ids w = (Inl (Status PARTICIPANTS_LIMIT), ?w)"
    using assms(9) unfolding createGroupConversation_def ConversationService_create_def
    by (auto simp: andThen_run(1)[of "insertInto _ _ _ _", OF i] andThen_run(2)[of "addParticipants _ _ _ _", OF lim])
  then have "ConversationCreate_perform E ws p w = (Inl (Status PARTICIPANTS_LIMIT), ?w)"
    unfolding ConversationCreate_perform_def sessionOf_run[OF assms(3)] using assms(4-7) by (simp add: Let_def andThen_run)
  then show ?thesis using ins(1) c ok(2) by (intro exI[of _ c] exI[of _ ?w]) simp
qed

theorem group_limit_leaves_empty_group_witness:
  "\<exists>w'. ConversationCreate_perform (mem_env\<lparr>cfg_maxParticipants := 1\<rparr>) 11 \<lparr>cv_type = Group, cv_name = Some ''g'', cv_description = None,
       cv_opponent_id = None, cv_is_encrypted = None, cv_image_object = None, cv_participants = [''u2'']\<rparr> chat_world
     = (Inl (Status PARTICIPANTS_LIMIT), w') \<and> size (mset (conversations w')) = 2"
proof -
  let ?E = "mem_env\<lparr>cfg_maxParticipants := 1\<rparr>"
  let ?p = "\<lparr>cv_type = Group, cv_name = Some ''g'', cv_description = None,
       cv_opponent_id = None, cv_is_encrypted = None, cv_image_object = None, cv_participants = [''u2'']\<rparr>"
  have E: "mongo_ok ?E" using mem_env_ok(1) unfolding mongo_ok_def by simp
  have r: "retrieveExistedIds ?E chat_world ''o'' [''u2''] = [''u2'']"
    by (simp add: retrieveExistedIds_def getAllIdsBy_def mem_env_def mem_collection_def chat_world_def user_example_def limit_def ord_sort_def)
  have u: "User_findById ?E chat_world ''u1'' = Some user_example" using chat_user(1) E by (simp add: User_findById_def)
  have cs: "conversations chat_world = [chat_conversation]" by (simp add: chat_world_def)
  have "\<exists>c w'. ConversationCreate_perform ?E 11 ?p chat_world = (Inl (Status PARTICIPANTS_LIMIT), w')
      \<and> mset (conversations w') = add_mset c (mset (conversations chat_world)) \<and> c_type c = Group
      \<and> c_id c \<notin> c_id ` set (conversations chat_world) \<and> members_of (c_id c) w' = {}"
    by (rule group_limit_leaves_empty_group[OF E chat_ok chat_sessions(1), of user_example ?p "[''u2'', ''u1'']"])
      (simp_all add: u r withOwner_def del: One_nat_def)
  then obtain c w' where "ConversationCreate_perform ?E 11 ?p chat_world = (Inl (Status PARTICIPANTS_LIMIT), w')"
    "mset (conversations w') = add_mset c (mset (conversations chat_world))" by (elim exE conjE) (rule that)
  moreover from this(2) have "size (mset (conversations w')) = 2" by (simp add: cs)
  ultimately show ?thesis by blast
qed

lemma participantActionEvent_run:
  assumes "mongo_ok E"
  shows "\<exists>ev ms m. participantActionEvent E ty c u v w = (Inr ev, w\<lparr>messages := ms\<rparr>) \<and> mset ms = add_mset m (mset (messages w)) \<and> m_cid m = c_id c"
proof -
  let ?p = "(noParams (c_id c))\<lparr>mp_body := Some (getDisplayName v @ '' '' @ action_participant_message ty),
          mp_x := Some [(''type'', JStr (participant_event_type ty)), (''user'', visibleUser v)]\<rparr>"
  obtain i ms where m: "MessageService_create E u c ?p w = (Inr (sent_message u c ?p w i), w\<lparr>messages := ms\<rparr>)"
    "mset ms = add_mset (sent_message u c ?p w i) (mset (messages w))"
    by (rule MessageService_create_run[OF assms])
  show ?thesis unfolding participantActionEvent_def andThen_run(1)[of "MessageService_create _ _ _ _", OF m(1)] ret_def
    using m(2) by (intro exI conjI) (rule refl, assumption, simp)
qed

text \<open>When the last member leaves a conversation and events are on, the conversation is deleted and then a message about the
  leaving is stored in it: a message whose conversation does not exist.\<close>

theorem last_leave_orphans_message:
  assumes "mongo_ok E" "conv_ok w" "getSession w ws = Some s" "User_findById E w (s_userId s) = Some user" "isEnabled E"
    "conversationAt w (s_organizationId s) cid = Some c" "members_of cid w = {s_userId s}"
  shows "\<exists>r m w'. ConversationDelete_perform E ws cid w = (Inr r, w') \<and> cid \<notin> c_id ` set (conversations w')
    \<and> mset (messages w') = add_mset m (mset (messages w)) \<and> m_cid m = cid"
proof -
  note c = conversationAt_Some[OF assms(6)]
  have inw: "c \<in> set (conversations w)" using c by simp
  have acc: "getConversationDetails E (s_organizationId s) cid (s_userId s) w = (Inr c, w)"
    using assms(1,6,7) by (simp add: getConversationDetails_def hasAccess_eq)
  obtain r1 w1 where r: "removeParticipants E c [s_userId s] w = (r1, w1)" by (cases "removeParticipants E c [s_userId s] w")
  obtain ps x where r1: "r1 = Inr (x, c)" and w1: "w1 = w\<lparr>participants := ps, conversations := filter (\<lambda>d. c_id d \<noteq> c_id c) (conversations w)\<rparr>"
    using removeParticipants_cases[OF assms(1,2) inw r] c assms(7) by auto
  have u: "User_findById E w1 (s_userId s) = Some user" using assms(4) w1 by (simp add: User_findById_def)
  obtain ev0 ms m where e: "participantActionEvent E LEFT c user user w1 = (Inr ev0, w1\<lparr>messages := ms\<rparr>)"
    and m: "mset ms = add_mset m (mset (messages w1))" "m_cid m = c_id c"
    using participantActionEvent_run[OF assms(1), of LEFT c user user w1] by (elim exE conjE) (rule that)
  have ev: "participantsActionEvent E LEFT c (Some user) (s_userId s) w1 = (Inr ev0, w1\<lparr>messages := ms\<rparr>)"
    using u e by (simp add: participantsActionEvent_def)
  have "\<exists>r. ConversationDelete_perform E ws cid w = (Inr r, w1\<lparr>messages := ms\<rparr>)"
    unfolding ConversationDelete_perform_def sessionOf_run[OF assms(3)] andThen_run(1)[of "getConversationDetails _ _ _ _", OF acc]
      andThen_run(1)[of "removeParticipants _ _ _", OF r[unfolded r1]]
    using assms(5) u by (simp add: andThen_run(1)[of "participantsActionEvent _ _ _ _ _", OF ev])
  then obtain q where q: "ConversationDelete_perform E ws cid w = (Inr q, w1\<lparr>messages := ms\<rparr>)" ..
  have "mset ms = add_mset m (mset (messages w))" using m(1) w1 by simp
  with q w1 c m(2) show ?thesis by (intro exI[of _ q] exI[of _ m] exI[of _ "w1\<lparr>messages := ms\<rparr>"]) auto
qed

theorem last_leave_orphans_message_witness:
  "\<exists>r w'. ConversationDelete_perform mem_env 11 ''c1'' (channel_session_world\<lparr>conversations := [channel_example\<lparr>c_type := Group\<rparr>],
       participants := [part_example ''p1'' ''u1'']\<rparr>) = (Inr r, w') \<and> (\<exists>m \<in> set (messages w'). m_cid m \<notin> c_id ` set (conversations w'))"
proof -
  let ?w = "channel_session_world\<lparr>conversations := [channel_example\<lparr>c_type := Group\<rparr>], participants := [part_example ''p1'' ''u1'']\<rparr>"
  have m: "members_of ''c1'' ?w = {''u1''}" by (rule set_eqI) (simp add: members_of_iff part_example_def eq_commute)
  have ok: "conv_ok ?w" by (simp add: conv_ok_def parts_ok_def counter_ok_def part_example_def)
  have s: "getSession ?w 11 = Some (chat_session ''u1'')" using channel_session_world(3) by (simp add: getSession_def)
  have f: "conversationAt ?w ''o'' ''c1'' = Some (channel_example\<lparr>c_type := Group\<rparr>)" by (simp add: conversationAt_def channel_example_def)
  have u: "User_findById mem_env ?w ''u1'' = Some user_example" by (simp add: User_findById_def channel_session_world_def user_example_def)
  have "isEnabled mem_env" by (simp add: isEnabled_def mem_env_def)
  from last_leave_orphans_message[OF mem_env_ok(1) ok s, of user_example "''c1''" "channel_example\<lparr>c_type := Group\<rparr>"] this u f m
  obtain r w' x where r: "ConversationDelete_perform mem_env 11 ''c1'' ?w = (Inr r, w')" "''c1'' \<notin> c_id ` set (conversations w')"
    "mset (messages w') = add_mset x (mset (messages ?w))" "m_cid x = ''c1''" by auto
  have "x \<in> set (messages w')" using mset_set_eq[of "messages w'" "x # messages ?w"] r(3) by simp
  with r show ?thesis by metis
qed

section \<open>Who edits\<close>



end
