(* ===== verification/Activity_Props.thy ===== *)
theory Activity_Props
  imports Activity
begin

text \<open>
  What the activity managers promise. The specification is the list of subscriptions (observer, target) in the
  order they were made, at most one per observer. The locale \<open>activity_store\<close> states that a manager represents such a
  list; the memory manager, the Redis manager and the manager a node chooses are its interpretations, so they
  agree with each other on every sequence of subscriptions.
\<close>

section \<open>The specification\<close>

type_synonym subscriptions = "(oid \<times> oid) list"

definition watchers :: "subscriptions \<Rightarrow> oid \<Rightarrow> oid list" where
  "watchers ps t = map fst (filter (\<lambda>p. snd p = t) ps)"

definition withoutObserver :: "oid \<Rightarrow> subscriptions \<Rightarrow> subscriptions" where
  "withoutObserver u ps = filter (\<lambda>p. fst p \<noteq> u) ps"

datatype activity_action = Watch oid oid | Unwatch oid

fun specAction :: "activity_action \<Rightarrow> subscriptions \<Rightarrow> subscriptions" where
  "specAction (Watch u t) ps = withoutObserver u ps @ [(u, t)]"
| "specAction (Unwatch u) ps = withoutObserver u ps"

fun runAction :: "(oid \<Rightarrow> oid \<Rightarrow> 's \<Rightarrow> 's) \<Rightarrow> (oid \<Rightarrow> 's \<Rightarrow> 's) \<Rightarrow> activity_action \<Rightarrow> 's \<Rightarrow> 's" where
  "runAction sub unsub (Watch u t) s = sub u t s"
| "runAction sub unsub (Unwatch u) s = unsub u s"

text \<open>Identifiers that survive being joined by commas: all renderings of an \<open>ObjectId\<close> do.\<close>

definition plainId :: "oid \<Rightarrow> bool" where
  "plainId u \<longleftrightarrow> u \<noteq> [] \<and> CHR '','' \<notin> set u"

fun plainAction :: "activity_action \<Rightarrow> bool" where
  "plainAction (Watch u t) \<longleftrightarrow> plainId u \<and> plainId t"
| "plainAction (Unwatch u) \<longleftrightarrow> plainId u"

lemma watchers_simps [simp]:
  "watchers [] t = []"
  "watchers (ps @ [(u, t')]) t = watchers ps t @ (if t' = t then [u] else [])"
  "watchers (withoutObserver u ps) t = removeAll u (watchers ps t)"
  by (simp_all add: watchers_def withoutObserver_def)
    (induction ps, auto)

lemma set_watchers: "set (watchers ps t) = {u. (u, t) \<in> set ps}"
  by (force simp: watchers_def)

lemma distinct_watchers: "distinct (map fst ps) \<Longrightarrow> distinct (watchers ps t)"
  by (simp add: watchers_def distinct_map_filter)

lemma map_of_withoutObserver [simp]: "map_of (withoutObserver u ps) = (map_of ps)(u := None)"
  by (induction ps) (auto simp: withoutObserver_def)

lemma withoutObserver_simps [simp]:
  "set (withoutObserver u ps) = {p \<in> set ps. fst p \<noteq> u}"
  "distinct (map fst ps) \<Longrightarrow> distinct (map fst (withoutObserver u ps))"
  by (auto simp: withoutObserver_def distinct_map_filter)

lemma map_of_subscribed [simp]: "map_of (withoutObserver u ps @ [(u, t)]) = (map_of ps)(u \<mapsto> t)"
  by (auto simp: map_add_def fun_eq_iff split: option.split)

lemma watchers_other:
  assumes "distinct (map fst ps)" "map_of ps u \<noteq> Some t"
  shows "removeAll u (watchers ps t) = watchers ps t" "u \<notin> set (watchers ps t)"
  using assms by (auto simp: set_watchers intro!: removeAll_id)

lemma distinct_specAction: "distinct (map fst ps) \<Longrightarrow> distinct (map fst (specAction a ps))"
  by (cases a) auto

section \<open>The interface\<close>

locale activity_store =
  fixes rep :: "'s \<Rightarrow> subscriptions \<Rightarrow> bool"
    and subscribers :: "'s \<Rightarrow> oid \<Rightarrow> oid list"
    and sub :: "oid \<Rightarrow> oid \<Rightarrow> 's \<Rightarrow> 's"
    and unsub :: "oid \<Rightarrow> 's \<Rightarrow> 's"
  assumes one_target: "rep s ps \<Longrightarrow> distinct (map fst ps)"
    and lists: "rep s ps \<Longrightarrow> subscribers s t = watchers ps t"
    and subscribes: "rep s ps \<Longrightarrow> plainId u \<Longrightarrow> plainId t \<Longrightarrow> rep (sub u t s) (withoutObserver u ps @ [(u, t)])"
    and unsubscribes: "rep s ps \<Longrightarrow> plainId u \<Longrightarrow> rep (unsub u s) (withoutObserver u ps)"
begin

lemma simulates:
  "rep s ps \<Longrightarrow> list_all plainAction as \<Longrightarrow> rep (fold (runAction sub unsub) as s) (fold specAction as ps)"
proof (induction as arbitrary: s ps)
  case (Cons a as)
  then have "rep (runAction sub unsub a s) (specAction a ps)"
    by (cases a) (auto intro: subscribes unsubscribes)
  with Cons show ?case by simp
qed simp

lemma answers:
  "rep s ps \<Longrightarrow> list_all plainAction as \<Longrightarrow>
     subscribers (fold (runAction sub unsub) as s) t = watchers (fold specAction as ps) t"
  by (rule lists[OF simulates])

lemma exclusive: "rep s ps \<Longrightarrow> t \<noteq> t' \<Longrightarrow> set (subscribers s t) \<inter> set (subscribers s t') = {}"
  using one_target[of s ps] by (auto simp: lists set_watchers dest: eq_key_imp_eq_value)

end

section \<open>The memory manager\<close>

definition memory_rep :: "world \<Rightarrow> subscriptions \<Rightarrow> bool" where
  "memory_rep w ps \<longleftrightarrow> distinct (map fst ps) \<and> SUBSCRIBED_TO w = map_of ps \<and> observersOf w = watchers ps"

lemma observersOf_update [simp]:
  "observersOf (w\<lparr>SUBSCRIBERS := (SUBSCRIBERS w)(t \<mapsto> os)\<rparr>) = (observersOf w)(t := os)"
  "observersOf (w\<lparr>SUBSCRIBED_TO := f\<rparr>) = observersOf w"
  by (auto simp: observersOf_def fun_eq_iff)

lemma observersOf_delete: "observersOf (Standalone_deleteSubscriber t u w) = (observersOf w)(t := removeAll u (observersOf w t))"
  by (auto simp: Standalone_deleteSubscriber_def fun_eq_iff observersOf_def split: option.split)

lemma SUBSCRIBED_TO_delete [simp]: "SUBSCRIBED_TO (Standalone_deleteSubscriber t u w) = SUBSCRIBED_TO w"
  by (simp add: Standalone_deleteSubscriber_def split: option.split)

lemma watchers_remove:
  assumes "distinct (map fst ps)" "\<And>t. map_of ps u = Some t \<Longrightarrow> t = t0"
  shows "(watchers ps)(t0 := removeAll u (watchers ps t0)) = watchers (withoutObserver u ps)"
proof (rule ext)
  fix t
  show "((watchers ps)(t0 := removeAll u (watchers ps t0))) t = watchers (withoutObserver u ps) t"
    using watchers_other(1)[OF assms(1), of u t] assms(2) by (cases "map_of ps u = Some t") auto
qed

lemma memory_unsubscribes:
  assumes "memory_rep w ps"
  shows "memory_rep (Standalone_unsubscribeObserver u w) (withoutObserver u ps)"
proof -
  let ?t = "case map_of ps u of None \<Rightarrow> ''undefined'' | Some t \<Rightarrow> t"
  have "(watchers ps)(?t := removeAll u (watchers ps ?t)) = watchers (withoutObserver u ps)"
    using assms by (intro watchers_remove) (auto simp: memory_rep_def)
  with assms show ?thesis
    by (simp add: memory_rep_def Standalone_unsubscribeObserver_def Standalone_deleteSubscribeTarget_def
        Standalone_subscribeTarget_def observersOf_delete Let_def del: watchers_simps)
qed

lemma watchers_subscribe:
  "watchers (withoutObserver u ps @ [(u, t)]) = (watchers (withoutObserver u ps))(t := removeAll u (watchers ps t) @ [u])"
  by auto

lemma observersOf_add:
  "observersOf (Standalone_addSubscriber t u w) = (observersOf w)(t := if u \<in> set (observersOf w t) then observersOf w t
     else observersOf w t @ [u])"
  "SUBSCRIBED_TO (Standalone_addSubscriber t u w) = SUBSCRIBED_TO w"
  by (simp_all add: Standalone_addSubscriber_def Let_def)

lemma memory_subscribes:
  assumes "memory_rep w ps"
  shows "memory_rep (Standalone_subscribeObserverToTarget u t w) (withoutObserver u ps @ [(u, t)])"
proof -
  have "memory_rep (Standalone_unsubscribeObserver u w) (withoutObserver u ps)" by (rule memory_unsubscribes[OF assms])
  then show ?thesis
    unfolding memory_rep_def Standalone_subscribeObserverToTarget_def Standalone_addSubscribeTarget_def watchers_subscribe
      map_of_subscribed observersOf_add by auto
qed

interpretation memory: activity_store memory_rep Standalone_subscribers Standalone_subscribeObserverToTarget
  Standalone_unsubscribeObserver
  by unfold_locales (simp_all add: memory_unsubscribes memory_subscribes, simp_all add: memory_rep_def Standalone_subscribers_def)

section \<open>The Redis manager\<close>

text \<open>The representation includes that the commands of Redis behave as documented.\<close>

definition cluster_rep :: "redis_ops \<Rightarrow> redis_store \<Rightarrow> subscriptions \<Rightarrow> bool" where
  "cluster_rep R st ps \<longleftrightarrow> redis_ok R \<and> distinct (map fst ps) \<and> (\<forall>p \<in> set ps. plainId (fst p) \<and> plainId (snd p)) \<and>
     Cluster_subscribeTarget R st = map_of ps \<and> Cluster_subscribers R st = watchers ps"

lemma activity_keys_apart [simp]: "SUBSCRIBED_TO_KEY \<noteq> SUBSCRIBERS_KEY" "SUBSCRIBERS_KEY \<noteq> SUBSCRIBED_TO_KEY"
  by (simp_all add: SUBSCRIBED_TO_KEY_def SUBSCRIBERS_KEY_def)

text \<open>The observers written as one field are read back, except that an empty list is written as the empty string.\<close>

lemma split_join_plain: "\<forall>u \<in> set us. plainId u \<Longrightarrow> us \<noteq> [] \<Longrightarrow> split_on (CHR '','') (join_with (CHR '','') us) = us"
  by (intro split_join) (auto simp: plainId_def)

lemma join_nonempty: "u \<in> set us \<Longrightarrow> plainId u \<Longrightarrow> join_with (CHR '','') us \<noteq> []"
  by (induction "CHR '',''" us rule: join_with.induct) (auto simp: plainId_def)

lemma Cluster_subscribers_write:
  assumes "redis_ok R" "us \<noteq> []" "\<forall>u \<in> set us. plainId u"
  shows "Cluster_subscribers R (rd_hSet R SUBSCRIBERS_KEY [(t, join_with (CHR '','') us)] st) = (Cluster_subscribers R st)(t := us)"
proof -
  have "join_with (CHR '','') us \<noteq> []" using assms(2,3) join_nonempty[of "hd us" us] by simp
  then show ?thesis using assms split_join_plain[OF assms(3,2)]
    by (auto simp: Cluster_subscribers_def fun_eq_iff)
qed

lemma Cluster_subscribers_clear:
  "redis_ok R \<Longrightarrow> Cluster_subscribers R (Cluster_clearSubscribed R t st) = (Cluster_subscribers R st)(t := [])"
  by (auto simp: Cluster_subscribers_def Cluster_clearSubscribed_def fun_eq_iff restrict_map_def)

lemma Cluster_targets:
  assumes "redis_ok R"
  shows "Cluster_subscribeTarget R (Cluster_deleteSubscribeTarget R u st) = (Cluster_subscribeTarget R st)(u := None)"
    "t \<noteq> [] \<Longrightarrow> Cluster_subscribeTarget R (Cluster_addSubscribeTarget R u t st) = (Cluster_subscribeTarget R st)(u \<mapsto> t)"
    "Cluster_subscribers R (Cluster_deleteSubscribeTarget R u st) = Cluster_subscribers R st"
    "Cluster_subscribers R (Cluster_addSubscribeTarget R u t st) = Cluster_subscribers R st"
    "Cluster_subscribeTarget R (Cluster_clearSubscribed R t st) = Cluster_subscribeTarget R st"
    "Cluster_subscribeTarget R (rd_hSet R SUBSCRIBERS_KEY kvs st) = Cluster_subscribeTarget R st"
  using assms by (auto simp: Cluster_subscribeTarget_def Cluster_deleteSubscribeTarget_def Cluster_addSubscribeTarget_def
      Cluster_clearSubscribed_def Cluster_subscribers_def fun_eq_iff restrict_map_def)

lemma js_set_distinct: "distinct xs \<Longrightarrow> js_set xs = xs"
  by (simp add: js_set_def distinct_remdups_id)

lemma Cluster_delete:
  assumes "redis_ok R" "distinct (Cluster_subscribers R st t)" "\<forall>v \<in> set (Cluster_subscribers R st t). plainId v"
  shows "Cluster_subscribers R (Cluster_deleteSubscriber R t u st) =
      (Cluster_subscribers R st)(t := removeAll u (Cluster_subscribers R st t))"
    "Cluster_subscribeTarget R (Cluster_deleteSubscriber R t u st) = Cluster_subscribeTarget R st"
  using assms by (auto simp: Cluster_deleteSubscriber_def Let_def js_set_distinct Cluster_subscribers_clear
      Cluster_subscribers_write Cluster_targets)

lemma Cluster_add:
  assumes "redis_ok R" "distinct (Cluster_subscribers R st t)" "\<forall>v \<in> set (Cluster_subscribers R st t). plainId v"
    "plainId u" "u \<notin> set (Cluster_subscribers R st t)"
  shows "Cluster_subscribers R (Cluster_addSubscriber R t u st) =
      (Cluster_subscribers R st)(t := Cluster_subscribers R st t @ [u])"
    "Cluster_subscribeTarget R (Cluster_addSubscriber R t u st) = Cluster_subscribeTarget R st"
proof -
  have "js_set (Cluster_subscribers R st t @ [u]) = Cluster_subscribers R st t @ [u]"
    using assms by (intro js_set_distinct) simp
  then show "Cluster_subscribers R (Cluster_addSubscriber R t u st) =
      (Cluster_subscribers R st)(t := Cluster_subscribers R st t @ [u])"
    "Cluster_subscribeTarget R (Cluster_addSubscriber R t u st) = Cluster_subscribeTarget R st"
    using assms by (auto simp: Cluster_addSubscriber_def Let_def Cluster_subscribers_write Cluster_targets)
qed

lemma cluster_repD:
  assumes "cluster_rep R st ps"
  shows "redis_ok R" "distinct (map fst ps)" "Cluster_subscribeTarget R st = map_of ps" "Cluster_subscribers R st = watchers ps"
    "\<And>t. distinct (watchers ps t)" "\<And>t u. u \<in> set (watchers ps t) \<Longrightarrow> plainId u"
  using assms by (auto simp: cluster_rep_def distinct_watchers set_watchers)

lemma cluster_unsubscribes:
  assumes rep: "cluster_rep R st ps"
  shows "cluster_rep R (Cluster_unsubscribeObserver R u st) (withoutObserver u ps)"
proof -
  note D = cluster_repD[OF rep]
  let ?st = "Cluster_unsubscribeObserver R u st"
  have "Cluster_subscribers R ?st = watchers (withoutObserver u ps) \<and> Cluster_subscribeTarget R ?st = map_of (withoutObserver u ps)"
  proof (cases "map_of ps u")
    case None
    then have "watchers (withoutObserver u ps) = watchers ps" using watchers_other(1)[OF D(2)] by auto
    then show ?thesis using None D by (simp add: Cluster_unsubscribeObserver_def Let_def Cluster_targets)
  next
    case (Some t)
    then have "(watchers ps)(t := removeAll u (watchers ps t)) = watchers (withoutObserver u ps)"
      by (intro watchers_remove[OF D(2)]) simp
    then show ?thesis using Some D
      by (simp add: Cluster_unsubscribeObserver_def Let_def Cluster_targets Cluster_delete)
  qed
  with rep show ?thesis by (simp add: cluster_rep_def)
qed

lemma cluster_subscribes:
  assumes rep: "cluster_rep R st ps" and plain: "plainId u" "plainId t"
  shows "cluster_rep R (Cluster_subscribeObserverToTarget R u t st) (withoutObserver u ps @ [(u, t)])"
proof -
  have un: "cluster_rep R (Cluster_unsubscribeObserver R u st) (withoutObserver u ps)" by (rule cluster_unsubscribes[OF rep])
  note D = cluster_repD[OF un]
  have plains: "\<forall>v \<in> set (watchers (withoutObserver u ps) t). plainId v" using D(6) by blast
  have nonempty: "t \<noteq> []" using plain(2) by (simp add: plainId_def)
  have "Cluster_subscribers R (Cluster_subscribeObserverToTarget R u t st) = watchers (withoutObserver u ps @ [(u, t)])"
    using D(1,4,5) plains plain by (simp add: Cluster_subscribeObserverToTarget_def Cluster_add Cluster_targets watchers_subscribe)
  moreover have "Cluster_subscribeTarget R (Cluster_subscribeObserverToTarget R u t st) = (map_of ps)(u \<mapsto> t)"
    using D(1,3,4,5) plains plain nonempty by (simp add: Cluster_subscribeObserverToTarget_def Cluster_add Cluster_targets)
  moreover have "distinct (map fst (withoutObserver u ps @ [(u, t)]))" using D(2) by auto
  ultimately show ?thesis using un plain unfolding cluster_rep_def map_of_subscribed by auto
qed

interpretation cluster: activity_store "cluster_rep R" "Cluster_subscribers R" "Cluster_subscribeObserverToTarget R"
  "Cluster_unsubscribeObserver R" for R
  by unfold_locales (simp_all add: cluster_unsubscribes cluster_subscribes, simp_all add: cluster_rep_def)

section \<open>The manager of a node\<close>

definition node_rep :: "env \<Rightarrow> world \<Rightarrow> subscriptions \<Rightarrow> bool" where
  "node_rep E w ps \<longleftrightarrow> (if cfg_isStandAloneNode E then memory_rep w ps else cluster_rep (rd E) (redis w) ps)"

interpretation node: activity_store "node_rep E" "activitySubscribers E" "subscribeObserverToTarget E" "unsubscribeObserver E" for E
  using memory.one_target cluster.one_target memory.lists cluster.lists memory.subscribes cluster.subscribes
    memory.unsubscribes cluster.unsubscribes
  by unfold_locales (auto simp: node_rep_def activitySubscribers_def subscribeObserverToTarget_def unsubscribeObserver_def
      split: if_splits)

lemma node_rep_users [simp]: "node_rep E (w\<lparr>users := us\<rparr>) ps \<longleftrightarrow> node_rep E w ps"
  by (simp add: node_rep_def memory_rep_def observersOf_def[abs_def])

lemma unsubscribeObserver_users [simp]: "users (unsubscribeObserver E u w) = users w"
  by (simp add: unsubscribeObserver_def Standalone_unsubscribeObserver_def Let_def Standalone_deleteSubscriber_def
      Standalone_deleteSubscribeTarget_def split: option.split)

lemma users_clash_activity [simp]: "users_clash (a\<lparr>u_recent_activity := n\<rparr>) b = users_clash a b"
  by (simp add: users_clash_def)

text \<open>An activity store is empty when a node starts on it.\<close>

definition noSubscriptions :: "world \<Rightarrow> bool" where
  "noSubscriptions w \<longleftrightarrow> SUBSCRIBED_TO w = Map.empty \<and> SUBSCRIBERS w = Map.empty \<and>
     rs_hashes (redis w) SUBSCRIBED_TO_KEY = Map.empty \<and> rs_hashes (redis w) SUBSCRIBERS_KEY = Map.empty"

lemma node_rep_empty: "redis_ok (rd E) \<Longrightarrow> noSubscriptions w \<Longrightarrow> node_rep E w []"
  by (auto simp: node_rep_def noSubscriptions_def memory_rep_def cluster_rep_def observersOf_def Cluster_subscribeTarget_def
      Cluster_subscribers_def fun_eq_iff)

text \<open>C14: The activity manager refines the list of subscriptions. From an empty store, after every sequence of
  subscriptions and unsubscriptions by identifiers without a comma, the subscribers it answers for a user
  are those whose latest subscription is to that user, in the order they subscribed, and no user is listed twice or for two targets.
\<close>

theorem activity_manager_refines:
  assumes "redis_ok (rd E)" "noSubscriptions w" "list_all plainAction as"
  defines "w' \<equiv> fold (runAction (subscribeObserverToTarget E) (unsubscribeObserver E)) as w"
  shows "activitySubscribers E w' t = watchers (fold specAction as []) t
    \<and> distinct (activitySubscribers E w' t)
    \<and> (t \<noteq> t' \<longrightarrow> set (activitySubscribers E w' t) \<inter> set (activitySubscribers E w' t') = {})"
proof (intro conjI impI)
  have rep: "node_rep E w' (fold specAction as [])"
    unfolding w'_def by (rule node.simulates[OF node_rep_empty[OF assms(1,2)] assms(3)])
  show lists: "activitySubscribers E w' t = watchers (fold specAction as []) t" by (rule node.lists[OF rep])
  show "distinct (activitySubscribers E w' t)" unfolding lists by (rule distinct_watchers[OF node.one_target[OF rep]])
  show "t \<noteq> t' \<Longrightarrow> set (activitySubscribers E w' t) \<inter> set (activitySubscribers E w' t') = {}" by (rule node.exclusive[OF rep])
qed

lemma noSubscriptions_empty_world: "noSubscriptions empty_world"
  by (simp add: noSubscriptions_def empty_world_def empty_redis_def)

theorem activity_manager_refines_witness:
  "activitySubscribers mem_env
     (fold (runAction (subscribeObserverToTarget mem_env) (unsubscribeObserver mem_env))
       [Watch ''a'' ''t'', Watch ''b'' ''t'', Watch ''a'' ''s'', Watch ''c'' ''t''] empty_world) ''t'' = [''b'', ''c'']"
  using activity_manager_refines[OF mem_env_ok(2) noSubscriptions_empty_world,
      of "[Watch ''a'' ''t'', Watch ''b'' ''t'', Watch ''a'' ''s'', Watch ''c'' ''t'']" "''t''"]
  by (simp add: plainId_def watchers_def withoutObserver_def)

text \<open>A node that keeps the subscriptions in memory and a node that keeps them in Redis answer the same subscribers, in the same order,
  after the same sequence of subscriptions and unsubscriptions.
\<close>

theorem memory_and_cluster_agree:
  assumes "redis_ok R" "noSubscriptions w" "list_all plainAction as"
  shows "Standalone_subscribers (fold (runAction Standalone_subscribeObserverToTarget Standalone_unsubscribeObserver) as w) t =
    Cluster_subscribers R (fold (runAction (Cluster_subscribeObserverToTarget R) (Cluster_unsubscribeObserver R)) as (redis w)) t"
proof -
  have "memory_rep w []" "cluster_rep R (redis w) []"
    using assms(1,2) by (auto simp: noSubscriptions_def memory_rep_def cluster_rep_def observersOf_def Cluster_subscribeTarget_def
        Cluster_subscribers_def fun_eq_iff)
  then show ?thesis using memory.answers cluster.answers assms(3) by simp
qed

theorem memory_and_cluster_agree_witness:
  "Standalone_subscribers (fold (runAction Standalone_subscribeObserverToTarget Standalone_unsubscribeObserver)
       [Watch ''a'' ''t'', Unwatch ''a'', Watch ''b'' ''t''] empty_world) ''t'' =
   Cluster_subscribers mem_redis (fold (runAction (Cluster_subscribeObserverToTarget mem_redis) (Cluster_unsubscribeObserver mem_redis))
       [Watch ''a'' ''t'', Unwatch ''a'', Watch ''b'' ''t''] (redis empty_world)) ''t''"
  by (rule memory_and_cluster_agree[OF mem_redis_ok noSubscriptions_empty_world]) (simp add: plainId_def)

text \<open>When a user goes offline, every user who watches them gets exactly one message with the time of leaving, in the order
  of subscription and never stored for later, the user's own subscription ends, and the record of the user (found by identifier) has that time as its recent activity.
\<close>

theorem offline_notifies_watchers:
  assumes "mongo_ok E" "node_rep E w ps" "plainId u" "List.find (\<lambda>v. u_id v = u) (users w) = Some usr"
    "updateAndBuildUserActivity E None org u OFFLINE w = (rs, w')"
  shows "map dm_userIds (concat (map rp_deliverMessages rs)) = map (\<lambda>o'. [o']) (removeAll u (watchers ps u))
    \<and> (\<forall>m \<in> set (concat (map rp_deliverMessages rs)). dm_packet m = buildLastActivityPackage u OFFLINE (roundSeconds w)
          \<and> dm_notSaveInOfflineStorage m)
    \<and> node_rep E w' (withoutObserver u ps)
    \<and> List.find (\<lambda>v. u_id v = u) (users w') = Some (usr\<lparr>u_recent_activity := roundSeconds w\<rparr>)"
proof (intro conjI)
  let ?w2 = "unsubscribeObserver E u (updateActivity E u (roundSeconds w) w)"
  have rep: "node_rep E ?w2 (withoutObserver u ps)"
    using assms(2,3) by (intro node.unsubscribes) (simp_all add: updateActivity_def)
  have os: "activitySubscribers E ?w2 u = removeAll u (watchers ps u)" using node.lists[OF rep] by simp
  have "w' = ?w2" and ms: "concat (map rp_deliverMessages rs) = map (\<lambda>o'. setUsersDestination [o'] None
      (DeliverMessage org (buildLastActivityPackage u OFFLINE (roundSeconds w)) True)) (removeAll u (watchers ps u))"
    using assms(5) os by (auto simp: updateAndBuildUserActivity_def updateUserActivity_def Let_def lastActivityMessage_def
        detectSocketAPI_def addDeliverMessage_def Response_def comp_def concat_map_singleton split: if_splits)
  then show "node_rep E w' (withoutObserver u ps)" using rep by simp
  show "map dm_userIds (concat (map rp_deliverMessages rs)) = map (\<lambda>o'. [o']) (removeAll u (watchers ps u))"
    "\<forall>m \<in> set (concat (map rp_deliverMessages rs)). dm_packet m = buildLastActivityPackage u OFFLINE (roundSeconds w)
          \<and> dm_notSaveInOfflineStorage m"
    unfolding ms by (simp_all add: comp_def setUsersDestination_def DeliverMessage_def)
  show "List.find (\<lambda>v. u_id v = u) (users w') = Some (usr\<lparr>u_recent_activity := roundSeconds w\<rparr>)"
    using \<open>w' = ?w2\<close> assms(1,4) by (simp add: updateActivity_def find_update_first)
qed

definition watched_user :: user where
  "watched_user = \<lparr>u_id = ''t'', u_organization_id = ''o'', u_login = ''t'', u_email = None, u_phone = None,
     u_first_name = None, u_last_name = None, u_encrypted_password = None, u_password_salt = None,
     u_avatar_object = None, u_recent_activity = 0, u_created_at = 0, u_updated_at = 0\<rparr>"

theorem offline_notifies_watchers_witness:
  "map dm_userIds (concat (map rp_deliverMessages (fst (updateAndBuildUserActivity mem_env None ''o'' ''t'' OFFLINE
     (subscribeObserverToTarget mem_env ''a'' ''t'' (empty_world\<lparr>users := [watched_user]\<rparr>)))))) = [[''a'']]"
proof -
  let ?w = "subscribeObserverToTarget mem_env ''a'' ''t'' (empty_world\<lparr>users := [watched_user]\<rparr>)"
  have "node_rep mem_env ?w (withoutObserver ''a'' [] @ [(''a'', ''t'')])"
    by (intro node.subscribes) (simp_all add: node_rep_empty noSubscriptions_empty_world plainId_def)
  then have "node_rep mem_env ?w [(''a'', ''t'')]" by (simp add: withoutObserver_def)
  moreover have "List.find (\<lambda>v. u_id v = ''t'') (users ?w) = Some watched_user"
    by (simp add: subscribeObserverToTarget_def mem_env_def watched_user_def)
  moreover have "plainId ''t''" by (simp add: plainId_def)
  ultimately show ?thesis
    using offline_notifies_watchers[OF mem_env_ok(1), of ?w "[(''a'', ''t'')]" "''t''" watched_user "''o''"
        "fst (updateAndBuildUserActivity mem_env None ''o'' ''t'' OFFLINE ?w)" "snd (updateAndBuildUserActivity mem_env None ''o'' ''t'' OFFLINE ?w)"]
    by (simp add: watchers_def)
qed

end
