(* ===== verification/Delivery_Frame.thy ===== *)
theory Delivery_Frame
  imports Delivery
begin

text \<open>
  What carrying out a response leaves alone. A predicate on states that none of the collections and queues of a delivery can change, and that the
  end of a subscription keeps, holds after every response: proved once in the locale \<open>delivery_frame\<close>, which the links of the
  cluster (\<open>Cluster\<close>) and the chat documents (\<open>Chat_Frame\<close>) instantiate.
\<close>

lemma keeps_logged [keeps_intros]: "keeps I m \<Longrightarrow> keeps I (logged m)"
  by (simp add: keeps_def logged_def)

lemma listUserData_same [simp]: "snd (listUserData E o' u w) = w"
  by (simp add: listUserData_def listUserDevice_def Let_def)

lemma keeps_insertInto:
  assumes "\<And>w ds. I w \<Longrightarrow> I (upd (\<lambda>_. ds) w)"
  shows "keeps I (insertInto C get upd mk)"
proof (rule keepsI)
  fix w r w' assume "I w" "insertInto C get upd mk w = (r, w')"
  then show "I w'" using assms by (cases r) (auto simp: insertInto_Inr insertInto_Inl)
qed

section \<open>A response is carried out to its end\<close>

lemma forEach_returns:
  "(\<And>x w. x \<in> set xs \<Longrightarrow> \<exists>y w'. f x w = (Inr y, w')) \<Longrightarrow> \<exists>ys w'. forEach xs f w = (Inr ys, w')"
proof (induction xs arbitrary: w)
  case (Cons x xs)
  obtain y w1 where y: "f x w = (Inr y, w1)" using Cons.prems[of x w] by auto
  obtain ys w2 where "forEach xs f w1 = (Inr ys, w2)" using Cons.IH[of w1] Cons.prems by auto
  with y show ?case by (simp add: andThen_run)
qed simp

lemma processDeliverMessage_returns: "\<exists>w'. processDeliverMessage E socket m w = (Inr (), w')"
proof -
  have user: "\<exists>w'. processDeliverUserMessage E m us w = (Inr (), w')" for m us w
    by (simp add: processDeliverUserMessage_def logged_def)
  have conv: "\<exists>w'. processDeliverConversationMessage E m cId w = (Inr (), w')" for m cId w
  proof -
    obtain ys w' where "forEach (conversationParticipantIdsIterator E w cId (dm_exceptUserIds m) 100)
        (\<lambda>ids. if ids = [] then ret () else processDeliverUserMessage E m (Some ids)) w = (Inr ys, w')"
      using forEach_returns[of _ "\<lambda>ids. if ids = [] then ret () else processDeliverUserMessage E m (Some ids)"] user by fastforce
    then show ?thesis by (simp add: processDeliverConversationMessage_def andThen_run)
  qed
  show ?thesis using user conv by (simp add: processDeliverMessage_def Let_def split: option.split)
qed

lemma processAPIResponse_returns: "\<exists>w'. processAPIResponse E socket resp w = (Inr (), w')"
proof -
  have all: "\<exists>w'. processDeliverResponse E socket ms w = (Inr (), w')" for ms w
  proof -
    obtain ys w' where "forEach ms (processDeliverMessage E socket) w = (Inr ys, w')"
      using forEach_returns[of ms "processDeliverMessage E socket"] processDeliverMessage_returns by blast
    then show ?thesis by (simp add: processDeliverResponse_def andThen_run)
  qed
  have "\<exists>r' w'. (case rp_lastActivityStatusResponse resp of None \<Rightarrow> ret resp
      | Some status \<Rightarrow> processUpdateLastActivityResponse E socket resp status) w = (Inr r', w')"
    by (auto simp: processUpdateLastActivityResponse_def Let_def split: option.split prod.split)
  then obtain r' w' where "(case rp_lastActivityStatusResponse resp of None \<Rightarrow> ret resp
      | Some status \<Rightarrow> processUpdateLastActivityResponse E socket resp status) w = (Inr r', w')" by blast
  then show ?thesis unfolding processAPIResponse_def using all by (simp add: andThen_run(1))
qed

section \<open>What it leaves alone\<close>

text \<open>The effects of delivering packets: sockets, other nodes, the log of offline users and the push queue.\<close>

locale packet_frame =
  fixes E :: env and I :: "world \<Rightarrow> bool"
  assumes sent: "I w \<Longrightarrow> I (w\<lparr>outbox := outbox w @ ps\<rparr>)"
    and forwarded: "I w \<Longrightarrow> I (w\<lparr>clusterOutbox := clusterOutbox w @ fs\<rparr>)"
    and saved: "I w \<Longrightarrow> I (w\<lparr>operations_log := ls\<rparr>)"
    and pushed: "I w \<Longrightarrow> I (w\<lparr>push_events := es\<rparr>)"
    and queued: "I w \<Longrightarrow> I (w\<lparr>pushQueue := js\<rparr>)"
begin

lemma keeps_push: "keeps I (createPush E p)"
  by (cases p) (auto simp: createPushEvent_def buildPushEvent_def addToQueue_def intro!: keeps_intros keeps_insertInto pushed queued)

lemma keeps_sorting: "keeps I (sortDestinations E o' p ns us acc)"
  by (induction us arbitrary: acc) (auto simp: Let_def savePacket_def intro!: keeps_intros keeps_insertInto saved)

lemma local_delivery: "I w \<Longrightarrow> I (fold (\<lambda>u. deliverToUserOnThisNode E u ex p si) us w)"
  by (induction us arbitrary: w) (simp_all add: deliverToUserOnThisNode_def sent)

lemma keeps_delivery: "keeps I (deliverToUserOrUsers E o' socket us p ns ig push)"
  unfolding deliverToUserOrUsers_def
  by (intro keeps_intros keeps_sorting keeps_push) (simp_all add: sendToOtherNodes_def local_delivery forwarded)

lemma keeps_packet: "keeps I (processDeliverMessage E socket m)"
  unfolding processDeliverMessage_def processDeliverConversationMessage_def processDeliverUserMessage_def
  by (intro keeps_intros keeps_delivery)

end

text \<open>A response may also change the status of a user, which the watchers are told.\<close>

locale delivery_frame = packet_frame +
  assumes stamped: "I w \<Longrightarrow> I (w\<lparr>users := us\<rparr>)"
    and unsubscribed: "I w \<Longrightarrow> I (unsubscribeObserver E u w)"
begin

lemma keeps_activity_status: "keeps I (processUpdateLastActivityResponse E socket resp status)"
proof -
  have "I (snd (updateUserActivity E u st w))" if "I w" for u st w
    using that by (simp add: updateUserActivity_def updateActivity_def Let_def stamped unsubscribed)
  then have "I (snd (updateAndBuildUserActivity E socket o' u st w))" if "I w" for o' u st w
    using that by (simp add: updateAndBuildUserActivity_def split_beta split: option.split)
  then show ?thesis by (simp add: keeps_def processUpdateLastActivityResponse_def Let_def split_beta split: option.split)
qed

lemma keeps_response: "keeps I (processAPIResponse E socket resp)"
  unfolding processAPIResponse_def processDeliverResponse_def
  by (intro keeps_intros keeps_activity_status keeps_packet) (simp add: processBackResponse_def sent split: option.split)

end

end
