(* ===== verification/Chat_Frame.thy ===== *)
theory Chat_Frame
  imports Invariants Conversation_Op_Props Activity_Props Session_Props User_Props Message_Props Delivery_Frame User_Admin Encryption Online Assistant
begin

text \<open>
  What the requests outside of the chat leave as it is. The locale \<open>account_frame\<close> is about any part of the state (\<open>view\<close>) that does not depend on accounts, sessions, contacts,
  files, push notifications, devices, subscriptions and queues: all requests about those, and the delivery of every response, leave it alone. The locale \<open>message_frame\<close> does the
  same for the requests about messages. The chat documents (conversations, participants, messages and reactions), on which the invariant of
  the server rests, instantiate the first.
\<close>

section \<open>Accounts and deliveries\<close>

locale account_frame =
  fixes view :: "world \<Rightarrow> 'v"
  assumes documents [simp]: "view (w\<lparr>users := us\<rparr>) = view w" "view (w\<lparr>user_tokens := ts\<rparr>) = view w" "view (w\<lparr>contacts := cs\<rparr>) = view w"
      "view (w\<lparr>files := fs\<rparr>) = view w" "view (w\<lparr>encrypted_devices := eds\<rparr>) = view w" "view (w\<lparr>push_subscriptions := ss\<rparr>) = view w"
      "view (w\<lparr>push_events := es\<rparr>) = view w" "view (w\<lparr>operations_log := ls\<rparr>) = view w" "view (w\<lparr>blocked_users := bs\<rparr>) = view w"
      "view (w\<lparr>organizations := os\<rparr>) = view w"
    and stores [simp]: "view (w\<lparr>redis := st\<rparr>) = view w" "view (w\<lparr>SESSIONS := ss'\<rparr>) = view w" "view (w\<lparr>DEVICES := ds\<rparr>) = view w"
      "view (w\<lparr>SUBSCRIBED_TO := f\<rparr>) = view w" "view (w\<lparr>SUBSCRIBERS := g\<rparr>) = view w" "view (w\<lparr>entropy := n\<rparr>) = view w"
    and queues [simp]: "view (w\<lparr>outbox := ps\<rparr>) = view w" "view (w\<lparr>clusterOutbox := fs'\<rparr>) = view w" "view (w\<lparr>pushQueue := js\<rparr>) = view w"
    and statistics [simp]: "view (w\<lparr>messagesPerMinute := pm\<rparr>) = view w" "view (w\<lparr>messagesPerHour := ph\<rparr>) = view w"
      "view (w\<lparr>messagesPerDay := pd\<rparr>) = view w" "view (w\<lparr>dependenciesStatus := d\<rparr>) = view w"
begin

text \<open>\<open>same D m\<close>: the computation leaves the view \<open>D\<close> as it is.\<close>

abbreviation same :: "'v \<Rightarrow> 'a handler \<Rightarrow> bool" where
  "same D m \<equiv> keeps (\<lambda>w. view w = D) m"

lemma view_sessions [simp]:
  "view (snd (listUserDevice E org u b w)) = view w"
  "view (snd (removeAllUserDeviceData E org u d w)) = view w"
  "view (snd (removeUserSession E ws ou od w)) = view w"
  "view (storeUserNodeData E ws org u d w) = view w"
  "view (snd (addUserDeviceConnection ws org u d w)) = view w"
proof -
  show l: "view (snd (listUserDevice E org u b w)) = view w" for b w
    by (simp add: listUserDevice_def Let_def split: prod.split)
  show r: "view (snd (removeAllUserDeviceData E org u d w)) = view w" for org u d w
    using listUserDevice_def by (simp add: removeAllUserDeviceData_def listUserDevice_def Let_def split_beta)
  show "view (snd (removeUserSession E ws ou od w)) = view w"
    by (simp add: removeUserSession_def Let_def r split: option.split)
  show "view (storeUserNodeData E ws org u d w) = view w"
    by (simp add: storeUserNodeData_def Let_def split_beta r l split: option.split)
  show "view (snd (addUserDeviceConnection ws org u d w)) = view w"
    by (simp add: addUserDeviceConnection_def Let_def setSessionUserId_def setSession_def)
qed

lemma view_connect [simp]: "view (connectDevice E ws user d w) = view w"
  by (simp add: connectDevice_def Let_def split_beta split: option.split)

lemma view_activity [simp]:
  "view (subscribeObserverToTarget E u t w) = view w" "view (unsubscribeObserver E u w) = view w"
proof -
  have m: "view (Standalone_unsubscribeObserver u w) = view w"
    by (simp add: Standalone_unsubscribeObserver_def Let_def Standalone_deleteSubscriber_def
        Standalone_deleteSubscribeTarget_def split: option.split)
  then show "view (unsubscribeObserver E u w) = view w" by (simp add: unsubscribeObserver_def)
  show "view (subscribeObserverToTarget E u t w) = view w"
    using m by (simp add: subscribeObserverToTarget_def Standalone_subscribeObserverToTarget_def
        Standalone_addSubscriber_def Standalone_addSubscribeTarget_def Let_def)
qed

lemma same_tokens [keeps_intros]:
  "same D (createToken E org u d ty tk)" "same D (updateToken E t org u d tk ty)" "same D (upsertOTPToken E org u d)"
proof -
  show c: "same D (createToken E org u d ty tk)" for D
    by (simp add: keeps_def createToken_def insertInto_def split: option.split)
  show "same D (updateToken E t org u d tk ty)"
    using c by (auto simp: keeps_def updateToken_def Let_def split: option.split)
  have "same D (createToken E org u d OtpToken v)" for v
    by (simp add: keeps_def createToken_def insertInto_def split: option.split)
  then show "same D (upsertOTPToken E org u d)"
    by (auto simp: keeps_def upsertOTPToken_def Let_def split: option.split)
qed

lemma same_passwords [keeps_intros]:
  "same D (validatePassword E user pw)" "same D (updatePassword E u pw)"
  unfolding validatePassword_def updatePassword_def encryptAndSetPassword_def
  by (intro keeps_intros; simp add: Let_def split_beta)+

lemma same_auth [keeps_intros]: "same D (authByToken E tk d)" "same D (authByUserInfo E org ui d)"
  by (simp add: keeps_def authByToken_def split: option.split)
    (unfold authByUserInfo_def, intro keeps_intros)

lemma same_files [keeps_intros]:
  "same D (getFileDownloadUrl E org i)" "same D (createFile E org u fp)" "same D (addImageUrl E cs)" "same D (addAvatarUrl E us)"
proof -
  show url: "same D (getFileDownloadUrl E org i)" for org i
  proof (unfold keeps_def, intro allI impI)
    fix w assume "view w = D"
    moreover obtain st n where "snd (getFileDownloadUrl E org i w) = w\<lparr>entropy := n, redis := st\<rparr>" using getFileDownloadUrl_frame by blast
    ultimately show "view (snd (getFileDownloadUrl E org i w)) = D" by simp
  qed
  show "same D (createFile E org u fp)" unfolding createFile_def by (intro keeps_intros keeps_insertInto) simp_all
  have "same D (imageUrl E c)" for c
    unfolding imageUrl_def by (auto intro!: keeps_intros url split: option.split json.split)
  then show "same D (addImageUrl E cs)" unfolding addImageUrl_def by (intro keeps_intros)
  have "same D (orNull (getFileDownloadUrl E org i))" for org i
    using url[of org i] by (auto simp: keeps_def orNull_def split: sum.split prod.split)
  then have "same D (avatarUrl E u)" for u
    unfolding avatarUrl_def by (auto intro!: keeps_intros split: option.split json.split)
  then show "same D (addAvatarUrl E us)" unfolding addAvatarUrl_def by (intro keeps_intros)
qed

lemma same_user_requests:
  "same D (UserAuth_perform E ws ui om)" "same D (UserConnect_perform E ws tk d)" "same D (UserLogout_perform E ws)"
  "same D (UserSendOTP_perform E org d email)" "same D (UserResetPassword_perform E org email d tk' pw)"
proof -
  show "same D (UserAuth_perform E ws ui om)" unfolding UserAuth_perform_def by (intro keeps_intros; simp)
  show "same D (UserConnect_perform E ws tk d)" unfolding UserConnect_perform_def by (intro keeps_intros; simp)
  show "same D (UserLogout_perform E ws)"
    by (auto simp: keeps_def UserLogout_perform_def Let_def split_beta Token_deleteByUserId_def removeByDeviceId_def split: option.split)
  show "same D (UserSendOTP_perform E org d email)" unfolding UserSendOTP_perform_def by (intro keeps_intros)
  show "same D (UserResetPassword_perform E org email d tk' pw)" unfolding UserResetPassword_perform_def
    by (intro keeps_intros; simp add: Token_deleteByUserId_def)
qed

lemma same_activity_requests:
  "same D (ActivityUserSubscribe_perform E ws u)" "same D (ActivityUserUnsubscribe_perform E ws)"
  "same D (ActivityUserRetrieve_perform E ws us)" "same D (ActivityMark_perform E ws b)"
proof -
  show "same D (ActivityUserSubscribe_perform E ws u)" unfolding ActivityUserSubscribe_perform_def by (intro keeps_intros; simp)
  show "same D (ActivityUserUnsubscribe_perform E ws)" unfolding ActivityUserUnsubscribe_perform_def by (intro keeps_intros; simp)
  show "same D (ActivityUserRetrieve_perform E ws us)" unfolding ActivityUserRetrieve_perform_def by (intro keeps_intros; simp)
  have "same D (setSessionInactiveState E ws b)"
    by (simp add: keeps_def setSessionInactiveState_def Let_def split: option.split)
  then show "same D (ActivityMark_perform E ws b)" unfolding ActivityMark_perform_def by (intro keeps_intros)
qed

section \<open>Accounts, contacts, files, devices and push notifications\<close>

lemma same_contacts [keeps_intros]:
  "same D (findByIdAndUpdate E u i p)" "same D (matchContactWithUser E org p)" "same D (Contact_create E org u p)"
  unfolding findByIdAndUpdate_def matchContactWithUser_def Contact_create_def
  by (intro keeps_intros keeps_insertInto; simp add: Let_def split_beta)+

lemma same_marks [keeps_intros]:
  "same D (matchUserWithContactOnCreate E org u ph em)" "same D (matchUserWithContactOnUpdate E org u ph em oph oem)"
  "same D (matchUserWithContactOnDelete E org u ph em)"
proof -
  have r: "same D (rewriteContacts E f g cs)" for f g cs
    unfolding rewriteContacts_def by (intro keeps_intros; simp split: option.split add: keeps_intros)
  show "same D (matchUserWithContactOnCreate E org u ph em)" "same D (matchUserWithContactOnUpdate E org u ph em oph oem)"
    "same D (matchUserWithContactOnDelete E org u ph em)"
    unfolding matchUserWithContactOnCreate_def matchUserWithContactOnUpdate_def matchUserWithContactOnDelete_def by (intro keeps_intros r)+
qed

lemma view_removeAllUserSessions [simp]: "view (removeAllUserSessions E ws w) = view w"
  by (simp add: removeAllUserSessions_def deleteUserData_def Let_def split_beta split: option.split)

lemma same_accounts:
  "same D (UserCreate_perform E p)" "same D (UserEdit_perform E ws up)" "same D (UserDelete_perform E ws)"
  "same D (UserList_perform E ws ids)" "same D (UserSearch_perform E ws sp)"
proof -
  show "same D (UserCreate_perform E p)" unfolding UserCreate_perform_def UserService_create_def encryptAndSetPassword_def
    by (intro keeps_intros keeps_insertInto; simp add: Let_def split_beta)
  show "same D (UserEdit_perform E ws up)" unfolding UserEdit_perform_def UserService_update_def newPassword_def encryptAndSetPassword_def
    by (intro keeps_intros; simp add: Let_def split_beta)
  show "same D (UserDelete_perform E ws)" unfolding UserDelete_perform_def
    by (intro keeps_intros; simp add: deleteAllBlocks_def)
  show "same D (UserList_perform E ws ids)" "same D (UserSearch_perform E ws sp)"
    unfolding UserList_perform_def UserSearch_perform_def by (intro keeps_intros)+
qed

lemma same_contact_requests:
  "same D (ContactAdd_perform E ws p)" "same D (ContactBatchAdd_perform E ws ps)" "same D (ContactEdit_perform E ws i p)"
  "same D (ContactList_perform E ws ua lim)" "same D (ContactDelete_perform E ws i)"
  unfolding ContactAdd_perform_def ContactBatchAdd_perform_def ContactEdit_perform_def ContactList_perform_def ContactDelete_perform_def
    singleAdd_def batchAdd_def deleteUserContact_def
  by (intro keeps_intros; simp split: option.split)+

lemma same_file_requests: "same D (FileCreate_perform E ws fs)" "same D (FileDownload_perform E ws ids)"
  unfolding FileCreate_perform_def FileDownload_perform_def by (intro keeps_intros)+

lemma same_push_requests:
  "same D (PushSubscriptionCreate_perform E ws d sp)" "same D (PushSubscriptionDelete_perform E ws d)"
  "same D (PushSubscriptionList_perform E ws)" "same D (PushEventCreate_perform E ws ids m)" "same D (OpLogsList_perform E ws c)"
  unfolding PushSubscriptionCreate_perform_def PushSubscriptionDelete_perform_def PushSubscriptionList_perform_def PushEventCreate_perform_def
    OpLogsList_perform_def upsertSubscription_def findAndUpdate_def findAndDeleteSubscription_def createPushEvent_def buildPushEvent_def addToQueue_def
  by (intro keeps_intros keeps_insertInto; simp add: Let_def split_beta split: option.split)+

lemma same_device_requests:
  "same D (EncryptionRegister_perform E ws p)" "same D (EncryptionList_perform E ws)" "same D (EncryptionDelete_perform E ws d)"
  "same D (EncryptionRequestKeys_perform E ws ids)"
proof -
  show "same D (EncryptionRegister_perform E ws p)" "same D (EncryptionList_perform E ws)" "same D (EncryptionDelete_perform E ws d)"
    unfolding EncryptionRegister_perform_def EncryptionList_perform_def EncryptionDelete_perform_def Encryption_update_def
    by (intro keeps_intros keeps_insertInto; simp add: Let_def split_beta)+
  have "view (fold (removeOneKey E) ds w) = view w" for ds w
    by (induction ds arbitrary: w) (simp_all add: removeOneKey_def)
  then show "same D (EncryptionRequestKeys_perform E ws ids)"
    unfolding EncryptionRequestKeys_perform_def by (intro keeps_intros; simp add: removeFirstOneTimeKey_def)
qed

section \<open>Lists, searches and statuses\<close>

lemma view_dropOffline [simp]: "view (snd (dropOffline E org us actual w)) = view w"
  by (induction us arbitrary: actual w) (simp_all add: split_beta)

lemma dropOffline_view: "dropOffline E org us actual w = (as, w') \<Longrightarrow> view w' = view w"
  by (metis view_dropOffline snd_conv)

lemma same_online: "OnlineList_perform E srt ws p w = Some (r, w') \<Longrightarrow> view w' = view w"
  by (auto simp: OnlineList_perform_def onlineUsersList_def onlineUsersListWithNode_def Let_def split_beta
      dest: dropOffline_view split: option.splits if_splits)

lemma same_list_requests:
  "same D (ConversationList_perform E ws gt lt ids lim)" "same D (ConversationListParticipants_perform E ws cids)"
  "same D (ConversationListAdmins_perform E ws cids)" "same D (ConversationSearch_perform E ws n gt lim)"
  "same D (BlockListRetrieve_perform E ws)" "same D (ConversationHandlerGet_perform E ws cid)"
  unfolding ConversationList_perform_def ConversationListParticipants_perform_def ConversationListAdmins_perform_def ConversationSearch_perform_def
    ConversationRepo_search_def BlockListRetrieve_perform_def ConversationHandlerGet_perform_def
  by (intro keeps_intros; simp add: keeps_def validateAccessToConversation_def Let_def split_beta)+

lemma same_message_requests:
  "same D (MessageSendSystem_perform E ws c us)" "same D (StatusTyping_perform E ws cid st)" "same D (ReactionsList_perform E ws mid)"
  "same D (MessageSummary_perform E ws cid f)" "same D (MessageTone_perform E ws body tone)"
  unfolding MessageSendSystem_perform_def Message_hasAccess_def StatusTyping_perform_def StatusTyping_hasAccess_def ReactionsList_perform_def Reactions_hasAccess_def
    MessageSummary_perform_def MessageTone_perform_def Summary_hasAccess_def filteredMessages_def messagesSince_def getUnreadMessages_def
    getLastReadTimeByUser_def summaryLine_def askModel_def checkBlocked_def
  by (intro keeps_intros; simp add: keeps_def Let_def split_beta)+

text \<open>Carrying out a response.\<close>

lemma delivery_frame_view: "delivery_frame E (\<lambda>w. view w = D)"
  by unfold_locales simp_all

lemmas same_packet = packet_frame.keeps_packet[OF delivery_frame.axioms(1)[OF delivery_frame_view]]
lemmas same_activity_status = delivery_frame.keeps_activity_status[OF delivery_frame_view]
lemmas same_response = delivery_frame.keeps_response[OF delivery_frame_view]

lemma same_onClose: "same D (onClose E ws)"
  unfolding onClose_def updateLastUserLastActivityOnClose_def by (intro keeps_intros same_response) simp

end

section \<open>The chat documents\<close>

text \<open>The documents \<open>server_ok\<close> is about.\<close>

definition chatData :: "world \<Rightarrow> conversation list \<times> participant list \<times> message list \<times> message_reaction list" where
  "chatData w = (conversations w, participants w, messages w, message_reactions w)"

interpretation chat: account_frame chatData
  by unfold_locales (simp_all add: chatData_def)

lemma server_ok_chatData: "chatData w' = chatData w \<Longrightarrow> server_ok w' = server_ok w"
  by (intro server_ok_cong) (simp_all add: chatData_def)

lemma chatData_packages [simp]:
  "chatData (w\<lparr>clock := t\<rparr>) = chatData w" "chatData (w\<lparr>apiTypes := as\<rparr>) = chatData w" "chatData (w\<lparr>decoderBuffer := b\<rparr>) = chatData w"
  "chatData (w\<lparr>httpOutbox := rs\<rparr>) = chatData w" "chatData (w\<lparr>packageListeners := l\<rparr>) = chatData w"
  by (simp_all add: chatData_def)

abbreviation sameChat :: "conversation list \<times> participant list \<times> message list \<times> message_reaction list \<Rightarrow> 'a handler \<Rightarrow> bool" where
  "sameChat D m \<equiv> keeps (\<lambda>w. chatData w = D) m"

lemma sameChat_server_ok: "(\<And>D. sameChat D m) \<Longrightarrow> keeps server_ok m"
  unfolding keeps_def using server_ok_chatData by blast

section \<open>Messages\<close>

locale message_frame =
  fixes view :: "world \<Rightarrow> 'v"
  assumes chat_documents [simp]: "view (w\<lparr>messages := ms\<rparr>) = view w" "view (w\<lparr>participants := ps\<rparr>) = view w" "view (w\<lparr>conversations := cs\<rparr>) = view w"
      "view (w\<lparr>message_statuses := ss\<rparr>) = view w" "view (w\<lparr>message_reactions := rs\<rparr>) = view w"
      "view (w\<lparr>entropy := n\<rparr>) = view w"
begin

abbreviation unseen :: "'v \<Rightarrow> 'a handler \<Rightarrow> bool" where
  "unseen D m \<equiv> keeps (\<lambda>w. view w = D) m"

lemma unseen_create [keeps_intros]: "unseen D (MessageService_create E user c p)"
  unfolding MessageService_create_def by (intro keeps_intros keeps_insertInto) simp

lemma unseen_access [keeps_intros]:
  "unseen D (checkBlocked E u us)" "unseen D (MessageCreate_hasAccess E org cid u)" "unseen D (Message_hasAccess E org cid u)"
  "unseen D (MessageRead_hasAccess E org cid u)" "unseen D (MessageEdit_hasAccess E mid u)" "unseen D (Reactions_hasAccess E mid u)"
  unfolding checkBlocked_def MessageCreate_hasAccess_def MessageCreate_hasAccessToConversation_def Message_hasAccess_def MessageRead_hasAccess_def
    MessageEdit_hasAccess_def Reactions_hasAccess_def checkBlocked_def
  by (intro keeps_intros)+

lemma unseen_participants [keeps_intros]: "unseen D (addParticipants E c ids isEmpty)"
proof -
  have "unseen D (upsertParticipant E cid p)" for cid p
    unfolding upsertParticipant_def by (intro keeps_intros; simp add: Let_def split_beta split: option.split)
  then show ?thesis unfolding addParticipants_def addNoExistedParticipants_def
    by (intro keeps_intros; simp add: updateSubscribersCount_def Let_def keeps_intros split: option.split)
qed

lemma unseen_sending [keeps_intros]:
  "unseen D (runHandler E c u p)" "unseen D (restoreConversation E c u')" "unseen D (createMessageNotification E kind c user m ty)" "unseen D (answerOfBot E c r)"
proof -
  have "unseen D (firstAttachmentUrl E as)" for as
    by (simp add: keeps_def firstAttachmentUrl_def andThen_def split: option.split list.split json.split)
  then show n: "unseen D (createMessageNotification E kind c user m ty)" for kind c user m ty
    unfolding createMessageNotification_def by (intro keeps_intros)
  show "unseen D (answerOfBot E c r)" unfolding answerOfBot_def by (cases r) (auto intro!: keeps_intros n)
  show "unseen D (restoreConversation E c u')" unfolding restoreConversation_def restorePrivateConversation_def by (intro keeps_intros)
  show "unseen D (runHandler E c u p)"
    unfolding runHandler_def prepareAndExecuteConversationHandler_def processHandlerResult_def by (intro keeps_intros)
qed

lemma unseen_message_requests:
  "unseen D (MessageCreate_perform E ws p)" "unseen D (MessageSendSystem_perform E ws oc us)" "unseen D (MessageEdit_perform E ws mid body)"
  "unseen D (MessageDelete_perform E ws cid mids all')" "unseen D (MessageRead_perform E ws cid omids b)" "unseen D (ReactionsUpdate_perform E ws mid add rem)"
proof -
  show "unseen D (MessageCreate_perform E ws p)" unfolding MessageCreate_perform_def validateRepliedMessageId_def
    by (intro keeps_intros) (simp add: updateLastActivity_def)
  show "unseen D (MessageSendSystem_perform E ws oc us)" unfolding MessageSendSystem_perform_def by (intro keeps_intros)
  show "unseen D (MessageEdit_perform E ws mid body)" unfolding MessageEdit_perform_def by (intro keeps_intros) (simp add: updateBody_def)
  show "unseen D (MessageDelete_perform E ws cid mids all')" unfolding MessageDelete_perform_def validateMessagesForDelete_def
    by (intro keeps_intros) (simp_all add: deleteByIdsInConversation_def updateDeleteForUser_def)
  show "unseen D (MessageRead_perform E ws cid omids b)" unfolding MessageRead_perform_def readMessagesInConversation_def
    by (intro keeps_intros) (simp add: upsertMessageStatus_def)
  have r: "unseen D (Reaction_upsert E mid u r)" "unseen D (Reaction_remove E mid u r)" for mid u r
    unfolding Reaction_upsert_def Reaction_remove_def by (intro keeps_intros keeps_insertInto; simp add: Let_def split_beta keeps_def)+
  show "unseen D (ReactionsUpdate_perform E ws mid add rem)" unfolding ReactionsUpdate_perform_def updateReactions_def
    by (intro r unseen_access keeps_andThen) (intro keeps_intros r)+
qed

end

end
