(* ===== verification/Http_Frame.thy ===== *)
theory Http_Frame
  imports Http Chat_Frame
begin

text \<open>
  What the requests of the HTTP API leave as it is, in the locales of \<open>Chat_Frame\<close>: administration, login and logout for any view that does not
  depend on accounts and sessions, the requests about messages for views that depend on neither accounts nor messages. The answers that
  were written (\<open>httpOutbox\<close>) are such a view.
\<close>

section \<open>Parts of a request\<close>

context account_frame
begin

lemma same_actAs [keeps_intros]: "same D (actAs res k payload)"
  unfolding actAs_def by (intro keeps_intros) simp

lemma same_session_of_request [simp]: "view (unbindSession E res w) = view w"
  by (simp add: unbindSession_def split: option.split)

lemma same_refreshCookie [keeps_intros]: "same D (refreshCookie ctx)"
  unfolding refreshCookie_def by (intro keeps_intros)

lemma same_http_auth: "same D (HttpAuthController_login E L ctx res)" "same D (HttpAuthController_logout E ctx res)"
proof -
  show "same D (HttpAuthController_login E L ctx res)"
    unfolding HttpAuthController_login_def HttpUserAuth_perform_def createRefreshToken_def Let_def by (intro keeps_intros same_user_requests)
  have "same D (HttpUserLogout_perform E at rt)" for at rt
    unfolding HttpUserLogout_perform_def Let_def by (intro keeps_intros same_user_requests; simp add: Token_deleteByUserId_def)
  then show "same D (HttpAuthController_logout E ctx res)" unfolding HttpAuthController_logout_def by (intro keeps_intros)
qed

lemma same_http_stats [keeps_intros]: "same D (HttpStatsController_collect E S onlyServer ctx res)"
  unfolding HttpStatsController_collect_def
  by (intro keeps_intros) (simp add: HttpStatsCollect_perform_def collectServerStats_def collectStats_def collectChatStats_def Let_def split_beta)

lemma same_http_admin:
  "same D (HttpOrganizationController_create E ctx res)" "same D (HttpActivityController_online_list E srt ctx res)" "same D (healthCheckHandler E ctx res)"
  "same D (optionsRequestHandler ctx res)" "same D (notFoundHandler ctx res)"
proof -
  show "same D (HttpOrganizationController_create E ctx res)" unfolding HttpOrganizationController_create_def HttpOrganizationCreate_perform_def OrganizationService_create_def
    by (intro keeps_intros keeps_insertInto) simp
  have "same D (awaited (HttpActivityOnlineList_perform E srt res org u p))" for org u p
    by (auto simp: keeps_def awaited_def HttpActivityOnlineList_perform_def split: option.split dest: same_online)
  then show "same D (HttpActivityController_online_list E srt ctx res)" unfolding HttpActivityController_online_list_def Let_def by (intro keeps_intros)
qed (simp_all add: keeps_def healthCheckHandler_def optionsRequestHandler_def notFoundHandler_def)

lemma same_deliverAndUnbind [simp]: "view (deliverAndUnbind E late res r w) = view w"
proof -
  have send: "view (snd (processDeliverResponse E (Some res) ms w)) = view w" for ms w
  proof -
    have "same (view w) (processDeliverResponse E (Some res) ms)" unfolding processDeliverResponse_def by (intro keeps_intros same_packet)
    then show ?thesis by (simp add: keeps_def)
  qed
  have "view (snd (processUpdateLastActivityResponse E (Some res) r st w)) = view w" for st
    using same_activity_status[of "view w"] by (simp add: keeps_def)
  then show ?thesis
    by (auto simp: deliverAndUnbind_def Let_def send split: option.split sum.split prod.split)
      (metis snd_conv)+
qed

end

text \<open>The requests about messages act as a user first.\<close>

locale http_frame = account_frame + message_frame
begin

lemma same_http_messages:
  "same D (HttpMessageController_message E ctx res)" "same D (HttpMessageController_system_message E ctx res)" "same D (HttpMessageController_read E ctx res)"
  "same D (HttpMessageController_edit E ctx res)" "same D (HttpMessageController_reaction E ctx res)" "same D (HttpMessageController_delete E ctx res)"
  unfolding http_message_defs messageParams_def Let_def
  by (intro keeps_intros unseen_message_requests)+

lemma same_handler:
  assumes "((m, u), r) \<in> set (httpRoutes E A L)"
  shows "same D (ht_handler r ctx res)"
  using assms unfolding httpRoutes_def Let_def
  by (auto intro: same_http_messages same_http_auth same_http_stats same_http_admin)

lemma same_httpRoute: "same D (ht_handler (httpRoute E A L req) ctx res)"
  by (auto simp: httpRoute_def same_http_admin split: option.split intro: same_handler dest: map_of_SomeD)

end

interpretation replies: http_frame httpOutbox
  by unfold_locales simp_all

end
