(* ===== verification/Transports.thy ===== *)
theory Transports
  imports Api Chat_Frame
begin

text \<open>
  What the TCP transport adds to the handling of a package (\<^verbatim>\<open>protocol_processors/tcp.js\<close>), and the watchdog that pings every
  connection of a node and closes those that fail (\<^verbatim>\<open>utils/watchdog-ping-socket.js\<close>). The WebSocket transport adds nothing
  (\<^verbatim>\<open>protocol_processors/ws.js\<close>). Shown: a TCP socket that speaks JSON is served like a WebSocket, except that nobody answers an
  error of the processing itself, and after a round of the watchdog every connection left is alive.
\<close>

section \<open>TCP\<close>

text \<open>
  Each socket has a listener that splits what arrives into packages. The JSON API takes what arrives as one package
  (\<^verbatim>\<open>app/common/API.js\<close>); the listener of the XMPP API is a parameter. Packages are processed without waiting for them: an error is lost.
\<close>

definition createOnPackagesListener :: "(socket \<Rightarrow> string \<Rightarrow> string list handler) \<Rightarrow> api_type \<Rightarrow> socket \<Rightarrow> string \<Rightarrow> string list handler" where
  "createOnPackagesListener xmppPackages api ws text = (case api of JSON \<Rightarrow> ret [text] | XMPP \<Rightarrow> xmppPackages ws text)"

definition Tcp_processPackage :: "env \<Rightarrow> api_libs \<Rightarrow> (socket \<Rightarrow> string \<Rightarrow> string list handler) \<Rightarrow> socket \<Rightarrow> string \<Rightarrow> unit handler" where
  "Tcp_processPackage E A xmppPackages ws text =
     (if text = [] then ret ()
      else andThen (gets (\<lambda>w. packageListeners w ws)) (\<lambda>listener.
        andThen (case listener of
            Some api \<Rightarrow> ret api
          | None \<Rightarrow> andThen (gets (\<lambda>w. apiTypes w ws)) (\<lambda>known.
              andThen (case known of
                  Some a \<Rightarrow> ret a
                | None \<Rightarrow> (case detectAPIType E text of
                     None \<Rightarrow> throw (PlainError ''Unknown message format'')
                   | Some a \<Rightarrow> andThen (modify (\<lambda>w. w\<lparr>apiTypes := (apiTypes w)(ws \<mapsto> a)\<rparr>)) (\<lambda>_. ret a))) (\<lambda>api.
              andThen (modify (\<lambda>w. w\<lparr>packageListeners := (packageListeners w)(ws \<mapsto> api)\<rparr>)) (\<lambda>_. ret api)))) (\<lambda>api.
        andThen (createOnPackagesListener xmppPackages api ws text) (\<lambda>packages.
        andThen (forEach packages (\<lambda>p. logged (processPackage E A ws p))) (\<lambda>_. ret ())))))"

definition Tcp_onPackage :: "env \<Rightarrow> api_libs \<Rightarrow> (socket \<Rightarrow> string \<Rightarrow> string list handler) \<Rightarrow> socket \<Rightarrow> string \<Rightarrow> world \<Rightarrow> world" where
  "Tcp_onPackage E A xmppPackages ws packageData w =
     (case andThen (decodePackage packageData) (Tcp_processPackage E A xmppPackages ws) w of
        (Inr _, w1) \<Rightarrow> w1
      | (Inl _, w1) \<Rightarrow> onProcessingError ws w1)"

definition removeSocketListeners :: "socket \<Rightarrow> world \<Rightarrow> world" where
  "removeSocketListeners ws w = w\<lparr>packageListeners := (packageListeners w)(ws := None)\<rparr>"

definition Tcp_onClose :: "env \<Rightarrow> socket \<Rightarrow> unit handler" where
  "Tcp_onClose E ws = andThen (modify (removeSocketListeners ws)) (\<lambda>_. onClose E ws)"

text \<open>The first package of a TCP socket.\<close>

lemma Tcp_processPackage_json:
  assumes "\<not> cfg_useXMPP E" "apiTypes w ws \<noteq> Some XMPP" "packageListeners w ws \<noteq> Some XMPP"
  shows "Tcp_processPackage E A xmppPackages ws text w =
    (if text = [] then (Inr (), w)
     else if packageListeners w ws = None \<and> apiTypes w ws = None \<and> \<not> detectJsonMessage E text then (Inl (PlainError ''Unknown message format''), w)
     else (Inr (), snd (processPackage E A ws text
       (if packageListeners w ws = None then w\<lparr>apiTypes := (apiTypes w)(ws \<mapsto> JSON), packageListeners := (packageListeners w)(ws \<mapsto> JSON)\<rparr> else w))))"
proof -
  have "apiTypes w ws = None \<or> apiTypes w ws = Some JSON" "packageListeners w ws = None \<or> packageListeners w ws = Some JSON"
    using assms(2,3) by (metis api_type.exhaust option.exhaust)+
  moreover have "(apiTypes w)(ws \<mapsto> JSON) = apiTypes w" if "apiTypes w ws = Some JSON" using that by auto
  ultimately show ?thesis using assms(1)
    by (elim disjE) (simp_all add: Tcp_processPackage_def detectAPIType_def createOnPackagesListener_def logged_def andThen_def)
qed

text \<open>C30: The two transports agree: once a TCP socket has its listener for JSON, a package on it has the effect of the same package on a WebSocket, provided that
  processing it does not throw; an error of the processing is answered with \<open>INVALID_DATA_FORMAT\<close> on a WebSocket and not at all on TCP.\<close>

theorem tcp_like_ws:
  assumes "packageListeners w ws = Some JSON"
  shows "case andThen (decodePackage packageData) (processPackage E A ws) w of
      (Inr _, w1) \<Rightarrow> onPackage E A ws packageData w = w1 \<and> Tcp_onPackage E A xmppPackages ws packageData w = w1
    | (Inl _, w1) \<Rightarrow> onPackage E A ws packageData w = onProcessingError ws w1 \<and> Tcp_onPackage E A xmppPackages ws packageData w = w1"
proof -
  obtain s b where d: "decodePackage packageData w = (Inr s, w\<lparr>decoderBuffer := b\<rparr>)" by (simp add: decodePackage_def Let_def)
  let ?w = "w\<lparr>decoderBuffer := b\<rparr>"
  have "Tcp_processPackage E A xmppPackages ws s ?w = (Inr (), snd (processPackage E A ws s ?w))"
    using assms by (simp add: Tcp_processPackage_def createOnPackagesListener_def logged_def andThen_def processPackage_def)
  then have "Tcp_onPackage E A xmppPackages ws packageData w = snd (processPackage E A ws s ?w)"
    by (simp add: Tcp_onPackage_def andThen_run(1)[of "decodePackage _", OF d])
  then show ?thesis by (simp add: onPackage_def andThen_run(1)[of "decodePackage _", OF d] split_beta split: sum.split prod.split)
qed

theorem tcp_like_ws_witness:
  "let w = chat_world\<lparr>packageListeners := [11 \<mapsto> JSON]\<rparr>
   in Tcp_onPackage mem_env plain_libs (\<lambda>_ _. ret []) 11 ''{}'' w = onPackage mem_env plain_libs 11 ''{}'' w"
proof -
  let ?w = "chat_world\<lparr>packageListeners := [11 \<mapsto> JSON]\<rparr>"
  let ?v = "?w\<lparr>decoderBuffer := [], apiTypes := [11 \<mapsto> JSON]\<rparr>"
  have p: "jsonParse mem_env ''{}'' = Some (JObj [])" using parse_written[of "JObj []"] by (simp add: mem_env_def)
  have w: "decoderBuffer ?w = []" "apiTypes chat_world = Map.empty" by (simp_all add: chat_world_def channel_world_def empty_world_def)
  have d: "decodePackage ''{}'' ?w = (Inr ''{}'', ?w\<lparr>decoderBuffer := []\<rparr>)"
    by (simp add: decodePackage_def Let_def w isLead_def isContinuation_def)
  obtain r where m: "onMessage mem_env plain_libs 11 ''{}'' ?v = (Inr r, ?v)"
    by (simp add: onMessage_def processMessageOrError_def p processMessage_def unwrapRequest_def andThen_def)
  obtain w1 where "processAPIResponse mem_env (Some 11) r ?v = (Inr (), w1)" using processAPIResponse_returns by blast
  with m have "processPackage mem_env plain_libs 11 ''{}'' (?w\<lparr>decoderBuffer := []\<rparr>) = (Inr (), w1)"
    by (simp add: processPackage_def w detectAPIType_def detectJsonMessage_def p andThen_def)
  with tcp_like_ws[where w = ?w and ws = 11 and packageData = "''{}''" and E = mem_env and A = plain_libs and xmppPackages = "\<lambda>_ _. ret []"] show ?thesis
    by (simp add: andThen_run(1)[of "decodePackage _", OF d])
qed

section \<open>The watchdog\<close>

text \<open>Which sockets fail when written to, which are TCP sockets, and the ping of the XMPP API.\<close>

record ping_libs =
  pl_fails :: "socket \<Rightarrow> bool"
  pl_isTCP :: "socket \<Rightarrow> bool"
  pl_xmppPing :: string

definition pingPackage :: "ping_libs \<Rightarrow> api_type option \<Rightarrow> string" where
  "pingPackage L api = (case api of Some XMPP \<Rightarrow> pl_xmppPing L | _ \<Rightarrow> stringifyMessage (JObj [(''response'', JObj [(''ping'', JObj [])])]))"

definition pingConnection :: "env \<Rightarrow> ping_libs \<Rightarrow> oid \<Rightarrow> connection \<Rightarrow> unit handler" where
  "pingConnection E L userId connection = (let ws = cn_socket connection in
     if cn_deviceId connection = HTTP_DEVICE_ID then ret ()
     else if \<not> pl_fails L ws then modify (\<lambda>w. w\<lparr>outbox := outbox w @ [(ws, pingPackage L (apiTypes w ws))]\<rparr>)
     else andThen (logged (if pl_isTCP L ws then Tcp_onClose E ws else onClose E ws)) (\<lambda>_.
       modify (\<lambda>w. snd (removeUserSession E ws (Some userId) (Some (cn_deviceId connection)) w))))"

definition pingUser :: "env \<Rightarrow> ping_libs \<Rightarrow> oid \<Rightarrow> unit list handler" where
  "pingUser E L userId = andThen (gets (\<lambda>w. getUserDevices w userId)) (\<lambda>connections. forEach connections (pingConnection E L userId))"

text \<open>\<open>us\<close> are the users with an entry when the round starts.\<close>

definition watchdogPingSocket :: "env \<Rightarrow> ping_libs \<Rightarrow> oid list \<Rightarrow> unit handler" where
  "watchdogPingSocket E L us = andThen (forEach us (pingUser E L)) (\<lambda>_. ret ())"

text \<open>Connections only become fewer.\<close>

definition fewer :: "world \<Rightarrow> world \<Rightarrow> bool" where
  "fewer w w' \<longleftrightarrow> (\<forall>u. set (getUserDevices w' u) \<subseteq> set (getUserDevices w u))"

lemma fewer_refl [simp]: "fewer w w"
  by (simp add: fewer_def)

lemma fewer_trans: "fewer w w1 \<Longrightarrow> fewer w1 w2 \<Longrightarrow> fewer w w2"
  unfolding fewer_def by blast

lemma removeAll_devices [simp]: "DEVICES (snd (removeAllUserDeviceData E org u d w)) = DEVICES w"
  by (simp add: removeAllUserDeviceData_def listUserDevice_def Let_def split_beta)

lemma removed_devices:
  "DEVICES (snd (removeUserSession E ws (Some u) od w)) =
     (let left = filter (\<lambda>c. Some (cn_deviceId c) \<noteq> (case od of Some d \<Rightarrow> Some d | None \<Rightarrow> getDeviceId w ws u)) (getUserDevices w u)
      in (DEVICES w)(u := if left = [] then None else Some left))"
  by (simp add: removeUserSession_def Let_def split: option.split)

lemma removed_fewer: "fewer w (snd (removeUserSession E ws (Some u) od w))"
  by (auto simp: fewer_def getUserDevices_def removed_devices Let_def split: if_splits)

lemma removed_device: "c \<in> set (getUserDevices (snd (removeUserSession E ws (Some u) (Some d) w)) u) \<Longrightarrow> cn_deviceId c \<noteq> d"
  by (auto simp: getUserDevices_def removed_devices Let_def split: if_splits)

interpretation fewer_frame: delivery_frame E "fewer w" for E w
proof
  show "fewer w v \<Longrightarrow> fewer w (unsubscribeObserver E u v)" for u v
    by (simp add: fewer_def getUserDevices_def unsubscribeObserver_def Standalone_unsubscribeObserver_def Standalone_deleteSubscriber_def
        Standalone_deleteSubscribeTarget_def Let_def split: option.split)
qed (simp_all add: fewer_def getUserDevices_def)

lemma keeps_fewer_close: "keeps (fewer w) (onClose E ws)" "keeps (fewer w) (Tcp_onClose E ws)"
proof -
  have r: "fewer w v \<Longrightarrow> fewer w (snd (removeUserSession E ws (Some u) None v))" for u v by (rule fewer_trans[OF _ removed_fewer])
  show c: "keeps (fewer w) (onClose E ws)" unfolding onClose_def updateLastUserLastActivityOnClose_def
    by (intro keeps_intros fewer_frame.keeps_response) (rule r)
  show "keeps (fewer w) (Tcp_onClose E ws)" unfolding Tcp_onClose_def
    by (intro keeps_intros c) (simp add: removeSocketListeners_def fewer_def getUserDevices_def)
qed

lemma keeps_fewer_ping: "keeps (fewer w) (pingConnection E L u c)"
  unfolding pingConnection_def Let_def
  by (intro keeps_intros keeps_logged keeps_fewer_close) (simp add: fewer_def getUserDevices_def, rule fewer_trans[OF _ removed_fewer])

text \<open>A connection that can be written to, or that is not pinged.\<close>

definition alive :: "ping_libs \<Rightarrow> connection \<Rightarrow> bool" where
  "alive L c \<longleftrightarrow> cn_deviceId c = HTTP_DEVICE_ID \<or> \<not> pl_fails L (cn_socket c)"

lemma ping_closes:
  assumes "pingConnection E L u c w = (r, w')" "\<not> alive L c"
  shows "c \<notin> set (getUserDevices w' u)"
proof -
  from assms obtain v where "w' = snd (removeUserSession E (cn_socket c) (Some u) (Some (cn_deviceId c)) v)"
    by (auto simp: pingConnection_def Let_def alive_def andThen_def logged_def split: prod.splits sum.splits)
  then show ?thesis using removed_device by blast
qed

lemma ping_returns: "\<exists>w'. pingConnection E L u c w = (Inr (), w')"
  by (simp add: pingConnection_def Let_def andThen_def logged_def)

lemma pingUser_clears:
  assumes "pingUser E L u w = (r, w')"
  shows "fewer w w'" "\<forall>c \<in> set (getUserDevices w' u). alive L c" "\<exists>ys. r = Inr ys"
proof -
  have run: "fewer w w' \<and> (\<forall>c \<in> set cs. c \<in> set (getUserDevices w' u) \<longrightarrow> alive L c) \<and> (\<exists>ys. r = Inr ys)"
    if "forEach cs (pingConnection E L u) w = (r, w')" for cs w w' r
    using that
  proof (induction cs arbitrary: w r)
    case Nil
    then show ?case by auto
  next
    case (Cons c cs)
    obtain w1 where w1: "pingConnection E L u c w = (Inr (), w1)" using ping_returns by blast
    have f: "fewer w w1" using keepsD[OF keeps_fewer_ping fewer_refl w1] .
    obtain r' where r': "forEach cs (pingConnection E L u) w1 = (r', w')"
      using Cons.prems w1 by (auto simp: andThen_def split: prod.splits sum.splits)
    with Cons.prems w1 have "\<exists>ys. r' = Inr ys \<Longrightarrow> \<exists>ys. r = Inr ys" by (auto simp: andThen_def)
    moreover have "alive L c" if "c \<in> set (getUserDevices w' u)"
      using that Cons.IH[OF r'] ping_closes[OF w1] by (auto simp: fewer_def)
    ultimately show ?case using Cons.IH[OF r'] fewer_trans[OF f] by auto
  qed
  have "forEach (getUserDevices w u) (pingConnection E L u) w = (r, w')" using assms by (simp add: pingUser_def)
  from run[OF this] show "fewer w w'" "\<forall>c \<in> set (getUserDevices w' u). alive L c" "\<exists>ys. r = Inr ys" by (auto simp: fewer_def)
qed

text \<open>C28: After a round of the watchdog every connection that the node has left can be written to (connections of HTTP requests apart, which are not pinged), the
  round ends, and no connection has been added.\<close>

theorem watchdog_clears:
  assumes "watchdogPingSocket E L us w = (r, w')" "\<forall>u. getUserDevices w u \<noteq> [] \<longrightarrow> u \<in> set us"
  shows "r = Inr () \<and> (\<forall>u. set (getUserDevices w' u) \<subseteq> {c \<in> set (getUserDevices w u). alive L c})"
proof -
  have run: "fewer w w' \<and> (\<forall>u \<in> set us. \<forall>c \<in> set (getUserDevices w' u). alive L c) \<and> (\<exists>ys. r = Inr ys)"
    if "forEach us (pingUser E L) w = (r, w')" for us w w' and r :: "exn + unit list list"
    using that
  proof (induction us arbitrary: w r)
    case Nil
    then show ?case by auto
  next
    case (Cons u us)
    obtain ys w1 where w1: "pingUser E L u w = (Inr ys, w1)" using pingUser_clears(3) by (metis prod.exhaust)
    obtain r' where r': "forEach us (pingUser E L) w1 = (r', w')" using Cons.prems w1 by (auto simp: andThen_def split: prod.splits sum.splits)
    with Cons.prems w1 have "\<exists>zs. r' = Inr zs \<Longrightarrow> \<exists>zs. r = Inr zs" by (auto simp: andThen_def)
    moreover have "alive L c" if "c \<in> set (getUserDevices w' u)" for c
      using that Cons.IH[OF r'] pingUser_clears(2)[OF w1] unfolding fewer_def by blast
    ultimately show ?case using Cons.IH[OF r'] fewer_trans[OF pingUser_clears(1)[OF w1]] by auto
  qed
  obtain ys where "forEach us (pingUser E L) w = (Inr ys, w')" "r = Inr ()"
    using assms(1) run by (auto simp: watchdogPingSocket_def andThen_def split: prod.splits sum.splits)
  with run[of us w "Inr ys" w'] assms(2) show ?thesis by (auto simp: fewer_def) (metis empty_iff empty_set subsetD)
qed

theorem watchdog_clears_witness:
  "let c = \<lparr>cn_socket = 11, cn_deviceId = ''d'', cn_organizationId = ''o''\<rparr>; w = chat_world\<lparr>DEVICES := [''u1'' \<mapsto> [c, c\<lparr>cn_socket := 14, cn_deviceId := ''e''\<rparr>]]\<rparr>
   in \<forall>u. set (getUserDevices (snd (watchdogPingSocket mem_env \<lparr>pl_fails = (\<lambda>ws. ws = 11), pl_isTCP = (\<lambda>_. False), pl_xmppPing = []\<rparr> [''u1''] w)) u)
        \<subseteq> {c\<lparr>cn_socket := 14, cn_deviceId := ''e''\<rparr>}"
proof -
  let ?c = "\<lparr>cn_socket = 11, cn_deviceId = ''d'', cn_organizationId = ''o''\<rparr>"
  let ?w = "chat_world\<lparr>DEVICES := [''u1'' \<mapsto> [?c, ?c\<lparr>cn_socket := 14, cn_deviceId := ''e''\<rparr>]]\<rparr>"
  let ?L = "\<lparr>pl_fails = (\<lambda>ws. ws = 11), pl_isTCP = (\<lambda>_. False), pl_xmppPing = []\<rparr>"
  obtain r w' where run: "watchdogPingSocket mem_env ?L [''u1''] ?w = (r, w')" by fastforce
  have "\<forall>u. getUserDevices ?w u \<noteq> [] \<longrightarrow> u \<in> set [''u1'']" by (auto simp: getUserDevices_def)
  from watchdog_clears[OF run this] have "set (getUserDevices w' u) \<subseteq> {c \<in> set (getUserDevices ?w u). alive ?L c}" for u by blast
  moreover have "{c \<in> set (getUserDevices ?w u). alive ?L c} \<subseteq> {?c\<lparr>cn_socket := 14, cn_deviceId := ''e''\<rparr>}" for u
    by (auto simp: getUserDevices_def alive_def HTTP_DEVICE_ID_def split: if_splits)
  ultimately show ?thesis unfolding Let_def run snd_conv by (meson subset_trans)
qed

end
