(* ===== verification/Server.thy ===== *)
theory Server
  imports Http_Frame Transports
begin

text \<open>
  The server as a transition system. A step is a package of arbitrary bytes that arrives on a WebSocket or a TCP socket and is decoded, routed, checked,
  performed and answered (\<open>onPackage\<close>, \<open>Tcp_onPackage\<close>, all routes of \<^verbatim>\<open>APIs/JSON/routes/routes.js\<close>), an HTTP request with any URL, headers and
  body (\<open>onHttpRequest\<close>), a socket that closes, a round of the watchdog, or time that passes; steps of different
  sockets follow one another in any order. The invariant \<open>server_ok\<close> of the stored chat data holds in every state that is reached, whether
  the requests succeed, are refused or fail half-way.
\<close>

text \<open>The libraries of the transports: of the HTTP API, the XMPP parser of the TCP transport, the sockets as the watchdog finds them.\<close>

record transport_libs =
  tl_http :: http_libs
  tl_xmppPackages :: "socket \<Rightarrow> string \<Rightarrow> string list handler"
  tl_ping :: ping_libs

inductive serves :: "env \<Rightarrow> api_libs \<Rightarrow> transport_libs \<Rightarrow> world \<Rightarrow> world \<Rightarrow> bool" for E A T where
  package: "apiTypes w ws \<noteq> Some XMPP \<Longrightarrow> serves E A T w (onPackage E A ws packageData w)"
| tcp_package: "apiTypes w ws \<noteq> Some XMPP \<Longrightarrow> packageListeners w ws \<noteq> Some XMPP \<Longrightarrow>
    serves E A T w (Tcp_onPackage E A (tl_xmppPackages T) ws packageData w)"
| http_request: "serves E A T w (onHttpRequest E A (tl_http T) late res req w)"
| close: "serves E A T w (snd (onClose E ws w))"
| tcp_close: "serves E A T w (snd (Tcp_onClose E ws w))"
| watchdog: "serves E A T w (snd (watchdogPingSocket E (tl_ping T) us w))"
| tick: "clock w \<le> t \<Longrightarrow> serves E A T w (w\<lparr>clock := t\<rparr>)"

inductive reachable :: "env \<Rightarrow> api_libs \<Rightarrow> transport_libs \<Rightarrow> world \<Rightarrow> world \<Rightarrow> bool" for E A T w0 where
  init: "reachable E A T w0 w0"
| step: "reachable E A T w0 w \<Longrightarrow> serves E A T w w' \<Longrightarrow> reachable E A T w0 w'"

declare reachable.intros [intro]

section \<open>The controllers keep the chat data consistent\<close>

lemmas frame_requests =
  chat.same_user_requests[THEN sameChat_server_ok] chat.same_activity_requests[THEN sameChat_server_ok] chat.same_accounts[THEN sameChat_server_ok]
  chat.same_contact_requests[THEN sameChat_server_ok] chat.same_file_requests[THEN sameChat_server_ok] chat.same_push_requests[THEN sameChat_server_ok]
  chat.same_device_requests[THEN sameChat_server_ok] chat.same_list_requests[THEN sameChat_server_ok] chat.same_message_requests[THEN sameChat_server_ok]

lemmas chat_requests = keeps_block_requests keeps_ConversationCreate keeps_ConversationEdit keeps_ConversationDelete
  keeps_ConversationSubscribe keeps_handler_requests keeps_MessageCreate keeps_message_requests keeps_MessageList

lemma keeps_decoders [keeps_intros]:
  "keeps I (timeParam k p)" "keeps I (messageParams p)" "keeps I (listOptions p)" "keeps I (userParams p)" "keeps I (userInfo p)"
  "keeps I (userUpdate p)" "keeps I (contactParams p)" "keeps I (conversationParams p)" "keeps I (editConversationParams p)"
  "keeps I (createdAt p)" "keeps I (subscriptionParams p)"
  unfolding timeParam_def messageParams_def listOptions_def userParams_def userInfo_def userUpdate_def contactParams_def conversationParams_def
    editConversationParams_def createdAt_def subscriptionParams_def
  by (intro keeps_intros)+

lemma keeps_online: "keeps server_ok (awaited (OnlineList_perform E srt ws p))"
proof (rule sameChat_server_ok)
  show "sameChat D (awaited (OnlineList_perform E srt ws p))" for D
    by (auto simp: keeps_def awaited_def split: option.split dest: chat.same_online)
qed

lemma keeps_status_routes: "mongo_ok E \<Longrightarrow> (n, r) \<in> set (statusRoutes E) \<Longrightarrow> keeps server_ok (rt_controller r ws json)"
  by (auto simp: statusRoutes_def openRoute_def guardedRoute_def StatusesController_ping_def StatusesController_typing_def Let_def
      intro!: keeps_intros frame_requests)

lemma keeps_message_routes: "mongo_ok E \<Longrightarrow> (n, r) \<in> set (messageRoutes E) \<Longrightarrow> keeps server_ok (rt_controller r ws json)"
  by (auto simp: messageRoutes_def openRoute_def guardedRoute_def countedRoute_def Let_def MessagesController_create_def
      MessagesController_sendSystem_def MessagesController_edit_def MessagesController_reactions_update_def MessagesController_list_def
      MessagesController_reactions_list_def MessagesController_read_def MessagesController_decryption_failed_def
      MessagesController_delete_def MessagesController_summary_def MessagesController_tone_def
      intro!: keeps_intros frame_requests chat_requests)

lemma keeps_user_routes: "mongo_ok E \<Longrightarrow> (n, r) \<in> set (userRoutes E) \<Longrightarrow> keeps server_ok (rt_controller r ws json)"
  by (auto simp: userRoutes_def openRoute_def guardedRoute_def Let_def UsersController_create_def UsersController_connect_def UsersController_login_def
      UsersController_edit_def UsersController_logout_def UsersController_send_otp_def UsersController_reset_password_def
      UsersController_delete_def UsersController_search_def UsersController_list_def
      intro!: keeps_intros frame_requests chat_requests)

lemma keeps_contact_routes: "mongo_ok E \<Longrightarrow> (n, r) \<in> set (contactRoutes E) \<Longrightarrow> keeps server_ok (rt_controller r ws json)"
  by (auto simp: contactRoutes_def openRoute_def guardedRoute_def Let_def ContactsController_contact_add_def ContactsController_contact_batch_add_def
      ContactsController_contact_update_def ContactsController_contact_list_def ContactsController_contact_delete_def
      intro!: keeps_intros frame_requests chat_requests)

lemma keeps_file_routes: "mongo_ok E \<Longrightarrow> (n, r) \<in> set (fileRoutes E) \<Longrightarrow> keeps server_ok (rt_controller r ws json)"
  by (auto simp: fileRoutes_def openRoute_def guardedRoute_def Let_def FilesController_create_url_def FilesController_get_download_url_def
      OperationsLogController_logs_def
      intro!: keeps_intros frame_requests chat_requests)

lemma keeps_block_routes: "mongo_ok E \<Longrightarrow> (n, r) \<in> set (blockRoutes E) \<Longrightarrow> keeps server_ok (rt_controller r ws json)"
  by (auto simp: blockRoutes_def openRoute_def guardedRoute_def Let_def UsersBlockController_block_def UsersBlockController_unblock_def
      UsersBlockController_enable_def UsersBlockController_list_def
      intro!: keeps_intros frame_requests chat_requests)

lemma keeps_activity_routes: "mongo_ok E \<Longrightarrow> (n, r) \<in> set (activityRoutes E A) \<Longrightarrow> keeps server_ok (rt_controller r ws json)"
  by (auto simp: activityRoutes_def openRoute_def guardedRoute_def Let_def ActivitiesController_status_subscribe_def
      ActivitiesController_status_unsubscribe_def ActivitiesController_get_user_status_def ActivitiesController_online_list_def
      ActivitiesController_activity_status_def
      intro!: keeps_intros frame_requests chat_requests keeps_online)

lemma keeps_conversation_routes: "mongo_ok E \<Longrightarrow> (n, r) \<in> set (conversationRoutes E) \<Longrightarrow> keeps server_ok (rt_controller r ws json)"
  by (auto simp: conversationRoutes_def openRoute_def guardedRoute_def subscribeRequest_def Let_def ConversationsController_create_def
      ConversationsController_update_def ConversationsController_list_def ConversationsController_delete_def
      ConversationsController_get_participants_by_cids_def ConversationsController_get_admins_by_cids_def ConversationsController_search_def
      ConversationsController_subscribe_channel_def ConversationsController_unsubscribe_channel_def ConversationHandlersController_create_def
      ConversationHandlersController_get_def ConversationHandlersController_delete_def
      intro!: keeps_intros frame_requests chat_requests)

lemma keeps_push_routes: "mongo_ok E \<Longrightarrow> (n, r) \<in> set (pushRoutes E) \<Longrightarrow> keeps server_ok (rt_controller r ws json)"
  by (auto simp: pushRoutes_def openRoute_def guardedRoute_def Let_def PushNotificationsController_push_subscription_create_def
      PushNotificationsController_push_subscription_list_def PushNotificationsController_push_subscription_delete_def
      PushNotificationsController_push_event_create_def
      intro!: keeps_intros frame_requests chat_requests)

lemma keeps_encryption_routes: "mongo_ok E \<Longrightarrow> (n, r) \<in> set (encryptionRoutes E) \<Longrightarrow> keeps server_ok (rt_controller r ws json)"
  by (auto simp: encryptionRoutes_def openRoute_def guardedRoute_def Let_def EncryptionController_register_def EncryptionController_list_def
      EncryptionController_request_keys_def EncryptionController_delete_def
      intro!: keeps_intros frame_requests chat_requests)

section \<open>Packages\<close>

lemma keeps_routes:
  assumes "mongo_ok E" "(n, r) \<in> set (routes E A)"
  shows "keeps server_ok (rt_controller r ws json)"
  using assms(2) unfolding routes_def set_append
  by (elim UnE) (blast intro: assms(1) keeps_status_routes keeps_message_routes keeps_user_routes keeps_contact_routes keeps_file_routes
      keeps_block_routes keeps_activity_routes keeps_conversation_routes keeps_push_routes keeps_encryption_routes)+

lemma server_ok_stats: "server_ok w \<Longrightarrow> server_ok (statsMessages_handle L w)"
  by (subst server_ok_cong[of _ w]) (simp_all add: statsMessages_handle_def incMessagesCount_def Let_def)

lemma keeps_processMessage:
  assumes "mongo_ok E"
  shows "keeps server_ok (processMessage E A ws json)"
proof -
  have "keeps server_ok (runRoute A n r ws json')" if "(n, r) \<in> set (routes E A)" for n r json'
    unfolding runRoute_def authGuard_def validate_def by (intro keeps_intros keeps_routes[OF assms that]) (rule server_ok_stats)
  then show ?thesis unfolding processMessage_def by (auto intro!: keeps_intros dest: map_of_SomeD)
qed

lemma keeps_onMessage:
  assumes "mongo_ok E"
  shows "keeps server_ok (onMessage E A ws text)"
proof -
  have "keeps server_ok (processMessageOrError E A ws text)"
  proof (rule keepsI)
    fix w r w' assume ok: "server_ok w" and run: "processMessageOrError E A ws text w = (r, w')"
    show "server_ok w'"
    proof (cases "jsonParse E text")
      case None
      with ok run show ?thesis by (simp add: processMessageOrError_def)
    next
      case (Some j)
      have "server_ok (snd (processMessage E A ws j w))" using keeps_processMessage[OF assms] ok by (simp add: keeps_def)
      with Some run show ?thesis by (auto simp: processMessageOrError_def split: prod.splits sum.splits)
    qed
  qed
  then show ?thesis unfolding onMessage_def by (intro keeps_intros) (simp_all add: keeps_intros split: route_result.split)
qed

lemma server_ok_packages [simp]:
  "server_ok (w\<lparr>outbox := ps\<rparr>) = server_ok w" "server_ok (w\<lparr>apiTypes := as\<rparr>) = server_ok w" "server_ok (w\<lparr>decoderBuffer := b\<rparr>) = server_ok w"
  "server_ok (w\<lparr>packageListeners := l\<rparr>) = server_ok w"
  by (rule server_ok_chatData; simp)+

text \<open>A node that does not run the XMPP API speaks JSON on the socket.\<close>

lemma processPackage_json:
  assumes "\<not> cfg_useXMPP E" "apiTypes w ws \<noteq> Some XMPP"
  shows "processPackage E A ws text w =
    (if text = [] then (Inr (), w)
     else if apiTypes w ws = None \<and> \<not> detectJsonMessage E text then (Inl (PlainError ''Unknown message format''), w)
     else andThen (onMessage E A ws text) (processAPIResponse E (Some ws))
       (w\<lparr>apiTypes := (apiTypes w)(ws \<mapsto> JSON)\<rparr>))"
proof -
  have "a = JSON" if "apiTypes w ws = Some a" for a using assms(2) that by (cases a) simp_all
  moreover have "(apiTypes w)(ws \<mapsto> JSON) = apiTypes w" if "apiTypes w ws = Some JSON" using that by auto
  ultimately show ?thesis
    using assms(1) by (auto simp: processPackage_def detectAPIType_def andThen_def split: option.split)
qed

lemma server_ok_processPackage:
  assumes "mongo_ok E" "\<not> cfg_useXMPP E" "apiTypes w ws \<noteq> Some XMPP" "server_ok w"
  shows "server_ok (snd (processPackage E A ws s w))"
proof -
  have "keeps server_ok (andThen (onMessage E A ws s) (processAPIResponse E (Some ws)))"
    by (intro keeps_intros keeps_onMessage[OF assms(1)] sameChat_server_ok[OF chat.same_response])
  with assms(4) show ?thesis by (simp add: processPackage_json[OF assms(2,3)] keeps_def)
qed

lemma server_ok_onPackage:
  assumes "mongo_ok E" "\<not> cfg_useXMPP E" "apiTypes w ws \<noteq> Some XMPP" "server_ok w"
  shows "server_ok (onPackage E A ws packageData w)"
proof -
  obtain s b where d: "decodePackage packageData w = (Inr s, w\<lparr>decoderBuffer := b\<rparr>)"
    by (simp add: decodePackage_def Let_def)
  have "server_ok (snd (processPackage E A ws s (w\<lparr>decoderBuffer := b\<rparr>)))"
    using assms(3,4) by (intro server_ok_processPackage[OF assms(1,2)]) simp_all
  then show ?thesis by (auto simp: onPackage_def andThen_def d onProcessingError_def split: prod.splits sum.splits)
qed

lemma server_ok_Tcp_onPackage:
  assumes "mongo_ok E" "\<not> cfg_useXMPP E" "apiTypes w ws \<noteq> Some XMPP" "packageListeners w ws \<noteq> Some XMPP" "server_ok w"
  shows "server_ok (Tcp_onPackage E A xmppPackages ws packageData w)"
proof -
  obtain s b where d: "decodePackage packageData w = (Inr s, w\<lparr>decoderBuffer := b\<rparr>)"
    by (simp add: decodePackage_def Let_def)
  have "server_ok (snd (processPackage E A ws s v))" if "v \<in> {w\<lparr>decoderBuffer := b\<rparr>,
      w\<lparr>decoderBuffer := b, apiTypes := (apiTypes w)(ws \<mapsto> JSON), packageListeners := (packageListeners w)(ws \<mapsto> JSON)\<rparr>}" for v
    using that assms(3,5) by (intro server_ok_processPackage[OF assms(1,2)]) auto
  then have "server_ok (snd (Tcp_processPackage E A xmppPackages ws s (w\<lparr>decoderBuffer := b\<rparr>)))"
    using assms(3-5) by (simp add: Tcp_processPackage_json[OF assms(2)])
  then show ?thesis by (auto simp: Tcp_onPackage_def andThen_def d onProcessingError_def split: prod.splits sum.splits)
qed

section \<open>HTTP requests and the watchdog\<close>

lemma keeps_http_messages:
  assumes "mongo_ok E"
  shows "keeps server_ok (HttpMessageController_message E ctx res)" "keeps server_ok (HttpMessageController_system_message E ctx res)"
    "keeps server_ok (HttpMessageController_read E ctx res)" "keeps server_ok (HttpMessageController_edit E ctx res)"
    "keeps server_ok (HttpMessageController_reaction E ctx res)" "keeps server_ok (HttpMessageController_delete E ctx res)"
  unfolding http_message_defs Let_def
  by (intro keeps_intros sameChat_server_ok[OF chat.same_actAs] frame_requests chat_requests assms)+

lemma keeps_httpRoute:
  assumes "mongo_ok E"
  shows "keeps server_ok (ht_handler (httpRoute E A L req) ctx res)"
proof -
  note quiet = chat.same_http_auth[THEN sameChat_server_ok] chat.same_http_stats[THEN sameChat_server_ok] chat.same_http_admin[THEN sameChat_server_ok]
  have "keeps server_ok (ht_handler r ctx res)" if "(n, r) \<in> set (httpRoutes E A L)" for n r
    using that unfolding httpRoutes_def Let_def by (auto intro: quiet keeps_http_messages[OF assms])
  then show ?thesis by (auto simp: httpRoute_def quiet split: option.split dest: map_of_SomeD)
qed

lemma server_ok_onHttpRequest:
  assumes "mongo_ok E" "server_ok w"
  shows "server_ok (onHttpRequest E A L late res req w)"
proof -
  let ?r = "httpRoute E A L req"
  let ?run = "andThen (if ht_admin ?r then adminApiKeyValidation L req else ret ()) (\<lambda>_. ht_handler ?r (parseJsonBody E req (parseBaseParams L req)) res)"
  have "keeps server_ok ?run" unfolding adminApiKeyValidation_def Let_def by (intro keeps_intros keeps_httpRoute assms(1))
  then have "server_ok (snd (?run w))" using assms(2) by (simp add: keeps_def)
  moreover have "server_ok (unbindSession E res v) = server_ok v" "server_ok (replied res p v) = server_ok v"
    "server_ok (deliverAndUnbind E late res x v) = server_ok v" for p x v
    by (rule server_ok_chatData; simp add: replied_def)+
  ultimately show ?thesis
    by (cases "?run w") (simp add: onHttpRequest_def requestHandler_def Let_def split: sum.split)
qed

lemma keeps_watchdog: "keeps server_ok (Tcp_onClose E ws)" "keeps server_ok (watchdogPingSocket E P us)"
proof -
  have close: "sameChat D (Tcp_onClose E ws)" for D ws
    unfolding Tcp_onClose_def by (intro keeps_intros chat.same_onClose) (simp add: removeSocketListeners_def)
  have ping: "sameChat D (pingConnection E P u c)" for D u c
    unfolding pingConnection_def Let_def by (intro keeps_intros close chat.same_onClose) simp_all
  have "sameChat D (watchdogPingSocket E P us)" for D
    unfolding watchdogPingSocket_def pingUser_def by (intro keeps_intros ping)
  with close show "keeps server_ok (Tcp_onClose E ws)" "keeps server_ok (watchdogPingSocket E P us)" by (blast intro: sameChat_server_ok)+
qed

section \<open>The invariant of the server\<close>

lemma server_ok_serves:
  assumes "mongo_ok E" "\<not> cfg_useXMPP E" "serves E A T w w'" "server_ok w"
  shows "server_ok w'"
  using assms(3)
proof (cases rule: serves.cases)
  case package
  then show ?thesis using server_ok_onPackage[OF assms(1,2) _ assms(4)] by blast
next
  case tcp_package
  then show ?thesis using server_ok_Tcp_onPackage[OF assms(1,2) _ _ assms(4)] by blast
next
  case http_request
  then show ?thesis using server_ok_onHttpRequest[OF assms(1,4)] by blast
next
  case close
  then show ?thesis using sameChat_server_ok[OF chat.same_onClose] assms(4) by (simp add: keeps_def)
next
  case tcp_close
  then show ?thesis using keeps_watchdog(1) assms(4) by (simp add: keeps_def)
next
  case watchdog
  then show ?thesis using keeps_watchdog(2) assms(4) by (simp add: keeps_def)
next
  case tick
  then show ?thesis using assms(4) server_ok_chatData[OF chatData_packages(1)] by simp
qed

text \<open>C1: The invariant of the stored chat data, for the whole server: in every state reached from a consistent one by any sequence of packages of
  arbitrary bytes on WebSockets and TCP sockets (in any order, from any sockets, with or without a session, whether they are malformed, refused, fail half-way or
  succeed), HTTP requests, closing sockets, rounds of the watchdog and clock ticks, participants stay unique per conversation and refer to stored conversations, owners
  are members, identifiers stay unique, and a user has at most one reaction of a kind per message. (A node that runs the XMPP API of the other repository also is outside.)
\<close>

theorem server_invariant:
  assumes "mongo_ok E" "\<not> cfg_useXMPP E" "server_ok w0" "reachable E A T w0 w"
  shows "server_ok w"
  using assms(4)
proof (induction rule: reachable.induct)
  case init
  show ?case by (rule assms(3))
next
  case (step w w')
  then show ?case using server_ok_serves[OF assms(1,2)] by blast
qed

lemma chat_world_ok: "server_ok chat_world"
  by (simp add: server_ok_def conv_ok_def counter_ok_def chat_world_def chat_conversation_def chat_message_def channel_world_def
      channel_example_def part_example_def empty_world_def reactions_ok_def parts_ok_def part_key_def)

definition message_request :: json where
  "message_request = JObj [(''message'', JObj [(''id'', JStr ''1''), (''cid'', JStr ''c1''), (''body'', JStr ''hello'')])]"

definition plain_http :: http_libs where
  "plain_http = \<lparr>hl_cookieSecret = Some ''secret'', hl_corsOrigin = None, hl_apiKey = Some ''key'', hl_accessExpiresIn = 3600, hl_refreshExpiresIn = 86400,
     hl_cookieParse = (\<lambda>_. Some []), hl_signedCookies = (\<lambda>_ _. []), hl_cookieSign = (\<lambda>v k. v @ ''.'' @ k), hl_cookieSerialize = (\<lambda>n v _. n @ ''='' @ v)\<rparr>"

definition health_request :: http_request where
  "health_request = \<lparr>hq_method = ''get'', hq_url = ''/health'', hq_headers = [], hq_body = []\<rparr>"

definition plain_transports :: transport_libs where
  "plain_transports = \<lparr>tl_http = plain_http, tl_xmppPackages = (\<lambda>_ _. ret []), tl_ping = \<lparr>pl_fails = (\<lambda>_. False), pl_isTCP = (\<lambda>_. False), pl_xmppPing = []\<rparr>\<rparr>"

theorem server_invariant_witness:
  "server_ok (snd (onClose mem_env 11 (onHttpRequest mem_env plain_libs plain_http 0 77 health_request
     (onPackage mem_env plain_libs 11 (stringifyMessage message_request) chat_world))))"
proof (rule server_invariant[OF mem_env_ok(1) _ chat_world_ok])
  show "\<not> cfg_useXMPP mem_env" by (simp add: mem_env_def)
  have "apiTypes chat_world 11 \<noteq> Some XMPP" by (simp add: chat_world_def channel_world_def empty_world_def)
  then have p: "serves mem_env plain_libs plain_transports chat_world (onPackage mem_env plain_libs 11 (stringifyMessage message_request) chat_world)"
    by (rule serves.package)
  have h: "serves mem_env plain_libs plain_transports w (onHttpRequest mem_env plain_libs plain_http 0 77 health_request w)" for w
    using serves.http_request[of mem_env plain_libs plain_transports w 0 77] by (simp add: plain_transports_def)
  show "reachable mem_env plain_libs plain_transports chat_world (snd (onClose mem_env 11 (onHttpRequest mem_env plain_libs plain_http 0 77 health_request
      (onPackage mem_env plain_libs 11 (stringifyMessage message_request) chat_world))))"
    by (rule reachable.step[OF reachable.step[OF reachable.step[OF reachable.init p] h] serves.close])
qed

end
