(* ===== verification/Delivery_Props.thy ===== *)
theory Delivery_Props
  imports Delivery Conversation_Props
begin

text \<open>
  What delivery promises. The connections of a user, as the session registry lists them, decide the path of a packet: \<open>here\<close>,
  \<open>elsewhere\<close> or \<open>offline\<close>. The theorems say that each destination is served on exactly its paths, that a message to a conversation reaches every
  participant, and what closing a socket tells the watchers.
\<close>

section \<open>The path of a packet\<close>

definition connectionsOf :: "env \<Rightarrow> world \<Rightarrow> oid \<Rightarrow> oid \<Rightarrow> (string \<times> (string \<rightharpoonup> string)) list" where
  "connectionsOf E w org u = fst (listUserData E org u w)"

definition endpoints :: "(string \<rightharpoonup> string) list \<Rightarrow> string set" where
  "endpoints ps = {e. e \<noteq> [] \<and> (\<exists>p \<in> set ps. p SESSION_NODE_KEY = Some e)}"

definition endpointsOf :: "env \<Rightarrow> world \<Rightarrow> oid \<Rightarrow> oid \<Rightarrow> string set" where
  "endpointsOf E w org u = endpoints (map snd (connectionsOf E w org u))"

definition offline :: "env \<Rightarrow> world \<Rightarrow> oid \<Rightarrow> oid \<Rightarrow> bool" where
  "offline E w org u \<longleftrightarrow> connectionsOf E w org u = []"

definition inactive :: "env \<Rightarrow> world \<Rightarrow> oid \<Rightarrow> oid \<Rightarrow> bool" where
  "inactive E w org u \<longleftrightarrow> (\<exists>p \<in> snd ` set (connectionsOf E w org u). p SESSION_INACTIVE_STATE_KEY \<noteq> None)"

definition here :: "env \<Rightarrow> world \<Rightarrow> oid \<Rightarrow> oid \<Rightarrow> bool" where
  "here E w org u \<longleftrightarrow> (if cfg_isStandAloneNode E then endpointsOf E w org u \<noteq> {} else cfg_clusterEndpoint E \<in> endpointsOf E w org u)"

definition elsewhere :: "env \<Rightarrow> world \<Rightarrow> oid \<Rightarrow> oid \<Rightarrow> string set" where
  "elsewhere E w org u = (if cfg_isStandAloneNode E then {} else endpointsOf E w org u - {cfg_clusterEndpoint E})"

text \<open>The texts written to the sockets of a user on this node.\<close>

definition sendsTo :: "env \<Rightarrow> world \<Rightarrow> sender_info \<Rightarrow> string option \<Rightarrow> string \<Rightarrow> oid \<Rightarrow> (socket \<times> string) list" where
  "sendsTo E w si exceptDeviceId packet u =
     concat (map (\<lambda>c. map (Pair (cn_socket c)) (recipientPackets E si (recipientInfo w c) packet)) (activeDevices w u exceptDeviceId))"

lemma listUserData_readonly [simp]: "snd (listUserData E org u w) = w"
  by (simp add: listUserData_def listUserDevice_def Let_def)

lemma listUserData_log [simp]: "fst (listUserData E org u (w\<lparr>operations_log := l\<rparr>)) = fst (listUserData E org u w)"
  by (simp add: listUserData_def listUserDevice_def Let_def getUserDevices_def getSession_def cong: if_cong)

lemma path_log [simp]:
  "connectionsOf E (w\<lparr>operations_log := l\<rparr>) = connectionsOf E w" "offline E (w\<lparr>operations_log := l\<rparr>) = offline E w"
  "inactive E (w\<lparr>operations_log := l\<rparr>) = inactive E w" "here E (w\<lparr>operations_log := l\<rparr>) = here E w"
  "elsewhere E (w\<lparr>operations_log := l\<rparr>) = elsewhere E w"
  by (simp_all add: connectionsOf_def offline_def inactive_def here_def elsewhere_def endpointsOf_def fun_eq_iff)

section \<open>Sorting the destinations\<close>

lemma set_addKey [simp]: "set (addKey k ks) = insert k (set ks)" "distinct ks \<Longrightarrow> distinct (addKey k ks)"
  by (auto simp: addKey_def)

definition flat :: "(string \<times> oid list) list \<Rightarrow> (string \<times> oid) list" where
  "flat others = concat (map (\<lambda>(e, us). map (Pair e) us) others)"

lemma set_flat: "set (flat others) = {(e, u). \<exists>us. (e, us) \<in> set others \<and> u \<in> set us}"
  by (auto simp: flat_def)

lemma addOther_keys: "set (map fst (addOther e u others)) = insert e (set (map fst others))"
  by (induction e u others rule: addOther.induct) auto

lemma flat_Cons [simp]: "flat [] = []" "flat ((e, us) # others) = map (Pair e) us @ flat others"
  by (simp_all add: flat_def)

lemma fst_flat: "fst ` set (flat others) \<subseteq> set (map fst others)"
  by (auto simp: set_flat intro: rev_image_eqI)

lemma addOther_set: "set (flat (addOther e u others)) = insert (e, u) (set (flat others))"
  by (induction e u others rule: addOther.induct) auto

lemma distinct_flat_Cons:
  assumes "e \<notin> set (map fst others)"
  shows "distinct (flat ((e, us) # others)) \<longleftrightarrow> distinct us \<and> distinct (flat others)"
proof -
  have "Pair e ` set us \<inter> set (flat others) = {}"
    using assms fst_flat[of others] by (auto simp: subset_iff) (metis fst_conv image_eqI)
  then show ?thesis by (simp add: distinct_map inj_on_def)
qed

lemma addOther_flat:
  assumes "distinct (map fst others)" "distinct (flat others)"
  shows "distinct (map fst (addOther e u others)) \<and> distinct (flat (addOther e u others))"
  using assms
proof (induction e u others rule: addOther.induct)
  case (2 e u e' us rest)
  then have rest: "e' \<notin> set (map fst rest)" "distinct (map fst rest)" by simp_all
  then have parts: "distinct us" "distinct (flat rest)" using 2(3) distinct_flat_Cons by blast+
  show ?case
  proof (cases "e' = e")
    case True
    then show ?thesis using rest parts by (simp add: distinct_flat_Cons del: flat_Cons)
  next
    case False
    then have "e' \<notin> set (map fst (addOther e u rest))" using rest(1) addOther_keys[of e u rest] by simp
    then show ?thesis using False rest parts 2(1) by (simp add: distinct_flat_Cons del: flat_Cons)
  qed
qed (simp_all add: flat_def)

lemma endpoints_simps [simp]:
  "endpoints [] = {}"
  "endpoints (p # ps) = (case p SESSION_NODE_KEY of None \<Rightarrow> endpoints ps | Some e \<Rightarrow> if e = [] then endpoints ps else insert e (endpoints ps))"
  by (auto simp: endpoints_def split: option.split)

lemma addKey_idem [simp]: "addKey k (addKey k ks) = addKey k ks"
  by (simp add: addKey_def)

definition others_ok :: "destinations \<Rightarrow> bool" where
  "others_ok acc \<longleftrightarrow> distinct (map fst (ds_otherNodes acc)) \<and> distinct (flat (ds_otherNodes acc))"

lemma others_ok_update [simp]:
  "others_ok (acc\<lparr>ds_currentNodesUserIds := us\<rparr>) = others_ok acc" "others_ok (acc\<lparr>ds_offlineUsersIds := us\<rparr>) = others_ok acc"
  "others_ok acc \<Longrightarrow> others_ok (acc\<lparr>ds_otherNodes := addOther e u (ds_otherNodes acc)\<rparr>)"
  using addOther_flat by (auto simp: others_ok_def)

lemma reduce_spec:
  assumes "others_ok acc"
  shows "ds_offlineUsersIds (reduceUserNodeConnections E ep u ps acc) = ds_offlineUsersIds acc
    \<and> ds_currentNodesUserIds (reduceUserNodeConnections E ep u ps acc) =
        (if (if cfg_isStandAloneNode E then endpoints ps \<noteq> {} else ep \<in> endpoints ps)
         then addKey u (ds_currentNodesUserIds acc) else ds_currentNodesUserIds acc)
    \<and> set (flat (ds_otherNodes (reduceUserNodeConnections E ep u ps acc))) = set (flat (ds_otherNodes acc))
        \<union> (if cfg_isStandAloneNode E then {} else (\<lambda>e. (e, u)) ` (endpoints ps - {ep}))
    \<and> others_ok (reduceUserNodeConnections E ep u ps acc)"
  using assms
proof (induction ps arbitrary: acc)
  case (Cons p ps)
  show ?case
  proof (cases "p SESSION_NODE_KEY")
    case None
    then show ?thesis using Cons by simp
  next
    case (Some e)
    let ?acc = "if e = [] then acc
      else if e = ep \<or> cfg_isStandAloneNode E then acc\<lparr>ds_currentNodesUserIds := addKey u (ds_currentNodesUserIds acc)\<rparr>
      else acc\<lparr>ds_otherNodes := addOther e u (ds_otherNodes acc)\<rparr>"
    have "others_ok ?acc" using Cons.prems by simp
    from Cons.IH[OF this] Some show ?thesis by (auto simp: addOther_set)
  qed
qed simp

section \<open>Running the sorting\<close>

lemma savePacket_run:
  assumes "mongo_ok E"
  obtains l ls where "savePacket E u packet w = (Inr l, w\<lparr>operations_log := ls\<rparr>)"
    "ol_user_id l = u" "ol_packet l = packet" "mset ls = add_mset l (mset (operations_log w))"
proof -
  obtain i ls where "insertInto (mg_operations_log E) operations_log operations_log_update (\<lambda>now i.
     \<lparr>ol_id = i, ol_user_id = u, ol_packet = packet, ol_created_at = now, ol_updated_at = now\<rparr>) w =
     (Inr \<lparr>ol_id = i, ol_user_id = u, ol_packet = packet, ol_created_at = clock w, ol_updated_at = clock w\<rparr>, w\<lparr>operations_log := ls\<rparr>)"
    "mset ls = add_mset \<lparr>ol_id = i, ol_user_id = u, ol_packet = packet, ol_created_at = clock w, ol_updated_at = clock w\<rparr> (mset (operations_log w))"
    by (rule insertInto_run[OF mongo_okD(14)[OF assms], of operations_log operations_log_update
          "\<lambda>now i. \<lparr>ol_id = i, ol_user_id = u, ol_packet = packet, ol_created_at = now, ol_updated_at = now\<rparr>" w])
  then show ?thesis by (intro that) (simp_all add: savePacket_def)
qed

text \<open>The log as the users and the packets stored for them.\<close>

definition logEntries :: "op_log list \<Rightarrow> (oid \<times> string) multiset" where
  "logEntries ls = image_mset (\<lambda>l. (ol_user_id l, ol_packet l)) (mset ls)"

text \<open>A packet is kept for a user who is offline.\<close>

lemma saved_offline:
  assumes "mongo_ok E"
  obtains ls where "(if b then andThen (savePacket E u packet) (\<lambda>_. ret ()) else ret ()) w = (Inr (), w\<lparr>operations_log := ls\<rparr>)"
    "logEntries ls = logEntries (operations_log w) + (if b then {#(u, packet)#} else {#})"
proof (cases b)
  case True
  obtain l ls where l: "savePacket E u packet w = (Inr l, w\<lparr>operations_log := ls\<rparr>)" "ol_user_id l = u" "ol_packet l = packet"
    "mset ls = add_mset l (mset (operations_log w))" by (rule savePacket_run[OF assms])
  show ?thesis by (rule that[of ls]) (use True l in \<open>simp_all add: andThen_run logEntries_def\<close>)
next
  case False
  show ?thesis by (rule that[of "operations_log w"]) (use False in auto)
qed

text \<open>Where the packet of one user goes.\<close>

definition sortUser :: "env \<Rightarrow> world \<Rightarrow> oid \<Rightarrow> oid \<Rightarrow> destinations \<Rightarrow> destinations" where
  "sortUser E w org u acc = (let cs = connectionsOf E w org u;
     acc1 = (if cs = [] \<or> inactive E w org u then acc\<lparr>ds_offlineUsersIds := ds_offlineUsersIds acc @ [u]\<rparr> else acc)
     in if cs = [] then acc1 else reduceUserNodeConnections E (cfg_clusterEndpoint E) u (map snd cs) acc1)"

lemma sortDestinations_Cons:
  "sortDestinations E org packet notSave (u # us) acc w =
     andThen (if offline E w org u \<and> \<not> notSave then andThen (savePacket E u packet) (\<lambda>_. ret ()) else ret ())
       (\<lambda>_. sortDestinations E org packet notSave us (sortUser E w org u acc)) w"
proof -
  have "list_ex (\<lambda>(_, p). isUserInactive w None p) (connectionsOf E w org u) = inactive E w org u"
    by (auto simp: inactive_def isUserInactive_def list_ex_iff split: prod.splits intro: rev_bexI)
  then show ?thesis by (simp add: connectionsOf_def Let_def sortUser_def offline_def)
qed

lemma sortUser_routes:
  assumes "others_ok acc"
  shows "ds_offlineUsersIds (sortUser E w org u acc) = ds_offlineUsersIds acc @ (if offline E w org u \<or> inactive E w org u then [u] else [])"
    "ds_currentNodesUserIds (sortUser E w org u acc) = (if here E w org u then addKey u (ds_currentNodesUserIds acc) else ds_currentNodesUserIds acc)"
    "set (flat (ds_otherNodes (sortUser E w org u acc))) = set (flat (ds_otherNodes acc)) \<union> {(e, u) | e. e \<in> elsewhere E w org u}"
    "others_ok (sortUser E w org u acc)"
proof -
  let ?cs = "connectionsOf E w org u"
  define acc1 where "acc1 = (if ?cs = [] \<or> inactive E w org u then acc\<lparr>ds_offlineUsersIds := ds_offlineUsersIds acc @ [u]\<rparr> else acc)"
  let ?acc2 = "if ?cs = [] then acc1 else reduceUserNodeConnections E (cfg_clusterEndpoint E) u (map snd ?cs) acc1"
  have acc2: "sortUser E w org u acc = ?acc2" by (simp add: sortUser_def Let_def acc1_def)
  have ok1: "others_ok acc1" using assms by (simp add: acc1_def)
  note red = reduce_spec[OF ok1, of E "cfg_clusterEndpoint E" u "map snd ?cs"]
  show "others_ok (sortUser E w org u acc)" unfolding acc2 using ok1 red by simp
  have paths: "here E w org u = (if cfg_isStandAloneNode E then endpoints (map snd ?cs) \<noteq> {} else cfg_clusterEndpoint E \<in> endpoints (map snd ?cs))"
    "elsewhere E w org u = (if cfg_isStandAloneNode E then {} else endpoints (map snd ?cs) - {cfg_clusterEndpoint E})"
    "offline E w org u = (?cs = [])"
    by (simp_all add: here_def elsewhere_def offline_def endpointsOf_def)
  have "ds_offlineUsersIds ?acc2 = ds_offlineUsersIds acc1" using red by simp
  then show "ds_offlineUsersIds (sortUser E w org u acc) = ds_offlineUsersIds acc @ (if offline E w org u \<or> inactive E w org u then [u] else [])"
    unfolding acc2 by (simp add: acc1_def paths(3))
  have same: "ds_currentNodesUserIds acc1 = ds_currentNodesUserIds acc" "ds_otherNodes acc1 = ds_otherNodes acc" by (simp_all add: acc1_def)
  show "ds_currentNodesUserIds (sortUser E w org u acc) = (if here E w org u then addKey u (ds_currentNodesUserIds acc) else ds_currentNodesUserIds acc)"
    unfolding acc2 using red same(1) by (cases "?cs = []") (simp_all add: paths)
  show "set (flat (ds_otherNodes (sortUser E w org u acc))) = set (flat (ds_otherNodes acc)) \<union> {(e, u) | e. e \<in> elsewhere E w org u}"
    unfolding acc2 using red same(2) by (cases "?cs = []") (auto simp: paths)
qed

lemma sortDestinations_run:
  assumes "mongo_ok E" "others_ok acc"
  shows "\<exists>ls ds. sortDestinations E org packet notSave us acc w = (Inr ds, w\<lparr>operations_log := ls\<rparr>)
    \<and> ds_offlineUsersIds ds = ds_offlineUsersIds acc @ filter (\<lambda>u. offline E w org u \<or> inactive E w org u) us
    \<and> ds_currentNodesUserIds ds = fold addKey (filter (here E w org) us) (ds_currentNodesUserIds acc)
    \<and> set (flat (ds_otherNodes ds)) = set (flat (ds_otherNodes acc)) \<union> {(e, u). u \<in> set us \<and> e \<in> elsewhere E w org u}
    \<and> others_ok ds
    \<and> logEntries ls = logEntries (operations_log w) + (if notSave then {#} else image_mset (\<lambda>u. (u, packet)) (mset (filter (offline E w org) us)))"
  using assms(2)
proof (induction us arbitrary: acc w)
  case Nil
  show ?case by (intro exI[of _ "operations_log w"] exI[of _ acc]) (simp add: Nil)
next
  case (Cons u us)
  let ?save = "if offline E w org u \<and> \<not> notSave then andThen (savePacket E u packet) (\<lambda>_. ret ()) else ret ()"
  obtain ls where save: "?save w = (Inr (), w\<lparr>operations_log := ls\<rparr>)"
    and log: "logEntries ls = logEntries (operations_log w) + (if offline E w org u \<and> \<not> notSave then {#(u, packet)#} else {#})"
    by (rule saved_offline[OF assms(1)])
  let ?w1 = "w\<lparr>operations_log := ls\<rparr>" and ?acc = "sortUser E w org u acc"
  note routes = sortUser_routes[OF Cons.prems, of E w org u]
  obtain ls' ds where raw: "sortDestinations E org packet notSave us ?acc ?w1 = (Inr ds, ?w1\<lparr>operations_log := ls'\<rparr>)"
    "ds_offlineUsersIds ds = ds_offlineUsersIds ?acc @ filter (\<lambda>u. offline E ?w1 org u \<or> inactive E ?w1 org u) us"
    "ds_currentNodesUserIds ds = fold addKey (filter (here E ?w1 org) us) (ds_currentNodesUserIds ?acc)"
    "set (flat (ds_otherNodes ds)) = set (flat (ds_otherNodes ?acc)) \<union> {(e, u). u \<in> set us \<and> e \<in> elsewhere E ?w1 org u}"
    "others_ok ds"
    "logEntries ls' = logEntries (operations_log ?w1) + (if notSave then {#} else image_mset (\<lambda>u. (u, packet)) (mset (filter (offline E ?w1 org) us)))"
    using Cons.IH[OF routes(4), of ?w1] by (elim exE conjE) (rule that)
  note ds = raw[unfolded path_log]
  show ?case
  proof (intro exI[of _ ls'] exI[of _ ds] conjI)
    show "sortDestinations E org packet notSave (u # us) acc w = (Inr ds, w\<lparr>operations_log := ls'\<rparr>)"
      unfolding sortDestinations_Cons andThen_run(1)[of ?save, OF save] using ds(1) by simp
    show "ds_offlineUsersIds ds = ds_offlineUsersIds acc @ filter (\<lambda>u. offline E w org u \<or> inactive E w org u) (u # us)"
      unfolding ds(2) routes(1) by simp
    show "ds_currentNodesUserIds ds = fold addKey (filter (here E w org) (u # us)) (ds_currentNodesUserIds acc)"
      unfolding ds(3) routes(2) by simp
    show "set (flat (ds_otherNodes ds)) = set (flat (ds_otherNodes acc)) \<union> {(e, v). v \<in> set (u # us) \<and> e \<in> elsewhere E w org v}"
      unfolding ds(4) routes(3) by auto
    show "logEntries ls' = logEntries (operations_log w) + (if notSave then {#}
        else image_mset (\<lambda>u. (u, packet)) (mset (filter (offline E w org) (u # us))))"
      unfolding ds(6) by (simp add: log)
  qed (rule ds(5))
qed

section \<open>Delivering to users\<close>

lemma sendsTo_outbox [simp]: "sendsTo E (w\<lparr>outbox := ob\<rparr>) = sendsTo E w"
  by (rule ext)+ (simp add: sendsTo_def recipientInfo_def[abs_def] activeDevices_def getUserDevices_def getSession_def)

lemma deliver_frame:
  "fold (\<lambda>u. deliverToUserOnThisNode E u ex packet si) us w = w\<lparr>outbox := outbox w @ concat (map (sendsTo E w si ex packet) us)\<rparr>"
proof (induction us arbitrary: w)
  case (Cons u us)
  have one: "deliverToUserOnThisNode E u ex packet si w = w\<lparr>outbox := outbox w @ sendsTo E w si ex packet u\<rparr>"
    by (simp add: deliverToUserOnThisNode_def sendsTo_def)
  show ?case by (simp add: one Cons.IH)
qed simp

lemma fold_addKey: "distinct (us @ ks) \<Longrightarrow> fold addKey us ks = ks @ us"
  by (induction us arbitrary: ks) (auto simp: addKey_def)

text \<open>A push to the users it names: one event, and one job if one of them has a subscription.\<close>

definition pushJobs :: "env \<Rightarrow> world \<Rightarrow> push_options option \<Rightarrow> oid list \<Rightarrow> (push_subscription list \<times> string) list" where
  "pushJobs E w push us = (case push of None \<Rightarrow> []
     | Some p \<Rightarrow> (let payload = (case p of CreateChatAlertEventOptions _ t _ \<Rightarrow> t | CreatePushEventOptions _ t _ \<Rightarrow> t);
                     devices = concat (map (listSubscriptions E w) us)
        in if devices = [] then [] else [(devices, base64 payload)]))"

lemma pushJobs_cong:
  assumes "push_subscriptions w' = push_subscriptions w"
  shows "pushJobs E w' = pushJobs E w"
proof -
  have l: "listSubscriptions E w' = listSubscriptions E w" using assms by (simp add: listSubscriptions_def fun_eq_iff)
  show ?thesis unfolding pushJobs_def[abs_def] l ..
qed

lemma createPush_run:
  assumes "mongo_ok E"
  shows "\<exists>ev evs. createPush E (setRecipientIds us push) w =
     (Inr ev, w\<lparr>push_events := evs, pushQueue := pushQueue w @ pushJobs E w (Some push) us\<rparr>)"
proof -
  have "\<exists>ev evs. createPushEvent E sender payload us w = (Inr ev, w\<lparr>push_events := evs, pushQueue := pushQueue w @
      (let devices = concat (map (listSubscriptions E w) us) in if devices = [] then [] else [(devices, base64 payload)])\<rparr>)" for sender payload
  proof -
    let ?mk = "\<lambda>now i. \<lparr>pe_id = i, pe_user_id = sender, pe_user_ids = us, pe_message = base64 payload, pe_created_at = now, pe_updated_at = now\<rparr>"
    obtain i evs where ins: "insertInto (mg_push_events E) push_events push_events_update ?mk w = (Inr (?mk (clock w) i), w\<lparr>push_events := evs\<rparr>)"
      by (rule insertInto_run[OF mongo_okD(16)[OF assms], of push_events push_events_update ?mk w])
    have "listSubscriptions E (w\<lparr>push_events := evs\<rparr>) = listSubscriptions E w" by (simp add: listSubscriptions_def fun_eq_iff)
    then show ?thesis
      by (intro exI[of _ "?mk (clock w) i"] exI[of _ evs])
        (simp add: createPushEvent_def buildPushEvent_def andThen_run(1)[of "insertInto _ _ _ _", OF ins] addToQueue_def Let_def)
  qed
  then show ?thesis by (cases push) (simp_all add: pushJobs_def)
qed

lemma sendsTo_log [simp]: "sendsTo E (w\<lparr>operations_log := ls\<rparr>) = sendsTo E w"
  by (rule ext)+ (simp add: sendsTo_def recipientInfo_def[abs_def] activeDevices_def getUserDevices_def getSession_def)

lemma flat_packets: "concat (map (\<lambda>(e, us). map (\<lambda>u. (e, u, packet)) us) others) = map (\<lambda>(e, u). (e, u, packet)) (flat others)"
  by (induction others) auto

lemma sendToOtherNodes_flat:
  "sendToOtherNodes packet others w = w\<lparr>clusterOutbox := clusterOutbox w @ map (\<lambda>(e, u). (e, u, packet)) (flat others)\<rparr>"
  by (simp add: sendToOtherNodes_def flat_packets)

text \<open>
  The whole delivery of a packet to users. It never fails; \<open>routes\<close> states where the packet went.
\<close>

definition routed :: "env \<Rightarrow> oid \<Rightarrow> socket option \<Rightarrow> oid list \<Rightarrow> string \<Rightarrow> bool \<Rightarrow> bool \<Rightarrow> push_options option \<Rightarrow> world \<Rightarrow> world \<Rightarrow> bool" where
  "routed E org socket us packet notSave ignoreSelf push w w' \<longleftrightarrow>
     (let si = senderInfo E w org socket
      in outbox w' = outbox w @ concat (map (sendsTo E w si (if ignoreSelf then si_deviceId si else None) packet) (filter (here E w org) us))) \<and>
     (\<exists>new. clusterOutbox w' = clusterOutbox w @ new \<and> distinct new \<and>
        set new = {(e, u, packet) | e u. u \<in> set us \<and> e \<in> elsewhere E w org u}) \<and>
     logEntries (operations_log w') = logEntries (operations_log w) +
       (if notSave then {#} else image_mset (\<lambda>u. (u, packet)) (mset (filter (offline E w org) us))) \<and>
     pushQueue w' = pushQueue w @ pushJobs E w push (filter (\<lambda>u. offline E w org u \<or> inactive E w org u) us)"

text \<open>What a delivery leaves alone.\<close>

definition sameButDelivered :: "world \<Rightarrow> world \<Rightarrow> bool" where
  "sameButDelivered w w' \<longleftrightarrow> w' = w\<lparr>outbox := outbox w', clusterOutbox := clusterOutbox w', operations_log := operations_log w',
     push_events := push_events w', pushQueue := pushQueue w'\<rparr>"

lemma sorted_destinations:
  assumes "mongo_ok E" "distinct us"
  obtains ls ds where "sortDestinations E org packet notSave us noDestinations w = (Inr ds, w\<lparr>operations_log := ls\<rparr>)"
    "ds_offlineUsersIds ds = filter (\<lambda>u. offline E w org u \<or> inactive E w org u) us"
    "ds_currentNodesUserIds ds = filter (here E w org) us"
    "set (flat (ds_otherNodes ds)) = {(e, u). u \<in> set us \<and> e \<in> elsewhere E w org u}" "others_ok ds"
    "logEntries ls = logEntries (operations_log w) + (if notSave then {#} else image_mset (\<lambda>u. (u, packet)) (mset (filter (offline E w org) us)))"
proof -
  have "others_ok noDestinations" by (simp add: others_ok_def noDestinations_def)
  from sortDestinations_run[OF assms(1) this, of org packet notSave us w] show thesis
    by (elim exE conjE) (rule that; simp add: noDestinations_def fold_addKey assms(2))
qed

lemma push_run:
  assumes "mongo_ok E"
  shows "\<exists>evs. (case push of None \<Rightarrow> ret () | Some p \<Rightarrow> if ids = [] then ret ()
      else andThen (createPush E (setRecipientIds ids p)) (\<lambda>_. ret ())) w =
    (Inr (), w\<lparr>push_events := evs, pushQueue := pushQueue w @ pushJobs E w push ids\<rparr>)"
proof (cases "push = None \<or> ids = []")
  case True
  then show ?thesis by (intro exI[of _ "push_events w"]) (auto simp: pushJobs_def split: option.split)
next
  case False
  then obtain p where p: "push = Some p" by auto
  obtain ev evs where c: "createPush E (setRecipientIds ids p) w =
      (Inr ev, w\<lparr>push_events := evs, pushQueue := pushQueue w @ pushJobs E w (Some p) ids\<rparr>)"
    using createPush_run[OF assms] by blast
  show ?thesis using False p by (intro exI[of _ evs]) (simp add: andThen_run(1)[of "createPush _ _", OF c])
qed

lemma deliver_run:
  assumes "mongo_ok E" "distinct us"
  shows "\<exists>w'. deliverToUserOrUsers E org socket us packet notSave ignoreSelf push w = (Inr (), w')
    \<and> routed E org socket us packet notSave ignoreSelf push w w' \<and> sameButDelivered w w'"
proof (cases "us = []")
  case True
  then show ?thesis by (intro exI[of _ w]) (simp add: deliverToUserOrUsers_def routed_def sameButDelivered_def pushJobs_def split: option.split)
next
  case False
  let ?si = "senderInfo E w org socket"
  let ?ex = "if ignoreSelf then si_deviceId ?si else None"
  obtain ls ds where sorted: "sortDestinations E org packet notSave us noDestinations w = (Inr ds, w\<lparr>operations_log := ls\<rparr>)"
    and off: "ds_offlineUsersIds ds = filter (\<lambda>u. offline E w org u \<or> inactive E w org u) us"
    and cur: "ds_currentNodesUserIds ds = filter (here E w org) us"
    and oth: "set (flat (ds_otherNodes ds)) = {(e, u). u \<in> set us \<and> e \<in> elsewhere E w org u}" "others_ok ds"
    and log: "logEntries ls = logEntries (operations_log w) + (if notSave then {#} else image_mset (\<lambda>u. (u, packet)) (mset (filter (offline E w org) us)))"
    by (rule sorted_destinations[OF assms, of org packet notSave w])
  let ?new = "map (\<lambda>(e, u). (e, u, packet)) (flat (ds_otherNodes ds))"
  let ?w3 = "w\<lparr>operations_log := ls, outbox := outbox w @ concat (map (sendsTo E w ?si ?ex packet) (filter (here E w org) us)),
    clusterOutbox := clusterOutbox w @ ?new\<rparr>"
  have run: "deliverToUserOrUsers E org socket us packet notSave ignoreSelf push w = (case push of
      None \<Rightarrow> ret () | Some p \<Rightarrow> if ds_offlineUsersIds ds = [] then ret ()
         else andThen (createPush E (setRecipientIds (ds_offlineUsersIds ds) p)) (\<lambda>_. ret ())) ?w3"
    using False by (simp add: deliverToUserOrUsers_def andThen_run(1)[of "sortDestinations _ _ _ _ _ _", OF sorted]
        deliver_frame cur sendToOtherNodes_flat)
  have jobs: "pushJobs E ?w3 = pushJobs E w" by (rule pushJobs_cong) simp
  from push_run[OF assms(1), of "ds_offlineUsersIds ds" push ?w3]
  obtain evs where w': "deliverToUserOrUsers E org socket us packet notSave ignoreSelf push w =
      (Inr (), ?w3\<lparr>push_events := evs, pushQueue := pushQueue w @ pushJobs E w push (ds_offlineUsersIds ds)\<rparr>)"
    unfolding run jobs by auto
  have new: "distinct ?new" "set ?new = {(e, u, packet) | e u. u \<in> set us \<and> e \<in> elsewhere E w org u}"
    using oth by (auto simp: others_ok_def distinct_map inj_on_def)
  show ?thesis
    by (intro exI conjI, rule w') (use new in \<open>simp_all add: routed_def Let_def log off sameButDelivered_def\<close>)
qed


text \<open>A node with one user connected from the device \<open>d1\<close> by socket 11 and one from \<open>d2\<close> by socket 12.\<close>

definition node_session :: "oid \<Rightarrow> session" where
  "node_session u = \<lparr>s_organizationId = ''o'', s_userId = u, s_extraParams = [SESSION_NODE_KEY \<mapsto> ''ws://n1/'']\<rparr>"

definition delivery_env :: env where
  "delivery_env = mem_env\<lparr>cfg_isStandAloneNode := True\<rparr>"

definition delivery_world :: "string \<Rightarrow> string \<Rightarrow> world" where
  "delivery_world d1 d2 = empty_world\<lparr>SESSIONS := [(11, node_session ''u1''), (12, node_session ''u2'')],
     DEVICES := [''u1'' \<mapsto> [\<lparr>cn_socket = 11, cn_deviceId = d1, cn_organizationId = ''o''\<rparr>],
                 ''u2'' \<mapsto> [\<lparr>cn_socket = 12, cn_deviceId = d2, cn_organizationId = ''o''\<rparr>]]\<rparr>"

lemma delivery_env_ok: "mongo_ok delivery_env"
  using mem_env_ok(1) unfolding mongo_ok_def delivery_env_def by simp

lemma delivery_env_simps [simp]:
  "cfg_isStandAloneNode delivery_env" "cfg_useXMPP delivery_env = False" "jsonParse delivery_env = jsonParse mem_env"
  by (simp_all add: delivery_env_def mem_env_def)

lemma delivery_world_devices [simp]:
  "getUserDevices (delivery_world d1 d2) ''u1'' = [\<lparr>cn_socket = 11, cn_deviceId = d1, cn_organizationId = ''o''\<rparr>]"
  "getUserDevices (delivery_world d1 d2) ''u2'' = [\<lparr>cn_socket = 12, cn_deviceId = d2, cn_organizationId = ''o''\<rparr>]"
  "getSession (delivery_world d1 d2) 11 = Some (node_session ''u1'')" "getSession (delivery_world d1 d2) 12 = Some (node_session ''u2'')"
  "apiTypes (delivery_world d1 d2) = Map.empty" "outbox (delivery_world d1 d2) = []"
  by (simp_all add: delivery_world_def getUserDevices_def getSession_def empty_world_def)

lemma delivery_world_connections [simp]:
  "d2 \<noteq> HTTP_DEVICE_ID \<Longrightarrow> connectionsOf delivery_env (delivery_world d1 d2) org ''u2'' = [(d2, [SESSION_NODE_KEY \<mapsto> ''ws://n1/''])]"
  by (simp add: connectionsOf_def listUserData_def node_session_def map_set_def)


text \<open>A message from one user to another whose only device has the same device id is lost: it is written to no socket, sent to no other
  node, not logged and not pushed. The check that keeps a packet from the sender's own device compares device ids without users.\<close>

theorem shared_device_id_loses_message:
  assumes "mongo_ok E" "connectionsOf E w org v \<noteq> []" "elsewhere E w org v = {}" "\<not> inactive E w org v"
    "getSession w ws = Some s" "getDeviceId w ws (s_userId s) = Some d" "\<forall>c \<in> set (getUserDevices w v). cn_deviceId c = d"
  shows "\<exists>w'. deliverToUserOrUsers E org (Some ws) [v] packet notSave True push w = (Inr (), w')
    \<and> outbox w' = outbox w \<and> clusterOutbox w' = clusterOutbox w \<and> pushQueue w' = pushQueue w
    \<and> logEntries (operations_log w') = logEntries (operations_log w)"
proof -
  obtain w' where w': "deliverToUserOrUsers E org (Some ws) [v] packet notSave True push w = (Inr (), w')"
    "routed E org (Some ws) [v] packet notSave True push w w'" using deliver_run[OF assms(1), of "[v]" org "Some ws" packet notSave True push w] by auto
  have "si_deviceId (senderInfo E w org (Some ws)) = Some d" using assms(5,6) by (simp add: senderInfo_def)
  moreover have "sendsTo E w si (Some d) packet v = []" for si using assms(7) by (simp add: sendsTo_def activeDevices_def)
  moreover have "\<not> offline E w org v" using assms(2) by (simp add: offline_def)
  ultimately show ?thesis using w' assms(3,4)
    by (intro exI[of _ w']) (auto simp: routed_def Let_def pushJobs_def split: option.splits)
qed

theorem shared_device_id_loses_message_witness:
  "\<exists>w'. deliverToUserOrUsers delivery_env ''o'' (Some 11) [''u2''] ''hi'' False True None (delivery_world ''a'' ''a'') = (Inr (), w')
     \<and> outbox w' = [] \<and> logEntries (operations_log w') = {#}"
proof -
  let ?w = "delivery_world ''a'' ''a''"
  have "''a'' \<noteq> HTTP_DEVICE_ID" by (simp add: HTTP_DEVICE_ID_def)
  moreover have "SESSION_NODE_KEY \<noteq> SESSION_INACTIVE_STATE_KEY" by (simp add: SESSION_NODE_KEY_def SESSION_INACTIVE_STATE_KEY_def)
  moreover have "logEntries (operations_log ?w) = {#}" by (simp add: logEntries_def delivery_world_def empty_world_def)
  ultimately show ?thesis
    using shared_device_id_loses_message[OF delivery_env_ok, of ?w "''o''" "''u2''" 11 "node_session ''u1''" "''a''" "''hi''" False None]
    by (auto simp: elsewhere_def inactive_def getDeviceId_def node_session_def)
qed

section \<open>Delivering to a conversation\<close>

lemma paths_cong:
  assumes "SESSIONS w' = SESSIONS w" "DEVICES w' = DEVICES w" "redis w' = redis w" "apiTypes w' = apiTypes w"
  shows "connectionsOf E w' = connectionsOf E w" "sendsTo E w' = sendsTo E w" "senderInfo E w' = senderInfo E w"
    "offline E w' = offline E w" "here E w' = here E w" "elsewhere E w' = elsewhere E w"
proof -
  have g: "getSession w' = getSession w" "getUserDevices w' = getUserDevices w"
    using assms by (simp_all add: getSession_def getUserDevices_def fun_eq_iff)
  show c: "connectionsOf E w' = connectionsOf E w"
    by (rule ext)+ (simp add: connectionsOf_def listUserData_def listUserDevice_def Let_def g assms cong: if_cong)
  show "sendsTo E w' = sendsTo E w" "senderInfo E w' = senderInfo E w"
    by ((rule ext)+, simp add: sendsTo_def recipientInfo_def[abs_def] activeDevices_def senderInfo_def getDeviceId_def g assms split: option.split)+
  show "offline E w' = offline E w" "here E w' = here E w" "elsewhere E w' = elsewhere E w"
    using c by (simp_all add: offline_def here_def elsewhere_def endpointsOf_def fun_eq_iff)
qed

lemma sameButDelivered_writes [simp]:
  "sameButDelivered w (w'\<lparr>outbox := ps\<rparr>) = sameButDelivered w w'" "sameButDelivered w (w'\<lparr>clusterOutbox := fs\<rparr>) = sameButDelivered w w'"
  "sameButDelivered w (w'\<lparr>operations_log := ls\<rparr>) = sameButDelivered w w'" "sameButDelivered w (w'\<lparr>push_events := es\<rparr>) = sameButDelivered w w'"
  "sameButDelivered w (w'\<lparr>pushQueue := js\<rparr>) = sameButDelivered w w'" "sameButDelivered (w\<lparr>outbox := ps\<rparr>) w' = sameButDelivered w w'"
  unfolding sameButDelivered_def by (cases w, cases w', simp)+

lemma sameButDeliveredD:
  assumes "sameButDelivered w w'"
  shows "SESSIONS w' = SESSIONS w" "DEVICES w' = DEVICES w" "redis w' = redis w" "apiTypes w' = apiTypes w" "participants w' = participants w"
    "messages w' = messages w"
proof -
  have s: "w' = w\<lparr>outbox := outbox w', clusterOutbox := clusterOutbox w', operations_log := operations_log w',
     push_events := push_events w', pushQueue := pushQueue w'\<rparr>" using assms by (simp add: sameButDelivered_def)
  show "SESSIONS w' = SESSIONS w" "DEVICES w' = DEVICES w" "redis w' = redis w" "apiTypes w' = apiTypes w" "participants w' = participants w"
    "messages w' = messages w" by (subst s, simp)+
qed

lemma delivered_frame:
  assumes "sameButDelivered w w'"
  shows "sendsTo E w' = sendsTo E w" "senderInfo E w' = senderInfo E w"
    "offline E w' = offline E w" "here E w' = here E w" "elsewhere E w' = elsewhere E w"
  by (rule paths_cong[OF sameButDeliveredD(1-4)[OF assms]])+

lemma delivered_trans: "sameButDelivered w w1 \<Longrightarrow> sameButDelivered w1 w2 \<Longrightarrow> sameButDelivered w w2"
  unfolding sameButDelivered_def by (cases w, cases w1, cases w2) simp

text \<open>Where a delivery to the users \<open>us\<close> in one or several batches leads.\<close>

definition reached :: "env \<Rightarrow> deliver_message \<Rightarrow> oid list \<Rightarrow> world \<Rightarrow> world \<Rightarrow> bool" where
  "reached E m us w w' \<longleftrightarrow>
     (let si = senderInfo E w (dm_orgId m) (dm_socket m)
      in outbox w' = outbox w @ concat (map (sendsTo E w si (if dm_ignoreSelf m then si_deviceId si else None) (dm_packet m))
           (filter (here E w (dm_orgId m)) us))) \<and>
     set (clusterOutbox w') = set (clusterOutbox w) \<union> {(e, u, dm_packet m) | e u. u \<in> set us \<and> e \<in> elsewhere E w (dm_orgId m) u} \<and>
     logEntries (operations_log w') = logEntries (operations_log w) +
       (if dm_notSaveInOfflineStorage m then {#} else image_mset (\<lambda>u. (u, dm_packet m)) (mset (filter (offline E w (dm_orgId m)) us)))"

lemma routed_reached:
  "routed E (dm_orgId m) (dm_socket m) us (dm_packet m) (dm_notSaveInOfflineStorage m) (dm_ignoreSelf m) push w w' \<Longrightarrow> reached E m us w w'"
  unfolding routed_def reached_def by (elim conjE exE) (simp add: Let_def)

lemma reached_trans:
  assumes "reached E m us w w1" "reached E m vs w1 w2" "sameButDelivered w w1"
  shows "reached E m (us @ vs) w w2"
  using assms(1,2) unfolding reached_def delivered_frame[OF assms(3)] Let_def
  by (auto simp: ac_simps)

lemma batch_run:
  assumes "mongo_ok E" "distinct us"
  shows "\<exists>w'. processDeliverUserMessage E m (Some us) w = (Inr (), w') \<and> reached E m us w w' \<and> sameButDelivered w w'"
proof -
  obtain w' where "deliverToUserOrUsers E (dm_orgId m) (dm_socket m) us (dm_packet m) (dm_notSaveInOfflineStorage m) (dm_ignoreSelf m)
      (dm_pushQueueMessage m) w = (Inr (), w')"
    "routed E (dm_orgId m) (dm_socket m) us (dm_packet m) (dm_notSaveInOfflineStorage m) (dm_ignoreSelf m) (dm_pushQueueMessage m) w w'"
    "sameButDelivered w w'" using deliver_run[OF assms] by blast
  then show ?thesis using routed_reached by (auto simp: processDeliverUserMessage_def logged_def)
qed

lemma reached_refl: "reached E m [] w w"
  by (simp add: reached_def)

lemma batches_run:
  assumes "mongo_ok E" "\<forall>us \<in> set bs. distinct us"
  shows "\<exists>rs w'. forEach bs (\<lambda>us. if us = [] then ret () else processDeliverUserMessage E m (Some us)) w = (Inr rs, w')
    \<and> reached E m (concat bs) w w' \<and> sameButDelivered w w'"
  using assms(2)
proof (induction bs arbitrary: w)
  case Nil
  show ?case by (intro exI[of _ "[]"] exI[of _ w]) (simp add: reached_refl sameButDelivered_def)
next
  case (Cons us bs)
  obtain w1 where w1: "(if us = [] then ret () else processDeliverUserMessage E m (Some us)) w = (Inr (), w1)" "reached E m us w w1"
    "sameButDelivered w w1"
    using batch_run[OF assms(1), of us m w] Cons.prems by (cases "us = []") (auto simp: reached_refl sameButDelivered_def)
  have "\<forall>us \<in> set bs. distinct us" using Cons.prems by simp
  from Cons.IH[OF this, of w1] obtain rs w2 where w2: "forEach bs (\<lambda>us. if us = [] then ret () else processDeliverUserMessage E m (Some us)) w1 = (Inr rs, w2)"
    "reached E m (concat bs) w1 w2" "sameButDelivered w1 w2"
    by (elim exE conjE) (rule that)
  show ?case
  proof (intro exI conjI)
    show "forEach (us # bs) (\<lambda>us. if us = [] then ret () else processDeliverUserMessage E m (Some us)) w = (Inr (() # rs), w2)"
      using w1(1) w2(1) by (simp add: andThen_def)
    show "reached E m (concat (us # bs)) w w2" using reached_trans[OF w1(2) w2(2) w1(3)] by simp
    show "sameButDelivered w w2" by (rule delivered_trans[OF w1(3) w2(3)])
  qed
qed

lemma set_in_order: "set (map cp_user_id (in_order w cid exc)) = members_of cid w - set exc"
proof -
  have "set (in_order w cid exc) = set (filter (participantQuery cid exc) (participants w))"
    by (rule mset_set_eq[OF in_order_mset])
  then show ?thesis by (auto simp: members_of_def participantQuery_def)
qed

lemma distinct_in_order:
  assumes "parts_ok (participants w)"
  shows "distinct (map cp_user_id (in_order w cid exc))"
proof -
  have "distinct (map part_key (filter (participantQuery cid exc) (participants w)))"
    using assms by (simp add: parts_ok_def distinct_map_filter)
  then have "distinct (map cp_user_id (filter (participantQuery cid exc) (participants w)))"
    by (auto simp: distinct_map inj_on_def part_key_def participantQuery_def)
  then show ?thesis using mset_distinct_map[OF in_order_mset] by blast
qed

lemma distinct_concat_parts: "distinct (concat bs) \<Longrightarrow> \<forall>us \<in> set bs. distinct us"
  by (induction bs) auto

lemma conversation_run:
  assumes "mongo_ok E" "parts_ok (participants w)"
  shows "\<exists>us w'. processDeliverConversationMessage E m cid w = (Inr (), w') \<and> distinct us
    \<and> set us = members_of cid w - set (dm_exceptUserIds m) \<and> reached E m us w w' \<and> sameButDelivered w w'"
proof -
  let ?bs = "conversationParticipantIdsIterator E w cid (dm_exceptUserIds m) 100"
  let ?us = "map cp_user_id (in_order w cid (dm_exceptUserIds m))"
  have "distinct (map cp_id (participants w))" using assms(2) by (simp add: parts_ok_def)
  then have us: "concat ?bs = ?us" by (intro iterator_chunks(2)[OF assms(1)]) simp_all
  have "distinct ?us" by (rule distinct_in_order[OF assms(2)])
  then have "\<forall>us \<in> set ?bs. distinct us" using distinct_concat_parts[of ?bs] us by simp
  from batches_run[OF assms(1) this, of m w] obtain rs w' where
    run: "forEach ?bs (\<lambda>us. if us = [] then ret () else processDeliverUserMessage E m (Some us)) w = (Inr rs, w')"
    "reached E m (concat ?bs) w w'" "sameButDelivered w w'" by (elim exE conjE) (rule that)
  have "processDeliverConversationMessage E m cid w = (Inr (), w')"
    by (simp add: processDeliverConversationMessage_def andThen_run(1)[of "forEach _ _", OF run(1)])
  then show ?thesis using run(2,3) \<open>distinct ?us\<close> set_in_order[of w cid "dm_exceptUserIds m"] unfolding us by blast
qed



end
