(* ===== verification/Api_Props.thy ===== *)
theory Api_Props
  imports Server Delivery_Props
begin

text \<open>
  Properties of the JSON API from the bytes of a package to what is written to the sockets: sockets without a session cannot do
  anything, failures are answered, a validated message request has the types its operation is written for, and a message
  reaches the members of its conversation.
\<close>

section \<open>A JSON package\<close>

text \<open>The state in which the request of a package is processed.\<close>

definition received :: "socket \<Rightarrow> string \<Rightarrow> world \<Rightarrow> world" where
  "received ws b w = w\<lparr>decoderBuffer := b, apiTypes := (apiTypes w)(ws \<mapsto> JSON)\<rparr>"

text \<open>A package that holds the JSON value \<open>j\<close>, on a node without the XMPP API.\<close>

definition holds :: "env \<Rightarrow> socket \<Rightarrow> string \<Rightarrow> json \<Rightarrow> string \<Rightarrow> world \<Rightarrow> bool" where
  "holds E ws packageData j b w \<longleftrightarrow> \<not> cfg_useXMPP E \<and> apiTypes w ws \<noteq> Some XMPP \<and>
     (\<exists>s. s \<noteq> [] \<and> jsonParse E s = Some j \<and> decodePackage packageData w = (Inr s, w\<lparr>decoderBuffer := b\<rparr>))"

definition answered :: "env \<Rightarrow> socket \<Rightarrow> api_response \<Rightarrow> world \<Rightarrow> world" where
  "answered E ws r w = snd (processAPIResponse E (Some ws) (stringifyResponse r) w)"

definition wrote :: "socket \<Rightarrow> json \<Rightarrow> world \<Rightarrow> world" where
  "wrote ws j w = w\<lparr>outbox := outbox w @ [(ws, stringifyMessage j)]\<rparr>"

lemma answered_back: "answered E ws (apiResponse [j] []) w = wrote ws j w"
  by (simp add: answered_def wrote_def processAPIResponse_def stringifyResponse_def apiResponse_def Response_def processBackResponse_def
      processDeliverResponse_def)

lemma onPackage_holds:
  assumes "holds E ws packageData j b w"
  shows "onPackage E A ws packageData w = (case processMessage E A ws j (received ws b w) of
      (Inl e, w1) \<Rightarrow> wrote ws (errorBackMessage A (Some j) e) w1
    | (Inr (Answered r), w1) \<Rightarrow> answered E ws r w1
    | (Inr NoAnswer, w1) \<Rightarrow> w1
    | (Inr NotAResponse, w1) \<Rightarrow> onProcessingError ws w1)"
proof -
  obtain s where s: "\<not> cfg_useXMPP E" "apiTypes w ws \<noteq> Some XMPP" "s \<noteq> []" "jsonParse E s = Some j"
    "decodePackage packageData w = (Inr s, w\<lparr>decoderBuffer := b\<rparr>)" using assms by (auto simp: holds_def)
  have run: "processPackage E A ws s (w\<lparr>decoderBuffer := b\<rparr>) = andThen (onMessage E A ws s) (processAPIResponse E (Some ws)) (received ws b w)"
    using s(2-4) by (simp add: processPackage_json[OF s(1)] detectJsonMessage_def received_def)
  have resp: "\<exists>w'. processAPIResponse E (Some ws) r w1 = (Inr (), w')" for r w1 by (rule processAPIResponse_returns)
  have none: "processAPIResponse E (Some ws) Response w1 = (Inr (), w1)" for w1
    by (simp add: processAPIResponse_def Response_def processBackResponse_def processDeliverResponse_def)
  have err: "processAPIResponse E (Some ws) (stringifyResponse (apiResponse [e] [])) w1 = (Inr (), wrote ws e w1)" for e w1
    using answered_back[of E ws e w1] resp[of "stringifyResponse (apiResponse [e] [])" w1] by (auto simp: answered_def)
  obtain res w1 where p: "processMessage E A ws j (received ws b w) = (res, w1)" by (cases "processMessage E A ws j (received ws b w)")
  show ?thesis
  proof (cases res)
    case (Inl e)
    with p err show ?thesis
      by (simp add: onPackage_def andThen_def s(5) run onMessage_def processMessageOrError_def s(4) ret_def)
  next
    case (Inr v)
    then show ?thesis
    proof (cases v)
      case (Answered r)
      with Inr p resp[of "stringifyResponse r" w1] show ?thesis
        by (auto simp: onPackage_def andThen_def s(5) run onMessage_def processMessageOrError_def s(4) ret_def answered_def)
    qed (use Inr p none in \<open>simp_all add: onPackage_def andThen_def s(5) run onMessage_def processMessageOrError_def s(4) ret_def throw_def\<close>)
  qed
qed

text \<open>The text of an object, sent in one package, is such a package.\<close>

lemma complete_text: "of_char c < (128::nat) \<Longrightarrow> incompleteTail (c # cs) = 0"
  by (cases cs rule: incompleteTail.cases) (simp_all add: isLead_def isContinuation_def)

lemma decode_object: "decoderBuffer w = [] \<Longrightarrow> decodePackage (stringifyMessage (JObj ps)) w = (Inr (stringifyMessage (JObj ps)), w\<lparr>decoderBuffer := []\<rparr>)"
  by (simp add: decodePackage_def Let_def complete_text)

lemma holds_written:
  assumes "jsonParse E = parseJson" "\<not> cfg_useXMPP E" "apiTypes w ws \<noteq> Some XMPP" "decoderBuffer w = []" "plainJson (JObj ps)"
  shows "holds E ws (stringifyMessage (JObj ps)) (JObj ps) [] w"
  using assms(2,3) parse_written[OF assms(5)] decode_object[OF assms(4), of ps] unfolding holds_def assms(1)
  by (intro conjI exI[of _ "stringifyMessage (JObj ps)"]) simp_all

lemma mem_env_api [simp]: "jsonParse mem_env = parseJson" "\<not> cfg_useXMPP mem_env"
  by (simp_all add: mem_env_def)

lemma chat_world_api [simp]: "apiTypes chat_world = Map.empty" "decoderBuffer chat_world = []" "outbox chat_world = []"
  by (simp_all add: chat_world_def channel_world_def empty_world_def)

lemma message_request_holds: "holds mem_env ws (stringifyMessage message_request) message_request [] chat_world"
  unfolding message_request_def by (rule holds_written) simp_all

section \<open>Sockets without a session\<close>

text \<open>Every request but \<open>ping\<close> and those for getting a session is guarded.\<close>

lemma guarded_routes:
  assumes "map_of (routes E A) n = Some r" "n \<noteq> ''ping''" "n \<notin> set publicNames"
  shows "rt_guard r"
proof -
  have "list_all (\<lambda>(m, r'). rt_guard r' \<or> m = ''ping'' \<or> m \<in> set publicNames) (routes E A)"
    by (simp add: routes_def statusRoutes_def messageRoutes_def userRoutes_def contactRoutes_def fileRoutes_def blockRoutes_def activityRoutes_def
        conversationRoutes_def pushRoutes_def encryptionRoutes_def openRoute_def guardedRoute_def countedRoute_def publicNames_def)
  then show ?thesis using map_of_SomeD[OF assms(1)] assms(2,3) by (auto simp: list_all_iff)
qed

lemma ping_route: "map_of (routes E A) ''ping'' = Some (openRoute None StatusesController_ping)"
  by (simp add: routes_def statusRoutes_def)

lemma stranger_processed:
  assumes "getSession w ws = None" "unwrapRequest j = Inr (n, req)"
    "\<forall>k \<in> set publicNames. n \<noteq> Some k \<and> \<not> truthyJson (getProp k (Some req))"
  shows "processMessage E A ws j w = (case n of
      None \<Rightarrow> (Inl TypeError, w)
    | Some m \<Rightarrow> if m = ''ping'' then (Inr (Answered (answer req [(''pong'', JObj [])])), w)
        else if map_of (routes E A) m = None then (inheritedRoute m, w) else (Inl (Status UNAUTHORIZED), w))"
proof (cases n)
  case None
  then show ?thesis by (simp add: processMessage_def assms(2))
next
  case (Some m)
  have guard: "authGuard ws req w = (Inl (Status UNAUTHORIZED), w)"
    using assms(1,3) by (simp add: authGuard_def list_all_iff)
  have "runRoute A m r ws req w = (Inl (Status UNAUTHORIZED), w)" if "map_of (routes E A) m = Some r" "m \<noteq> ''ping''" for r
    using guarded_routes[OF that] assms(3) Some by (auto simp: runRoute_def andThen_run(2)[of "authGuard ws req", OF guard])
  then show ?thesis
    by (auto simp: processMessage_def assms(2) Some ping_route runRoute_def openRoute_def StatusesController_ping_def andThen_def liftE_def
        split: option.split)
qed



section \<open>Failures are answered\<close>

text \<open>C9: A request that fails, for whatever reason and after whatever effects, is answered with exactly one message to its socket, and nobody else is
  told: the error in the form of the request, under \<open>response\<close> for wrapped requests and under the name of the request otherwise, with its
  status and text, and with the identifier the client gave.\<close>

theorem failure_answered:
  assumes "holds E ws packageData j b w" "processMessage E A ws j (received ws b w) = (Inl e, w1)"
  shows "onPackage E A ws packageData w = w1\<lparr>outbox := outbox w1 @ [(ws, stringifyMessage (errorBackMessage A (Some j) e))]\<rparr>
    \<and> (\<forall>ps i. j = JObj [(''request'', JObj ps)] \<and> map_of ps ''id'' = Some i \<and> i \<noteq> JNull \<longrightarrow>
         errorBackMessage A (Some j) e = JObj [(''response'', JObj [(''id'', i), (''error'', exnJson A e)])])
    \<and> (\<forall>k ps i. j = JObj [(k, JObj ps)] \<and> k \<noteq> ''request'' \<and> map_of ps ''id'' = Some i \<and> i \<noteq> JNull \<longrightarrow>
         errorBackMessage A (Some j) e = JObj [(k, JObj [(''id'', i), (''error'', exnJson A e)])])"
proof -
  have "orElse (Some i) x = Some i" if "i \<noteq> JNull" for i x using that by (cases i) simp_all
  then show ?thesis
    unfolding onPackage_holds[OF assms(1)] assms(2) by (auto simp: wrote_def errorBackMessage_def topLevelElement_def withProp_def)
qed

theorem failure_answered_witness:
  "onPackage mem_env plain_libs 99 (stringifyMessage message_request) chat_world =
     (received 99 [] chat_world)\<lparr>outbox := [(99, stringifyMessage (JObj [(''message'', JObj [(''id'', JStr ''1''),
        (''error'', exnJson plain_libs (Status UNAUTHORIZED))])]))]\<rparr>"
proof -
  let ?w = "received 99 [] chat_world"
  have u: "unwrapRequest message_request = Inr (Some ''message'', message_request)"
    by (simp add: unwrapRequest_def message_request_def)
  have k: "\<forall>k \<in> set publicNames. Some ''message'' \<noteq> Some k \<and> \<not> truthyJson (getProp k (Some message_request))"
    by (simp add: publicNames_def message_request_def)
  have "getSession ?w 99 = None" by (simp add: getSession_def chat_world_def received_def)
  from stranger_processed[OF this u k] have p: "processMessage mem_env plain_libs 99 message_request ?w = (Inl (Status UNAUTHORIZED), ?w)"
    by (simp add: routes_def statusRoutes_def messageRoutes_def)
  have o: "outbox ?w = []" by (simp add: received_def)
  show ?thesis using failure_answered[OF message_request_holds p] unfolding o by (simp add: message_request_def)
qed

section \<open>Validated requests\<close>

text \<open>What the documentation of Joi promises of a value it accepts.\<close>

definition joi_ok :: "api_libs \<Rightarrow> bool" where
  "joi_ok A \<longleftrightarrow> (\<forall>s v. joiValidate A s v = None \<longrightarrow> conforms s [] v)"

lemma plain_libs_ok: "joi_ok plain_libs"
  by (simp add: joi_ok_def plain_libs_def)

text \<open>An accepted property of text kind is missing or a text within its bounds, and reading it gives that text.\<close>

lemma ofKind_text:
  assumes "ofKind TextKind rs j" "allowed rs j \<Longrightarrow> j = JStr []"
  shows "\<exists>s. readText j = Some s \<and> (s \<noteq> [] \<and> withinRules (length s) rs \<or> s = [] \<and> allowed rs (JStr []))"
  using assms by (cases j) (auto simp: ofKind_def)

lemma optional_reads:
  assumes "pred_option (\<lambda>j. \<exists>x. read j = Some x \<and> P x) (map_of ps k)"
  obtains v where "optional read k (Some (JObj ps)) = ret v" "v = None \<longleftrightarrow> map_of ps k = None" "pred_option P v"
  using assms by (cases "map_of ps k") (auto simp: optional_def)

lemma reads_text:
  assumes "conforms (JoiString rs) qs v" "\<And>j. allowed rs j \<Longrightarrow> j = JStr []"
  shows "pred_option (\<lambda>j. \<exists>s. readText j = Some s \<and> (s \<noteq> [] \<and> withinRules (length s) rs \<or> s = [] \<and> allowed rs (JStr []))) v"
proof (cases v)
  case (Some j)
  with assms show ?thesis using ofKind_text[of rs j] by simp
qed simp

lemma reads_object:
  assumes "conforms (JoiAnyObject []) qs v"
  shows "pred_option (\<lambda>j. \<exists>ps. readObject j = Some ps \<and> True) v"
proof (cases v)
  case (Some j)
  with assms show ?thesis by (cases j) (simp_all add: ofKind_def allowed_def)
qed simp

lemma readElements_Some [simp]: "readElements Some js = Some js"
  by (induction js) simp_all

lemma reads_objects:
  assumes "conforms (JoiArray (JoiObject ks rels u) [Min 1]) qs v"
  shows "pred_option (\<lambda>j. \<exists>as. readList Some j = Some as \<and> as \<noteq> [] \<and> (\<forall>a \<in> set as. \<exists>ps. a = JObj ps)) v"
proof (cases v)
  case (Some j)
  with assms have j: "conformsArray (\<lambda>x. conforms (JoiObject ks rels u) [] (Some x)) False [Min 1] j" by simp
  then obtain as where "j = JArr as" by (cases j) (auto simp: conformsArray_def)
  moreover have "\<exists>ps. a = JObj ps" if "conforms (JoiObject ks rels u) [] (Some a)" for a
    using that by (cases a) (simp_all add: conformsObject_def)
  ultimately show ?thesis using Some j by (auto simp: conformsArray_def withinRules_def list_all_iff simp del: conforms.simps)
qed simp



section \<open>A message from the package to the members\<close>

text \<open>What has been delivered so far is only added to.\<close>

definition grown :: "world \<Rightarrow> world \<Rightarrow> bool" where
  "grown w w' \<longleftrightarrow> sameButDelivered w w' \<and> (\<exists>ps. outbox w' = outbox w @ ps)"

interpretation growing: packet_frame E "grown w" for E w
  by unfold_locales (auto simp: grown_def)

lemma grown_refl: "grown w w"
  by (simp add: grown_def sameButDelivered_def)

lemma forEach_snoc:
  "forEach xs f w = (Inr ys, w1) \<Longrightarrow> f x w1 = (Inr y, w2) \<Longrightarrow> forEach (xs @ [x]) f w = (Inr (ys @ [y]), w2)"
proof (induction xs arbitrary: w ys)
  case Nil
  then show ?case by (simp add: andThen_def)
next
  case (Cons a xs)
  obtain z w3 zs where z: "f a w = (Inr z, w3)" "forEach xs f w3 = (Inr zs, w1)" "ys = z # zs"
    using Cons.prems(1) by (auto simp: andThen_def split: prod.splits sum.splits)
  with Cons.IH[OF z(2) Cons.prems(2)] show ?case by (simp add: andThen_def)
qed

text \<open>A user is informed of a packet: it is written to the connections on this node (but not to the device of the sender), sent to the other nodes
  the user is connected to, and logged for a user without any connection.\<close>

definition informed :: "env \<Rightarrow> world \<Rightarrow> world \<Rightarrow> oid \<Rightarrow> socket \<Rightarrow> string \<Rightarrow> oid \<Rightarrow> bool" where
  "informed E w w' org ws packet u \<longleftrightarrow>
     (here E w org u \<longrightarrow> (let si = senderInfo E w org (Some ws) in set (sendsTo E w si (si_deviceId si) packet u) \<subseteq> set (outbox w'))) \<and>
     (\<forall>e \<in> elsewhere E w org u. (e, u, packet) \<in> set (clusterOutbox w')) \<and>
     (offline E w org u \<longrightarrow> (u, packet) \<in># logEntries (operations_log w'))"

lemma informed_cong:
  assumes "SESSIONS w1 = SESSIONS w" "DEVICES w1 = DEVICES w" "redis w1 = redis w" "apiTypes w1 = apiTypes w"
  shows "informed E w1 = informed E w"
  by (intro ext) (simp add: informed_def paths_cong[OF assms])

lemma reached_informed:
  assumes "reached E m us w w'" "dm_socket m = Some ws" "dm_ignoreSelf m" "\<not> dm_notSaveInOfflineStorage m" "u \<in> set us"
  shows "informed E w w' (dm_orgId m) ws (dm_packet m) u"
  using assms by (auto simp: reached_def informed_def Let_def)

text \<open>The last packet of a response, to a list of users or to a conversation.\<close>

lemma last_packet:
  assumes "mongo_ok E" "parts_ok (participants w)" "distinct (dm_userIds m)" "dm_cId m = Some cid" "dm_exceptUserIds m = []" "dm_socket m = None"
    "dm_ignoreSelf m" "\<not> dm_notSaveInOfflineStorage m"
  shows "\<exists>w' us. processDeliverMessage E (Some ws) m w = (Inr (), w') \<and> reached E (m\<lparr>dm_socket := Some ws\<rparr>) us w w' \<and> sameButDelivered w w'
    \<and> set us = (if dm_userIds m = [] then members_of cid w else set (dm_userIds m))"
proof (cases "dm_userIds m = []")
  case True
  then have "processDeliverMessage E (Some ws) m w = processDeliverConversationMessage E (m\<lparr>dm_socket := Some ws\<rparr>) cid w"
    using assms(4,6) by (simp add: processDeliverMessage_def Let_def)
  then show ?thesis using conversation_run[OF assms(1,2), of "m\<lparr>dm_socket := Some ws\<rparr>" cid] True assms(5) by auto
next
  case False
  then have "processDeliverMessage E (Some ws) m w = processDeliverUserMessage E (m\<lparr>dm_socket := Some ws\<rparr>) (Some (dm_userIds m)) w"
    using assms(6) by (simp add: processDeliverMessage_def processDeliverUserMessage_def Let_def)
  then show ?thesis using batch_run[OF assms(1,3), of "m\<lparr>dm_socket := Some ws\<rparr>" w] False by auto
qed

lemma response_delivered:
  assumes "mongo_ok E" "parts_ok (participants w)" "distinct (dm_userIds m)" "dm_cId m = Some cid" "dm_exceptUserIds m = []" "dm_socket m = None"
    "dm_ignoreSelf m" "\<not> dm_notSaveInOfflineStorage m" "rp_lastActivityStatusResponse r = None"
    "rp_backMessages r = [back]" "rp_deliverMessages r = ms @ [m]" "processAPIResponse E (Some ws) r w = (Inr (), w')"
  shows "messages w' = messages w" "\<exists>ps. outbox w' = outbox w @ (ws, back) # ps"
    "u \<in> (if dm_userIds m = [] then members_of cid w else set (dm_userIds m)) \<Longrightarrow> informed E w w' (dm_orgId m) ws (dm_packet m) u"
proof -
  let ?w1 = "w\<lparr>outbox := outbox w @ [(ws, back)]\<rparr>"
  obtain ys w2 where e: "forEach ms (processDeliverMessage E (Some ws)) ?w1 = (Inr ys, w2)"
    using forEach_returns[of ms "processDeliverMessage E (Some ws)"] processDeliverMessage_returns by blast
  have "keeps (grown ?w1) (forEach ms (processDeliverMessage E (Some ws)))" by (intro keeps_intros growing.keeps_packet)
  from keepsD[OF this grown_refl e] have g: "grown ?w1 w2" .
  then have g': "sameButDelivered w w2" by (simp add: grown_def)
  have parts: "parts_ok (participants w2)" "members_of cid w2 = members_of cid w"
    using assms(2) sameButDeliveredD(5)[OF g'] by (simp_all add: members_of_def)
  obtain w3 us where l: "processDeliverMessage E (Some ws) m w2 = (Inr (), w3)" "reached E (m\<lparr>dm_socket := Some ws\<rparr>) us w2 w3"
      "set us = (if dm_userIds m = [] then members_of cid w else set (dm_userIds m))" "sameButDelivered w2 w3"
    using last_packet[OF assms(1) parts(1) assms(3-8), of ws] parts(2) by auto
  have w': "w' = w3" using assms(12)
    by (simp add: processAPIResponse_def assms(9-11) processBackResponse_def processDeliverResponse_def
        andThen_run(1)[of "forEach _ _", OF forEach_snoc[OF e l(1)]])
  show "messages w' = messages w" using w' sameButDeliveredD(6)[OF l(4)] sameButDeliveredD(6)[OF g'] by simp
  have "keeps (grown ?w1) (processDeliverMessage E (Some ws) m)" by (rule growing.keeps_packet)
  from keepsD[OF this g l(1)] show "\<exists>ps. outbox w' = outbox w @ (ws, back) # ps" using w' by (auto simp: grown_def)
  show "informed E w w' (dm_orgId m) ws (dm_packet m) u" if "u \<in> (if dm_userIds m = [] then members_of cid w else set (dm_userIds m))"
    using reached_informed[OF l(2)] assms(7,8) l(3) that unfolding w' informed_def delivered_frame[OF g'] by simp
qed

text \<open>The packet of the message itself.\<close>

definition messagePacket :: "message \<Rightarrow> conv_type \<Rightarrow> string" where
  "messagePacket m t = stringifyMessage (JObj [(''message'', MessagePublicFields m (Some t) True [])])"

definition sentDelivery :: "create_result \<Rightarrow> conv_type \<Rightarrow> push \<Rightarrow> deliver_message" where
  "sentDelivery r t notification = (snd (createdDelivery r (plainEvent (MessageEvent (cr_message r) (Some t)) notification)))
     \<lparr>dm_packet := messagePacket (cr_message r) t\<rparr>"

lemma sentDelivery_simps [simp]:
  "dm_userIds (sentDelivery r t n) = idsOf (cr_participantIds r)" "dm_cId (sentDelivery r t n) = Some (cr_cId r)"
  "dm_exceptUserIds (sentDelivery r t n) = []" "dm_socket (sentDelivery r t n) = None" "dm_ignoreSelf (sentDelivery r t n)"
  "\<not> dm_notSaveInOfflineStorage (sentDelivery r t n)" "dm_orgId (sentDelivery r t n) = cr_organizationId r"
  "dm_packet (sentDelivery r t n) = messagePacket (cr_message r) t"
  by (simp_all add: sentDelivery_def createdDelivery_def deliver_def toConversation_def toUsers_def setConversationDestination_def setUsersDestination_def
      addPushQueueMessage_def DeliverMessage_def plainEvent_def)

lemma created_response:
  assumes "cr_deliverMessages r = evs @ [plainEvent (MessageEvent (cr_message r) (Some t)) n]"
    "a = apiResponse [askPacket r] (map (createdDelivery r) (cr_deliverMessages r))"
  shows "\<exists>ms. rp_deliverMessages (stringifyResponse a) = ms @ [sentDelivery r t n]" "rp_backMessages (stringifyResponse a) = [stringifyMessage (askPacket r)]"
    "rp_lastActivityStatusResponse (stringifyResponse a) = None"
  by (simp_all add: assms stringifyResponse_def apiResponse_def Response_def sentDelivery_def createdDelivery_def deliver_def plainEvent_def
      messagePacket_def MessageResponse_def)

text \<open>The state in which the controller of a message runs: the message is counted already.\<close>

definition entered :: "api_libs \<Rightarrow> socket \<Rightarrow> string \<Rightarrow> world \<Rightarrow> world" where
  "entered A ws b w = statsMessages_handle (statsLibs A) (received ws b w)"

lemma message_processed:
  assumes "unwrapRequest j = Inr (Some ''message'', req)" "joiValidate A messagesSchema_create (params ''message'' req) = None"
    "messageParams (params ''message'' req) (entered A ws b w) = (Inr p, entered A ws b w)"
    "getSession (received ws b w) ws \<noteq> None" "MessageCreate_perform E ws p (entered A ws b w) = (Inr r, w1)"
  shows "processMessage E A ws j (received ws b w) = (Inr (Answered (apiResponse [askPacket r] (map (createdDelivery r) (cr_deliverMessages r)))), w1)"
proof -
  have route: "map_of (routes E A) ''message'' = Some (countedRoute messagesSchema_create (MessagesController_create E))"
    by (simp add: routes_def statusRoutes_def messageRoutes_def)
  have "MessagesController_create E ws req (entered A ws b w) = (Inr (apiResponse [askPacket r] (map (createdDelivery r) (cr_deliverMessages r))), w1)"
    unfolding MessagesController_create_def andThen_run(1)[of "messageParams _", OF assms(3)] andThen_run(1)[of "MessageCreate_perform _ _ _", OF assms(5)]
    by simp
  then show ?thesis
    using assms(2,4) by (simp add: processMessage_def assms(1) route runRoute_def guardedRoute_def countedRoute_def authGuard_def validate_def params_def entered_def andThen_run)
qed

lemma ready_entered:
  assumes "ready_to_send E w ws p user c"
  shows "ready_to_send E (entered A ws b w) ws p user c"
proof -
  let ?w = "entered A ws b w"
  have "getSession ?w = getSession w" "User_findById E ?w = User_findById E w" "conversationAt ?w = conversationAt w"
    "members_of cid ?w = members_of cid w" "mayPost E ?w = mayPost E w" "getHandlerByConversationId E ?w = getHandlerByConversationId E w"
    "findMessageById E ?w = findMessageById E w" for cid
    by (simp_all add: fun_eq_iff entered_def received_def statsMessages_handle_def incMessagesCount_def Let_def getSession_def conversationAt_def
        User_findById_def members_of_def mayPost_def noBlock_def blocking_def adminOf_def getHandlerByConversationId_def findMessageById_def)
  then show ?thesis using assms by (simp add: ready_to_send_def split: option.splits)
qed

lemma entered_same [simp]:
  "messages (entered A ws b w) = messages w" "outbox (entered A ws b w) = outbox w" "clock (entered A ws b w) = clock w"
  "conversations (entered A ws b w) = conversations w" "participants (entered A ws b w) = participants w"
  "SESSIONS (entered A ws b w) = SESSIONS w" "DEVICES (entered A ws b w) = DEVICES w" "redis (entered A ws b w) = redis w"
  "apiTypes (entered A ws b w) = (apiTypes w)(ws \<mapsto> JSON)" "server_ok w \<Longrightarrow> server_ok (entered A ws b w)"
proof -
  show "server_ok w \<Longrightarrow> server_ok (entered A ws b w)" unfolding entered_def by (rule server_ok_stats) (simp add: received_def)
qed (simp_all add: entered_def received_def statsMessages_handle_def incMessagesCount_def Let_def)



end
