(* ===== verification/Http_Props.thy ===== *)
theory Http_Props
  imports Server Session_Props
begin

text \<open>
  Properties of the HTTP API: the administration needs the key, every request is answered exactly once, and the session that a request opens on
  behalf of a user does not outlive it.
\<close>

section \<open>The key of the administration\<close>

lemma admin_routes: "list_all (\<lambda>((m, u), r). take 7 u = ''/admin/'' \<longleftrightarrow> ht_admin r) (httpRoutes E A L)"
  by (simp add: httpRoutes_def Let_def)

lemma unbind_none [simp]: "getSession w res = None \<Longrightarrow> unbindSession E res w = w"
  by (simp add: unbindSession_def)

lemma getSession_replied [simp]: "getSession (replied res' r w) res = getSession w res"
  by (simp add: getSession_def replied_def)


definition http_message :: json where
  "http_message = JObj [(''organizationId'', JStr ''o''), (''senderId'', JStr ''u1''), (''message'', JObj [(''cid'', JStr ''c1''), (''body'', JStr ''hello'')])]"

definition message_post :: "string \<Rightarrow> http_request" where
  "message_post key = \<lparr>hq_method = ''post'', hq_url = ''/admin/message'', hq_headers = [(''admin-api-key'', key), (''content-type'', ''application/json''),
     (''content-length'', ''90'')], hq_body = stringifyMessage http_message\<rparr>"


section \<open>Every request is answered once\<close>

lemma replies_replied [simp]: "httpOutbox (replied res r w) = httpOutbox w @ [(res, r)]"
  by (simp add: replied_def)


section \<open>The session of a request\<close>

definition door :: "world \<Rightarrow> (socket \<times> session) list \<times> (oid \<rightharpoonup> connection list)" where
  "door w = (SESSIONS w, DEVICES w)"

lemma door_eq: "door w' = door w \<longleftrightarrow> SESSIONS w' = SESSIONS w \<and> DEVICES w' = DEVICES w"
  by (simp add: door_def)

interpretation door_messages: message_frame door
  by unfold_locales (simp_all add: door_def)

interpretation door_delivery: delivery_frame E "\<lambda>w. door w = D" for E D
proof
  show "door w = D \<Longrightarrow> door (unsubscribeObserver E u w) = D" for u w
    by (simp add: door_def unsubscribeObserver_def Standalone_unsubscribeObserver_def Standalone_deleteSubscriber_def
        Standalone_deleteSubscribeTarget_def Let_def split: option.split)
qed (simp_all add: door_def)

text \<open>The requests about messages: they act as the sender first, and touch neither sessions nor connections after that.\<close>

definition messageHandlers :: "env \<Rightarrow> (http_context \<Rightarrow> socket \<Rightarrow> http_answer handler) list" where
  "messageHandlers E = [HttpMessageController_message E, HttpMessageController_system_message E, HttpMessageController_read E, HttpMessageController_edit E,
     HttpMessageController_reaction E, HttpMessageController_delete E]"

definition actsOnly :: "socket \<Rightarrow> json \<Rightarrow> http_answer handler \<Rightarrow> bool" where
  "actsOnly res payload m \<longleftrightarrow> (\<exists>f. m = andThen (actAs res ''senderId'' payload) f \<and> (\<forall>D. keeps (\<lambda>w. door w = D) (f ())))"

lemma actsOnlyI: "(\<And>D. keeps (\<lambda>w. door w = D) (f ())) \<Longrightarrow> actsOnly res payload (andThen (actAs res ''senderId'' payload) f)"
  unfolding actsOnly_def by blast

lemma messageHandlers_act:
  assumes "h \<in> set (messageHandlers E)"
  shows "actsOnly res (hc_body ctx) (h ctx res)"
proof -
  note acts = actsOnlyI keeps_intros door_messages.unseen_message_requests
  note defs = http_message_defs messageParams_def Let_def andThen_assoc
  have "actsOnly res (hc_body ctx) (HttpMessageController_message E ctx res)"
    unfolding defs by (intro acts)
  moreover have "actsOnly res (hc_body ctx) (HttpMessageController_system_message E ctx res)"
    unfolding defs by (intro acts)
  moreover have "actsOnly res (hc_body ctx) (HttpMessageController_read E ctx res)"
    unfolding defs by (intro acts)
  moreover have "actsOnly res (hc_body ctx) (HttpMessageController_edit E ctx res)"
    unfolding defs by (intro acts)
  moreover have "actsOnly res (hc_body ctx) (HttpMessageController_reaction E ctx res)"
    unfolding defs by (intro acts)
  moreover have "actsOnly res (hc_body ctx) (HttpMessageController_delete E ctx res)"
    unfolding defs by (intro acts)
  ultimately show ?thesis using assms unfolding messageHandlers_def by auto
qed

lemma actAs_run:
  assumes "getProp ''senderId'' (Some payload) = Some (JStr u)" "actAs res ''senderId'' payload w = (r, w1)"
  shows "(\<exists>e. r = Inl e) \<and> w1 = w \<or> (\<exists>org. w1 = snd (addUserDeviceConnection res org u HTTP_DEVICE_ID w))"
  using assms by (auto simp: actAs_def textOr_def optional_def andThen_def destructured_def split: option.splits json.splits if_splits)

lemma actsOnly_run:
  assumes "actsOnly res payload m" "getProp ''senderId'' (Some payload) = Some (JStr u)" "m w = (r, w1)"
  shows "(\<exists>e. r = Inl e) \<and> w1 = w \<or> (\<exists>org. door w1 = door (snd (addUserDeviceConnection res org u HTTP_DEVICE_ID w)))"
proof -
  obtain f where m: "m = andThen (actAs res ''senderId'' payload) f" and f: "\<And>D. keeps (\<lambda>w. door w = D) (f ())"
    using assms(1) unfolding actsOnly_def by blast
  obtain a v where act: "actAs res ''senderId'' payload w = (a, v)" by fastforce
  show ?thesis
  proof (cases a)
    case (Inl e)
    then show ?thesis using actAs_run[OF assms(2) act] assms(3) act by (auto simp: m andThen_def)
  next
    case (Inr x)
    then have "f () v = (r, w1)" using act assms(3) by (simp add: m andThen_def)
    with keepsD[OF f] have "door w1 = door v" by blast
    then show ?thesis using actAs_run[OF assms(2) act] Inr by auto
  qed
qed

text \<open>Removing the session of a request depends on the sessions and connections only, and the deliveries do not touch them.\<close>

lemma unbind_door:
  assumes "door w1 = door w2"
  shows "door (unbindSession E res w1) = door (unbindSession E res w2)"
proof -
  have "getSession w1 = getSession w2" "getUserDevices w1 = getUserDevices w2"
    using assms by (auto simp: door_def getSession_def getUserDevices_def)
  with assms show ?thesis
    by (simp add: door_def unbindSession_def removeUserSession_SESSIONS removeUserSession_DEVICES Let_def split: option.split)
qed

lemma door_sent: "door (snd (processDeliverResponse E ws ms w)) = door w"
proof -
  have "keeps (\<lambda>v. door v = door w) (processDeliverResponse E ws ms)"
    unfolding processDeliverResponse_def by (intro keeps_intros door_delivery.keeps_packet)
  then show ?thesis by (simp add: keeps_def)
qed

lemma door_deliverAndUnbind: "door (deliverAndUnbind E late res r w) = door (unbindSession E res w)"
proof -
  let ?act = "case rp_lastActivityStatusResponse r of None \<Rightarrow> (Inr r, w) | Some status \<Rightarrow> processUpdateLastActivityResponse E (Some res) r status w"
  have "door (snd ?act) = door w"
    using door_delivery.keeps_activity_status[of "door w" E "Some res" r] by (auto simp: keeps_def split: option.split)
  then show ?thesis unfolding deliverAndUnbind_def Let_def
    by (cases ?act) (auto simp: door_sent split: sum.split intro!: unbind_door)
qed

lemma door_requestHandler:
  assumes "andThen (if ht_admin r then adminApiKeyValidation L req else ret ())
      (\<lambda>_. ht_handler r (parseJsonBody E req (parseBaseParams L req)) res) w = (x, w1)"
  shows "door (requestHandler E A L late res req r w) = door (unbindSession E res w1)"
proof -
  have "door (unbindSession E res (replied res p w1)) = door (unbindSession E res w1)" for p
    by (rule unbind_door) (simp add: replied_def door_def)
  with assms show ?thesis by (simp add: requestHandler_def Let_def door_deliverAndUnbind split: sum.split)
qed

text \<open>Adding the connection of a request and removing it.\<close>

lemma map_delete_set: "map_of al k = None \<Longrightarrow> map_delete k (map_set k v al) = al"
  by (auto simp: map_delete_def map_set_def map_of_eq_None_iff filter_id_conv)

lemma bound_and_unbound:
  assumes "connections_ok w" "getSession w res = None" "\<forall>c \<in> set (getUserDevices w u). cn_socket c \<noteq> res" "u \<noteq> []"
    "door w1 = door (snd (addUserDeviceConnection res org u HTTP_DEVICE_ID w))" "w2 = unbindSession E res w1"
  shows "SESSIONS w2 = SESSIONS w"
    "getUserDevices w2 v = (if v = u then filter (\<lambda>c. cn_deviceId c \<noteq> HTTP_DEVICE_ID) (getUserDevices w u) else getUserDevices w v)"
proof -
  obtain p v where add: "addUserDeviceConnection res org u HTTP_DEVICE_ID w = (p, v)" by fastforce
  obtain a b where p: "p = (a, b)" by fastforce
  note effect = addUserDeviceConnection_effect[OF assms(1) add[unfolded p]]
  have s: "getSession v res = Some \<lparr>s_organizationId = org, s_userId = u, s_extraParams = [SESSION_DEVICE_ID_KEY \<mapsto> HTTP_DEVICE_ID]\<rparr>"
    using effect by blast
  have d: "getUserDevices v u = filter (\<lambda>c. cn_deviceId c \<noteq> HTTP_DEVICE_ID) (getUserDevices w u) @ [\<lparr>cn_socket = res, cn_deviceId = HTTP_DEVICE_ID, cn_organizationId = org\<rparr>]"
    using effect assms(3) by (auto intro: filter_cong)
  have S: "SESSIONS v = map_set res \<lparr>s_organizationId = org, s_userId = u, s_extraParams = [SESSION_DEVICE_ID_KEY \<mapsto> HTTP_DEVICE_ID]\<rparr> (SESSIONS w)"
    using add assms(2) by (auto simp: addUserDeviceConnection_def Let_def setSessionUserId_def setSession_def getSession_def)
  have same: "door w2 = door (snd (removeUserSession E res (Some u) (Some HTTP_DEVICE_ID) v))"
    unfolding assms(6) using unbind_door[of w1 v E res] assms(4,5) s add by (simp add: unbindSession_def)
  show "SESSIONS w2 = SESSIONS w"
    using same assms(2) by (simp add: door_eq removeUserSession_SESSIONS S getSession_def map_delete_set)
  show "getUserDevices w2 v' = (if v' = u then filter (\<lambda>c. cn_deviceId c \<noteq> HTTP_DEVICE_ID) (getUserDevices w u) else getUserDevices w v')" for v'
    using same effect d by (auto simp: door_eq removeUserSession_DEVICES getUserDevices_def Let_def split: if_splits)
qed

text \<open>C12: The session that a request about messages opens on behalf of its sender does not outlive the request, whether the key is wrong, the operation fails or it succeeds:
  afterwards the sessions of the node are those from before, and so are the connections of all users, except that connections of other HTTP requests of the same sender may have been
  closed with it. (The sender has to be named: a request without one leaves its session behind.)\<close>

theorem http_leaves_no_session:
  assumes "ht_handler (httpRoute E A L req) \<in> set (messageHandlers E)"
    "getProp ''senderId'' (Some (hc_body (parseJsonBody E req (parseBaseParams L req)))) = Some (JStr u)" "u \<noteq> []"
    "connections_ok w" "getSession w res = None" "\<forall>c \<in> set (getUserDevices w u). cn_socket c \<noteq> res"
    "w' = onHttpRequest E A L late res req w"
  shows "SESSIONS w' = SESSIONS w \<and> (\<forall>v. getUserDevices w' v = getUserDevices w v
    \<or> v = u \<and> getUserDevices w' v = filter (\<lambda>c. cn_deviceId c \<noteq> HTTP_DEVICE_ID) (getUserDevices w v))"
proof -
  let ?r = "httpRoute E A L req" and ?ctx = "parseJsonBody E req (parseBaseParams L req)"
  obtain x w1 where run: "andThen (if ht_admin ?r then adminApiKeyValidation L req else ret ()) (\<lambda>_. ht_handler ?r ?ctx res) w = (x, w1)"
    by fastforce
  have same: "door w' = door (unbindSession E res w1)"
    unfolding assms(7) onHttpRequest_def by (rule door_requestHandler[OF run])
  have "w1 = w \<or> ht_handler ?r ?ctx res w = (x, w1)"
    using run by (auto simp: adminApiKeyValidation_def Let_def andThen_def split: if_splits)
  then have "w1 = w \<or> (\<exists>org. door w1 = door (snd (addUserDeviceConnection res org u HTTP_DEVICE_ID w)))"
    using actsOnly_run[OF messageHandlers_act[OF assms(1)] assms(2)] by blast
  then show ?thesis
  proof
    assume "w1 = w"
    then show ?thesis using same assms(5) by (simp add: door_eq getUserDevices_def)
  next
    assume "\<exists>org. door w1 = door (snd (addUserDeviceConnection res org u HTTP_DEVICE_ID w))"
    then obtain org where w1: "door w1 = door (snd (addUserDeviceConnection res org u HTTP_DEVICE_ID w))" ..
    note unbound = bound_and_unbound[OF assms(4-6,3) w1 refl[of "unbindSession E res w1"]]
    have "getUserDevices w' = getUserDevices (unbindSession E res w1)" using same by (auto simp: door_eq getUserDevices_def)
    then show ?thesis using same unbound by (simp add: door_eq)
  qed
qed

theorem http_leaves_no_session_witness:
  "let w = onHttpRequest mem_env plain_libs plain_http 0 77 (message_post ''key'') (chat_world\<lparr>DEVICES := Map.empty\<rparr>)
   in SESSIONS w = SESSIONS chat_world \<and> getUserDevices w ''u1'' = []"
proof -
  let ?w = "chat_world\<lparr>DEVICES := Map.empty\<rparr>" and ?req = "message_post ''key''"
  have p: "jsonParse mem_env (stringifyMessage http_message) = Some http_message" using parse_written[of http_message] by (simp add: mem_env_def http_message_def)
  have "hc_body (parseJsonBody mem_env ?req (parseBaseParams plain_http ?req)) = http_message"
    by (simp add: parseJsonBody_def parseBaseParams_def headerOf_def message_post_def includesText_def lengthOf_def isDigit_def p del: stringifyMessage.simps)
  then have "getProp ''senderId'' (Some (hc_body (parseJsonBody mem_env ?req (parseBaseParams plain_http ?req)))) = Some (JStr ''u1'')"
    by (simp add: http_message_def)
  moreover have "ht_handler (httpRoute mem_env plain_libs plain_http ?req) \<in> set (messageHandlers mem_env)"
    by (simp add: httpRoute_def httpRoutes_def message_post_def messageHandlers_def Let_def)
  moreover have "connections_ok ?w" "getSession ?w 77 = None" "getUserDevices ?w ''u1'' = []"
    by (simp_all add: connections_ok_def getSession_def getUserDevices_def chat_world_def)
  ultimately show ?thesis unfolding Let_def
    using http_leaves_no_session[of mem_env plain_libs plain_http ?req "''u1''" ?w 77 _ 0, OF _ _ _ _ _ _ refl] by simp (metis filter.simps(1))
qed

end
