(* ===== verification/Service_Locator.thy ===== *)
theory Service_Locator
  imports Sessions
begin

text \<open>
  The container that builds the services: \<^verbatim>\<open>app/common/ServiceLocatorContainer.js\<close> and \<^verbatim>\<open>app/common/RegisterProvider.js\<close>. A provider looks up
  the services it depends on, which builds them first, and constructs its own with them. Singletons are remembered. What the code relies on is that
  the providers form no cycle, the locale \<open>provider_graph\<close>: then every registered service can be built, and a singleton is built once.
  The providers of the server are the theory \<open>Providers\<close>.
\<close>

section \<open>Providers and the container\<close>

datatype scope = SINGLETON | TRANSIENT

text \<open>
  \<open>pv_uses\<close> are the names that \<open>register\<close> looks up, in its order, on a stand-alone node and in a cluster; \<open>pv_forwards\<close> holds for a provider that gives
  the last of them instead of a new object. An object is a number, its place in the list of the objects that were constructed, which notes the provider and what it was given.
\<close>

record register_provider =
  pv_name :: string
  pv_scope :: scope
  pv_uses :: "bool \<Rightarrow> string list"
  pv_forwards :: bool
  pv_booted :: bool

record service_locator =
  providersStore :: "(string \<times> register_provider) list"
  providersInstances :: "string \<rightharpoonup> nat"
  objects :: "(string \<times> nat list) list"

datatype slc_error = NoRegisterProvider string | StackOverflow | NotAProvider

type_synonym 'a located = "(service_locator, slc_error, 'a) eff"

definition RegisterProvider :: "string \<Rightarrow> scope \<Rightarrow> (bool \<Rightarrow> string list) \<Rightarrow> register_provider" where
  "RegisterProvider name scope uses = \<lparr>pv_name = name, pv_scope = scope, pv_uses = uses, pv_forwards = False, pv_booted = False\<rparr>"

definition construct :: "register_provider \<Rightarrow> nat list \<Rightarrow> nat located" where
  "construct p ds = (if pv_forwards p then ret (last ds)
     else transact (\<lambda>s. (length (objects s), s\<lparr>objects := objects s @ [(pv_name p, ds)]\<rparr>)))"

text \<open>The first argument is the depth of calls that the stack has room for.\<close>

primrec createProviderInstance :: "nat \<Rightarrow> bool \<Rightarrow> string \<Rightarrow> nat located" where
  "createProviderInstance 0 alone name = throw StackOverflow"
| "createProviderInstance (Suc depth) alone name = andThen (gets (\<lambda>s. map_of (providersStore s) name)) (\<lambda>found. case found of
      None \<Rightarrow> throw (NoRegisterProvider name)
    | Some p \<Rightarrow>
        let build = andThen (forEach (pv_uses p alone) (createProviderInstance depth alone)) (construct p)
        in if pv_scope p = TRANSIENT then build
           else andThen (gets (\<lambda>s. providersInstances s name)) (\<lambda>known. case known of
               Some i \<Rightarrow> ret i
             | None \<Rightarrow> andThen build (\<lambda>i.
                 andThen (modify (\<lambda>s. s\<lparr>providersInstances := (providersInstances s)(name \<mapsto> i)\<rparr>)) (\<lambda>_. ret i))))"

definition useService :: "nat \<Rightarrow> bool \<Rightarrow> string \<Rightarrow> nat located" where
  "useService = createProviderInstance"

definition createAllSingletonInstances :: "nat \<Rightarrow> bool \<Rightarrow> unit located" where
  "createAllSingletonInstances depth alone =
     andThen (gets (\<lambda>s. filter (\<lambda>p. pv_scope p = SINGLETON) (map snd (providersStore s)))) (\<lambda>registerProviders.
     andThen (forEach (map pv_name registerProviders) (createProviderInstance depth alone)) (\<lambda>_. ret ()))"

definition registerService :: "register_provider \<Rightarrow> service_locator \<Rightarrow> service_locator" where
  "registerService p s = s\<lparr>providersStore := map_set (pv_name p) p (providersStore s)\<rparr>"

text \<open>Providers do nothing when they are booted, except for a note that they were.\<close>

definition boot :: "string option \<Rightarrow> unit located" where
  "boot name = andThen (gets (\<lambda>s. case name of Some (c # cs) \<Rightarrow> (case map_of (providersStore s) (c # cs) of Some p \<Rightarrow> Some [pv_name p] | None \<Rightarrow> None)
        | _ \<Rightarrow> Some (map (pv_name \<circ> snd) (providersStore s)))) (\<lambda>toBoot. case toBoot of
      None \<Rightarrow> throw NotAProvider
    | Some names \<Rightarrow> modify (\<lambda>s. s\<lparr>providersStore := map (\<lambda>(k, p). (k, if pv_name p \<in> set names then p\<lparr>pv_booted := True\<rparr> else p)) (providersStore s)\<rparr>))"

section \<open>A graph of providers without cycles\<close>

definition emptyLocator :: service_locator where
  "emptyLocator = \<lparr>providersStore = [], providersInstances = Map.empty, objects = []\<rparr>"

text \<open>\<open>builds n s\<close> are the objects that the provider of a name has constructed.\<close>

definition builds :: "string \<Rightarrow> service_locator \<Rightarrow> (string \<times> nat list) list" where
  "builds n s = filter (\<lambda>ob. fst ob = n) (objects s)"

definition once :: "register_provider \<Rightarrow> bool" where
  "once p \<longleftrightarrow> pv_scope p = SINGLETON \<and> \<not> pv_forwards p"

locale provider_graph =
  fixes store :: "(string \<times> register_provider) list" and alone :: bool and rank :: "string \<Rightarrow> nat"
  assumes named: "(n, p) \<in> set store \<Longrightarrow> pv_name p = n"
    and distinct_names: "distinct (map fst store)"
    and forwards: "(n, p) \<in> set store \<Longrightarrow> pv_forwards p \<Longrightarrow> pv_uses p alone \<noteq> []"
    and uses: "(n, p) \<in> set store \<Longrightarrow> d \<in> set (pv_uses p alone) \<Longrightarrow> d \<in> fst ` set store \<and> rank d < rank n"
begin

lemma found: "map_of store n = Some p \<Longrightarrow> (n, p) \<in> set store \<and> pv_name p = n"
  using named map_of_SomeD by fastforce

text \<open>The state of the container while services are built.\<close>

definition ok :: "service_locator \<Rightarrow> bool" where
  "ok s \<longleftrightarrow> providersStore s = store
     \<and> (\<forall>n p. map_of store n = Some p \<longrightarrow> once p \<longrightarrow> length (builds n s) = (if providersInstances s n = None then 0 else 1))"

text \<open>What building a service of a rank below \<open>k\<close> changes.\<close>

definition upTo :: "nat \<Rightarrow> service_locator \<Rightarrow> service_locator \<Rightarrow> bool" where
  "upTo k s s' \<longleftrightarrow> providersInstances s \<subseteq>\<^sub>m providersInstances s'
     \<and> (\<forall>n. k \<le> rank n \<longrightarrow> providersInstances s' n = providersInstances s n \<and> builds n s' = builds n s)"

lemma upTo_refl [simp]: "upTo k s s"
  by (simp add: upTo_def)

lemma upTo_trans: "upTo k s s1 \<Longrightarrow> upTo k s1 s2 \<Longrightarrow> upTo k s s2"
  unfolding upTo_def using map_le_trans by fastforce

lemma upTo_mono: "upTo j s s' \<Longrightarrow> j \<le> k \<Longrightarrow> upTo k s s'"
  unfolding upTo_def by simp

lemma forEach_builds:
  assumes "\<And>d s. d \<in> set ds \<Longrightarrow> ok s \<Longrightarrow> \<exists>i s'. f d s = (Inr i, s') \<and> ok s' \<and> upTo k s s'" "ok s"
  shows "\<exists>is s'. forEach ds f s = (Inr is, s') \<and> ok s' \<and> upTo k s s'"
  using assms
proof (induction ds arbitrary: s)
  case (Cons d ds)
  obtain i s1 where i: "f d s = (Inr i, s1)" "ok s1" "upTo k s s1" using Cons.prems(1)[of d s] Cons.prems(2) by auto
  obtain "is" s2 where s2: "forEach ds f s1 = (Inr is, s2)" "ok s2" "upTo k s1 s2" using Cons.IH[OF _ i(2)] Cons.prems(1) by auto
  have "forEach (d # ds) f s = (Inr (i # is), s2)" by (simp add: andThen_run(1)[of "f d", OF i(1)] andThen_run(1)[of "forEach ds f", OF s2(1)])
  then show ?case using s2(2) upTo_trans[OF i(3) s2(3)] by blast
qed simp

lemma construct_ok:
  assumes "map_of store n = Some p" "ok s" "pv_scope p = SINGLETON \<Longrightarrow> providersInstances s n = None" "construct p ds s = (r, s')"
  shows "\<exists>i. r = Inr i" "upTo (Suc (rank n)) s s'" "pv_scope p = TRANSIENT \<Longrightarrow> ok s'"
    "pv_scope p = SINGLETON \<Longrightarrow> ok (s'\<lparr>providersInstances := (providersInstances s')(n \<mapsto> i)\<rparr>)"
proof -
  have "pv_name p = n" using found[OF assms(1)] by blast
  then have s': "s' = s \<and> pv_forwards p \<or> s' = s\<lparr>objects := objects s @ [(n, ds)]\<rparr> \<and> \<not> pv_forwards p" and "\<exists>i. r = Inr i"
    using assms(4) by (auto simp: construct_def split: if_splits)
  then show "\<exists>i. r = Inr i" by blast
  have b: "builds m (s\<lparr>objects := objects s @ [(n, ds)]\<rparr>) = builds m s @ (if m = n then [(n, ds)] else [])" for m
    by (simp add: builds_def)
  then show "upTo (Suc (rank n)) s s'" using s' by (auto simp: upTo_def)
  have same: "builds m (t\<lparr>providersInstances := f\<rparr>) = builds m t" for m t f by (simp add: builds_def)
  have others: "builds m s' = builds m s" if "m \<noteq> n" for m using s' b that by auto
  have okD: "length (builds m s) = (if providersInstances s m = None then 0 else 1)" if "map_of store m = Some q" "once q" for m q
    using assms(2) that by (simp add: ok_def)
  have st: "providersStore s' = store" "providersInstances s' = providersInstances s" using s' assms(2) by (auto simp: ok_def)
  show "ok s'" if "pv_scope p = TRANSIENT"
  proof -
    have "m \<noteq> n" if "map_of store m = Some q" "once q" for m q
      using that \<open>pv_scope p = TRANSIENT\<close> assms(1) by (auto simp: once_def)
    then show ?thesis using okD st others by (simp add: ok_def)
  qed
  show "ok (s'\<lparr>providersInstances := (providersInstances s')(n \<mapsto> i)\<rparr>)" if "pv_scope p = SINGLETON"
  proof -
    have "length (builds n s') = 1" if "once p"
      using okD[OF assms(1) that] assms(3)[OF \<open>pv_scope p = SINGLETON\<close>] s' that b[of n] by (auto simp: once_def)
    then have "length (builds m s') = (if m = n then 1 else if providersInstances s m = None then 0 else 1)" if "map_of store m = Some q" "once q" for m q
      using okD[OF that] others[of m] that assms(1) by (cases "m = n") auto
    then show ?thesis using st by (auto simp: ok_def same)
  qed
qed

text \<open>Every service can be built, with a stack that is deeper than its rank.\<close>

lemma builds_service:
  assumes "map_of store n = Some p" "rank n < depth" "ok s"
  shows "\<exists>i s'. createProviderInstance depth alone n s = (Inr i, s') \<and> ok s' \<and> upTo (Suc (rank n)) s s'
    \<and> (pv_scope p = SINGLETON \<longrightarrow> providersInstances s' n = Some i)"
  using assms
proof (induction depth arbitrary: n p s)
  case (Suc depth)
  let ?build = "andThen (forEach (pv_uses p alone) (createProviderInstance depth alone)) (construct p)"
  have p: "(n, p) \<in> set store" and st: "providersStore s = store" using found[OF Suc.prems(1)] Suc.prems(3) by (auto simp: ok_def)
  have "\<exists>i s'. createProviderInstance depth alone d s = (Inr i, s') \<and> ok s' \<and> upTo (rank n) s s'" if d: "d \<in> set (pv_uses p alone)" "ok s" for d s
  proof -
    have r: "d \<in> fst ` set store" "rank d < rank n" using uses[OF p d(1)] by auto
    then obtain q where "map_of store d = Some q" by (metis map_of_eq_None_iff not_None_eq)
    from Suc.IH[OF this _ d(2)] r(2) Suc.prems(2) show ?thesis by (meson Suc_leI less_trans_Suc not_less_eq upTo_mono order_less_le_trans less_Suc_eq_le)
  qed
  from forEach_builds[where f = "createProviderInstance depth alone" and ds = "pv_uses p alone" and k = "rank n", OF this Suc.prems(3)] obtain ds s1 where
    ds: "forEach (pv_uses p alone) (createProviderInstance depth alone) s = (Inr ds, s1)" and s1: "ok s1" "upTo (rank n) s s1" by blast
  obtain r s2 where c: "construct p ds s1 = (r, s2)" by fastforce
  have new: "providersInstances s1 n = None" if "providersInstances s n = None" using that s1(2) by (simp add: upTo_def)
  have b: "?build s = (r, s2)" by (simp add: andThen_run(1)[of "forEach _ _", OF ds] c)
  show ?case
  proof (cases "pv_scope p = TRANSIENT")
    case True
    note co = construct_ok[OF Suc.prems(1) s1(1) _ c]
    have "upTo (Suc (rank n)) s s2" using upTo_trans[OF upTo_mono[OF s1(2)] co(2)] True by simp
    then show ?thesis using True co(1,3) b Suc.prems(1) by (auto simp: st)
  next
    case False
    then have single: "pv_scope p = SINGLETON" using scope.exhaust by blast
    show ?thesis
    proof (cases "providersInstances s n")
      case (Some i)
      then show ?thesis using Suc.prems single by (auto simp: st)
    next
      case None
      note co = construct_ok[OF Suc.prems(1) s1(1) new[OF None] c]
      obtain i where i: "r = Inr i" using co(1) by blast
      let ?s = "s2\<lparr>providersInstances := (providersInstances s2)(n \<mapsto> i)\<rparr>"
      have "createProviderInstance (Suc depth) alone n s = (Inr i, ?s)"
        using None single Suc.prems(1) b i by (simp add: st andThen_run(1)[of ?build])
      moreover have "upTo (Suc (rank n)) s2 ?s" if "providersInstances s2 n = None" using that by (auto simp: upTo_def builds_def map_le_def)
      moreover have "providersInstances s2 n = None" using c new[OF None] by (auto simp: construct_def split: if_splits)
      ultimately show ?thesis
        using co(2) co(4)[OF single] single upTo_trans[OF upTo_trans[OF upTo_mono[OF s1(2)] co(2)]] by auto
    qed
  qed
qed simp

text \<open>All singletons are built, and each constructs one object.\<close>

lemma all_built:
  assumes "\<forall>n \<in> fst ` set store. rank n < depth" "ok s"
  shows "\<exists>s'. createAllSingletonInstances depth alone s = (Inr (), s') \<and> ok s'
    \<and> (\<forall>n p. map_of store n = Some p \<longrightarrow> pv_scope p = SINGLETON \<longrightarrow> providersInstances s' n \<noteq> None)"
proof -
  let ?names = "map pv_name (filter (\<lambda>p. pv_scope p = SINGLETON) (map snd store))"
  have run: "\<exists>is s'. forEach ns (createProviderInstance depth alone) s = (Inr is, s') \<and> ok s' \<and> providersInstances s \<subseteq>\<^sub>m providersInstances s'
      \<and> (\<forall>n \<in> set ns. providersInstances s' n \<noteq> None)"
    if "\<forall>n \<in> set ns. \<exists>p. map_of store n = Some p \<and> pv_scope p = SINGLETON" "ok s" for ns s
    using that
  proof (induction ns arbitrary: s)
    case (Cons n ns)
    then obtain p where p: "map_of store n = Some p" "pv_scope p = SINGLETON" by auto
    then have "rank n < depth" using assms(1) by (force dest: map_of_SomeD)
    from builds_service[OF p(1) this Cons.prems(2)] p(2) obtain i s1 where
      s1: "createProviderInstance depth alone n s = (Inr i, s1)" "ok s1" "providersInstances s \<subseteq>\<^sub>m providersInstances s1" "providersInstances s1 n = Some i"
      by (auto simp: upTo_def)
    from Cons.IH[OF _ s1(2)] Cons.prems(1) obtain "is" s2 where
      s2: "forEach ns (createProviderInstance depth alone) s1 = (Inr is, s2)" "ok s2" "providersInstances s1 \<subseteq>\<^sub>m providersInstances s2"
        "\<forall>n \<in> set ns. providersInstances s2 n \<noteq> None" by auto
    have "providersInstances s2 n = Some i" using s1(4) s2(3) unfolding map_le_def by (metis domI)
    with s1 s2 map_le_trans[OF s1(3) s2(3)] show ?case
      by (auto simp: andThen_run(1)[of "createProviderInstance depth alone n", OF s1(1)] andThen_run(1)[of "forEach _ _", OF s2(1)])
  qed auto
  have names: "\<exists>p. map_of store n = Some p \<and> pv_scope p = SINGLETON" if n: "n \<in> set ?names" for n
  proof -
    obtain k p where kp: "(k, p) \<in> set store" "pv_scope p = SINGLETON" "n = pv_name p" using n by auto
    with named[OF kp(1)] show ?thesis using map_of_is_SomeI[OF distinct_names kp(1)] by auto
  qed
  from run[of ?names s] names assms(2) obtain "is" s' where
    s': "forEach ?names (createProviderInstance depth alone) s = (Inr is, s')" "ok s'" "\<forall>n \<in> set ?names. providersInstances s' n \<noteq> None" by blast
  have st: "providersStore s = store" using assms(2) by (simp add: ok_def)
  have "createAllSingletonInstances depth alone s = (Inr (), s')"
    by (simp add: createAllSingletonInstances_def st andThen_run(1)[of "forEach _ _", OF s'(1)])
  moreover have "n \<in> set ?names" if "map_of store n = Some p" "pv_scope p = SINGLETON" for n p
    using found[OF that(1)] that(2) by force
  ultimately show ?thesis using s'(2,3) by blast
qed

text \<open>A singleton that was built is given again, and nothing changes.\<close>

lemma shared:
  assumes "map_of store n = Some p" "pv_scope p = SINGLETON" "ok s" "providersInstances s n = Some i" "0 < depth"
  shows "createProviderInstance depth alone n s = (Inr i, s)"
  using assms by (cases depth) (auto simp: ok_def)

end

end
