(* ===== verification/Providers.thy ===== *)
theory Providers
  imports Service_Locator
begin

text \<open>
  The providers of the server and its start-up: the \<^verbatim>\<open>Provider.js\<close> files under \<^verbatim>\<open>app/providers\<close>, the list \<^verbatim>\<open>app/providers/index.js\<close>, and the
  part of \<^verbatim>\<open>index.js\<close> that registers, boots and builds them. Of what a provider hands to a constructor only the services are noted, not the models and stores. The
  theory ends with an order of building, which \<open>Start_Up\<close> uses to show that the start-up succeeds.
\<close>

named_theorems provider_defs "the providers of the server"

section \<open>The base\<close>

text \<open>The configuration, the logger and the connections exist before; their providers give them.\<close>

definition ConfigProvider :: register_provider where [provider_defs]:
  "ConfigProvider = RegisterProvider ''Config'' SINGLETON (\<lambda>_. [])"

definition LoggerProvider :: register_provider where [provider_defs]:
  "LoggerProvider = RegisterProvider ''Logger'' SINGLETON (\<lambda>_. [])"

definition RedisClientProvider :: register_provider where [provider_defs]:
  "RedisClientProvider = RegisterProvider ''RedisClient'' SINGLETON (\<lambda>_. [])"

definition MongoConnectionProvider :: register_provider where [provider_defs]:
  "MongoConnectionProvider = RegisterProvider ''MongoConnection'' SINGLETON (\<lambda>_. [])"

definition OptSenderProvider :: register_provider where [provider_defs]:
  "OptSenderProvider = RegisterProvider ''OptSender'' SINGLETON (\<lambda>_. [])"

section \<open>Helpers, mappers and the client of the object store\<close>

definition HelpersProvider :: register_provider where [provider_defs]:
  "HelpersProvider = RegisterProvider ''Helpers'' SINGLETON (\<lambda>_. [])"

definition BaseMapperProvider :: register_provider where [provider_defs]:
  "BaseMapperProvider = RegisterProvider ''BaseMapper'' SINGLETON (\<lambda>_. [])"

definition UserMapperProvider :: register_provider where [provider_defs]:
  "UserMapperProvider = RegisterProvider ''UserMapper'' SINGLETON (\<lambda>_. [])"

definition ConversationMapperProvider :: register_provider where [provider_defs]:
  "ConversationMapperProvider = RegisterProvider ''ConversationMapper'' SINGLETON (\<lambda>_. [])"

definition MessageMapperProvider :: register_provider where [provider_defs]:
  "MessageMapperProvider = RegisterProvider ''MessageMapper'' SINGLETON (\<lambda>_. [])"

definition StorageDriverClientProvider :: register_provider where [provider_defs]:
  "StorageDriverClientProvider = RegisterProvider ''StorageDriverClient'' SINGLETON (\<lambda>_. [''Config'', ''Helpers''])"

section \<open>Repositories\<close>

definition ClusterNodeRepositoryProvider :: register_provider where [provider_defs]:
  "ClusterNodeRepositoryProvider = RegisterProvider ''ClusterNodeRepository'' SINGLETON (\<lambda>_. [''MongoConnection'', ''BaseMapper''])"

definition UserRepoProvider :: register_provider where [provider_defs]:
  "UserRepoProvider = RegisterProvider ''UserRepository'' SINGLETON (\<lambda>_. [''MongoConnection'', ''UserMapper''])"

definition UserTokenRepoProvider :: register_provider where [provider_defs]:
  "UserTokenRepoProvider = RegisterProvider ''UserTokenRepository'' SINGLETON (\<lambda>_. [''MongoConnection'', ''BaseMapper''])"

definition BlockedUserRepoProvider :: register_provider where [provider_defs]:
  "BlockedUserRepoProvider = RegisterProvider ''BlockedUserRepository'' SINGLETON (\<lambda>_. [''MongoConnection'', ''BaseMapper''])"

definition FileRepoProvider :: register_provider where [provider_defs]:
  "FileRepoProvider = RegisterProvider ''FileRepository'' SINGLETON (\<lambda>_. [''MongoConnection'', ''BaseMapper''])"

definition ConversationRepoProvider :: register_provider where [provider_defs]:
  "ConversationRepoProvider = RegisterProvider ''ConversationRepository'' SINGLETON (\<lambda>_. [''MongoConnection'', ''ConversationMapper''])"

definition ConversationHandlerRepoProvider :: register_provider where [provider_defs]:
  "ConversationHandlerRepoProvider = RegisterProvider ''ConversationHandlerRepository'' SINGLETON (\<lambda>_. [''MongoConnection'', ''BaseMapper''])"

definition ConversationParticipantRepoProvider :: register_provider where [provider_defs]:
  "ConversationParticipantRepoProvider = RegisterProvider ''ConversationParticipantRepository'' SINGLETON (\<lambda>_. [''MongoConnection'', ''BaseMapper''])"

definition EncryptionRepoProvider :: register_provider where [provider_defs]:
  "EncryptionRepoProvider = RegisterProvider ''EncryptionRepository'' SINGLETON (\<lambda>_. [''MongoConnection'', ''BaseMapper''])"

definition EncryptedMessageStatusRepoProvider :: register_provider where [provider_defs]:
  "EncryptedMessageStatusRepoProvider = RegisterProvider ''EncryptedMessageStatusRepository'' SINGLETON (\<lambda>_. [''MongoConnection'', ''BaseMapper''])"

definition MessageRepoProvider :: register_provider where [provider_defs]:
  "MessageRepoProvider = RegisterProvider ''MessageRepository'' SINGLETON (\<lambda>_. [''MongoConnection'', ''MessageMapper''])"

definition MessageStatusRepoProvider :: register_provider where [provider_defs]:
  "MessageStatusRepoProvider = RegisterProvider ''MessageStatusRepository'' SINGLETON (\<lambda>_. [''MongoConnection'', ''BaseMapper''])"

definition MessageReactionRepoProvider :: register_provider where [provider_defs]:
  "MessageReactionRepoProvider = RegisterProvider ''MessageReactionRepository'' SINGLETON (\<lambda>_. [''MongoConnection'', ''BaseMapper''])"

definition ContactRepositoryProvider :: register_provider where [provider_defs]:
  "ContactRepositoryProvider = RegisterProvider ''ContactRepository'' SINGLETON (\<lambda>_. [''MongoConnection'', ''BaseMapper''])"

definition OperationLogRepoProvider :: register_provider where [provider_defs]:
  "OperationLogRepoProvider = RegisterProvider ''OperationLogRepository'' SINGLETON (\<lambda>_. [''MongoConnection'', ''BaseMapper''])"

definition OperationsLogRepositoryProvider :: register_provider where [provider_defs]:
  "OperationsLogRepositoryProvider = RegisterProvider ''OperationsLogRepository'' SINGLETON (\<lambda>_. [''MongoConnection'', ''BaseMapper''])"

definition PushEventRepositoryProvider :: register_provider where [provider_defs]:
  "PushEventRepositoryProvider = RegisterProvider ''PushEventRepository'' SINGLETON (\<lambda>_. [''MongoConnection'', ''BaseMapper''])"

definition PushSubscriptionRepositoryProvider :: register_provider where [provider_defs]:
  "PushSubscriptionRepositoryProvider = RegisterProvider ''PushSubscriptionsRepository'' SINGLETON (\<lambda>_. [''MongoConnection'', ''BaseMapper''])"

definition OrganizationRepositoryProvider :: register_provider where [provider_defs]:
  "OrganizationRepositoryProvider = RegisterProvider ''OrganizationRepository'' SINGLETON (\<lambda>_. [''MongoConnection'', ''BaseMapper''])"

section \<open>Services\<close>

definition ClusterNodeServiceProvider :: register_provider where [provider_defs]:
  "ClusterNodeServiceProvider = RegisterProvider ''ClusterNodeService'' SINGLETON (\<lambda>_. [''Config'', ''RedisClient''])"

definition SessionServiceProvider :: register_provider where [provider_defs]:
  "SessionServiceProvider = RegisterProvider ''SessionService'' SINGLETON (\<lambda>_. [''Config'', ''Logger'', ''RedisClient''])"

definition StatsServiceProvider :: register_provider where [provider_defs]:
  "StatsServiceProvider = RegisterProvider ''StatsService'' SINGLETON (\<lambda>_. [''Config'', ''SessionService'', ''MongoConnection'', ''RedisClient''])"

definition UserServiceProvider :: register_provider where [provider_defs]:
  "UserServiceProvider = RegisterProvider ''UserService'' SINGLETON (\<lambda>_. [''UserRepository'', ''StorageService''])"

definition BlockListServiceProvider :: register_provider where [provider_defs]:
  "BlockListServiceProvider = RegisterProvider ''BlockListService'' SINGLETON (\<lambda>_. [''Helpers'', ''BlockedUserRepository''])"

definition StorageServiceProvider :: register_provider where [provider_defs]:
  "StorageServiceProvider = RegisterProvider ''StorageService'' SINGLETON (\<lambda>_. [''RedisClient'', ''StorageDriverClient'', ''FileRepository''])"

definition OperationsLogServiceProvider :: register_provider where [provider_defs]:
  "OperationsLogServiceProvider = RegisterProvider ''OperationLogsService'' SINGLETON (\<lambda>_. [''OperationsLogRepository''])"

definition ActivityManagerStandaloneServiceProvider :: register_provider where [provider_defs]:
  "ActivityManagerStandaloneServiceProvider = RegisterProvider ''ActivityManagerStandaloneService'' SINGLETON (\<lambda>_. [''UserService''])"

definition ActivityManagerClusterServiceProvider :: register_provider where [provider_defs]:
  "ActivityManagerClusterServiceProvider = RegisterProvider ''ActivityManagerClusterService'' SINGLETON (\<lambda>_. [''RedisClient'', ''UserService''])"

text \<open>The manager of the activities is one of the other two, depending on the configuration.\<close>

definition ActivityManagerServiceProvider :: register_provider where [provider_defs]:
  "ActivityManagerServiceProvider = (RegisterProvider ''ActivityManagerService'' SINGLETON
     (\<lambda>alone. [''Config'', if alone then ''ActivityManagerStandaloneService'' else ''ActivityManagerClusterService'']))\<lparr>pv_forwards := True\<rparr>"

definition ConversationServiceProvider :: register_provider where [provider_defs]:
  "ConversationServiceProvider = RegisterProvider ''ConversationService'' SINGLETON (\<lambda>_. [''Config'', ''Helpers'', ''StorageService'', ''ConversationRepository'', ''ConversationParticipantRepository''])"

definition ConversationHandlerServiceProvider :: register_provider where [provider_defs]:
  "ConversationHandlerServiceProvider = RegisterProvider ''ConversationHandlerService'' SINGLETON (\<lambda>_. [''Logger'', ''ConversationHandlerRepository''])"

definition MessageServiceProvider :: register_provider where [provider_defs]:
  "MessageServiceProvider = RegisterProvider ''MessageService'' SINGLETON (\<lambda>_. [''Config'', ''Helpers'', ''UserRepository'', ''MessageRepository'', ''MessageStatusRepository'', ''MessageReactionRepository'', ''EncryptionRepository'', ''EncryptedMessageStatusRepository''])"

definition ConversationNotificationProvider :: register_provider where [provider_defs]:
  "ConversationNotificationProvider = RegisterProvider ''ConversationNotificationService'' SINGLETON (\<lambda>_. [''Config'', ''Helpers'', ''MessageService''])"

definition EncryptionServiceProvider :: register_provider where [provider_defs]:
  "EncryptionServiceProvider = RegisterProvider ''EncryptionService'' SINGLETON (\<lambda>_. [''EncryptionRepository''])"

definition EncryptedMessageStatusServiceProvider :: register_provider where [provider_defs]:
  "EncryptedMessageStatusServiceProvider = RegisterProvider ''EncryptedMessageStatusService'' SINGLETON (\<lambda>_. [''EncryptionRepository'', ''EncryptedMessageStatusRepository''])"

definition ContactServiceProvider :: register_provider where [provider_defs]:
  "ContactServiceProvider = RegisterProvider ''ContactService'' SINGLETON (\<lambda>_. [''ContactRepository'', ''UserRepository''])"

definition PushNotificationServiceProvider :: register_provider where [provider_defs]:
  "PushNotificationServiceProvider = RegisterProvider ''PushNotificationService'' SINGLETON (\<lambda>_. [''PushEventRepository'', ''PushSubscriptionsRepository'', ''PushQueueService''])"

definition PushQueueServiceProvider :: register_provider where [provider_defs]:
  "PushQueueServiceProvider = RegisterProvider ''PushQueueService'' SINGLETON (\<lambda>_. [''Config'', ''PushEventRepository'', ''PushSubscriptionsRepository''])"

definition OrganizationServiceProvider :: register_provider where [provider_defs]:
  "OrganizationServiceProvider = RegisterProvider ''OrganizationService'' SINGLETON (\<lambda>_. [''OrganizationRepository''])"

section \<open>Operations\<close>

definition UserAuthOperationProvider :: register_provider where [provider_defs]:
  "UserAuthOperationProvider = RegisterProvider ''UserAuthOperation'' TRANSIENT (\<lambda>_. [''Config'', ''SessionService'', ''UserService'', ''UserTokenRepository'', ''OrganizationService''])"

definition UserLogoutOperationProvider :: register_provider where [provider_defs]:
  "UserLogoutOperationProvider = RegisterProvider ''UserLogoutOperation'' TRANSIENT (\<lambda>_. [''SessionService'', ''UserTokenRepository'', ''EncryptionRepository''])"

definition UserCreateOperationProvider :: register_provider where [provider_defs]:
  "UserCreateOperationProvider = RegisterProvider ''UserCreateOperation'' TRANSIENT (\<lambda>_. [''OrganizationService'', ''UserService'', ''ContactService''])"

definition UserEditOperationProvider :: register_provider where [provider_defs]:
  "UserEditOperationProvider = RegisterProvider ''UserEditOperation'' TRANSIENT (\<lambda>_. [''SessionService'', ''UserService'', ''ContactService''])"

definition UserDeleteOperationProvider :: register_provider where [provider_defs]:
  "UserDeleteOperationProvider = RegisterProvider ''UserDeleteOperation'' TRANSIENT (\<lambda>_. [''SessionService'', ''UserService'', ''ActivityManagerService'', ''BlockListService'', ''ContactService''])"

definition UserSearchOperationProvider :: register_provider where [provider_defs]:
  "UserSearchOperationProvider = RegisterProvider ''UserSearchOperation'' TRANSIENT (\<lambda>_. [''Config'', ''SessionService'', ''UserService''])"

definition UserListOperationProvider :: register_provider where [provider_defs]:
  "UserListOperationProvider = RegisterProvider ''UserListOperation'' TRANSIENT (\<lambda>_. [''SessionService'', ''UserService''])"

definition UserConnectSocketOperationProvider :: register_provider where [provider_defs]:
  "UserConnectSocketOperationProvider = RegisterProvider ''UserConnectSocketOperation'' TRANSIENT (\<lambda>_. [''Config'', ''SessionService'', ''UserService'', ''UserTokenRepository''])"

definition UserSendOTPOperationRegisterProvider :: register_provider where [provider_defs]:
  "UserSendOTPOperationRegisterProvider = RegisterProvider ''UserSendOTPOperation'' SINGLETON (\<lambda>_. [''UserService'', ''UserTokenRepository'', ''OptSender''])"

definition UserResetPasswordOperationRegisterProvider :: register_provider where [provider_defs]:
  "UserResetPasswordOperationRegisterProvider = RegisterProvider ''UserResetPasswordOperation'' SINGLETON (\<lambda>_. [''UserService'', ''UserTokenRepository''])"

definition BlockListBlockOperationProvider :: register_provider where [provider_defs]:
  "BlockListBlockOperationProvider = RegisterProvider ''BlockListBlockOperation'' TRANSIENT (\<lambda>_. [''SessionService'', ''UserService'', ''BlockListService''])"

definition BlockListUnblockOperationProvider :: register_provider where [provider_defs]:
  "BlockListUnblockOperationProvider = RegisterProvider ''BlockListUnblockOperation'' TRANSIENT (\<lambda>_. [''SessionService'', ''BlockListService''])"

definition BlockListEnableOperationProvider :: register_provider where [provider_defs]:
  "BlockListEnableOperationProvider = RegisterProvider ''BlockListEnableOperation'' TRANSIENT (\<lambda>_. [''SessionService'', ''BlockListService''])"

definition BlockListRetrieveOperationProvider :: register_provider where [provider_defs]:
  "BlockListRetrieveOperationProvider = RegisterProvider ''BlockListRetrieveOperation'' TRANSIENT (\<lambda>_. [''SessionService'', ''BlockListService''])"

definition FileCreateOperationProvider :: register_provider where [provider_defs]:
  "FileCreateOperationProvider = RegisterProvider ''FileCreateOperation'' TRANSIENT (\<lambda>_. [''SessionService'', ''StorageService''])"

definition FileDownloadOperationProvider :: register_provider where [provider_defs]:
  "FileDownloadOperationProvider = RegisterProvider ''FileDownloadOperation'' TRANSIENT (\<lambda>_. [''SessionService'', ''StorageService''])"

definition ActivityUserRetrieveOperationProvider :: register_provider where [provider_defs]:
  "ActivityUserRetrieveOperationProvider = RegisterProvider ''ActivityUserRetrieveOperation'' TRANSIENT (\<lambda>_. [''SessionService'', ''UserService''])"

definition ActivityUserSubscribeOperationProvider :: register_provider where [provider_defs]:
  "ActivityUserSubscribeOperationProvider = RegisterProvider ''ActivityUserSubscribeOperation'' TRANSIENT (\<lambda>_. [''Helpers'', ''SessionService'', ''ActivityManagerService'', ''UserService''])"

definition ActivityUserUnsubscribeOperationProvider :: register_provider where [provider_defs]:
  "ActivityUserUnsubscribeOperationProvider = RegisterProvider ''ActivityUserUnsubscribeOperation'' TRANSIENT (\<lambda>_. [''SessionService'', ''ActivityManagerService''])"

definition ActivityMarkActiveInactiveOperationProvider :: register_provider where [provider_defs]:
  "ActivityMarkActiveInactiveOperationProvider = RegisterProvider ''ActivityMarkActiveInactiveOperation'' TRANSIENT (\<lambda>_. [''SessionService''])"

definition OnlineListOperationProvider :: register_provider where [provider_defs]:
  "OnlineListOperationProvider = RegisterProvider ''OnlineListOperation'' TRANSIENT (\<lambda>_. [''SessionService'', ''UserService''])"

definition ConversationCreateOperationProvider :: register_provider where [provider_defs]:
  "ConversationCreateOperationProvider = RegisterProvider ''ConversationCreateOperation'' TRANSIENT (\<lambda>_. [''Helpers'', ''SessionService'', ''UserService'', ''ConversationService'', ''ConversationNotificationService''])"

definition ConversationEditOperationProvider :: register_provider where [provider_defs]:
  "ConversationEditOperationProvider = RegisterProvider ''ConversationEditOperation'' TRANSIENT (\<lambda>_. [''Helpers'', ''SessionService'', ''UserService'', ''ConversationService'', ''MessageService'', ''ConversationNotificationService''])"

definition ConversationListOperationProvider :: register_provider where [provider_defs]:
  "ConversationListOperationProvider = RegisterProvider ''ConversationListOperation'' TRANSIENT (\<lambda>_. [''Config'', ''SessionService'', ''UserService'', ''ConversationService'', ''MessageService''])"

definition ConversationListParticipantsOperationProvider :: register_provider where [provider_defs]:
  "ConversationListParticipantsOperationProvider = RegisterProvider ''ConversationListParticipantsOperation'' TRANSIENT (\<lambda>_. [''SessionService'', ''UserService'', ''ConversationService''])"

definition ConversationListAdminsOperationProvider :: register_provider where [provider_defs]:
  "ConversationListAdminsOperationProvider = RegisterProvider ''ConversationListAdminsOperation'' TRANSIENT (\<lambda>_. [''SessionService'', ''UserService'', ''ConversationService''])"

definition ConversationDeleteOperationProvider :: register_provider where [provider_defs]:
  "ConversationDeleteOperationProvider = RegisterProvider ''ConversationDeleteOperation'' TRANSIENT (\<lambda>_. [''Helpers'', ''SessionService'', ''UserService'', ''ConversationService'', ''ConversationNotificationService''])"

definition ConversationSearchOperationProvider :: register_provider where [provider_defs]:
  "ConversationSearchOperationProvider = RegisterProvider ''ConversationSearchOperation'' TRANSIENT (\<lambda>_. [''Config'', ''SessionService'', ''ConversationService''])"

definition ConversationSubscribeUnsubscribeOperationProvider :: register_provider where [provider_defs]:
  "ConversationSubscribeUnsubscribeOperationProvider = RegisterProvider ''ConversationSubscribeUnsubscribeOperation'' TRANSIENT (\<lambda>_. [''Helpers'', ''SessionService'', ''UserService'', ''ConversationService''])"

definition ConversationHandlerCreateOperationProvider :: register_provider where [provider_defs]:
  "ConversationHandlerCreateOperationProvider = RegisterProvider ''ConversationHandlerCreateOperation'' TRANSIENT (\<lambda>_. [''SessionService'', ''ConversationService'', ''ConversationHandlerService''])"

definition ConversationHandlerGetOperationProvider :: register_provider where [provider_defs]:
  "ConversationHandlerGetOperationProvider = RegisterProvider ''ConversationHandlerGetOperation'' TRANSIENT (\<lambda>_. [''SessionService'', ''ConversationService'', ''ConversationHandlerService''])"

definition ConversationHandlerDeleteOperationProvider :: register_provider where [provider_defs]:
  "ConversationHandlerDeleteOperationProvider = RegisterProvider ''ConversationHandlerDeleteOperation'' TRANSIENT (\<lambda>_. [''SessionService'', ''ConversationService'', ''ConversationHandlerService''])"

definition MessageCreateOperationProvider :: register_provider where [provider_defs]:
  "MessageCreateOperationProvider = RegisterProvider ''MessageCreateOperation'' TRANSIENT (\<lambda>_. [''Config'', ''SessionService'', ''StorageDriverClient'', ''BlockListService'', ''UserService'', ''ConversationService'', ''ConversationHandlerService'', ''ConversationNotificationService'', ''MessageService''])"

definition MessageEditOperationProvider :: register_provider where [provider_defs]:
  "MessageEditOperationProvider = RegisterProvider ''MessageEditOperation'' TRANSIENT (\<lambda>_. [''SessionService'', ''MessageService'', ''ConversationService''])"

definition MessageReadOperationProvider :: register_provider where [provider_defs]:
  "MessageReadOperationProvider = RegisterProvider ''MessageReadOperation'' TRANSIENT (\<lambda>_. [''Config'', ''SessionService'', ''UserService'', ''MessageService'', ''ConversationService''])"

definition MessageDecryptionFailedOperationProvider :: register_provider where [provider_defs]:
  "MessageDecryptionFailedOperationProvider = RegisterProvider ''MessageDecryptionFailedOperation'' SINGLETON (\<lambda>_. [''SessionService'', ''UserService'', ''MessageService'', ''ConversationService''])"

definition MessageDeleteOperationProvider :: register_provider where [provider_defs]:
  "MessageDeleteOperationProvider = RegisterProvider ''MessageDeleteOperation'' TRANSIENT (\<lambda>_. [''SessionService'', ''ConversationService'', ''MessageService''])"

definition MessageListOperationProvider :: register_provider where [provider_defs]:
  "MessageListOperationProvider = RegisterProvider ''MessageListOperation'' TRANSIENT (\<lambda>_. [''Config'', ''Helpers'', ''SessionService'', ''UserService'', ''MessageService'', ''ConversationService''])"

definition MessageReactionsUpdateOperationProvider :: register_provider where [provider_defs]:
  "MessageReactionsUpdateOperationProvider = RegisterProvider ''MessageReactionsUpdateOperation'' TRANSIENT (\<lambda>_. [''Config'', ''SessionService'', ''MessageService'', ''ConversationService''])"

definition MessageReactionsListOperationProvider :: register_provider where [provider_defs]:
  "MessageReactionsListOperationProvider = RegisterProvider ''MessageReactionsListOperation'' TRANSIENT (\<lambda>_. [''SessionService'', ''MessageService''])"

definition MessageSendSystemOperationProvider :: register_provider where [provider_defs]:
  "MessageSendSystemOperationProvider = RegisterProvider ''MessageSendSystemOperation'' TRANSIENT (\<lambda>_. [''Helpers'', ''SessionService'', ''UserService'', ''ConversationService'', ''MessageService''])"

definition MessageSummaryOperationProvider :: register_provider where [provider_defs]:
  "MessageSummaryOperationProvider = RegisterProvider ''MessageSummaryOperation'' SINGLETON (\<lambda>_. [''Config'', ''Logger'', ''Helpers'', ''SessionService'', ''UserService'', ''MessageService'', ''ConversationService''])"

definition MessageToneOperationProvider :: register_provider where [provider_defs]:
  "MessageToneOperationProvider = RegisterProvider ''MessageToneOperation'' SINGLETON (\<lambda>_. [''Config'', ''Logger'', ''MessageService''])"

definition OpLogsListOperationProvider :: register_provider where [provider_defs]:
  "OpLogsListOperationProvider = RegisterProvider ''OpLogsListOperation'' TRANSIENT (\<lambda>_. [''SessionService'', ''OperationLogsService''])"

definition StatusTypingOperationProvider :: register_provider where [provider_defs]:
  "StatusTypingOperationProvider = RegisterProvider ''StatusTypingOperation'' TRANSIENT (\<lambda>_. [''Config'', ''SessionService'', ''BlockListService'', ''ConversationService''])"

definition EncryptionRegisterOperationProvider :: register_provider where [provider_defs]:
  "EncryptionRegisterOperationProvider = RegisterProvider ''EncryptionRegisterOperation'' SINGLETON (\<lambda>_. [''EncryptionService'', ''SessionService''])"

definition EncryptionListOperationProvider :: register_provider where [provider_defs]:
  "EncryptionListOperationProvider = RegisterProvider ''EncryptionListOperation'' SINGLETON (\<lambda>_. [''EncryptionService'', ''SessionService''])"

definition EncryptionRequestKeysOperationProvider :: register_provider where [provider_defs]:
  "EncryptionRequestKeysOperationProvider = RegisterProvider ''EncryptionRequestKeysOperation'' SINGLETON (\<lambda>_. [''SessionService'', ''UserRepository'', ''EncryptionService''])"

definition EncryptionDeleteOperationProvider :: register_provider where [provider_defs]:
  "EncryptionDeleteOperationProvider = RegisterProvider ''EncryptionDeleteOperation'' SINGLETON (\<lambda>_. [''EncryptionService'', ''SessionService'', ''Helpers''])"

definition ContactCreateOperationProvider :: register_provider where [provider_defs]:
  "ContactCreateOperationProvider = RegisterProvider ''ContactAddOperation'' TRANSIENT (\<lambda>_. [''SessionService'', ''ContactService''])"

definition ContactEditOperationProvider :: register_provider where [provider_defs]:
  "ContactEditOperationProvider = RegisterProvider ''ContactEditOperation'' TRANSIENT (\<lambda>_. [''SessionService'', ''ContactService''])"

definition ContactListOperationProvider :: register_provider where [provider_defs]:
  "ContactListOperationProvider = RegisterProvider ''ContactListOperation'' TRANSIENT (\<lambda>_. [''SessionService'', ''ContactService''])"

definition ContactDeleteOperationProvider :: register_provider where [provider_defs]:
  "ContactDeleteOperationProvider = RegisterProvider ''ContactDeleteOperation'' TRANSIENT (\<lambda>_. [''SessionService'', ''ContactService''])"

definition PushEventCreateOperationProvider :: register_provider where [provider_defs]:
  "PushEventCreateOperationProvider = RegisterProvider ''PushEventCreateOperation'' TRANSIENT (\<lambda>_. [''SessionService'', ''UserService'', ''PushNotificationService''])"

definition PushSubscriptionCreateOperationProvider :: register_provider where [provider_defs]:
  "PushSubscriptionCreateOperationProvider = RegisterProvider ''PushSubscriptionCreateOperation'' TRANSIENT (\<lambda>_. [''SessionService'', ''PushNotificationService''])"

definition PushSubscriptionDeleteOperationProvider :: register_provider where [provider_defs]:
  "PushSubscriptionDeleteOperationProvider = RegisterProvider ''PushSubscriptionDeleteOperation'' TRANSIENT (\<lambda>_. [''SessionService'', ''PushNotificationService''])"

definition PushSubscriptionListOperationProvider :: register_provider where [provider_defs]:
  "PushSubscriptionListOperationProvider = RegisterProvider ''PushSubscriptionListOperation'' TRANSIENT (\<lambda>_. [''SessionService'', ''PushNotificationService''])"

section \<open>Operations of the HTTP API\<close>

definition HttpStatsCollectOperationRegisterProvider :: register_provider where [provider_defs]:
  "HttpStatsCollectOperationRegisterProvider = RegisterProvider ''HttpStatsCollectOperation'' TRANSIENT (\<lambda>_. [''StatsService''])"

definition HttpUserAuthOperationProvider :: register_provider where [provider_defs]:
  "HttpUserAuthOperationProvider = RegisterProvider ''HttpUserAuthOperation'' TRANSIENT (\<lambda>_. [''Config'', ''Helpers'', ''UserAuthOperation''])"

definition HttpUserLogoutOperationProvider :: register_provider where [provider_defs]:
  "HttpUserLogoutOperationProvider = RegisterProvider ''HttpUserLogoutOperation'' TRANSIENT (\<lambda>_. [''Helpers'', ''SessionService'', ''UserTokenRepository'', ''UserLogoutOperation''])"

definition HttpMessageCreateOperationProvider :: register_provider where [provider_defs]:
  "HttpMessageCreateOperationProvider = RegisterProvider ''HttpMessageCreateOperation'' TRANSIENT (\<lambda>_. [''SessionService'', ''MessageCreateOperation''])"

definition HttpMessageSystemOperationProvider :: register_provider where [provider_defs]:
  "HttpMessageSystemOperationProvider = RegisterProvider ''HttpMessageSendSystemOperation'' TRANSIENT (\<lambda>_. [''SessionService'', ''MessageSendSystemOperation''])"

definition HttpMessageReadOperationProvider :: register_provider where [provider_defs]:
  "HttpMessageReadOperationProvider = RegisterProvider ''HttpMessageReadOperation'' TRANSIENT (\<lambda>_. [''SessionService'', ''MessageReadOperation''])"

definition HttpMessageEditOperationProvider :: register_provider where [provider_defs]:
  "HttpMessageEditOperationProvider = RegisterProvider ''HttpMessageEditOperation'' TRANSIENT (\<lambda>_. [''SessionService'', ''MessageEditOperation''])"

definition HttpMessageReactionOperationProvider :: register_provider where [provider_defs]:
  "HttpMessageReactionOperationProvider = RegisterProvider ''HttpMessageReactionOperation'' TRANSIENT (\<lambda>_. [''SessionService'', ''MessageReactionsUpdateOperation''])"

definition HttpMessageDeleteOperationProvider :: register_provider where [provider_defs]:
  "HttpMessageDeleteOperationProvider = RegisterProvider ''HttpMessageDeleteOperation'' TRANSIENT (\<lambda>_. [''SessionService'', ''MessageDeleteOperation''])"

definition HttpActivityOnlineListOperationProvider :: register_provider where [provider_defs]:
  "HttpActivityOnlineListOperationProvider = RegisterProvider ''HttpActivityOnlineListOperation'' TRANSIENT (\<lambda>_. [''SessionService'', ''OnlineListOperation''])"

definition HttpOrganizationCreateOperation :: register_provider where [provider_defs]:
  "HttpOrganizationCreateOperation = RegisterProvider ''HttpOrganizationCreateOperation'' TRANSIENT (\<lambda>_. [''OrganizationService''])"

section \<open>The start-up\<close>

definition baseProviders :: "register_provider list" where
  "baseProviders = [ConfigProvider, LoggerProvider, RedisClientProvider, MongoConnectionProvider, OptSenderProvider]"

definition providers :: "register_provider list" where
  "providers = [
     HelpersProvider, BaseMapperProvider, UserMapperProvider, ConversationMapperProvider, MessageMapperProvider, StorageDriverClientProvider,
     ClusterNodeRepositoryProvider, UserRepoProvider, UserTokenRepoProvider, BlockedUserRepoProvider, FileRepoProvider, ConversationRepoProvider,
     ConversationHandlerRepoProvider, ConversationParticipantRepoProvider, EncryptionRepoProvider, EncryptedMessageStatusRepoProvider,
     MessageRepoProvider, MessageStatusRepoProvider, MessageReactionRepoProvider, ContactRepositoryProvider, OperationLogRepoProvider,
     OperationsLogRepositoryProvider, PushEventRepositoryProvider, PushSubscriptionRepositoryProvider, OrganizationRepositoryProvider,
     ClusterNodeServiceProvider, SessionServiceProvider, StatsServiceProvider, UserServiceProvider, BlockListServiceProvider, StorageServiceProvider,
     OperationsLogServiceProvider, ActivityManagerStandaloneServiceProvider, ActivityManagerClusterServiceProvider, ActivityManagerServiceProvider,
     ConversationServiceProvider, ConversationHandlerServiceProvider, MessageServiceProvider, ConversationNotificationProvider,
     EncryptionServiceProvider, EncryptedMessageStatusServiceProvider, ContactServiceProvider, PushNotificationServiceProvider,
     PushQueueServiceProvider, OrganizationServiceProvider, UserAuthOperationProvider, UserLogoutOperationProvider, UserCreateOperationProvider,
     UserEditOperationProvider, UserDeleteOperationProvider, UserSearchOperationProvider, UserListOperationProvider,
     UserConnectSocketOperationProvider, UserSendOTPOperationRegisterProvider, UserResetPasswordOperationRegisterProvider,
     BlockListBlockOperationProvider, BlockListUnblockOperationProvider, BlockListEnableOperationProvider, BlockListRetrieveOperationProvider,
     FileCreateOperationProvider, FileDownloadOperationProvider, ActivityUserRetrieveOperationProvider, ActivityUserSubscribeOperationProvider,
     ActivityUserUnsubscribeOperationProvider, ActivityMarkActiveInactiveOperationProvider, OnlineListOperationProvider,
     ConversationCreateOperationProvider, ConversationEditOperationProvider, ConversationListOperationProvider,
     ConversationListParticipantsOperationProvider, ConversationListAdminsOperationProvider, ConversationDeleteOperationProvider,
     ConversationSearchOperationProvider, ConversationSubscribeUnsubscribeOperationProvider, ConversationHandlerCreateOperationProvider,
     ConversationHandlerGetOperationProvider, ConversationHandlerDeleteOperationProvider, MessageCreateOperationProvider,
     MessageEditOperationProvider, MessageReadOperationProvider, MessageDecryptionFailedOperationProvider, MessageDeleteOperationProvider,
     MessageListOperationProvider, MessageReactionsUpdateOperationProvider, MessageReactionsListOperationProvider,
     MessageSendSystemOperationProvider, MessageSummaryOperationProvider, MessageToneOperationProvider, OpLogsListOperationProvider,
     StatusTypingOperationProvider, EncryptionRegisterOperationProvider, EncryptionListOperationProvider, EncryptionRequestKeysOperationProvider,
     EncryptionDeleteOperationProvider, ContactCreateOperationProvider, ContactEditOperationProvider, ContactListOperationProvider,
     ContactDeleteOperationProvider, PushEventCreateOperationProvider, PushSubscriptionCreateOperationProvider,
     PushSubscriptionDeleteOperationProvider, PushSubscriptionListOperationProvider, HttpStatsCollectOperationRegisterProvider,
     HttpUserAuthOperationProvider, HttpUserLogoutOperationProvider, HttpMessageCreateOperationProvider, HttpMessageSystemOperationProvider,
     HttpMessageReadOperationProvider, HttpMessageEditOperationProvider, HttpMessageReactionOperationProvider, HttpMessageDeleteOperationProvider,
     HttpActivityOnlineListOperationProvider, HttpOrganizationCreateOperation]"

text \<open>The providers of the other API are registered after those of the server; the JSON API has none.\<close>

definition startUp :: "nat \<Rightarrow> bool \<Rightarrow> register_provider list \<Rightarrow> unit located" where
  "startUp depth alone apiProviders =
     andThen (modify (fold registerService (baseProviders @ providers @ apiProviders))) (\<lambda>_.
     andThen (boot None) (\<lambda>_. createAllSingletonInstances depth alone))"

section \<open>There is no cycle\<close>

text \<open>
  Another order of the providers, in which each comes after those it uses, with the providers that its names stand for; and the order of their names.
\<close>

definition allProviders :: "register_provider list" where
  "allProviders = baseProviders @ providers"

lemmas listed = allProviders_def baseProviders_def providers_def

definition buildOrder :: "bool \<Rightarrow> (register_provider \<times> register_provider list) list" where
  "buildOrder alone = [
     (ConfigProvider, []),
     (LoggerProvider, []),
     (RedisClientProvider, []),
     (MongoConnectionProvider, []),
     (OptSenderProvider, []),
     (HelpersProvider, []),
     (BaseMapperProvider, []),
     (UserMapperProvider, []),
     (ConversationMapperProvider, []),
     (MessageMapperProvider, []),
     (StorageDriverClientProvider, [ConfigProvider, HelpersProvider]),
     (ClusterNodeRepositoryProvider, [MongoConnectionProvider, BaseMapperProvider]),
     (UserRepoProvider, [MongoConnectionProvider, UserMapperProvider]),
     (UserTokenRepoProvider, [MongoConnectionProvider, BaseMapperProvider]),
     (BlockedUserRepoProvider, [MongoConnectionProvider, BaseMapperProvider]),
     (FileRepoProvider, [MongoConnectionProvider, BaseMapperProvider]),
     (ConversationRepoProvider, [MongoConnectionProvider, ConversationMapperProvider]),
     (ConversationHandlerRepoProvider, [MongoConnectionProvider, BaseMapperProvider]),
     (ConversationParticipantRepoProvider, [MongoConnectionProvider, BaseMapperProvider]),
     (EncryptionRepoProvider, [MongoConnectionProvider, BaseMapperProvider]),
     (EncryptedMessageStatusRepoProvider, [MongoConnectionProvider, BaseMapperProvider]),
     (MessageRepoProvider, [MongoConnectionProvider, MessageMapperProvider]),
     (MessageStatusRepoProvider, [MongoConnectionProvider, BaseMapperProvider]),
     (MessageReactionRepoProvider, [MongoConnectionProvider, BaseMapperProvider]),
     (ContactRepositoryProvider, [MongoConnectionProvider, BaseMapperProvider]),
     (OperationLogRepoProvider, [MongoConnectionProvider, BaseMapperProvider]),
     (OperationsLogRepositoryProvider, [MongoConnectionProvider, BaseMapperProvider]),
     (PushEventRepositoryProvider, [MongoConnectionProvider, BaseMapperProvider]),
     (PushSubscriptionRepositoryProvider, [MongoConnectionProvider, BaseMapperProvider]),
     (OrganizationRepositoryProvider, [MongoConnectionProvider, BaseMapperProvider]),
     (ClusterNodeServiceProvider, [ConfigProvider, RedisClientProvider]),
     (SessionServiceProvider, [ConfigProvider, LoggerProvider, RedisClientProvider]),
     (StatsServiceProvider, [ConfigProvider, SessionServiceProvider, MongoConnectionProvider, RedisClientProvider]),
     (BlockListServiceProvider, [HelpersProvider, BlockedUserRepoProvider]),
     (StorageServiceProvider, [RedisClientProvider, StorageDriverClientProvider, FileRepoProvider]),
     (OperationsLogServiceProvider, [OperationsLogRepositoryProvider]),
     (ConversationHandlerServiceProvider, [LoggerProvider, ConversationHandlerRepoProvider]),
     (MessageServiceProvider, [ConfigProvider, HelpersProvider, UserRepoProvider, MessageRepoProvider, MessageStatusRepoProvider, MessageReactionRepoProvider, EncryptionRepoProvider, EncryptedMessageStatusRepoProvider]),
     (EncryptionServiceProvider, [EncryptionRepoProvider]),
     (EncryptedMessageStatusServiceProvider, [EncryptionRepoProvider, EncryptedMessageStatusRepoProvider]),
     (ContactServiceProvider, [ContactRepositoryProvider, UserRepoProvider]),
     (PushQueueServiceProvider, [ConfigProvider, PushEventRepositoryProvider, PushSubscriptionRepositoryProvider]),
     (OrganizationServiceProvider, [OrganizationRepositoryProvider]),
     (UserLogoutOperationProvider, [SessionServiceProvider, UserTokenRepoProvider, EncryptionRepoProvider]),
     (ActivityMarkActiveInactiveOperationProvider, [SessionServiceProvider]),
     (UserServiceProvider, [UserRepoProvider, StorageServiceProvider]),
     (ConversationServiceProvider, [ConfigProvider, HelpersProvider, StorageServiceProvider, ConversationRepoProvider, ConversationParticipantRepoProvider]),
     (ConversationNotificationProvider, [ConfigProvider, HelpersProvider, MessageServiceProvider]),
     (PushNotificationServiceProvider, [PushEventRepositoryProvider, PushSubscriptionRepositoryProvider, PushQueueServiceProvider]),
     (BlockListUnblockOperationProvider, [SessionServiceProvider, BlockListServiceProvider]),
     (BlockListEnableOperationProvider, [SessionServiceProvider, BlockListServiceProvider]),
     (BlockListRetrieveOperationProvider, [SessionServiceProvider, BlockListServiceProvider]),
     (FileCreateOperationProvider, [SessionServiceProvider, StorageServiceProvider]),
     (FileDownloadOperationProvider, [SessionServiceProvider, StorageServiceProvider]),
     (MessageReactionsListOperationProvider, [SessionServiceProvider, MessageServiceProvider]),
     (MessageToneOperationProvider, [ConfigProvider, LoggerProvider, MessageServiceProvider]),
     (OpLogsListOperationProvider, [SessionServiceProvider, OperationsLogServiceProvider]),
     (EncryptionRegisterOperationProvider, [EncryptionServiceProvider, SessionServiceProvider]),
     (EncryptionListOperationProvider, [EncryptionServiceProvider, SessionServiceProvider]),
     (EncryptionRequestKeysOperationProvider, [SessionServiceProvider, UserRepoProvider, EncryptionServiceProvider]),
     (EncryptionDeleteOperationProvider, [EncryptionServiceProvider, SessionServiceProvider, HelpersProvider]),
     (ContactCreateOperationProvider, [SessionServiceProvider, ContactServiceProvider]),
     (ContactEditOperationProvider, [SessionServiceProvider, ContactServiceProvider]),
     (ContactListOperationProvider, [SessionServiceProvider, ContactServiceProvider]),
     (ContactDeleteOperationProvider, [SessionServiceProvider, ContactServiceProvider]),
     (HttpStatsCollectOperationRegisterProvider, [StatsServiceProvider]),
     (HttpUserLogoutOperationProvider, [HelpersProvider, SessionServiceProvider, UserTokenRepoProvider, UserLogoutOperationProvider]),
     (HttpOrganizationCreateOperation, [OrganizationServiceProvider]),
     (ActivityManagerStandaloneServiceProvider, [UserServiceProvider]),
     (ActivityManagerClusterServiceProvider, [RedisClientProvider, UserServiceProvider]),
     (UserAuthOperationProvider, [ConfigProvider, SessionServiceProvider, UserServiceProvider, UserTokenRepoProvider, OrganizationServiceProvider]),
     (UserCreateOperationProvider, [OrganizationServiceProvider, UserServiceProvider, ContactServiceProvider]),
     (UserEditOperationProvider, [SessionServiceProvider, UserServiceProvider, ContactServiceProvider]),
     (UserSearchOperationProvider, [ConfigProvider, SessionServiceProvider, UserServiceProvider]),
     (UserListOperationProvider, [SessionServiceProvider, UserServiceProvider]),
     (UserConnectSocketOperationProvider, [ConfigProvider, SessionServiceProvider, UserServiceProvider, UserTokenRepoProvider]),
     (UserSendOTPOperationRegisterProvider, [UserServiceProvider, UserTokenRepoProvider, OptSenderProvider]),
     (UserResetPasswordOperationRegisterProvider, [UserServiceProvider, UserTokenRepoProvider]),
     (BlockListBlockOperationProvider, [SessionServiceProvider, UserServiceProvider, BlockListServiceProvider]),
     (ActivityUserRetrieveOperationProvider, [SessionServiceProvider, UserServiceProvider]),
     (OnlineListOperationProvider, [SessionServiceProvider, UserServiceProvider]),
     (ConversationCreateOperationProvider, [HelpersProvider, SessionServiceProvider, UserServiceProvider, ConversationServiceProvider, ConversationNotificationProvider]),
     (ConversationEditOperationProvider, [HelpersProvider, SessionServiceProvider, UserServiceProvider, ConversationServiceProvider, MessageServiceProvider, ConversationNotificationProvider]),
     (ConversationListOperationProvider, [ConfigProvider, SessionServiceProvider, UserServiceProvider, ConversationServiceProvider, MessageServiceProvider]),
     (ConversationListParticipantsOperationProvider, [SessionServiceProvider, UserServiceProvider, ConversationServiceProvider]),
     (ConversationListAdminsOperationProvider, [SessionServiceProvider, UserServiceProvider, ConversationServiceProvider]),
     (ConversationDeleteOperationProvider, [HelpersProvider, SessionServiceProvider, UserServiceProvider, ConversationServiceProvider, ConversationNotificationProvider]),
     (ConversationSearchOperationProvider, [ConfigProvider, SessionServiceProvider, ConversationServiceProvider]),
     (ConversationSubscribeUnsubscribeOperationProvider, [HelpersProvider, SessionServiceProvider, UserServiceProvider, ConversationServiceProvider]),
     (ConversationHandlerCreateOperationProvider, [SessionServiceProvider, ConversationServiceProvider, ConversationHandlerServiceProvider]),
     (ConversationHandlerGetOperationProvider, [SessionServiceProvider, ConversationServiceProvider, ConversationHandlerServiceProvider]),
     (ConversationHandlerDeleteOperationProvider, [SessionServiceProvider, ConversationServiceProvider, ConversationHandlerServiceProvider]),
     (MessageCreateOperationProvider, [ConfigProvider, SessionServiceProvider, StorageDriverClientProvider, BlockListServiceProvider, UserServiceProvider, ConversationServiceProvider, ConversationHandlerServiceProvider, ConversationNotificationProvider, MessageServiceProvider]),
     (MessageEditOperationProvider, [SessionServiceProvider, MessageServiceProvider, ConversationServiceProvider]),
     (MessageReadOperationProvider, [ConfigProvider, SessionServiceProvider, UserServiceProvider, MessageServiceProvider, ConversationServiceProvider]),
     (MessageDecryptionFailedOperationProvider, [SessionServiceProvider, UserServiceProvider, MessageServiceProvider, ConversationServiceProvider]),
     (MessageDeleteOperationProvider, [SessionServiceProvider, ConversationServiceProvider, MessageServiceProvider]),
     (MessageListOperationProvider, [ConfigProvider, HelpersProvider, SessionServiceProvider, UserServiceProvider, MessageServiceProvider, ConversationServiceProvider]),
     (MessageReactionsUpdateOperationProvider, [ConfigProvider, SessionServiceProvider, MessageServiceProvider, ConversationServiceProvider]),
     (MessageSendSystemOperationProvider, [HelpersProvider, SessionServiceProvider, UserServiceProvider, ConversationServiceProvider, MessageServiceProvider]),
     (MessageSummaryOperationProvider, [ConfigProvider, LoggerProvider, HelpersProvider, SessionServiceProvider, UserServiceProvider, MessageServiceProvider, ConversationServiceProvider]),
     (StatusTypingOperationProvider, [ConfigProvider, SessionServiceProvider, BlockListServiceProvider, ConversationServiceProvider]),
     (PushEventCreateOperationProvider, [SessionServiceProvider, UserServiceProvider, PushNotificationServiceProvider]),
     (PushSubscriptionCreateOperationProvider, [SessionServiceProvider, PushNotificationServiceProvider]),
     (PushSubscriptionDeleteOperationProvider, [SessionServiceProvider, PushNotificationServiceProvider]),
     (PushSubscriptionListOperationProvider, [SessionServiceProvider, PushNotificationServiceProvider]),
     (ActivityManagerServiceProvider, [ConfigProvider, if alone then ActivityManagerStandaloneServiceProvider else ActivityManagerClusterServiceProvider]),
     (HttpUserAuthOperationProvider, [ConfigProvider, HelpersProvider, UserAuthOperationProvider]),
     (HttpMessageCreateOperationProvider, [SessionServiceProvider, MessageCreateOperationProvider]),
     (HttpMessageSystemOperationProvider, [SessionServiceProvider, MessageSendSystemOperationProvider]),
     (HttpMessageReadOperationProvider, [SessionServiceProvider, MessageReadOperationProvider]),
     (HttpMessageEditOperationProvider, [SessionServiceProvider, MessageEditOperationProvider]),
     (HttpMessageReactionOperationProvider, [SessionServiceProvider, MessageReactionsUpdateOperationProvider]),
     (HttpMessageDeleteOperationProvider, [SessionServiceProvider, MessageDeleteOperationProvider]),
     (HttpActivityOnlineListOperationProvider, [SessionServiceProvider, OnlineListOperationProvider]),
     (UserDeleteOperationProvider, [SessionServiceProvider, UserServiceProvider, ActivityManagerServiceProvider, BlockListServiceProvider, ContactServiceProvider]),
     (ActivityUserSubscribeOperationProvider, [HelpersProvider, SessionServiceProvider, ActivityManagerServiceProvider, UserServiceProvider]),
     (ActivityUserUnsubscribeOperationProvider, [SessionServiceProvider, ActivityManagerServiceProvider])]"

definition byName :: "register_provider list" where
  "byName = [
     ActivityManagerClusterServiceProvider, ActivityManagerServiceProvider, ActivityManagerStandaloneServiceProvider,
     ActivityMarkActiveInactiveOperationProvider, ActivityUserRetrieveOperationProvider, ActivityUserSubscribeOperationProvider,
     ActivityUserUnsubscribeOperationProvider, BaseMapperProvider, BlockListBlockOperationProvider, BlockListEnableOperationProvider,
     BlockListRetrieveOperationProvider, BlockListServiceProvider, BlockListUnblockOperationProvider, BlockedUserRepoProvider,
     ClusterNodeRepositoryProvider, ClusterNodeServiceProvider, ConfigProvider, ContactCreateOperationProvider, ContactDeleteOperationProvider,
     ContactEditOperationProvider, ContactListOperationProvider, ContactRepositoryProvider, ContactServiceProvider,
     ConversationCreateOperationProvider, ConversationDeleteOperationProvider, ConversationEditOperationProvider,
     ConversationHandlerCreateOperationProvider, ConversationHandlerDeleteOperationProvider, ConversationHandlerGetOperationProvider,
     ConversationHandlerRepoProvider, ConversationHandlerServiceProvider, ConversationListAdminsOperationProvider, ConversationListOperationProvider,
     ConversationListParticipantsOperationProvider, ConversationMapperProvider, ConversationNotificationProvider,
     ConversationParticipantRepoProvider, ConversationRepoProvider, ConversationSearchOperationProvider, ConversationServiceProvider,
     ConversationSubscribeUnsubscribeOperationProvider, EncryptedMessageStatusRepoProvider, EncryptedMessageStatusServiceProvider,
     EncryptionDeleteOperationProvider, EncryptionListOperationProvider, EncryptionRegisterOperationProvider, EncryptionRepoProvider,
     EncryptionRequestKeysOperationProvider, EncryptionServiceProvider, FileCreateOperationProvider, FileDownloadOperationProvider, FileRepoProvider,
     HelpersProvider, HttpActivityOnlineListOperationProvider, HttpMessageCreateOperationProvider, HttpMessageDeleteOperationProvider,
     HttpMessageEditOperationProvider, HttpMessageReactionOperationProvider, HttpMessageReadOperationProvider, HttpMessageSystemOperationProvider,
     HttpOrganizationCreateOperation, HttpStatsCollectOperationRegisterProvider, HttpUserAuthOperationProvider, HttpUserLogoutOperationProvider,
     LoggerProvider, MessageCreateOperationProvider, MessageDecryptionFailedOperationProvider, MessageDeleteOperationProvider,
     MessageEditOperationProvider, MessageListOperationProvider, MessageMapperProvider, MessageReactionRepoProvider,
     MessageReactionsListOperationProvider, MessageReactionsUpdateOperationProvider, MessageReadOperationProvider, MessageRepoProvider,
     MessageSendSystemOperationProvider, MessageServiceProvider, MessageStatusRepoProvider, MessageSummaryOperationProvider,
     MessageToneOperationProvider, MongoConnectionProvider, OnlineListOperationProvider, OpLogsListOperationProvider, OperationLogRepoProvider,
     OperationsLogServiceProvider, OperationsLogRepositoryProvider, OptSenderProvider, OrganizationRepositoryProvider, OrganizationServiceProvider,
     PushEventCreateOperationProvider, PushEventRepositoryProvider, PushNotificationServiceProvider, PushQueueServiceProvider,
     PushSubscriptionCreateOperationProvider, PushSubscriptionDeleteOperationProvider, PushSubscriptionListOperationProvider,
     PushSubscriptionRepositoryProvider, RedisClientProvider, SessionServiceProvider, StatsServiceProvider, StatusTypingOperationProvider,
     StorageDriverClientProvider, StorageServiceProvider, UserAuthOperationProvider, UserConnectSocketOperationProvider, UserCreateOperationProvider,
     UserDeleteOperationProvider, UserEditOperationProvider, UserListOperationProvider, UserLogoutOperationProvider, UserMapperProvider,
     UserRepoProvider, UserResetPasswordOperationRegisterProvider, UserSearchOperationProvider, UserSendOTPOperationRegisterProvider,
     UserServiceProvider, UserTokenRepoProvider]"

fun layered :: "register_provider list \<Rightarrow> (register_provider \<times> register_provider list) list \<Rightarrow> bool" where
  "layered known [] = True"
| "layered known ((p, ds) # r) = (list_all (\<lambda>d. d \<in> set known) ds \<and> layered (p # known) r)"

lemma build_order_layered: "layered [] (buildOrder alone)"
  by (cases alone) (simp_all add: buildOrder_def)

lemma build_order_uses: "list_all (\<lambda>(p, ds). map pv_name ds = pv_uses p alone) (buildOrder alone)"
  by (simp add: buildOrder_def provider_defs RegisterProvider_def)

lemma build_order_all: "list_all (\<lambda>p. p \<in> set (map fst (buildOrder alone))) allProviders"
  by (simp add: buildOrder_def listed)

lemma by_name_all: "list_all (\<lambda>p. p \<in> set allProviders) byName"
  by (simp add: byName_def listed)

lemma lengths: "length allProviders = 118" "length byName = 118" "length (buildOrder alone) = 118"
  by (simp_all add: byName_def listed buildOrder_def)

lemma names_ascend: "successively (<) (map pv_name byName)"
  by (simp add: byName_def provider_defs RegisterProvider_def)

end
