(* ===== verification/Start_Up.thy ===== *)
theory Start_Up
  imports Providers
begin

text \<open>
  The start-up of the server succeeds on stand-alone nodes and in a cluster, builds every singleton once, and after it every operation that the controllers look up can
  be built: no dependency is missing, and there is no cycle. The order of building of \<open>Providers\<close> makes the providers a \<open>provider_graph\<close>.
\<close>

section \<open>The names are distinct\<close>

lemma by_name_distinct: "distinct (map pv_name byName)"
proof -
  have "sorted_wrt (<) (map pv_name byName)"
    using names_ascend by (simp add: successively_conv_sorted_wrt)
  then show ?thesis using strict_sorted_iff by blast
qed

lemma all_sets: "set byName = set allProviders" "set (map fst (buildOrder alone)) = set allProviders" "distinct (map pv_name allProviders)"
proof -
  have d: "distinct byName" using by_name_distinct by (simp add: distinct_map)
  have sub: "set byName \<subseteq> set allProviders" using by_name_all by (auto simp: list_all_iff)
  have card: "card (set byName) = 118" using distinct_card[OF d] lengths(2) by simp
  have le: "card (set allProviders) \<le> 118" using card_length[of allProviders] lengths(1) by simp
  show eq: "set byName = set allProviders" using card_subset_eq[OF _ sub] card_mono[OF _ sub] card le by simp
  have "distinct allProviders" using card_distinct[of allProviders] eq card lengths(1) by simp
  moreover have "inj_on pv_name (set allProviders)" using by_name_distinct eq by (simp add: distinct_map)
  ultimately show "distinct (map pv_name allProviders)" by (simp add: distinct_map)
  have up: "set allProviders \<subseteq> set (map fst (buildOrder alone))" using build_order_all[of alone] by (auto simp: list_all_iff)
  have "card (set (map fst (buildOrder alone))) \<le> 118" using card_length[of "map fst (buildOrder alone)"] lengths(3)[of alone] by simp
  then show "set (map fst (buildOrder alone)) = set allProviders"
    using card_subset_eq[OF _ up] card_mono[OF _ up] card eq by simp
qed

section \<open>The order of building\<close>

lemma layered_before:
  assumes "layered known tbl" "i < length tbl" "tbl ! i = (p, ds)" "d \<in> set ds"
  shows "d \<in> set known \<or> (\<exists>j < i. fst (tbl ! j) = d)"
  using assms
proof (induction known tbl arbitrary: i rule: layered.induct)
  case (2 known q es r)
  show ?case
  proof (cases i)
    case 0
    with 2 show ?thesis by (auto simp: list_all_iff)
  next
    case (Suc k)
    with 2 have "d \<in> set (q # known) \<or> (\<exists>j < k. fst (r ! j) = d)" by simp
    then show ?thesis
    proof
      assume "d \<in> set (q # known)"
      then show ?thesis using Suc by auto
    next
      assume "\<exists>j < k. fst (r ! j) = d"
      then show ?thesis using Suc by auto
    qed
  qed
qed simp

text \<open>A service is ranked by its place in the order of building.\<close>

definition rank :: "bool \<Rightarrow> string \<Rightarrow> nat" where
  "rank alone n = length (takeWhile (\<lambda>p. pv_name p \<noteq> n) (map fst (buildOrder alone)))"

lemma rank_le:
  assumes "j < length (buildOrder alone)" "pv_name (fst (buildOrder alone ! j)) = n"
  shows "rank alone n \<le> j"
proof (rule ccontr)
  let ?xs = "map fst (buildOrder alone)"
  assume "\<not> rank alone n \<le> j"
  then have "j < length (takeWhile (\<lambda>p. pv_name p \<noteq> n) ?xs)" by (simp add: rank_def)
  then have "takeWhile (\<lambda>p. pv_name p \<noteq> n) ?xs ! j \<in> set (takeWhile (\<lambda>p. pv_name p \<noteq> n) ?xs)" "takeWhile (\<lambda>p. pv_name p \<noteq> n) ?xs ! j = ?xs ! j"
    by (auto intro: nth_mem takeWhile_nth)
  then show False using assms by (auto dest: set_takeWhileD)
qed

lemma used_earlier:
  assumes "p \<in> set allProviders" "d \<in> set (pv_uses p alone)"
  shows "d \<in> pv_name ` set allProviders" "rank alone d < rank alone (pv_name p)"
proof -
  let ?t = "buildOrder alone" and ?i = "rank alone (pv_name p)"
  let ?xs = "map fst ?t"
  have "p \<in> set ?xs" using assms(1) all_sets(2) by blast
  then have "?i < length ?xs" using length_takeWhile_le[of "\<lambda>q. pv_name q \<noteq> pv_name p" ?xs]
    unfolding rank_def by (metis (mono_tags, lifting) le_neq_implies_less takeWhile_eq_all_conv takeWhile_eq_take take_all_iff length_takeWhile_le take_eq_Nil2 order_refl)
  then have i: "?i < length ?t" and at: "pv_name (fst (?t ! ?i)) = pv_name p"
    using nth_length_takeWhile[of "\<lambda>q. pv_name q \<noteq> pv_name p" ?xs] by (auto simp: rank_def)
  then have "fst (?t ! ?i) \<in> set allProviders" using all_sets(2)[of alone] by (metis length_map nth_map nth_mem)
  with at assms(1) all_sets(3) have "fst (?t ! ?i) = p" by (auto simp: distinct_map inj_on_def)
  then obtain ds where ds: "?t ! ?i = (p, ds)" by (cases "?t ! ?i") simp
  have "map pv_name ds = pv_uses p alone" using build_order_uses[of alone] nth_mem[OF i] ds by (auto simp: list_all_iff)
  then obtain q where q: "q \<in> set ds" "pv_name q = d" using assms(2) by (metis (no_types, lifting) imageE list.set_map)
  from layered_before[OF build_order_layered i ds q(1)] obtain j where j: "j < ?i" "fst (?t ! j) = q" by auto
  then show "rank alone d < ?i" using rank_le[of j alone d] i q(2) by simp
  have "q \<in> set allProviders" using j i all_sets(2)[of alone] by (metis length_map less_trans nth_map nth_mem)
  with q(2) show "d \<in> pv_name ` set allProviders" by blast
qed

section \<open>The start-up\<close>

text \<open>The store after all providers were registered and booted.\<close>

definition bootedStore :: "(string \<times> register_provider) list" where
  "bootedStore = map (\<lambda>p. (pv_name p, p\<lparr>pv_booted := True\<rparr>)) allProviders"

lemma registered: "distinct (map fst (providersStore s) @ map pv_name ps) \<Longrightarrow>
    fold registerService ps s = s\<lparr>providersStore := providersStore s @ map (\<lambda>p. (pv_name p, p)) ps\<rparr>"
proof (induction ps arbitrary: s)
  case (Cons p ps)
  then have "pv_name p \<notin> fst ` set (providersStore s)" by auto
  then have "registerService p s = s\<lparr>providersStore := providersStore s @ [(pv_name p, p)]\<rparr>" by (simp add: registerService_def map_set_def)
  with Cons show ?case by auto
qed simp

interpretation server: provider_graph bootedStore alone "rank alone" for alone
proof
  show "distinct (map fst bootedStore)" using all_sets(3) by (simp add: bootedStore_def comp_def)
  show "pv_name p = n" if "(n, p) \<in> set bootedStore" for n p using that by (auto simp: bootedStore_def)
  show "d \<in> fst ` set bootedStore \<and> rank alone d < rank alone n" if "(n, p) \<in> set bootedStore" "d \<in> set (pv_uses p alone)" for n p d
    using that used_earlier[of _ d alone] by (force simp: bootedStore_def image_image)
  have "list_all (\<lambda>p. pv_forwards p \<longrightarrow> pv_uses p alone \<noteq> []) allProviders"
    by (simp add: listed provider_defs RegisterProvider_def)
  then show "pv_uses p alone \<noteq> []" if "(n, p) \<in> set bootedStore" "pv_forwards p" for n p
    using that by (auto simp: bootedStore_def list_all_iff)
qed

lemma startUp_store: "startUp depth alone [] emptyLocator = createAllSingletonInstances depth alone (emptyLocator\<lparr>providersStore := bootedStore\<rparr>)"
proof -
  have "fold registerService (baseProviders @ providers @ []) emptyLocator = emptyLocator\<lparr>providersStore := map (\<lambda>p. (pv_name p, p)) allProviders\<rparr>"
    using registered[of emptyLocator allProviders] all_sets(3) by (simp add: emptyLocator_def allProviders_def)
  then show ?thesis by (simp add: startUp_def boot_def bootedStore_def emptyLocator_def comp_def andThen_assoc cong: map_cong)
qed

text \<open>C27: The start-up of the server ends, on a stand-alone node and in a cluster, with a stack that has room for as many calls as there are providers: every singleton is built,
  by constructing one object, and after that every registered service, the operations of the controllers among them, can be looked up, which gives
  the same object and changes nothing for a singleton. So no provider asks for a name that is not registered, and there is no cycle of dependencies.\<close>

theorem startup_builds:
  assumes "118 \<le> depth"
  shows "\<exists>s. startUp depth alone [] emptyLocator = (Inr (), s) \<and> (\<forall>p \<in> set (baseProviders @ providers). \<exists>i s'.
      useService depth alone (pv_name p) s = (Inr i, s')
      \<and> (pv_scope p = SINGLETON \<longrightarrow> s' = s \<and> providersInstances s (pv_name p) = Some i \<and> (\<not> pv_forwards p \<longrightarrow> length (builds (pv_name p) s) = 1)))"
proof -
  let ?s0 = "emptyLocator\<lparr>providersStore := bootedStore\<rparr>"
  have deep: "rank alone n < depth" if n: "n \<in> fst ` set bootedStore" for n
  proof -
    obtain p where p: "p \<in> set allProviders" "pv_name p = n" using n by (auto simp: bootedStore_def)
    then obtain j where "j < length (buildOrder alone)" "fst (buildOrder alone ! j) = p" using all_sets(2)[of alone] by (metis in_set_conv_nth length_map nth_map)
    with p(2) rank_le[of j alone n] lengths(3)[of alone] assms show ?thesis by simp
  qed
  have "server.ok ?s0" by (simp add: server.ok_def builds_def emptyLocator_def)
  from server.all_built[where depth = depth and alone = alone, OF _ this] deep obtain s where
    s: "startUp depth alone [] emptyLocator = (Inr (), s)" "server.ok s"
      "\<And>n p. map_of bootedStore n = Some p \<Longrightarrow> pv_scope p = SINGLETON \<Longrightarrow> providersInstances s n \<noteq> None"
    unfolding startUp_store by blast
  have "\<exists>i s'. useService depth alone (pv_name p) s = (Inr i, s')
      \<and> (pv_scope p = SINGLETON \<longrightarrow> s' = s \<and> providersInstances s (pv_name p) = Some i \<and> (\<not> pv_forwards p \<longrightarrow> length (builds (pv_name p) s) = 1))"
    if p: "p \<in> set allProviders" for p
  proof -
    have m: "map_of bootedStore (pv_name p) = Some (p\<lparr>pv_booted := True\<rparr>)"
      using map_of_is_SomeI[OF server.distinct_names] p by (auto simp: bootedStore_def)
    then have r: "rank alone (pv_name p) < depth" using deep by (metis map_of_eq_None_iff option.discI)
    obtain i s' where i: "useService depth alone (pv_name p) s = (Inr i, s')" using server.builds_service[OF m r s(2)] unfolding useService_def by blast
    show ?thesis
    proof (cases "pv_scope p = SINGLETON")
      case True
      then obtain k where k: "providersInstances s (pv_name p) = Some k" using s(3)[OF m] by auto
      have "useService depth alone (pv_name p) s = (Inr k, s)"
        unfolding useService_def using server.shared[OF m _ s(2) k] True r by simp
      moreover have "length (builds (pv_name p) s) = 1" if "\<not> pv_forwards p"
        using s(2) m True that k by (simp add: server.ok_def once_def)
      ultimately show ?thesis using k by blast
    qed (use i in blast)
  qed
  with s(1) show ?thesis unfolding allProviders_def by blast
qed

theorem startup_builds_witness:
  "\<exists>s. startUp 118 True [] emptyLocator = (Inr (), s) \<and> length (builds ''SessionService'' s) = 1
     \<and> (\<exists>i s'. useService 118 True ''MessageCreateOperation'' s = (Inr i, s'))"
proof -
  let ?a = SessionServiceProvider and ?b = MessageCreateOperationProvider
  have named: "pv_name ?a = ''SessionService''" "pv_scope ?a = SINGLETON" "\<not> pv_forwards ?a" "pv_name ?b = ''MessageCreateOperation''"
    by (simp_all add: SessionServiceProvider_def MessageCreateOperationProvider_def RegisterProvider_def)
  have listed: "?a \<in> set (baseProviders @ providers)" "?b \<in> set (baseProviders @ providers)"
    by (simp_all add: baseProviders_def providers_def)
  obtain s where s: "startUp 118 True [] emptyLocator = (Inr (), s)" and all: "\<forall>p \<in> set (baseProviders @ providers). \<exists>i s'.
      useService 118 True (pv_name p) s = (Inr i, s')
      \<and> (pv_scope p = SINGLETON \<longrightarrow> s' = s \<and> providersInstances s (pv_name p) = Some i \<and> (\<not> pv_forwards p \<longrightarrow> length (builds (pv_name p) s) = 1))"
    using startup_builds[of 118 True] by auto
  have "length (builds ''SessionService'' s) = 1" using bspec[OF all listed(1)] unfolding named(1) using named(2,3) by blast
  moreover have "\<exists>i s'. useService 118 True ''MessageCreateOperation'' s = (Inr i, s')" using bspec[OF all listed(2)] unfolding named(4) by blast
  ultimately show ?thesis using s by blast
qed

end
