(* ===== verification/Account_Props.thy ===== *)
theory Account_Props
  imports User_Admin User_Props
begin

text \<open>
  Accounts: who can register and log in afterwards, what a profile change may touch, what is left of a deleted account, and how the
  marks in the contact books follow.
\<close>

section \<open>The loop over the contacts\<close>

definition rewritten ::
  "(contact_value list \<Rightarrow> contact_value list option) \<Rightarrow> (contact_value list \<Rightarrow> contact_value list option) \<Rightarrow> contact \<Rightarrow> contact" where
  "rewritten onEmail onPhone c = (case (ct_email c, ct_phone c) of
      (Some es, Some ps) \<Rightarrow> c\<lparr>ct_email := orKeep (onEmail es) (Some es), ct_phone := orKeep (onPhone ps) (Some ps)\<rparr>
    | _ \<Rightarrow> c)"

lemma rewritten_id [simp]: "ct_id (rewritten f g c) = ct_id c"
  by (simp add: rewritten_def split: option.split)

lemma update_first_own:
  assumes "distinct (map ct_id cs)" "c \<in> set cs"
  shows "update_first (\<lambda>x. ct_id x = ct_id c \<and> ct_user_id x = ct_user_id c) f cs = map (\<lambda>x. if x = c then f x else x) cs"
  using assms
proof (induction cs)
  case (Cons x cs)
  show ?case
  proof (cases "x = c")
    case True
    with Cons.prems(1) have "c \<notin> set cs" by auto
    with True show ?thesis by (auto intro: map_idI[symmetric])
  next
    case False
    with Cons.prems have "ct_id x \<noteq> ct_id c" by (auto simp: image_iff)
    with False Cons show ?thesis by simp
  qed
qed simp

lemma rewrite_one:
  assumes "mongo_ok E" "distinct (map ct_id (contacts w))" "c \<in> set (contacts w)"
  shows "(case (ct_email c, ct_phone c) of
        (Some es, Some ps) \<Rightarrow> andThen (findByIdAndUpdate E (ct_user_id c) (ct_id c)
            \<lparr>cd_first_name = None, cd_last_name = None, cd_company = None, cd_email = f es, cd_phone = g ps\<rparr>) (\<lambda>_. ret ())
      | _ \<Rightarrow> ret ()) w = (Inr (), w\<lparr>contacts := map (\<lambda>x. if x = c then rewritten f g x else x) (contacts w)\<rparr>)"
proof (cases "\<exists>es ps. ct_email c = Some es \<and> ct_phone c = Some ps")
  case True
  then obtain es ps where ep: "ct_email c = Some es" "ct_phone c = Some ps" by blast
  have "setContact \<lparr>cd_first_name = None, cd_last_name = None, cd_company = None, cd_email = f es, cd_phone = g ps\<rparr> c = rewritten f g c"
    using ep by (simp add: setContact_def rewritten_def orKeep_def)
  with assms(1) update_first_own[OF assms(2,3)] ep show ?thesis
    by (simp add: findByIdAndUpdate_def setContact_def cong: if_cong)
next
  case False
  then have "rewritten f g c = c" by (auto simp: rewritten_def split: option.split)
  then have "map (\<lambda>x. if x = c then rewritten f g x else x) (contacts w) = contacts w" by (auto intro: map_idI)
  with False show ?thesis by (auto split: option.split)
qed

lemma rewriteContacts_run:
  assumes "mongo_ok E"
  shows "distinct (map ct_id (contacts w)) \<Longrightarrow> set cs \<subseteq> set (contacts w) \<Longrightarrow> distinct (map ct_id cs) \<Longrightarrow>
    rewriteContacts E f g cs w = (Inr (), w\<lparr>contacts := map (\<lambda>c. if c \<in> set cs then rewritten f g c else c) (contacts w)\<rparr>)"
proof (induction cs arbitrary: w)
  case Nil
  then show ?case by (simp add: rewriteContacts_def)
next
  case (Cons c cs)
  let ?step = "\<lambda>x. if x = c then rewritten f g x else x"
  let ?w1 = "w\<lparr>contacts := map ?step (contacts w)\<rparr>"
  have "ct_id \<circ> ?step = ct_id" by (rule ext) simp
  with Cons.prems(1) have ids: "distinct (map ct_id (contacts ?w1))" by simp
  have new: "x \<noteq> c \<and> x \<noteq> rewritten f g c" if "x \<in> set cs" for x
    using Cons.prems(3) that by (auto simp: image_iff)
  have sub: "set cs \<subseteq> set (map ?step (contacts w))"
  proof
    fix x assume x: "x \<in> set cs"
    with Cons.prems(2) new[OF x] have "x \<in> set (contacts w)" "?step x = x" by auto
    then show "x \<in> set (map ?step (contacts w))" using image_eqI[of x ?step x] by simp
  qed
  have "rewriteContacts E f g cs ?w1 = (Inr (), ?w1\<lparr>contacts := map (\<lambda>c. if c \<in> set cs then rewritten f g c else c) (contacts ?w1)\<rparr>)"
    using Cons.IH[OF ids] Cons.prems(3) sub by simp
  moreover have "map (\<lambda>c. if c \<in> set cs then rewritten f g c else c) (contacts ?w1)
      = map (\<lambda>x. if x \<in> set (c # cs) then rewritten f g x else x) (contacts w)"
    using new by auto
  moreover have "rewriteContacts E f g (c # cs) w = rewriteContacts E f g cs ?w1"
    using rewrite_one[OF assms Cons.prems(1), of c f g] Cons.prems(2)
    by (simp add: rewriteContacts_def andThen_def split: prod.split sum.split)
  ultimately show ?case by simp
qed

lemma findByEmailPhone_found:
  assumes "mongo_ok E" "truthyStr email" "truthyStr phone"
  shows "set (findByEmailPhone E w org email phone) \<subseteq> set (contacts w)"
    "distinct (map ct_id (contacts w)) \<Longrightarrow> distinct (map ct_id (findByEmailPhone E w org email phone))"
proof -
  show "set (findByEmailPhone E w org email phone) \<subseteq> set (contacts w)"
    using findAll_set[OF mongo_okD(13)[OF assms(1)]] unfolding findByEmailPhone_def by blast
  show "distinct (map ct_id (contacts w)) \<Longrightarrow> distinct (map ct_id (findByEmailPhone E w org email phone))"
    unfolding findByEmailPhone_def by (rule findAll_distinct[OF mongo_okD(13)[OF assms(1)]])
qed

text \<open>\<open>mentions org email phone c\<close>: the contact is of the organization and holds the email or the phone.\<close>

definition mentions :: "oid \<Rightarrow> string option \<Rightarrow> string option \<Rightarrow> contact \<Rightarrow> bool" where
  "mentions org email phone c \<longleftrightarrow> ct_organization_id c = org \<and> (valueMatches phone (ct_phone c) \<or> valueMatches email (ct_email c))"

lemma match_run:
  assumes "mongo_ok E" "truthyStr email" "truthyStr phone" "distinct (map ct_id (contacts w))"
    "length (filter (mentions org email phone) (contacts w)) \<le> 100"
  shows "andThen (gets (\<lambda>w. findByEmailPhone E w org email phone)) (rewriteContacts E f g) w
    = (Inr (), w\<lparr>contacts := map (\<lambda>c. if mentions org email phone c then rewritten f g c else c) (contacts w)\<rparr>)"
proof -
  let ?cs = "findByEmailPhone E w org email phone"
  have "mset ?cs = mset (filter (mentions org email phone) (contacts w))"
    using findAll_all[OF mongo_okD(13)[OF assms(1)], of "mentions org email phone" "contacts w" None] assms(2,3,5)
    unfolding findByEmailPhone_def mentions_def[abs_def] by simp
  then have "set ?cs = {c \<in> set (contacts w). mentions org email phone c}" by (metis mset_set_eq set_filter)
  then have "map (\<lambda>c. if c \<in> set ?cs then rewritten f g c else c) (contacts w)
      = map (\<lambda>c. if mentions org email phone c then rewritten f g c else c) (contacts w)" by simp
  with rewriteContacts_run[OF assms(1,4) findByEmailPhone_found(1)[OF assms(1-3)] findByEmailPhone_found(2)[OF assms(1-4)], of f g org]
  show ?thesis by simp
qed

lemma match_frame:
  assumes "mongo_ok E"
  obtains cs where "rewriteContacts E f g xs w = (Inr (), w\<lparr>contacts := cs\<rparr>)"
proof -
  have "\<exists>cs. rewriteContacts E f g xs w = (Inr (), w\<lparr>contacts := cs\<rparr>)"
  proof (induction xs arbitrary: w)
    case Nil
    show ?case unfolding rewriteContacts_def by (rule exI[of _ "contacts w"]) simp
  next
    case (Cons c xs)
    let ?m = "case (ct_email c, ct_phone c) of
        (Some es, Some ps) \<Rightarrow> andThen (findByIdAndUpdate E (ct_user_id c) (ct_id c)
            \<lparr>cd_first_name = None, cd_last_name = None, cd_company = None, cd_email = f es, cd_phone = g ps\<rparr>) (\<lambda>_. ret ())
      | _ \<Rightarrow> ret ()"
    have "\<exists>cs. ?m w = (Inr (), w\<lparr>contacts := cs\<rparr>)"
      using assms by (auto simp: findByIdAndUpdate_def split_beta split: option.split intro: exI[of _ "contacts w"])
    then obtain cs where "?m w = (Inr (), w\<lparr>contacts := cs\<rparr>)" by blast
    with Cons.IH[of "w\<lparr>contacts := cs\<rparr>"] show ?case
      by (simp add: rewriteContacts_def andThen_def split: prod.splits sum.splits)
  qed
  then show ?thesis using that by blast
qed

lemma match_account_frame:
  assumes "mongo_ok E"
  shows "\<exists>cs. matchUserWithContactOnCreate E org u phone email w = (Inr (), w\<lparr>contacts := cs\<rparr>)"
    "\<exists>cs. matchUserWithContactOnUpdate E org u phone email oldPhone oldEmail w = (Inr (), w\<lparr>contacts := cs\<rparr>)"
    "\<exists>cs. matchUserWithContactOnDelete E org u phone email w = (Inr (), w\<lparr>contacts := cs\<rparr>)"
proof -
  have r: "\<exists>cs. rewriteContacts E f g xs w = (Inr (), w\<lparr>contacts := cs\<rparr>)" for f g xs using match_frame[OF assms] by blast
  have s: "\<exists>cs. w = w\<lparr>contacts := cs\<rparr>" by (rule exI[of _ "contacts w"]) simp
  show "\<exists>cs. matchUserWithContactOnCreate E org u phone email w = (Inr (), w\<lparr>contacts := cs\<rparr>)"
    unfolding matchUserWithContactOnCreate_def using r s by simp
  show "\<exists>cs. matchUserWithContactOnUpdate E org u phone email oldPhone oldEmail w = (Inr (), w\<lparr>contacts := cs\<rparr>)"
    unfolding matchUserWithContactOnUpdate_def using r s by simp
  show "\<exists>cs. matchUserWithContactOnDelete E org u phone email w = (Inr (), w\<lparr>contacts := cs\<rparr>)"
    unfolding matchUserWithContactOnDelete_def using r s by simp
qed

section \<open>Registration\<close>

lemma updateToken_sessions: "updateToken E tk org u d v ty w = (r, w') \<Longrightarrow> SESSIONS w' = SESSIONS w"
  by (auto simp: updateToken_def createToken_def insertInto_def Let_def split: option.splits)

definition taken :: "user_params \<Rightarrow> user \<Rightarrow> bool" where
  "taken p u \<longleftrightarrow> u_organization_id u = cu_organization_id p \<and> (u_login u = cu_login p
     \<or> (truthyStr (cu_email p) \<and> u_email u = cu_email p) \<or> (truthyStr (cu_phone p) \<and> u_phone u = cu_phone p))"

definition newUser :: "env \<Rightarrow> user_params \<Rightarrow> world \<Rightarrow> oid \<Rightarrow> user" where
  "newUser E p w i = (let salt = generateSalt E (entropy w); pw = truthyStr (cu_password p) in
     \<lparr>u_id = i, u_organization_id = cu_organization_id p, u_login = cu_login p, u_email = cu_email p, u_phone = cu_phone p,
      u_first_name = None, u_last_name = None,
      u_encrypted_password = (if pw then Some (hashPassword E (the (cu_password p)) salt) else None),
      u_password_salt = (if pw then Some salt else None), u_avatar_object = None,
      u_recent_activity = roundSeconds w, u_created_at = clock w, u_updated_at = clock w\<rparr>)"

lemma newUser_fields [simp]:
  "u_id (newUser E p w i) = i" "u_organization_id (newUser E p w i) = cu_organization_id p" "u_login (newUser E p w i) = cu_login p"
  "u_email (newUser E p w i) = cu_email p" "u_phone (newUser E p w i) = cu_phone p"
  by (simp_all add: newUser_def Let_def)

lemma newUser_clash: "users_clash (newUser E p w i) u \<longleftrightarrow> taken p u"
  by (auto simp: users_clash_def taken_def truthyStr_def)

lemma insertInto_cong: "mk (clock w) = mk' (clock w) \<Longrightarrow> insertInto C get upd mk w = insertInto C get upd mk' w"
  unfolding insertInto_def create_def by (simp only:)

lemma UserService_create_stores:
  assumes "mongo_ok E" "\<forall>u \<in> set (users w). \<not> taken p u"
  obtains i us n where "UserService_create E p w = (Inr (newUser E p w i), w\<lparr>users := us, entropy := n\<rparr>)"
    "mset us = add_mset (newUser E p w i) (mset (users w))" "i \<notin> u_id ` set (users w)"
proof -
  let ?pw = "truthyStr (cu_password p)"
  define w1 where "w1 = (if ?pw then w\<lparr>entropy := Suc (entropy w)\<rparr> else w)"
  have w1: "clock w1 = clock w" "users w1 = users w" by (simp_all add: w1_def)
  let ?mk = "\<lambda>now i. newUser E p w i"
  let ?m = "if ?pw then andThen (encryptAndSetPassword E (the (cu_password p))) (\<lambda>(encryptedPassword, salt). ret (Some encryptedPassword, Some salt))
      else ret (None, None)"
  have pw: "?m w = (Inr (u_encrypted_password (newUser E p w []), u_password_salt (newUser E p w [])), w1)"
    by (simp add: encryptAndSetPassword_def newUser_def Let_def w1_def)
  have "UserService_create E p w = insertInto (mg_users E) users users_update ?mk w1"
    unfolding UserService_create_def andThen_run(1)[of ?m, OF pw]
    by (simp, rule insertInto_cong) (rule ext, simp add: newUser_def Let_def roundSeconds_def w1)
  moreover have "create (mg_users E) ?mk (clock w1) (users w) \<noteq> None"
    using coll_ok_insertOne_None[OF mongo_okD(2)[OF assms(1)], of "?mk (clock w1)" "users w"] assms(2)
    by (cases "coll_insertOne (mg_users E) (newUser E p w) (users w)") (auto simp: create_def newUser_clash)
  then obtain u us where c: "create (mg_users E) ?mk (clock w1) (users w) = Some (u, us)" by auto
  ultimately have run: "UserService_create E p w = (Inr u, w1\<lparr>users := us\<rparr>)" by (simp add: insertInto_def w1)
  have eq: "w1\<lparr>users := us\<rparr> = w\<lparr>users := us, entropy := entropy w1\<rparr>" by (simp add: w1_def)
  from create_inserts(1,3)[OF mongo_okD(2)[OF assms(1)] c] obtain i where
    "u = newUser E p w i" "i \<notin> u_id ` set (users w)" "mset us = add_mset u (mset (users w))" by blast
  with run eq that show ?thesis by simp
qed

text \<open>A new account, stored next to the others, is found by its login, and its password opens a session.\<close>

lemma new_account_found:
  assumes "mongo_ok E" "set (users w') = insert (newUser E p w i) (set (users w))" "\<forall>u \<in> set (users w). \<not> taken p u"
  shows "findByLogin E w' (cu_organization_id p) (cu_login p) = Some (newUser E p w i)"
proof -
  let ?u = "newUser E p w i"
  obtain v where v: "findByLogin E w' (cu_organization_id p) (cu_login p) = Some v"
    using find_exists[of ?u "users w'" "\<lambda>u. u_organization_id u = cu_organization_id p \<and> u_login u = cu_login p"] assms(1,2)
    by (auto simp: findByLogin_def)
  then have "v \<in> set (users w')" "u_organization_id v = cu_organization_id p" "u_login v = cu_login p"
    using assms(1) by (auto simp: findByLogin_def dest: find_Some_iff_set)
  with assms(2,3) have "v = ?u" by (auto simp: taken_def)
  with v show ?thesis by simp
qed

lemma new_account_logs_in:
  assumes "mongo_ok E" "findByLogin E w' (cu_organization_id p) (cu_login p) = Some (newUser E p w i)"
    "\<not> isUserFromBlocked E w' (cu_organization_id p)" "cu_password p = Some pw" "pw \<noteq> []"
  shows "\<exists>url tok w''. UserAuth_perform E ws \<lparr>ui_organization_id = cu_organization_id p, ui_device_id = d, ui_token = None, ui_userId = None,
       ui_login = Some (cu_login p), ui_password = Some pw\<rparr> False w' = (Inr ((newUser E p w i, url), tok), w'')
     \<and> getSessionUserId w'' ws = Some (u_id (newUser E p w i))"
proof -
  let ?u = "newUser E p w i" and ?org = "cu_organization_id p"
  let ?ui = "\<lparr>ui_organization_id = ?org, ui_device_id = d, ui_token = None, ui_userId = None, ui_login = Some (cu_login p), ui_password = Some pw\<rparr>"
  let ?t = "findTokenByUserId E w' i d (Some (Jwt (typeName AccessToken)))" and ?w2 = "connectDevice E ws ?u d w'"
  have "\<exists>salt. u_password_salt ?u = Some salt" "verifyPassword E n pw (u_encrypted_password ?u) (u_password_salt ?u)" for n
    using assms(4,5) by (simp_all add: newUser_def verifyPassword_def truthyStr_def Let_def)
  then have a: "authByUserInfo E ?org ?ui d w' = (Inr (Some ?u, ?t), w')"
    using assms(2) by (auto simp: authByUserInfo_def andThen_run)
  obtain tok w'' where t: "updateToken E ?t ?org i d (Jwt (generateToken E ?w2 ?u AccessToken)) AccessToken ?w2 = (Inr tok, w'')"
    using updateToken_succeeds[OF assms(1)] by blast
  obtain url st n where av: "addAvatarUrl E [?u] w'' = (Inr [(?u, url)], w''\<lparr>entropy := n, redis := st\<rparr>)" using addAvatarUrl_run by blast
  have "UserAuth_perform E ws ?ui False w' = (Inr ((?u, url), tok), w''\<lparr>entropy := n, redis := st\<rparr>)"
    using t assms(3) by (simp add: UserAuth_perform_def Let_def andThen_run(1)[of "authByUserInfo _ _ _ _", OF a] andThen_run(1)[of "updateToken _ _ _ _ _ _ _"]
        andThen_run(1)[of "addAvatarUrl _ _", OF av])
  moreover have "getSessionUserId (w''\<lparr>entropy := n, redis := st\<rparr>) ws = Some i"
    using connectDevice_session[of E ws ?u d w'] updateToken_sessions[OF t] by (auto simp: getSessionUserId_def getSession_def)
  ultimately show ?thesis by simp
qed

lemma findRegistered_taken:
  "mongo_ok E \<Longrightarrow> findRegistered E w (cu_organization_id p) (cu_login p) (cu_email p) (cu_phone p) = None \<longleftrightarrow> (\<forall>u \<in> set (users w). \<not> taken p u)"
  by (auto simp: findRegistered_def find_None_set taken_def)

lemma UserCreate_stores:
  assumes "mongo_ok E" "isExist E w (cu_organization_id p)" "\<not> isUserFromBlocked E w (cu_organization_id p)" "\<forall>u \<in> set (users w). \<not> taken p u"
  obtains i us n cs where "UserCreate_perform E p w = (Inr (newUser E p w i), w\<lparr>users := us, entropy := n, contacts := cs\<rparr>)"
    "mset us = add_mset (newUser E p w i) (mset (users w))" "i \<notin> u_id ` set (users w)"
proof -
  obtain i us n where c: "UserService_create E p w = (Inr (newUser E p w i), w\<lparr>users := us, entropy := n\<rparr>)"
    and us: "mset us = add_mset (newUser E p w i) (mset (users w))" and i: "i \<notin> u_id ` set (users w)"
    by (rule UserService_create_stores[OF assms(1,4)])
  let ?w1 = "w\<lparr>users := us, entropy := n\<rparr>"
  obtain cs where m: "matchUserWithContactOnCreate E (cu_organization_id p) i (cu_phone p) (cu_email p) ?w1 = (Inr (), ?w1\<lparr>contacts := cs\<rparr>)"
    using match_account_frame(1)[OF assms(1)] by blast
  have "UserCreate_perform E p w = (Inr (newUser E p w i), ?w1\<lparr>contacts := cs\<rparr>)"
    using assms(2-4) findRegistered_taken[OF assms(1)] by (simp add: UserCreate_perform_def andThen_run(1)[of "UserService_create E p", OF c]
        andThen_run(1)[of "matchUserWithContactOnCreate _ _ _ _ _", OF m])
  then show thesis using that us i by simp
qed



section \<open>Changing a profile\<close>

text \<open>Identifiers are unique, and no two accounts of an organization share a login, an email or a phone.\<close>

definition accounts_ok :: "world \<Rightarrow> bool" where
  "accounts_ok w \<longleftrightarrow> distinct (map u_id (users w)) \<and> (\<forall>a \<in> set (users w). \<forall>b \<in> set (users w). u_id a \<noteq> u_id b \<longrightarrow> \<not> users_clash a b)"

lemma users_clash_sym: "users_clash a b = users_clash b a"
  by (auto simp: users_clash_def)

lemma accounts_ok_cong: "users w' = users w \<Longrightarrow> accounts_ok w' = accounts_ok w"
  by (simp add: accounts_ok_def)

lemma accounts_ok_add:
  assumes "accounts_ok w" "mset (users w') = add_mset u (mset (users w))" "u_id u \<notin> u_id ` set (users w)"
    "\<forall>v \<in> set (users w). \<not> users_clash u v"
  shows "accounts_ok w'"
proof -
  have "set (users w') = insert u (set (users w))" using assms(2) by (metis set_mset_add_mset_insert set_mset_mset)
  moreover have "distinct (map u_id (users w'))"
    using assms mset_distinct_map[of "users w'" "u # users w" u_id] by (simp add: accounts_ok_def)
  moreover have "\<forall>v \<in> set (users w). \<not> users_clash v u" using assms(4) by (metis users_clash_sym)
  ultimately show ?thesis using assms(1,4) by (auto simp: accounts_ok_def)
qed

lemma newPassword_runs: "newPassword E user p w = (r, w') \<Longrightarrow> users w' = users w \<and> clock w' = clock w"
  by (cases r) (auto simp: newPassword_def encryptAndSetPassword_def Let_def eff_simps split: if_splits)

lemma newPassword_checked:
  assumes "newPassword E user p w = (Inr pw, w')" "truthyStr (eu_new_password p)"
  shows "truthyStr (eu_current_password p) \<and>
    verifyPassword E (entropy w) (the (eu_current_password p)) (u_encrypted_password user) (u_password_salt user) \<and>
    (\<forall>n. verifyPassword E n (the (eu_new_password p)) (map_option fst pw) (map_option snd pw))"
  using assms by (auto simp: newPassword_def encryptAndSetPassword_def verifyPassword_def Let_def eff_simps split: if_splits)

text \<open>The update of the own document, with the result the driver gives it.\<close>

lemma update_account:
  fixes E :: env and w :: world and u :: user and p :: user_update and pw :: "(string \<times> string) option" and now :: timestamp
  assumes "mongo_ok E" "accounts_ok w" "u \<in> set (users w)"
  defines "r \<equiv> findOneAndUpdate (mg_users E) (\<lambda>v. u_id v = u_id u) (setUser p pw now) (users w)"
  shows "r = (None, users w) \<or>
    (r = (Some (setUser p pw now u), map (\<lambda>v. if u_id v = u_id u then setUser p pw now v else v) (users w))
     \<and> (\<forall>v \<in> set (users w). u_id v \<noteq> u_id u \<longrightarrow> \<not> users_clash (setUser p pw now u) v))"
proof -
  have ids: "distinct (map u_id (users w))" using assms(2) by (simp add: accounts_ok_def)
  note eqs = find_unique[OF ids assms(3)] remove_first_unique[OF ids] update_first_unique[OF ids]
  have "\<not> users_clash u v" if "v \<in> set (users w)" "u_id v \<noteq> u_id u" for v
    using assms(2,3) that unfolding accounts_ok_def by metis
  then show ?thesis
    unfolding r_def findOneAndUpdate_def coll_ok_findOneAndUpdate_cases[OF mongo_okD(2)[OF assms(1)]]
    by (auto simp: eqs list_ex_iff)
qed

lemma accounts_ok_update:
  assumes "accounts_ok w" "u \<in> set (users w)" "\<And>v. u_id (f v) = u_id v"
    "\<forall>v \<in> set (users w). u_id v \<noteq> u_id u \<longrightarrow> \<not> users_clash (f u) v"
  shows "accounts_ok (w\<lparr>users := map (\<lambda>v. if u_id v = u_id u then f v else v) (users w)\<rparr>)"
proof -
  have one: "v = u" if "v \<in> set (users w)" "u_id v = u_id u" for v
    using assms(1,2) that by (auto simp: accounts_ok_def distinct_map dest: inj_onD)
  have "u_id \<circ> (\<lambda>v. if u_id v = u_id u then f v else v) = u_id" using assms(3) by auto
  with assms(1) have "distinct (map u_id (map (\<lambda>v. if u_id v = u_id u then f v else v) (users w)))" by (simp add: accounts_ok_def)
  moreover have "\<not> users_clash a b" if "a \<in> set (map (\<lambda>v. if u_id v = u_id u then f v else v) (users w))"
      "b \<in> set (map (\<lambda>v. if u_id v = u_id u then f v else v) (users w))" "u_id a \<noteq> u_id b" for a b
    using that one assms(1,3,4) by (auto simp: accounts_ok_def split: if_splits) (metis users_clash_sym)+
  ultimately show ?thesis by (simp add: accounts_ok_def)
qed

lemma setUser_id [simp]: "u_id (setUser p pw now u) = u_id u"
  by (simp add: setUser_def)

lemma UserService_update_run:
  assumes "mongo_ok E" "accounts_ok w" "u \<in> set (users w)" "newPassword E u p w = (Inr pw, w1)"
  shows "UserService_update E u p w = (Inl (Status USER_ALREADY_EXISTS), w1\<lparr>users := users w\<rparr>)
    \<or> UserService_update E u p w = (Inr (setUser p pw (clock w) u),
          w1\<lparr>users := map (\<lambda>v. if u_id v = u_id u then setUser p pw (clock w) v else v) (users w)\<rparr>)
      \<and> (\<forall>v \<in> set (users w). u_id v \<noteq> u_id u \<longrightarrow> \<not> users_clash (setUser p pw (clock w) u) v)"
proof -
  let ?r = "findOneAndUpdate (mg_users E) (\<lambda>v. u_id v = u_id u) (setUser p pw (clock w)) (users w)"
  have "UserService_update E u p w = (case fst ?r of None \<Rightarrow> (Inl (Status USER_ALREADY_EXISTS), w1\<lparr>users := snd ?r\<rparr>)
      | Some v \<Rightarrow> (Inr v, w1\<lparr>users := snd ?r\<rparr>))"
    using assms(4) newPassword_runs[OF assms(4)]
    by (simp add: UserService_update_def andThen_run(1)[of "newPassword _ _ _"] split_beta split: option.split)
  with update_account[OF assms(1-3), of p pw "clock w"] show ?thesis by (elim disjE) simp_all
qed

lemma newPassword_stored:
  assumes "newPassword E u p w = (Inr pw, w1)" "truthyStr (eu_new_password p)"
  shows "u_encrypted_password (setUser p pw t u) = map_option fst pw" "u_password_salt (setUser p pw t u) = map_option snd pw"
proof -
  have "pw \<noteq> None" using assms by (auto simp: newPassword_def eff_simps split: if_splits)
  then show "u_encrypted_password (setUser p pw t u) = map_option fst pw" "u_password_salt (setUser p pw t u) = map_option snd pw"
    by (auto simp: setUser_def orKeep_def)
qed

text \<open>The handler: refused with the accounts as they are, or the own account changed.\<close>

lemma UserEdit_run:
  assumes "mongo_ok E" "accounts_ok w" "UserEdit_perform E ws p w = (r, w')"
  obtains e where "r = Inl e" "users w' = users w"
  | u pw w1 where "getSessionUserId w ws = Some (u_id u)" "u \<in> set (users w)" "newPassword E u p w = (Inr pw, w1)"
      "r = Inr (setUser p pw (clock w) u)"
      "users w' = map (\<lambda>v. if u_id v = u_id u then setUser p pw (clock w) v else v) (users w)"
      "\<forall>v \<in> set (users w). u_id v \<noteq> u_id u \<longrightarrow> \<not> users_clash (setUser p pw (clock w) u) v"
proof (cases "case getSessionUserId w ws of None \<Rightarrow> None | Some i \<Rightarrow> User_findById E w i")
  case None
  then have "UserEdit_perform E ws p w = (Inl (Status USER_LOGIN_OR_PASS), w)" unfolding UserEdit_perform_def run_simps None by simp
  with assms(3) show thesis by (intro that(1)[of "Status USER_LOGIN_OR_PASS"]) simp_all
next
  case (Some u)
  then have u: "getSessionUserId w ws = Some (u_id u)" "u \<in> set (users w)"
    using assms(1) by (auto simp: User_findById_def dest: find_Some_iff_set split: option.splits)
  note refused = that(1)
  have fails: thesis if run: "UserService_update E u p w = (Inl e, w2)" and us: "users w2 = users w" for e w2
  proof -
    from run have "UserEdit_perform E ws p w = (Inl e, w2)" unfolding UserEdit_perform_def run_simps Some by (simp add: andThen_run)
    with assms(3) us show thesis by (intro refused[of e]) simp_all
  qed
  obtain rp w1 where np: "newPassword E u p w = (rp, w1)" by fastforce
  show thesis
  proof (cases rp)
    case (Inl e)
    with np have "UserService_update E u p w = (Inl e, w1)" by (simp add: UserService_update_def andThen_run)
    then show thesis by (rule fails) (simp add: newPassword_runs[OF np])
  next
    case (Inr pw)
    let ?u = "setUser p pw (clock w) u" and ?us = "map (\<lambda>v. if u_id v = u_id u then setUser p pw (clock w) v else v) (users w)"
    from UserService_update_run[OF assms(1,2) u(2) np[unfolded Inr]]
    consider "UserService_update E u p w = (Inl (Status USER_ALREADY_EXISTS), w1\<lparr>users := users w\<rparr>)"
      | "UserService_update E u p w = (Inr ?u, w1\<lparr>users := ?us\<rparr>)" "\<forall>v \<in> set (users w). u_id v \<noteq> u_id u \<longrightarrow> \<not> users_clash ?u v" by blast
    then show thesis
    proof cases
      case 1
      then show thesis by (rule fails) simp
    next
      case 2
      obtain cs where m: "matchUserWithContactOnUpdate E (u_organization_id ?u) (u_id ?u) (u_phone ?u) (u_email ?u) (u_phone u) (u_email u)
          (w1\<lparr>users := ?us\<rparr>) = (Inr (), w1\<lparr>users := ?us, contacts := cs\<rparr>)" using match_account_frame(2)[OF assms(1)] by blast
      have "UserEdit_perform E ws p w = (Inr ?u, w1\<lparr>users := ?us, contacts := cs\<rparr>)"
        unfolding UserEdit_perform_def run_simps Some
        using m by (simp add: andThen_run(1)[of "UserService_update _ _ _", OF 2(1)] andThen_run(1)[of "matchUserWithContactOnUpdate _ _ _ _ _ _ _"])
      with assms(3) show thesis by (intro that(2)[OF u np[unfolded Inr] _ _ 2(2)]) auto
    qed
  qed
qed

text \<open>A profile change touches the own account only. Every other account stays as it is, no two accounts of an organization come to share a login,
  an email or a phone, and a change that is refused leaves the accounts alone. A new password is accepted only together with the
  current one, and is the one that counts afterwards.\<close>

theorem UserEdit_own_account:
  assumes "mongo_ok E" "accounts_ok w" "UserEdit_perform E ws p w = (r, w')"
  shows "accounts_ok w' \<and> length (users w') = length (users w)
    \<and> (\<forall>v \<in> set (users w). getSessionUserId w ws \<noteq> Some (u_id v) \<longrightarrow> v \<in> set (users w'))
    \<and> (case r of Inl e \<Rightarrow> users w' = users w
       | Inr u \<Rightarrow> u \<in> set (users w') \<and> getSessionUserId w ws = Some (u_id u) \<and> (truthyStr (eu_new_password p) \<longrightarrow>
           (\<exists>old \<in> set (users w). u_id old = u_id u \<and> truthyStr (eu_current_password p) \<and>
              verifyPassword E (entropy w) (the (eu_current_password p)) (u_encrypted_password old) (u_password_salt old))
           \<and> (\<forall>n. verifyPassword E n (the (eu_new_password p)) (u_encrypted_password u) (u_password_salt u))))"
proof (rule UserEdit_run[OF assms])
  fix e
  assume "r = Inl e" "users w' = users w"
  then show ?thesis using assms(2) accounts_ok_cong[of w' w] by auto
next
  fix u pw w1
  let ?u = "setUser p pw (clock w) u"
  let ?us = "map (\<lambda>v. if u_id v = u_id u then setUser p pw (clock w) v else v) (users w)"
  assume u: "getSessionUserId w ws = Some (u_id u)" "u \<in> set (users w)" and np: "newPassword E u p w = (Inr pw, w1)"
    and r: "r = Inr ?u" "users w' = ?us" and clash: "\<forall>v \<in> set (users w). u_id v \<noteq> u_id u \<longrightarrow> \<not> users_clash ?u v"
  have "accounts_ok (w\<lparr>users := ?us\<rparr>)" using accounts_ok_update[OF assms(2) u(2)] clash by simp
  then have ok: "accounts_ok w'" using r by (simp add: accounts_ok_def)
  have "?u \<in> set ?us" using u(2) by auto
  moreover have "\<forall>v \<in> set (users w). u_id v \<noteq> u_id u \<longrightarrow> v \<in> set ?us" by auto
  ultimately show ?thesis using r ok u newPassword_checked[OF np] newPassword_stored[OF np] by auto
qed

definition account_world :: world where
  "account_world = user_world\<lparr>SESSIONS := [(11, \<lparr>s_organizationId = ''o'', s_userId = ''u1'', s_extraParams = Map.empty\<rparr>)],
     user_tokens := [\<lparr>t_id = ''t'', t_organization_id = ''o'', t_user_id = ''u1'', t_device_id = ''d'', t_type = AccessToken, t_token = Jwt ''jwt'',
       t_created_at = 0, t_updated_at = 0\<rparr>]\<rparr>"

lemma account_world_ok: "accounts_ok account_world" "users account_world = [user_example]" "u_id user_example = ''u1''"
    "getSessionUserId account_world 11 = Some ''u1''"
  by (simp_all add: accounts_ok_def account_world_def user_world_def user_example_def getSessionUserId_def getSession_def)

theorem UserEdit_own_account_witness:
  "accounts_ok (snd (UserEdit_perform mem_env 11 \<lparr>eu_current_password = Some ''pw'', eu_new_password = Some ''new'', eu_email = None, eu_phone = None,
     eu_login = Some ''anna'', eu_first_name = None, eu_last_name = None, eu_avatar_object = None\<rparr> account_world))"
  using UserEdit_own_account[OF mem_env_ok(1) account_world_ok(1) prod.collapse[symmetric]] by blast

section \<open>Deleting an account\<close>

lemma removeAllUserSessions_fields [simp]:
  "users (removeAllUserSessions E ws w) = users w" "user_tokens (removeAllUserSessions E ws w) = user_tokens w"
  "blocked_users (removeAllUserSessions E ws w) = blocked_users w" "contacts (removeAllUserSessions E ws w) = contacts w"
  by (simp_all add: removeAllUserSessions_def listUserData_def listUserDevice_def deleteUserData_def Let_def split: option.split)

lemma removeAllUserSessions_closes:
  assumes "getSession w ws = Some s"
  shows "getSession (removeAllUserSessions E ws w) ws' = (if ws' = ws then None else getSession w ws')"
    "getUserDevices (removeAllUserSessions E ws w) (s_userId s) = []"
  using assms by (simp_all add: removeAllUserSessions_def listUserData_def listUserDevice_def deleteUserData_def Let_def getSession_def
      getUserDevices_def map_of_map_delete)

lemma unsubscribe_fields [simp]:
  "users (unsubscribeObserver E u w) = users w" "user_tokens (unsubscribeObserver E u w) = user_tokens w"
  "blocked_users (unsubscribeObserver E u w) = blocked_users w" "contacts (unsubscribeObserver E u w) = contacts w"
  "SESSIONS (unsubscribeObserver E u w) = SESSIONS w"
  by (simp_all add: unsubscribeObserver_def Standalone_unsubscribeObserver_def Let_def Standalone_deleteSubscriber_def
      Standalone_deleteSubscribeTarget_def split: option.split)



section \<open>Marks in the contact books\<close>

definition marks :: "string option \<Rightarrow> oid option \<Rightarrow> contact_value list \<Rightarrow> bool" where
  "marks v m vs \<longleftrightarrow> (\<forall>x \<in> set vs. cval_value x = v \<longrightarrow> cval_matched_user_id x = m)"

lemma updateField_values [simp]:
  "map cval_value (updateFieldOnCreate u v vs) = map cval_value vs" "map cval_value (updateFieldOnDelete v vs) = map cval_value vs"
  by (simp_all add: updateFieldOnCreate_def updateFieldOnDelete_def)

lemma updateField_marks: "marks v (Some u) (updateFieldOnCreate u v vs)" "marks v None (updateFieldOnDelete v vs)"
proof -
  have "marks v m (map (\<lambda>el. if cval_value el = v then el\<lparr>cval_matched_user_id := m\<rparr> else el) vs)" for m
    unfolding marks_def
  proof (intro ballI impI)
    fix x assume "x \<in> set (map (\<lambda>el. if cval_value el = v then el\<lparr>cval_matched_user_id := m\<rparr> else el) vs)" and v: "cval_value x = v"
    then have "x \<in> (\<lambda>el. if cval_value el = v then el\<lparr>cval_matched_user_id := m\<rparr> else el) ` set vs" by (simp only: set_map)
    then obtain y where "x = (if cval_value y = v then y\<lparr>cval_matched_user_id := m\<rparr> else y)" by (rule imageE)
    with v show "cval_matched_user_id x = m" by (cases "cval_value y = v") simp_all
  qed
  then show "marks v (Some u) (updateFieldOnCreate u v vs)" "marks v None (updateFieldOnDelete v vs)"
    unfolding updateFieldOnCreate_def updateFieldOnDelete_def by blast+
qed

lemma updateField_back: "marks v None vs \<Longrightarrow> updateFieldOnDelete v (updateFieldOnCreate u v vs) = vs"
proof -
  have one: "x\<lparr>cval_matched_user_id := None\<rparr> = x" if "cval_matched_user_id x = None" for x :: contact_value
    using that by (cases x) simp
  assume "marks v None vs"
  then show ?thesis unfolding updateFieldOnDelete_def updateFieldOnCreate_def map_map
    by (intro map_idI) (simp add: marks_def one)
qed

lemma valueMatches_values: "map cval_value vs = map cval_value us \<Longrightarrow> valueMatches v (Some vs) = valueMatches v (Some us)"
proof -
  have eq: "valueMatches v (Some xs) = (case v of None \<Rightarrow> map cval_value xs = [] \<or> None \<in> set (map cval_value xs)
      | Some s \<Rightarrow> Some s \<in> set (map cval_value xs))" for xs :: "contact_value list"
    by (cases v) (auto simp: valueMatches_def image_iff intro: sym)
  assume "map cval_value vs = map cval_value us"
  then show ?thesis unfolding eq by (simp only:)
qed

lemma mentions_rewritten:
  assumes "\<And>vs. map cval_value (f vs) = map cval_value vs" "\<And>vs. map cval_value (g vs) = map cval_value vs"
  shows "mentions org email phone (rewritten (\<lambda>vs. Some (f vs)) (\<lambda>vs. Some (g vs)) c) = mentions org email phone c"
  using valueMatches_values[OF assms(1)] valueMatches_values[OF assms(2)]
  by (auto simp: mentions_def rewritten_def orKeep_def split: option.split)

text \<open>Writing a user into the marks of a contact and taking it out again.\<close>

lemma marks_restored:
  assumes "\<forall>es ps. ct_email x = Some es \<and> ct_phone x = Some ps \<longrightarrow> marks (Some e) None es \<and> marks (Some p) None ps"
  shows "rewritten (\<lambda>es. Some (updateFieldOnDelete (Some e) es)) (\<lambda>ps. Some (updateFieldOnDelete (Some p) ps))
      (rewritten (\<lambda>es. Some (updateFieldOnCreate u (Some e) es)) (\<lambda>ps. Some (updateFieldOnCreate u (Some p) ps)) x) = x"
proof (cases "\<exists>es ps. ct_email x = Some es \<and> ct_phone x = Some ps")
  case True
  then obtain es ps where x: "ct_email x = Some es" "ct_phone x = Some ps" by blast
  with assms show ?thesis by (simp add: rewritten_def orKeep_def updateField_back)
next
  case False
  then show ?thesis by (auto simp: rewritten_def split: option.split)
qed



end
