(* ===== verification/Retry.thy ===== *)
theory Retry
  imports Prelude
begin

text \<open>
  \<open>promiseQueueWithJittering\<close> (\<^verbatim>\<open>app/utils/promise-queue-with-jittering.js\<close>): a promise is tried up to a number of times, after growing
  delays, until it succeeds or the queue is cancelled. The state is whatever the promise works on; \<open>pause\<close> is what the rest of the server does
  to it during a delay, \<open>isCanceled\<close> reads the flag that \<open>cancel\<close> sets, and \<open>executablePromise\<close> is one try. An error of the try is
  \<open>Failed\<close>, or the \<open>CancelQueueError\<close> itself, which ends the queue.
\<close>

section \<open>The queue\<close>

datatype 'e queue_error = CancelQueueError | Failed 'e

definition tryDelays :: "nat \<Rightarrow> nat \<Rightarrow> nat list" where
  "tryDelays tryCount delay = map (\<lambda>index. (index + 1) ^ 2 * delay) [0..<tryCount]"

text \<open>
  The loop over the delays. After it the last error is thrown, or, without one (there was no try at all), the cancellation, and otherwise
  the queue returns \<open>undefined\<close>.
\<close>

primrec tryLoop ::
  "(nat \<Rightarrow> 's \<Rightarrow> 's) \<Rightarrow> ('s \<Rightarrow> bool) \<Rightarrow> ('s, 'e queue_error, 'a) eff \<Rightarrow> nat list \<Rightarrow> 'e queue_error option \<Rightarrow> ('s, 'e queue_error, 'a option) eff" where
  "tryLoop pause isCanceled executablePromise [] lastError s =
     (case lastError of Some e \<Rightarrow> (Inl e, s) | None \<Rightarrow> if isCanceled s then (Inl CancelQueueError, s) else (Inr None, s))"
| "tryLoop pause isCanceled executablePromise (tryDelay # rest) lastError s =
     (if isCanceled s then (Inl CancelQueueError, s)
      else let s1 = pause tryDelay s
           in if isCanceled s1 then (Inl CancelQueueError, s1)
              else case executablePromise s1 of
                (Inr successResult, s2) \<Rightarrow> (Inr (Some successResult), s2)
              | (Inl CancelQueueError, s2) \<Rightarrow> (Inl CancelQueueError, s2)
              | (Inl (Failed e), s2) \<Rightarrow> tryLoop pause isCanceled executablePromise rest (Some (Failed e)) s2)"

definition queueStart ::
  "(nat \<Rightarrow> 's \<Rightarrow> 's) \<Rightarrow> ('s \<Rightarrow> bool) \<Rightarrow> ('s, 'e queue_error, 'a) eff \<Rightarrow> nat \<Rightarrow> nat \<Rightarrow> ('s, 'e queue_error, 'a option) eff" where
  "queueStart pause isCanceled executablePromise tryCount delay s =
     (if isCanceled s then (Inl CancelQueueError, s)
      else tryLoop pause isCanceled executablePromise (tryDelays tryCount delay) None s)"

lemma tryLoop_result:
  "tryLoop pause isCanceled executablePromise ds le s = (Inr (Some x), s') \<Longrightarrow> \<exists>t. executablePromise t = (Inr x, s')"
proof (induction ds arbitrary: le s)
  case (Cons d ds)
  obtain r s2 where r: "executablePromise (pause d s) = (r, s2)" by fastforce
  with Cons show ?case by (auto simp: Let_def split: if_splits sum.splits queue_error.splits)
qed (auto split: option.splits if_splits)

lemma queueStart_result:
  "queueStart pause isCanceled executablePromise n d s = (Inr (Some x), s') \<Longrightarrow> \<exists>t. executablePromise t = (Inr x, s')"
  by (auto simp: queueStart_def tryLoop_result split: if_splits)

section \<open>Counting tries and delays\<close>

text \<open>What a client of the queue may count: the time waited and the tries made.\<close>

locale counted_queue =
  fixes pause :: "nat \<Rightarrow> 's \<Rightarrow> 's" and isCanceled :: "'s \<Rightarrow> bool" and executablePromise :: "('s, 'e queue_error, 'a) eff"
    and waited :: "'s \<Rightarrow> nat" and tries :: "'s \<Rightarrow> nat"
  assumes waited_pause: "waited (pause d s) = waited s + d" and tries_pause: "tries (pause d s) = tries s"
    and waited_try: "waited (snd (executablePromise s)) = waited s" and tries_try: "tries (snd (executablePromise s)) = Suc (tries s)"
begin

lemma one_try:
  assumes "executablePromise (pause d s) = (r, s')"
  shows "waited s' = waited s + d \<and> tries s' = Suc (tries s)"
  using assms waited_try[of "pause d s"] tries_try[of "pause d s"] by (simp add: waited_pause tries_pause)

lemma tryLoop_counts:
  "tryLoop pause isCanceled executablePromise ds le s = (r, s') \<Longrightarrow>
     tries s' \<le> tries s + length ds \<and> waited s' \<le> waited s + sum_list ds
     \<and> (\<forall>e. r = Inl (Failed e) \<longrightarrow> tries s' = tries s + length ds \<and> waited s' = waited s + sum_list ds)
     \<and> (r = Inr None \<longrightarrow> ds = [] \<and> le = None)"
proof (induction ds arbitrary: le s)
  case (Cons d ds)
  show ?case
  proof (cases "isCanceled s \<or> isCanceled (pause d s)")
    case True
    with Cons.prems show ?thesis by (auto simp: Let_def waited_pause tries_pause split: if_splits)
  next
    case False
    obtain x s2 where x: "executablePromise (pause d s) = (x, s2)" by fastforce
    note counts = one_try[OF x]
    show ?thesis
    proof (cases "\<exists>e. x = Inl (Failed e)")
      case True
      then obtain e where "x = Inl (Failed e)" by blast
      with False x Cons.prems have "tryLoop pause isCanceled executablePromise ds (Some (Failed e)) s2 = (r, s')" by (simp add: Let_def)
      from Cons.IH[OF this] counts show ?thesis by simp
    next
      case stop: False
      with False x Cons.prems have "s' = s2 \<and> (\<forall>e. r \<noteq> Inl (Failed e)) \<and> r \<noteq> Inr None"
        by (auto simp: Let_def split: sum.splits queue_error.splits)
      with counts show ?thesis by simp
    qed
  qed
qed (auto split: option.splits if_splits)

lemma queueStart_counts:
  assumes "queueStart pause isCanceled executablePromise n d s = (r, s')"
  shows "tries s' \<le> tries s + n \<and> waited s' \<le> waited s + sum_list (tryDelays n d)
    \<and> (\<forall>e. r = Inl (Failed e) \<longrightarrow> tries s' = tries s + n \<and> waited s' = waited s + sum_list (tryDelays n d))
    \<and> (r = Inr None \<longrightarrow> n = 0) \<and> (isCanceled s \<longrightarrow> r = Inl CancelQueueError \<and> s' = s)"
proof (cases "isCanceled s")
  case False
  with assms have "tryLoop pause isCanceled executablePromise (tryDelays n d) None s = (r, s')" by (simp add: queueStart_def)
  from tryLoop_counts[OF this] False show ?thesis by (simp add: tryDelays_def)
qed (use assms in \<open>auto simp: queueStart_def\<close>)

end

text \<open>The time and the tries of any queue, kept beside its state.\<close>

definition pauseCounted :: "(nat \<Rightarrow> 's \<Rightarrow> 's) \<Rightarrow> nat \<Rightarrow> 's \<times> nat \<times> nat \<Rightarrow> 's \<times> nat \<times> nat" where
  "pauseCounted pause d = (\<lambda>(s, t, n). (pause d s, t + d, n))"

definition tryCounted :: "('s, 'e, 'a) eff \<Rightarrow> ('s \<times> nat \<times> nat, 'e, 'a) eff" where
  "tryCounted executablePromise = (\<lambda>(s, t, n). case executablePromise s of (r, s') \<Rightarrow> (r, (s', t, Suc n)))"

lemma counting_simps [simp]:
  "pauseCounted pause d (s, t, n) = (pause d s, t + d, n)"
  "executablePromise s = (r, s') \<Longrightarrow> tryCounted executablePromise (s, t, n) = (r, (s', t, Suc n))"
  by (simp_all add: pauseCounted_def tryCounted_def)

interpretation counted: counted_queue "pauseCounted pause" "\<lambda>s. isCanceled (fst s)" "tryCounted executablePromise" "\<lambda>s. fst (snd s)" "\<lambda>s. snd (snd s)"
  for pause isCanceled executablePromise
  by unfold_locales (auto simp: pauseCounted_def tryCounted_def split: prod.split)

lemma tryLoop_counted:
  "tryLoop pause isCanceled executablePromise ds le s =
     map_prod id fst (tryLoop (pauseCounted pause) (\<lambda>s. isCanceled (fst s)) (tryCounted executablePromise) ds le (s, c))"
proof (induction ds arbitrary: le s c)
  case (Cons d ds)
  obtain r s2 where "executablePromise (pause d s) = (r, s2)" by fastforce
  then show ?case
    by (cases c) (auto simp: Let_def id_def intro: Cons.IH[unfolded id_def] split: sum.split queue_error.split)
qed (auto split: option.split)

lemma queueStart_counted:
  "queueStart pause isCanceled executablePromise n d s =
     map_prod id fst (queueStart (pauseCounted pause) (\<lambda>s. isCanceled (fst s)) (tryCounted executablePromise) n d (s, c))"
  using tryLoop_counted[of pause isCanceled executablePromise "tryDelays n d" None s c] by (simp add: queueStart_def)

lemma sum_tryDelays: "6 * sum_list (tryDelays n d) = d * (n * (n + 1) * (2 * n + 1))"
  by (induction n) (simp_all add: tryDelays_def algebra_simps power2_eq_square)

text \<open>C40: Trying with growing delays is bounded, whatever the promise does and whenever the queue is cancelled: with \<open>n\<close> tries at a delay unit of
  \<open>d\<close> milliseconds the promise is executed at most \<open>n\<close> times and the queue waits at most \<open>d n (n + 1) (2 n + 1) / 6\<close> milliseconds. It throws the
  error of a failed try only after all \<open>n\<close> tries and all delays, gives a result of the promise or throws in every other case, and a queue
  that was cancelled before its start does nothing.\<close>

theorem queue_bounded:
  fixes pause :: "nat \<Rightarrow> 's \<Rightarrow> 's" and executablePromise :: "('s, 'e queue_error, 'a) eff" and n d :: nat
  shows "\<exists>r s' waited tries. queueStart pause isCanceled executablePromise n d s = (r, s')
    \<and> queueStart (pauseCounted pause) (\<lambda>s. isCanceled (fst s)) (tryCounted executablePromise) n d (s, 0, 0) = (r, (s', waited, tries))
    \<and> tries \<le> n \<and> 6 * waited \<le> d * (n * (n + 1) * (2 * n + 1))
    \<and> (\<forall>e. r = Inl (Failed e) \<longrightarrow> tries = n \<and> 6 * waited = d * (n * (n + 1) * (2 * n + 1)))
    \<and> (r = Inr None \<longrightarrow> n = 0) \<and> (isCanceled s \<longrightarrow> r = Inl CancelQueueError \<and> s' = s \<and> tries = 0)"
proof -
  obtain r s' waited tries where run:
    "queueStart (pauseCounted pause) (\<lambda>s. isCanceled (fst s)) (tryCounted executablePromise) n d (s, 0, 0) = (r, (s', waited, tries))"
    by (metis prod.collapse)
  have eq: "queueStart pause isCanceled executablePromise n d s = (r, s')"
    using queueStart_counted[of pause isCanceled executablePromise n d s "(0, 0)"] run by simp
  show ?thesis unfolding sum_tryDelays[symmetric]
    by (rule exI[of _ r], rule exI[of _ s'], rule exI[of _ waited], rule exI[of _ tries])
      (use run eq counted.queueStart_counts[OF run] in auto)
qed

text \<open>Three tries at a unit of one second fail after 14 seconds.\<close>

lemma tryDelays_three: "tryDelays 3 1000 = [1000, 4000, 9000]"
  by code_simp

theorem queue_bounded_witness:
  "\<exists>r s'. queueStart (\<lambda>d t. t + d) (\<lambda>_. False) (\<lambda>t. (Inl (Failed t) :: nat queue_error + unit, t)) 3 1000 (0 :: nat) = (r, s')
     \<and> r = Inl (Failed 14000) \<and> s' = 14000"
  using queue_bounded[of "\<lambda>d t. t + d" "\<lambda>_. False" "\<lambda>t. (Inl (Failed t) :: nat queue_error + unit, t)" 3 1000 "0 :: nat"]
  by (simp add: queueStart_def tryDelays_three)

end
