(* ===== verification/Cluster.thy ===== *)
theory Cluster
  imports Delivery_Props Delivery_Frame Retry
begin

text \<open>
  The cluster: \<open>ClusterNodeService\<close> (\<^verbatim>\<open>app/providers/services/cluster_node/index.js\<close>), which keeps the entry of every live node in Redis, and
  \<open>ClusterManager\<close> (\<^verbatim>\<open>app/cluster/cluster_manager.js\<close>), which keeps a link to every other live node, reconnects links that
  close and cleans up after nodes that are gone.

  Opening a link is up to the network: \<open>link e w\<close> is what awaiting \<open>createConnectionWithNode\<close> for the endpoint \<open>e\<close> gives, no socket
  when the connection fails, and the state afterwards, in which whatever ran during the handshake has left its traces. The property
  about a synchronization asks of it that no link and no running reconnection of another node gets lost meanwhile.
\<close>

section \<open>Entries of the nodes\<close>

definition NODE_DATA :: string where
  "NODE_DATA = ''sama-node-data''"

definition nodeInfoKey :: "string \<Rightarrow> string" where
  "nodeInfoKey endpoint = NODE_DATA @ '':'' @ endpoint"

text \<open>
  The URL of an address in canonical form, as \<open>URL.toString\<close> prints it: the default port of the protocol is left out and the empty path is a
  slash.
\<close>

definition buildWsEndpoint :: "bool \<Rightarrow> string \<Rightarrow> string \<Rightarrow> string" where
  "buildWsEndpoint isSecure ip port = (if isSecure then ''wss'' else ''ws'') @ ''://'' @ ip
     @ (if port = [] \<or> port = (if isSecure then ''443'' else ''80'') then [] else '':'' @ port) @ ''/''"

definition rendered :: "string option \<Rightarrow> string" where
  "rendered v = (case v of None \<Rightarrow> ''undefined'' | Some s \<Rightarrow> s)"

definition retrieveActive :: "env \<Rightarrow> world \<Rightarrow> string list" where
  "retrieveActive E w = js_set (map (\<lambda>nodeKey. let node = rd_hGetAll (rd E) nodeKey (redis w)
       in buildWsEndpoint (cfg_isSecure E) (rendered (node ''ip_address'')) (rendered (node ''port''))) (rd_keys (rd E) (nodeInfoKey []) (redis w)))"

definition retrieveStored :: "env \<Rightarrow> world \<Rightarrow> string list" where
  "retrieveStored E w = js_set (map (drop (length (nodesSetCacheKey []))) (rd_keys (rd E) (nodesSetCacheKey []) (redis w)))"

definition expireSeconds :: "nat \<Rightarrow> nat" where
  "expireSeconds nodeExpiresIn = (nodeExpiresIn + 500) div 1000 + 5"

definition upsert :: "env \<Rightarrow> (string \<times> string) list \<Rightarrow> world \<Rightarrow> world" where
  "upsert E keyValuePairs w =
     (let currentNodeKey = nodeInfoKey (cfg_clusterEndpoint E)
      in w\<lparr>redis := rd_expire (rd E) currentNodeKey (expireSeconds (cfg_nodeExpiresIn E)) (rd_hSet (rd E) currentNodeKey keyValuePairs (redis w))\<rparr>)"

definition storeCurrentNode :: "env \<Rightarrow> nat \<Rightarrow> world \<Rightarrow> world" where
  "storeCurrentNode E usersCount = upsert E
     [(''ip_address'', cfg_ip E), (''hostname'', cfg_hostName E), (''port'', cfg_clusterPort E), (''users_count'', decimal usersCount)]"

section \<open>Links and reconnections\<close>

type_synonym link = "string \<Rightarrow> world \<Rightarrow> socket option \<times> world"

datatype link_error = NodeReconnecting | ConnectionError

text \<open>
  A \<open>ReconnectManager\<close> is cancelled when it is taken out of the map or marked as finished. Deleting the link of a node closes it.
\<close>

definition deleteClusterConnection :: "string \<Rightarrow> world \<Rightarrow> world" where
  "deleteClusterConnection nodeEndpoint w =
     (let w1 = w\<lparr>clusterNodesConnections := map_delete nodeEndpoint (clusterNodesConnections w)\<rparr>
      in case map_of (clusterNodesConnections w) nodeEndpoint of
           None \<Rightarrow> w1 | Some ws \<Rightarrow> w1\<lparr>closedLinks := closedLinks w1 @ [ws]\<rparr>)"

definition cancelNodeReconnecting :: "string \<Rightarrow> world \<Rightarrow> world" where
  "cancelNodeReconnecting nodeEndpoint w = w\<lparr>reconnectingNodesConnections := map_delete nodeEndpoint (reconnectingNodesConnections w)\<rparr>"

definition createOrRetrieveConnectionWithNode :: "link \<Rightarrow> string \<Rightarrow> bool \<Rightarrow> (world, link_error, socket) eff" where
  "createOrRetrieveConnectionWithNode link nodeEndpoint throwIfActiveReconnect w =
     (case map_of (clusterNodesConnections w) nodeEndpoint of
        Some existingWS \<Rightarrow> (Inr existingWS, w)
      | None \<Rightarrow>
          if throwIfActiveReconnect \<and> map_of (reconnectingNodesConnections w) nodeEndpoint \<noteq> None then (Inl NodeReconnecting, w)
          else case link nodeEndpoint w of
            (None, w1) \<Rightarrow> (Inl ConnectionError, w1)
          | (Some ws, w1) \<Rightarrow>
              let w2 = cancelNodeReconnecting nodeEndpoint w1
              in case map_of (clusterNodesConnections w2) nodeEndpoint of
                   Some other \<Rightarrow> (Inr other, w2\<lparr>closedLinks := closedLinks w2 @ [ws]\<rparr>)
                 | None \<Rightarrow> (Inr ws, w2\<lparr>clusterNodesConnections := map_set nodeEndpoint ws (clusterNodesConnections w2)\<rparr>))"

text \<open>
  \<open>startNodeReconnecting\<close> up to the start of the queue, which nobody awaits, and what the queue does then: three tries at a unit of one
  second. A queue that fails leaves its manager in the map, marked as finished.
\<close>

definition startNodeReconnecting :: "string \<Rightarrow> bool \<Rightarrow> world \<Rightarrow> world" where
  "startNodeReconnecting nodeEndpoint skipIfHashActiveReconnection w =
     (if skipIfHashActiveReconnection \<and> map_of (reconnectingNodesConnections w) nodeEndpoint \<noteq> None then w
      else let w1 = cancelNodeReconnecting nodeEndpoint w
           in w1\<lparr>reconnectingNodesConnections := map_set nodeEndpoint False (reconnectingNodesConnections w1)\<rparr>)"

definition isReconnecting :: "string \<Rightarrow> world \<Rightarrow> bool" where
  "isReconnecting nodeEndpoint w \<longleftrightarrow> map_of (reconnectingNodesConnections w) nodeEndpoint = Some False"

definition connectFn :: "link \<Rightarrow> string \<Rightarrow> (world, link_error queue_error, socket) eff" where
  "connectFn link nodeEndpoint w = (case createOrRetrieveConnectionWithNode link nodeEndpoint False w of
     (Inl e, w') \<Rightarrow> (Inl (Failed e), w') | (Inr ws, w') \<Rightarrow> (Inr ws, w'))"

definition runNodeReconnecting :: "(nat \<Rightarrow> world \<Rightarrow> world) \<Rightarrow> link \<Rightarrow> string \<Rightarrow> world \<Rightarrow> socket option \<times> world" where
  "runNodeReconnecting pause link nodeEndpoint w =
     (case queueStart pause (\<lambda>w. \<not> isReconnecting nodeEndpoint w) (connectFn link nodeEndpoint) 3 1000 w of
        (Inr result, w') \<Rightarrow> (result, cancelNodeReconnecting nodeEndpoint w')
      | (Inl e, w') \<Rightarrow> (None, w'\<lparr>reconnectingNodesConnections :=
          map (\<lambda>(n, isFinished). (n, isFinished \<or> n = nodeEndpoint)) (reconnectingNodesConnections w')\<rparr>))"

definition onCloseNode :: "string \<Rightarrow> nat \<Rightarrow> string \<Rightarrow> world \<Rightarrow> world" where
  "onCloseNode nodeEndpoint closeCode reason w =
     (if closeCode = 1004 \<and> reason = ''Duplicate'' then w
      else startNodeReconnecting nodeEndpoint True (deleteClusterConnection nodeEndpoint w))"

definition senderClusterDeliverPacket :: "link \<Rightarrow> string \<Rightarrow> oid \<Rightarrow> string \<Rightarrow> (world, link_error, unit) eff" where
  "senderClusterDeliverPacket link nodeEndpoint userId packet =
     andThen (gets (\<lambda>w. map_of (clusterNodesConnections w) nodeEndpoint)) (\<lambda>connection.
     andThen (case connection of Some ws \<Rightarrow> ret ws | None \<Rightarrow> createOrRetrieveConnectionWithNode link nodeEndpoint True) (\<lambda>ws.
       modify (\<lambda>w. w\<lparr>linkOutbox := linkOutbox w @ [(ws, userId, packet)]\<rparr>)))"

text \<open>What arrives on the socket of this node: the handshake of another node, or a packet for a user.\<close>

datatype cluster_packet = NodeInfo string | DeliverPacket oid string sender_info

fun receiveClusterPacket :: "env \<Rightarrow> link \<Rightarrow> cluster_packet \<Rightarrow> world \<Rightarrow> world" where
  "receiveClusterPacket E link (NodeInfo nodeEndpoint) w = snd (createOrRetrieveConnectionWithNode link nodeEndpoint True w)"
| "receiveClusterPacket E link (DeliverPacket userId packet si) w = deliverClusterMessageToUser E userId packet si w"

section \<open>Synchronization\<close>

definition cleanDestroyedNodeData :: "env \<Rightarrow> string \<Rightarrow> unit handler" where
  "cleanDestroyedNodeData E nodeEndpoint =
     andThen (modify (\<lambda>w. cancelNodeReconnecting nodeEndpoint (deleteClusterConnection nodeEndpoint w))) (\<lambda>_.
     andThen (transact (clearNodeUsersSession E nodeEndpoint)) (\<lambda>lastUserSessions. case lastUserSessions of
       None \<Rightarrow> ret ()
     | Some sessions \<Rightarrow>
         andThen (forEach sessions (\<lambda>(organizationId, userId, _).
           processAPIResponse E None (buildOfflineActivityResponse (Some organizationId) (Some userId)))) (\<lambda>_. ret ())))"

definition destroyedNodes :: "string list \<Rightarrow> string list \<Rightarrow> world \<Rightarrow> string list" where
  "destroyedNodes activeNodes storedNodes w = js_set (filter (\<lambda>n. n \<notin> set activeNodes)
     (storedNodes @ map fst (reconnectingNodesConnections w) @ map fst (clusterNodesConnections w)))"

definition connectNode :: "env \<Rightarrow> link \<Rightarrow> string \<Rightarrow> world \<Rightarrow> world" where
  "connectNode E link nodeEndpoint w =
     (if nodeEndpoint = cfg_clusterEndpoint E \<or> isReconnecting nodeEndpoint w then w
      else case createOrRetrieveConnectionWithNode link nodeEndpoint True w of
        (Inr _, w1) \<Rightarrow> w1
      | (Inl _, w1) \<Rightarrow> startNodeReconnecting nodeEndpoint False w1)"

definition connectToExistingClusterNodes :: "env \<Rightarrow> link \<Rightarrow> unit handler" where
  "connectToExistingClusterNodes E link =
     andThen (gets (retrieveActive E)) (\<lambda>activeNodes.
     andThen (gets (retrieveStored E)) (\<lambda>storedNodes.
     andThen (gets (destroyedNodes activeNodes storedNodes)) (\<lambda>destroyed.
     andThen (modify (fold (connectNode E link) activeNodes)) (\<lambda>_.
     andThen (forEach destroyed (cleanDestroyedNodeData E)) (\<lambda>_. ret ())))))"

definition syncCluster :: "env \<Rightarrow> link \<Rightarrow> unit handler" where
  "syncCluster E link =
     andThen (modify (\<lambda>w. storeCurrentNode E (totalSessions w) w)) (\<lambda>_. connectToExistingClusterNodes E link)"

text \<open>The result is whether the timer of the synchronizations is set, as it may have been before.\<close>

definition startSyncingClusterNodes :: "env \<Rightarrow> link \<Rightarrow> bool \<Rightarrow> bool \<Rightarrow> bool handler" where
  "startSyncingClusterNodes E link isColdStart nodesSyncInterval =
     (if nodesSyncInterval then ret True
      else andThen (if isColdStart then cleanDestroyedNodeData E (cfg_clusterEndpoint E) else ret ()) (\<lambda>_.
           andThen (if isColdStart then syncCluster E link else ret ()) (\<lambda>_. ret True)))"

section \<open>What a clean-up and a delivery leave alone\<close>

text \<open>The links, the reconnections, and a set of the registry in Redis that is empty.\<close>

definition linksAre :: "(string \<times> socket) list \<Rightarrow> (string \<times> bool) list \<Rightarrow> string set \<Rightarrow> world \<Rightarrow> bool" where
  "linksAre c r K w \<longleftrightarrow> clusterNodesConnections w = c \<and> reconnectingNodesConnections w = r \<and> (\<forall>k \<in> K. set (rs_sets (redis w) k) = {})"

lemma linksAre_frame [simp]:
  "linksAre c r K (w\<lparr>outbox := x1\<rparr>) = linksAre c r K w" "linksAre c r K (w\<lparr>clusterOutbox := x2\<rparr>) = linksAre c r K w"
  "linksAre c r K (w\<lparr>users := x3\<rparr>) = linksAre c r K w" "linksAre c r K (w\<lparr>operations_log := x4\<rparr>) = linksAre c r K w"
  "linksAre c r K (w\<lparr>push_events := x5\<rparr>) = linksAre c r K w" "linksAre c r K (w\<lparr>pushQueue := x6\<rparr>) = linksAre c r K w"
  "linksAre c r K (w\<lparr>clock := x7\<rparr>) = linksAre c r K w" "linksAre c r K (w\<lparr>entropy := x8\<rparr>) = linksAre c r K w"
  "linksAre c r K (w\<lparr>SUBSCRIBED_TO := x9\<rparr>) = linksAre c r K w" "linksAre c r K (w\<lparr>SUBSCRIBERS := x10\<rparr>) = linksAre c r K w"
  by (simp_all add: linksAre_def)

lemma linksAre_redis:
  assumes "linksAre c r K w" and sub: "\<And>k. set (rs_sets st k) \<subseteq> set (rs_sets (redis w) k)"
  shows "linksAre c r K (w\<lparr>redis := st\<rparr>)"
proof -
  have "set (rs_sets st k) = {}" if "k \<in> K" for k
    using assms(1) that sub[of k] by (simp add: linksAre_def)
  with assms(1) show ?thesis by (simp add: linksAre_def)
qed

lemma linksAre_hashes: "rs_sets st = rs_sets (redis w) \<Longrightarrow> linksAre c r K (w\<lparr>redis := st\<rparr>) = linksAre c r K w"
  by (simp add: linksAre_def)

lemma linksAre_unsubscribe [simp]: "redis_ok (rd E) \<Longrightarrow> linksAre c r K (unsubscribeObserver E u w) = linksAre c r K w"
  by (auto simp: unsubscribeObserver_def Standalone_unsubscribeObserver_def Standalone_deleteSubscriber_def Standalone_deleteSubscribeTarget_def
      Cluster_unsubscribeObserver_def Cluster_deleteSubscriber_def Cluster_deleteSubscribeTarget_def Cluster_clearSubscribed_def Let_def
      linksAre_hashes split: option.split)

lemma delivery_frame_links: "redis_ok (rd E) \<Longrightarrow> delivery_frame E (linksAre c r K)"
  by unfold_locales simp_all

lemma keeps_processAPIResponse [keeps_intros]: "redis_ok (rd E) \<Longrightarrow> keeps (linksAre c r K) (processAPIResponse E socket resp)"
  by (rule delivery_frame.keeps_response[OF delivery_frame_links])

lemma removeUserData_links:
  assumes "redis_ok (rd E)" "linksAre c r K w"
  shows "linksAre c r K (snd (removeUserData E o' u d w))"
  using assms by (auto simp: removeUserData_def removeUserDevice_def listUserDevice_def deleteUserExtraParams_def Let_def split_beta
      intro!: linksAre_redis split: if_splits)

lemma clearUserConnections_links:
  "redis_ok (rd E) \<Longrightarrow> linksAre c r K w \<Longrightarrow> linksAre c r K (snd (clearUserConnections E ds w))"
  by (induction ds arbitrary: w) (simp_all add: Let_def split_beta removeUserData_links)

lemma clearNodeUsersSession_links:
  assumes "redis_ok (rd E)" "\<not> cfg_isStandAloneNode E" "linksAre c r K w"
  shows "linksAre c r (insert (nodesSetCacheKey n) K) (snd (clearNodeUsersSession E n w))"
proof -
  define w1 where "w1 = snd (clearUserConnections E (listNodeUserDevices (rd E) n (redis w)) w)"
  then have "linksAre c r K w1" by (simp add: clearUserConnections_links assms)
  moreover have "set (rs_sets (rd_del (rd E) (nodesSetCacheKey n) (redis w1)) k) = (if k = nodesSetCacheKey n then {} else set (rs_sets (redis w1) k))" for k
    using assms(1) by simp
  ultimately have "linksAre c r (insert (nodesSetCacheKey n) K) (w1\<lparr>redis := rd_del (rd E) (nodesSetCacheKey n) (redis w1)\<rparr>)"
    unfolding linksAre_def by simp
  then show ?thesis using assms(2) by (simp add: clearNodeUsersSession_def deleteNodeConnections_def Let_def split_beta w1_def)
qed

section \<open>A synchronization covers the cluster\<close>

lemma cleanDestroyedNodeData_run:
  assumes "redis_ok (rd E)" "\<not> cfg_isStandAloneNode E" "linksAre c r K w"
  shows "\<exists>w'. cleanDestroyedNodeData E n w = (Inr (), w') \<and> linksAre (map_delete n c) (map_delete n r) (insert (nodesSetCacheKey n) K) w'"
proof -
  let ?w1 = "cancelNodeReconnecting n (deleteClusterConnection n w)" and ?f = "\<lambda>(o', u, _ :: string).
    processAPIResponse E None (buildOfflineActivityResponse (Some o') (Some u))"
  obtain ss w2 where clear: "clearNodeUsersSession E n ?w1 = (Some ss, w2)"
    using assms(2) by (simp add: clearNodeUsersSession_def Let_def split_beta)
  have "linksAre (map_delete n c) (map_delete n r) K ?w1"
    using assms(3) by (auto simp: linksAre_def cancelNodeReconnecting_def deleteClusterConnection_def Let_def split: option.split)
  from clearNodeUsersSession_links[OF assms(1,2) this, of n] clear
  have w2: "linksAre (map_delete n c) (map_delete n r) (insert (nodesSetCacheKey n) K) w2" by simp
  obtain ys w' where all: "forEach ss ?f w2 = (Inr ys, w')"
    using forEach_returns[of ss ?f w2] processAPIResponse_returns by (auto simp: split_beta)
  have "keeps (linksAre (map_delete n c) (map_delete n r) (insert (nodesSetCacheKey n) K)) (forEach ss ?f)"
    by (intro keeps_intros keeps_processAPIResponse assms)
  from keepsD[OF this w2 all] all clear show ?thesis
    by (intro exI[of _ w']) (simp add: cleanDestroyedNodeData_def andThen_run(1)[of "forEach ss ?f", OF all])
qed

lemma clean_all_run:
  assumes "redis_ok (rd E)" "\<not> cfg_isStandAloneNode E" "linksAre c r K w"
  shows "\<exists>ys w'. forEach ds (cleanDestroyedNodeData E) w = (Inr ys, w')
    \<and> linksAre (fold map_delete ds c) (fold map_delete ds r) (nodesSetCacheKey ` set ds \<union> K) w'"
  using assms(3)
proof (induction ds arbitrary: c r K w)
  case (Cons d ds)
  obtain w1 where w1: "cleanDestroyedNodeData E d w = (Inr (), w1)" "linksAre (map_delete d c) (map_delete d r) (insert (nodesSetCacheKey d) K) w1"
    using cleanDestroyedNodeData_run[OF assms(1,2) Cons.prems] by blast
  from Cons.IH[OF w1(2)] obtain ys w2 where "forEach ds (cleanDestroyedNodeData E) w1 = (Inr ys, w2)"
    "linksAre (fold map_delete ds (map_delete d c)) (fold map_delete ds (map_delete d r)) (nodesSetCacheKey ` set ds \<union> insert (nodesSetCacheKey d) K) w2"
    by blast
  with w1(1) show ?case by (simp add: andThen_run)
qed simp

lemma map_of_fold_delete: "map_of (fold map_delete ds al) x = (if x \<in> set ds then None else map_of al x)"
  by (induction ds arbitrary: al) (auto simp: map_of_map_delete)

text \<open>A node is covered when there is a link to it or a reconnection that is still running.\<close>

definition covered :: "string \<Rightarrow> world \<Rightarrow> bool" where
  "covered n w \<longleftrightarrow> map_of (clusterNodesConnections w) n \<noteq> None \<or> isReconnecting n w"

definition keepsCover :: "link \<Rightarrow> bool" where
  "keepsCover link \<longleftrightarrow> (\<forall>e w n. covered n w \<longrightarrow> covered n (snd (link e w)))"

lemma startNodeReconnecting_covers: "covered n (startNodeReconnecting e False w) \<longleftrightarrow> n = e \<or> covered n w"
  by (auto simp: startNodeReconnecting_def cancelNodeReconnecting_def covered_def isReconnecting_def map_of_map_set map_of_map_delete Let_def)

lemma createOrRetrieve_covers:
  assumes "keepsCover link" "createOrRetrieveConnectionWithNode link e t w = (r, w')"
  shows "(covered n w \<longrightarrow> covered n w') \<and> (\<forall>ws. r = Inr ws \<longrightarrow> map_of (clusterNodesConnections w') e = Some ws)"
proof (cases "map_of (clusterNodesConnections w) e \<noteq> None \<or> t \<and> map_of (reconnectingNodesConnections w) e \<noteq> None")
  case True
  with assms(2) show ?thesis by (auto simp: createOrRetrieveConnectionWithNode_def split: option.splits if_splits)
next
  case False
  obtain x w1 where x: "link e w = (x, w1)" by fastforce
  with assms(1) have keep: "covered n w \<longrightarrow> covered n w1" unfolding keepsCover_def by (metis snd_conv)
  show ?thesis
  proof (cases x)
    case None
    with False x assms(2) keep show ?thesis by (auto simp: createOrRetrieveConnectionWithNode_def)
  next
    case (Some ws)
    with False x assms(2) keep show ?thesis
      by (auto simp: createOrRetrieveConnectionWithNode_def covered_def isReconnecting_def cancelNodeReconnecting_def map_of_map_delete
          map_of_map_set Let_def split: option.splits if_splits)
  qed
qed

lemma connectNode_covers:
  assumes "keepsCover link"
  shows "(covered n w \<longrightarrow> covered n (connectNode E link e w)) \<and> (e \<noteq> cfg_clusterEndpoint E \<longrightarrow> covered e (connectNode E link e w))"
proof (cases "e = cfg_clusterEndpoint E \<or> isReconnecting e w")
  case True
  then show ?thesis by (auto simp: connectNode_def covered_def)
next
  case False
  obtain r w1 where r: "createOrRetrieveConnectionWithNode link e True w = (r, w1)" by fastforce
  note created = createOrRetrieve_covers[OF assms r, of n]
  show ?thesis
  proof (cases r)
    case (Inr ws)
    with created have "covered e w1" by (simp add: covered_def)
    with Inr created False r show ?thesis by (simp add: connectNode_def)
  qed (use created False r in \<open>simp add: connectNode_def startNodeReconnecting_covers\<close>)
qed

lemma connectAll_covers:
  assumes "keepsCover link"
  shows "(covered n w \<or> n \<in> set ns - {cfg_clusterEndpoint E}) \<longrightarrow> covered n (fold (connectNode E link) ns w)"
  by (induction ns arbitrary: w) (use connectNode_covers[OF assms] in auto)

text \<open>C24: One synchronization brings the node in line with the cluster, whichever connections fail and whatever else runs while they are
  opened (as long as it does not drop links or running reconnections). It succeeds, every other node with an
  entry in Redis is then linked or being reconnected, and of every node known here without such an entry (stored users, a link, a
  reconnection) the link, the reconnection and the stored users are gone.\<close>

theorem sync_covers:
  assumes "redis_ok (rd E)" "\<not> cfg_isStandAloneNode E" "keepsCover link"
  shows "\<exists>w'. connectToExistingClusterNodes E link w = (Inr (), w')
    \<and> (\<forall>n \<in> set (retrieveActive E w). n \<noteq> cfg_clusterEndpoint E \<longrightarrow> covered n w')
    \<and> (\<forall>n. n \<notin> set (retrieveActive E w) \<and> (n \<in> set (retrieveStored E w) \<or> n \<in> fst ` set (clusterNodesConnections w) \<or> n \<in> fst ` set (reconnectingNodesConnections w))
         \<longrightarrow> \<not> covered n w' \<and> map_of (reconnectingNodesConnections w') n = None \<and> listNodeUserDevices (rd E) n (redis w') = [])"
proof -
  let ?active = "retrieveActive E w" and ?w1 = "fold (connectNode E link) (retrieveActive E w) w"
  let ?gone = "destroyedNodes ?active (retrieveStored E w) w"
  have "linksAre (clusterNodesConnections ?w1) (reconnectingNodesConnections ?w1) {} ?w1" by (simp add: linksAre_def)
  from clean_all_run[OF assms(1,2) this, of ?gone] obtain ys w' where run: "forEach ?gone (cleanDestroyedNodeData E) ?w1 = (Inr ys, w')"
    and links: "linksAre (fold map_delete ?gone (clusterNodesConnections ?w1)) (fold map_delete ?gone (reconnectingNodesConnections ?w1))
      (nodesSetCacheKey ` set ?gone) w'" by auto
  have gone: "set ?gone = (set (retrieveStored E w) \<union> fst ` set (reconnectingNodesConnections w) \<union> fst ` set (clusterNodesConnections w)) - set ?active"
    by (auto simp: destroyedNodes_def)
  have maps: "map_of (clusterNodesConnections w') n = (if n \<in> set ?gone then None else map_of (clusterNodesConnections ?w1) n)"
    "map_of (reconnectingNodesConnections w') n = (if n \<in> set ?gone then None else map_of (reconnectingNodesConnections ?w1) n)" for n
    using links by (simp_all add: linksAre_def map_of_fold_delete)
  have sets: "listNodeUserDevices (rd E) n (redis w') = []" if "n \<in> set ?gone" for n
    using links assms(1) that by (simp add: linksAre_def listNodeUserDevices_def)
  show ?thesis
  proof (intro exI[of _ w'] conjI ballI allI impI)
    show "connectToExistingClusterNodes E link w = (Inr (), w')"
      by (simp add: connectToExistingClusterNodes_def andThen_run(1)[of "forEach _ _", OF run])
  next
    fix n assume "n \<in> set ?active" "n \<noteq> cfg_clusterEndpoint E"
    then show "covered n w'" using connectAll_covers[OF assms(3), of n w ?active E] gone by (simp add: covered_def isReconnecting_def maps)
  next
    fix n assume "n \<notin> set ?active \<and> (n \<in> set (retrieveStored E w) \<or> n \<in> fst ` set (clusterNodesConnections w)
      \<or> n \<in> fst ` set (reconnectingNodesConnections w))"
    then have n: "n \<in> set ?gone" using gone by blast
    then show "\<not> covered n w'" "map_of (reconnectingNodesConnections w') n = None" by (simp_all add: covered_def isReconnecting_def maps)
    show "listNodeUserDevices (rd E) n (redis w') = []" by (rule sets[OF n])
  qed
qed

text \<open>The node \<open>n2\<close> is alive but does not answer, \<open>n3\<close> has no entry any more.\<close>

definition cluster_world :: world where
  "cluster_world = empty_world\<lparr>
     redis := rd_hSet mem_redis (nodeInfoKey ''ws://n2/'') [(''ip_address'', ''n2''), (''port'', ''80'')] empty_redis,
     clusterNodesConnections := [(''ws://n3/'', 13)]\<rparr>"

lemma cluster_world_nodes: "retrieveActive mem_env cluster_world = [''ws://n2/'']" "cfg_clusterEndpoint mem_env = ''ws://n1/''"
  "clusterNodesConnections cluster_world = [(''ws://n3/'', 13)]" "\<not> cfg_isStandAloneNode mem_env"
  by (simp_all add: retrieveActive_def cluster_world_def mem_env_def mem_redis_def empty_world_def empty_redis_def nodeInfoKey_def NODE_DATA_def
      buildWsEndpoint_def rendered_def js_set_def)

theorem sync_covers_witness:
  "\<exists>w'. connectToExistingClusterNodes mem_env (\<lambda>_ w. (None, w)) cluster_world = (Inr (), w') \<and> covered ''ws://n2/'' w' \<and> \<not> covered ''ws://n3/'' w'"
proof -
  have "keepsCover (\<lambda>_ w. (None, w))" by (simp add: keepsCover_def)
  from sync_covers[OF mem_env_ok(2) cluster_world_nodes(4) this, of cluster_world]
  obtain w' where w': "connectToExistingClusterNodes mem_env (\<lambda>_ w. (None, w)) cluster_world = (Inr (), w')"
    "\<forall>n \<in> set [''ws://n2/'']. n \<noteq> ''ws://n1/'' \<longrightarrow> covered n w'"
    "\<forall>n. n \<notin> set [''ws://n2/''] \<and> (n \<in> set (retrieveStored mem_env cluster_world) \<or> n \<in> fst ` set [(''ws://n3/'', 13 :: socket)] \<or>
        n \<in> fst ` set (reconnectingNodesConnections cluster_world)) \<longrightarrow> \<not> covered n w' \<and> map_of (reconnectingNodesConnections w') n = None
        \<and> listNodeUserDevices (rd mem_env) n (redis w') = []"
    unfolding cluster_world_nodes(1,2,3) by (elim exE conjE) (rule that)
  from w'(3)[rule_format, of "''ws://n3/''"] w'(1,2) show ?thesis by (intro exI[of _ w']) simp
qed

section \<open>A reconnection ends\<close>

lemma createOrRetrieve_links:
  "createOrRetrieveConnectionWithNode link e t w = (Inr ws, w') \<Longrightarrow> map_of (clusterNodesConnections w') e = Some ws"
  by (auto simp: createOrRetrieveConnectionWithNode_def map_of_map_set Let_def split: option.splits if_splits prod.splits)

text \<open>A reconnection does not stay open. Whatever the other node and the rest of this node do meanwhile, it ends with a link to the node or
  gives up; either way it is no longer running afterwards, so that the next synchronization that finds the node alive
  links it or reconnects again.\<close>

theorem reconnect_resolves:
  assumes "keepsCover link'" "e \<noteq> cfg_clusterEndpoint E"
  shows "\<exists>r w'. runNodeReconnecting pause link e w = (r, w') \<and> \<not> isReconnecting e w'
    \<and> (\<forall>ws. r = Some ws \<longrightarrow> map_of (clusterNodesConnections w') e = Some ws) \<and> covered e (connectNode E link' e w')"
proof -
  obtain q w1 where q: "queueStart pause (\<lambda>w. \<not> isReconnecting e w) (connectFn link e) 3 1000 w = (q, w1)" by fastforce
  obtain r w' where run: "runNodeReconnecting pause link e w = (r, w')" by fastforce
  have "map_of (map (\<lambda>(n, f). (n, f \<or> n = e)) al) e \<noteq> Some False" for al :: "(string \<times> bool) list"
    by (induction al) auto
  with q run have idle: "\<not> isReconnecting e w'"
    by (auto simp: runNodeReconnecting_def isReconnecting_def cancelNodeReconnecting_def map_of_map_delete split: sum.splits)
  have "map_of (clusterNodesConnections w') e = Some ws" if "r = Some ws" for ws
  proof -
    have "q = Inr (Some ws) \<and> w' = cancelNodeReconnecting e w1" using q run that by (auto simp: runNodeReconnecting_def split: sum.splits)
    with q queueStart_result[of pause _ "connectFn link e" 3 1000 w ws w1] obtain t where "connectFn link e t = (Inr ws, w1)" by blast
    then have "createOrRetrieveConnectionWithNode link e False t = (Inr ws, w1)" by (auto simp: connectFn_def split: prod.splits sum.splits)
    from createOrRetrieve_links[OF this] \<open>q = _ \<and> _\<close> show ?thesis by (simp add: cancelNodeReconnecting_def)
  qed
  with idle run connectNode_covers[OF assms(1), of e w' E e] assms(2) show ?thesis by blast
qed

theorem reconnect_resolves_witness:
  "\<exists>r w'. runNodeReconnecting (\<lambda>_ w. w) (\<lambda>_ w. (None, w)) ''ws://n2/'' (startNodeReconnecting ''ws://n2/'' True empty_world) = (r, w')
     \<and> \<not> isReconnecting ''ws://n2/'' w' \<and> covered ''ws://n2/'' (connectNode mem_env (\<lambda>_ w. (Some 13, w)) ''ws://n2/'' w')"
proof -
  have "keepsCover (\<lambda>_ w. (Some 13, w))" "''ws://n2/'' \<noteq> cfg_clusterEndpoint mem_env" by (simp_all add: keepsCover_def mem_env_def)
  from reconnect_resolves[OF this, of "\<lambda>_ w. w" "\<lambda>_ w. (None, w)" "startNodeReconnecting ''ws://n2/'' True empty_world"] show ?thesis by blast
qed

section \<open>A node stays listed\<close>

lemma expireSeconds_bounds: "n + 4500 < 1000 * expireSeconds n" "1000 * expireSeconds n \<le> n + 5500"
proof -
  define q r where "q = (n + 500) div 1000" and "r = (n + 500) mod 1000"
  have qr: "q * 1000 + r = n + 500" "r < 1000" by (simp_all add: q_def r_def)
  have "n + 4500 < 1000 * (q + 5)" using qr by (simp add: algebra_simps)
  moreover have "1000 * (q + 5) \<le> n + 5500" using qr by (simp add: algebra_simps)
  ultimately show "n + 4500 < 1000 * expireSeconds n" "1000 * expireSeconds n \<le> n + 5500" unfolding expireSeconds_def q_def by blast+
qed

text \<open>A node that synchronizes in time is never taken for dead: after each synchronization its own entry is among the active ones, the
  entries of other nodes are as before, and its time to live is four and a half to five and a half seconds longer than the interval until the next synchronization.\<close>

theorem node_stays_listed:
  assumes "redis_ok (rd E)" "cfg_clusterEndpoint E = buildWsEndpoint (cfg_isSecure E) (cfg_ip E) (cfg_clusterPort E)"
  shows "\<exists>ttl. rs_ttl (redis (storeCurrentNode E n w)) (nodeInfoKey (cfg_clusterEndpoint E)) = Some ttl
    \<and> cfg_nodeExpiresIn E + 4500 < 1000 * ttl \<and> 1000 * ttl \<le> cfg_nodeExpiresIn E + 5500
    \<and> cfg_clusterEndpoint E \<in> set (retrieveActive E (storeCurrentNode E n w))
    \<and> (\<forall>k. k \<noteq> nodeInfoKey (cfg_clusterEndpoint E) \<longrightarrow> rs_hashes (redis (storeCurrentNode E n w)) k = rs_hashes (redis w) k)"
proof -
  let ?k = "nodeInfoKey (cfg_clusterEndpoint E)" and ?w = "storeCurrentNode E n w"
  have key: "?k \<in> set (rd_keys (rd E) (nodeInfoKey []) (redis ?w))"
    using assms(1) by (simp add: storeCurrentNode_def upsert_def Let_def nodeInfoKey_def)
  have "rs_hashes (redis ?w) ?k ''ip_address'' = Some (cfg_ip E)" "rs_hashes (redis ?w) ?k ''port'' = Some (cfg_clusterPort E)"
    using assms(1) by (simp_all add: storeCurrentNode_def upsert_def Let_def)
  then have "cfg_clusterEndpoint E = (let node = rd_hGetAll (rd E) ?k (redis ?w)
      in buildWsEndpoint (cfg_isSecure E) (rendered (node ''ip_address'')) (rendered (node ''port'')))"
    using assms by (simp add: rendered_def)
  then have "cfg_clusterEndpoint E \<in> set (retrieveActive E ?w)"
    unfolding retrieveActive_def js_set(1) set_map by (rule image_eqI[OF _ key])
  moreover have "rs_ttl (redis ?w) ?k = Some (expireSeconds (cfg_nodeExpiresIn E))"
    using assms(1) by (simp add: storeCurrentNode_def upsert_def Let_def)
  moreover have "\<forall>k. k \<noteq> ?k \<longrightarrow> rs_hashes (redis ?w) k = rs_hashes (redis w) k"
    using assms(1) by (simp add: storeCurrentNode_def upsert_def Let_def)
  ultimately show ?thesis using expireSeconds_bounds by blast
qed

theorem node_stays_listed_witness:
  "cfg_clusterEndpoint mem_env \<in> set (retrieveActive mem_env (storeCurrentNode mem_env 2 empty_world))"
proof -
  have "cfg_clusterEndpoint mem_env = buildWsEndpoint (cfg_isSecure mem_env) (cfg_ip mem_env) (cfg_clusterPort mem_env)"
    by (simp add: mem_env_def buildWsEndpoint_def)
  from node_stays_listed[OF mem_env_ok(2) this] show ?thesis by blast
qed

end
