(* ===== verification/Spec2Isabelle.thy ===== *)
theory Spec2Isabelle
  imports Api_Props Http_Props Start_Up Account_Props Encryption Online Cluster
begin

text \<open>
  A verification library for the SAMA chat server (\<^verbatim>\<open>src/app\<close> and \<^verbatim>\<open>src/APIs/JSON\<close>), a Node.js program that serves chat clients over WebSockets, TCP
  and HTTP, keeps its data in MongoDB and the presence of users in Redis, and runs as a cluster of nodes.

  \<^bold>\<open>How the program is modelled.\<close> One record, \<open>world\<close> (\<open>Model\<close>), is what an operation can read and change: the documents of each
  MongoDB collection as lists of records (\<^verbatim>\<open>app/models\<close>), the Redis store, the in-memory stores of the node (sessions, device connections,
  activity subscriptions, links to other nodes: \<^verbatim>\<open>app/store\<close>, \<open>ClusterManager\<close>), what it has sent (to sockets, to other nodes, to the push
  queue), the clock and a counter for random values. One record, \<open>env\<close>, holds what is not code of this repository: the configuration,
  the MongoDB driver per collection, the Redis client, hashing, signing of tokens, the object store, the script sandbox, the language model,
  \<open>JSON.parse\<close> and the XMPP translation; the records \<open>api_libs\<close>, \<open>stats_libs\<close>, \<open>http_libs\<close> and \<open>ping_libs\<close> hold Joi, moment, the cookie libraries and
  which sockets fail. What the code relies on of the driver and of Redis is stated as \<open>mongo_ok\<close> (\<open>Mongo\<close>, \<open>Model\<close>) and \<open>redis_ok\<close>
  (\<open>Redis\<close>), which the in-memory instances \<open>mem_env\<close> satisfy (with the parser of \<open>Json_Text\<close>, which reads back what the server
  writes), and of Joi as \<open>joi_ok\<close>; every property that assumes them has a concrete run on those.
  An operation is a state transformer that returns a value or throws (\<open>Prelude.eff\<close>; \<open>handler\<close> throws the errors of
  \<^verbatim>\<open>app/constants/errors.js\<close>, \<open>Errors\<close>), so every raise, early return and failed lookup of the code is a branch. JavaScript values that
  matter for the behaviour (\<open>NaN\<close>, missing properties, falsy strings) are kept.

  \<^bold>\<open>Theories and sources.\<close>
  \<^item> \<open>Prelude\<close>, \<open>Keyed_Rows\<close>: the effect type with its Hoare triples (\<open>keeps\<close>, \<open>triple\<close>), \<open>Set\<close>s, grouping, documents with a key.
  \<^item> \<open>Errors\<close>, \<open>Mongo\<close> (\<^verbatim>\<open>repositories/base.js\<close>), \<open>Redis\<close>, \<open>Model\<close>.
  \<^item> \<open>Sessions\<close>, \<open>Session_Props\<close>, \<open>Online\<close>: \<^verbatim>\<open>services/session\<close>, the scans of \<^verbatim>\<open>lib/redis.js\<close>, the online lists.
  \<^item> \<open>Storage\<close>, \<open>Files\<close>: \<^verbatim>\<open>services/storage\<close>, \<^verbatim>\<open>operations/file\<close>.
  \<^item> \<open>Users\<close>, \<open>User_Props\<close>: users, organizations, tokens, login, connect, logout and password reset; \<open>User_Admin\<close>, \<open>Contacts\<close>,
    \<open>Account_Props\<close>: accounts and contact books.
  \<^item> \<open>Conversations\<close>, \<open>Conversation_Props\<close>, \<open>Conversation_Ops\<close>, \<open>Conversation_Op_Props\<close>: conversations, participants and the
    operations on them, with the event messages of \<^verbatim>\<open>services/conversation_notification\<close>.
  \<^item> \<open>BlockList\<close>, \<open>Messages\<close>, \<open>Message_Ops\<close>, \<open>Message_Access\<close>, \<open>Message_Props\<close>, \<open>Reaction_Props\<close>: block list, messages, read
    statuses, reactions and conversation scripts.
  \<^item> \<open>Activity\<close>, \<open>Activity_Props\<close>: \<^verbatim>\<open>services/activity_manager\<close> and \<^verbatim>\<open>networking/activity_sender.js\<close>.
  \<^item> \<open>Push\<close>, \<open>Networking\<close>, \<open>Delivery\<close>, \<open>Delivery_Props\<close>: operation logs, push notifications, responses, the packet mapper, the packet
    manager and \<^verbatim>\<open>protocol_processors/base.js\<close>.
  \<^item> \<open>Encryption\<close>: \<^verbatim>\<open>operations/encryption\<close>. \<open>Retry\<close>: \<^verbatim>\<open>utils/promise-queue-with-jittering.js\<close>. \<open>Cluster\<close>:
    \<^verbatim>\<open>cluster/cluster_manager.js\<close> and \<^verbatim>\<open>services/cluster_node\<close>.
  \<^item> \<open>Assistant\<close>: summary and tone of messages (\<^verbatim>\<open>operations/message/summary\<close>, \<^verbatim>\<open>operations/message/tone\<close>).
  \<^item> \<open>Json_Text\<close>, \<open>Json\<close>: JSON values, their text, reading of the properties of a request. \<open>Views\<close>: the JSON of the documents and packets
    (\<^verbatim>\<open>app/DTO\<close>, \<open>visibleParams\<close> of the models).
  \<^item> \<open>Schemas\<close>, \<open>Validations\<close>: Joi schemas as data and \<^verbatim>\<open>APIs/JSON/validations\<close>. \<open>Controllers\<close>: \<^verbatim>\<open>APIs/JSON/controllers\<close>.
    \<open>Api\<close>: the table of routes, the guard, \<^verbatim>\<open>routes/packet_processor.js\<close> and the handling of a package in
    \<^verbatim>\<open>protocol_processors/base.js\<close>. \<open>Api_Props\<close>: from the bytes of a package to the sockets.
  \<^item> \<open>Counters\<close>, \<open>Stats\<close>: \<^verbatim>\<open>services/stats\<close>, with the pings of the database and of Redis.
  \<^item> \<open>Http\<close>, \<open>Http_Props\<close>: \<^verbatim>\<open>protocol_processors/http.js\<close>, \<^verbatim>\<open>controllers/http\<close>, \<^verbatim>\<open>operations/http\<close>, cookies. \<open>Transports\<close>:
    \<^verbatim>\<open>protocol_processors/tcp.js\<close> and \<^verbatim>\<open>utils/watchdog-ping-socket.js\<close>.
  \<^item> \<open>Service_Locator\<close>, \<open>Providers\<close>, \<open>Start_Up\<close>: \<^verbatim>\<open>app/common/ServiceLocatorContainer.js\<close>, every \<^verbatim>\<open>Provider.js\<close> and the start-up in \<^verbatim>\<open>index.js\<close>.
  \<^item> \<open>Delivery_Frame\<close>, \<open>Chat_Frame\<close>, \<open>Http_Frame\<close>: what deliveries, the requests outside the chat and HTTP requests leave as it was, as locales.
  \<^item> \<open>Invariants\<close>, \<open>Server\<close>: packages of arbitrary bytes, HTTP requests, closing sockets, the watchdog and the clock, as a transition system.

  \<^bold>\<open>What is shown.\<close> \<open>Server\<close> composes decoding, routing, guard, validation, operation and delivery into a step relation and proves by rule induction that every
  state reached by packages of arbitrary bytes on WebSockets and TCP sockets, HTTP requests, closing sockets and rounds of the watchdog has the invariant of the stored chat data: participants once per conversation, owners among the members, exact counters
  of channels, unique identifiers and reactions. \<open>Api_Props\<close> follows single packages: without a session nothing can be done, a failure is answered with exactly one error,
  a validated message request has the types its operation needs, and a message is stored once and reaches every member of its conversation.
  \<open>Http_Props\<close> shows that the administration needs its key, that every HTTP request is answered exactly once and that its session ends with it; \<open>Transports\<close> that
  TCP serves like a WebSocket and that the watchdog leaves only connections that can be written to; \<open>Counters\<close> that the statistics answer with the count of the previous period; \<open>Start_Up\<close>
  that the providers have no cycle and no missing dependency, so that the start-up builds every service. \<open>Message_Access\<close> states the access rules of the message operations once, as the
  locale \<open>access_policy\<close> interpreted on each guard; from it follow that strangers are refused without effect and that a block silences both
  sides. \<open>Activity_Props\<close> refines both activity managers to one abstract list of subscriptions and proves them equivalent.
  \<open>Delivery_Props\<close> shows where each packet goes; \<open>Session_Props\<close> the registry of devices and that a crashed node is cleaned up;
  \<open>Cluster\<close> that a synchronization covers every live node, whatever runs during the connection attempts; \<open>Online\<close> and \<open>Retry\<close>
  that the loops end. Round trips (subscribe and unsubscribe, one-time passwords, contact marks), error
  behaviour (refused logins leave no trace, groups beyond the limit) and the functional behaviour of each operation
  are stated per component. Where the code does not do what it means to, the theorem says what it does.

  \<^bold>\<open>Loops and bounds.\<close> Loops over lists are structural recursion. The scans of Redis are partial functions whose termination is a theorem from the
  documented behaviour of \<open>SCAN\<close>; the batched iteration over participants takes the number of batches the code computes, which is
  proved to be enough; the retry queue recurses over its delays; the container of the services recurses over the depth of the stack, for which the number of providers is proved to be enough. Numbers of the program are doubles far below their precision and are
  natural numbers or integers here; times are milliseconds.

  \<^bold>\<open>Concurrency.\<close> Each handler runs to its end before the next one starts: the interleavings at \<open>await\<close> inside the handlers are not
  modelled, except for the links of the cluster and the retry queue, whose definitions take what happens meanwhile as a parameter. Deliveries
  that the code starts side by side follow one another; of an HTTP request, any number of them comes before the end of its session.

  \<^bold>\<open>Not modelled.\<close> Listening on ports and the bytes below a package (the uWebSockets and net libraries, TLS, aborted HTTP requests), connecting to the databases,
  configuration, logging, the console of \<^verbatim>\<open>lib/repl-tools.js\<close>, and migrations (the unique indexes they create are part of \<open>mongo_ok\<close>). Of requests: values that Joi accepts only after converting them,
  identifiers given as numbers or objects, and numbers that are not integers are refused by the readers of \<open>Json\<close> where the code passes them to
  the driver.
\<close>

end
